(* ===== verification/Prelude.thy ===== *)
theory Prelude
  imports Main "HOL-Library.Char_ord" "HOL-Library.List_Lexorder" "HOL-Library.Product_Lexorder"
begin

text \<open>
  The shared vocabulary of the development: exceptions as values, fallible results, the
  state-passing actions in which the handlers of \<^verbatim>\<open>src/python/agent_comm_runtime\<close> are written,
  the key-ordered tables that stand for the SQLite rows of one record kind, and the locale of
  preorders on states by which frame and invariant facts are proved once and composed.
\<close>

section \<open>Automation collections\<close>

named_theorems act_defs \<open>the combinators of actions, unfolded to state passing\<close>
named_theorems preserved \<open>facts \<open>steps R m\<close> that the invariant proofs compose\<close>

section \<open>Exceptions and fallible values\<close>

text \<open>
  The exceptions the code raises and handles. \<open>ValidationError\<close> is \<^verbatim>\<open>policy._ValidationError\<close>
  (a subclass of \<^verbatim>\<open>ValueError\<close>) with its flag \<^verbatim>\<open>missing\<close>; \<open>Buffered\<close> is
  \<^verbatim>\<open>collaboration_v2._Buffered\<close>; \<open>OSError\<close> stands for a failed helper request.
\<close>

datatype exn =
    ValueError string
  | ValidationError string bool
  | RemoteMutationConflict string
  | RemoteError string string
  | Unsupported string
  | KeyError string
  | TypeError string
  | AttributeError string
  | StopIteration
  | Buffered string
  | OSError string

fun is_value_error :: "exn \<Rightarrow> bool" where
  "is_value_error (ValueError _) = True"
| "is_value_error (ValidationError _ _) = True"
| "is_value_error (RemoteMutationConflict _) = True"
| "is_value_error (RemoteError _ _) = True"
| "is_value_error (Unsupported _) = True"
| "is_value_error _ = False"

text \<open>\<^verbatim>\<open>except (ValueError, KeyError, TypeError)\<close>, the clause of the event reducer.\<close>

fun is_data_error :: "exn \<Rightarrow> bool" where
  "is_data_error (KeyError _) = True"
| "is_data_error (TypeError _) = True"
| "is_data_error e = is_value_error e"

definition bindE :: "'e + 'a \<Rightarrow> ('a \<Rightarrow> 'e + 'b) \<Rightarrow> 'e + 'b" where
  "bindE r f = (case r of Inl e \<Rightarrow> Inl e | Inr x \<Rightarrow> f x)"

lemma bindE_simps [simp]: "bindE (Inl e) f = Inl e" "bindE (Inr x) f = f x"
  by (simp_all add: bindE_def)

lemma bindE_eq_Inr [simp]: "bindE r f = Inr y \<longleftrightarrow> (\<exists>x. r = Inr x \<and> f x = Inr y)"
  by (cases r) simp_all

lemma bindE_eq_Inl: "bindE r f = Inl e \<longleftrightarrow> r = Inl e \<or> (\<exists>x. r = Inr x \<and> f x = Inl e)"
  by (cases r) auto

lemma bindE_cong [fundef_cong]:
  "r = r' \<Longrightarrow> (\<And>x. r' = Inr x \<Longrightarrow> f x = g x) \<Longrightarrow> bindE r f = bindE r' g"
  by (cases r') simp_all

text \<open>Validating every element of a list, first error first.\<close>

fun mapE :: "('a \<Rightarrow> 'e + 'b) \<Rightarrow> 'a list \<Rightarrow> 'e + 'b list" where
  "mapE f [] = Inr []"
| "mapE f (x # xs) = bindE (f x) (\<lambda>y. bindE (mapE f xs) (\<lambda>ys. Inr (y # ys)))"

lemma mapE_length: "mapE f xs = Inr ys \<Longrightarrow> length ys = length xs"
  by (induction xs arbitrary: ys) auto

lemma mapE_all: "mapE f xs = Inr ys \<Longrightarrow> y \<in> set ys \<Longrightarrow> \<exists>x \<in> set xs. f x = Inr y"
  by (induction xs arbitrary: ys) auto

lemma mapE_Inr_iff: "mapE f xs = Inr ys \<longleftrightarrow> list_all2 (\<lambda>x y. f x = Inr y) xs ys"
proof (induction xs arbitrary: ys)
  case (Cons x xs)
  then show ?case by (cases ys) auto
qed auto

lemma mapE_map: "(\<And>y. y \<in> set ys \<Longrightarrow> f (g y) = Inr y) \<Longrightarrow> mapE f (map g ys) = Inr ys"
  by (induction ys) auto

lemma mapE_cong [fundef_cong]:
  "xs = ys \<Longrightarrow> (\<And>x. x \<in> set ys \<Longrightarrow> f x = g x) \<Longrightarrow> mapE f xs = mapE g ys"
proof -
  assume "xs = ys" and eq: "\<And>x. x \<in> set ys \<Longrightarrow> f x = g x"
  have "mapE f ys = mapE g ys" using eq by (induction ys) auto
  with \<open>xs = ys\<close> show ?thesis by simp
qed

section \<open>Actions: state passing with exceptions\<close>

text \<open>
  A handler that runs inside one \<^verbatim>\<open>BEGIN IMMEDIATE\<close> transaction is a function from the state to
  an exception, in which case the transaction rolls back and no state is returned, or to a result
  and the committed state.
\<close>

type_synonym ('s, 'a) act = "'s \<Rightarrow> exn + 'a \<times> 's"

definition ret :: "'a \<Rightarrow> ('s, 'a) act" where
  "ret x = (\<lambda>s. Inr (x, s))"

definition raise :: "exn \<Rightarrow> ('s, 'a) act" where
  "raise e = (\<lambda>s. Inl e)"

definition andThen :: "('s, 'a) act \<Rightarrow> ('a \<Rightarrow> ('s, 'b) act) \<Rightarrow> ('s, 'b) act" where
  "andThen m f = (\<lambda>s. case m s of Inl e \<Rightarrow> Inl e | Inr (x, t) \<Rightarrow> f x t)"

definition gets :: "('s \<Rightarrow> 'a) \<Rightarrow> ('s, 'a) act" where
  "gets g = (\<lambda>s. Inr (g s, s))"

definition modify :: "('s \<Rightarrow> 's) \<Rightarrow> ('s, unit) act" where
  "modify g = (\<lambda>s. Inr ((), g s))"

definition lift :: "exn + 'a \<Rightarrow> ('s, 'a) act" where
  "lift r = (\<lambda>s. case r of Inl e \<Rightarrow> Inl e | Inr x \<Rightarrow> Inr (x, s))"

definition refuse_if :: "bool \<Rightarrow> string \<Rightarrow> ('s, unit) act" where
  "refuse_if b msg = (if b then raise (ValueError msg) else ret ())"

definition act_when :: "bool \<Rightarrow> ('s, unit) act \<Rightarrow> ('s, unit) act" where
  "act_when b m = (if b then m else ret ())"

text \<open>
  \<open>savepoint p m h\<close>: run \<open>m\<close> under a SAVEPOINT; an exception that satisfies \<open>p\<close> rolls the
  state back to the savepoint and runs the handler, any other exception propagates.
\<close>

definition savepoint :: "(exn \<Rightarrow> bool) \<Rightarrow> ('s, 'a) act \<Rightarrow> (exn \<Rightarrow> ('s, 'a) act) \<Rightarrow> ('s, 'a) act" where
  "savepoint p m h = (\<lambda>s. case m s of
     Inl e \<Rightarrow> if p e then h e s else Inl e
   | Inr r \<Rightarrow> Inr r)"

fun for_each :: "'a list \<Rightarrow> ('a \<Rightarrow> ('s, unit) act) \<Rightarrow> ('s, unit) act" where
  "for_each [] f = ret ()"
| "for_each (x # xs) f = andThen (f x) (\<lambda>_. for_each xs f)"

fun any_act :: "'a list \<Rightarrow> ('a \<Rightarrow> ('s, bool) act) \<Rightarrow> ('s, bool) act" where
  "any_act [] f = ret False"
| "any_act (x # xs) f = andThen (f x) (\<lambda>b. if b then ret True else any_act xs f)"

fun filter_act :: "('a \<Rightarrow> ('s, bool) act) \<Rightarrow> 'a list \<Rightarrow> ('s, 'a list) act" where
  "filter_act f [] = ret []"
| "filter_act f (x # xs) =
     andThen (f x) (\<lambda>b. andThen (filter_act f xs) (\<lambda>ys. ret (if b then x # ys else ys)))"

declare ret_def [act_defs] raise_def [act_defs] andThen_def [act_defs] gets_def [act_defs]
  modify_def [act_defs] lift_def [act_defs] refuse_if_def [act_defs] act_when_def [act_defs]

text \<open>A handler that reads the current state.\<close>

definition reads :: "('s \<Rightarrow> ('s, 'a) act) \<Rightarrow> ('s, 'a) act" where
  "reads f = (\<lambda>s. f s s)"

declare reads_def [act_defs]

lemma run_reads [simp]: "reads f s = f s s"
  by (simp add: reads_def)

lemma run_ret [simp]: "ret x s = Inr r \<longleftrightarrow> r = (x, s)"
  by (auto simp: ret_def)

lemma run_raise [simp]: "raise e s = Inl e"
  by (simp add: raise_def)

lemma run_gets [simp]: "gets g s = Inr r \<longleftrightarrow> r = (g s, s)"
  by (auto simp: gets_def)

lemma run_modify [simp]: "modify g s = Inr r \<longleftrightarrow> r = ((), g s)"
  by (auto simp: modify_def)

lemma run_lift [simp]: "lift v s = Inr r \<longleftrightarrow> (\<exists>x. v = Inr x \<and> r = (x, s))"
  by (cases v) (auto simp: lift_def)

lemma run_andThen [simp]:
  "andThen m f s = Inr r \<longleftrightarrow> (\<exists>x t. m s = Inr (x, t) \<and> f x t = Inr r)"
  by (auto simp: andThen_def split: sum.splits)

lemma run_refuse_if [simp]: "refuse_if b msg s = Inr r \<longleftrightarrow> \<not> b \<and> r = ((), s)"
  by (auto simp: refuse_if_def)

lemma run_act_when [simp]:
  "act_when b m s = Inr r \<longleftrightarrow> (if b then m s = Inr r else r = ((), s))"
  by (auto simp: act_when_def)

lemma andThen_ret [simp]: "andThen (ret x) f = f x"
  by (simp add: andThen_def ret_def)

lemma andThen_raise [simp]: "andThen (raise e) f = raise e"
  by (simp add: andThen_def raise_def)

section \<open>Preorders on states\<close>

text \<open>
  \<open>steps R m\<close>: every successful run of \<open>m\<close> relates the state before to the state after.
  With \<open>R\<close> an implication of an invariant it is preservation, with \<open>R\<close> equality of a field it
  is a frame fact, with \<open>R\<close> an order it is monotonicity.
\<close>

definition steps :: "('s \<Rightarrow> 's \<Rightarrow> bool) \<Rightarrow> ('s, 'a) act \<Rightarrow> bool" where
  "steps R m \<longleftrightarrow> (\<forall>s x t. m s = Inr (x, t) \<longrightarrow> R s t)"

lemma stepsI: "(\<And>s x t. m s = Inr (x, t) \<Longrightarrow> R s t) \<Longrightarrow> steps R m"
  by (simp add: steps_def)

lemma stepsD: "steps R m \<Longrightarrow> m s = Inr (x, t) \<Longrightarrow> R s t"
  by (auto simp: steps_def)

locale state_preorder =
  fixes R :: "'s \<Rightarrow> 's \<Rightarrow> bool"
  assumes step_refl: "R s s"
    and step_trans: "R s t \<Longrightarrow> R t u \<Longrightarrow> R s u"
begin

lemma steps_ret: "steps R (ret x)"
  by (auto simp: steps_def step_refl)

lemma steps_raise: "steps R (raise e)"
  by (auto simp: steps_def raise_def)

lemma steps_gets: "steps R (gets g)"
  by (auto simp: steps_def step_refl)

lemma steps_lift: "steps R (lift v)"
  by (auto simp: steps_def step_refl)

lemma steps_refuse_if: "steps R (refuse_if b msg)"
  by (auto simp: steps_def step_refl)

lemma steps_andThen: "steps R m \<Longrightarrow> (\<And>x. steps R (f x)) \<Longrightarrow> steps R (andThen m f)"
  unfolding steps_def by (simp, blast intro: step_trans)

lemma steps_gets_then: "(\<And>s. steps R (f (g s))) \<Longrightarrow> steps R (andThen (gets g) f)"
  unfolding steps_def by auto

lemma steps_reads: "(\<And>s. steps R (f s)) \<Longrightarrow> steps R (reads f)"
  unfolding steps_def by auto

lemma steps_modify: "(\<And>s. R s (g s)) \<Longrightarrow> steps R (modify g)"
  by (auto simp: steps_def)

lemma steps_when: "steps R m \<Longrightarrow> steps R (act_when b m)"
  by (auto simp: steps_def step_refl split: if_splits)

lemma steps_if: "(b \<Longrightarrow> steps R m) \<Longrightarrow> (\<not> b \<Longrightarrow> steps R n) \<Longrightarrow> steps R (if b then m else n)"
  by simp

lemma steps_option:
  "(x = None \<Longrightarrow> steps R m) \<Longrightarrow> (\<And>y. x = Some y \<Longrightarrow> steps R (f y)) \<Longrightarrow>
   steps R (case x of None \<Rightarrow> m | Some y \<Rightarrow> f y)"
  by (cases x) auto

lemma steps_sum:
  "(\<And>y. x = Inl y \<Longrightarrow> steps R (f y)) \<Longrightarrow> (\<And>y. x = Inr y \<Longrightarrow> steps R (g y)) \<Longrightarrow>
   steps R (case x of Inl y \<Rightarrow> f y | Inr y \<Rightarrow> g y)"
  by (cases x) auto

lemma steps_prod: "(\<And>a b. x = (a, b) \<Longrightarrow> steps R (f a b)) \<Longrightarrow> steps R (case x of (a, b) \<Rightarrow> f a b)"
  by (cases x) auto

lemma steps_list:
  "(xs = [] \<Longrightarrow> steps R m) \<Longrightarrow> (\<And>y ys. xs = y # ys \<Longrightarrow> steps R (f y ys)) \<Longrightarrow>
   steps R (case xs of [] \<Rightarrow> m | y # ys \<Rightarrow> f y ys)"
  by (cases xs) auto

lemma steps_let: "(\<And>y. y = v \<Longrightarrow> steps R (f y)) \<Longrightarrow> steps R (let y = v in f y)"
  by (simp add: Let_def)

lemma steps_savepoint:
  assumes m: "steps R m" and h: "\<And>e. steps R (h e)"
  shows "steps R (savepoint p m h)"
proof (rule stepsI)
  fix s x t
  assume run: "savepoint p m h s = Inr (x, t)"
  then show "R s t"
    using stepsD [OF m] stepsD [OF h]
    by (cases "m s") (auto simp: savepoint_def split: if_splits)
qed

lemma steps_for_each: "(\<And>x. x \<in> set xs \<Longrightarrow> steps R (f x)) \<Longrightarrow> steps R (for_each xs f)"
  by (induction xs) (auto intro!: steps_andThen steps_ret)

lemma steps_any_act: "(\<And>x. x \<in> set xs \<Longrightarrow> steps R (f x)) \<Longrightarrow> steps R (any_act xs f)"
  by (induction xs) (auto intro!: steps_andThen steps_ret)

lemma steps_filter_act: "(\<And>x. x \<in> set xs \<Longrightarrow> steps R (f x)) \<Longrightarrow> steps R (filter_act f xs)"
  by (induction xs) (auto intro!: steps_andThen steps_ret)

lemmas steps_rules = steps_ret steps_raise steps_lift steps_refuse_if steps_when steps_if
  steps_option steps_sum steps_prod steps_list steps_let steps_gets steps_reads steps_andThen
  steps_savepoint steps_for_each steps_any_act steps_filter_act

end

section \<open>Key-ordered tables\<close>

text \<open>
  The rows \<^verbatim>\<open>(kind, id, body)\<close> of one kind: \<^verbatim>\<open>_get\<close> is \<open>tget\<close>, \<^verbatim>\<open>_put\<close> (insert or replace) is
  \<open>tput\<close>, \<^verbatim>\<open>_all\<close> (\<^verbatim>\<open>ORDER BY id\<close>) is \<open>tall\<close>. The identifiers are kept in ascending order.
\<close>

type_synonym 'v table = "(string \<times> 'v) list"

definition tget :: "string \<Rightarrow> 'v table \<Rightarrow> 'v option" where
  "tget k t = map_of t k"

fun tput :: "string \<Rightarrow> 'v \<Rightarrow> 'v table \<Rightarrow> 'v table" where
  "tput k v [] = [(k, v)]"
| "tput k v ((k', v') # t) =
     (if k = k' then (k, v) # t
      else if k < k' then (k, v) # (k', v') # t
      else (k', v') # tput k v t)"

definition tall :: "'v table \<Rightarrow> 'v list" where
  "tall t = map snd t"

definition twf :: "'v table \<Rightarrow> bool" where
  "twf t \<longleftrightarrow> sorted_wrt (<) (map fst t)"

lemma tget_empty [simp]: "tget k [] = None"
  by (simp add: tget_def)

lemma tget_tput [simp]: "tget j (tput k v t) = (if j = k then Some v else tget j t)"
  by (induction k v t rule: tput.induct)
    (auto simp: tget_def)

lemma tput_keys: "set (map fst (tput k v t)) = insert k (set (map fst t))"
  by (induction k v t rule: tput.induct) auto

lemma twf_empty [simp]: "twf []"
  by (simp add: twf_def)

lemma twf_tput [simp]: "twf t \<Longrightarrow> twf (tput k v t)"
proof (induction k v t rule: tput.induct)
  case (2 k v k' v' t)
  then show ?case using tput_keys [of k v t] by (auto simp: twf_def)
qed (simp add: twf_def)

lemma twf_distinct: "twf t \<Longrightarrow> distinct (map fst t)"
  unfolding twf_def by (metis strict_sorted_iff)

lemma tall_iff: "twf t \<Longrightarrow> v \<in> set (tall t) \<longleftrightarrow> (\<exists>k. tget k t = Some v)"
  by (force simp: tall_def tget_def dest: twf_distinct map_of_SomeD)

lemma tget_tall: "tget k t = Some v \<Longrightarrow> v \<in> set (tall t)"
  by (force simp: tall_def tget_def dest: map_of_SomeD)

lemma tall_tput_subset: "set (tall (tput k v t)) \<subseteq> insert v (set (tall t))"
  by (induction k v t rule: tput.induct) (auto simp: tall_def)

text \<open>The contract the record store gives its clients, for any table representation.\<close>

locale keyed_store =
  fixes get :: "string \<Rightarrow> 't \<Rightarrow> 'v option"
    and put :: "string \<Rightarrow> 'v \<Rightarrow> 't \<Rightarrow> 't"
    and rows :: "'t \<Rightarrow> 'v list"
    and ok :: "'t \<Rightarrow> bool"
  assumes get_put: "get j (put k v t) = (if j = k then Some v else get j t)"
    and rows_get: "ok t \<Longrightarrow> v \<in> set (rows t) \<longleftrightarrow> (\<exists>k. get k t = Some v)"
    and ok_put: "ok t \<Longrightarrow> ok (put k v t)"
begin

lemma get_put_same: "get k (put k v t) = Some v"
  by (simp add: get_put)

lemma get_put_other: "j \<noteq> k \<Longrightarrow> get j (put k v t) = get j t"
  by (simp add: get_put)

lemma rows_put: "ok t \<Longrightarrow> v' \<in> set (rows (put k v t)) \<longleftrightarrow>
    v' = v \<or> (\<exists>j. j \<noteq> k \<and> get j t = Some v')"
  by (auto simp: rows_get ok_put get_put)

text \<open>An update that keeps a predicate on the written row keeps it on all rows.\<close>

lemma all_rows_put:
  "ok t \<Longrightarrow> (\<And>w. w \<in> set (rows t) \<Longrightarrow> P w) \<Longrightarrow> P v \<Longrightarrow> w \<in> set (rows (put k v t)) \<Longrightarrow> P w"
  by (auto simp: rows_put rows_get)

end

interpretation tab: keyed_store tget tput tall twf
  by unfold_locales (auto simp: tall_iff)

end
