(* ===== verification/Py_Strings.thy ===== *)
theory Py_Strings
  imports Prelude
begin

text \<open>
  Python strings. A \<^verbatim>\<open>str\<close> is a sequence of Unicode code points; here it is the list of the bytes of
  its UTF-8 form, with a lone surrogate (which UTF-8 does not encode, and for which
  \<^verbatim>\<open>str.encode("utf-8")\<close> raises) kept as its three-byte generalised form. Byte order of this form
  is code point order, so the order of \<open>string\<close> is that of Python's \<^verbatim>\<open>sorted\<close> and of SQLite's
  \<^verbatim>\<open>ORDER BY\<close> on \<^verbatim>\<open>TEXT\<close>. \<open>pylen\<close> is \<^verbatim>\<open>len(s)\<close>, the length of the list is \<^verbatim>\<open>len(s.encode())\<close>.
\<close>

section \<open>Bytes and code points\<close>

definition byte :: "char \<Rightarrow> nat" where
  "byte c = of_char c"

text \<open>\<open>chr n\<close> is the character with code \<open>n\<close>; \<open>eat c s\<close> reads one expected character.\<close>

definition chr :: "nat \<Rightarrow> char" where
  "chr n = char_of n"

definition eat :: "char \<Rightarrow> string \<Rightarrow> string option" where
  "eat c s = (case s of [] \<Rightarrow> None | d # r \<Rightarrow> if d = c then Some r else None)"

lemma eat_simps [simp]: "eat c [] = None" "eat c (d # r) = (if d = c then Some r else None)"
  by (simp_all add: eat_def)

definition cont_byte :: "char \<Rightarrow> bool" where
  "cont_byte c \<longleftrightarrow> 128 \<le> byte c \<and> byte c < 192"

definition pylen :: "string \<Rightarrow> nat" where
  "pylen s = length (filter (\<lambda>c. \<not> cont_byte c) s)"

fun utf8_cp :: "nat \<Rightarrow> string" where
  "utf8_cp n = (
     if n < 128 then [char_of n]
     else if n < 2048 then [char_of (192 + n div 64), char_of (128 + n mod 64)]
     else if n < 65536 then
       [char_of (224 + n div 4096), char_of (128 + n div 64 mod 64), char_of (128 + n mod 64)]
     else [char_of (240 + n div 262144), char_of (128 + n div 4096 mod 64),
           char_of (128 + n div 64 mod 64), char_of (128 + n mod 64)])"

definition utf8 :: "nat list \<Rightarrow> string" where
  "utf8 ns = concat (map utf8_cp ns)"

text \<open>The code points of a string; a byte that does not start a well-formed sequence is its own.\<close>

fun codepoints :: "string \<Rightarrow> nat list" where
  "codepoints [] = []"
| "codepoints (a # r) =
     (let b = (\<lambda>i. if i < length r then byte (r ! i) mod 64 else 0); n = byte a in
      if n < 192 then n # codepoints r
      else if n < 224 then (n mod 32 * 64 + b 0) # codepoints (drop 1 r)
      else if n < 240 then (n mod 16 * 4096 + b 0 * 64 + b 1) # codepoints (drop 2 r)
      else (n mod 8 * 262144 + b 0 * 4096 + b 1 * 64 + b 2) # codepoints (drop 3 r))"

definition surrogate :: "nat \<Rightarrow> bool" where
  "surrogate n \<longleftrightarrow> 55296 \<le> n \<and> n < 57344"

text \<open>\<^verbatim>\<open>value.encode("utf-8")\<close> succeeds.\<close>

definition encodable :: "string \<Rightarrow> bool" where
  "encodable s \<longleftrightarrow> list_all (\<lambda>n. \<not> surrogate n) (codepoints s)"

section \<open>Character classes\<close>

definition ascii_digit :: "char \<Rightarrow> bool" where
  "ascii_digit c \<longleftrightarrow> 48 \<le> byte c \<and> byte c \<le> 57"

definition ascii_alnum :: "char \<Rightarrow> bool" where
  "ascii_alnum c \<longleftrightarrow> ascii_digit c \<or> 65 \<le> byte c \<and> byte c \<le> 90 \<or> 97 \<le> byte c \<and> byte c \<le> 122"

text \<open>\<^verbatim>\<open>str.isspace\<close> on one code point.\<close>

definition cp_space :: "nat \<Rightarrow> bool" where
  "cp_space n \<longleftrightarrow> 9 \<le> n \<and> n \<le> 13 \<or> 28 \<le> n \<and> n \<le> 32 \<or> n \<in> {133, 160, 5760, 8232, 8233, 8239, 8287, 12288}
     \<or> 8192 \<le> n \<and> n \<le> 8202"

definition cp_strip :: "nat list \<Rightarrow> nat list" where
  "cp_strip ns = rev (dropWhile cp_space (rev (dropWhile cp_space ns)))"

definition py_strip :: "string \<Rightarrow> string" where
  "py_strip s = utf8 (cp_strip (codepoints s))"

text \<open>\<^verbatim>\<open>not value.strip()\<close>.\<close>

definition py_blank :: "string \<Rightarrow> bool" where
  "py_blank s \<longleftrightarrow> list_all cp_space (codepoints s)"

text \<open>
  \<^verbatim>\<open>str.casefold\<close> on the code points whose folding contains an ASCII letter (so that equality with
  an ASCII word is exact); other code points stay as they are.
\<close>

definition cp_casefold :: "nat \<Rightarrow> nat list" where
  "cp_casefold n =
     (if 65 \<le> n \<and> n \<le> 90 then [n + 32]
      else if n = 383 then [115] else if n = 8490 then [107]
      else if n = 223 \<or> n = 7838 then [115, 115]
      else if n = 304 then [105, 775] else if n = 329 then [700, 110]
      else if n = 496 then [106, 780] else if n = 7830 then [104, 817]
      else if n = 7831 then [116, 776] else if n = 7832 then [119, 778]
      else if n = 7833 then [121, 778] else if n = 7834 then [97, 702]
      else if n = 64256 then [102, 102] else if n = 64257 then [102, 105]
      else if n = 64258 then [102, 108] else if n = 64259 then [102, 102, 105]
      else if n = 64260 then [102, 102, 108]
      else if n = 64261 \<or> n = 64262 then [115, 116] else [n])"

definition py_casefold :: "string \<Rightarrow> string" where
  "py_casefold s = utf8 (concat (map cp_casefold (codepoints s)))"

section \<open>Identifiers\<close>

text \<open>\<^verbatim>\<open>[A-Za-z0-9_.:-]{1,128}\<close>: \<^verbatim>\<open>store.identifier\<close>, \<^verbatim>\<open>collaboration_v2.identifier\<close>,
  \<^verbatim>\<open>remote.identifier\<close>.\<close>

definition id_char :: "char \<Rightarrow> bool" where
  "id_char c \<longleftrightarrow> ascii_alnum c \<or> c \<in> set ''_.:-''"

definition is_identifier :: "string \<Rightarrow> bool" where
  "is_identifier s \<longleftrightarrow> s \<noteq> [] \<and> length s \<le> 128 \<and> list_all id_char s"

section \<open>Printing\<close>

definition digit_char :: "nat \<Rightarrow> char" where
  "digit_char d = char_of (48 + d)"

fun nat_dec :: "nat \<Rightarrow> string" where
  "nat_dec n = (if n < 10 then [digit_char n] else nat_dec (n div 10) @ [digit_char (n mod 10)])"

declare nat_dec.simps [simp del]

definition int_dec :: "int \<Rightarrow> string" where
  "int_dec i = (if i < 0 then CHR ''-'' # nat_dec (nat (- i)) else nat_dec (nat i))"

definition join :: "string \<Rightarrow> string list \<Rightarrow> string" where
  "join sep xs = (case xs of [] \<Rightarrow> [] | x # r \<Rightarrow> x @ concat (map (\<lambda>y. sep @ y) r))"

text \<open>The value of a string of decimal digits, \<open>k\<close> digits exactly.\<close>

fun digits_val :: "nat \<Rightarrow> string \<Rightarrow> nat option" where
  "digits_val acc [] = Some acc"
| "digits_val acc (c # r) = (if ascii_digit c then digits_val (acc * 10 + (byte c - 48)) r else None)"

definition fixed_digits :: "nat \<Rightarrow> string \<Rightarrow> (nat \<times> string) option" where
  "fixed_digits k s = (if length s < k then None
     else map_option (\<lambda>v. (v, drop k s)) (digits_val 0 (take k s)))"

fun pad_dec :: "nat \<Rightarrow> nat \<Rightarrow> string" where
  "pad_dec 0 n = []"
| "pad_dec (Suc k) n = pad_dec k (n div 10) @ [digit_char (n mod 10)]"

lemma byte_char_of [simp]: "byte (char_of n) = n mod 256"
  by (simp add: byte_def)

lemma byte_chr [simp]: "byte (chr n) = n mod 256"
  by (simp add: chr_def)

lemma digit_char_props [simp]:
  assumes "d < 10"
  shows "ascii_digit (digit_char d)" and "byte (digit_char d) = 48 + d"
  using assms by (simp_all add: digit_char_def ascii_digit_def)

lemma length_pad_dec [simp]: "length (pad_dec k n) = k"
  by (induction k arbitrary: n) auto

lemma digits_val_append:
  "digits_val acc (xs @ ys) = (case digits_val acc xs of None \<Rightarrow> None | Some v \<Rightarrow> digits_val v ys)"
  by (induction xs arbitrary: acc) auto

lemma digits_val_pad: "digits_val acc (pad_dec k n) = Some (acc * 10 ^ k + n mod 10 ^ k)"
proof (induction k arbitrary: n)
  case (Suc k)
  have "n mod (10 * 10 ^ k) = 10 * (n div 10 mod 10 ^ k) + n mod 10"
    using mod_mult2_eq [of n 10 "10 ^ k"] by simp
  then show ?case
    by (simp add: digits_val_append Suc algebra_simps)
qed simp

lemma fixed_digits_pad [simp]:
  "n < 10 ^ k \<Longrightarrow> fixed_digits k (pad_dec k n @ r) = Some (n, r)"
  by (simp add: fixed_digits_def digits_val_pad)

lemma pylen_le_length: "pylen s \<le> length s"
  by (simp add: pylen_def)

lemma pylen_append [simp]: "pylen (a @ b) = pylen a + pylen b"
  by (simp add: pylen_def)

end
