(* ===== verification/Json.thy ===== *)
theory Json
  imports Py_Strings
begin

text \<open>
  JSON values as Python's \<^verbatim>\<open>json\<close> module reads and writes them, the canonical text
  (\<^verbatim>\<open>store.canonical\<close>, \<^verbatim>\<open>collaboration_v2.canonical\<close>, \<^verbatim>\<open>remote.canonical\<close>) and the reader
  \<^verbatim>\<open>json.loads\<close>. A \<^verbatim>\<open>dict\<close> is the list of its items in insertion order, an integer is
  unbounded, and a float keeps its lexeme (no component computes with one).
\<close>

datatype json =
    JNull
  | JBool bool
  | JInt int
  | JFloat string
  | JStr string
  | JArr "json list"
  | JObj "(string \<times> json) list"

definition jget :: "string \<Rightarrow> (string \<times> json) list \<Rightarrow> json option" where
  "jget k o' = map_of o' k"

definition jkeys :: "(string \<times> json) list \<Rightarrow> string list" where
  "jkeys o' = map fst o'"

text \<open>Setting a key keeps its place when it is there and appends it otherwise.\<close>

fun jset :: "string \<Rightarrow> json \<Rightarrow> (string \<times> json) list \<Rightarrow> (string \<times> json) list" where
  "jset k v [] = [(k, v)]"
| "jset k v ((k', v') # r) = (if k = k' then (k, v) # r else (k', v') # jset k v r)"

definition jstr_opt :: "string option \<Rightarrow> json" where
  "jstr_opt x = (case x of None \<Rightarrow> JNull | Some s \<Rightarrow> JStr s)"

definition jstrs :: "string list \<Rightarrow> json" where
  "jstrs xs = JArr (map JStr xs)"

section \<open>The canonical text\<close>

definition hex_digit :: "nat \<Rightarrow> char" where
  "hex_digit d = (if d < 10 then chr (48 + d) else chr (87 + d))"

text \<open>\<^verbatim>\<open>ensure_ascii=False\<close>: only the quote, the backslash and the C0 controls are escaped.\<close>

definition esc_char :: "char \<Rightarrow> string" where
  "esc_char c = (let n = byte c in
     if n = 34 then [chr 92, chr 34] else if n = 92 then [chr 92, chr 92]
     else if n = 10 then chr 92 # ''n'' else if n = 13 then chr 92 # ''r''
     else if n = 9 then chr 92 # ''t'' else if n = 8 then chr 92 # ''b''
     else if n = 12 then chr 92 # ''f''
     else if n < 32 then chr 92 # ''u00'' @ [hex_digit (n div 16), hex_digit (n mod 16)]
     else [c])"

definition json_string :: "string \<Rightarrow> string" where
  "json_string s = [chr 34] @ concat (map esc_char s) @ [chr 34]"

definition sort_items :: "(string \<times> 'a) list \<Rightarrow> (string \<times> 'a) list" where
  "sort_items xs = sort_key fst xs"

text \<open>
  \<^verbatim>\<open>json.dumps\<close> with \<^verbatim>\<open>sort_keys=True\<close> and the given separators. The items of an object are printed
  first and sorted by their key afterwards.
\<close>

fun dumps :: "string \<Rightarrow> string \<Rightarrow> json \<Rightarrow> string" where
  "dumps i k JNull = ''null''"
| "dumps i k (JBool b) = (if b then ''true'' else ''false'')"
| "dumps i k (JInt n) = int_dec n"
| "dumps i k (JFloat s) = s"
| "dumps i k (JStr s) = json_string s"
| "dumps i k (JArr xs) = ''['' @ join i (map (dumps i k) xs) @ '']''"
| "dumps i k (JObj kvs) =
     ''{'' @ join i (map (\<lambda>(key, t). json_string key @ k @ t)
       (sort_items (map (\<lambda>(key, v). (key, dumps i k v)) kvs))) @ ''}''"

definition canonical :: "json \<Rightarrow> string" where
  "canonical j = dumps '','' '':'' j"

text \<open>Python's \<^verbatim>\<open>==\<close> on decoded values: item order is ignored and \<^verbatim>\<open>True == 1\<close>.\<close>

fun py_norm :: "json \<Rightarrow> json" where
  "py_norm (JBool b) = JInt (if b then 1 else 0)"
| "py_norm (JArr xs) = JArr (map py_norm xs)"
| "py_norm (JObj kvs) = JObj (sort_items (map (\<lambda>(k, v). (k, py_norm v)) kvs))"
| "py_norm j = j"

definition json_eq :: "json \<Rightarrow> json \<Rightarrow> bool" where
  "json_eq a b \<longleftrightarrow> py_norm a = py_norm b"

section \<open>Reading: \<^verbatim>\<open>json.loads\<close>\<close>

definition json_ws :: "char \<Rightarrow> bool" where
  "json_ws c \<longleftrightarrow> byte c \<in> {32, 9, 10, 13}"

definition skip_ws :: "string \<Rightarrow> string" where
  "skip_ws s = dropWhile json_ws s"

definition hex_val :: "char \<Rightarrow> nat option" where
  "hex_val c = (let n = byte c in
     if 48 \<le> n \<and> n \<le> 57 then Some (n - 48)
     else if 97 \<le> n \<and> n \<le> 102 then Some (n - 87)
     else if 65 \<le> n \<and> n \<le> 70 then Some (n - 55) else None)"

fun hex4 :: "string \<Rightarrow> (nat \<times> string) option" where
  "hex4 (a # b # c # d # r) =
     (case (hex_val a, hex_val b, hex_val c, hex_val d) of
        (Some w, Some x, Some y, Some z) \<Rightarrow> Some (w * 4096 + x * 256 + y * 16 + z, r)
      | _ \<Rightarrow> None)"
| "hex4 _ = None"

text \<open>The escape \<^verbatim>\<open>\uXXXX\<close>; a high surrogate takes a following low one with it.\<close>

definition unicode_escape :: "string \<Rightarrow> (string \<times> string) option" where
  "unicode_escape s = (case hex4 s of
     None \<Rightarrow> None
   | Some (n, r) \<Rightarrow>
       if 55296 \<le> n \<and> n < 56320 \<and> 2 \<le> length r \<and> byte (r ! 0) = 92 \<and> r ! 1 = CHR ''u'' then
         (case hex4 (drop 2 r) of
            Some (m, r') \<Rightarrow>
              if 56320 \<le> m \<and> m < 57344
              then Some (utf8_cp (65536 + (n - 55296) * 1024 + (m - 56320)), r')
              else Some (utf8_cp n, r)
          | None \<Rightarrow> None)
       else Some (utf8_cp n, r))"

definition simple_escape :: "char \<Rightarrow> string option" where
  "simple_escape c = (let n = byte c in
     if n = 34 \<or> n = 92 \<or> n = 47 then Some [c]
     else if n = 98 then Some [chr 8] else if n = 102 then Some [chr 12]
     else if n = 110 then Some [chr 10] else if n = 114 then Some [chr 13]
     else if n = 116 then Some [chr 9] else None)"

text \<open>The rest of a string literal after its opening quote; a raw control character is refused.
  The fuel is the number of characters left, which every step reduces.\<close>

fun read_string :: "nat \<Rightarrow> string \<Rightarrow> (string \<times> string) option" where
  "read_string 0 s = None"
| "read_string (Suc f) [] = None"
| "read_string (Suc f) (c # r) =
     (if byte c = 34 then Some ([], r)
      else if byte c < 32 then None
      else if byte c = 92 then
        (case r of
           [] \<Rightarrow> None
         | e # r1 \<Rightarrow>
             (case (if e = CHR ''u'' then unicode_escape r1
                    else map_option (\<lambda>x. (x, r1)) (simple_escape e)) of
                None \<Rightarrow> None
              | Some (x, r2) \<Rightarrow> map_option (\<lambda>(t, r3). (x @ t, r3)) (read_string f r2)))
      else map_option (\<lambda>(t, r1). (c # t, r1)) (read_string f r))"

definition take_digits :: "string \<Rightarrow> string \<times> string" where
  "take_digits s = (takeWhile ascii_digit s, dropWhile ascii_digit s)"

text \<open>\<^verbatim>\<open>-?(0|[1-9]\d*)(\.\d+)?([eE][-+]?\d+)?\<close>\<close>

definition read_number :: "string \<Rightarrow> (json \<times> string) option" where
  "read_number s =
     (let (neg, s1) = (case eat (CHR ''-'') s of Some r \<Rightarrow> (True, r) | None \<Rightarrow> (False, s));
          (ip, s2) = (case eat (CHR ''0'') s1 of Some r \<Rightarrow> (''0'', r) | None \<Rightarrow> take_digits s1) in
      if ip = [] then None
      else let (fp, s3) = (case eat (CHR ''.'') s2 of Some r \<Rightarrow>
                   (let (d, r') = take_digits r in if d = [] then ([], s2) else (CHR ''.'' # d, r'))
                 | None \<Rightarrow> ([], s2));
               (ep, s4) = (case s3 of e # r \<Rightarrow>
                   (if e = CHR ''e'' \<or> e = CHR ''E'' then
                      (let (sg, r1) = (case r of c # r' \<Rightarrow>
                              (if c = CHR ''-'' \<or> c = CHR ''+'' then ([c], r') else ([], r)) | [] \<Rightarrow> ([], r));
                           (d, r2) = take_digits r1
                       in if d = [] then ([], s3) else (e # sg @ d, r2))
                    else ([], s3))
                 | [] \<Rightarrow> ([], s3))
           in if fp = [] \<and> ep = []
              then (case digits_val 0 ip of
                      Some n \<Rightarrow> Some (JInt (if neg then - int n else int n), s4) | None \<Rightarrow> None)
              else Some (JFloat ((if neg then ''-'' else []) @ ip @ fp @ ep), s4))"

definition read_word :: "string \<Rightarrow> json \<Rightarrow> string \<Rightarrow> (json \<times> string) option" where
  "read_word w j s = (if take (length w) s = w then Some (j, drop (length w) s) else None)"

text \<open>A later duplicate of a key replaces the value of the earlier one, as in \<^verbatim>\<open>dict(pairs)\<close>.\<close>

definition dict_of :: "(string \<times> json) list \<Rightarrow> (string \<times> json) list" where
  "dict_of kvs = fold (\<lambda>(k, v) d. jset k v d) kvs []"

fun read_value :: "nat \<Rightarrow> string \<Rightarrow> (json \<times> string) option"
  and read_items :: "nat \<Rightarrow> string \<Rightarrow> (json list \<times> string) option"
  and read_members :: "nat \<Rightarrow> string \<Rightarrow> ((string \<times> json) list \<times> string) option" where
  "read_value 0 s = None"
| "read_value (Suc f) s =
     (case s of
        [] \<Rightarrow> None
      | c # r \<Rightarrow>
          if byte c = 34 then map_option (\<lambda>(t, r'). (JStr t, r')) (read_string (Suc (length r)) r)
          else if c = CHR ''['' then
            (case eat (CHR '']'') (skip_ws r) of
               Some r' \<Rightarrow> Some (JArr [], r')
             | None \<Rightarrow> map_option (\<lambda>(xs, q). (JArr xs, q)) (read_items f (skip_ws r)))
          else if c = CHR ''{'' then
            (case eat (CHR ''}'') (skip_ws r) of
               Some r' \<Rightarrow> Some (JObj [], r')
             | None \<Rightarrow> map_option (\<lambda>(kvs, q). (JObj (dict_of kvs), q)) (read_members f (skip_ws r)))
          else if c = CHR ''n'' then read_word ''null'' JNull s
          else if c = CHR ''t'' then read_word ''true'' (JBool True) s
          else if c = CHR ''f'' then read_word ''false'' (JBool False) s
          else if c = CHR ''N'' then read_word ''NaN'' (JFloat ''NaN'') s
          else if c = CHR ''I'' then read_word ''Infinity'' (JFloat ''Infinity'') s
          else (case read_number s of
                  Some x \<Rightarrow> Some x
                | None \<Rightarrow> read_word ''-Infinity'' (JFloat ''-Infinity'') s))"
| "read_items 0 s = None"
| "read_items (Suc f) s =
     (case read_value f s of
        None \<Rightarrow> None
      | Some (v, r) \<Rightarrow>
          (case eat (CHR '','') (skip_ws r) of
             Some r' \<Rightarrow> map_option (\<lambda>(xs, q). (v # xs, q)) (read_items f (skip_ws r'))
           | None \<Rightarrow> map_option (\<lambda>r'. ([v], r')) (eat (CHR '']'') (skip_ws r))))"
| "read_members 0 s = None"
| "read_members (Suc f) s =
     (case s of
        [] \<Rightarrow> None
      | c # r0 \<Rightarrow>
          if byte c \<noteq> 34 then None
          else (case read_string (Suc (length r0)) r0 of
             None \<Rightarrow> None
           | Some (k, r) \<Rightarrow>
               (case eat (CHR '':'') (skip_ws r) of
                  None \<Rightarrow> None
                | Some r1 \<Rightarrow>
                    (case read_value f (skip_ws r1) of
                       None \<Rightarrow> None
                     | Some (v, r2) \<Rightarrow>
                         (case eat (CHR '','') (skip_ws r2) of
                            Some r3 \<Rightarrow>
                              map_option (\<lambda>(kvs, q). ((k, v) # kvs, q)) (read_members f (skip_ws r3))
                          | None \<Rightarrow> map_option (\<lambda>r3. ([(k, v)], r3)) (eat (CHR ''}'') (skip_ws r2)))))))"

definition json_loads :: "string \<Rightarrow> json option" where
  "json_loads s = (case read_value (2 * length s + 2) (skip_ws s) of
     Some (j, r) \<Rightarrow> if skip_ws r = [] then Some j else None
   | None \<Rightarrow> None)"

end
