(* ===== verification/Rfc3339.thy ===== *)
theory Rfc3339
  imports Py_Strings
begin

text \<open>
  Instants and their text. An instant is the number of microseconds since 1970-01-01T00:00Z, the
  resolution of \<^verbatim>\<open>datetime\<close>; \<^verbatim>\<open>time.time()\<close> and \<^verbatim>\<open>datetime.timestamp()\<close> are floats of seconds in the
  code and microsecond integers here. \<open>parse_instant\<close> is \<^verbatim>\<open>datetime.fromisoformat\<close> on the
  RFC 3339 shape the validators require, \<open>iso_z\<close> is \<^verbatim>\<open>isoformat()\<close> of the UTC value with
  \<^verbatim>\<open>+00:00\<close> written \<^verbatim>\<open>Z\<close> (\<^verbatim>\<open>policy._time\<close>, \<^verbatim>\<open>collaboration_v2.timestamp\<close>).
\<close>

type_synonym time = int

definition sec :: int where
  "sec = 1000000"

section \<open>The proleptic Gregorian calendar\<close>

definition leap :: "int \<Rightarrow> bool" where
  "leap y \<longleftrightarrow> y mod 4 = 0 \<and> (y mod 100 \<noteq> 0 \<or> y mod 400 = 0)"

definition days_before_year :: "int \<Rightarrow> int" where
  "days_before_year y = (y - 1) * 365 + (y - 1) div 4 - (y - 1) div 100 + (y - 1) div 400"

definition month_lengths :: "bool \<Rightarrow> int list" where
  "month_lengths l = [31, if l then 29 else 28, 31, 30, 31, 30, 31, 31, 30, 31, 30, 31]"

definition days_in_month :: "int \<Rightarrow> int \<Rightarrow> int" where
  "days_in_month y m = month_lengths (leap y) ! nat (m - 1)"

definition days_before_month :: "int \<Rightarrow> int \<Rightarrow> int" where
  "days_before_month y m = sum_list (take (nat (m - 1)) (month_lengths (leap y)))"

text \<open>\<^verbatim>\<open>date.toordinal\<close>: day 1 is 0001-01-01.\<close>

definition ymd2ord :: "int \<Rightarrow> int \<Rightarrow> int \<Rightarrow> int" where
  "ymd2ord y m d = days_before_year y + days_before_month y m + d"

fun month_of :: "int list \<Rightarrow> int \<Rightarrow> int \<Rightarrow> int \<times> int" where
  "month_of [] m n = (m, n)"
| "month_of (l # ls) m n = (if n < l then (m, n) else month_of ls (m + 1) (n - l))"

definition ord2ymd :: "int \<Rightarrow> int \<times> int \<times> int" where
  "ord2ymd ord =
     (let n0 = ord - 1; n400 = n0 div 146097; r400 = n0 mod 146097;
          n100 = r400 div 36524; r100 = r400 mod 36524;
          n4 = r100 div 1461; r4 = r100 mod 1461;
          n1 = r4 div 365; r1 = r4 mod 365;
          year = n400 * 400 + 1 + n100 * 100 + n4 * 4 + n1
      in if n1 = 4 \<or> n100 = 4 then (year - 1, 12, 31)
         else (let (m, d) = month_of (month_lengths (leap year)) 1 r1 in (year, m, d + 1)))"

definition max_ordinal :: int where
  "max_ordinal = 3652059"

lemma month_cases:
  "1 \<le> m \<Longrightarrow> m \<le> 12 \<Longrightarrow>
    m \<in> {1, 2, 3, 4, 5, 6, 7, 8, 9, 10, 11, 12 :: int}"
  by (simp, presburger)

lemma days_in_month_le: "1 \<le> m \<Longrightarrow> m \<le> 12 \<Longrightarrow> days_in_month y m \<le> 31"
  by (drule (1) month_cases) (auto simp: days_in_month_def month_lengths_def)

lemma days_before_month_bounds:
  "1 \<le> m \<Longrightarrow> m \<le> 12 \<Longrightarrow> 0 \<le> days_before_month y m \<and> days_before_month y m \<le> 335"
  by (drule (1) month_cases) (auto simp: days_before_month_def month_lengths_def)

lemma month_of_spec:
  assumes "0 \<le> n" "n < (if l then 366 else 365)" "month_of (month_lengths l) 1 n = (m, d)"
  shows "1 \<le> m \<and> m \<le> 12 \<and> 0 \<le> d \<and> d < month_lengths l ! nat (m - 1)
    \<and> sum_list (take (nat (m - 1)) (month_lengths l)) + d = n"
  using assms by (cases l) (auto simp: month_lengths_def split: if_splits)

lemma mod_cycle: "1 \<le> x \<Longrightarrow> x \<le> k \<Longrightarrow> x mod k = 0 \<longleftrightarrow> x = (k::int)"
  by (cases "x = k") auto

lemma last_of_cycle:
  fixes b c e :: int
  assumes "0 \<le> b" "b \<le> 3" "0 \<le> c" "c \<le> 24" "0 \<le> e" "e \<le> 3"
  shows "1 + e = 4 \<longleftrightarrow> e = 3"
    and "1 + 4 * c + e = 100 \<longleftrightarrow> e = 3 \<and> c = 24"
    and "1 + 100 * b + 4 * c + e = 400 \<longleftrightarrow> e = 3 \<and> c = 24 \<and> b = 3"
proof -
  show "1 + e = 4 \<longleftrightarrow> e = 3" by simp
  have "e = 3" "c = 24" if "1 + 4 * c + e = 100" using assms that by linarith+
  then show "1 + 4 * c + e = 100 \<longleftrightarrow> e = 3 \<and> c = 24" by auto
  have "e = 3" "c = 24" "b = 3" if "1 + 100 * b + 4 * c + e = 400" using assms that by linarith+
  then show "1 + 100 * b + 4 * c + e = 400 \<longleftrightarrow> e = 3 \<and> c = 24 \<and> b = 3" by auto
qed

lemma cycle_year:
  fixes a b c e :: int
  assumes "0 \<le> b" "b \<le> 3" "0 \<le> c" "c \<le> 24" "0 \<le> e" "e \<le> 3"
  defines "y \<equiv> a * 400 + 1 + b * 100 + c * 4 + e"
  shows "days_before_year y = 146097 * a + 36524 * b + 1461 * c + 365 * e"
    and "leap y \<longleftrightarrow> e = 3 \<and> (c \<noteq> 24 \<or> b = 3)"
proof -
  have "(y - 1) div 4 = 100 * a + 25 * b + c" "(y - 1) div 100 = 4 * a + b" "(y - 1) div 400 = a"
    using assms by (auto simp: y_def)
  then show "days_before_year y = 146097 * a + 36524 * b + 1461 * c + 365 * e"
    by (simp add: days_before_year_def y_def)
  have "y = (1 + e) + 4 * (100 * a + 25 * b + c)" "y = (1 + 4 * c + e) + 100 * (4 * a + b)"
    "y = (1 + 100 * b + 4 * c + e) + 400 * a"
    by (simp_all add: y_def)
  then have "y mod 4 = (1 + e) mod 4" "y mod 100 = (1 + 4 * c + e) mod 100"
    "y mod 400 = (1 + 100 * b + 4 * c + e) mod 400"
    by (metis mod_mult_self2)+
  moreover note last_of_cycle [OF assms(1-6)]
  ultimately have "y mod 4 = 0 \<longleftrightarrow> e = 3" "y mod 100 = 0 \<longleftrightarrow> e = 3 \<and> c = 24"
    "y mod 400 = 0 \<longleftrightarrow> e = 3 \<and> c = 24 \<and> b = 3"
    using assms(1-6) by (simp_all add: mod_cycle)
  then show "leap y \<longleftrightarrow> e = 3 \<and> (c \<noteq> 24 \<or> b = 3)"
    by (auto simp: leap_def)
qed

text \<open>The civil date of an ordinal is a valid date and names the same day.\<close>

lemma ord2ymd_ymd2ord:
  assumes "ord2ymd n = (y, m, d)"
  shows "ymd2ord y m d = n \<and> 1 \<le> m \<and> m \<le> 12 \<and> 1 \<le> d \<and> d \<le> days_in_month y m"
proof -
  define n0 n400 r400 n100 r100 n4 r4 n1 r1
    where defs: "n0 = n - 1" "n400 = n0 div 146097" "r400 = n0 mod 146097"
      "n100 = r400 div 36524" "r100 = r400 mod 36524" "n4 = r100 div 1461" "r4 = r100 mod 1461"
      "n1 = r4 div 365" "r1 = r4 mod 365"
  define year where "year = n400 * 400 + 1 + n100 * 100 + n4 * 4 + n1"
  have rng: "0 \<le> r400" "r400 < 146097" "0 \<le> r100" "r100 < 36524" "0 \<le> r4" "r4 < 1461"
    "0 \<le> r1" "r1 < 365"
    by (simp_all add: defs)
  have split: "n0 = 146097 * n400 + r400" "r400 = 36524 * n100 + r100" "r100 = 1461 * n4 + r4"
    "r4 = 365 * n1 + r1"
    unfolding defs by (simp_all only: mult_div_mod_eq)
  have bnd: "0 \<le> n100" "n100 \<le> 4" "0 \<le> n4" "n4 \<le> 24" "0 \<le> n1" "n1 \<le> 4"
    using rng split by linarith+
  show ?thesis
  proof (cases "n1 = 4 \<or> n100 = 4")
    case True
    then have res: "y = year - 1" "m = 12" "d = 31"
      using assms by (simp_all add: ord2ymd_def Let_def defs [symmetric] year_def)
    define b c where bc: "b = (if n100 = 4 then 3 else n100)" "c = (if n100 = 4 then 24 else n4)"
    have "n100 = 4 \<longrightarrow> r100 = 0" "r100 = 0 \<longrightarrow> n4 = 0 \<and> r4 = 0" "r4 = 0 \<longrightarrow> n1 = 0 \<and> r1 = 0"
      "n1 = 4 \<longrightarrow> r1 = 0 \<and> n4 \<noteq> 24"
      using rng split bnd by linarith+
    then have full: "(n100 = 4 \<longrightarrow> n4 = 0 \<and> n1 = 0 \<and> r1 = 0) \<and> (n1 = 4 \<longrightarrow> r1 = 0 \<and> n4 \<noteq> 24)"
      by blast
    have y: "y = n400 * 400 + 1 + b * 100 + c * 4 + 3"
      and le: "0 \<le> b" "b \<le> 3" "0 \<le> c" "c \<le> 24" "c \<noteq> 24 \<or> b = 3"
      using True full bnd res(1) by (auto simp: year_def bc)
    show ?thesis
      using cycle_year [of b c 3 n400] le True full split
      by (auto simp: res(2,3) bc y ymd2ord_def days_in_month_def days_before_month_def month_lengths_def defs(1))
  next
    case False
    then have y: "y = year" and md: "month_of (month_lengths (leap year)) 1 r1 = (m, d - 1)"
      using assms by (auto simp: ord2ymd_def Let_def defs [symmetric] year_def split: prod.splits)
    have "days_before_year year = 146097 * n400 + 36524 * n100 + 1461 * n4 + 365 * n1"
      unfolding year_def using False bnd by (intro cycle_year) auto
    moreover have "r1 < (if leap year then 366 else 365)" using rng(8) by simp
    note month_of_spec [OF rng(7) this md]
    ultimately show ?thesis
      using split
      by (simp add: y ymd2ord_def days_in_month_def days_before_month_def defs(1))
  qed
qed

lemma ord2ymd_year:
  assumes "ord2ymd n = (y, m, d)" "1 \<le> n" "n \<le> max_ordinal"
  shows "1 \<le> y" "y \<le> 9999"
proof -
  have d: "1 \<le> d" "d \<le> 31" and ym: "0 \<le> days_before_month y m" "days_before_month y m \<le> 335"
    and n: "days_before_year y + days_before_month y m + d = n"
  proof -
    have spec: "ymd2ord y m d = n \<and> 1 \<le> m \<and> m \<le> 12 \<and> 1 \<le> d \<and> d \<le> days_in_month y m"
      by (rule ord2ymd_ymd2ord [OF assms(1)])
    then have "days_in_month y m \<le> 31" "0 \<le> days_before_month y m \<and> days_before_month y m \<le> 335"
      using days_in_month_le days_before_month_bounds by blast+
    then show "1 \<le> d" "d \<le> 31" "0 \<le> days_before_month y m" "days_before_month y m \<le> 335"
      "days_before_year y + days_before_month y m + d = n"
      using spec by (auto simp: ymd2ord_def)
  qed
  define k where "k = y - 1"
  have div: "4 * (k div 4) \<le> k" "k < 4 * (k div 4) + 4" "100 * (k div 100) \<le> k"
    "k < 100 * (k div 100) + 100" "400 * (k div 400) \<le> k" "k < 400 * (k div 400) + 400"
    by linarith+
  have dby: "days_before_year y = k * 365 + k div 4 - k div 100 + k div 400"
    by (simp add: days_before_year_def k_def)
  have "k \<noteq> -1"
    using d ym n assms(2) dby by auto
  moreover have "\<not> k \<le> -2"
    using d ym n assms(2) dby div by linarith
  ultimately show "1 \<le> y" by (simp add: k_def)
  have "k \<noteq> 9999"
    using d ym n assms(3) dby by (auto simp: max_ordinal_def)
  moreover have "\<not> k \<ge> 10000"
    using d ym n assms(3) dby div unfolding max_ordinal_def by linarith
  ultimately show "y \<le> 9999" by (simp add: k_def)
qed

section \<open>Text\<close>

definition epoch_ordinal :: int where
  "epoch_ordinal = 719163"

definition day_us :: int where
  "day_us = 86400000000"

text \<open>The instants a \<^verbatim>\<open>datetime\<close> in UTC can hold, years 1 to 9999.\<close>

definition min_instant :: time where
  "min_instant = (1 - epoch_ordinal) * day_us"

definition max_instant :: time where
  "max_instant = (max_ordinal + 1 - epoch_ordinal) * day_us - 1"

definition instant_ok :: "time \<Rightarrow> bool" where
  "instant_ok t \<longleftrightarrow> min_instant \<le> t \<and> t \<le> max_instant"

definition civil :: "int \<Rightarrow> int \<Rightarrow> int \<Rightarrow> int \<Rightarrow> time" where
  "civil y m d us = (ymd2ord y m d - epoch_ordinal) * day_us + us"

definition iso_z :: "time \<Rightarrow> string" where
  "iso_z t = (let (y, m, d) = ord2ymd (t div day_us + epoch_ordinal);
       us = t mod day_us; s = us div sec; f = us mod sec
     in pad_dec 4 (nat y) @ ''-'' @ pad_dec 2 (nat m) @ ''-'' @ pad_dec 2 (nat d) @ ''T'' @
        pad_dec 2 (nat (s div 3600)) @ '':'' @ pad_dec 2 (nat (s div 60 mod 60)) @ '':'' @
        pad_dec 2 (nat (s mod 60)) @ (if f = 0 then [] else ''.'' @ pad_dec 6 (nat f)) @ ''Z'')"

text \<open>The optional fraction, one to six digits, in microseconds.\<close>

definition read_fraction :: "string \<Rightarrow> (nat \<times> string) option" where
  "read_fraction s = (case eat (CHR ''.'') s of
     None \<Rightarrow> Some (0, s)
   | Some r \<Rightarrow> let ds = takeWhile ascii_digit r; k = length ds in
       if k = 0 \<or> 6 < k then None
       else map_option (\<lambda>v. (v * 10 ^ (6 - k), drop k r)) (digits_val 0 ds))"

text \<open>The offset in minutes and nothing after it.\<close>

definition read_offset :: "string \<Rightarrow> int option" where
  "read_offset s =
     (if s = ''Z'' then Some 0
      else (case s of
        [] \<Rightarrow> None
      | c # r \<Rightarrow>
          if c \<noteq> CHR ''+'' \<and> c \<noteq> CHR ''-'' then None
          else (case fixed_digits 2 r of None \<Rightarrow> None | Some (hh, r1) \<Rightarrow>
            (case eat (CHR '':'') r1 of None \<Rightarrow> None | Some r2 \<Rightarrow>
              (case fixed_digits 2 r2 of None \<Rightarrow> None | Some (mm, r3) \<Rightarrow>
                if r3 \<noteq> [] then None
                else Some ((if c = CHR ''-'' then -1 else 1) * int (hh * 60 + mm)))))))"

record fields =
  f_year :: nat
  f_month :: nat
  f_day :: nat
  f_hour :: nat
  f_minute :: nat
  f_second :: nat
  f_micro :: nat
  f_offset :: int

text \<open>The shape \<^verbatim>\<open>\d{4}-\d{2}-\d{2}T\d{2}:\d{2}:\d{2}(?:\.\d{1,6})?(?:Z|[+-]\d{2}:\d{2})\<close>.\<close>

definition sep2 :: "char \<Rightarrow> string \<Rightarrow> (nat \<times> string) option" where
  "sep2 c s = (case eat c s of None \<Rightarrow> None | Some r \<Rightarrow> fixed_digits 2 r)"

definition rfc3339_fields :: "string \<Rightarrow> fields option" where
  "rfc3339_fields s =
     (case fixed_digits 4 s of None \<Rightarrow> None | Some (y, s) \<Rightarrow>
     (case sep2 (CHR ''-'') s of None \<Rightarrow> None | Some (m, s) \<Rightarrow>
     (case sep2 (CHR ''-'') s of None \<Rightarrow> None | Some (d, s) \<Rightarrow>
     (case sep2 (CHR ''T'') s of None \<Rightarrow> None | Some (hh, s) \<Rightarrow>
     (case sep2 (CHR '':'') s of None \<Rightarrow> None | Some (mi, s) \<Rightarrow>
     (case sep2 (CHR '':'') s of None \<Rightarrow> None | Some (ss, s) \<Rightarrow>
     (case read_fraction s of None \<Rightarrow> None | Some (us, s) \<Rightarrow>
     (case read_offset s of None \<Rightarrow> None | Some off \<Rightarrow>
       Some \<lparr>f_year = y, f_month = m, f_day = d, f_hour = hh, f_minute = mi, f_second = ss,
             f_micro = us, f_offset = off\<rparr>))))))))"

text \<open>
  The checks of \<^verbatim>\<open>datetime.fromisoformat\<close>: the date exists, the time of day is in range and the
  offset is strictly less than a day (its minutes may exceed 59).
\<close>

definition fields_valid :: "fields \<Rightarrow> bool" where
  "fields_valid f \<longleftrightarrow> 1 \<le> f_year f \<and> 1 \<le> f_month f \<and> f_month f \<le> 12 \<and> 1 \<le> f_day f
     \<and> int (f_day f) \<le> days_in_month (int (f_year f)) (int (f_month f))
     \<and> f_hour f < 24 \<and> f_minute f < 60 \<and> f_second f < 60 \<and> \<bar>f_offset f\<bar> < 1440"

definition fields_instant :: "fields \<Rightarrow> time" where
  "fields_instant f = civil (int (f_year f)) (int (f_month f)) (int (f_day f))
     ((int (f_hour f) * 3600 + int (f_minute f) * 60 + int (f_second f) - f_offset f * 60) * sec
      + int (f_micro f))"

definition rfc3339_shape :: "string \<Rightarrow> bool" where
  "rfc3339_shape s \<longleftrightarrow> rfc3339_fields s \<noteq> None"

definition parse_instant :: "string \<Rightarrow> time option" where
  "parse_instant s = (case rfc3339_fields s of
     None \<Rightarrow> None
   | Some f \<Rightarrow> if fields_valid f then Some (fields_instant f) else None)"

text \<open>\<^verbatim>\<open>astimezone(timezone.utc)\<close> raises \<^verbatim>\<open>OverflowError\<close> outside the years 1 to 9999.\<close>

definition parse_utc :: "string \<Rightarrow> time option" where
  "parse_utc s = (case parse_instant s of
     None \<Rightarrow> None
   | Some t \<Rightarrow> if instant_ok t then Some t else None)"

section \<open>Printing and reading again\<close>

lemma pad_dec_digits: "list_all ascii_digit (pad_dec k n)"
  by (induction k arbitrary: n) auto

lemma read_fraction_iso:
  assumes "f < 1000000"
  shows "read_fraction ((if f = 0 then [] else ''.'' @ pad_dec 6 f) @ ''Z'') = Some (f, ''Z'')"
proof (cases "f = 0")
  case True
  then show ?thesis by (simp add: read_fraction_def)
next
  case False
  have "takeWhile ascii_digit (pad_dec 6 f @ ''Z'') = pad_dec 6 f"
    using pad_dec_digits [of 6 f]
    by (subst takeWhile_append2) (auto simp: list_all_iff ascii_digit_def byte_def)
  moreover have "pad_dec 6 f \<noteq> []"
    using length_pad_dec [of 6 f] by (metis length_0_conv zero_neq_numeral)
  ultimately show ?thesis
    using False assms
    by (simp add: read_fraction_def Let_def digits_val_pad del: pad_dec.simps)
qed

lemma iso_z_fields:
  fixes t us s :: int
  assumes ok: "instant_ok t" and date: "ord2ymd (t div day_us + epoch_ordinal) = (y, m, d)"
  defines "us \<equiv> t mod day_us" and "s \<equiv> us div sec"
  shows "rfc3339_fields (iso_z t) = Some \<lparr>f_year = nat y, f_month = nat m, f_day = nat d,
    f_hour = nat (s div 3600), f_minute = nat (s div 60 mod 60), f_second = nat (s mod 60),
    f_micro = nat (us mod sec), f_offset = 0\<rparr>"
    and "1 \<le> y" "y \<le> 9999"
proof -
  have n: "1 \<le> t div day_us + epoch_ordinal" "t div day_us + epoch_ordinal \<le> max_ordinal"
    using ok by (auto simp: instant_ok_def min_instant_def max_instant_def day_us_def
        epoch_ordinal_def max_ordinal_def)
  show y: "1 \<le> y" "y \<le> 9999"
    using ord2ymd_year [OF date n] by auto
  have md: "1 \<le> m" "m \<le> 12" "1 \<le> d" "d \<le> days_in_month y m"
    using ord2ymd_ymd2ord [OF date] by auto
  then have d31: "d \<le> 31" using days_in_month_le [of m y] by linarith
  have us: "0 \<le> us" "us < day_us" by (simp_all add: us_def day_us_def)
  have s: "0 \<le> s" "s < 86400" using us by (auto simp: s_def sec_def day_us_def)
  have small: "nat y < 10 ^ 4" "nat m < 10 ^ 2" "nat d < 10 ^ 2" "nat (s div 3600) < 10 ^ 2"
    "nat (s div 60 mod 60) < 10 ^ 2" "nat (s mod 60) < 10 ^ 2" "nat (us mod sec) < 1000000"
    using y md d31 s by (auto simp: sec_def)
  have frac: "read_fraction ((if us mod sec = 0 then [] else ''.'' @ pad_dec 6 (nat (us mod sec))) @ ''Z'')
     = Some (nat (us mod sec), ''Z'')"
  proof -
    have "nat (us mod sec) = 0 \<longleftrightarrow> us mod sec = 0"
      by (simp add: sec_def nat_eq_iff2) (metis order_antisym pos_mod_sign zero_less_numeral)
    then show ?thesis using read_fraction_iso [OF small(7)] by (simp only:)
  qed
  show "rfc3339_fields (iso_z t) = Some \<lparr>f_year = nat y, f_month = nat m, f_day = nat d,
    f_hour = nat (s div 3600), f_minute = nat (s div 60 mod 60), f_second = nat (s mod 60),
    f_micro = nat (us mod sec), f_offset = 0\<rparr>"
    by (simp only: iso_z_def date Let_def prod.case us_def [symmetric] s_def [symmetric]
        rfc3339_fields_def sep2_def read_offset_def append_assoc append_Cons append_Nil eat_simps
        option.case fixed_digits_pad [OF small(1)] fixed_digits_pad [OF small(2)]
        fixed_digits_pad [OF small(3)] fixed_digits_pad [OF small(4)] fixed_digits_pad [OF small(5)]
        fixed_digits_pad [OF small(6)] frac [unfolded append_Cons append_Nil] if_True simp_thms)
qed

lemma fields_of_civil:
  assumes "1 \<le> y" "1 \<le> m" "m \<le> 12" "1 \<le> d" "d \<le> days_in_month y m"
    "0 \<le> h" "h < 24" "0 \<le> mi" "mi < 60" "0 \<le> ss" "ss < 60" "0 \<le> u"
  defines "f \<equiv> \<lparr>f_year = nat y, f_month = nat m, f_day = nat d, f_hour = nat h,
    f_minute = nat mi, f_second = nat ss, f_micro = nat u, f_offset = 0\<rparr>"
  shows "fields_valid f" and "fields_instant f = civil y m d ((h * 3600 + mi * 60 + ss) * sec + u)"
proof -
  have n: "int (nat y) = y" "int (nat m) = m" "int (nat d) = d" "int (nat h) = h" "int (nat mi) = mi"
    "int (nat ss) = ss" "int (nat u) = u"
    using assms(1-12) by auto
  have b: "1 \<le> nat y" "1 \<le> nat m" "nat m \<le> 12" "1 \<le> nat d" "nat h < 24" "nat mi < 60" "nat ss < 60"
    using assms(1-12) by linarith+
  show "fields_valid f"
    unfolding f_def fields_valid_def fields.simps n using b assms(5) by simp
  show "fields_instant f = civil y m d ((h * 3600 + mi * 60 + ss) * sec + u)"
    unfolding f_def fields_instant_def fields.simps n by (simp only: mult_zero_left diff_zero)
qed

lemma parse_utc_iso_z: "instant_ok t \<Longrightarrow> parse_utc (iso_z t) = Some t"
proof -
  assume ok: "instant_ok t"
  obtain y m d where date: "ord2ymd (t div day_us + epoch_ordinal) = (y, m, d)"
    using prod_cases3 by blast
  note f = iso_z_fields [OF ok date]
  note md = ord2ymd_ymd2ord [OF date]
  define us where "us = t mod day_us"
  define s where "s = us div sec"
  have us: "0 \<le> us" "us < day_us" by (simp_all add: us_def day_us_def)
  have s: "0 \<le> s" "s < 86400" using us by (auto simp: s_def sec_def day_us_def)
  have hms: "s div 3600 * 3600 + s div 60 mod 60 * 60 + s mod 60 = s"
  proof -
    have "s div 3600 = s div 60 div 60" by (simp add: zdiv_zmult2_eq [symmetric])
    then have "s div 3600 * 60 + s div 60 mod 60 = s div 60" by simp
    then have "(s div 3600 * 60 + s div 60 mod 60) * 60 + s mod 60 = s" by simp
    then show ?thesis by (simp add: algebra_simps)
  qed
  have "us = s * sec + us mod sec" by (simp add: s_def us_def)
  moreover have pos: "0 \<le> s div 3600" "0 \<le> s div 60 mod 60" "0 \<le> s mod 60" "0 \<le> us mod sec"
    "s div 3600 < 24"
    using s by (auto simp: sec_def)
  ultimately have inst: "(s div 3600 * 3600 + s div 60 mod 60 * 60 + s mod 60) * sec + us mod sec = us"
    using hms by simp
  have b: "s div 60 mod 60 < 60" "s mod 60 < 60" by simp_all
  note civ = fields_of_civil [of y m d "s div 3600" "s div 60 mod 60" "s mod 60" "us mod sec",
      OF f(2) _ _ _ _ pos(1) pos(5) pos(2) b(1) pos(3) b(2) pos(4)]
  have "parse_instant (iso_z t) = Some (civil y m d us)"
    using md civ unfolding inst
    by (simp only: parse_instant_def f(1) option.case us_def [symmetric] s_def [symmetric] if_True)
  moreover have "civil y m d us = t"
    using md by (auto simp: civil_def us_def)
  ultimately show ?thesis using ok by (simp add: parse_utc_def)
qed

lemma parse_iso_z: "instant_ok t \<Longrightarrow> parse_instant (iso_z t) = Some t"
  using parse_utc_iso_z [of t] by (auto simp: parse_utc_def split: option.splits if_splits)

lemma rfc3339_shape_iso_z: "instant_ok t \<Longrightarrow> rfc3339_shape (iso_z t)"
  using parse_iso_z [of t] by (auto simp: parse_instant_def rfc3339_shape_def split: option.splits)

lemma parse_utc_ok: "parse_utc s = Some t \<Longrightarrow> instant_ok t"
  by (auto simp: parse_utc_def split: option.splits if_splits)

end
