(* ===== verification/Texts.thy ===== *)
theory Texts
  imports Main
begin

text \<open>
  The non-ASCII literals of the source that the model prints or compares, as the bytes of their
  UTF-8 form. A comment glosses each one. Generated once from the source; nothing unfolds them
  except where a literal is compared.
\<close>

definition T_label_share_slots :: string where \<comment> \<open>share candidate slots\<close>
  "T_label_share_slots =
   [CHR 0xE5, CHR 0x88, CHR 0x86, CHR 0xE4, CHR 0xBA, CHR 0xAB, CHR 0xE5, CHR 0x80, CHR 0x99] @
   [CHR 0xE9, CHR 0x80, CHR 0x89, CHR 0xE7, CHR 0xA9, CHR 0xBA, CHR 0xE6, CHR 0xA1, CHR 0xA3]"

definition T_label_share_resource :: string where \<comment> \<open>share the full text of a named resource\<close>
  "T_label_share_resource =
   [CHR 0xE5, CHR 0x88, CHR 0x86, CHR 0xE4, CHR 0xBA, CHR 0xAB, CHR 0xE6, CHR 0x8C, CHR 0x87] @
   [CHR 0xE5, CHR 0xAE, CHR 0x9A, CHR 0xE8, CHR 0xB5, CHR 0x84, CHR 0xE6, CHR 0x96, CHR 0x99] @
   [CHR 0xE5, CHR 0x85, CHR 0xA8, CHR 0xE6, CHR 0x96, CHR 0x87]"

definition T_label_propose_meeting :: string where \<comment> \<open>propose a meeting\<close>
  "T_label_propose_meeting =
   [CHR 0xE6, CHR 0x8F, CHR 0x90, CHR 0xE5, CHR 0x87, CHR 0xBA, CHR 0xE4, CHR 0xBC, CHR 0x9A] @
   [CHR 0xE8, CHR 0xAE, CHR 0xAE, CHR 0xE6, CHR 0x96, CHR 0xB9, CHR 0xE6, CHR 0xA1, CHR 0x88]"

definition T_label_accept_meeting :: string where \<comment> \<open>accept a meeting\<close>
  "T_label_accept_meeting =
   [CHR 0xE6, CHR 0x8E, CHR 0xA5, CHR 0xE5, CHR 0x8F, CHR 0x97, CHR 0xE4, CHR 0xBC, CHR 0x9A] @
   [CHR 0xE8, CHR 0xAE, CHR 0xAE, CHR 0xE6, CHR 0x96, CHR 0xB9, CHR 0xE6, CHR 0xA1, CHR 0x88]"

definition T_label_send_text :: string where \<comment> \<open>send free text (the exact text is confirmed every time)\<close>
  "T_label_send_text =
   [CHR 0xE5, CHR 0x8F, CHR 0x91, CHR 0xE9, CHR 0x80, CHR 0x81, CHR 0xE8, CHR 0x87, CHR 0xAA] @
   [CHR 0xE7, CHR 0x94, CHR 0xB1, CHR 0xE6, CHR 0x96, CHR 0x87, CHR 0xE6, CHR 0x9C, CHR 0xAC] @
   [CHR 0xEF, CHR 0xBC, CHR 0x88, CHR 0xE6, CHR 0xAF, CHR 0x8F, CHR 0xE6, CHR 0xAC, CHR 0xA1] @
   [CHR 0xE9, CHR 0xA1, CHR 0xBB, CHR 0xE7, CHR 0xA1, CHR 0xAE, CHR 0xE8, CHR 0xAE, CHR 0xA4] @
   [CHR 0xE7, CHR 0xA1, CHR 0xAE, CHR 0xE5, CHR 0x88, CHR 0x87, CHR 0xE5, CHR 0x85, CHR 0xA8] @
   [CHR 0xE6, CHR 0x96, CHR 0x87, CHR 0xEF, CHR 0xBC, CHR 0x89]"

definition T_rs_windows :: string where \<comment> \<open>windows actually allowed\<close>
  "T_rs_windows =
   [CHR 0xE5, CHR 0xAE, CHR 0x9E, CHR 0xE9, CHR 0x99, CHR 0x85, CHR 0xE5, CHR 0x85, CHR 0x81] @
   [CHR 0xE8, CHR 0xAE, CHR 0xB8, CHR 0xE6, CHR 0x97, CHR 0xB6, CHR 0xE6, CHR 0xAE, CHR 0xB5] @
   [CHR 0xEF, CHR 0xBC, CHR 0x88] @
   ''UTC'' @
   [CHR 0xEF, CHR 0xBC, CHR 0x9B, CHR 0xE6, CHR 0xAF, CHR 0x8F, CHR 0xE4, CHR 0xB8, CHR 0xAA] @
   [CHR 0xE5, CHR 0x80, CHR 0x99, CHR 0xE9, CHR 0x80, CHR 0x89] @
   ''/'' @
   [CHR 0xE4, CHR 0xBC, CHR 0x9A, CHR 0xE8, CHR 0xAE, CHR 0xAE, CHR 0xE9, CHR 0xA1, CHR 0xBB] @
   [CHR 0xE5, CHR 0xAE, CHR 0x8C, CHR 0xE6, CHR 0x95, CHR 0xB4, CHR 0xE8, CHR 0x90, CHR 0xBD] @
   [CHR 0xE5, CHR 0x9C, CHR 0xA8, CHR 0xE4, CHR 0xB8, CHR 0x8B, CHR 0xE5, CHR 0x88, CHR 0x97] @
   [CHR 0xE6, CHR 0x9F, CHR 0x90, CHR 0xE4, CHR 0xB8, CHR 0x80, CHR 0xE4, CHR 0xB8, CHR 0xAA] @
   [CHR 0xE6, CHR 0x97, CHR 0xB6, CHR 0xE6, CHR 0xAE, CHR 0xB5, CHR 0xE5, CHR 0x86, CHR 0x85] @
   [CHR 0xEF, CHR 0xBC, CHR 0x89, CHR 0xEF, CHR 0xBC, CHR 0x9A, CHR 0x0A]"

definition T_to_sep :: string where \<comment> \<open> to \<close>
  "T_to_sep =
   '' '' @
   [CHR 0xE8, CHR 0x87, CHR 0xB3] @
   '' ''"

definition T_rs_no_windows :: string where \<comment> \<open>no separate windows: every hour of the range may be used\<close>
  "T_rs_no_windows =
   [CHR 0xE6, CHR 0x9C, CHR 0xAA, CHR 0xE6, CHR 0x8C, CHR 0x87, CHR 0xE5, CHR 0xAE, CHR 0x9A] @
   [CHR 0xE5, CHR 0x88, CHR 0x86, CHR 0xE6, CHR 0xAE, CHR 0xB5, CHR 0xE5, CHR 0x85, CHR 0x81] @
   [CHR 0xE8, CHR 0xAE, CHR 0xB8, CHR 0xE6, CHR 0x97, CHR 0xB6, CHR 0xE6, CHR 0xAE, CHR 0xB5] @
   [CHR 0xEF, CHR 0xBC, CHR 0x9A, CHR 0xE4, CHR 0xBB, CHR 0xA5, CHR 0xE4, CHR 0xB8, CHR 0x8A] @
   [CHR 0xE6, CHR 0x97, CHR 0xB6, CHR 0xE9, CHR 0x97, CHR 0xB4, CHR 0xE8, CHR 0x8C, CHR 0x83] @
   [CHR 0xE5, CHR 0x9B, CHR 0xB4, CHR 0xE5, CHR 0x86, CHR 0x85, CHR 0xE7, CHR 0x9A, CHR 0x84] @
   [CHR 0xE6, CHR 0xAF, CHR 0x8F, CHR 0xE4, CHR 0xB8, CHR 0x80, CHR 0xE5, CHR 0xA4, CHR 0xA9] @
   [CHR 0xE3, CHR 0x80, CHR 0x81, CHR 0xE6, CHR 0xAF, CHR 0x8F, CHR 0xE4, CHR 0xB8, CHR 0xAA] @
   [CHR 0xE5, CHR 0xB0, CHR 0x8F, CHR 0xE6, CHR 0x97, CHR 0xB6, CHR 0xE5, CHR 0x9D, CHR 0x87] @
   [CHR 0xE5, CHR 0x8F, CHR 0xAF, CHR 0xE4, CHR 0xBD, CHR 0xBF, CHR 0xE7, CHR 0x94, CHR 0xA8] @
   [CHR 0xEF, CHR 0xBC, CHR 0x8C, CHR 0xE4, CHR 0xB8, CHR 0x8D, CHR 0xE8, CHR 0x87, CHR 0xAA] @
   [CHR 0xE5, CHR 0x8A, CHR 0xA8, CHR 0xE6, CHR 0x8E, CHR 0x92, CHR 0xE9, CHR 0x99, CHR 0xA4] @
   [CHR 0xE5, CHR 0xA4, CHR 0x9C, CHR 0xE9, CHR 0x97, CHR 0xB4, CHR 0xE6, CHR 0x88, CHR 0x96] @
   [CHR 0xE5, CHR 0x91, CHR 0xA8, CHR 0xE6, CHR 0x9C, CHR 0xAB, CHR 0xE3, CHR 0x80, CHR 0x82]"

definition T_rs_purpose :: string where \<comment> \<open>purpose\<close>
  "T_rs_purpose =
   [CHR 0xE5, CHR 0xA7, CHR 0x94, CHR 0xE6, CHR 0x89, CHR 0x98, CHR 0xE7, CHR 0x9B, CHR 0xAE] @
   [CHR 0xE7, CHR 0x9A, CHR 0x84, CHR 0xEF, CHR 0xBC, CHR 0x9A]"

definition T_rs_purpose_note :: string where \<comment> \<open>the purpose is an explanation, not a limit\<close>
  "T_rs_purpose_note =
   [CHR 0xE7, CHR 0x9B, CHR 0xAE, CHR 0xE7, CHR 0x9A, CHR 0x84, CHR 0xE6, CHR 0x96, CHR 0x87] @
   [CHR 0xE5, CHR 0xAD, CHR 0x97, CHR 0xE5, CHR 0x8F, CHR 0xAA, CHR 0xE6, CHR 0x98, CHR 0xAF] @
   [CHR 0xE8, CHR 0xAF, CHR 0xB4, CHR 0xE6, CHR 0x98, CHR 0x8E, CHR 0xEF, CHR 0xBC, CHR 0x8C] @
   [CHR 0xE4, CHR 0xB8, CHR 0x8D, CHR 0xE6, CHR 0x9E, CHR 0x84, CHR 0xE6, CHR 0x88, CHR 0x90] @
   [CHR 0xE6, CHR 0x9C, CHR 0xBA, CHR 0xE5, CHR 0x99, CHR 0xA8, CHR 0xE5, CHR 0x8F, CHR 0xAF] @
   [CHR 0xE6, CHR 0xA3, CHR 0x80, CHR 0xE6, CHR 0x9F, CHR 0xA5, CHR 0xE7, CHR 0x9A, CHR 0x84] @
   [CHR 0xE9, CHR 0x99, CHR 0x90, CHR 0xE5, CHR 0x88, CHR 0xB6, CHR 0xEF, CHR 0xBC, CHR 0x9B] @
   [CHR 0xE4, CHR 0xBE, CHR 0x8B, CHR 0xE5, CHR 0xA6, CHR 0x82, CHR 0xE5, CHR 0xB7, CHR 0xA5] @
   [CHR 0xE4, CHR 0xBD, CHR 0x9C, CHR 0xE6, CHR 0x97, CHR 0xA5, CHR 0xE4, CHR 0xB8, CHR 0x8B] @
   [CHR 0xE5, CHR 0x8D, CHR 0x88, CHR 0xE9, CHR 0xA1, CHR 0xBB, CHR 0xE6, CHR 0x98, CHR 0x8E] @
   [CHR 0xE7, CHR 0xA1, CHR 0xAE, CHR 0xE5, CHR 0x88, CHR 0x97, CHR 0xE5, CHR 0x87, CHR 0xBA] @
   [CHR 0xE5, CHR 0xAE, CHR 0x9E, CHR 0xE9, CHR 0x99, CHR 0x85, CHR 0xE5, CHR 0x85, CHR 0x81] @
   [CHR 0xE8, CHR 0xAE, CHR 0xB8, CHR 0xE6, CHR 0x97, CHR 0xB6, CHR 0xE6, CHR 0xAE, CHR 0xB5] @
   [CHR 0xE3, CHR 0x80, CHR 0x82]"

definition T_rs_topic :: string where \<comment> \<open>topic, must be identical\<close>
  "T_rs_topic =
   [CHR 0xE4, CHR 0xBC, CHR 0x9A, CHR 0xE8, CHR 0xAE, CHR 0xAE, CHR 0xE4, CHR 0xB8, CHR 0xBB] @
   [CHR 0xE9, CHR 0xA2, CHR 0x98, CHR 0xEF, CHR 0xBC, CHR 0x88, CHR 0xE9, CHR 0xA1, CHR 0xBB] @
   [CHR 0xE7, CHR 0xB2, CHR 0xBE, CHR 0xE7, CHR 0xA1, CHR 0xAE, CHR 0xE7, CHR 0x9B, CHR 0xB8] @
   [CHR 0xE5, CHR 0x90, CHR 0x8C, CHR 0xEF, CHR 0xBC, CHR 0x89, CHR 0xEF, CHR 0xBC, CHR 0x9A]"

definition T_rs_caps :: string where \<comment> \<open>capabilities\<close>
  "T_rs_caps =
   [CHR 0xE5, CHR 0x85, CHR 0x81, CHR 0xE8, CHR 0xAE, CHR 0xB8, CHR 0xE8, CHR 0x83, CHR 0xBD] @
   [CHR 0xE5, CHR 0x8A, CHR 0x9B, CHR 0xEF, CHR 0xBC, CHR 0x9A]"

definition T_cap_sep :: string where \<comment> \<open>list comma\<close>
  "T_cap_sep =
   [CHR 0xE3, CHR 0x80, CHR 0x81]"

definition T_rs_recipients :: string where \<comment> \<open>recipients\<close>
  "T_rs_recipients =
   [CHR 0xE6, CHR 0x94, CHR 0xB6, CHR 0xE4, CHR 0xBB, CHR 0xB6, CHR 0xE4, CHR 0xBA, CHR 0xBA] @
   '' ID'' @
   [CHR 0xEF, CHR 0xBC, CHR 0x9A]"

definition T_rs_participants :: string where \<comment> \<open>participants\<close>
  "T_rs_participants =
   [CHR 0xE5, CHR 0x8F, CHR 0x82, CHR 0xE4, CHR 0xB8, CHR 0x8E, CHR 0xE4, CHR 0xBA, CHR 0xBA] @
   '' ID'' @
   [CHR 0xEF, CHR 0xBC, CHR 0x9A]"

definition T_rs_resources :: string where \<comment> \<open>resources\<close>
  "T_rs_resources =
   [CHR 0xE5, CHR 0x8F, CHR 0xAF, CHR 0xE5, CHR 0x88, CHR 0x86, CHR 0xE4, CHR 0xBA, CHR 0xAB] @
   [CHR 0xE8, CHR 0xB5, CHR 0x84, CHR 0xE6, CHR 0x96, CHR 0x99] @
   '' ID'' @
   [CHR 0xEF, CHR 0xBC, CHR 0x88, CHR 0xE7, CHR 0xA1, CHR 0xAE, CHR 0xE5, CHR 0x88, CHR 0x87] @
   [CHR 0xE5, CHR 0x85, CHR 0xA8, CHR 0xE6, CHR 0x96, CHR 0x87, CHR 0xE7, CHR 0x94, CHR 0xB1] @
   [CHR 0xE5, CHR 0xAE, CHR 0xBF, CHR 0xE4, CHR 0xB8, CHR 0xBB, CHR 0xE9, CHR 0x99, CHR 0x84] @
   [CHR 0xE4, CHR 0xB8, CHR 0x8A, CHR 0xEF, CHR 0xBC, CHR 0x89, CHR 0xEF, CHR 0xBC, CHR 0x9A]"

definition T_rs_range :: string where \<comment> \<open>time range\<close>
  "T_rs_range =
   [CHR 0xE5, CHR 0x80, CHR 0x99, CHR 0xE9, CHR 0x80, CHR 0x89] @
   ''/'' @
   [CHR 0xE4, CHR 0xBC, CHR 0x9A, CHR 0xE8, CHR 0xAE, CHR 0xAE, CHR 0xE6, CHR 0x97, CHR 0xB6] @
   [CHR 0xE9, CHR 0x97, CHR 0xB4, CHR 0xE8, CHR 0x8C, CHR 0x83, CHR 0xE5, CHR 0x9B, CHR 0xB4] @
   [CHR 0xEF, CHR 0xBC, CHR 0x88] @
   ''UTC'' @
   [CHR 0xEF, CHR 0xBC, CHR 0x89, CHR 0xEF, CHR 0xBC, CHR 0x9A]"

definition T_rs_duration :: string where \<comment> \<open>duration limit\<close>
  "T_rs_duration =
   [CHR 0xE5, CHR 0x8D, CHR 0x95, CHR 0xE6, CHR 0xAC, CHR 0xA1, CHR 0xE6, CHR 0x97, CHR 0xB6] @
   [CHR 0xE9, CHR 0x95, CHR 0xBF, CHR 0xE4, CHR 0xB8, CHR 0x8A, CHR 0xE9, CHR 0x99, CHR 0x90] @
   [CHR 0xEF, CHR 0xBC, CHR 0x9A]"

definition T_rs_minutes :: string where \<comment> \<open> minutes; candidate limit per recipient\<close>
  "T_rs_minutes =
   '' '' @
   [CHR 0xE5, CHR 0x88, CHR 0x86, CHR 0xE9, CHR 0x92, CHR 0x9F, CHR 0xEF, CHR 0xBC, CHR 0x9B] @
   [CHR 0xE6, CHR 0xAF, CHR 0x8F, CHR 0xE4, CHR 0xBD, CHR 0x8D, CHR 0xE6, CHR 0x94, CHR 0xB6] @
   [CHR 0xE4, CHR 0xBB, CHR 0xB6, CHR 0xE4, CHR 0xBA, CHR 0xBA, CHR 0xE7, CHR 0x9A, CHR 0x84] @
   [CHR 0xE7, CHR 0xB4, CHR 0xAF, CHR 0xE8, CHR 0xAE, CHR 0xA1, CHR 0xE5, CHR 0x80, CHR 0x99] @
   [CHR 0xE9, CHR 0x80, CHR 0x89, CHR 0xE4, CHR 0xB8, CHR 0x8A, CHR 0xE9, CHR 0x99, CHR 0x90] @
   [CHR 0xEF, CHR 0xBC, CHR 0x9A]"

definition T_rs_actions :: string where \<comment> \<open>action limit\<close>
  "T_rs_actions =
   [CHR 0xE7, CHR 0xB4, CHR 0xAF, CHR 0xE8, CHR 0xAE, CHR 0xA1, CHR 0xE5, CHR 0x8A, CHR 0xA8] @
   [CHR 0xE4, CHR 0xBD, CHR 0x9C, CHR 0xE4, CHR 0xB8, CHR 0x8A, CHR 0xE9, CHR 0x99, CHR 0x90] @
   [CHR 0xEF, CHR 0xBC, CHR 0x9A]"

definition T_rs_expiry :: string where \<comment> \<open>; expiry\<close>
  "T_rs_expiry =
   [CHR 0xEF, CHR 0xBC, CHR 0x9B, CHR 0xE5, CHR 0xA7, CHR 0x94, CHR 0xE6, CHR 0x89, CHR 0x98] @
   [CHR 0xE5, CHR 0x88, CHR 0xB0, CHR 0xE6, CHR 0x9C, CHR 0x9F, CHR 0xEF, CHR 0xBC, CHR 0x88] @
   ''UTC'' @
   [CHR 0xEF, CHR 0xBC, CHR 0x89, CHR 0xEF, CHR 0xBC, CHR 0x9A]"

definition T_rs_footer :: string where \<comment> \<open>free text is confirmed each time; no other capability is included\<close>
  "T_rs_footer =
   [CHR 0xE8, CHR 0x87, CHR 0xAA, CHR 0xE7, CHR 0x94, CHR 0xB1, CHR 0xE6, CHR 0x96, CHR 0x87] @
   [CHR 0xE6, CHR 0x9C, CHR 0xAC, CHR 0xE6, CHR 0xAF, CHR 0x8F, CHR 0xE6, CHR 0xAC, CHR 0xA1] @
   [CHR 0xE5, CHR 0x8F, CHR 0xA6, CHR 0xE8, CHR 0xA1, CHR 0x8C, CHR 0xE7, CHR 0xA1, CHR 0xAE] @
   [CHR 0xE8, CHR 0xAE, CHR 0xA4, CHR 0xE7, CHR 0xA1, CHR 0xAE, CHR 0xE5, CHR 0x88, CHR 0x87] @
   [CHR 0xE5, CHR 0x85, CHR 0xA8, CHR 0xE6, CHR 0x96, CHR 0x87, CHR 0xEF, CHR 0xBC, CHR 0x9B] @
   [CHR 0xE6, CHR 0x9C, CHR 0xAC, CHR 0xE5, CHR 0xA7, CHR 0x94, CHR 0xE6, CHR 0x89, CHR 0x98] @
   [CHR 0xE4, CHR 0xB8, CHR 0x8D, CHR 0xE5, CHR 0x8C, CHR 0x85, CHR 0xE6, CHR 0x8B, CHR 0xAC] @
   [CHR 0xE6, CHR 0x94, CHR 0xAF, CHR 0xE4, CHR 0xBB, CHR 0x98, CHR 0xE3, CHR 0x80, CHR 0x81] @
   [CHR 0xE6, CHR 0x97, CHR 0xA5, CHR 0xE5, CHR 0x8E, CHR 0x86, CHR 0xE5, CHR 0x86, CHR 0x99] @
   [CHR 0xE5, CHR 0x85, CHR 0xA5, CHR 0xE6, CHR 0x88, CHR 0x96, CHR 0xE5, CHR 0x85, CHR 0xB6] @
   [CHR 0xE5, CHR 0xAE, CHR 0x83, CHR 0xE6, CHR 0x9C, CHR 0xAA, CHR 0xE5, CHR 0x88, CHR 0x97] @
   [CHR 0xE5, CHR 0x87, CHR 0xBA, CHR 0xE7, CHR 0x9A, CHR 0x84, CHR 0xE6, CHR 0x89, CHR 0xA7] @
   [CHR 0xE8, CHR 0xA1, CHR 0x8C, CHR 0xE8, CHR 0x83, CHR 0xBD, CHR 0xE5, CHR 0x8A, CHR 0x9B] @
   [CHR 0xE3, CHR 0x80, CHR 0x82]"

definition T_ra_action :: string where \<comment> \<open>action\<close>
  "T_ra_action =
   [CHR 0xE5, CHR 0x8A, CHR 0xA8, CHR 0xE4, CHR 0xBD, CHR 0x9C, CHR 0xEF, CHR 0xBC, CHR 0x9A]"

definition T_ra_params :: string where \<comment> \<open>exact parameters\<close>
  "T_ra_params =
   [CHR 0xE7, CHR 0xA1, CHR 0xAE, CHR 0xE5, CHR 0x88, CHR 0x87, CHR 0xE5, CHR 0x8F, CHR 0x82] @
   [CHR 0xE6, CHR 0x95, CHR 0xB0, CHR 0xEF, CHR 0xBC, CHR 0x9A]"

definition T_cm_slots :: string where \<comment> \<open>available slots\<close>
  "T_cm_slots =
   [CHR 0xE5, CHR 0x8F, CHR 0xAF, CHR 0xE9, CHR 0x80, CHR 0x89, CHR 0xE6, CHR 0x97, CHR 0xB6] @
   [CHR 0xE6, CHR 0xAE, CHR 0xB5, CHR 0xEF, CHR 0xBC, CHR 0x88] @
   ''UTC'' @
   [CHR 0xEF, CHR 0xBC, CHR 0x89, CHR 0xEF, CHR 0xBC, CHR 0x9A, CHR 0x0A]"

definition T_cm_propose :: string where \<comment> \<open>propose a meeting\<close>
  "T_cm_propose =
   [CHR 0xE6, CHR 0x8F, CHR 0x90, CHR 0xE5, CHR 0x87, CHR 0xBA, CHR 0xE4, CHR 0xBC, CHR 0x9A] @
   [CHR 0xE8, CHR 0xAE, CHR 0xAE, CHR 0xE6, CHR 0x96, CHR 0xB9, CHR 0xE6, CHR 0xA1, CHR 0x88]"

definition T_cm_accept :: string where \<comment> \<open>accept the following meeting\<close>
  "T_cm_accept =
   [CHR 0xE6, CHR 0x8E, CHR 0xA5, CHR 0xE5, CHR 0x8F, CHR 0x97, CHR 0xE4, CHR 0xBB, CHR 0xA5] @
   [CHR 0xE4, CHR 0xB8, CHR 0x8B, CHR 0xE4, CHR 0xBC, CHR 0x9A, CHR 0xE8, CHR 0xAE, CHR 0xAE] @
   [CHR 0xE6, CHR 0x96, CHR 0xB9, CHR 0xE6, CHR 0xA1, CHR 0x88]"

definition T_colon :: string where \<comment> \<open>colon\<close>
  "T_colon =
   [CHR 0xEF, CHR 0xBC, CHR 0x9A]"

definition T_cm_version :: string where \<comment> \<open>, version \<close>
  "T_cm_version =
   [CHR 0xEF, CHR 0xBC, CHR 0x8C, CHR 0xE7, CHR 0x89, CHR 0x88, CHR 0xE6, CHR 0x9C, CHR 0xAC] @
   '' ''"

definition T_cm_topic :: string where \<comment> \<open>topic\<close>
  "T_cm_topic =
   [CHR 0xE4, CHR 0xB8, CHR 0xBB, CHR 0xE9, CHR 0xA2, CHR 0x98, CHR 0xEF, CHR 0xBC, CHR 0x9A]"

definition T_cm_time :: string where \<comment> \<open>time\<close>
  "T_cm_time =
   [CHR 0xE6, CHR 0x97, CHR 0xB6, CHR 0xE9, CHR 0x97, CHR 0xB4, CHR 0xEF, CHR 0xBC, CHR 0x88] @
   ''UTC'' @
   [CHR 0xEF, CHR 0xBC, CHR 0x89, CHR 0xEF, CHR 0xBC, CHR 0x9A]"

definition T_at_collab_unavailable :: string where \<comment> \<open>the peer content may not be used yet\<close>
  "T_at_collab_unavailable =
   [CHR 0xE5, CHR 0xAF, CHR 0xB9, CHR 0xE7, CHR 0xAB, CHR 0xAF, CHR 0xE5, CHR 0x86, CHR 0x85] @
   [CHR 0xE5, CHR 0xAE, CHR 0xB9, CHR 0xE5, CHR 0xB0, CHR 0x9A, CHR 0xE6, CHR 0x9C, CHR 0xAA] @
   [CHR 0xE5, CHR 0x85, CHR 0x81, CHR 0xE8, CHR 0xAE, CHR 0xB8, CHR 0xE4, CHR 0xBD, CHR 0xBF] @
   [CHR 0xE7, CHR 0x94, CHR 0xA8, CHR 0xE3, CHR 0x80, CHR 0x82]"

definition T_at_contact :: string where \<comment> \<open>a friend request needs your confirmation\<close>
  "T_at_contact =
   [CHR 0xE5, CHR 0xA5, CHR 0xBD, CHR 0xE5, CHR 0x8F, CHR 0x8B, CHR 0xE8, CHR 0xAF, CHR 0xB7] @
   [CHR 0xE6, CHR 0xB1, CHR 0x82, CHR 0xE9, CHR 0x9C, CHR 0x80, CHR 0xE8, CHR 0xA6, CHR 0x81] @
   [CHR 0xE4, CHR 0xBD, CHR 0xA0, CHR 0xE7, CHR 0xA1, CHR 0xAE, CHR 0xE8, CHR 0xAE, CHR 0xA4]"

definition T_at_response :: string where \<comment> \<open>an answer to a friend request needs your confirmation\<close>
  "T_at_response =
   [CHR 0xE5, CHR 0xA5, CHR 0xBD, CHR 0xE5, CHR 0x8F, CHR 0x8B, CHR 0xE8, CHR 0xAF, CHR 0xB7] @
   [CHR 0xE6, CHR 0xB1, CHR 0x82, CHR 0xE5, CHR 0x9B, CHR 0x9E, CHR 0xE5, CHR 0xA4, CHR 0x8D] @
   [CHR 0xE9, CHR 0x9C, CHR 0x80, CHR 0xE8, CHR 0xA6, CHR 0x81, CHR 0xE4, CHR 0xBD, CHR 0xA0] @
   [CHR 0xE7, CHR 0xA1, CHR 0xAE, CHR 0xE8, CHR 0xAE, CHR 0xA4]"

definition T_at_message :: string where \<comment> \<open>sending a message needs your confirmation\<close>
  "T_at_message =
   [CHR 0xE5, CHR 0x8F, CHR 0x91, CHR 0xE9, CHR 0x80, CHR 0x81, CHR 0xE6, CHR 0xB6, CHR 0x88] @
   [CHR 0xE6, CHR 0x81, CHR 0xAF, CHR 0xE9, CHR 0x9C, CHR 0x80, CHR 0xE8, CHR 0xA6, CHR 0x81] @
   [CHR 0xE4, CHR 0xBD, CHR 0xA0, CHR 0xE7, CHR 0xA1, CHR 0xAE, CHR 0xE8, CHR 0xAE, CHR 0xA4]"

definition T_at_task :: string where \<comment> \<open>a mandate needs your confirmation\<close>
  "T_at_task =
   [CHR 0xE5, CHR 0x8D, CHR 0x8F, CHR 0xE4, CHR 0xBD, CHR 0x9C, CHR 0xE5, CHR 0xA7, CHR 0x94] @
   [CHR 0xE6, CHR 0x89, CHR 0x98, CHR 0xE9, CHR 0x9C, CHR 0x80, CHR 0xE8, CHR 0xA6, CHR 0x81] @
   [CHR 0xE4, CHR 0xBD, CHR 0xA0, CHR 0xE7, CHR 0xA1, CHR 0xAE, CHR 0xE8, CHR 0xAE, CHR 0xA4]"

definition T_at_worker :: string where \<comment> \<open>a worker policy needs your confirmation\<close>
  "T_at_worker =
   [CHR 0xE6, CHR 0x9C, CHR 0x89, CHR 0xE9, CHR 0x99, CHR 0x90, CHR 0xE5, CHR 0x90, CHR 0x8E] @
   [CHR 0xE5, CHR 0x8F, CHR 0xB0, CHR 0xE7, CHR 0xAD, CHR 0x96, CHR 0xE7, CHR 0x95, CHR 0xA5] @
   [CHR 0xE9, CHR 0x9C, CHR 0x80, CHR 0xE8, CHR 0xA6, CHR 0x81, CHR 0xE4, CHR 0xBD, CHR 0xA0] @
   [CHR 0xE7, CHR 0xA1, CHR 0xAE, CHR 0xE8, CHR 0xAE, CHR 0xA4]"

definition T_at_operation :: string where \<comment> \<open>an action needs your confirmation\<close>
  "T_at_operation =
   [CHR 0xE5, CHR 0x8D, CHR 0x8F, CHR 0xE4, CHR 0xBD, CHR 0x9C, CHR 0xE5, CHR 0x8A, CHR 0xA8] @
   [CHR 0xE4, CHR 0xBD, CHR 0x9C, CHR 0xE9, CHR 0x9C, CHR 0x80, CHR 0xE8, CHR 0xA6, CHR 0x81] @
   [CHR 0xE4, CHR 0xBD, CHR 0xA0, CHR 0xE7, CHR 0xA1, CHR 0xAE, CHR 0xE8, CHR 0xAE, CHR 0xA4]"

definition T_at_v2 :: string where \<comment> \<open>a bilateral collaboration needs your confirmation\<close>
  "T_at_v2 =
   [CHR 0xE5, CHR 0x8F, CHR 0x8C, CHR 0xE8, CHR 0xBE, CHR 0xB9, CHR 0xE5, CHR 0x8D, CHR 0x8F] @
   [CHR 0xE4, CHR 0xBD, CHR 0x9C, CHR 0xE9, CHR 0x9C, CHR 0x80, CHR 0xE8, CHR 0xA6, CHR 0x81] @
   [CHR 0xE4, CHR 0xBD, CHR 0xA0, CHR 0xE7, CHR 0xA1, CHR 0xAE, CHR 0xE8, CHR 0xAE, CHR 0xA4]"

definition T_at_approval_summary :: string where \<comment> \<open>review the exact action and decide\<close>
  "T_at_approval_summary =
   [CHR 0xE8, CHR 0xAF, CHR 0xB7, CHR 0xE6, CHR 0x9F, CHR 0xA5, CHR 0xE7, CHR 0x9C, CHR 0x8B] @
   [CHR 0xE5, CHR 0xBD, CHR 0x93, CHR 0xE5, CHR 0x89, CHR 0x8D, CHR 0xE7, CHR 0xA1, CHR 0xAE] @
   [CHR 0xE5, CHR 0x88, CHR 0x87, CHR 0xE5, CHR 0x8A, CHR 0xA8, CHR 0xE4, CHR 0xBD, CHR 0x9C] @
   [CHR 0xEF, CHR 0xBC, CHR 0x8C, CHR 0xE5, CHR 0xB9, CHR 0xB6, CHR 0xE5, CHR 0x9C, CHR 0xA8] @
   [CHR 0xE5, CHR 0xB7, CHR 0xB2, CHR 0xE9, CHR 0x85, CHR 0x8D, CHR 0xE5, CHR 0xAF, CHR 0xB9] @
   [CHR 0xE7, CHR 0x9A, CHR 0x84] @
   '' Web '' @
   [CHR 0xE6, CHR 0x8E, CHR 0xA7, CHR 0xE5, CHR 0x88, CHR 0xB6, CHR 0xE5, CHR 0x8F, CHR 0xB0] @
   [CHR 0xE6, CHR 0x88, CHR 0x96, CHR 0xE5, CHR 0x8E, CHR 0x9F, CHR 0xE7, CHR 0x94, CHR 0x9F] @
   [CHR 0xE6, CHR 0xB8, CHR 0xA0, CHR 0xE9, CHR 0x81, CHR 0x93, CHR 0xE5, CHR 0x86, CHR 0xB3] @
   [CHR 0xE5, CHR 0xAE, CHR 0x9A, CHR 0xE3, CHR 0x80, CHR 0x82]"

definition T_at_new_request :: string where \<comment> \<open>a new collaboration request arrived\<close>
  "T_at_new_request =
   [CHR 0xE6, CHR 0x94, CHR 0xB6, CHR 0xE5, CHR 0x88, CHR 0xB0, CHR 0xE6, CHR 0x96, CHR 0xB0] @
   [CHR 0xE7, CHR 0x9A, CHR 0x84, CHR 0xE5, CHR 0x8D, CHR 0x8F, CHR 0xE4, CHR 0xBD, CHR 0x9C] @
   [CHR 0xE8, CHR 0xAF, CHR 0xB7, CHR 0xE6, CHR 0xB1, CHR 0x82]"

definition T_at_peer_message :: string where \<comment> \<open>a peer message arrived\<close>
  "T_at_peer_message =
   [CHR 0xE6, CHR 0x94, CHR 0xB6, CHR 0xE5, CHR 0x88, CHR 0xB0, CHR 0xE5, CHR 0xAF, CHR 0xB9] @
   [CHR 0xE7, CHR 0xAB, CHR 0xAF, CHR 0xE5, CHR 0x8D, CHR 0x8F, CHR 0xE4, CHR 0xBD, CHR 0x9C] @
   [CHR 0xE6, CHR 0xB6, CHR 0x88, CHR 0xE6, CHR 0x81, CHR 0xAF]"

definition T_at_inbound_summary :: string where \<comment> \<open>the peer message is stored\<close>
  "T_at_inbound_summary =
   [CHR 0xE5, CHR 0xAF, CHR 0xB9, CHR 0xE7, CHR 0xAB, CHR 0xAF, CHR 0xE6, CHR 0xB6, CHR 0x88] @
   [CHR 0xE6, CHR 0x81, CHR 0xAF, CHR 0xE5, CHR 0xB7, CHR 0xB2, CHR 0xE4, CHR 0xBF, CHR 0x9D] @
   [CHR 0xE5, CHR 0xAD, CHR 0x98, CHR 0xEF, CHR 0xBC, CHR 0x9B, CHR 0xE5, CHR 0x86, CHR 0x85] @
   [CHR 0xE5, CHR 0xAE, CHR 0xB9, CHR 0xE4, CHR 0xB8, CHR 0x8E, CHR 0xE6, CHR 0x8E, CHR 0x88] @
   [CHR 0xE6, CHR 0x9D, CHR 0x83, CHR 0xE4, CHR 0xBE, CHR 0x9D, CHR 0xE6, CHR 0x8D, CHR 0xAE] @
   [CHR 0xE9, CHR 0x9C, CHR 0x80, CHR 0xE8, CHR 0xA6, CHR 0x81, CHR 0xE5, CHR 0x88, CHR 0x86] @
   [CHR 0xE5, CHR 0x88, CHR 0xAB, CHR 0xE6, CHR 0xA0, CHR 0xB8, CHR 0xE5, CHR 0xAE, CHR 0x9E] @
   [CHR 0xE3, CHR 0x80, CHR 0x82]"

definition T_at_uncertain :: string where \<comment> \<open>the result of a send needs checking\<close>
  "T_at_uncertain =
   [CHR 0xE5, CHR 0x8D, CHR 0x8F, CHR 0xE4, CHR 0xBD, CHR 0x9C, CHR 0xE5, CHR 0x8F, CHR 0x91] @
   [CHR 0xE9, CHR 0x80, CHR 0x81, CHR 0xE7, CHR 0xBB, CHR 0x93, CHR 0xE6, CHR 0x9E, CHR 0x9C] @
   [CHR 0xE9, CHR 0x9C, CHR 0x80, CHR 0xE8, CHR 0xA6, CHR 0x81, CHR 0xE6, CHR 0xA0, CHR 0xB8] @
   [CHR 0xE5, CHR 0xAF, CHR 0xB9]"

definition T_at_uncertain_summary :: string where \<comment> \<open>check the original operation\<close>
  "T_at_uncertain_summary =
   [CHR 0xE8, CHR 0xAF, CHR 0xB7, CHR 0xE6, CHR 0xA0, CHR 0xB8, CHR 0xE5, CHR 0xAF, CHR 0xB9] @
   [CHR 0xE5, CHR 0x8E, CHR 0x9F, CHR 0xE6, CHR 0x93, CHR 0x8D, CHR 0xE4, CHR 0xBD, CHR 0x9C] @
   [CHR 0xE7, CHR 0xBB, CHR 0x93, CHR 0xE6, CHR 0x9E, CHR 0x9C, CHR 0xEF, CHR 0xBC, CHR 0x9B] @
   [CHR 0xE4, CHR 0xB8, CHR 0x8D, CHR 0xE8, CHR 0xA6, CHR 0x81, CHR 0xE5, CHR 0x88, CHR 0x9B] @
   [CHR 0xE5, CHR 0xBB, CHR 0xBA, CHR 0xE6, CHR 0x96, CHR 0xB0, CHR 0xE7, CHR 0x9A, CHR 0x84] @
   [CHR 0xE9, CHR 0x87, CHR 0x8D, CHR 0xE5, CHR 0xA4, CHR 0x8D, CHR 0xE6, CHR 0x93, CHR 0x8D] @
   [CHR 0xE4, CHR 0xBD, CHR 0x9C, CHR 0xE3, CHR 0x80, CHR 0x82]"

definition T_at_completed :: string where \<comment> \<open>the collaboration is settled\<close>
  "T_at_completed =
   [CHR 0xE5, CHR 0x8F, CHR 0x8C, CHR 0xE8, CHR 0xBE, CHR 0xB9, CHR 0xE5, CHR 0x8D, CHR 0x8F] @
   [CHR 0xE4, CHR 0xBD, CHR 0x9C, CHR 0xE7, CHR 0x8A, CHR 0xB6, CHR 0xE6, CHR 0x80, CHR 0x81] @
   [CHR 0xE5, CHR 0xB7, CHR 0xB2, CHR 0xE7, CHR 0xA1, CHR 0xAE, CHR 0xE8, CHR 0xAE, CHR 0xA4]"

definition T_at_cancelled_summary :: string where \<comment> \<open>both sides cancelled\<close>
  "T_at_cancelled_summary =
   [CHR 0xE5, CHR 0x8F, CHR 0x8C, CHR 0xE6, CHR 0x96, CHR 0xB9, CHR 0xE5, CHR 0xB7, CHR 0xB2] @
   [CHR 0xE7, CHR 0xA1, CHR 0xAE, CHR 0xE8, CHR 0xAE, CHR 0xA4, CHR 0xE5, CHR 0x8F, CHR 0x96] @
   [CHR 0xE6, CHR 0xB6, CHR 0x88, CHR 0xE7, CHR 0xBA, CHR 0xA6, CHR 0xE5, CHR 0xAE, CHR 0x9A] @
   [CHR 0xE3, CHR 0x80, CHR 0x82]"

definition T_at_agreed_summary :: string where \<comment> \<open>both sides share the agreement\<close>
  "T_at_agreed_summary =
   [CHR 0xE5, CHR 0x8F, CHR 0x8C, CHR 0xE6, CHR 0x96, CHR 0xB9, CHR 0xE5, CHR 0xB7, CHR 0xB2] @
   [CHR 0xE5, CHR 0x90, CHR 0x8C, CHR 0xE6, CHR 0xAD, CHR 0xA5, CHR 0xE5, CHR 0x90, CHR 0x8C] @
   [CHR 0xE7, CHR 0x89, CHR 0x88, CHR 0xE7, CHR 0xBA, CHR 0xA6, CHR 0xE5, CHR 0xAE, CHR 0x9A] @
   [CHR 0xEF, CHR 0xBC, CHR 0x9B, CHR 0xE6, CHR 0x9C, CHR 0xAC, CHR 0xE6, CHR 0xAC, CHR 0xA1] @
   [CHR 0xE5, CHR 0x8F, CHR 0xAA, CHR 0xE5, CHR 0x8D, CHR 0x8F, CHR 0xE8, CHR 0xB0, CHR 0x83] @
   [CHR 0xE6, CHR 0x96, CHR 0xB9, CHR 0xE6, CHR 0xA1, CHR 0x88, CHR 0xEF, CHR 0xBC, CHR 0x8C] @
   [CHR 0xE6, CHR 0x9C, CHR 0xAA, CHR 0xE5, CHR 0x88, CHR 0x9B, CHR 0xE5, CHR 0xBB, CHR 0xBA] @
   [CHR 0xE6, CHR 0x97, CHR 0xA5, CHR 0xE5, CHR 0x8E, CHR 0x86, CHR 0xE3, CHR 0x80, CHR 0x82]"

definition T_at_recovery :: string where \<comment> \<open>the collaboration needs recovery\<close>
  "T_at_recovery =
   [CHR 0xE5, CHR 0x8D, CHR 0x8F, CHR 0xE4, CHR 0xBD, CHR 0x9C, CHR 0xE9, CHR 0x9C, CHR 0x80] @
   [CHR 0xE8, CHR 0xA6, CHR 0x81, CHR 0xE6, CHR 0x81, CHR 0xA2, CHR 0xE5, CHR 0xA4, CHR 0x8D] @
   [CHR 0xE6, CHR 0x88, CHR 0x96, CHR 0xE6, CHR 0xA0, CHR 0xB8, CHR 0xE5, CHR 0xAF, CHR 0xB9]"

definition T_at_recovery_summary :: string where \<comment> \<open>see the waiting reason\<close>
  "T_at_recovery_summary =
   [CHR 0xE8, CHR 0xAF, CHR 0xB7, CHR 0xE5, CHR 0x9C, CHR 0xA8, CHR 0xE5, CHR 0x8E, CHR 0x9F] @
   [CHR 0xE7, CHR 0x94, CHR 0x9F, CHR 0xE6, CHR 0xB8, CHR 0xA0, CHR 0xE9, CHR 0x81, CHR 0x93] @
   [CHR 0xE6, CHR 0x9F, CHR 0xA5, CHR 0xE7, CHR 0x9C, CHR 0x8B, CHR 0xE5, CHR 0xBD, CHR 0x93] @
   [CHR 0xE5, CHR 0x89, CHR 0x8D, CHR 0xE7, CHR 0xAD, CHR 0x89, CHR 0xE5, CHR 0xBE, CHR 0x85] @
   [CHR 0xE5, CHR 0x8E, CHR 0x9F, CHR 0xE5, CHR 0x9B, CHR 0xA0, CHR 0xE5, CHR 0xB9, CHR 0xB6] @
   [CHR 0xE6, CHR 0x81, CHR 0xA2, CHR 0xE5, CHR 0xA4, CHR 0x8D, CHR 0xE6, CHR 0xAD, CHR 0xA4] @
   [CHR 0xE4, CHR 0xBA, CHR 0x8B, CHR 0xE9, CHR 0xA1, CHR 0xB9, CHR 0xE3, CHR 0x80, CHR 0x82]"

definition T_at_respond :: string where \<comment> \<open>the collaboration waits for this side\<close>
  "T_at_respond =
   [CHR 0xE5, CHR 0x8D, CHR 0x8F, CHR 0xE4, CHR 0xBD, CHR 0x9C, CHR 0xE7, CHR 0xAD, CHR 0x89] @
   [CHR 0xE5, CHR 0xBE, CHR 0x85, CHR 0xE6, CHR 0x9C, CHR 0xAC, CHR 0xE6, CHR 0x96, CHR 0xB9] @
   [CHR 0xE5, CHR 0xA4, CHR 0x84, CHR 0xE7, CHR 0x90, CHR 0x86]"

definition T_at_respond_summary :: string where \<comment> \<open>see the terms or the cancellation\<close>
  "T_at_respond_summary =
   [CHR 0xE8, CHR 0xAF, CHR 0xB7, CHR 0xE6, CHR 0x9F, CHR 0xA5, CHR 0xE7, CHR 0x9C, CHR 0x8B] @
   [CHR 0xE5, CHR 0xBD, CHR 0x93, CHR 0xE5, CHR 0x89, CHR 0x8D, CHR 0xE6, CHR 0x96, CHR 0xB9] @
   [CHR 0xE6, CHR 0xA1, CHR 0x88, CHR 0xE6, CHR 0x88, CHR 0x96, CHR 0xE5, CHR 0x8F, CHR 0x96] @
   [CHR 0xE6, CHR 0xB6, CHR 0x88, CHR 0xE8, CHR 0xAF, CHR 0xB7, CHR 0xE6, CHR 0xB1, CHR 0x82] @
   [CHR 0xEF, CHR 0xBC, CHR 0x9B, CHR 0xE9, CHR 0x9C, CHR 0x80, CHR 0xE8, CHR 0xA6, CHR 0x81] @
   [CHR 0xE6, CHR 0x8E, CHR 0x88, CHR 0xE6, CHR 0x9D, CHR 0x83, CHR 0xE6, CHR 0x97, CHR 0xB6] @
   [CHR 0xE4, CHR 0xBC, CHR 0x9A, CHR 0xE5, CHR 0x8F, CHR 0xA6, CHR 0xE8, CHR 0xA1, CHR 0x8C] @
   [CHR 0xE5, CHR 0xB1, CHR 0x95, CHR 0xE7, CHR 0xA4, CHR 0xBA, CHR 0xE5, CHR 0x8E, CHR 0x9F] @
   [CHR 0xE7, CHR 0x94, CHR 0x9F, CHR 0xE7, CHR 0xA1, CHR 0xAE, CHR 0xE8, CHR 0xAE, CHR 0xA4] @
   [CHR 0xE3, CHR 0x80, CHR 0x82]"

definition T_at_worker_title :: string where \<comment> \<open>the worker needs you\<close>
  "T_at_worker_title =
   [CHR 0xE6, CHR 0x9C, CHR 0x89, CHR 0xE9, CHR 0x99, CHR 0x90, CHR 0xE5, CHR 0x90, CHR 0x8E] @
   [CHR 0xE5, CHR 0x8F, CHR 0xB0, CHR 0xE5, CHR 0x8D, CHR 0x8F, CHR 0xE4, CHR 0xBD, CHR 0x9C] @
   [CHR 0xE9, CHR 0x9C, CHR 0x80, CHR 0xE8, CHR 0xA6, CHR 0x81, CHR 0xE4, CHR 0xBD, CHR 0xA0] @
   [CHR 0xE5, CHR 0xA4, CHR 0x84, CHR 0xE7, CHR 0x90, CHR 0x86]"

definition T_at_worker_summary :: string where \<comment> \<open>see the task state and budget\<close>
  "T_at_worker_summary =
   [CHR 0xE8, CHR 0xAF, CHR 0xB7, CHR 0xE6, CHR 0x9F, CHR 0xA5, CHR 0xE7, CHR 0x9C, CHR 0x8B] @
   [CHR 0xE4, CHR 0xBB, CHR 0xBB, CHR 0xE5, CHR 0x8A, CHR 0xA1, CHR 0xE7, CHR 0x9A, CHR 0x84] @
   [CHR 0xE5, CHR 0xBD, CHR 0x93, CHR 0xE5, CHR 0x89, CHR 0x8D, CHR 0xE7, CHR 0x8A, CHR 0xB6] @
   [CHR 0xE6, CHR 0x80, CHR 0x81, CHR 0xE3, CHR 0x80, CHR 0x81, CHR 0xE8, CHR 0xBF, CHR 0x90] @
   [CHR 0xE8, CHR 0xA1, CHR 0x8C, CHR 0xE9, CHR 0xA2, CHR 0x84, CHR 0xE7, CHR 0xAE, CHR 0x97] @
   [CHR 0xE4, CHR 0xB8, CHR 0x8E, CHR 0xE5, CHR 0xBE, CHR 0x85, CHR 0xE5, CHR 0x86, CHR 0xB3] @
   [CHR 0xE5, CHR 0xAE, CHR 0x9A, CHR 0xE9, CHR 0x97, CHR 0xAE, CHR 0xE9, CHR 0xA2, CHR 0x98] @
   [CHR 0xE3, CHR 0x80, CHR 0x82]"

definition T_at_friend_received :: string where \<comment> \<open>a friend request arrived\<close>
  "T_at_friend_received =
   [CHR 0xE6, CHR 0x94, CHR 0xB6, CHR 0xE5, CHR 0x88, CHR 0xB0, CHR 0xE5, CHR 0xA5, CHR 0xBD] @
   [CHR 0xE5, CHR 0x8F, CHR 0x8B, CHR 0xE8, CHR 0xAF, CHR 0xB7, CHR 0xE6, CHR 0xB1, CHR 0x82]"

definition T_at_friend_accepted :: string where \<comment> \<open>the friend request was accepted\<close>
  "T_at_friend_accepted =
   [CHR 0xE5, CHR 0xA5, CHR 0xBD, CHR 0xE5, CHR 0x8F, CHR 0x8B, CHR 0xE8, CHR 0xAF, CHR 0xB7] @
   [CHR 0xE6, CHR 0xB1, CHR 0x82, CHR 0xE5, CHR 0xB7, CHR 0xB2, CHR 0xE6, CHR 0x8E, CHR 0xA5] @
   [CHR 0xE5, CHR 0x8F, CHR 0x97]"

definition T_at_friend_rejected :: string where \<comment> \<open>the friend request was rejected\<close>
  "T_at_friend_rejected =
   [CHR 0xE5, CHR 0xA5, CHR 0xBD, CHR 0xE5, CHR 0x8F, CHR 0x8B, CHR 0xE8, CHR 0xAF, CHR 0xB7] @
   [CHR 0xE6, CHR 0xB1, CHR 0x82, CHR 0xE5, CHR 0xB7, CHR 0xB2, CHR 0xE6, CHR 0x8B, CHR 0x92] @
   [CHR 0xE7, CHR 0xBB, CHR 0x9D]"

definition T_at_turn_done :: string where \<comment> \<open>the turn ended\<close>
  "T_at_turn_done =
   [CHR 0xE5, CHR 0xAF, CHR 0xB9, CHR 0xE8, CHR 0xAF, CHR 0x9D, CHR 0xE5, CHR 0x9B, CHR 0x9E] @
   [CHR 0xE5, CHR 0x90, CHR 0x88, CHR 0xE5, CHR 0xB7, CHR 0xB2, CHR 0xE7, CHR 0xBB, CHR 0x93] @
   [CHR 0xE6, CHR 0x9D, CHR 0x9F]"

definition T_at_turn_check :: string where \<comment> \<open>the result of the turn needs a look\<close>
  "T_at_turn_check =
   [CHR 0xE5, CHR 0xAF, CHR 0xB9, CHR 0xE8, CHR 0xAF, CHR 0x9D, CHR 0xE5, CHR 0xA4, CHR 0x84] @
   [CHR 0xE7, CHR 0x90, CHR 0x86, CHR 0xE7, CHR 0xBB, CHR 0x93, CHR 0xE6, CHR 0x9E, CHR 0x9C] @
   [CHR 0xE9, CHR 0x9C, CHR 0x80, CHR 0xE8, CHR 0xA6, CHR 0x81, CHR 0xE6, CHR 0x9F, CHR 0xA5] @
   [CHR 0xE7, CHR 0x9C, CHR 0x8B]"

definition T_at_turn_running :: string where \<comment> \<open>the turn is running\<close>
  "T_at_turn_running =
   [CHR 0xE5, CHR 0xAF, CHR 0xB9, CHR 0xE8, CHR 0xAF, CHR 0x9D, CHR 0xE6, CHR 0xAD, CHR 0xA3] @
   [CHR 0xE5, CHR 0x9C, CHR 0xA8, CHR 0xE5, CHR 0xA4, CHR 0x84, CHR 0xE7, CHR 0x90, CHR 0x86]"

definition T_at_turn_done_s :: string where \<comment> \<open>see the reply in the conversation\<close>
  "T_at_turn_done_s =
   ''Agent '' @
   [CHR 0xE5, CHR 0xB7, CHR 0xB2, CHR 0xE7, CHR 0xBB, CHR 0x93, CHR 0xE6, CHR 0x9D, CHR 0x9F] @
   [CHR 0xE8, CHR 0xBF, CHR 0x99, CHR 0xE4, CHR 0xB8, CHR 0x80, CHR 0xE5, CHR 0x9B, CHR 0x9E] @
   [CHR 0xE5, CHR 0x90, CHR 0x88, CHR 0xEF, CHR 0xBC, CHR 0x9B, CHR 0xE8, CHR 0xAF, CHR 0xB7] @
   [CHR 0xE5, CHR 0x9B, CHR 0x9E, CHR 0xE5, CHR 0x88, CHR 0xB0, CHR 0xE5, CHR 0x8E, CHR 0x9F] @
   [CHR 0xE5, CHR 0xAF, CHR 0xB9, CHR 0xE8, CHR 0xAF, CHR 0x9D, CHR 0xE6, CHR 0x9F, CHR 0xA5] @
   [CHR 0xE7, CHR 0x9C, CHR 0x8B, CHR 0xE5, CHR 0xAE, CHR 0x9E, CHR 0xE9, CHR 0x99, CHR 0x85] @
   [CHR 0xE5, CHR 0x9B, CHR 0x9E, CHR 0xE5, CHR 0xA4, CHR 0x8D, CHR 0xE3, CHR 0x80, CHR 0x82]"

definition T_at_turn_interrupted_s :: string where \<comment> \<open>the result is uncertain\<close>
  "T_at_turn_interrupted_s =
   ''Agent '' @
   [CHR 0xE5, CHR 0x9C, CHR 0xA8, CHR 0xE5, CHR 0xA4, CHR 0x84, CHR 0xE7, CHR 0x90, CHR 0x86] @
   [CHR 0xE8, CHR 0xBF, CHR 0x87, CHR 0xE7, CHR 0xA8, CHR 0x8B, CHR 0xE4, CHR 0xB8, CHR 0xAD] @
   [CHR 0xE9, CHR 0x87, CHR 0x8D, CHR 0xE5, CHR 0x90, CHR 0xAF, CHR 0xE6, CHR 0x88, CHR 0x96] @
   [CHR 0xE5, CHR 0x81, CHR 0x9C, CHR 0xE6, CHR 0xAD, CHR 0xA2, CHR 0xEF, CHR 0xBC, CHR 0x8C] @
   [CHR 0xE6, CHR 0x89, CHR 0xA7, CHR 0xE8, CHR 0xA1, CHR 0x8C, CHR 0xE7, CHR 0xBB, CHR 0x93] @
   [CHR 0xE6, CHR 0x9E, CHR 0x9C, CHR 0xE4, CHR 0xB8, CHR 0x8D, CHR 0xE7, CHR 0xA1, CHR 0xAE] @
   [CHR 0xE5, CHR 0xAE, CHR 0x9A, CHR 0xEF, CHR 0xBC, CHR 0x9B, CHR 0xE8, CHR 0xAF, CHR 0xB7] @
   [CHR 0xE6, CHR 0xA0, CHR 0xB8, CHR 0xE5, CHR 0xAF, CHR 0xB9, CHR 0xE5, CHR 0x8E, CHR 0x9F] @
   [CHR 0xE5, CHR 0x9B, CHR 0x9E, CHR 0xE5, CHR 0x90, CHR 0x88, CHR 0xEF, CHR 0xBC, CHR 0x8C] @
   [CHR 0xE4, CHR 0xB8, CHR 0x8D, CHR 0xE8, CHR 0xA6, CHR 0x81, CHR 0xE9, CHR 0x87, CHR 0x8D] @
   [CHR 0xE5, CHR 0xA4, CHR 0x8D, CHR 0xE6, CHR 0x8F, CHR 0x90, CHR 0xE4, CHR 0xBA, CHR 0xA4] @
   [CHR 0xE3, CHR 0x80, CHR 0x82]"

definition T_at_turn_failed_s :: string where \<comment> \<open>the turn did not complete\<close>
  "T_at_turn_failed_s =
   [CHR 0xE8, CHR 0xBF, CHR 0x99, CHR 0xE4, CHR 0xB8, CHR 0x80, CHR 0xE5, CHR 0x9B, CHR 0x9E] @
   [CHR 0xE5, CHR 0x90, CHR 0x88, CHR 0xE6, CHR 0x9C, CHR 0xAA, CHR 0xE6, CHR 0xAD, CHR 0xA3] @
   [CHR 0xE5, CHR 0xB8, CHR 0xB8, CHR 0xE5, CHR 0xAE, CHR 0x8C, CHR 0xE6, CHR 0x88, CHR 0x90] @
   [CHR 0xEF, CHR 0xBC, CHR 0x9B, CHR 0xE8, CHR 0xAF, CHR 0xB7, CHR 0xE6, CHR 0x9F, CHR 0xA5] @
   [CHR 0xE7, CHR 0x9C, CHR 0x8B, CHR 0xE5, CHR 0x8E, CHR 0x9F, CHR 0xE5, CHR 0x9B, CHR 0x9E] @
   [CHR 0xE5, CHR 0x90, CHR 0x88, CHR 0xE7, CHR 0x9A, CHR 0x84, CHR 0xE5, CHR 0x8E, CHR 0x9F] @
   [CHR 0xE5, CHR 0x9B, CHR 0xA0, CHR 0xE5, CHR 0x92, CHR 0x8C, CHR 0xE5, CHR 0xB7, CHR 0xB2] @
   [CHR 0xE5, CHR 0x8F, CHR 0x91, CHR 0xE7, CHR 0x94, CHR 0x9F, CHR 0xE7, CHR 0x9A, CHR 0x84] @
   [CHR 0xE5, CHR 0x8A, CHR 0xA8, CHR 0xE4, CHR 0xBD, CHR 0x9C, CHR 0xE3, CHR 0x80, CHR 0x82]"

definition T_at_turn_running_s :: string where \<comment> \<open>wait for the result\<close>
  "T_at_turn_running_s =
   [CHR 0xE8, CHR 0xAF, CHR 0xB7, CHR 0xE7, CHR 0xAD, CHR 0x89, CHR 0xE5, CHR 0xBE, CHR 0x85] @
   [CHR 0xE8, CHR 0xBF, CHR 0x99, CHR 0xE4, CHR 0xB8, CHR 0x80, CHR 0xE5, CHR 0x9B, CHR 0x9E] @
   [CHR 0xE5, CHR 0x90, CHR 0x88, CHR 0xE7, CHR 0x9A, CHR 0x84, CHR 0xE5, CHR 0xAE, CHR 0x9E] @
   [CHR 0xE9, CHR 0x99, CHR 0x85, CHR 0xE7, CHR 0xBB, CHR 0x93, CHR 0xE6, CHR 0x9E, CHR 0x9C] @
   [CHR 0xE3, CHR 0x80, CHR 0x82]"

definition T_q_contact1 :: string where \<comment> \<open>check the contact: local name\<close>
  "T_q_contact1 =
   [CHR 0xE8, CHR 0xAF, CHR 0xB7, CHR 0xE6, CHR 0xA0, CHR 0xB8, CHR 0xE5, CHR 0xAF, CHR 0xB9] @
   [CHR 0xE8, CHR 0x81, CHR 0x94, CHR 0xE7, CHR 0xB3, CHR 0xBB, CHR 0xE4, CHR 0xBA, CHR 0xBA] @
   [CHR 0xEF, CHR 0xBC, CHR 0x9A, CHR 0xE6, CHR 0x9C, CHR 0xAC, CHR 0xE5, CHR 0x9C, CHR 0xB0] @
   [CHR 0xE7, CHR 0xA7, CHR 0xB0, CHR 0xE5, CHR 0x91, CHR 0xBC] @
   '' ''"

definition T_q_paren :: string where \<comment> \<open>open parenthesis\<close>
  "T_q_paren =
   [CHR 0xEF, CHR 0xBC, CHR 0x88]"

definition T_q_contact2 :: string where \<comment> \<open>) is exactly the URN\<close>
  "T_q_contact2 =
   [CHR 0xEF, CHR 0xBC, CHR 0x89, CHR 0xE5, CHR 0xAF, CHR 0xB9, CHR 0xE5, CHR 0xBA, CHR 0x94] @
   [CHR 0xE5, CHR 0x87, CHR 0x86, CHR 0xE7, CHR 0xA1, CHR 0xAE] @
   '' URN ''"

definition T_q_contact3 :: string where \<comment> \<open>a friend request will be sent; confirm?\<close>
  "T_q_contact3 =
   [CHR 0xE3, CHR 0x80, CHR 0x82, CHR 0x0A, CHR 0xE7, CHR 0xA1, CHR 0xAE, CHR 0xE8, CHR 0xAE] @
   [CHR 0xA4, CHR 0xE5, CHR 0x90, CHR 0x8E, CHR 0xE5, CHR 0xB0, CHR 0x86, CHR 0xE5, CHR 0x90] @
   [CHR 0x91, CHR 0xE6, CHR 0xAD, CHR 0xA4] @
   '' URN '' @
   [CHR 0xE5, CHR 0x8F, CHR 0x91, CHR 0xE9, CHR 0x80, CHR 0x81, CHR 0xE5, CHR 0xA5, CHR 0xBD] @
   [CHR 0xE5, CHR 0x8F, CHR 0x8B, CHR 0xE8, CHR 0xAF, CHR 0xB7, CHR 0xE6, CHR 0xB1, CHR 0x82] @
   [CHR 0xEF, CHR 0xBC, CHR 0x9B, CHR 0xE5, CHR 0xAF, CHR 0xB9, CHR 0xE6, CHR 0x96, CHR 0xB9] @
   [CHR 0xE6, CHR 0x8E, CHR 0xA5, CHR 0xE5, CHR 0x8F, CHR 0x97, CHR 0xE5, CHR 0x90, CHR 0x8E] @
   [CHR 0xE5, CHR 0x8F, CHR 0xAF, CHR 0xE4, CHR 0xBB, CHR 0xA5, CHR 0xE9, CHR 0x80, CHR 0x9A] @
   [CHR 0xE4, CHR 0xBF, CHR 0xA1, CHR 0xE3, CHR 0x80, CHR 0x82, CHR 0xE8, CHR 0xBF, CHR 0x99] @
   [CHR 0xE4, CHR 0xB8, CHR 0x8D, CHR 0xE9, CHR 0xAA, CHR 0x8C, CHR 0xE8, CHR 0xAF, CHR 0x81] @
   [CHR 0xE5, CHR 0xAF, CHR 0xB9, CHR 0xE6, CHR 0x96, CHR 0xB9, CHR 0xE7, CHR 0x9A, CHR 0x84] @
   [CHR 0xE7, CHR 0x8E, CHR 0xB0, CHR 0xE5, CHR 0xAE, CHR 0x9E, CHR 0xE8, CHR 0xBA, CHR 0xAB] @
   [CHR 0xE4, CHR 0xBB, CHR 0xBD, CHR 0xEF, CHR 0xBC, CHR 0x8C, CHR 0xE4, CHR 0xB9, CHR 0x9F] @
   [CHR 0xE4, CHR 0xB8, CHR 0x8D, CHR 0xE6, CHR 0x8E, CHR 0x88, CHR 0xE6, CHR 0x9D, CHR 0x83] @
   [CHR 0xE8, CHR 0xB5, CHR 0x84, CHR 0xE6, CHR 0x96, CHR 0x99, CHR 0xE6, CHR 0x8A, CHR 0xAB] @
   [CHR 0xE9, CHR 0x9C, CHR 0xB2, CHR 0xE3, CHR 0x80, CHR 0x81, CHR 0xE5, CHR 0x8D, CHR 0x8F] @
   [CHR 0xE4, CHR 0xBD, CHR 0x9C, CHR 0xE4, CHR 0xBB, CHR 0xBB, CHR 0xE5, CHR 0x8A, CHR 0xA1] @
   [CHR 0xE6, CHR 0x88, CHR 0x96, CHR 0xE4, CHR 0xBB, CHR 0xA3, CHR 0xE8, CHR 0xA1, CHR 0xA8] @
   [CHR 0xE4, CHR 0xBD, CHR 0xA0, CHR 0xE6, CHR 0x89, CHR 0xBF, CHR 0xE8, CHR 0xAF, CHR 0xBA] @
   [CHR 0xE3, CHR 0x80, CHR 0x82, CHR 0x0A, CHR 0xE7, CHR 0xA1, CHR 0xAE, CHR 0xE8, CHR 0xAE] @
   [CHR 0xA4, CHR 0xE5, CHR 0x8F, CHR 0x91, CHR 0xE9, CHR 0x80, CHR 0x81, CHR 0xE5, CHR 0xA5] @
   [CHR 0xBD, CHR 0xE5, CHR 0x8F, CHR 0x8B, CHR 0xE8, CHR 0xAF, CHR 0xB7, CHR 0xE6, CHR 0xB1] @
   [CHR 0x82, CHR 0xE5, CHR 0x90, CHR 0x97, CHR 0xEF, CHR 0xBC, CHR 0x9F]"

definition T_q_friend1 :: string where \<comment> \<open>to\<close>
  "T_q_friend1 =
   [CHR 0xE5, CHR 0x90, CHR 0x91] @
   '' ''"

definition T_q_friend2 :: string where \<comment> \<open>send a friend request?\<close>
  "T_q_friend2 =
   '' '' @
   [CHR 0xE5, CHR 0x8F, CHR 0x91, CHR 0xE9, CHR 0x80, CHR 0x81, CHR 0xE5, CHR 0xA5, CHR 0xBD] @
   [CHR 0xE5, CHR 0x8F, CHR 0x8B, CHR 0xE8, CHR 0xAF, CHR 0xB7, CHR 0xE6, CHR 0xB1, CHR 0x82] @
   [CHR 0xEF, CHR 0xBC, CHR 0x9F, CHR 0xE5, CHR 0xAF, CHR 0xB9, CHR 0xE6, CHR 0x96, CHR 0xB9] @
   [CHR 0xE6, CHR 0x8E, CHR 0xA5, CHR 0xE5, CHR 0x8F, CHR 0x97, CHR 0xE5, CHR 0x90, CHR 0x8E] @
   [CHR 0xE5, CHR 0xBB, CHR 0xBA, CHR 0xE7, CHR 0xAB, CHR 0x8B, CHR 0xE8, CHR 0xBF, CHR 0x9E] @
   [CHR 0xE6, CHR 0x8E, CHR 0xA5, CHR 0xE3, CHR 0x80, CHR 0x82]"

definition T_q_accept :: string where \<comment> \<open>accept\<close>
  "T_q_accept =
   [CHR 0xE6, CHR 0x8E, CHR 0xA5, CHR 0xE5, CHR 0x8F, CHR 0x97]"

definition T_q_reject :: string where \<comment> \<open>reject\<close>
  "T_q_reject =
   [CHR 0xE6, CHR 0x8B, CHR 0x92, CHR 0xE7, CHR 0xBB, CHR 0x9D]"

definition T_q_response1 :: string where \<comment> \<open>from\<close>
  "T_q_response1 =
   [CHR 0xE6, CHR 0x9D, CHR 0xA5, CHR 0xE8, CHR 0x87, CHR 0xAA] @
   '' ''"

definition T_q_response2 :: string where \<comment> \<open>the friend request?\<close>
  "T_q_response2 =
   '' '' @
   [CHR 0xE7, CHR 0x9A, CHR 0x84, CHR 0xE5, CHR 0xA5, CHR 0xBD, CHR 0xE5, CHR 0x8F, CHR 0x8B] @
   [CHR 0xE8, CHR 0xAF, CHR 0xB7, CHR 0xE6, CHR 0xB1, CHR 0x82, CHR 0xEF, CHR 0xBC, CHR 0x9F]"

definition T_q_message2 :: string where \<comment> \<open>send the following message?\<close>
  "T_q_message2 =
   '' '' @
   [CHR 0xE5, CHR 0x8F, CHR 0x91, CHR 0xE9, CHR 0x80, CHR 0x81, CHR 0xE4, CHR 0xBB, CHR 0xA5] @
   [CHR 0xE4, CHR 0xB8, CHR 0x8B, CHR 0xE6, CHR 0xB6, CHR 0x88, CHR 0xE6, CHR 0x81, CHR 0xAF] @
   [CHR 0xEF, CHR 0xBC, CHR 0x9F, CHR 0x0A, CHR 0x0A]"

definition T_q_task1 :: string where \<comment> \<open>may I act within the following mandate?\<close>
  "T_q_task1 =
   [CHR 0xE6, CHR 0x88, CHR 0x91, CHR 0xE5, CHR 0x8F, CHR 0xAF, CHR 0xE4, CHR 0xBB, CHR 0xA5] @
   [CHR 0xE6, CHR 0x8C, CHR 0x89, CHR 0xE4, CHR 0xB8, CHR 0x8B, CHR 0xE9, CHR 0x9D, CHR 0xA2] @
   [CHR 0xE7, CHR 0x9A, CHR 0x84, CHR 0xE8, CHR 0x8C, CHR 0x83, CHR 0xE5, CHR 0x9B, CHR 0xB4] @
   [CHR 0xE6, CHR 0x9B, CHR 0xBF, CHR 0xE4, CHR 0xBD, CHR 0xA0, CHR 0xE6, CHR 0x8E, CHR 0xA8] @
   [CHR 0xE8, CHR 0xBF, CHR 0x9B, CHR 0xE8, CHR 0xBF, CHR 0x99, CHR 0xE4, CHR 0xBB, CHR 0xB6] @
   [CHR 0xE4, CHR 0xBA, CHR 0x8B, CHR 0xE5, CHR 0x90, CHR 0x97, CHR 0xEF, CHR 0xBC, CHR 0x9F] @
   [CHR 0xE8, CHR 0x8C, CHR 0x83, CHR 0xE5, CHR 0x9B, CHR 0xB4, CHR 0xE5, CHR 0x86, CHR 0x85] @
   [CHR 0xE4, CHR 0xB8, CHR 0x8D, CHR 0xE9, CHR 0x80, CHR 0x90, CHR 0xE6, CHR 0x9D, CHR 0xA1] @
   [CHR 0xE8, CHR 0xAF, CHR 0xA2, CHR 0xE9, CHR 0x97, CHR 0xAE, CHR 0xEF, CHR 0xBC, CHR 0x9B] @
   [CHR 0xE8, CHR 0xB6, CHR 0x8A, CHR 0xE7, CHR 0x95, CHR 0x8C, CHR 0xE6, CHR 0x97, CHR 0xB6] @
   [CHR 0xE5, CHR 0x86, CHR 0x8D, CHR 0xE9, CHR 0x97, CHR 0xAE, CHR 0xE3, CHR 0x80, CHR 0x82] @
   [CHR 0x0A, CHR 0x0A]"

definition T_q_task2 :: string where \<comment> \<open>confirmed peers\<close>
  "T_q_task2 =
   [CHR 0x0A, CHR 0x0A, CHR 0xE5, CHR 0xB7, CHR 0xB2, CHR 0xE7, CHR 0xA1, CHR 0xAE, CHR 0xE8] @
   [CHR 0xAE, CHR 0xA4, CHR 0xE7, CHR 0x9A, CHR 0x84, CHR 0xE5, CHR 0xAF, CHR 0xB9, CHR 0xE8] @
   [CHR 0xB1, CHR 0xA1, CHR 0xEF, CHR 0xBC, CHR 0x9A, CHR 0x0A]"

definition T_q_task3 :: string where \<comment> \<open>full text of the resources\<close>
  "T_q_task3 =
   [CHR 0x0A, CHR 0x0A, CHR 0xE6, CHR 0x9C, CHR 0xAC, CHR 0xE6, CHR 0xAC, CHR 0xA1, CHR 0xE5] @
   [CHR 0x85, CHR 0x81, CHR 0xE8, CHR 0xAE, CHR 0xB8, CHR 0xE6, CHR 0x8F, CHR 0x90, CHR 0xE4] @
   [CHR 0xBE, CHR 0x9B, CHR 0xE7, CHR 0x9A, CHR 0x84, CHR 0xE8, CHR 0xB5, CHR 0x84, CHR 0xE6] @
   [CHR 0x96, CHR 0x99, CHR 0xE5, CHR 0x85, CHR 0xA8, CHR 0xE6, CHR 0x96, CHR 0x87, CHR 0xEF] @
   [CHR 0xBC, CHR 0x9A, CHR 0x0A]"

definition T_q_task_none :: string where \<comment> \<open>none\<close>
  "T_q_task_none =
   [CHR 0xE6, CHR 0x97, CHR 0xA0]"

definition T_q_task4 :: string where \<comment> \<open>only this matter; please confirm\<close>
  "T_q_task4 =
   [CHR 0x0A, CHR 0x0A, CHR 0xE4, CHR 0xBB, CHR 0x85, CHR 0xE6, CHR 0x9C, CHR 0xAC, CHR 0xE4] @
   [CHR 0xBA, CHR 0x8B, CHR 0xE9, CHR 0xA1, CHR 0xB9, CHR 0xEF, CHR 0xBC, CHR 0x9B, CHR 0xE4] @
   [CHR 0xB8, CHR 0x8D, CHR 0xE4, CHR 0xBC, CHR 0x9A, CHR 0xE5, CHR 0xBB, CHR 0xBA, CHR 0xE7] @
   [CHR 0xAB, CHR 0x8B, CHR 0xE5, CHR 0xB8, CHR 0xB8, CHR 0xE9, CHR 0xA9, CHR 0xBB, CHR 0xE6] @
   [CHR 0x8E, CHR 0x88, CHR 0xE6, CHR 0x9D, CHR 0x83, CHR 0xE3, CHR 0x80, CHR 0x82, CHR 0xE8] @
   [CHR 0xAF, CHR 0xB7, CHR 0xE7, CHR 0xA1, CHR 0xAE, CHR 0xE8, CHR 0xAE, CHR 0xA4, CHR 0xE4] @
   [CHR 0xBD, CHR 0xA0, CHR 0xE5, CHR 0x85, CHR 0x81, CHR 0xE8, CHR 0xAE, CHR 0xB8, CHR 0xE5] @
   [CHR 0x90, CHR 0x91, CHR 0xE4, CHR 0xB8, CHR 0x8A, CHR 0xE8, CHR 0xBF, CHR 0xB0, CHR 0xE6] @
   [CHR 0x8E, CHR 0xA5, CHR 0xE6, CHR 0x94, CHR 0xB6, CHR 0xE8, CHR 0x80, CHR 0x85, CHR 0xE6] @
   [CHR 0x8F, CHR 0x90, CHR 0xE4, CHR 0xBE, CHR 0x9B, CHR 0xE8, CHR 0xBF, CHR 0x99, CHR 0xE4] @
   [CHR 0xBA, CHR 0x9B, CHR 0xE5, CHR 0x86, CHR 0x85, CHR 0xE5, CHR 0xAE, CHR 0xB9, CHR 0xE3] @
   [CHR 0x80, CHR 0x82]"

definition T_q_material :: string where \<comment> \<open>resource\<close>
  "T_q_material =
   [CHR 0xE8, CHR 0xB5, CHR 0x84, CHR 0xE6, CHR 0x96, CHR 0x99] @
   '' ''"

definition T_q_op1 :: string where \<comment> \<open>this step exceeds the mandate\<close>
  "T_q_op1 =
   [CHR 0xE8, CHR 0xBF, CHR 0x99, CHR 0xE4, CHR 0xB8, CHR 0x80, CHR 0xE6, CHR 0xAD, CHR 0xA5] @
   [CHR 0xE8, CHR 0xB6, CHR 0x85, CHR 0xE5, CHR 0x87, CHR 0xBA, CHR 0xE5, CHR 0x8E, CHR 0x9F] @
   [CHR 0xE5, CHR 0xA7, CHR 0x94, CHR 0xE6, CHR 0x89, CHR 0x98, CHR 0xEF, CHR 0xBC, CHR 0x8C] @
   [CHR 0xE9, CHR 0x9C, CHR 0x80, CHR 0xE8, CHR 0xA6, CHR 0x81, CHR 0xE4, CHR 0xBD, CHR 0xA0] @
   [CHR 0xE5, CHR 0x86, CHR 0xB3, CHR 0xE5, CHR 0xAE, CHR 0x9A, CHR 0xE3, CHR 0x80, CHR 0x82] @
   [CHR 0x0A]"

definition T_q_op2 :: string where \<comment> \<open>recipients\<close>
  "T_q_op2 =
   [CHR 0x0A, CHR 0x0A, CHR 0xE6, CHR 0x8E, CHR 0xA5, CHR 0xE6, CHR 0x94, CHR 0xB6, CHR 0xE8] @
   [CHR 0x80, CHR 0x85, CHR 0xEF, CHR 0xBC, CHR 0x9A, CHR 0x0A]"

definition T_q_op3 :: string where \<comment> \<open>full outgoing text\<close>
  "T_q_op3 =
   [CHR 0x0A, CHR 0x0A, CHR 0xE5, CHR 0xAE, CHR 0x9E, CHR 0xE9, CHR 0x99, CHR 0x85, CHR 0xE5] @
   [CHR 0xAF, CHR 0xB9, CHR 0xE5, CHR 0xA4, CHR 0x96, CHR 0xE5, CHR 0x8F, CHR 0x91, CHR 0xE9] @
   [CHR 0x80, CHR 0x81, CHR 0xE7, CHR 0x9A, CHR 0x84, CHR 0xE5, CHR 0x85, CHR 0xA8, CHR 0xE6] @
   [CHR 0x96, CHR 0x87, CHR 0xEF, CHR 0xBC, CHR 0x9A, CHR 0x0A]"

definition T_q_op4 :: string where \<comment> \<open>allow it once?\<close>
  "T_q_op4 =
   [CHR 0x0A, CHR 0x0A, CHR 0xE5, CHR 0x8F, CHR 0xAF, CHR 0xE4, CHR 0xBB, CHR 0xA5, CHR 0xE4] @
   [CHR 0xBB, CHR 0x85, CHR 0xE5, CHR 0x85, CHR 0x81, CHR 0xE8, CHR 0xAE, CHR 0xB8, CHR 0xE8] @
   [CHR 0xBF, CHR 0x99, CHR 0xE4, CHR 0xB8, CHR 0x80, CHR 0xE6, CHR 0xAC, CHR 0xA1, CHR 0xE5] @
   [CHR 0x90, CHR 0x97, CHR 0xEF, CHR 0xBC, CHR 0x9F, CHR 0xE4, CHR 0xB8, CHR 0x8D, CHR 0xE4] @
   [CHR 0xBC, CHR 0x9A, CHR 0xE6, CHR 0x89, CHR 0xA9, CHR 0xE5, CHR 0xA4, CHR 0xA7, CHR 0xE5] @
   [CHR 0x85, CHR 0xB6, CHR 0xE4, CHR 0xBB, CHR 0x96, CHR 0xE5, CHR 0x8A, CHR 0xA8, CHR 0xE4] @
   [CHR 0xBD, CHR 0x9C, CHR 0xE3, CHR 0x80, CHR 0x81, CHR 0xE8, CHR 0xB5, CHR 0x84, CHR 0xE6] @
   [CHR 0x96, CHR 0x99, CHR 0xE6, CHR 0x8E, CHR 0xA5, CHR 0xE6, CHR 0x94, CHR 0xB6, CHR 0xE8] @
   [CHR 0x80, CHR 0x85, CHR 0xE6, CHR 0x88, CHR 0x96, CHR 0xE6, CHR 0x9C, CHR 0xAA, CHR 0xE6] @
   [CHR 0x9D, CHR 0xA5, CHR 0xE4, CHR 0xBA, CHR 0x8B, CHR 0xE9, CHR 0xA1, CHR 0xB9, CHR 0xE7] @
   [CHR 0x9A, CHR 0x84, CHR 0xE6, CHR 0x9D, CHR 0x83, CHR 0xE9, CHR 0x99, CHR 0x90, CHR 0xE3] @
   [CHR 0x80, CHR 0x82]"

definition T_q_re1 :: string where \<comment> \<open>a new disclosure outside the mandate\<close>
  "T_q_re1 =
   [CHR 0xE6, CHR 0x89, CHR 0xA7, CHR 0xE8, CHR 0xA1, CHR 0x8C, CHR 0xE5, CHR 0x89, CHR 0x8D] @
   [CHR 0xE6, CHR 0xA3, CHR 0x80, CHR 0xE6, CHR 0x9F, CHR 0xA5, CHR 0xE5, CHR 0x8F, CHR 0x91] @
   [CHR 0xE7, CHR 0x8E, CHR 0xB0, CHR 0xE8, CHR 0xBF, CHR 0x99, CHR 0xE4, CHR 0xB8, CHR 0x80] @
   [CHR 0xE6, CHR 0xAD, CHR 0xA5, CHR 0xE6, CHR 0x96, CHR 0xB0, CHR 0xE5, CHR 0xA2, CHR 0x9E] @
   [CHR 0xE4, CHR 0xBA, CHR 0x86, CHR 0xE5, CHR 0x8E, CHR 0x9F, CHR 0xE8, CHR 0x8C, CHR 0x83] @
   [CHR 0xE5, CHR 0x9B, CHR 0xB4, CHR 0xE5, CHR 0xA4, CHR 0x96, CHR 0xE7, CHR 0x9A, CHR 0x84] @
   [CHR 0xE6, CHR 0x8A, CHR 0xAB, CHR 0xE9, CHR 0x9C, CHR 0xB2, CHR 0xE3, CHR 0x80, CHR 0x82] @
   [CHR 0x0A]"

definition T_q_re2 :: string where \<comment> \<open>full outgoing text\<close>
  "T_q_re2 =
   [CHR 0x0A, CHR 0x0A, CHR 0xE5, CHR 0xAE, CHR 0x9E, CHR 0xE9, CHR 0x99, CHR 0x85, CHR 0xE5] @
   [CHR 0xAF, CHR 0xB9, CHR 0xE5, CHR 0xA4, CHR 0x96, CHR 0xE5, CHR 0x85, CHR 0xA8, CHR 0xE6] @
   [CHR 0x96, CHR 0x87, CHR 0xEF, CHR 0xBC, CHR 0x9A, CHR 0x0A]"

definition T_q_re3 :: string where \<comment> \<open>allow it once?\<close>
  "T_q_re3 =
   [CHR 0x0A, CHR 0x0A, CHR 0xE5, CHR 0x8F, CHR 0xAF, CHR 0xE4, CHR 0xBB, CHR 0xA5, CHR 0xE4] @
   [CHR 0xBB, CHR 0x85, CHR 0xE5, CHR 0x85, CHR 0x81, CHR 0xE8, CHR 0xAE, CHR 0xB8, CHR 0xE8] @
   [CHR 0xBF, CHR 0x99, CHR 0xE4, CHR 0xB8, CHR 0x80, CHR 0xE6, CHR 0xAC, CHR 0xA1, CHR 0xE5] @
   [CHR 0x90, CHR 0x97, CHR 0xEF, CHR 0xBC, CHR 0x9F, CHR 0xE5, CHR 0x85, CHR 0xB6, CHR 0xE4] @
   [CHR 0xBB, CHR 0x96, CHR 0xE8, CHR 0x8C, CHR 0x83, CHR 0xE5, CHR 0x9B, CHR 0xB4, CHR 0xE4] @
   [CHR 0xB8, CHR 0x8D, CHR 0xE5, CHR 0x8F, CHR 0x98, CHR 0xE3, CHR 0x80, CHR 0x82]"

definition T_yes_1 :: string where \<comment> \<open>yes\<close>
  "T_yes_1 =
   [CHR 0xE5, CHR 0x8F, CHR 0xAF, CHR 0xE4, CHR 0xBB, CHR 0xA5]"

definition T_yes_2 :: string where \<comment> \<open>yes.\<close>
  "T_yes_2 =
   [CHR 0xE5, CHR 0x8F, CHR 0xAF, CHR 0xE4, CHR 0xBB, CHR 0xA5, CHR 0xE3, CHR 0x80, CHR 0x82]"

definition T_yes_3 :: string where \<comment> \<open>agree\<close>
  "T_yes_3 =
   [CHR 0xE5, CHR 0x90, CHR 0x8C, CHR 0xE6, CHR 0x84, CHR 0x8F]"

definition T_yes_4 :: string where \<comment> \<open>agree.\<close>
  "T_yes_4 =
   [CHR 0xE5, CHR 0x90, CHR 0x8C, CHR 0xE6, CHR 0x84, CHR 0x8F, CHR 0xE3, CHR 0x80, CHR 0x82]"

definition T_yes_5 :: string where \<comment> \<open>approve\<close>
  "T_yes_5 =
   [CHR 0xE6, CHR 0x89, CHR 0xB9, CHR 0xE5, CHR 0x87, CHR 0x86]"

definition T_yes_6 :: string where \<comment> \<open>allow\<close>
  "T_yes_6 =
   [CHR 0xE5, CHR 0x85, CHR 0x81, CHR 0xE8, CHR 0xAE, CHR 0xB8]"

definition T_yes_7 :: string where \<comment> \<open>confirm\<close>
  "T_yes_7 =
   [CHR 0xE7, CHR 0xA1, CHR 0xAE, CHR 0xE8, CHR 0xAE, CHR 0xA4]"

definition T_yes_8 :: string where \<comment> \<open>allow this time\<close>
  "T_yes_8 =
   [CHR 0xE5, CHR 0x85, CHR 0x81, CHR 0xE8, CHR 0xAE, CHR 0xB8, CHR 0xE6, CHR 0x9C, CHR 0xAC] @
   [CHR 0xE6, CHR 0xAC, CHR 0xA1]"

definition T_no_1 :: string where \<comment> \<open>no\<close>
  "T_no_1 =
   [CHR 0xE4, CHR 0xB8, CHR 0x8D, CHR 0xE5, CHR 0x8F, CHR 0xAF, CHR 0xE4, CHR 0xBB, CHR 0xA5]"

definition T_no_2 :: string where \<comment> \<open>disagree\<close>
  "T_no_2 =
   [CHR 0xE4, CHR 0xB8, CHR 0x8D, CHR 0xE5, CHR 0x90, CHR 0x8C, CHR 0xE6, CHR 0x84, CHR 0x8F]"

definition T_no_3 :: string where \<comment> \<open>refuse\<close>
  "T_no_3 =
   [CHR 0xE6, CHR 0x8B, CHR 0x92, CHR 0xE7, CHR 0xBB, CHR 0x9D]"

definition T_no_4 :: string where \<comment> \<open>cancel\<close>
  "T_no_4 =
   [CHR 0xE5, CHR 0x8F, CHR 0x96, CHR 0xE6, CHR 0xB6, CHR 0x88]"

definition T_no_5 :: string where \<comment> \<open>not allowed\<close>
  "T_no_5 =
   [CHR 0xE4, CHR 0xB8, CHR 0x8D, CHR 0xE5, CHR 0x85, CHR 0x81, CHR 0xE8, CHR 0xAE, CHR 0xB8]"

definition T_q_v2_1 :: string where \<comment> \<open>confirm this action and its full content\<close>
  "T_q_v2_1 =
   [CHR 0xE8, CHR 0xAF, CHR 0xB7, CHR 0xE7, CHR 0xA1, CHR 0xAE, CHR 0xE8, CHR 0xAE, CHR 0xA4] @
   [CHR 0xE8, CHR 0xBF, CHR 0x99, CHR 0xE4, CHR 0xB8, CHR 0x80, CHR 0xE6, CHR 0xAC, CHR 0xA1] @
   [CHR 0xE5, CHR 0x8D, CHR 0x8F, CHR 0xE4, CHR 0xBD, CHR 0x9C, CHR 0xE5, CHR 0x8A, CHR 0xA8] @
   [CHR 0xE4, CHR 0xBD, CHR 0x9C, CHR 0xE5, CHR 0x8F, CHR 0x8A, CHR 0xE5, CHR 0xAE, CHR 0x8C] @
   [CHR 0xE6, CHR 0x95, CHR 0xB4, CHR 0xE5, CHR 0xAF, CHR 0xB9, CHR 0xE5, CHR 0xA4, CHR 0x96] @
   [CHR 0xE5, CHR 0x86, CHR 0x85, CHR 0xE5, CHR 0xAE, CHR 0xB9, CHR 0xEF, CHR 0xBC, CHR 0x9A] @
   [CHR 0x0A]"

definition T_q_v2_accept :: string where \<comment> \<open>the current terms accepted\<close>
  "T_q_v2_accept =
   [CHR 0x0A, CHR 0xE6, CHR 0x9C, CHR 0xAC, CHR 0xE6, CHR 0xAC, CHR 0xA1, CHR 0xE6, CHR 0x8E] @
   [CHR 0xA5, CHR 0xE5, CHR 0x8F, CHR 0x97, CHR 0xE7, CHR 0x9A, CHR 0x84, CHR 0xE5, CHR 0xBD] @
   [CHR 0x93, CHR 0xE5, CHR 0x89, CHR 0x8D, CHR 0xE6, CHR 0x96, CHR 0xB9, CHR 0xE6, CHR 0xA1] @
   [CHR 0x88, CHR 0xEF, CHR 0xBC, CHR 0x88, CHR 0xE6, CHR 0x9D, CHR 0xA5, CHR 0xE8, CHR 0x87] @
   [CHR 0xAA, CHR 0xE6, CHR 0x9C, CHR 0xAC, CHR 0xE6, CHR 0x9C, CHR 0xBA, CHR 0xE5, CHR 0xB7] @
   [CHR 0xB2, CHR 0xE6, CHR 0xA0, CHR 0xB8, CHR 0xE5, CHR 0xAF, CHR 0xB9, CHR 0xE7, CHR 0x9A] @
   [CHR 0x84, CHR 0xE5, CHR 0x8D, CHR 0x8F, CHR 0xE4, CHR 0xBD, CHR 0x9C, CHR 0xE8, CHR 0xAE] @
   [CHR 0xB0, CHR 0xE5, CHR 0xBD, CHR 0x95, CHR 0xEF, CHR 0xBC, CHR 0x89, CHR 0xEF, CHR 0xBC] @
   [CHR 0x9A]"

definition T_q_v2_pid :: string where \<comment> \<open>proposal id\<close>
  "T_q_v2_pid =
   [CHR 0x0A, CHR 0x0A, CHR 0xE6, CHR 0x96, CHR 0xB9, CHR 0xE6, CHR 0xA1, CHR 0x88, CHR 0xE7] @
   [CHR 0xBC, CHR 0x96, CHR 0xE5, CHR 0x8F, CHR 0xB7, CHR 0xEF, CHR 0xBC, CHR 0x9A]"

definition T_q_v2_version :: string where \<comment> \<open>version\<close>
  "T_q_v2_version =
   [CHR 0xE7, CHR 0x89, CHR 0x88, CHR 0xE6, CHR 0x9C, CHR 0xAC, CHR 0xEF, CHR 0xBC, CHR 0x9A]"

definition T_q_v2_topic :: string where \<comment> \<open>topic\<close>
  "T_q_v2_topic =
   [CHR 0xE4, CHR 0xB8, CHR 0xBB, CHR 0xE9, CHR 0xA2, CHR 0x98, CHR 0xEF, CHR 0xBC, CHR 0x9A]"

definition T_q_v2_urns :: string where \<comment> \<open>participants\<close>
  "T_q_v2_urns =
   [CHR 0xE5, CHR 0x8F, CHR 0x82, CHR 0xE4, CHR 0xB8, CHR 0x8E, CHR 0xE6, CHR 0x96, CHR 0xB9] @
   '' URN'' @
   [CHR 0xEF, CHR 0xBC, CHR 0x9A]"

definition T_q_v2_start :: string where \<comment> \<open>start\<close>
  "T_q_v2_start =
   [CHR 0xE5, CHR 0xBC, CHR 0x80, CHR 0xE5, CHR 0xA7, CHR 0x8B, CHR 0xE6, CHR 0x97, CHR 0xB6] @
   [CHR 0xE9, CHR 0x97, CHR 0xB4, CHR 0xEF, CHR 0xBC, CHR 0x88] @
   ''UTC'' @
   [CHR 0xEF, CHR 0xBC, CHR 0x89, CHR 0xEF, CHR 0xBC, CHR 0x9A]"

definition T_q_v2_end :: string where \<comment> \<open>end\<close>
  "T_q_v2_end =
   [CHR 0xE7, CHR 0xBB, CHR 0x93, CHR 0xE6, CHR 0x9D, CHR 0x9F, CHR 0xE6, CHR 0x97, CHR 0xB6] @
   [CHR 0xE9, CHR 0x97, CHR 0xB4, CHR 0xEF, CHR 0xBC, CHR 0x88] @
   ''UTC'' @
   [CHR 0xEF, CHR 0xBC, CHR 0x89, CHR 0xEF, CHR 0xBC, CHR 0x9A]"

definition T_q_v2_digest :: string where \<comment> \<open>digest of the terms\<close>
  "T_q_v2_digest =
   [CHR 0xE6, CHR 0x9D, CHR 0xA1, CHR 0xE6, CHR 0xAC, CHR 0xBE, CHR 0xE6, CHR 0x91, CHR 0x98] @
   [CHR 0xE8, CHR 0xA6, CHR 0x81, CHR 0xEF, CHR 0xBC, CHR 0x9A]"

definition T_q_v2_scope :: string where \<comment> \<open>extent of the agreement\<close>
  "T_q_v2_scope =
   [CHR 0xE7, CHR 0xBA, CHR 0xA6, CHR 0xE5, CHR 0xAE, CHR 0x9A, CHR 0xE8, CHR 0x8C, CHR 0x83] @
   [CHR 0xE5, CHR 0x9B, CHR 0xB4, CHR 0xEF, CHR 0xBC, CHR 0x9A, CHR 0xE4, CHR 0xBB, CHR 0x85] @
   [CHR 0xE5, CHR 0xBD, CHR 0xA2, CHR 0xE6, CHR 0x88, CHR 0x90, CHR 0xE7, CHR 0xBA, CHR 0xBF] @
   [CHR 0xE4, CHR 0xB8, CHR 0x8A, CHR 0xE4, CHR 0xBC, CHR 0x9A, CHR 0xE8, CHR 0xAE, CHR 0xAE] @
   [CHR 0xE7, CHR 0xBA, CHR 0xA6, CHR 0xE5, CHR 0xAE, CHR 0x9A, CHR 0xEF, CHR 0xBC, CHR 0x88] @
   ''agreement_only / online'' @
   [CHR 0xEF, CHR 0xBC, CHR 0x89, CHR 0xEF, CHR 0xBC, CHR 0x9B, CHR 0xE5, CHR 0x8F, CHR 0x8C] @
   [CHR 0xE6, CHR 0x96, CHR 0xB9, CHR 0xE5, CHR 0x90, CHR 0x84, CHR 0xE8, CHR 0x87, CHR 0xAA] @
   [CHR 0xE4, CHR 0xBB, CHR 0x85, CHR 0xE6, CHR 0x89, CHR 0xBF, CHR 0xE6, CHR 0x8B, CHR 0x85] @
   [CHR 0xE6, CHR 0x9C, CHR 0xAC, CHR 0xE4, CHR 0xBA, CHR 0xBA, CHR 0xE5, CHR 0x8F, CHR 0x82] @
   [CHR 0xE4, CHR 0xBC, CHR 0x9A, CHR 0xE4, CHR 0xB9, CHR 0x89, CHR 0xE5, CHR 0x8A, CHR 0xA1] @
   [CHR 0xEF, CHR 0xBC, CHR 0x88] @
   ''each_party_attends_only'' @
   [CHR 0xEF, CHR 0xBC, CHR 0x89, CHR 0xEF, CHR 0xBC, CHR 0x8C, CHR 0xE4, CHR 0xB8, CHR 0x8D] @
   [CHR 0xE5, CHR 0x88, CHR 0x9B, CHR 0xE5, CHR 0xBB, CHR 0xBA, CHR 0xE6, CHR 0x97, CHR 0xA5] @
   [CHR 0xE5, CHR 0x8E, CHR 0x86, CHR 0xE4, CHR 0xBA, CHR 0x8B, CHR 0xE4, CHR 0xBB, CHR 0xB6] @
   [CHR 0xE3, CHR 0x80, CHR 0x82]"

definition T_q_v2_basis :: string where \<comment> \<open>authority basis of the peer\<close>
  "T_q_v2_basis =
   [CHR 0xE5, CHR 0xAF, CHR 0xB9, CHR 0xE6, CHR 0x96, CHR 0xB9, CHR 0xE7, CHR 0x9A, CHR 0x84] @
   [CHR 0xE6, CHR 0x8E, CHR 0x88, CHR 0xE6, CHR 0x9D, CHR 0x83, CHR 0xE4, CHR 0xBE, CHR 0x9D] @
   [CHR 0xE6, CHR 0x8D, CHR 0xAE, CHR 0xE4, CHR 0xBB, CHR 0x85, CHR 0xE4, CHR 0xB8, CHR 0xBA] @
   [CHR 0xE5, CHR 0x85, CHR 0xB6] @
   '' agent '' @
   [CHR 0xE5, CHR 0xA3, CHR 0xB0, CHR 0xE6, CHR 0x98, CHR 0x8E, CHR 0xEF, CHR 0xBC, CHR 0x88] @
   ''peer_attested'' @
   [CHR 0xEF, CHR 0xBC, CHR 0x89, CHR 0xEF, CHR 0xBC, CHR 0x8C, CHR 0xE4, CHR 0xB8, CHR 0x8D] @
   [CHR 0xE7, CHR 0xAD, CHR 0x89, CHR 0xE4, CHR 0xBA, CHR 0x8E, CHR 0xE7, CHR 0x8B, CHR 0xAC] @
   [CHR 0xE7, CHR 0xAB, CHR 0x8B, CHR 0xE6, CHR 0xA0, CHR 0xB8, CHR 0xE9, CHR 0xAA, CHR 0x8C] @
   [CHR 0xE5, CHR 0xAF, CHR 0xB9, CHR 0xE6, CHR 0x96, CHR 0xB9, CHR 0xE6, CHR 0x9C, CHR 0xAC] @
   [CHR 0xE4, CHR 0xBA, CHR 0xBA, CHR 0xE3, CHR 0x80, CHR 0x82]"

definition T_q_v2_join1 :: string where \<comment> \<open>finite maintenance permission until\<close>
  "T_q_v2_join1 =
   [CHR 0x0A, CHR 0xE5, CHR 0x8F, CHR 0x8C, CHR 0xE6, CHR 0x96, CHR 0xB9, CHR 0xE5, CHR 0x90] @
   [CHR 0x84, CHR 0xE8, CHR 0x87, CHR 0xAA, CHR 0xE6, CHR 0x8E, CHR 0x88, CHR 0xE6, CHR 0x9D] @
   [CHR 0x83, CHR 0xEF, CHR 0xBC, CHR 0x9B, CHR 0xE8, CHR 0x8C, CHR 0x83, CHR 0xE5, CHR 0x9B] @
   [CHR 0xB4, CHR 0xE5, CHR 0x86, CHR 0x85, CHR 0xE6, CHR 0x96, CHR 0xB9, CHR 0xE6, CHR 0xA1] @
   [CHR 0x88, CHR 0xE5, CHR 0x92, CHR 0x8C, CHR 0xE6, CHR 0x8E, CHR 0xA5, CHR 0xE5, CHR 0x8F] @
   [CHR 0x97, CHR 0xE7, CHR 0xBB, CHR 0xA7, CHR 0xE7, CHR 0xBB, CHR 0xAD, CHR 0xE6, CHR 0x8C] @
   [CHR 0x89, CHR 0xE6, CHR 0x9C, CHR 0xAC, CHR 0xE4, CHR 0xBA, CHR 0x8B, CHR 0xE9, CHR 0xA1] @
   [CHR 0xB9, CHR 0xE5, CHR 0xA7, CHR 0x94, CHR 0xE6, CHR 0x89, CHR 0x98, CHR 0xE6, CHR 0xA3] @
   [CHR 0x80, CHR 0xE6, CHR 0x9F, CHR 0xA5, CHR 0xE3, CHR 0x80, CHR 0x82, CHR 0xE4, CHR 0xBB] @
   [CHR 0x85, CHR 0xE5, CHR 0x8D, CHR 0x8F, CHR 0xE8, CHR 0xB0, CHR 0x83, CHR 0xE7, CHR 0xBA] @
   [CHR 0xBF, CHR 0xE4, CHR 0xB8, CHR 0x8A, CHR 0xE4, CHR 0xBC, CHR 0x9A, CHR 0xE8, CHR 0xAE] @
   [CHR 0xAE, CHR 0xE6, CHR 0x96, CHR 0xB9, CHR 0xE6, CHR 0xA1, CHR 0x88, CHR 0xEF, CHR 0xBC] @
   [CHR 0x8C, CHR 0xE4, CHR 0xB8, CHR 0x8D, CHR 0xE5, CHR 0x86, CHR 0x99, CHR 0xE5, CHR 0x85] @
   [CHR 0xA5, CHR 0xE6, CHR 0x97, CHR 0xA5, CHR 0xE5, CHR 0x8E, CHR 0x86, CHR 0xE3, CHR 0x80] @
   [CHR 0x82] @
   ''A '' @
   [CHR 0xE7, CHR 0x9A, CHR 0x84, CHR 0xE6, CHR 0x8C, CHR 0x81, CHR 0xE4, CHR 0xB9, CHR 0x85] @
   [CHR 0xE6, CHR 0x88, CHR 0x90, CHR 0xE7, CHR 0xBA, CHR 0xA6, CHR 0xE5, CHR 0x86, CHR 0xB3] @
   [CHR 0xE5, CHR 0xAE, CHR 0x9A, CHR 0xE8, CHR 0xA3, CHR 0x81, CHR 0xE5, CHR 0xAE, CHR 0x9A] @
   [CHR 0xE6, CHR 0x8E, CHR 0xA5, CHR 0xE5, CHR 0x8F, CHR 0x97, CHR 0xE4, CHR 0xB8, CHR 0x8E] @
   [CHR 0xE6, CHR 0x92, CHR 0xA4, CHR 0xE5, CHR 0x9B, CHR 0x9E, CHR 0xE9, CHR 0xA1, CHR 0xBA] @
   [CHR 0xE5, CHR 0xBA, CHR 0x8F, CHR 0xE3, CHR 0x80, CHR 0x82, CHR 0x0A, CHR 0xE5, CHR 0x90] @
   [CHR 0x8C, CHR 0xE6, CHR 0x97, CHR 0xB6, CHR 0xE5, CHR 0x85, CHR 0x81, CHR 0xE8, CHR 0xAE] @
   [CHR 0xB8, CHR 0xE7, CHR 0xA8, CHR 0x8B, CHR 0xE5, CHR 0xBA, CHR 0x8F, CHR 0xE5, CHR 0x90] @
   [CHR 0x91, CHR 0xE6, CHR 0xAD, CHR 0xA4, CHR 0xE5, CHR 0xAF, CHR 0xB9, CHR 0xE8, CHR 0xB1] @
   [CHR 0xA1, CHR 0xE5, CHR 0x8F, CHR 0x91, CHR 0xE9, CHR 0x80, CHR 0x81, CHR 0xE8, CHR 0x87] @
   [CHR 0xB3, CHR 0xE5, CHR 0xA4, CHR 0x9A] @
   '' 32 '' @
   [CHR 0xE6, CHR 0x9D, CHR 0xA1, CHR 0xE5, CHR 0x9B, CHR 0xBA, CHR 0xE5, CHR 0xAE, CHR 0x9A] @
   [CHR 0xE7, CHR 0x8A, CHR 0xB6, CHR 0xE6, CHR 0x80, CHR 0x81] @
   ''/'' @
   [CHR 0xE7, CHR 0xBA, CHR 0xA6, CHR 0xE5, CHR 0xAE, CHR 0x9A] @
   ''/'' @
   [CHR 0xE5, CHR 0x90, CHR 0x8C, CHR 0xE6, CHR 0xAD, CHR 0xA5, CHR 0xE5, CHR 0x9B, CHR 0x9E] @
   [CHR 0xE6, CHR 0x89, CHR 0xA7, CHR 0xEF, CHR 0xBC, CHR 0x8C, CHR 0xE8, CHR 0x87, CHR 0xB3] @
   '' ''"

definition T_q_v2_join2 :: string where \<comment> \<open>independent of the mandate\<close>
  "T_q_v2_join2 =
   [CHR 0xEF, CHR 0xBC, CHR 0x8C, CHR 0xE6, CHR 0xAD, CHR 0xA4, CHR 0xE6, CHR 0x9C, CHR 0x89] @
   [CHR 0xE9, CHR 0x99, CHR 0x90, CHR 0xE7, CHR 0xBB, CHR 0xB4, CHR 0xE6, CHR 0x8A, CHR 0xA4] @
   [CHR 0xE8, CHR 0xAE, CHR 0xB8, CHR 0xE5, CHR 0x8F, CHR 0xAF, CHR 0xE7, CHR 0x8B, CHR 0xAC] @
   [CHR 0xE7, CHR 0xAB, CHR 0x8B, CHR 0xE4, CHR 0xBA, CHR 0x8E, CHR 0xE4, CHR 0xB8, CHR 0x9A] @
   [CHR 0xE5, CHR 0x8A, CHR 0xA1, CHR 0xE5, CHR 0xA7, CHR 0x94, CHR 0xE6, CHR 0x89, CHR 0x98] @
   [CHR 0xEF, CHR 0xBC, CHR 0x8C, CHR 0xE6, CHR 0x92, CHR 0xA4, CHR 0xE9, CHR 0x94, CHR 0x80] @
   [CHR 0xE4, CHR 0xB8, CHR 0x9A, CHR 0xE5, CHR 0x8A, CHR 0xA1, CHR 0xE5, CHR 0x90, CHR 0x8E] @
   [CHR 0xE4, CHR 0xBB, CHR 0x8D, CHR 0xE5, CHR 0x8F, CHR 0xAF, CHR 0xE5, CHR 0xAF, CHR 0xB9] @
   [CHR 0xE8, CHR 0xB4, CHR 0xA6, CHR 0xEF, CHR 0xBC, CHR 0x9B, CHR 0xE4, CHR 0xB8, CHR 0x8D] @
   [CHR 0xE5, CHR 0x85, CHR 0x81, CHR 0xE8, CHR 0xAE, CHR 0xB8, CHR 0xE6, CHR 0x96, CHR 0xB0] @
   [CHR 0xE8, CHR 0xB5, CHR 0x84, CHR 0xE6, CHR 0x96, CHR 0x99, CHR 0xE6, CHR 0x8A, CHR 0xAB] @
   [CHR 0xE9, CHR 0x9C, CHR 0xB2, CHR 0xE3, CHR 0x80, CHR 0x81, CHR 0xE6, CHR 0x96, CHR 0xB0] @
   [CHR 0xE6, CHR 0x89, CHR 0xBF, CHR 0xE8, CHR 0xAF, CHR 0xBA, CHR 0xE3, CHR 0x80, CHR 0x81] @
   [CHR 0xE4, CHR 0xBB, CHR 0xBB, CHR 0xE6, CHR 0x84, CHR 0x8F, CHR 0xE6, CHR 0x96, CHR 0x87] @
   [CHR 0xE6, CHR 0x9C, CHR 0xAC, CHR 0xE6, CHR 0x88, CHR 0x96, CHR 0xE5, CHR 0xA4, CHR 0x96] @
   [CHR 0xE9, CHR 0x83, CHR 0xA8, CHR 0xE5, CHR 0xB7, CHR 0xA5, CHR 0xE5, CHR 0x85, CHR 0xB7] @
   [CHR 0xE3, CHR 0x80, CHR 0x82]"

definition T_q_v2_rec1 :: string where \<comment> \<open>one recovery event until\<close>
  "T_q_v2_rec1 =
   [CHR 0x0A, CHR 0xE5, CHR 0x8E, CHR 0x9F, CHR 0xE4, CHR 0xB8, CHR 0x9A, CHR 0xE5, CHR 0x8A] @
   [CHR 0xA1, CHR 0xE5, CHR 0xA7, CHR 0x94, CHR 0xE6, CHR 0x89, CHR 0x98, CHR 0xE5, CHR 0xB7] @
   [CHR 0xB2, CHR 0xE7, CHR 0xBB, CHR 0x8F, CHR 0xE5, CHR 0x81, CHR 0x9C, CHR 0xE6, CHR 0xAD] @
   [CHR 0xA2, CHR 0xE6, CHR 0x88, CHR 0x96, CHR 0xE8, CHR 0x80, CHR 0x97, CHR 0xE5, CHR 0xB0] @
   [CHR 0xBD, CHR 0xEF, CHR 0xBC, CHR 0x9B, CHR 0xE6, CHR 0x9C, CHR 0xAC, CHR 0xE6, CHR 0xAC] @
   [CHR 0xA1, CHR 0xE6, CHR 0x98, CHR 0xAF, CHR 0xE7, CHR 0x8B, CHR 0xAC, CHR 0xE7, CHR 0xAB] @
   [CHR 0x8B, CHR 0xE6, CHR 0x81, CHR 0xA2, CHR 0xE5, CHR 0xA4, CHR 0x8D, CHR 0xE8, CHR 0xAE] @
   [CHR 0xB8, CHR 0xE5, CHR 0x8F, CHR 0xAF, CHR 0xEF, CHR 0xBC, CHR 0x9A, CHR 0xE4, CHR 0xBB] @
   [CHR 0x85, CHR 0xE5, CHR 0x85, CHR 0x81, CHR 0xE8, CHR 0xAE, CHR 0xB8, CHR 0xE5, CHR 0x90] @
   [CHR 0x91, CHR 0xE5, CHR 0xB7, CHR 0xB2, CHR 0xE7, CHR 0xBB, CHR 0x91, CHR 0xE5, CHR 0xAE] @
   [CHR 0x9A, CHR 0xE5, CHR 0xAF, CHR 0xB9, CHR 0xE8, CHR 0xB1, CHR 0xA1, CHR 0xE5, CHR 0x8F] @
   [CHR 0x91, CHR 0xE9, CHR 0x80, CHR 0x81, CHR 0xE4, CHR 0xB8, CHR 0x8A, CHR 0xE8, CHR 0xBF] @
   [CHR 0xB0, CHR 0xE4, CHR 0xB8, CHR 0x80, CHR 0xE6, CHR 0x9D, CHR 0xA1, CHR 0xE6, CHR 0x92] @
   [CHR 0xA4, CHR 0xE5, CHR 0x9B, CHR 0x9E] @
   ''/'' @
   [CHR 0xE5, CHR 0x8F, CHR 0x96, CHR 0xE6, CHR 0xB6, CHR 0x88, CHR 0xE5, CHR 0xA4, CHR 0x84] @
   [CHR 0xE7, CHR 0x90, CHR 0x86, CHR 0xE4, CHR 0xBA, CHR 0x8B, CHR 0xE4, CHR 0xBB, CHR 0xB6] @
   [CHR 0xEF, CHR 0xBC, CHR 0x8C, CHR 0xE6, CHR 0x9C, CHR 0x89, CHR 0xE6, CHR 0x95, CHR 0x88] @
   [CHR 0xE8, CHR 0x87, CHR 0xB3] @
   '' ''"

definition T_q_v2_rec2 :: string where \<comment> \<open>does not reactivate the mandate\<close>
  "T_q_v2_rec2 =
   [CHR 0xEF, CHR 0xBC, CHR 0x8C, CHR 0xE4, CHR 0xB8, CHR 0x8D, CHR 0xE9, CHR 0x87, CHR 0x8D] @
   [CHR 0xE6, CHR 0x96, CHR 0xB0, CHR 0xE5, CHR 0x90, CHR 0xAF, CHR 0xE7, CHR 0x94, CHR 0xA8] @
   [CHR 0xE4, CHR 0xB8, CHR 0x9A, CHR 0xE5, CHR 0x8A, CHR 0xA1, CHR 0xE5, CHR 0xA7, CHR 0x94] @
   [CHR 0xE6, CHR 0x89, CHR 0x98, CHR 0xE3, CHR 0x80, CHR 0x81, CHR 0xE4, CHR 0xB8, CHR 0x8D] @
   [CHR 0xE5, CHR 0x85, CHR 0x81, CHR 0xE8, CHR 0xAE, CHR 0xB8, CHR 0xE6, CHR 0x96, CHR 0xB0] @
   [CHR 0xE6, CHR 0x8F, CHR 0x90, CHR 0xE8, CHR 0xAE, CHR 0xAE, CHR 0xE3, CHR 0x80, CHR 0x81] @
   [CHR 0xE6, CHR 0x96, CHR 0xB0, CHR 0xE6, CHR 0x89, CHR 0xBF, CHR 0xE8, CHR 0xAF, CHR 0xBA] @
   [CHR 0xE3, CHR 0x80, CHR 0x81, CHR 0xE8, CHR 0xB5, CHR 0x84, CHR 0xE6, CHR 0x96, CHR 0x99] @
   [CHR 0xE6, CHR 0x8A, CHR 0xAB, CHR 0xE9, CHR 0x9C, CHR 0xB2, CHR 0xE6, CHR 0x88, CHR 0x96] @
   [CHR 0xE5, CHR 0xA4, CHR 0x96, CHR 0xE9, CHR 0x83, CHR 0xA8, CHR 0xE5, CHR 0xB7, CHR 0xA5] @
   [CHR 0xE5, CHR 0x85, CHR 0xB7, CHR 0xE3, CHR 0x80, CHR 0x82]"

definition T_q_v2_end_q :: string where \<comment> \<open>allow?\<close>
  "T_q_v2_end_q =
   [CHR 0x0A, CHR 0xE6, CHR 0x98, CHR 0xAF, CHR 0xE5, CHR 0x90, CHR 0xA6, CHR 0xE5, CHR 0x85] @
   [CHR 0x81, CHR 0xE8, CHR 0xAE, CHR 0xB8, CHR 0xEF, CHR 0xBC, CHR 0x9F, CHR 0xE6, CHR 0xAD] @
   [CHR 0xA4, CHR 0xE9, CHR 0x97, CHR 0xAE, CHR 0xE9, CHR 0xA2, CHR 0x98, CHR 0xE9, CHR 0x9C] @
   [CHR 0x80, CHR 0xE8, CHR 0xA6, CHR 0x81, CHR 0xE6, CHR 0x9C, CHR 0xAC, CHR 0xE4, CHR 0xBA] @
   [CHR 0xBA, CHR 0xE5, CHR 0x9C, CHR 0xA8, CHR 0xE5, CHR 0x8F, CHR 0xAF, CHR 0xE4, CHR 0xBF] @
   [CHR 0xA1, CHR 0xE7, CHR 0xA1, CHR 0xAE, CHR 0xE8, CHR 0xAE, CHR 0xA4, CHR 0xE6, CHR 0xB8] @
   [CHR 0xA0, CHR 0xE9, CHR 0x81, CHR 0x93, CHR 0xE5, CHR 0x9B, CHR 0x9E, CHR 0xE7, CHR 0xAD] @
   [CHR 0x94, CHR 0xE3, CHR 0x80, CHR 0x82]"

definition T_q_w1 :: string where \<comment> \<open>allow the finite worker?\<close>
  "T_q_w1 =
   [CHR 0xE6, CHR 0x98, CHR 0xAF, CHR 0xE5, CHR 0x90, CHR 0xA6, CHR 0xE5, CHR 0x85, CHR 0x81] @
   [CHR 0xE8, CHR 0xAE, CHR 0xB8, CHR 0xE8, CHR 0xBF, CHR 0x99, CHR 0xE9, CHR 0xA1, CHR 0xB9] @
   [CHR 0xE4, CHR 0xBB, CHR 0xBB, CHR 0xE5, CHR 0x8A, CHR 0xA1, CHR 0xE7, CHR 0x9A, CHR 0x84] @
   [CHR 0xE6, CHR 0x9C, CHR 0x89, CHR 0xE9, CHR 0x99, CHR 0x90, CHR 0xE5, CHR 0x90, CHR 0x8E] @
   [CHR 0xE5, CHR 0x8F, CHR 0xB0, CHR 0xE7, CHR 0xA8, CHR 0x8B, CHR 0xE5, CHR 0xBA, CHR 0x8F] @
   [CHR 0xE8, CHR 0x87, CHR 0xAA, CHR 0xE5, CHR 0x8A, CHR 0xA8, CHR 0xE6, CHR 0x8E, CHR 0xA8] @
   [CHR 0xE8, CHR 0xBF, CHR 0x9B, CHR 0xE7, CHR 0xBA, CHR 0xBF, CHR 0xE4, CHR 0xB8, CHR 0x8A] @
   [CHR 0xE4, CHR 0xBC, CHR 0x9A, CHR 0xE8, CHR 0xAE, CHR 0xAE, CHR 0xE6, CHR 0x96, CHR 0xB9] @
   [CHR 0xE6, CHR 0xA1, CHR 0x88, CHR 0xEF, CHR 0xBC, CHR 0x9F, CHR 0x0A, CHR 0xE5, CHR 0x8E] @
   [CHR 0x9F, CHR 0xE4, CHR 0xBB, CHR 0xBB, CHR 0xE5, CHR 0x8A, CHR 0xA1, CHR 0xE8, CHR 0x8C] @
   [CHR 0x83, CHR 0xE5, CHR 0x9B, CHR 0xB4, CHR 0xEF, CHR 0xBC, CHR 0x9A, CHR 0x0A]"

definition T_q_w2 :: string where \<comment> \<open>worker policy\<close>
  "T_q_w2 =
   [CHR 0x0A, CHR 0xE5, CHR 0x90, CHR 0x8E, CHR 0xE5, CHR 0x8F, CHR 0xB0, CHR 0xE7, CHR 0xAD] @
   [CHR 0x96, CHR 0xE7, CHR 0x95, CHR 0xA5, CHR 0xEF, CHR 0xBC, CHR 0x9A, CHR 0x0A]"

definition T_q_w3 :: string where \<comment> \<open>limits of the worker\<close>
  "T_q_w3 =
   [CHR 0x0A] @
   ''allow_propose '' @
   [CHR 0xE5, CHR 0x8F, CHR 0xAA, CHR 0xE5, CHR 0x85, CHR 0x81, CHR 0xE8, CHR 0xAE, CHR 0xB8] @
   [CHR 0xE4, CHR 0xB8, CHR 0x8A, CHR 0xE8, CHR 0xBF, CHR 0xB0, CHR 0xE5, CHR 0x9B, CHR 0xBA] @
   [CHR 0xE5, CHR 0xAE, CHR 0x9A, CHR 0xE6, CHR 0x96, CHR 0xB9, CHR 0xE6, CHR 0xA1, CHR 0x88] @
   [CHR 0xEF, CHR 0xBC, CHR 0x9B] @
   ''allow_accept '' @
   [CHR 0xE5, CHR 0x85, CHR 0x81, CHR 0xE8, CHR 0xAE, CHR 0xB8, CHR 0xE6, CHR 0x8E, CHR 0xA5] @
   [CHR 0xE5, CHR 0x8F, CHR 0x97, CHR 0xE7, CHR 0xAC, CHR 0xA6, CHR 0xE5, CHR 0x90, CHR 0x88] @
   [CHR 0xE5, CHR 0x8E, CHR 0x9F, CHR 0xE4, CHR 0xBB, CHR 0xBB, CHR 0xE5, CHR 0x8A, CHR 0xA1] @
   [CHR 0xE8, CHR 0x8C, CHR 0x83, CHR 0xE5, CHR 0x9B, CHR 0xB4, CHR 0xE7, CHR 0x9A, CHR 0x84] @
   [CHR 0xE4, CHR 0xBB, CHR 0xBB, CHR 0xE4, CHR 0xB8, CHR 0x80, CHR 0xE5, CHR 0xBD, CHR 0x93] @
   [CHR 0xE5, CHR 0x89, CHR 0x8D, CHR 0xE6, CHR 0x96, CHR 0xB9, CHR 0xE6, CHR 0xA1, CHR 0x88] @
   [CHR 0xE3, CHR 0x80, CHR 0x82, CHR 0xE8, CHR 0xBF, CHR 0x90, CHR 0xE8, CHR 0xA1, CHR 0x8C] @
   [CHR 0xE6, CHR 0xAC, CHR 0xA1, CHR 0xE6, CHR 0x95, CHR 0xB0, CHR 0xE4, CHR 0xB8, CHR 0x8E] @
   [CHR 0xE5, CHR 0x8F, CHR 0x91, CHR 0xE9, CHR 0x80, CHR 0x81, CHR 0xE6, CHR 0xAC, CHR 0xA1] @
   [CHR 0xE6, CHR 0x95, CHR 0xB0, CHR 0xE5, CHR 0x9D, CHR 0x87, CHR 0xE6, CHR 0x9C, CHR 0x89] @
   [CHR 0xE9, CHR 0x99, CHR 0x90, CHR 0xEF, CHR 0xBC, CHR 0x9B, CHR 0xE5, CHR 0x8F, CHR 0x91] @
   [CHR 0xE9, CHR 0x80, CHR 0x81, CHR 0xE9, CHR 0xA2, CHR 0x84, CHR 0xE7, CHR 0xAE, CHR 0x97] @
   [CHR 0xE4, CHR 0xB9, CHR 0x9F, CHR 0xE8, CHR 0xAE, CHR 0xA1, CHR 0xE5, CHR 0x85, CHR 0xA5] @
   [CHR 0xE6, CHR 0x97, CHR 0xA2, CHR 0xE6, CHR 0x9C, CHR 0x89, CHR 0xE8, CHR 0xAE, CHR 0xB8] @
   [CHR 0xE5, CHR 0x8F, CHR 0xAF, CHR 0xE7, CHR 0x9A, CHR 0x84, CHR 0xE5, CHR 0x9B, CHR 0xBA] @
   [CHR 0xE5, CHR 0xAE, CHR 0x9A, CHR 0xE5, CHR 0x8D, CHR 0x8F, CHR 0xE8, CHR 0xAE, CHR 0xAE] @
   [CHR 0xE5, CHR 0x9B, CHR 0x9E, CHR 0xE6, CHR 0x89, CHR 0xA7, CHR 0xE3, CHR 0x80, CHR 0x82] @
   [CHR 0xE4, CHR 0xB8, CHR 0x8D, CHR 0xE8, CHR 0x87, CHR 0xAA, CHR 0xE5, CHR 0x8A, CHR 0xA8] @
   [CHR 0xE5, CHR 0x8A, CHR 0xA0, CHR 0xE5, CHR 0x85, CHR 0xA5, CHR 0xE6, CHR 0x96, CHR 0xB0] @
   [CHR 0xE5, CHR 0x8D, CHR 0x8F, CHR 0xE4, CHR 0xBD, CHR 0x9C, CHR 0xE3, CHR 0x80, CHR 0x81] @
   [CHR 0xE4, CHR 0xB8, CHR 0x8D, CHR 0xE4, CHR 0xBB, CHR 0xBB, CHR 0xE6, CHR 0x84, CHR 0x8F] @
   [CHR 0xE5, CHR 0x8F, CHR 0x91, CHR 0xE6, CHR 0xB6, CHR 0x88, CHR 0xE6, CHR 0x81, CHR 0xAF] @
   [CHR 0xE3, CHR 0x80, CHR 0x81, CHR 0xE4, CHR 0xB8, CHR 0x8D, CHR 0xE8, CHR 0xAF, CHR 0xBB] @
   [CHR 0xE5, CHR 0x8F, CHR 0x96, CHR 0xE7, CHR 0xA7, CHR 0x81, CHR 0xE4, CHR 0xBA, CHR 0xBA] @
   [CHR 0xE8, CHR 0xAE, CHR 0xB0, CHR 0xE5, CHR 0xBF, CHR 0x86, CHR 0xE3, CHR 0x80, CHR 0x81] @
   [CHR 0xE4, CHR 0xB8, CHR 0x8D, CHR 0xE8, CHR 0xB0, CHR 0x83, CHR 0xE7, CHR 0x94, CHR 0xA8] @
   [CHR 0xE6, CHR 0xA8, CHR 0xA1, CHR 0xE5, CHR 0x9E, CHR 0x8B, CHR 0xE6, CHR 0x88, CHR 0x96] @
   [CHR 0xE5, CHR 0xA4, CHR 0x96, CHR 0xE9, CHR 0x83, CHR 0xA8, CHR 0xE5, CHR 0xB7, CHR 0xA5] @
   [CHR 0xE5, CHR 0x85, CHR 0xB7, CHR 0xE3, CHR 0x80, CHR 0x81, CHR 0xE4, CHR 0xB8, CHR 0x8D] @
   [CHR 0xE5, CHR 0x88, CHR 0x9B, CHR 0xE5, CHR 0xBB, CHR 0xBA, CHR 0xE6, CHR 0x97, CHR 0xA5] @
   [CHR 0xE5, CHR 0x8E, CHR 0x86, CHR 0xE3, CHR 0x80, CHR 0x82, CHR 0xE4, CHR 0xBE, CHR 0x8B] @
   [CHR 0xE5, CHR 0xA4, CHR 0x96, CHR 0xE6, CHR 0x88, CHR 0x96, CHR 0xE5, CHR 0x8F, CHR 0x91] @
   [CHR 0xE9, CHR 0x80, CHR 0x81, CHR 0xE7, CHR 0xBB, CHR 0x93, CHR 0xE6, CHR 0x9E, CHR 0x9C] @
   [CHR 0xE4, CHR 0xB8, CHR 0x8D, CHR 0xE7, CHR 0xA1, CHR 0xAE, CHR 0xE5, CHR 0xAE, CHR 0x9A] @
   [CHR 0xE5, CHR 0x8D, CHR 0xB3, CHR 0xE6, CHR 0x9A, CHR 0x82, CHR 0xE5, CHR 0x81, CHR 0x9C] @
   [CHR 0xE5, CHR 0xB9, CHR 0xB6, CHR 0xE7, CHR 0x95, CHR 0x99, CHR 0xE4, CHR 0xB8, CHR 0x8B] @
   [CHR 0xE5, CHR 0xBE, CHR 0x85, CHR 0xE5, CHR 0x8A, CHR 0x9E, CHR 0xEF, CHR 0xBC, CHR 0x9B] @
   [CHR 0xE6, CHR 0x9A, CHR 0x82, CHR 0xE5, CHR 0x81, CHR 0x9C, CHR 0xE5, CHR 0x90, CHR 0x8E] @
   [CHR 0xE9, CHR 0x87, CHR 0x8D, CHR 0xE6, CHR 0x96, CHR 0xB0, CHR 0xE5, CHR 0x90, CHR 0xAF] @
   [CHR 0xE7, CHR 0x94, CHR 0xA8, CHR 0xE6, CHR 0x88, CHR 0x96, CHR 0xE6, CHR 0x94, CHR 0xB9] @
   [CHR 0xE5, CHR 0x8F, CHR 0x98, CHR 0xE7, CHR 0xAD, CHR 0x96, CHR 0xE7, CHR 0x95, CHR 0xA5] @
   [CHR 0xE5, CHR 0x9D, CHR 0x87, CHR 0xE9, CHR 0x9C, CHR 0x80, CHR 0xE8, CHR 0xA6, CHR 0x81] @
   [CHR 0xE6, CHR 0x96, CHR 0xB0, CHR 0xE7, CHR 0x9A, CHR 0x84, CHR 0xE5, CHR 0x8E, CHR 0x9F] @
   [CHR 0xE7, CHR 0x94, CHR 0x9F, CHR 0xE7, CHR 0xA1, CHR 0xAE, CHR 0xE8, CHR 0xAE, CHR 0xA4] @
   [CHR 0xE3, CHR 0x80, CHR 0x82]"

end
