(* ===== verification/Policy.thy ===== *)
theory Policy
  imports Json Rfc3339 Texts
begin

text \<open>
  The authorisation policy (\<^verbatim>\<open>src/python/agent_comm_runtime/policy.py\<close>): validation of the mandate
  (\<open>scope\<close>) and of an action, the verdict of an action against a mandate, the rendering of both
  for the owner and the compilation of the outgoing text. Input is untrusted JSON; the validators
  return the typed records that the rest of the development stores.
\<close>

section \<open>Data\<close>

datatype capability = ShareSlots | ShareResource | ProposeMeeting | AcceptMeeting | SendText

fun cap_str :: "capability \<Rightarrow> string" where
  "cap_str ShareSlots = ''share_slots''"
| "cap_str ShareResource = ''share_resource''"
| "cap_str ProposeMeeting = ''propose_meeting''"
| "cap_str AcceptMeeting = ''accept_meeting''"
| "cap_str SendText = ''send_text''"

definition capabilities_all :: "capability list" where
  "capabilities_all = [ShareSlots, ShareResource, ProposeMeeting, AcceptMeeting, SendText]"

definition cap_of :: "string \<Rightarrow> capability option" where
  "cap_of s = (case filter (\<lambda>c. cap_str c = s) capabilities_all of [] \<Rightarrow> None | c # _ \<Rightarrow> Some c)"

type_synonym interval = "time \<times> time"

record scope =
  sc_purpose :: string
  sc_topic :: string
  sc_capabilities :: "string list"
  sc_recipient_ids :: "string list"
  sc_participant_ids :: "string list"
  sc_resource_ids :: "string list"
  sc_window_start :: time
  sc_window_end :: time
  sc_expires_at :: time
  sc_allowed_windows :: "interval list option"
  sc_max_duration_minutes :: int
  sc_max_candidates :: int
  sc_max_actions :: int

record meeting =
  m_proposal_id :: string
  m_version :: int
  m_topic :: string
  m_participant_ids :: "string list"
  m_start :: time
  m_end :: time

datatype payload = Slots "interval list" | ResourceRef string | Meeting meeting | FreeText string

record action =
  a_capability :: capability
  a_recipient_ids :: "string list"
  a_payload :: payload

datatype decision = Allow | Ask | Deny | Clarify

record verdict =
  v_decision :: decision
  v_reasons :: "string list"
  v_delta :: "(string \<times> json) list"

section \<open>Normalised values as JSON\<close>

definition interval_json :: "interval \<Rightarrow> json" where
  "interval_json i = JObj [(''start'', JStr (iso_z (fst i))), (''end'', JStr (iso_z (snd i)))]"

definition scope_json :: "scope \<Rightarrow> json" where
  "scope_json s = JObj (
     [(''purpose'', JStr (sc_purpose s)), (''topic'', JStr (sc_topic s)),
      (''capabilities'', jstrs (sc_capabilities s)), (''recipient_ids'', jstrs (sc_recipient_ids s)),
      (''participant_ids'', jstrs (sc_participant_ids s)), (''resource_ids'', jstrs (sc_resource_ids s)),
      (''window_start'', JStr (iso_z (sc_window_start s))), (''window_end'', JStr (iso_z (sc_window_end s))),
      (''expires_at'', JStr (iso_z (sc_expires_at s)))] @
     (case sc_allowed_windows s of None \<Rightarrow> []
      | Some ws \<Rightarrow> [(''allowed_windows'', JArr (map interval_json ws))]) @
     [(''max_duration_minutes'', JInt (sc_max_duration_minutes s)),
      (''max_candidates'', JInt (sc_max_candidates s)), (''max_actions'', JInt (sc_max_actions s))])"

definition meeting_json :: "meeting \<Rightarrow> json" where
  "meeting_json m = JObj [(''proposal_id'', JStr (m_proposal_id m)), (''version'', JInt (m_version m)),
     (''topic'', JStr (m_topic m)), (''participant_ids'', jstrs (m_participant_ids m)),
     (''start'', JStr (iso_z (m_start m))), (''end'', JStr (iso_z (m_end m)))]"

fun payload_json :: "payload \<Rightarrow> json" where
  "payload_json (Slots is) = JObj [(''slots'', JArr (map interval_json is))]"
| "payload_json (ResourceRef r) = JObj [(''resource_id'', JStr r)]"
| "payload_json (Meeting m) = meeting_json m"
| "payload_json (FreeText t) = JObj [(''text'', JStr t)]"

definition action_json :: "action \<Rightarrow> json" where
  "action_json a = JObj [(''capability'', JStr (cap_str (a_capability a))),
     (''recipient_ids'', jstrs (a_recipient_ids a)), (''payload'', payload_json (a_payload a))]"

section \<open>Field validators\<close>

definition vfail :: "string \<Rightarrow> exn + 'a" where
  "vfail msg = Inl (ValidationError msg False)"

definition check_object :: "json \<Rightarrow> string list \<Rightarrow> string \<Rightarrow> string list \<Rightarrow> exn + (string \<times> json) list" where
  "check_object value flds path optional = (case value of
     JObj kvs \<Rightarrow>
       (let extra = sort (remdups (filter (\<lambda>k. k \<notin> set flds) (jkeys kvs)));
            missing = sort (filter (\<lambda>f. f \<notin> set (jkeys kvs) \<and> f \<notin> set optional) flds)
        in if extra \<noteq> [] then vfail (path @ '' has unsupported fields: '' @ join '', '' extra)
           else if missing \<noteq> [] then
             Inl (ValidationError (path @ '' is missing: '' @ join '', '' missing) True)
           else Inr kvs)
   | _ \<Rightarrow> vfail (path @ '' must be a JSON object''))"

definition jfield :: "string \<Rightarrow> (string \<times> json) list \<Rightarrow> json" where
  "jfield k kvs = (case jget k kvs of Some v \<Rightarrow> v | None \<Rightarrow> JNull)"

definition check_string :: "json \<Rightarrow> string \<Rightarrow> nat \<Rightarrow> bool \<Rightarrow> exn + string" where
  "check_string value path maximum ident = (case value of
     JStr s \<Rightarrow>
       (if py_blank s \<or> maximum < pylen s then
          vfail (path @ '' must be a nonempty string of at most '' @ nat_dec maximum @ '' characters'')
        else if \<not> encodable s then vfail (path @ '' must be valid Unicode'')
        else if list_ex (\<lambda>c. byte c < 32 \<and> byte c \<noteq> 10 \<and> byte c \<noteq> 9) s then
          vfail (path @ '' contains unsupported control characters'')
        else if ident \<and> (list_ex cp_space (codepoints s) \<or> 256 < pylen s) then
          vfail (path @ '' must be an identifier without whitespace'')
        else Inr s)
   | _ \<Rightarrow> vfail (path @ '' must be a nonempty string of at most '' @ nat_dec maximum @ '' characters''))"

definition check_identifier :: "json \<Rightarrow> string \<Rightarrow> exn + string" where
  "check_identifier value path = check_string value path 256 True"

text \<open>Python's \<^verbatim>\<open>sorted({...})\<close> on strings.\<close>

definition sorted_set :: "string list \<Rightarrow> string list" where
  "sorted_set xs = sort (remdups xs)"

definition check_ids :: "json \<Rightarrow> string \<Rightarrow> bool \<Rightarrow> bool \<Rightarrow> exn + string list" where
  "check_ids value path nonempty caps =
     (let bad = vfail (path @ '' must be '' @ (if nonempty then ''a nonempty'' else ''a'') @
            '' list of at most 128 identifiers'')
      in case value of
        JArr vs \<Rightarrow>
          (if 128 < length vs \<or> nonempty \<and> vs = [] then bad
           else bindE (mapE (\<lambda>v. check_identifier v (path @ ''[]'')) vs) (\<lambda>ids.
             (let result = sorted_set ids in
              if caps \<and> list_ex (\<lambda>i. cap_of i = None) result
              then vfail (path @ '' contains an unsupported capability'')
              else Inr result)))
      | _ \<Rightarrow> bad)"

definition check_integer :: "json \<Rightarrow> string \<Rightarrow> int \<Rightarrow> int \<Rightarrow> exn + int" where
  "check_integer value path minimum maximum =
     (let bad = vfail (path @ '' must be an integer in ['' @ int_dec minimum @ '', '' @ int_dec maximum @ '']'')
      in case value of
        JInt i \<Rightarrow> if minimum \<le> i \<and> i \<le> maximum then Inr i else bad
      | _ \<Rightarrow> bad)"

definition check_time :: "json \<Rightarrow> string \<Rightarrow> exn + time" where
  "check_time value path =
     (let bad = vfail (path @ '' must be RFC3339 with an explicit timezone and seconds'')
      in case value of
        JStr s \<Rightarrow>
          (if \<not> rfc3339_shape s then bad
           else (case parse_utc s of
             None \<Rightarrow> vfail (path @ '' is not a valid datetime'')
           | Some t \<Rightarrow> Inr t))
      | _ \<Rightarrow> bad)"

definition check_interval :: "json \<Rightarrow> string \<Rightarrow> exn + interval" where
  "check_interval value path =
     bindE (check_object value [''start'', ''end''] path []) (\<lambda>kvs.
     bindE (check_time (jfield ''start'' kvs) (path @ ''.start'')) (\<lambda>s.
     bindE (check_time (jfield ''end'' kvs) (path @ ''.end'')) (\<lambda>e.
       if e \<le> s then vfail (path @ ''.end must be later than start'') else Inr (s, e))))"

text \<open>The elements of a list with their position in the path of the message.\<close>

fun check_intervals :: "json list \<Rightarrow> string \<Rightarrow> nat \<Rightarrow> exn + interval list" where
  "check_intervals [] path k = Inr []"
| "check_intervals (v # vs) path k =
     bindE (check_interval v (path @ ''['' @ nat_dec k @ '']'')) (\<lambda>i.
     bindE (check_intervals vs path (Suc k)) (\<lambda>is. Inr (i # is)))"

section \<open>Mandates and actions\<close>

definition scope_fields :: "string list" where
  "scope_fields = [''purpose'', ''topic'', ''capabilities'', ''recipient_ids'', ''participant_ids'',
     ''resource_ids'', ''window_start'', ''window_end'', ''max_duration_minutes'',
     ''max_candidates'', ''max_actions'', ''expires_at'', ''allowed_windows'']"

definition check_windows :: "(string \<times> json) list \<Rightarrow> time \<Rightarrow> time \<Rightarrow> exn + interval list option" where
  "check_windows kvs wstart wend = (case jget ''allowed_windows'' kvs of
     None \<Rightarrow> Inr None
   | Some v \<Rightarrow>
       (let bad = vfail ''scope.allowed_windows must contain 1 to 128 intervals'' in
        case v of
          JArr ws \<Rightarrow>
            (if ws = [] \<or> 128 < length ws then bad
             else bindE (check_intervals ws ''scope.allowed_windows'' 0) (\<lambda>is.
               if list_ex (\<lambda>i. fst i < wstart \<or> wend < snd i) is
               then vfail ''scope.allowed_windows must be entirely inside window_start/window_end''
               else Inr (Some is)))
        | _ \<Rightarrow> bad))"

definition validate_scope :: "json \<Rightarrow> exn + scope" where
  "validate_scope sc =
     bindE (check_object sc scope_fields ''scope'' [''allowed_windows'']) (\<lambda>kvs.
     bindE (check_string (jfield ''purpose'' kvs) ''scope.purpose'' 1000 False) (\<lambda>purpose.
     bindE (check_string (jfield ''topic'' kvs) ''scope.topic'' 500 False) (\<lambda>topic.
     bindE (check_ids (jfield ''capabilities'' kvs) ''scope.capabilities'' True True) (\<lambda>caps.
     bindE (check_ids (jfield ''recipient_ids'' kvs) ''scope.recipient_ids'' True False) (\<lambda>recipients.
     bindE (check_ids (jfield ''participant_ids'' kvs) ''scope.participant_ids'' False False) (\<lambda>participants.
     bindE (check_ids (jfield ''resource_ids'' kvs) ''scope.resource_ids'' False False) (\<lambda>resources.
     bindE (check_time (jfield ''window_start'' kvs) ''scope.window_start'') (\<lambda>wstart.
     bindE (check_time (jfield ''window_end'' kvs) ''scope.window_end'') (\<lambda>wend.
     bindE (check_time (jfield ''expires_at'' kvs) ''scope.expires_at'') (\<lambda>expires.
     if wend \<le> wstart then vfail ''scope.window_end must be later than window_start'' else
     bindE (check_windows kvs wstart wend) (\<lambda>windows.
     bindE (check_integer (jfield ''max_duration_minutes'' kvs) ''scope.max_duration_minutes'' 1 10080) (\<lambda>dur.
     bindE (check_integer (jfield ''max_candidates'' kvs) ''scope.max_candidates'' 1 128) (\<lambda>cand.
     bindE (check_integer (jfield ''max_actions'' kvs) ''scope.max_actions'' 1 100000) (\<lambda>acts.
       Inr \<lparr>sc_purpose = purpose, sc_topic = topic, sc_capabilities = caps,
            sc_recipient_ids = recipients, sc_participant_ids = participants,
            sc_resource_ids = resources, sc_window_start = wstart, sc_window_end = wend,
            sc_expires_at = expires, sc_allowed_windows = windows,
            sc_max_duration_minutes = dur, sc_max_candidates = cand, sc_max_actions = acts\<rparr>))))))))))))))"

fun payload_fields :: "capability \<Rightarrow> string list" where
  "payload_fields ShareSlots = [''slots'']"
| "payload_fields ShareResource = [''resource_id'']"
| "payload_fields SendText = [''text'']"
| "payload_fields _ = [''proposal_id'', ''version'', ''topic'', ''participant_ids'', ''start'', ''end'']"

definition validate_payload :: "capability \<Rightarrow> (string \<times> json) list \<Rightarrow> exn + payload" where
  "validate_payload cap kvs =
     (case cap of
        ShareSlots \<Rightarrow>
          (let bad = vfail ''action.payload.slots must contain 1 to 128 intervals'' in
           case jfield ''slots'' kvs of
             JArr slots \<Rightarrow>
               (if slots = [] \<or> 128 < length slots then bad
                else bindE (check_intervals slots ''action.payload.slots'' 0) (\<lambda>is.
                  if \<not> distinct is then vfail ''action.payload.slots contains duplicate intervals''
                  else Inr (Slots is)))
           | _ \<Rightarrow> bad)
      | ShareResource \<Rightarrow>
          bindE (check_identifier (jfield ''resource_id'' kvs) ''action.payload.resource_id'') (\<lambda>r.
            Inr (ResourceRef r))
      | SendText \<Rightarrow>
          bindE (check_string (jfield ''text'' kvs) ''action.payload.text'' 8000 False) (\<lambda>t.
            Inr (FreeText t))
      | _ \<Rightarrow>
          bindE (check_interval (JObj [(''start'', jfield ''start'' kvs), (''end'', jfield ''end'' kvs)])
                   ''action.payload.interval'') (\<lambda>i.
          bindE (check_identifier (jfield ''proposal_id'' kvs) ''action.payload.proposal_id'') (\<lambda>pid.
          bindE (check_integer (jfield ''version'' kvs) ''action.payload.version'' 1 2147483647) (\<lambda>v.
          bindE (check_string (jfield ''topic'' kvs) ''action.payload.topic'' 500 False) (\<lambda>topic.
          bindE (check_ids (jfield ''participant_ids'' kvs) ''action.payload.participant_ids'' True False) (\<lambda>parts.
            Inr (Meeting \<lparr>m_proposal_id = pid, m_version = v, m_topic = topic,
                          m_participant_ids = parts, m_start = fst i, m_end = snd i\<rparr>)))))))"

definition check_capability :: "json \<Rightarrow> exn + capability" where
  "check_capability v =
     bindE (check_identifier v ''action.capability'') (\<lambda>s.
       case cap_of s of None \<Rightarrow> vfail ''action.capability is unsupported'' | Some c \<Rightarrow> Inr c)"

definition validate_action :: "json \<Rightarrow> exn + action" where
  "validate_action act =
     bindE (case act of
              JObj kvs \<Rightarrow> (case jget ''capability'' kvs of
                 None \<Rightarrow> Inr () | Some v \<Rightarrow> bindE (check_capability v) (\<lambda>_. Inr ()))
            | _ \<Rightarrow> Inr ()) (\<lambda>_.
     bindE (check_object act [''capability'', ''recipient_ids'', ''payload''] ''action'' []) (\<lambda>kvs.
     bindE (check_capability (jfield ''capability'' kvs)) (\<lambda>cap.
     bindE (check_ids (jfield ''recipient_ids'' kvs) ''action.recipient_ids'' True False) (\<lambda>recipients.
     bindE (check_object (jfield ''payload'' kvs) (payload_fields cap) ''action.payload'' []) (\<lambda>pkvs.
     bindE (validate_payload cap pkvs) (\<lambda>p.
       Inr \<lparr>a_capability = cap, a_recipient_ids = recipients, a_payload = p\<rparr>))))))"

section \<open>The verdict\<close>

fun exn_text :: "exn \<Rightarrow> string" where
  "exn_text (ValueError m) = m"
| "exn_text (ValidationError m _) = m"
| "exn_text (RemoteMutationConflict m) = m"
| "exn_text (RemoteError _ m) = m"
| "exn_text (Unsupported m) = m"
| "exn_text (KeyError m) = m"
| "exn_text (TypeError m) = m"
| "exn_text (AttributeError m) = m"
| "exn_text StopIteration = []"
| "exn_text (Buffered m) = m"
| "exn_text (OSError m) = m"

fun exn_missing :: "exn \<Rightarrow> bool" where
  "exn_missing (ValidationError _ b) = b"
| "exn_missing _ = False"

definition mk_verdict :: "decision \<Rightarrow> string list \<Rightarrow> (string \<times> json) list \<Rightarrow> verdict" where
  "mk_verdict d rs dl = \<lparr>v_decision = d, v_reasons = rs, v_delta = dl\<rparr>"

definition subset_delta :: "string \<Rightarrow> string list \<Rightarrow> string list \<Rightarrow> (string \<times> json) list" where
  "subset_delta key allowed requested =
     (let outside = sorted_set (filter (\<lambda>x. x \<notin> set allowed) requested) in
      if outside = [] then []
      else [(key, JObj [(''allowed'', jstrs allowed), (''requested'', jstrs requested),
                        (''outside'', jstrs outside)])])"

definition limit_delta :: "string \<Rightarrow> json \<Rightarrow> json \<Rightarrow> (string \<times> json) list" where
  "limit_delta key allowed requested = [(key, JObj [(''allowed'', allowed), (''requested'', requested)])]"

fun action_intervals :: "action \<Rightarrow> interval list" where
  "action_intervals a = (case a_payload a of
     Slots is \<Rightarrow> is | Meeting m \<Rightarrow> [(m_start m, m_end m)] | _ \<Rightarrow> [])"

definition payload_delta :: "scope \<Rightarrow> action \<Rightarrow> (string \<times> json) list" where
  "payload_delta sc a = (case a_payload a of
     ResourceRef r \<Rightarrow> subset_delta ''resource_ids'' (sc_resource_ids sc) [r]
   | Slots is \<Rightarrow>
       (if sc_max_candidates sc < int (length is)
        then limit_delta ''max_candidates'' (JInt (sc_max_candidates sc)) (JInt (int (length is))) else [])
   | Meeting m \<Rightarrow>
       subset_delta ''participant_ids'' (sc_participant_ids sc) (m_participant_ids m) @
       (if m_topic m \<noteq> sc_topic sc
        then limit_delta ''topic'' (JStr (sc_topic sc)) (JStr (m_topic m)) else [])
   | FreeText t \<Rightarrow> [])"

definition outside_list :: "(interval \<Rightarrow> bool) \<Rightarrow> action \<Rightarrow> interval list" where
  "outside_list p a = filter (\<lambda>i. \<not> p i) (action_intervals a)"

definition in_window :: "scope \<Rightarrow> interval \<Rightarrow> bool" where
  "in_window sc i \<longleftrightarrow> \<not> (fst i < sc_window_start sc \<or> sc_window_end sc < snd i)"

definition in_some_window :: "interval list \<Rightarrow> interval \<Rightarrow> bool" where
  "in_some_window ws i \<longleftrightarrow> list_ex (\<lambda>w. fst w \<le> fst i \<and> snd i \<le> snd w) ws"

definition short_enough :: "scope \<Rightarrow> interval \<Rightarrow> bool" where
  "short_enough sc i \<longleftrightarrow> snd i - fst i \<le> sc_max_duration_minutes sc * 60 * sec"

definition time_delta :: "scope \<Rightarrow> action \<Rightarrow> (string \<times> json) list" where
  "time_delta sc a =
     (let out = outside_list (in_window sc) a in
      if out = [] then []
      else limit_delta ''window'' (interval_json (sc_window_start sc, sc_window_end sc))
             (JArr (map interval_json out))) @
     (case sc_allowed_windows sc of None \<Rightarrow> []
      | Some ws \<Rightarrow>
          (let out = outside_list (in_some_window ws) a in
           if out = [] then []
           else limit_delta ''allowed_windows'' (JArr (map interval_json ws)) (JArr (map interval_json out)))) @
     (let out = outside_list (short_enough sc) a in
      if out = [] then []
      else limit_delta ''max_duration_minutes'' (JInt (sc_max_duration_minutes sc))
             (JArr (map interval_json out)))"

definition scope_delta :: "scope \<Rightarrow> action \<Rightarrow> (string \<times> json) list" where
  "scope_delta sc a =
     subset_delta ''capabilities'' (sc_capabilities sc) [cap_str (a_capability a)] @
     subset_delta ''recipient_ids'' (sc_recipient_ids sc) (a_recipient_ids a) @
     payload_delta sc a @ time_delta sc a"

definition judge_action :: "scope \<Rightarrow> action \<Rightarrow> verdict" where
  "judge_action sc a =
     (let delta = scope_delta sc a;
          reasons = (if delta = [] then [] else [''scope_exceeded'']) @
                    (if a_capability a = SendText then [''free_text_requires_approval''] else []);
          delta' = delta @ (case a_payload a of FreeText t \<Rightarrow>
                      [(''exact_text'', JObj [(''requested'', JStr t)])] | _ \<Rightarrow> [])
      in mk_verdict (if reasons = [] then Allow else Ask)
           (if reasons = [] then [''within_scope''] else reasons) delta')"

definition evaluate_scope :: "scope \<Rightarrow> json \<Rightarrow> int \<Rightarrow> time \<Rightarrow> verdict" where
  "evaluate_scope sc act used now =
     (if used < 0 then mk_verdict Deny [''invalid_usage''] []
      else if sc_expires_at sc \<le> now then
        mk_verdict Deny [''expired''] [(''expires_at'', JStr (iso_z (sc_expires_at sc)))]
      else if sc_max_actions sc \<le> used then
        mk_verdict Deny [''action_limit_reached'']
          (limit_delta ''max_actions'' (JInt (sc_max_actions sc)) (JInt (used + 1)))
      else (case validate_action act of
        Inl e \<Rightarrow>
          mk_verdict (if exn_missing e then Clarify else Deny)
            [if exn_missing e then ''missing_action_fields'' else ''invalid_action'']
            [(''error'', JStr (exn_text e))]
      | Inr a \<Rightarrow> judge_action sc a))"

definition evaluate :: "json \<Rightarrow> json \<Rightarrow> int \<Rightarrow> time \<Rightarrow> verdict" where
  "evaluate sc act used now = (case validate_scope sc of
     Inl e \<Rightarrow> mk_verdict Deny [''invalid_scope''] [(''error'', JStr (exn_text e))]
   | Inr s \<Rightarrow> evaluate_scope s act used now)"

section \<open>Texts for the owner and the peer\<close>

definition quoted :: "json \<Rightarrow> string" where
  "quoted j = dumps '', '' '': '' j"

definition nl :: string where
  "nl = [chr 10]"

fun cap_label :: "capability \<Rightarrow> string" where
  "cap_label ShareSlots = T_label_share_slots"
| "cap_label ShareResource = T_label_share_resource"
| "cap_label ProposeMeeting = T_label_propose_meeting"
| "cap_label AcceptMeeting = T_label_accept_meeting"
| "cap_label SendText = T_label_send_text"

definition label_of :: "string \<Rightarrow> string" where
  "label_of s = (case cap_of s of Some c \<Rightarrow> cap_label c | None \<Rightarrow> [])"

fun numbered :: "nat \<Rightarrow> interval list \<Rightarrow> string list" where
  "numbered k [] = []"
| "numbered k (i # is) = (nat_dec k @ ''. '' @ iso_z (fst i) @ T_to_sep @ iso_z (snd i)) # numbered (Suc k) is"

definition render_scope_text :: "scope \<Rightarrow> string" where
  "render_scope_text s = join nl [
     T_rs_purpose @ quoted (JStr (sc_purpose s)),
     T_rs_purpose_note,
     T_rs_topic @ quoted (JStr (sc_topic s)),
     T_rs_caps @ join T_cap_sep (map (\<lambda>c. label_of c @ '' ['' @ c @ '']'') (sc_capabilities s)),
     T_rs_recipients @ quoted (jstrs (sc_recipient_ids s)),
     T_rs_participants @ quoted (jstrs (sc_participant_ids s)),
     T_rs_resources @ quoted (jstrs (sc_resource_ids s)),
     T_rs_range @ iso_z (sc_window_start s) @ T_to_sep @ iso_z (sc_window_end s),
     (case sc_allowed_windows s of
        Some ws \<Rightarrow> T_rs_windows @ join nl (numbered 1 ws)
      | None \<Rightarrow> T_rs_no_windows),
     T_rs_duration @ int_dec (sc_max_duration_minutes s) @ T_rs_minutes @ int_dec (sc_max_candidates s),
     T_rs_actions @ int_dec (sc_max_actions s) @ T_rs_expiry @ iso_z (sc_expires_at s),
     T_rs_footer]"

definition render_scope :: "json \<Rightarrow> exn + string" where
  "render_scope sc = bindE (validate_scope sc) (\<lambda>s. Inr (render_scope_text s))"

definition render_action_text :: "action \<Rightarrow> string" where
  "render_action_text a = join nl [
     T_ra_action @ cap_label (a_capability a) @ '' ['' @ cap_str (a_capability a) @ '']'',
     T_rs_recipients @ quoted (jstrs (a_recipient_ids a)),
     T_ra_params @ quoted (payload_json (a_payload a))]"

definition render_action :: "json \<Rightarrow> exn + string" where
  "render_action act = bindE (validate_action act) (\<lambda>a. Inr (render_action_text a))"

text \<open>A registered snapshot; \<open>sha\<close> is \<^verbatim>\<open>hashlib.sha256(...).hexdigest()\<close>.\<close>

record resource =
  r_resource_id :: string
  r_title :: string
  r_text :: string
  r_sha256 :: string
  r_owner_id :: string
  r_provenance :: "(string \<times> string \<times> string) option"

definition is_sha256 :: "string \<Rightarrow> bool" where
  "is_sha256 s \<longleftrightarrow> length s = 64 \<and> list_all (\<lambda>c. ascii_digit c \<or> 97 \<le> byte c \<and> byte c \<le> 102) s"

definition compile_resource :: "(string \<Rightarrow> string) \<Rightarrow> string \<Rightarrow> resource option \<Rightarrow> exn + string" where
  "compile_resource sha rid ro = (case ro of
     None \<Rightarrow> Inl (ValueError ''resource snapshot is missing or has a different ID'')
   | Some r \<Rightarrow>
       (if r_resource_id r \<noteq> rid then Inl (ValueError ''resource snapshot is missing or has a different ID'')
        else bindE (check_string (JStr (r_title r)) ''resource.title'' 200 False) (\<lambda>title.
        bindE (check_string (JStr (r_text r)) ''resource.text'' 8000 False) (\<lambda>text.
        if \<not> is_sha256 (r_sha256 r) then Inl (ValueError ''resource.sha256 must be a lowercase SHA256 digest'')
        else if sha text \<noteq> r_sha256 r then
          Inl (ValueError ''resource snapshot content does not match its digest'')
        else Inr (title @ nl @ nl @ text)))))"

definition compile_text :: "(string \<Rightarrow> string) \<Rightarrow> action \<Rightarrow> (string \<Rightarrow> resource option) \<Rightarrow> exn + string" where
  "compile_text sha a resources = (case a_payload a of
     FreeText t \<Rightarrow> Inr t
   | ResourceRef rid \<Rightarrow> compile_resource sha rid (resources rid)
   | Slots is \<Rightarrow> Inr (T_cm_slots @ join nl (numbered 1 is))
   | Meeting m \<Rightarrow> Inr (join nl [
       (if a_capability a = ProposeMeeting then T_cm_propose else T_cm_accept) @ T_colon @
         quoted (JStr (m_proposal_id m)) @ T_cm_version @ int_dec (m_version m),
       T_cm_topic @ quoted (JStr (m_topic m)),
       T_rs_participants @ quoted (jstrs (m_participant_ids m)),
       T_cm_time @ iso_z (m_start m) @ T_to_sep @ iso_z (m_end m)]))"

definition compile_message ::
  "(string \<Rightarrow> string) \<Rightarrow> json \<Rightarrow> (string \<Rightarrow> resource option) \<Rightarrow> exn + string" where
  "compile_message sha act resources =
     bindE (validate_action act) (\<lambda>a. compile_text sha a resources)"

end
