(* ===== verification/Identity.thy ===== *)
theory Identity
  imports Py_Strings
begin

text \<open>
  Network identities (\<^verbatim>\<open>src/python/agent_comm_runtime/identity.py\<close>): the syntax of a URN, which all
  components that take one from outside check before anything else.
\<close>

definition ns_char :: "char \<Rightarrow> bool" where
  "ns_char c \<longleftrightarrow> ascii_alnum c \<or> c \<in> set ''._:-''"

definition nid_char :: "char \<Rightarrow> bool" where
  "nid_char c \<longleftrightarrow> ascii_alnum c \<or> c \<in> set ''._-''"

definition ns_ok :: "string \<Rightarrow> bool" where
  "ns_ok s \<longleftrightarrow> s \<noteq> [] \<and> ascii_alnum (hd s) \<and> list_all ns_char (tl s)"

definition nid_ok :: "string \<Rightarrow> bool" where
  "nid_ok s \<longleftrightarrow> s \<noteq> [] \<and> ascii_alnum (hd s) \<and> list_all nid_char (tl s)"

text \<open>
  The match of \<^verbatim>\<open>urn:[A-Za-z0-9][A-Za-z0-9._:-]*:[A-Za-z0-9][A-Za-z0-9._-]*\<close>: the last component
  has no colon, so the colon before it is the last one.
\<close>

definition is_urn :: "string \<Rightarrow> bool" where
  "is_urn s \<longleftrightarrow> pylen s \<le> 256 \<and> take 4 s = ''urn:'' \<and>
     (let r = drop 4 s; nid = rev (takeWhile (\<lambda>c. c \<noteq> CHR '':'') (rev r));
          k = length r - length nid
      in 0 < k \<and> ns_ok (take (k - 1) r) \<and> nid_ok nid)"

definition urn_error :: string where
  "urn_error = ''Provide an explicit network URN with a nonempty identity; a display name is not an identity''"

definition validate_urn :: "string \<Rightarrow> exn + string" where
  "validate_urn value = (if is_urn value then Inr value else Inl (ValueError urn_error))"

lemma ascii_alnum_colon [simp]: "\<not> ascii_alnum (CHR '':'')"
  by (simp add: ascii_alnum_def ascii_digit_def byte_def)

lemma nid_ok_no_colon: "nid_ok s \<Longrightarrow> CHR '':'' \<notin> set s"
  by (cases s) (auto simp: nid_ok_def nid_char_def list_all_iff)

lemma split_last_colon:
  assumes "CHR '':'' \<notin> set nid"
  shows "rev (takeWhile (\<lambda>c. c \<noteq> CHR '':'') (rev (ns @ CHR '':'' # nid))) = nid"
proof -
  have "takeWhile (\<lambda>c. c \<noteq> CHR '':'') (rev nid) = rev nid"
    using assms by (auto simp: takeWhile_eq_all_conv)
  moreover have "takeWhile (\<lambda>c. c \<noteq> CHR '':'') (rev (ns @ CHR '':'' # nid)) =
      takeWhile (\<lambda>c. c \<noteq> CHR '':'') (rev nid)"
    by (simp add: takeWhile_tail)
  ultimately show ?thesis
    by (simp only: rev_rev_ident)
qed

lemma last_colon_decomp:
  assumes "rev (takeWhile (\<lambda>c. c \<noteq> CHR '':'') (rev r)) = nid" "length nid < length r"
  shows "r = take (length r - length nid - 1) r @ CHR '':'' # nid"
proof -
  define ws where "ws = dropWhile (\<lambda>c. c \<noteq> CHR '':'') (rev r)"
  have "rev r = rev nid @ ws"
    using takeWhile_dropWhile_id [of "\<lambda>c. c \<noteq> CHR '':''" "rev r"]
    unfolding assms(1) [symmetric] ws_def by (simp only: rev_rev_ident)
  then have r: "r = rev ws @ nid"
    by (metis rev_append rev_rev_ident)
  then have "ws \<noteq> []" using assms(2) by auto
  then have "hd ws = CHR '':''"
    using hd_dropWhile [of "\<lambda>c. c \<noteq> CHR '':''" "rev r"] by (auto simp: ws_def)
  then obtain vs where ws: "ws = CHR '':'' # vs"
    using \<open>ws \<noteq> []\<close> by (cases ws) auto
  show ?thesis
    by (subst r) (simp add: r ws)
qed

text \<open>The checker decides the regular expression.\<close>

lemma is_urn_iff:
  "is_urn s \<longleftrightarrow> pylen s \<le> 256 \<and> (\<exists>ns nid. s = ''urn:'' @ ns @ '':'' @ nid \<and> ns_ok ns \<and> nid_ok nid)"
  (is "_ \<longleftrightarrow> _ \<and> ?match")
proof -
  define r where "r = drop 4 s"
  define nid where "nid = rev (takeWhile (\<lambda>c. c \<noteq> CHR '':'') (rev r))"
  define k where "k = length r - length nid"
  have "?match" if u: "take 4 s = ''urn:''" and k: "0 < k" and ok: "ns_ok (take (k - 1) r)" "nid_ok nid"
  proof -
    have "s = ''urn:'' @ r" using u append_take_drop_id [of 4 s] by (simp add: r_def)
    moreover have "r = take (k - 1) r @ CHR '':'' # nid"
      using last_colon_decomp [of r nid] k by (simp add: nid_def k_def)
    ultimately show ?thesis using ok by (metis append_Cons append_Nil)
  qed
  moreover have "take 4 s = ''urn:'' \<and> 0 < k \<and> ns_ok (take (k - 1) r) \<and> nid_ok nid" if "?match"
  proof -
    from that obtain a b where s: "s = ''urn:'' @ a @ '':'' @ b" and ok: "ns_ok a" "nid_ok b" by blast
    have r: "r = a @ CHR '':'' # b" by (simp add: r_def s)
    have "nid = b" unfolding nid_def r by (rule split_last_colon) (rule nid_ok_no_colon [OF ok(2)])
    then show ?thesis using ok by (simp add: s k_def r)
  qed
  ultimately show ?thesis
    unfolding is_urn_def Let_def r_def [symmetric] nid_def [symmetric] k_def [symmetric] by blast
qed

lemma validate_urn_Inr [simp]: "validate_urn v = Inr w \<longleftrightarrow> is_urn v \<and> w = v"
  by (auto simp: validate_urn_def)

text \<open>
  No character that separates fields elsewhere (the bar of an owner session, white space, quotes)
  occurs in a URN.
\<close>

lemma is_urn_chars:
  assumes "is_urn s" "c \<in> set s"
  shows "ascii_alnum c \<or> c \<in> set ''._:-''"
proof -
  obtain ns nid where s: "s = ''urn:'' @ ns @ '':'' @ nid" "ns_ok ns" "nid_ok nid"
    using assms(1) by (auto simp: is_urn_iff)
  have "ns_char d" if "d \<in> set ns" for d
    using s(2) that by (cases ns) (auto simp: ns_ok_def list_all_iff ns_char_def)
  moreover have "ns_char d" if "d \<in> set nid" for d
    using s(3) that by (cases nid) (auto simp: nid_ok_def list_all_iff ns_char_def nid_char_def)
  moreover have "list_all ns_char ''urn:''"
    by (simp add: ns_char_def ascii_alnum_def byte_def)
  ultimately show ?thesis
    using assms(2) unfolding s(1) list_all_iff set_append Un_iff by (auto simp: ns_char_def)
qed

end
