(* ===== verification/Records.thy ===== *)
theory Records
  imports Policy Identity
begin

text \<open>
  The records of the local authority store (\<^verbatim>\<open>src/python/agent_comm_runtime/store.py\<close> and the mixins
  it composes), one typed record per kind of row, the state of the whole store, and the JSON
  forms of those records of which the code takes a digest. Optional dictionary keys are options.
\<close>

section \<open>Environment\<close>

text \<open>
  What one operation is given from outside: the clock (read once per transaction), the local agent
  URN of the host configuration, \<^verbatim>\<open>hashlib.sha256(...).hexdigest()\<close>, the next value of \<^verbatim>\<open>secrets\<close> and the
  navigation context that a trusted bridge has bound (\<^verbatim>\<open>source_context.bind_source_context\<close>).
\<close>

type_synonym context_data = "(string \<times> string) list"

record env =
  now :: time
  local_urn :: "string option"
  sha :: "string \<Rightarrow> string"
  fresh :: string
  binding :: "(string \<times> context_data \<times> string) option"

section \<open>Status values\<close>

datatype task_status = TPending | TActive | TRevoked
datatype op_status = OReady | OAwaiting | OSending | OAccepted | ODenied
datatype ap_status = APending | APresenting | AExpired | AApproved | ADenied | ASuperseded
datatype delivery_status = DPending | DUncertain | DAccepted
datatype request_status = RqPending | RqAccepted | RqRejected | RqBlocked
datatype direction = Incoming | Outgoing
datatype outbox_status = XQueued | XAccepted | XBlocked
datatype review_status = RvPending | RvApproved | RvRejected
datatype worker_status = WPending | WActive | WPaused | WRevoked
datatype run_status = RunRunning | RunCompleted | RunFinished
datatype event_status = EReserved | EBuffered | EApplied | ERejected
datatype attn_state = AtOpen | AtResolved | AtSuperseded | AtExpired
datatype conn_status = Unverified | ConnPending | ConnRejected | Connected | ConnBlocked

fun task_status_str :: "task_status \<Rightarrow> string" where
  "task_status_str TPending = ''pending''"
| "task_status_str TActive = ''active''"
| "task_status_str TRevoked = ''revoked''"

fun op_status_str :: "op_status \<Rightarrow> string" where
  "op_status_str OReady = ''ready''"
| "op_status_str OAwaiting = ''awaiting_approval''"
| "op_status_str OSending = ''sending''"
| "op_status_str OAccepted = ''accepted''"
| "op_status_str ODenied = ''denied''"

fun ap_status_str :: "ap_status \<Rightarrow> string" where
  "ap_status_str APending = ''pending''"
| "ap_status_str APresenting = ''presenting''"
| "ap_status_str AExpired = ''expired''"
| "ap_status_str AApproved = ''approved''"
| "ap_status_str ADenied = ''denied''"
| "ap_status_str ASuperseded = ''superseded''"

fun event_status_str :: "event_status \<Rightarrow> string" where
  "event_status_str EReserved = ''reserved''"
| "event_status_str EBuffered = ''buffered''"
| "event_status_str EApplied = ''applied''"
| "event_status_str ERejected = ''rejected''"

fun request_status_str :: "request_status \<Rightarrow> string" where
  "request_status_str RqPending = ''pending''"
| "request_status_str RqAccepted = ''accepted''"
| "request_status_str RqRejected = ''rejected''"
| "request_status_str RqBlocked = ''blocked''"

text \<open>Statuses that only advance are ordered by how far they have come.\<close>

fun delivery_rank :: "delivery_status \<Rightarrow> nat" where
  "delivery_rank DPending = 0" | "delivery_rank DUncertain = 1" | "delivery_rank DAccepted = 2"

instantiation delivery_status :: linorder
begin

definition less_eq_delivery_status :: "delivery_status \<Rightarrow> delivery_status \<Rightarrow> bool" where
  "less_eq_delivery_status a b \<longleftrightarrow> delivery_rank a \<le> delivery_rank b"

definition less_delivery_status :: "delivery_status \<Rightarrow> delivery_status \<Rightarrow> bool" where
  "less_delivery_status a b \<longleftrightarrow> delivery_rank a < delivery_rank b"

instance
proof
  fix x y :: delivery_status
  show "x \<le> y \<Longrightarrow> y \<le> x \<Longrightarrow> x = y"
    by (cases x; cases y) (simp_all add: less_eq_delivery_status_def)
qed (auto simp: less_eq_delivery_status_def less_delivery_status_def)

end

fun task_rank :: "task_status \<Rightarrow> nat" where
  "task_rank TPending = 0" | "task_rank TActive = 1" | "task_rank TRevoked = 2"

instantiation task_status :: linorder
begin

definition less_eq_task_status :: "task_status \<Rightarrow> task_status \<Rightarrow> bool" where
  "less_eq_task_status a b \<longleftrightarrow> task_rank a \<le> task_rank b"

definition less_task_status :: "task_status \<Rightarrow> task_status \<Rightarrow> bool" where
  "less_task_status a b \<longleftrightarrow> task_rank a < task_rank b"

instance
proof
  fix x y :: task_status
  show "x \<le> y \<Longrightarrow> y \<le> x \<Longrightarrow> x = y"
    by (cases x; cases y) (simp_all add: less_eq_task_status_def)
qed (auto simp: less_eq_task_status_def less_task_status_def)

end

section \<open>Contacts, tasks and operations\<close>

record contact =
  c_id :: string
  c_aliases :: "string list"
  c_urn :: string
  c_owner :: string

record task =
  t_id :: string
  t_session :: string
  t_scope :: scope
  t_revision :: int
  t_status :: task_status
  t_used :: int
  t_source :: "context_data option"

record delivery =
  d_recipient :: string
  d_urn :: string
  d_message :: string
  d_status :: delivery_status
  d_accepted_at :: "time option"

record operation =
  o_id :: string
  o_task :: string
  o_revision :: int
  o_action :: action
  o_recipients :: "contact list"
  o_resources :: "resource list"
  o_text :: string
  o_wire_text :: string
  o_hash :: string
  o_session :: string
  o_decision :: verdict
  o_status :: op_status
  o_created :: time
  o_deliveries :: "delivery list"
  o_base_hash :: string
  o_approval :: "string option"
  o_approved_once :: bool
  o_reserved :: "time option"
  o_invalid :: "string option"

record proposal =
  pr_task :: string
  pr_payload :: meeting
  pr_source :: "string option"

section \<open>Messages and friendships\<close>

text \<open>The authenticated wire fields of a message and what the inbox keeps with them.\<close>

record wire =
  w_id :: string
  w_sender :: string
  w_text :: string
  w_task :: "string option"
  w_conversation :: "string option"
  w_kind :: "string option"
  w_reply :: "string option"
  w_deadline :: "string option"

record inbound = wire +
  i_fingerprint :: string
  i_received :: time
  i_quarantined :: bool
  i_reason :: "string option"
  i_request :: "string option"

record social_msg =
  x_id :: string
  x_recipient :: string
  x_kind :: string
  x_conversation :: "string option"
  x_reply :: "string option"
  x_text :: string

record outbox =
  b_id :: string
  b_owner :: string
  b_message :: social_msg
  b_status :: outbox_status
  b_created :: time
  b_updated :: time

record connection =
  n_owner :: string
  n_urn :: string
  n_request :: string
  n_at :: time

record contact_request =
  q_id :: string
  q_owner :: string
  q_direction :: direction
  q_urn :: string
  q_contact :: "string option"
  q_status :: request_status
  q_attempt :: "int option"
  q_created :: time
  q_updated :: time

record peer_block =
  k_owner :: string
  k_urn :: string
  k_blocked :: bool
  k_at :: time
  k_updated :: time

record message_block =
  mb_owner :: string
  mb_id :: string
  mb_fingerprint :: "string option"

record peer_review =
  rv_owner :: string
  rv_id :: string
  rv_sender :: string
  rv_kind :: string
  rv_wire :: wire
  rv_fingerprint :: string
  rv_received :: time
  rv_status :: review_status
  rv_decided :: "time option"

section \<open>The bilateral protocol\<close>

datatype v2_kind = VInvite | VJoin | VProposal | VChangeRequest | VAccept | VAgreement
  | VAgreementAck | VWithdraw | VCancelRequest | VCancelAck | VReceipt | VSyncRequest | VSyncResponse

fun v2_kind_str :: "v2_kind \<Rightarrow> string" where
  "v2_kind_str VInvite = ''invite''"
| "v2_kind_str VJoin = ''join''"
| "v2_kind_str VProposal = ''proposal''"
| "v2_kind_str VChangeRequest = ''change_request''"
| "v2_kind_str VAccept = ''accept''"
| "v2_kind_str VAgreement = ''agreement''"
| "v2_kind_str VAgreementAck = ''agreement_ack''"
| "v2_kind_str VWithdraw = ''withdraw''"
| "v2_kind_str VCancelRequest = ''cancel_request''"
| "v2_kind_str VCancelAck = ''cancel_ack''"
| "v2_kind_str VReceipt = ''receipt''"
| "v2_kind_str VSyncRequest = ''sync_request''"
| "v2_kind_str VSyncResponse = ''sync_response''"

definition v2_kinds :: "v2_kind list" where
  "v2_kinds = [VInvite, VJoin, VProposal, VChangeRequest, VAccept, VAgreement, VAgreementAck,
     VWithdraw, VCancelRequest, VCancelAck, VReceipt, VSyncRequest, VSyncResponse]"

definition v2_kind_of :: "string \<Rightarrow> v2_kind option" where
  "v2_kind_of s = (case filter (\<lambda>k. v2_kind_str k = s) v2_kinds of [] \<Rightarrow> None | k # _ \<Rightarrow> Some k)"

text \<open>A validated event: the fields of \<^verbatim>\<open>FIELDS\<close>; the payload is an object, given by its items.\<close>

record packet =
  pk_collaboration :: string
  pk_event :: string
  pk_kind :: v2_kind
  pk_sender :: string
  pk_recipient :: string
  pk_sequence :: int
  pk_previous :: "string option"
  pk_created :: string
  pk_expires :: string
  pk_payload :: "(string \<times> json) list"
  pk_payload_digest :: string

record permit =
  pm_until :: time
  pm_max :: int
  pm_used :: int
  pm_revoked :: bool
  pm_revoked_at :: "time option"

record acceptance =
  ac_terms :: string
  ac_actor :: string
  ac_valid :: string
  ac_event :: string
  ac_digest :: string
  ac_active :: bool

record collaboration =
  v_id :: string
  v_owner :: string
  v_task :: string
  v_peer_id :: string
  v_peer :: string
  v_initiator :: string
  v_phase :: string
  v_joined :: bool
  v_terms :: "json option"
  v_acceptances :: "(string \<times> acceptance) list"
  v_agreement :: "json option"
  v_synced :: bool
  v_withdraw :: bool
  v_out :: int
  v_last_out :: "string option"
  v_in :: int
  v_last_in :: "string option"
  v_permit :: "permit option"
  v_created :: time
  v_invitation :: "packet option"
  v_waiting :: "string option"
  v_blocked_at :: "time option"
  v_closure :: "string option"
  v_cancel :: "json option"
  v_change :: "json option"
  v_sync_after :: "int option"
  v_source :: "context_data option"

record v2_event =
  e_owner :: string
  e_task :: string
  e_packet :: packet
  e_digest :: string
  e_status :: event_status
  e_reason :: string
  e_outgoing :: bool
  e_at :: time
  e_receipt :: "json option"

record v2_operation =
  z_id :: string
  z_task :: string
  z_owner :: string
  z_collaboration :: string
  z_kind :: v2_kind
  z_payload :: "(string \<times> json) list"
  z_action :: "action option"
  z_revision :: int
  z_request :: string
  z_context :: string
  z_status :: op_status
  z_decision :: verdict
  z_expires :: time
  z_maintenance :: bool
  z_recovery :: bool
  z_created :: time
  z_text :: string
  z_hash :: string
  z_delivery :: "delivery option"
  z_review_version :: "int option"
  z_new :: "collaboration option"
  z_permit :: "permit option"
  z_approval :: "string option"
  z_approved_once :: bool
  z_recovery_used :: bool
  z_packet :: "packet option"
  z_reserved :: "time option"
  z_invalid :: "string option"

record invitation =
  iv_id :: string
  iv_packet :: packet
  iv_digest :: string
  iv_received :: time

section \<open>The worker\<close>

record worker_limits =
  wl_collaboration :: string
  wl_propose :: bool
  wl_accept :: bool
  wl_proposal :: "meeting option"
  wl_runs :: int
  wl_sends :: int
  wl_interval :: int
  wl_expires :: string

record worker_policy =
  wp_task :: string
  wp_session :: string
  wp_owner :: string
  wp_task_revision :: int
  wp_revision :: int
  wp_policy :: worker_limits
  wp_status :: worker_status
  wp_runs :: int
  wp_sends :: int
  wp_last_run :: "time option"
  wp_waiting :: "string option"
  wp_approval :: "string option"

record worker_run =
  wr_id :: string
  wr_task :: string
  wr_revision :: int
  wr_status :: run_status
  wr_started :: time
  wr_finished :: "time option"
  wr_operation :: "string option"

section \<open>Approvals and attention\<close>

text \<open>The payload of an approval determines its \<^verbatim>\<open>kind\<close>.\<close>

datatype approval_payload =
    PContact contact
  | PFriend contact int
  | PResponse string string "(string \<times> string list) option"
  | PMessage social_msg
  | PTask scope int
  | POperation string int
  | PWorker int int string
  | PV2 string

record approval =
  p_id :: string
  p_subject :: string
  p_session :: string
  p_payload :: approval_payload
  p_fingerprint :: string
  p_question :: string
  p_expires :: time
  p_status :: ap_status
  p_created :: time
  p_invalid :: "string option"
  p_token :: "string option"
  p_lease :: "time option"
  p_source :: "context_data option"

fun payload_kind :: "approval_payload \<Rightarrow> string" where
  "payload_kind (PContact _) = ''contact''"
| "payload_kind (PFriend _ _) = ''friend_request''"
| "payload_kind (PResponse _ _ _) = ''contact_response''"
| "payload_kind (PMessage _) = ''direct_message''"
| "payload_kind (PTask _ _) = ''task''"
| "payload_kind (POperation _ _) = ''operation''"
| "payload_kind (PWorker _ _ _) = ''worker_policy''"
| "payload_kind (PV2 _) = ''collaboration_v2''"

record attention_item =
  at_id :: string
  at_owner :: string
  at_kind :: string
  at_subject :: string
  at_source_revision :: json
  at_state :: attn_state
  at_title :: string
  at_summary :: string
  at_target_kind :: string
  at_target_id :: string
  at_turn :: "string option"
  at_source_kind :: string
  at_source_id :: string
  at_task :: "string option"
  at_expires :: "time option"
  at_approval :: "string option"
  at_revision :: int
  at_created :: time
  at_updated :: time

record turn =
  tu_id :: string
  tu_conversation :: string
  tu_status :: string
  tu_created :: time
  tu_updated :: time
  tu_owner :: string

text \<open>The native session bound to a subject of the feed, and one handling request for an item.\<close>

datatype submission_state = SubReady | SubSubmitting | SubUncertain | SubSubmitted

record attention_session =
  as_owner :: string
  as_binding :: string
  as_generation :: int
  as_stored :: "string option"

record attention_resume =
  ar_id :: string
  ar_owner :: string
  ar_attention :: string
  ar_revision :: "int option"
  ar_binding :: string
  ar_generation :: int
  ar_state :: submission_state
  ar_created :: time
  ar_token :: "string option"
  ar_claimed :: "time option"
  ar_session :: "string option"
  ar_finished :: "time option"

section \<open>Journals and receipts\<close>

record audit_entry =
  au_at :: time
  au_event :: string
  au_data :: "(string \<times> json) list"

record history_entry =
  h_owner :: string
  h_task :: string
  h_kind :: string
  h_record :: string
  h_status :: string
  h_at :: time
  h_details :: "(string \<times> json) list"
  h_source :: "context_data option"

datatype mutation_result =
    MContact contact conn_status string "string option"
  | MResponse string string
  | MBlock string bool int conn_status
  | MReview string string string string
  | MSent string outbox_status
  | MRead string
  | MApproval string bool

record mutation =
  mu_fingerprint :: string
  mu_owner :: string
  mu_result :: mutation_result

record owner_action =
  oa_owner :: string
  oa_fingerprint :: string
  oa_result :: "json option"
  oa_created :: time

section \<open>The store\<close>

record store =
  contacts :: "contact table"
  resources :: "resource table"
  tasks :: "task table"
  operations :: "operation table"
  approvals :: "approval table"
  proposals :: "proposal table"
  inbox :: "inbound table"
  outboxes :: "outbox table"
  connections :: "connection table"
  requests :: "contact_request table"
  blocks :: "peer_block table"
  safety :: "int table"
  message_blocks :: "message_block table"
  reviews :: "peer_review table"
  previews :: "string table"
  reads_at :: "time table"
  profile :: "string option"
  attention :: "attention_item table"
  counters :: "int table"
  conversation_turns :: "turn table"
  workers :: "worker_policy table"
  runs :: "worker_run table"
  collaborations :: "collaboration table"
  events :: "v2_event table"
  v2_operations :: "v2_operation table"
  invitations :: "invitation table"
  mutations :: "mutation table"
  owner_actions :: "owner_action table"
  links :: "(string \<times> json) list table"
  sessions :: "attention_session table"
  resumes :: "attention_resume table"
  audits :: "audit_entry list"
  history :: "history_entry list"

definition empty_store :: store where
  "empty_store = \<lparr>contacts = [], resources = [], tasks = [], operations = [], approvals = [],
     proposals = [], inbox = [], outboxes = [], connections = [], requests = [], blocks = [],
     safety = [], message_blocks = [], reviews = [], previews = [], reads_at = [], profile = None,
     attention = [], counters = [], conversation_turns = [], workers = [], runs = [], collaborations = [],
     events = [], v2_operations = [], invitations = [], mutations = [], owner_actions = [], links = [], sessions = [], resumes = [], audits = [],
     history = []\<rparr>"

type_synonym 'a step = "(store, 'a) act"

end
