(* ===== verification/Iso8601.thy ===== *)
theory Iso8601
  imports Rfc3339
begin

text \<open>
  \<^verbatim>\<open>datetime.fromisoformat\<close> of the language's standard library (from 3.11 on) on texts that no
  validator has restricted: a calendar or ISO week date in basic or extended form, any one separator
  character, a time of one to three components with a fraction, and an offset. Only values with an
  offset are instants; the code refuses the others. The reader works on the UTF-8 bytes, stops a
  component early where the library does and ignores what the library ignores in front of an offset.
\<close>

section \<open>Dates\<close>

text \<open>The day of an ISO year, week and weekday, as an ordinal.\<close>

definition iso_week_day :: "int \<Rightarrow> int \<Rightarrow> int \<Rightarrow> int option" where
  "iso_week_day y w d =
     (let first = days_before_year y + 1; wd = (first + 6) mod 7;
          monday = first - wd + (if 3 < wd then 7 else 0);
          weeks = (if wd = 3 \<or> wd = 2 \<and> leap y then 53 else 52)
      in if 1 \<le> y \<and> 1 \<le> w \<and> w \<le> weeks \<and> 1 \<le> d \<and> d \<le> 7
         then Some (monday + (w - 1) * 7 + d - 1) else None)"

text \<open>Where the separator between date and time stands; the forms are told apart by bytes 4, 5 and 8.\<close>

definition iso_separator :: "string \<Rightarrow> nat option" where
  "iso_separator s =
     (let n = length s; digits = length (takeWhile ascii_digit (drop 7 s)) in
      if n < 7 then None
      else if n = 7 then Some 7
      else if s ! 4 = CHR ''-'' then
        (if s ! 5 = CHR ''W'' \<and> 8 < n \<and> s ! 8 = CHR ''-'' then
           (if n = 9 then None else if 10 < n \<and> ascii_digit (s ! 10) then Some 8 else Some 10)
         else if s ! 5 = CHR ''W'' then Some 8 else Some 10)
      else if s ! 4 = CHR ''W'' then
        (if digits < 2 then Some (7 + digits) else if even (7 + digits) then Some 7 else Some 8)
      else Some 8)"

definition eat_if :: "bool \<Rightarrow> char \<Rightarrow> string \<Rightarrow> string option" where
  "eat_if b c s = (if b then eat c s else Some s)"

definition iso_date :: "string \<Rightarrow> int option" where
  "iso_date s =
     (case fixed_digits 4 s of None \<Rightarrow> None | Some (y, r) \<Rightarrow>
      let dashed = (take 1 r = ''-''); r = (if dashed then drop 1 r else r) in
      case eat (CHR ''W'') r of
        Some r1 \<Rightarrow>
          (case fixed_digits 2 r1 of None \<Rightarrow> None | Some (w, r2) \<Rightarrow>
             if r2 = [] then iso_week_day (int y) (int w) 1
             else (case eat_if dashed (CHR ''-'') r2 of None \<Rightarrow> None | Some r3 \<Rightarrow>
                   (case fixed_digits 1 r3 of None \<Rightarrow> None
                    | Some (d, _) \<Rightarrow> iso_week_day (int y) (int w) (int d))))
      | None \<Rightarrow>
          (case fixed_digits 2 r of None \<Rightarrow> None | Some (m, r1) \<Rightarrow>
           case eat_if dashed (CHR ''-'') r1 of None \<Rightarrow> None | Some r2 \<Rightarrow>
           case fixed_digits 2 r2 of None \<Rightarrow> None | Some (d, _) \<Rightarrow>
             if 1 \<le> y \<and> 1 \<le> m \<and> m \<le> 12 \<and> 1 \<le> d \<and> int d \<le> days_in_month (int y) (int m)
             then Some (ymd2ord (int y) (int m) (int d)) else None))"

section \<open>Times\<close>

text \<open>
  A fraction of up to six digits; further digits are skipped. \<open>rest\<close> is what follows the component,
  and the flag says whether the reader stopped before the end of the whole text.
\<close>

definition iso_fraction :: "string \<Rightarrow> string \<Rightarrow> (nat \<times> bool) option" where
  "iso_fraction s rest =
     (let k = min 6 (length s) in
      map_option (\<lambda>(us, r). (us * 10 ^ (6 - k), dropWhile ascii_digit (r @ rest) \<noteq> [])) (fixed_digits k s))"

text \<open>
  Components \<open>i\<close> to 2 of \<^verbatim>\<open>HH[:?MM[:?SS[.,fraction]]]\<close> in \<open>s\<close>; \<open>colon\<close> says whether hours were
  followed by a colon.
\<close>

function iso_components :: "nat \<Rightarrow> bool \<Rightarrow> string \<Rightarrow> string \<Rightarrow> (nat list \<times> nat \<times> bool) option" where
  "iso_components i colon s rest =
     (case fixed_digits 2 s of None \<Rightarrow> None | Some (v, r) \<Rightarrow>
      (case r of
         [] \<Rightarrow> Some ([v], 0, rest \<noteq> [])
       | c # t \<Rightarrow>
           let colon = (if i = 0 then c = CHR '':'' else colon) in
           if t = [] then Some ([v], 0, True)
           else if \<not> (colon \<and> c = CHR '':'') \<and> (c = CHR ''.'' \<or> c = CHR '','') then
             map_option (\<lambda>(us, unread). ([v], us, unread)) (iso_fraction t rest)
           else if colon \<and> c \<noteq> CHR '':'' then None
           else let nxt = (if colon then t else r) in
             if 2 \<le> i then map_option (\<lambda>(us, unread). ([v], us, unread)) (iso_fraction nxt rest)
             else map_option (\<lambda>(vs, us, unread). (v # vs, us, unread)) (iso_components (Suc i) colon nxt rest)))"
  by pat_completeness auto
termination
  by (relation "measure (\<lambda>(i, _). 3 - i)") auto

declare iso_components.simps [simp del]

definition iso_time :: "string \<Rightarrow> string \<Rightarrow> (int \<times> int \<times> int \<times> int \<times> bool) option" where
  "iso_time s rest = (case iso_components 0 True s rest of
     None \<Rightarrow> None
   | Some (vs, us, unread) \<Rightarrow>
       Some (int (vs ! 0), if 1 < length vs then int (vs ! 1) else 0,
         if 2 < length vs then int (vs ! 2) else 0, int us, unread))"

text \<open>The offset in microseconds; one of less than a second is taken for UTC.\<close>

definition iso_offset :: "string \<Rightarrow> int option" where
  "iso_offset s = (case s of
     [] \<Rightarrow> None
   | c # r \<Rightarrow>
       if c = CHR ''Z'' then (if r = [] then Some 0 else None)
       else (case iso_time r [] of
         None \<Rightarrow> None
       | Some (h, m, sc, us, unread) \<Rightarrow>
           let total = h * 3600 + m * 60 + sc; off = (if total = 0 then 0 else total * sec + us) in
           if unread \<or> day_us \<le> off then None
           else Some (if c = CHR ''-'' then - off else off)))"

definition zone_mark :: "char \<Rightarrow> bool" where
  "zone_mark c \<longleftrightarrow> c = CHR ''+'' \<or> c = CHR ''-'' \<or> c = CHR ''Z''"

text \<open>The bytes of the separator character, from its first one.\<close>

definition separator_width :: "char \<Rightarrow> nat" where
  "separator_width c = (let n = byte c in
     if n < 128 then 1 else if n div 16 = 14 then 3 else if n div 16 = 15 then 4 else 2)"

definition fromisoformat :: "string \<Rightarrow> time option" where
  "fromisoformat s =
     (case iso_separator s of None \<Rightarrow> None | Some loc \<Rightarrow>
      case iso_date (take loc s) of None \<Rightarrow> None | Some ord \<Rightarrow>
      if length s \<le> loc + 1 then None
      else let t = drop (loc + separator_width (s ! loc)) s;
               clock = takeWhile (\<lambda>c. \<not> zone_mark c) t; zone = dropWhile (\<lambda>c. \<not> zone_mark c) t in
        case iso_time clock zone of None \<Rightarrow> None | Some (h, m, sc, us, _) \<Rightarrow>
        case iso_offset zone of None \<Rightarrow> None | Some off \<Rightarrow>
          if h < 24 \<and> m < 60 \<and> sc < 60 \<and> 1 \<le> ord \<and> ord \<le> max_ordinal
          then Some ((ord - epoch_ordinal) * day_us + (h * 3600 + m * 60 + sc) * sec + us - off)
          else None)"

text \<open>\<^verbatim>\<open>value.replace("Z", "+00:00")\<close>\<close>

definition zulu :: "string \<Rightarrow> string" where
  "zulu s = concat (map (\<lambda>c. if c = CHR ''Z'' then ''+00:00'' else [c]) s)"

text \<open>
  \<^verbatim>\<open>fromisoformat(value.replace("Z", "+00:00"))\<close>. A text of the RFC 3339 shape is read by
  \<open>parse_instant\<close>, which the general reader agrees with on that shape.
\<close>

definition iso_instant :: "string \<Rightarrow> time option" where
  "iso_instant s = (case parse_instant s of Some t \<Rightarrow> Some t | None \<Rightarrow> fromisoformat (zulu s))"

end
