(* ===== verification/Encodings.thy ===== *)
theory Encodings
  imports Records Iso8601
begin

text \<open>
  The JSON forms of the stored records of which the code takes a digest, and the digests
  themselves: \<^verbatim>\<open>store.digest\<close> and \<^verbatim>\<open>collaboration_v2.digest\<close> (sorted keys) and \<^verbatim>\<open>social.key\<close> and
  \<^verbatim>\<open>attention._key\<close> (insertion order).
\<close>

section \<open>Digests\<close>

definition digest :: "env \<Rightarrow> json \<Rightarrow> string" where
  "digest E j = sha E (canonical j)"

text \<open>\<^verbatim>\<open>json.dumps\<close> without \<^verbatim>\<open>sort_keys\<close>, compact separators.\<close>

fun raw_text :: "json \<Rightarrow> string" where
  "raw_text (JArr xs) = ''['' @ join '','' (map raw_text xs) @ '']''"
| "raw_text (JObj kvs) =
     ''{'' @ join '','' (map (\<lambda>(k, v). json_string k @ '':'' @ raw_text v) kvs) @ ''}''"
| "raw_text j = canonical j"

definition key :: "env \<Rightarrow> json list \<Rightarrow> string" where
  "key E parts = sha E (raw_text (JArr parts))"

definition skey :: "env \<Rightarrow> string list \<Rightarrow> string" where
  "skey E parts = key E (map JStr parts)"

text \<open>\<^verbatim>\<open>ensure_ascii=True\<close> applied to a text in which only string contents are not ASCII.\<close>

definition u_escape :: "nat \<Rightarrow> string" where
  "u_escape n = chr 92 # ''u'' @ map hex_digit [n div 4096, n div 256 mod 16, n div 16 mod 16, n mod 16]"

definition ascii_escape :: "string \<Rightarrow> string" where
  "ascii_escape s = concat (map (\<lambda>n.
     if n < 128 then [chr n] else if n < 65536 then u_escape n
     else u_escape (55296 + (n - 65536) div 1024) @ u_escape (56320 + (n - 65536) mod 1024)) (codepoints s))"

text \<open>A body read back from its row has its keys in sorted order.\<close>

fun reloaded :: "json \<Rightarrow> json" where
  "reloaded (JArr xs) = JArr (map reloaded xs)"
| "reloaded (JObj kvs) = JObj (sort_items (map (\<lambda>(k, v). (k, reloaded v)) kvs))"
| "reloaded j = j"

section \<open>Times\<close>

text \<open>\<^verbatim>\<open>repr\<close> of the float number of seconds, exact to the microsecond.\<close>

definition time_text :: "time \<Rightarrow> string" where
  "time_text t =
     (let q = \<bar>t\<bar> div sec; f = rev (dropWhile (\<lambda>c. c = CHR ''0'') (rev (pad_dec 6 (nat (\<bar>t\<bar> mod sec)))))
      in (if t < 0 then ''-'' else []) @ int_dec q @ ''.'' @ (if f = [] then ''0'' else f))"

definition jtime :: "time \<Rightarrow> json" where
  "jtime t = JFloat (time_text t)"

text \<open>\<^verbatim>\<open>collaboration_v2.instant\<close> and \<^verbatim>\<open>store.instant\<close>: the protocol admits the RFC 3339 shape only.\<close>

definition instant :: "string \<Rightarrow> exn + time" where
  "instant s = (case parse_instant s of
     Some t \<Rightarrow> Inr t | None \<Rightarrow> Inl (ValueError ''Timestamp must be RFC3339 with seconds and a timezone''))"

definition store_instant :: "string \<Rightarrow> exn + time" where
  "store_instant s = (case iso_instant s of
     Some t \<Rightarrow> Inr t | None \<Rightarrow> Inl (ValueError ''timestamp must include timezone''))"

definition jinstant :: "json \<Rightarrow> exn + time" where
  "jinstant j = (case j of JStr s \<Rightarrow> store_instant s | _ \<Rightarrow> Inl (AttributeError ''replace''))"

section \<open>Records\<close>

definition contact_json :: "contact \<Rightarrow> json" where
  "contact_json c = JObj [(''contact_id'', JStr (c_id c)), (''aliases'', jstrs (c_aliases c)),
     (''urn'', JStr (c_urn c)), (''owner_id'', JStr (c_owner c))]"

definition resource_json :: "resource \<Rightarrow> json" where
  "resource_json r = JObj ([(''resource_id'', JStr (r_resource_id r)), (''title'', JStr (r_title r)),
     (''text'', JStr (r_text r)), (''sha256'', JStr (r_sha256 r)), (''owner_id'', JStr (r_owner_id r))] @
     (case r_provenance r of None \<Rightarrow> []
      | Some (a, b, c) \<Rightarrow> [(''provenance'', JObj [(''reference'', JStr a), (''source'', JStr b), (''version'', JStr c)])]))"

definition opt_item :: "string \<Rightarrow> string option \<Rightarrow> (string \<times> json) list" where
  "opt_item k x = (case x of None \<Rightarrow> [] | Some v \<Rightarrow> [(k, JStr v)])"

definition wire_json :: "'a wire_scheme \<Rightarrow> json" where
  "wire_json w = JObj ([(''message_id'', JStr (w_id w)), (''sender_urn'', JStr (w_sender w)),
     (''text'', JStr (w_text w))] @ opt_item ''task_id'' (w_task w) @
     opt_item ''conversation_id'' (w_conversation w) @ opt_item ''kind'' (w_kind w) @
     opt_item ''in_reply_to'' (w_reply w) @ opt_item ''deadline'' (w_deadline w))"

definition social_json :: "social_msg \<Rightarrow> json" where
  "social_json x = JObj ([(''message_id'', JStr (x_id x)), (''recipient_urn'', JStr (x_recipient x)),
     (''kind'', JStr (x_kind x)), (''text'', JStr (x_text x))] @
     opt_item ''conversation_id'' (x_conversation x) @ opt_item ''in_reply_to'' (x_reply x))"

fun decision_str :: "decision \<Rightarrow> string" where
  "decision_str Allow = ''allow''"
| "decision_str Ask = ''ask''"
| "decision_str Deny = ''deny''"
| "decision_str Clarify = ''clarify''"

definition verdict_json :: "bool \<Rightarrow> verdict \<Rightarrow> json" where
  "verdict_json with_delta v = JObj ([(''decision'', JStr (decision_str (v_decision v))),
     (''reasons'', jstrs (v_reasons v))] @ (if with_delta then [(''delta'', JObj (v_delta v))] else []))"

definition limits_json :: "worker_limits \<Rightarrow> json" where
  "limits_json w = JObj [(''collaboration_id'', JStr (wl_collaboration w)),
     (''allow_propose'', JBool (wl_propose w)), (''allow_accept'', JBool (wl_accept w)),
     (''proposal'', case wl_proposal w of None \<Rightarrow> JNull | Some m \<Rightarrow> meeting_json m),
     (''max_runs'', JInt (wl_runs w)), (''max_sends'', JInt (wl_sends w)),
     (''interval_seconds'', JInt (wl_interval w)), (''expires_at'', JStr (wl_expires w))]"

fun approval_json :: "approval_payload \<Rightarrow> json" where
  "approval_json (PContact c) = contact_json c"
| "approval_json (PFriend c n) = JObj [(''contact'', contact_json c), (''attempt'', JInt n)]"
| "approval_json (PResponse r d ca) = JObj ([(''request_id'', JStr r), (''decision'', JStr d)] @
     (case ca of None \<Rightarrow> [] | Some (c, as) \<Rightarrow> [(''contact_id'', JStr c), (''aliases'', jstrs as)]))"
| "approval_json (PMessage m) = social_json m"
| "approval_json (PTask s r) = JObj [(''scope'', scope_json s), (''revision'', JInt r)]"
| "approval_json (POperation h r) = JObj [(''hash'', JStr h), (''task_revision'', JInt r)]"
| "approval_json (PWorker p t h) = JObj [(''policy_revision'', JInt p), (''task_revision'', JInt t),
     (''policy_hash'', JStr h)]"
| "approval_json (PV2 h) = JObj [(''hash'', JStr h)]"

section \<open>The bilateral protocol\<close>

definition v2_protocol :: string where
  "v2_protocol = ''agent-comm-collaboration/v2''"

definition packet_json :: "packet \<Rightarrow> json" where
  "packet_json p = JObj [(''protocol'', JStr v2_protocol),
     (''collaboration_id'', JStr (pk_collaboration p)), (''event_id'', JStr (pk_event p)),
     (''kind'', JStr (v2_kind_str (pk_kind p))), (''sender_urn'', JStr (pk_sender p)),
     (''recipient_urn'', JStr (pk_recipient p)), (''sender_sequence'', JInt (pk_sequence p)),
     (''previous_event_id'', jstr_opt (pk_previous p)), (''created_at'', JStr (pk_created p)),
     (''expires_at'', JStr (pk_expires p)), (''payload'', JObj (pk_payload p)),
     (''payload_digest'', JStr (pk_payload_digest p))]"

definition jopt :: "json option \<Rightarrow> json" where
  "jopt x = (case x of None \<Rightarrow> JNull | Some j \<Rightarrow> j)"

definition acceptance_json :: "acceptance \<Rightarrow> json" where
  "acceptance_json a = JObj [(''terms_digest'', JStr (ac_terms a)), (''actor_urn'', JStr (ac_actor a)),
     (''own_obligations'', JStr ''attend_only''), (''authority_basis'', JStr ''peer_attested''),
     (''valid_until'', JStr (ac_valid a)), (''event_id'', JStr (ac_event a)),
     (''event_digest'', JStr (ac_digest a)), (''active'', JBool (ac_active a))]"

definition acceptances_json :: "(string \<times> acceptance) list \<Rightarrow> json" where
  "acceptances_json as = JObj (map (\<lambda>(u, a). (u, acceptance_json a)) as)"

definition permit_json :: "permit \<Rightarrow> json" where
  "permit_json p = JObj [(''until'', jtime (pm_until p)), (''max_events'', JInt (pm_max p)),
     (''used'', JInt (pm_used p))]"

text \<open>\<^verbatim>\<open>_v2_context_digest\<close>\<close>

definition context_digest :: "env \<Rightarrow> collaboration \<Rightarrow> string" where
  "context_digest E c = digest E (JObj [(''joined'', JBool (v_joined c)), (''terms'', jopt (v_terms c)),
     (''acceptances'', acceptances_json (v_acceptances c)), (''agreement'', jopt (v_agreement c)),
     (''cancel_request'', jopt (v_cancel c)), (''withdraw_pending'', JBool (v_withdraw c))])"

text \<open>A collaboration that has just been drafted by an invitation or a join.\<close>

definition draft_json :: "collaboration \<Rightarrow> json" where
  "draft_json c = JObj ([(''collaboration_id'', JStr (v_id c)), (''owner_id'', JStr (v_owner c)),
     (''task_id'', JStr (v_task c)), (''peer_id'', JStr (v_peer_id c)), (''peer_urn'', JStr (v_peer c)),
     (''initiator_urn'', JStr (v_initiator c)), (''phase'', JStr (v_phase c)),
     (''joined'', JBool (v_joined c)), (''terms'', jopt (v_terms c)),
     (''acceptances'', acceptances_json (v_acceptances c)), (''agreement'', jopt (v_agreement c)),
     (''agreement_synced'', JBool (v_synced c)), (''withdraw_pending'', JBool (v_withdraw c)),
     (''out_sequence'', JInt (v_out c)), (''last_out_event_id'', jstr_opt (v_last_out c)),
     (''in_sequence'', JInt (v_in c)), (''last_in_event_id'', jstr_opt (v_last_in c)),
     (''maintenance'', JNull), (''created_at'', jtime (v_created c))] @
     (case v_invitation c of None \<Rightarrow> [] | Some p \<Rightarrow> [(''invitation'', packet_json p)]))"

definition opt_action_json :: "action option \<Rightarrow> json" where
  "opt_action_json a = (case a of None \<Rightarrow> JNull | Some x \<Rightarrow> action_json x)"

text \<open>What \<^verbatim>\<open>op["hash"]\<close> covers: a prepared operation without its status, or a queued maintenance
  operation with it.\<close>

definition v2_hash_json :: "bool \<Rightarrow> v2_operation \<Rightarrow> json" where
  "v2_hash_json queued z = JObj ([(''operation_id'', JStr (z_id z)), (''task_id'', JStr (z_task z)),
     (''owner_id'', JStr (z_owner z)), (''collaboration_id'', JStr (z_collaboration z)),
     (''kind'', JStr (v2_kind_str (z_kind z))), (''payload'', JObj (z_payload z)),
     (''action'', opt_action_json (z_action z)), (''revision'', JInt (z_revision z)),
     (''request_digest'', JStr (z_request z)), (''context_digest'', JStr (z_context z)),
     (''decision'', verdict_json (\<not> z_maintenance z \<and> \<not> z_recovery z \<and> z_action z \<noteq> None) (z_decision z)),
     (''expires_at'', jtime (z_expires z)), (''maintenance'', JBool (z_maintenance z)),
     (''created_at'', jtime (z_created z)), (''text'', JStr (z_text z)), (''deliveries'', JArr [])] @
     (if queued then [(''status'', JStr ''ready'')] else [(''recovery_once'', JBool (z_recovery z))]) @
     (case z_review_version z of None \<Rightarrow> [] | Some n \<Rightarrow> [(''owner_review_version'', JInt n)]) @
     (case z_new z of None \<Rightarrow> [] | Some c \<Rightarrow> [(''new_collaboration'', draft_json c)]) @
     (case z_permit z of None \<Rightarrow> [] | Some p \<Rightarrow> [(''maintenance_permit'', permit_json p)]))"

end
