(* ===== verification/V2_Events.thy ===== *)
theory V2_Events
  imports Encodings
begin

text \<open>
  Validation of a protocol event (\<^verbatim>\<open>collaboration_v2.validate_event\<close> and its helpers): untrusted JSON
  becomes a \<open>packet\<close> or a refusal.
\<close>

definition refuse :: "string \<Rightarrow> exn + 'a" where
  "refuse msg = Inl (ValueError msg)"

definition v2_identifier :: "json \<Rightarrow> exn + string" where
  "v2_identifier j = (case j of
     JStr s \<Rightarrow> if is_identifier s then Inr s else refuse ''Provide an explicit bounded ASCII identifier''
   | _ \<Rightarrow> refuse ''Provide an explicit bounded ASCII identifier'')"

definition v2_urn :: "json \<Rightarrow> exn + string" where
  "v2_urn j = (case j of JStr s \<Rightarrow> validate_urn s | _ \<Rightarrow> Inl (ValueError urn_error))"

definition v2_instant :: "json \<Rightarrow> exn + time" where
  "v2_instant j = (case j of
     JStr s \<Rightarrow> instant s
   | _ \<Rightarrow> refuse ''Timestamp must be RFC3339 with seconds and a timezone'')"

text \<open>\<^verbatim>\<open>exact\<close>: an object with precisely these keys.\<close>

definition exact :: "json \<Rightarrow> string list \<Rightarrow> exn + (string \<times> json) list" where
  "exact v flds = (case v of
     JObj kvs \<Rightarrow> if set (jkeys kvs) = set flds then Inr kvs
                else refuse ''Unsupported or missing collaboration fields''
   | _ \<Rightarrow> refuse ''Unsupported or missing collaboration fields'')"

definition ascii :: "string \<Rightarrow> bool" where
  "ascii s \<longleftrightarrow> list_all (\<lambda>c. byte c < 128) s"

definition max_events :: nat where
  "max_events = 256"

fun bounded :: "nat \<Rightarrow> json \<Rightarrow> exn + unit" where
  "bounded d v = (if 12 < d then refuse ''Collaboration data is nested too deeply'' else (case v of
     JObj kvs \<Rightarrow>
       (if 32 < length kvs \<or> list_ex (\<lambda>(k, _). \<not> ascii k) kvs
        then refuse ''Protocol object keys must be bounded ASCII strings''
        else bindE (mapE (\<lambda>(_, x). bounded (Suc d) x) kvs) (\<lambda>_. Inr ()))
   | JArr xs \<Rightarrow>
       (if max_events < length xs then refuse ''Protocol array is too long''
        else bindE (mapE (bounded (Suc d)) xs) (\<lambda>_. Inr ()))
   | JStr s \<Rightarrow>
       (if \<not> encodable s \<or> 8000 < length s then refuse ''Protocol string is too long'' else Inr ())
   | JInt n \<Rightarrow>
       (if 0 \<le> n \<and> n \<le> 2147483647 then Inr ()
        else refuse ''Protocol numbers must be bounded nonnegative integers'')
   | JFloat _ \<Rightarrow> refuse ''Protocol numbers must be bounded nonnegative integers''
   | _ \<Rightarrow> Inr ()))"

definition sync_kinds :: "v2_kind list" where
  "sync_kinds = [VSyncRequest, VSyncResponse]"

definition maintenance_kinds :: "v2_kind list" where
  "maintenance_kinds = [VAgreement, VAgreementAck, VReceipt, VSyncRequest, VSyncResponse]"

definition recovery_kinds :: "v2_kind list" where
  "recovery_kinds = [VWithdraw, VCancelRequest, VCancelAck]"

definition review_kinds :: "v2_kind list" where
  "review_kinds = [VInvite, VProposal, VChangeRequest]"

definition packet_fields :: "string list" where
  "packet_fields = [''protocol'', ''collaboration_id'', ''event_id'', ''kind'', ''sender_urn'',
     ''recipient_urn'', ''sender_sequence'', ''previous_event_id'', ''created_at'', ''expires_at'',
     ''payload'', ''payload_digest'']"

text \<open>\<^verbatim>\<open>packet["kind"] not in KINDS\<close>; a list or an object is unhashable.\<close>

definition check_kind :: "json \<Rightarrow> exn + v2_kind" where
  "check_kind j = (case j of
     JStr s \<Rightarrow> (case v2_kind_of s of
        Some k \<Rightarrow> Inr k | None \<Rightarrow> refuse ''Unsupported collaboration protocol or event'')
   | JArr _ \<Rightarrow> Inl (TypeError ''unhashable'')
   | JObj _ \<Rightarrow> Inl (TypeError ''unhashable'')
   | _ \<Rightarrow> refuse ''Unsupported collaboration protocol or event'')"

definition check_sequence :: "v2_kind \<Rightarrow> json \<Rightarrow> json \<Rightarrow> exn + int" where
  "check_sequence k sq prev =
     (if k \<in> set sync_kinds then
        (if sq = JInt 0 \<and> prev = JNull then Inr 0
         else refuse ''Recovery events are outside the ordered business stream'')
      else (case sq of
        JInt n \<Rightarrow> if 1 \<le> n \<and> n \<le> int max_events then Inr n
                  else refuse ''Invalid or exhausted sender sequence''
      | _ \<Rightarrow> refuse ''Invalid or exhausted sender sequence''))"

definition check_previous :: "int \<Rightarrow> json \<Rightarrow> exn + string option" where
  "check_previous n prev =
     (if n = 0 \<or> n = 1 then
        (if prev = JNull then Inr None else refuse ''First event cannot have a predecessor'')
      else bindE (v2_identifier prev) (\<lambda>s. Inr (Some s)))"

definition as_str :: "json \<Rightarrow> string" where
  "as_str j = (case j of JStr s \<Rightarrow> s | _ \<Rightarrow> [])"

definition validate_event :: "env \<Rightarrow> json \<Rightarrow> exn + packet" where
  "validate_event E j =
     bindE (bounded 0 j) (\<lambda>_.
     bindE (exact j packet_fields) (\<lambda>kvs.
     if jfield ''protocol'' kvs \<noteq> JStr v2_protocol
     then refuse ''Unsupported collaboration protocol or event'' else
     bindE (check_kind (jfield ''kind'' kvs)) (\<lambda>k.
     bindE (v2_identifier (jfield ''collaboration_id'' kvs)) (\<lambda>cid.
     bindE (v2_identifier (jfield ''event_id'' kvs)) (\<lambda>eid.
     bindE (v2_urn (jfield ''sender_urn'' kvs)) (\<lambda>sender.
     bindE (v2_urn (jfield ''recipient_urn'' kvs)) (\<lambda>recipient.
     if sender = recipient then refuse ''A bilateral event must have two distinct endpoints'' else
     bindE (check_sequence k (jfield ''sender_sequence'' kvs) (jfield ''previous_event_id'' kvs)) (\<lambda>n.
     bindE (check_previous n (jfield ''previous_event_id'' kvs)) (\<lambda>prev.
     bindE (v2_instant (jfield ''created_at'' kvs)) (\<lambda>created.
     bindE (v2_instant (jfield ''expires_at'' kvs)) (\<lambda>expires.
     if expires \<le> created then refuse ''Event expiry must follow creation'' else
     (case jfield ''payload'' kvs of
        JObj payload \<Rightarrow>
          (if jfield ''payload_digest'' kvs \<noteq> JStr (digest E (JObj payload))
           then refuse ''Payload digest does not match''
           else if 90000 < length (canonical j) then refuse ''Collaboration event is too large''
           else Inr \<lparr>pk_collaboration = cid, pk_event = eid, pk_kind = k, pk_sender = sender,
                  pk_recipient = recipient, pk_sequence = n, pk_previous = prev,
                  pk_created = as_str (jfield ''created_at'' kvs),
                  pk_expires = as_str (jfield ''expires_at'' kvs), pk_payload = payload,
                  pk_payload_digest = digest E (JObj payload)\<rparr>)
      | _ \<Rightarrow> refuse ''Payload digest does not match''))))))))))))"

text \<open>The packet carried by a message text, if the text is an object of this protocol.\<close>

definition object_of :: "string \<Rightarrow> (string \<times> json) list option" where
  "object_of text = (case json_loads text of Some (JObj kvs) \<Rightarrow> Some kvs | _ \<Rightarrow> None)"

definition v2_object :: "string \<Rightarrow> (string \<times> json) list option" where
  "v2_object text = (case object_of text of
     Some kvs \<Rightarrow> if jget ''protocol'' kvs = Some (JStr v2_protocol) then Some kvs else None
   | None \<Rightarrow> None)"

end
