(* ===== verification/Authority.thy ===== *)
theory Authority
  imports V2_Events
begin

text \<open>
  Who may act and what may be seen: owners, blocked peers, connection states
  (\<^verbatim>\<open>social.py\<close>), the review gate of peer content (\<^verbatim>\<open>peer_review.py\<close>) and the visibility of a
  message. The functions without writes take the store and return a value; those that may stage a
  review are actions.
\<close>

section \<open>Owners\<close>

definition principal :: "string \<Rightarrow> string" where
  "principal session = takeWhile (\<lambda>c. c \<noteq> CHR ''|'') session"

text \<open>\<^verbatim>\<open>_belongs\<close> for a record with an \<^verbatim>\<open>owner_id\<close>, and for one with an \<^verbatim>\<open>owner_session\<close>.\<close>

definition owned :: "string \<Rightarrow> string \<Rightarrow> bool" where
  "owned owner session \<longleftrightarrow> owner = principal session"

definition session_owned :: "string \<Rightarrow> string \<Rightarrow> bool" where
  "session_owned session' session \<longleftrightarrow> principal session' = principal session"

definition owner_ok :: "string \<Rightarrow> exn + unit" where
  "owner_ok session =
     (if session = [] \<or> 512 < pylen session then refuse ''A trusted host session is required'' else Inr ())"

definition ident_ok :: "string \<Rightarrow> json \<Rightarrow> exn + string" where
  "ident_ok name j = (case j of
     JStr s \<Rightarrow>
       if is_identifier s then Inr s
       else refuse (name @ '' must contain 1-128 ASCII letters, digits, ., _, : or -'')
   | _ \<Rightarrow> refuse (name @ '' must contain 1-128 ASCII letters, digits, ., _, : or -''))"

section \<open>Blocked peers and connections\<close>

definition safety_revision :: "env \<Rightarrow> store \<Rightarrow> string \<Rightarrow> int" where
  "safety_revision E s session = (case tget (skey E [principal session]) (safety s) of
     Some n \<Rightarrow> n | None \<Rightarrow> 0)"

definition peer_blocked :: "env \<Rightarrow> store \<Rightarrow> string \<Rightarrow> string \<Rightarrow> bool" where
  "peer_blocked E s urn session = (case tget (skey E [principal session, urn]) (blocks s) of
     Some k \<Rightarrow> k_blocked k | None \<Rightarrow> False)"

definition message_tombstone :: "env \<Rightarrow> store \<Rightarrow> string \<Rightarrow> string \<Rightarrow> string \<Rightarrow> bool" where
  "message_tombstone E s session sender mid =
     (tget (skey E [principal session, sender, mid]) (message_blocks s) \<noteq> None)"

definition outgoing_requests :: "store \<Rightarrow> string \<Rightarrow> string \<Rightarrow> contact_request list" where
  "outgoing_requests s owner urn =
     filter (\<lambda>r. q_owner r = owner \<and> q_urn r = urn \<and> q_direction r = Outgoing) (tall (requests s))"

definition request_rank :: "contact_request \<Rightarrow> int \<times> time \<times> string" where
  "request_rank r = ((case q_attempt r of Some n \<Rightarrow> n | None \<Rightarrow> 0), q_created r, q_id r)"

fun latest_request :: "contact_request list \<Rightarrow> contact_request option" where
  "latest_request [] = None"
| "latest_request (r # rs) = (case latest_request rs of
     None \<Rightarrow> Some r
   | Some r' \<Rightarrow> Some (if request_rank r < request_rank r' then r' else r))"

definition contact_status :: "env \<Rightarrow> store \<Rightarrow> contact \<Rightarrow> conn_status" where
  "contact_status E s c =
     (if peer_blocked E s (c_urn c) (c_owner c) then ConnBlocked
      else if tget (skey E [c_owner c, c_urn c]) (connections s) \<noteq> None then Connected
      else (case latest_request (outgoing_requests s (c_owner c) (c_urn c)) of
        None \<Rightarrow> Unverified
      | Some r \<Rightarrow> (case q_status r of
          RqAccepted \<Rightarrow> Connected | RqRejected \<Rightarrow> ConnRejected | _ \<Rightarrow> ConnPending)))"

definition mail_owner :: "store \<Rightarrow> string option" where
  "mail_owner s = profile s"

datatype sender_state = SenderConnected | SenderPending string | SenderUnknown

definition sender_connection_state :: "env \<Rightarrow> store \<Rightarrow> string \<Rightarrow> sender_state" where
  "sender_connection_state E s sender = (case mail_owner s of
     None \<Rightarrow> SenderUnknown
   | Some owner \<Rightarrow>
       (let statuses = map (contact_status E s)
              (filter (\<lambda>c. c_urn c = sender \<and> c_owner c = owner) (tall (contacts s)))
        in if Connected \<in> set statuses then SenderConnected
           else if ConnPending \<in> set statuses then
             (case latest_request (filter (\<lambda>r. q_status r = RqPending) (outgoing_requests s owner sender)) of
                Some r \<Rightarrow> SenderPending (q_id r)
              | None \<Rightarrow> SenderUnknown)
           else SenderUnknown))"

definition own_contacts :: "store \<Rightarrow> string \<Rightarrow> contact list" where
  "own_contacts s session = filter (\<lambda>c. owned (c_owner c) session) (tall (contacts s))"

definition can_send_to :: "env \<Rightarrow> store \<Rightarrow> string \<Rightarrow> string \<Rightarrow> bool" where
  "can_send_to E s urn session =
     (\<not> peer_blocked E s urn session \<and>
      (let cs = filter (\<lambda>c. c_urn c = urn) (own_contacts s session) in
       cs \<noteq> [] \<and> (local_urn E = None \<or> list_ex (\<lambda>c. contact_status E s c = Connected) cs)))"

section \<open>The review gate\<close>

definition social_kinds :: "string list" where
  "social_kinds = [''contact.request'', ''contact.response'']"

definition kind_in :: "string option \<Rightarrow> string list \<Rightarrow> bool" where
  "kind_in k ks = (case k of Some x \<Rightarrow> x \<in> set ks | None \<Rightarrow> False)"

text \<open>\<^verbatim>\<open>packet.get("kind") in {...}\<close>: an unhashable value raises.\<close>

definition kind_member :: "json option \<Rightarrow> v2_kind list \<Rightarrow> exn + bool" where
  "kind_member v ks = (case v of
     Some (JStr k) \<Rightarrow> Inr (k \<in> set (map v2_kind_str ks))
   | Some (JArr _) \<Rightarrow> Inl (TypeError ''unhashable type'')
   | Some (JObj _) \<Rightarrow> Inl (TypeError ''unhashable type'')
   | _ \<Rightarrow> Inr False)"

definition needs_peer_review :: "'a wire_scheme \<Rightarrow> exn + bool" where
  "needs_peer_review w =
     (if kind_in (w_kind w) (social_kinds @ [''control.request'', ''control.response'']) then Inr False
      else (case v2_object (w_text w) of
        Some kvs \<Rightarrow> kind_member (jget ''kind'' kvs) review_kinds
      | None \<Rightarrow> Inr True))"

definition review_key :: "env \<Rightarrow> string \<Rightarrow> 'a wire_scheme \<Rightarrow> string" where
  "review_key E session w = skey E [principal session, w_sender w, w_id w]"

definition stage_check :: "env \<Rightarrow> 'a wire_scheme \<Rightarrow> exn + unit" where
  "stage_check E w = (case v2_object (w_text w) of
     None \<Rightarrow> Inr ()
   | Some kvs \<Rightarrow>
       bindE (validate_event E (JObj kvs)) (\<lambda>p.
       if pk_sender p \<noteq> w_sender w \<or> Some (pk_recipient p) \<noteq> local_urn E
       then refuse ''Peer review identities differ from authenticated helper routing''
       else if w_task w \<noteq> None \<and> w_task w \<noteq> Some (pk_collaboration p)
       then refuse ''Peer review collaboration association conflicts with routing''
       else Inr ()))"

text \<open>\<^verbatim>\<open>_stage_peer_review\<close>; \<open>received\<close> is the message's own \<^verbatim>\<open>received_at\<close> when it has one.\<close>

definition stage_peer_review :: "env \<Rightarrow> 'a wire_scheme \<Rightarrow> time option \<Rightarrow> string \<Rightarrow> peer_review step" where
  "stage_peer_review E w received session =
     andThen (lift (stage_check E w)) (\<lambda>_.
     reads (\<lambda>s.
       let fp = digest E (wire_json w); rid = review_key E session w in
       case tget rid (reviews s) of
         Some old \<Rightarrow>
           if rv_fingerprint old \<noteq> fp
           then raise (ValueError ''Review message ID conflicts with immutable content'')
           else ret old
       | None \<Rightarrow>
           (let r = \<lparr>rv_owner = principal session, rv_id = w_id w, rv_sender = w_sender w,
                     rv_kind = (case w_kind w of Some k \<Rightarrow> k | None \<Rightarrow> ''chat.message''),
                     rv_wire = wire.truncate w, rv_fingerprint = fp,
                     rv_received = (case received of Some t \<Rightarrow> t | None \<Rightarrow> now E),
                     rv_status = RvPending, rv_decided = None\<rparr>
            in andThen (modify (\<lambda>s. s\<lparr>reviews := tput rid r (reviews s)\<rparr>)) (\<lambda>_. ret r))))"

text \<open>The review of a nested event: the one of the same packet delivered directly, if there is one.\<close>

definition same_packet :: "packet \<Rightarrow> peer_review \<Rightarrow> bool" where
  "same_packet p r \<longleftrightarrow> (case json_loads (w_text (rv_wire r)) of
     Some j \<Rightarrow> json_eq j (packet_json p) | None \<Rightarrow> False)"

definition event_review :: "env \<Rightarrow> packet \<Rightarrow> string \<Rightarrow> peer_review step" where
  "event_review E p session = reads (\<lambda>s.
     case filter (\<lambda>r. owned (rv_owner r) session \<and> rv_sender r = pk_sender p \<and> same_packet p r)
            (tall (reviews s)) of
       r # _ \<Rightarrow> ret r
     | [] \<Rightarrow> stage_peer_review E
         \<lparr>w_id = ''peer-event-'' @ take 48 (digest E (jstrs [pk_sender p, pk_event p])),
          w_sender = pk_sender p, w_text = canonical (packet_json p), w_task = None,
          w_conversation = None, w_kind = Some ''collaboration.v2'', w_reply = None,
          w_deadline = None\<rparr> None session)"

definition review_events :: "store \<Rightarrow> string \<Rightarrow> string \<Rightarrow> v2_event list" where
  "review_events s cid session = filter (\<lambda>e. \<not> e_outgoing e \<and> owned (e_owner e) session
     \<and> pk_collaboration (e_packet e) = cid \<and> pk_kind (e_packet e) \<in> set review_kinds) (tall (events s))"

definition collaboration_review_safe :: "env \<Rightarrow> collaboration \<Rightarrow> string \<Rightarrow> bool step" where
  "collaboration_review_safe E c session = reads (\<lambda>s.
     if v_blocked_at c \<noteq> None \<or> peer_blocked E s (v_peer c) session then ret False
     else andThen (any_act (review_events s (v_id c) session) (\<lambda>e.
            andThen (event_review E (e_packet e) session) (\<lambda>r. ret (rv_status r \<noteq> RvApproved))))
          (\<lambda>unsafe. ret (\<not> unsafe)))"

section \<open>Visibility\<close>

text \<open>
  \<^verbatim>\<open>_inbound_local_task\<close>: \<open>None\<close> is its \<^verbatim>\<open>False\<close> (another owner's), \<open>Some None\<close> its \<^verbatim>\<open>None\<close>.
\<close>

definition inbound_local_task :: "store \<Rightarrow> 'a wire_scheme \<Rightarrow> string \<Rightarrow> string option option" where
  "inbound_local_task s w session = (case v2_object (w_text w) of
     Some kvs \<Rightarrow>
       (case jget ''collaboration_id'' kvs of
          Some (JStr cid) \<Rightarrow>
            (case tget cid (collaborations s) of
               Some c \<Rightarrow> if owned (v_owner c) session then Some (Some (v_task c)) else None
             | None \<Rightarrow> Some None)
        | _ \<Rightarrow> None)
   | None \<Rightarrow>
       (case tget (case w_task w of Some t \<Rightarrow> t | None \<Rightarrow> []) (tasks s) of
          Some t \<Rightarrow> if session_owned (t_session t) session then Some (Some (t_id t)) else None
        | None \<Rightarrow> Some None))"

definition message_review_safe :: "env \<Rightarrow> store \<Rightarrow> 'a wire_scheme \<Rightarrow> string \<Rightarrow> exn + bool" where
  "message_review_safe E s w session =
     bindE (needs_peer_review w) (\<lambda>needed.
       Inr (if needed then
              (case tget (review_key E session w) (reviews s) of
                 Some r \<Rightarrow> rv_status r = RvApproved | None \<Rightarrow> False)
            else v2_object (w_text w) = None))"

definition message_visible :: "env \<Rightarrow> store \<Rightarrow> bool \<Rightarrow> inbound \<Rightarrow> string \<Rightarrow> exn + bool" where
  "message_visible E s review_gate m session =
     (if i_quarantined m \<or> peer_blocked E s (w_sender m) session
         \<or> message_tombstone E s session (w_sender m) (w_id m) then Inr False
      else bindE (if review_gate then message_review_safe E s m session else Inr True) (\<lambda>safe.
        if \<not> safe then Inr False else
        (let owner = principal session;
             matched = filter (\<lambda>c. c_urn c = w_sender m) (tall (contacts s));
             visible =
               (if local_urn E \<noteq> None \<and> \<not> kind_in (w_kind m) social_kinds then
                  Some owner = mail_owner s \<and>
                  list_ex (\<lambda>c. owned (c_owner c) session \<and> contact_status E s c = Connected) matched
                else if matched \<noteq> [] then list_ex (\<lambda>c. owned (c_owner c) session) matched
                else mail_owner s = Some owner)
         in Inr (visible \<and> inbound_local_task s m session \<noteq> None))))"

definition proposal_review_safe :: "env \<Rightarrow> store \<Rightarrow> proposal option \<Rightarrow> string \<Rightarrow> exn + bool" where
  "proposal_review_safe E s po session = (case po of
     None \<Rightarrow> Inr True
   | Some p \<Rightarrow> (case pr_source p of
       None \<Rightarrow> Inr True
     | Some mid \<Rightarrow> (case tget mid (inbox s) of
         None \<Rightarrow> Inr False
       | Some m \<Rightarrow> message_visible E s True m session)))"

section \<open>What is current\<close>

definition live :: "env \<Rightarrow> task \<Rightarrow> bool" where
  "live E t \<longleftrightarrow> t_status t = TActive \<and> now E < sc_expires_at (t_scope t)"

definition proposal_key :: "env \<Rightarrow> string \<Rightarrow> string \<Rightarrow> string" where
  "proposal_key E task_id proposal_id = digest E (jstrs [task_id, proposal_id])"

definition proposal_digest :: "env \<Rightarrow> proposal option \<Rightarrow> string" where
  "proposal_digest E po = digest E (case po of None \<Rightarrow> JNull | Some p \<Rightarrow> meeting_json (pr_payload p))"

definition proposal_current :: "env \<Rightarrow> store \<Rightarrow> operation \<Rightarrow> exn + bool" where
  "proposal_current E s o' = (case a_payload (o_action o') of
     Meeting m \<Rightarrow>
       (let cur = tget (proposal_key E (o_task o') (m_proposal_id m)) (proposals s) in
        bindE (proposal_review_safe E s cur (o_session o')) (\<lambda>safe.
          Inr (safe \<and>
            (if a_capability (o_action o') = ProposeMeeting \<and> o_status o' = OAwaiting
             then proposal_digest E cur = o_base_hash o'
             else (case cur of Some p \<Rightarrow> pr_payload p = m | None \<Rightarrow> False)))))
   | _ \<Rightarrow> Inr True)"

definition worker_policy_current :: "env \<Rightarrow> store \<Rightarrow> worker_policy \<Rightarrow> exn + bool" where
  "worker_policy_current E s r = (case tget (wp_task r) (tasks s) of
     None \<Rightarrow> Inr False
   | Some t \<Rightarrow>
       if session_owned (t_session t) (wp_session r) \<and> live E t \<and> t_revision t = wp_task_revision r
       then bindE (store_instant (wl_expires (wp_policy r))) (\<lambda>e. Inr (now E < e))
       else Inr False)"

definition permit_live :: "env \<Rightarrow> permit option \<Rightarrow> bool" where
  "permit_live E po = (case po of
     Some p \<Rightarrow> \<not> pm_revoked p \<and> now E < pm_until p \<and> pm_used p < pm_max p | None \<Rightarrow> False)"

text \<open>\<^verbatim>\<open>_v2_operation_current\<close>\<close>

definition v2_operation_current :: "env \<Rightarrow> v2_operation \<Rightarrow> bool step" where
  "v2_operation_current E z = reads (\<lambda>s.
     let stored = tget (z_collaboration z) (collaborations s);
         co = (case z_new z of
                 Some d \<Rightarrow> (case stored of None \<Rightarrow> Some d
                            | Some c \<Rightarrow> if z_status z \<noteq> OSending then None else Some c)
               | None \<Rightarrow> stored)
     in if z_expires z \<le> now E then ret False
        else if z_kind z = VAccept \<and> v_decision (z_decision z) = Ask
             \<and> z_status z \<notin> {OSending, OAccepted} \<and> z_review_version z \<noteq> Some 2 then ret False
        else case co of
          None \<Rightarrow> ret False
        | Some c \<Rightarrow>
            if v_owner c \<noteq> z_owner z then ret False
            else andThen (collaboration_review_safe E c (z_owner z)) (\<lambda>safe.
              if \<not> safe then ret False
              else if z_maintenance z then
                ret (case v_permit c of
                       Some p \<Rightarrow> \<not> pm_revoked p \<and> now E < pm_until p
                         \<and> (z_status z = OSending \<or> pm_used p < pm_max p)
                     | None \<Rightarrow> False)
              else (case tget (z_task z) (tasks s) of
                None \<Rightarrow> ret False
              | Some t \<Rightarrow>
                  ret (t_revision t = z_revision z \<and> (z_recovery z \<or> live E t)
                    \<and> (z_status z = OSending \<or> context_digest E c = z_context z)))))"

definition worker_approval_current :: "env \<Rightarrow> store \<Rightarrow> approval \<Rightarrow> int \<Rightarrow> int \<Rightarrow> string \<Rightarrow> exn + bool" where
  "worker_approval_current E s a prev trev h = (case tget (p_subject a) (workers s) of
     None \<Rightarrow> Inr False
   | Some r \<Rightarrow>
       if wp_status r \<noteq> WPending then Inr False
       else bindE (worker_policy_current E s r) (\<lambda>cur.
         Inr (cur \<and> wp_revision r = prev \<and> wp_task_revision r = trev
              \<and> digest E (limits_json (wp_policy r)) = h)))"

text \<open>\<^verbatim>\<open>_approval_current\<close>: the thing an approval decides is still what was asked.\<close>

definition approval_current :: "env \<Rightarrow> approval \<Rightarrow> bool step" where
  "approval_current E a =
     (if p_invalid a = Some ''peer_blocked'' then ret False
      else reads (\<lambda>s. case p_payload a of
        PFriend c _ \<Rightarrow>
          ret (tget (p_subject a) (contacts s) = Some c
               \<and> contact_status E s c \<notin> {ConnPending, Connected})
      | PResponse _ _ _ \<Rightarrow>
          ret (case tget (p_subject a) (requests s) of
                 Some q \<Rightarrow> owned (q_owner q) (p_session a) \<and> q_status q = RqPending | None \<Rightarrow> False)
      | PMessage _ \<Rightarrow>
          ret (tget (p_subject a) (outboxes s) = None \<and> tget (p_subject a) (inbox s) = None
               \<and> now E < p_expires a)
      | PWorker prev trev h \<Rightarrow> lift (worker_approval_current E s a prev trev h)
      | PV2 h \<Rightarrow>
          (case tget (p_subject a) (v2_operations s) of
             Some z \<Rightarrow> if z_status z = OAwaiting \<and> z_hash z = h then v2_operation_current E z else ret False
           | None \<Rightarrow> ret False)
      | PContact c \<Rightarrow>
          ret (p_subject a \<noteq> ''self''
               \<and> (case tget (p_subject a) (contacts s) of None \<Rightarrow> True | Some d \<Rightarrow> d = c))
      | PTask _ n \<Rightarrow>
          ret (case tget (p_subject a) (tasks s) of
                 Some t \<Rightarrow> t_status t = TPending \<and> t_revision t = n \<and> now E < sc_expires_at (t_scope t)
               | None \<Rightarrow> False)
      | POperation h _ \<Rightarrow>
          (case tget (p_subject a) (operations s) of
             None \<Rightarrow> ret False
           | Some o' \<Rightarrow>
               if o_status o' \<noteq> OAwaiting then ret False
               else (case tget (o_task o') (tasks s) of
                 None \<Rightarrow> ret False
               | Some t \<Rightarrow>
                   if live E t \<and> t_revision t = o_revision o' \<and> o_hash o' = h
                   then lift (proposal_current E s o') else ret False))))"

definition approval_task_id :: "store \<Rightarrow> approval \<Rightarrow> string option" where
  "approval_task_id s a = (case p_payload a of
     PTask _ _ \<Rightarrow> Some (p_subject a)
   | PWorker _ _ _ \<Rightarrow> Some (p_subject a)
   | POperation _ _ \<Rightarrow> map_option o_task (tget (p_subject a) (operations s))
   | PV2 _ \<Rightarrow> map_option z_task (tget (p_subject a) (v2_operations s))
   | _ \<Rightarrow> None)"

end
