(* ===== verification/Attention.thy ===== *)
theory Attention
  imports Authority
begin

text \<open>
  The owner's attention feed (\<^verbatim>\<open>src/python/agent_comm_runtime/attention.py\<close>): the latest revision of
  one item per source, written in the transaction of the fact it projects. The functions here are
  the hooks that the writes of the store run, and write nothing but the feed (and, through the
  review gate, staged reviews).
\<close>

section \<open>The feed\<close>

definition max_cursor :: int where
  "max_cursor = 9007199254740991"

text \<open>The keyword arguments of \<^verbatim>\<open>_attention_put\<close> with their defaults.\<close>

record notice =
  nt_kind :: string
  nt_subject :: string
  nt_title :: string
  nt_state :: attn_state
  nt_task :: "string option"
  nt_revision :: json
  nt_target :: string
  nt_summary :: string
  nt_expires :: "time option"
  nt_approval :: "string option"
  nt_created :: "time option"
  nt_turn :: "string option"
  nt_updated :: "time option"

definition notice_default :: "string \<Rightarrow> string \<Rightarrow> string \<Rightarrow> notice" where
  "notice_default kind subject title = \<lparr>nt_kind = kind, nt_subject = subject, nt_title = title,
     nt_state = AtOpen, nt_task = None, nt_revision = JInt 1, nt_target = ''task'', nt_summary = [],
     nt_expires = None, nt_approval = None, nt_created = None, nt_turn = None, nt_updated = None\<rparr>"

definition attention_key :: "env \<Rightarrow> string \<Rightarrow> string \<Rightarrow> string \<Rightarrow> string" where
  "attention_key E owner source_kind source_id =
     ''attention-'' @ take 48 (skey E [owner, source_kind, source_id])"

definition attention_value :: "env \<Rightarrow> string \<Rightarrow> string \<Rightarrow> string \<Rightarrow> notice \<Rightarrow> attention_item" where
  "attention_value E owner source_kind source_id n =
     \<lparr>at_id = attention_key E owner source_kind source_id, at_owner = owner, at_kind = nt_kind n,
      at_subject = nt_subject n, at_source_revision = nt_revision n, at_state = nt_state n,
      at_title = nt_title n, at_summary = nt_summary n, at_target_kind = nt_target n,
      at_target_id = (case nt_task n of
         Some t \<Rightarrow> if nt_target n = ''task'' \<and> t \<noteq> [] then t else nt_subject n
       | None \<Rightarrow> nt_subject n),
      at_turn = nt_turn n, at_source_kind = source_kind, at_source_id = source_id,
      at_task = nt_task n, at_expires = nt_expires n, at_approval = nt_approval n,
      at_revision = 0, at_created = 0, at_updated = 0\<rparr>"

text \<open>The content of an item: everything but its revision and its two times.\<close>

definition attention_content :: "attention_item \<Rightarrow> attention_item" where
  "attention_content i = i\<lparr>at_revision := 0, at_created := 0, at_updated := 0\<rparr>"

definition counter :: "env \<Rightarrow> store \<Rightarrow> string \<Rightarrow> int" where
  "counter E s owner = (case tget (skey E [owner]) (counters s) of Some n \<Rightarrow> n | None \<Rightarrow> 0)"

definition attention_put :: "env \<Rightarrow> string \<Rightarrow> string \<Rightarrow> string \<Rightarrow> notice \<Rightarrow> unit step" where
  "attention_put E owner source_kind source_id n =
     (if owner = [] then ret () else reads (\<lambda>s.
        let k = attention_key E owner source_kind source_id; previous = tget k (attention s);
            v = attention_value E owner source_kind source_id n
        in if map_option attention_content previous = Some v then ret ()
           else let rv = counter E s owner + 1 in
             if max_cursor < rv then raise (ValueError ''Attention revision exhausted'')
             else modify (\<lambda>s. s\<lparr>
               counters := tput (skey E [owner]) rv (counters s),
               attention := tput k (v\<lparr>at_revision := rv,
                 at_created := (case previous of Some i \<Rightarrow> at_created i
                   | None \<Rightarrow> (case nt_created n of Some t \<Rightarrow> t | None \<Rightarrow> now E)),
                 at_updated := (case nt_updated n of Some t \<Rightarrow> t | None \<Rightarrow> now E)\<rparr>) (attention s)\<rparr>)))"

text \<open>An existing item put again with another state (and revision of its source).\<close>

definition notice_of :: "attention_item \<Rightarrow> notice" where
  "notice_of i = \<lparr>nt_kind = at_kind i, nt_subject = at_subject i, nt_title = at_title i,
     nt_state = at_state i, nt_task = at_task i, nt_revision = at_source_revision i,
     nt_target = at_target_kind i, nt_summary = at_summary i, nt_expires = None, nt_approval = None,
     nt_created = None, nt_turn = None, nt_updated = None\<rparr>"

section \<open>Projections\<close>

text \<open>\<^verbatim>\<open>record_conversation_event\<close>\<close>

definition terminal_turn :: "string \<Rightarrow> bool" where
  "terminal_turn st \<longleftrightarrow> st \<in> set [''completed'', ''failed'', ''interrupted'']"

definition turn_notice :: "turn \<Rightarrow> notice" where
  "turn_notice j = (let st = tu_status j; terminal = terminal_turn st in
     (notice_default
        (if st = ''completed'' then ''conversation_completed''
         else if terminal then ''conversation_failed'' else ''conversation_progress'')
        (tu_conversation j)
        (if st = ''completed'' then T_at_turn_done
         else if terminal then T_at_turn_check else T_at_turn_running))
     \<lparr>nt_target := ''conversation'', nt_turn := Some (tu_id j),
      nt_summary := (if st = ''completed'' then T_at_turn_done_s
         else if st = ''interrupted'' then T_at_turn_interrupted_s
         else if terminal then T_at_turn_failed_s else T_at_turn_running_s),
      nt_state := (if terminal then AtOpen else AtResolved), nt_revision := JStr st,
      nt_created := Some (tu_created j), nt_updated := Some (tu_updated j)\<rparr>)"

definition record_conversation_event :: "env \<Rightarrow> turn \<Rightarrow> unit step" where
  "record_conversation_event E j = reads (\<lambda>s.
     case tget (tu_id j) (conversation_turns s) of
       Some p \<Rightarrow>
         if p = j \<or> terminal_turn (tu_status p) then ret ()
         else andThen (modify (\<lambda>s. s\<lparr>conversation_turns := tput (tu_id j) j (conversation_turns s)\<rparr>))
           (\<lambda>_. attention_put E (tu_owner j) ''conversation_turn'' (tu_id j) (turn_notice j))
     | None \<Rightarrow>
         andThen (modify (\<lambda>s. s\<lparr>conversation_turns := tput (tu_id j) j (conversation_turns s)\<rparr>))
           (\<lambda>_. attention_put E (tu_owner j) ''conversation_turn'' (tu_id j) (turn_notice j)))"

fun approval_title :: "approval_payload \<Rightarrow> string" where
  "approval_title (PResponse _ _ _) = T_at_response"
| "approval_title (PMessage _) = T_at_message"
| "approval_title (PTask _ _) = T_at_task"
| "approval_title (PWorker _ _ _) = T_at_worker"
| "approval_title (POperation _ _) = T_at_operation"
| "approval_title (PV2 _) = T_at_v2"
| "approval_title _ = T_at_contact"

definition approval_state :: "env \<Rightarrow> approval \<Rightarrow> bool \<Rightarrow> attn_state step" where
  "approval_state E a refresh =
     (if p_invalid a = Some ''peer_blocked'' then ret AtSuperseded
      else if p_status a \<in> {AApproved, ADenied} then ret AtResolved
      else if \<not> refresh then ret AtOpen
      else andThen (approval_current E a) (\<lambda>cur.
        if cur then ret AtOpen
        else reads (\<lambda>s. ret (case approval_task_id s a of
          None \<Rightarrow> AtSuperseded
        | Some tid \<Rightarrow> (case tget tid (tasks s) of
            None \<Rightarrow> AtSuperseded
          | Some t \<Rightarrow> if t_status t \<noteq> TRevoked \<and> \<not> live E t then AtExpired else AtSuperseded)))))"

text \<open>The deadline shown and, for a worker policy, the state after its expiry.\<close>

definition approval_deadline :: "env \<Rightarrow> store \<Rightarrow> approval \<Rightarrow> attn_state \<Rightarrow> exn + time option \<times> attn_state" where
  "approval_deadline E s a st =
     (let base = (case approval_task_id s a of
          None \<Rightarrow> None
        | Some tid \<Rightarrow> map_option (\<lambda>t. sc_expires_at (t_scope t)) (tget tid (tasks s)))
      in case p_payload a of
        PV2 _ \<Rightarrow> Inr (case tget (p_subject a) (v2_operations s) of
             Some z \<Rightarrow> Some (z_expires z) | None \<Rightarrow> base, st)
      | PWorker _ _ _ \<Rightarrow> (case tget (p_subject a) (workers s) of
          None \<Rightarrow> Inr (base, st)
        | Some r \<Rightarrow> bindE (store_instant (wl_expires (wp_policy r))) (\<lambda>e.
            Inr (Some e, if st = AtSuperseded \<and> e \<le> now E then AtExpired else st)))
      | _ \<Rightarrow> Inr (base, st))"

definition attention_approval :: "env \<Rightarrow> approval \<Rightarrow> bool \<Rightarrow> unit step" where
  "attention_approval E a refresh =
     andThen (approval_state E a refresh) (\<lambda>st0.
     reads (\<lambda>s.
     andThen (lift (approval_deadline E s a st0)) (\<lambda>(expires, st).
       attention_put E (principal (p_session a)) ''approval'' (p_id a)
         ((notice_default ''owner_decision_required'' (p_id a) (approval_title (p_payload a)))
          \<lparr>nt_task := approval_task_id s a, nt_state := st, nt_revision := JStr (p_fingerprint a),
           nt_target := ''approval'', nt_summary := T_at_approval_summary, nt_expires := expires,
           nt_approval := Some (p_id a), nt_created := Some (p_created a)\<rparr>))))"

text \<open>The owners to whom an inbound message is announced.\<close>

definition announced_contacts :: "env \<Rightarrow> store \<Rightarrow> inbound \<Rightarrow> string option \<Rightarrow> contact list" where
  "announced_contacts E s m session = filter (\<lambda>c. c_urn c = w_sender m
     \<and> (case session of None \<Rightarrow> True | Some x \<Rightarrow> owned (c_owner c) x)
     \<and> (local_urn E = None \<or> contact_status E s c = Connected)) (tall (contacts s))"

definition announced_owners :: "env \<Rightarrow> store \<Rightarrow> inbound \<Rightarrow> string option \<Rightarrow> string list" where
  "announced_owners E s m session =
     (let cs = announced_contacts E s m session;
          owners = filter (\<lambda>x. x \<noteq> []) (remdups (map c_owner cs))
      in if local_urn E \<noteq> None then filter (\<lambda>x. mail_owner s = Some x) owners
         else if cs = [] then (case mail_owner s of Some x \<Rightarrow> [x] | None \<Rightarrow> [])
         else owners)"

definition event_kinds_announced :: "v2_kind list" where
  "event_kinds_announced = [VInvite, VProposal, VChangeRequest, VWithdraw, VCancelRequest]"

definition announce_inbound ::
  "env \<Rightarrow> inbound \<Rightarrow> (string \<times> json) list option \<Rightarrow> string \<Rightarrow> unit step" where
  "announce_inbound E m event owner = reads (\<lambda>s.
     case inbound_local_task s m owner of
       None \<Rightarrow> ret ()
     | Some tid \<Rightarrow>
         (let invite = (case event of Some kvs \<Rightarrow> jget ''kind'' kvs = Some (JStr ''invite'') | None \<Rightarrow> False);
              bound = (case event of
                 Some kvs \<Rightarrow> (case jget ''collaboration_id'' kvs of
                    Some (JStr cid) \<Rightarrow> tget cid (collaborations s) \<noteq> None | _ \<Rightarrow> False)
               | None \<Rightarrow> False);
              read = tget (skey E [owner, w_sender m, w_id m]) (reads_at s) \<noteq> None;
              st = (if read \<or> invite \<and> bound then AtResolved else AtOpen)
          in andThen (if invite then
                 (case event of
                    Some kvs \<Rightarrow> (case jget ''expires_at'' kvs of
                      None \<Rightarrow> raise (KeyError ''expires_at'')
                    | Some j \<Rightarrow> andThen (lift (jinstant j)) (\<lambda>e. ret (Some e)))
                  | None \<Rightarrow> ret None)
               else ret None) (\<lambda>expires.
             attention_put E owner ''inbound'' (skey E [w_sender m, w_id m])
               ((notice_default (if invite then ''new_collaboration_request'' else ''peer_message_received'')
                   (w_id m) (if invite then T_at_new_request else T_at_peer_message))
                \<lparr>nt_target := ''inbox'', nt_task := tid,
                 nt_state := (case expires of
                    Some e \<Rightarrow> if st = AtOpen \<and> e \<le> now E then AtExpired else st | None \<Rightarrow> st),
                 nt_expires := expires, nt_summary := T_at_inbound_summary,
                 nt_created := Some (i_received m)\<rparr>))))"

definition attention_inbound :: "env \<Rightarrow> inbound \<Rightarrow> string option \<Rightarrow> unit step" where
  "attention_inbound E m session =
     (if i_quarantined m \<or> kind_in (w_kind m) social_kinds then ret ()
      else reads (\<lambda>s.
        case v2_object (w_text m) of
          None \<Rightarrow> for_each (announced_owners E s m session) (announce_inbound E m None)
        | Some kvs \<Rightarrow>
            andThen (lift (kind_member (jget ''kind'' kvs) event_kinds_announced)) (\<lambda>known.
              if known then for_each (announced_owners E s m session) (announce_inbound E m (Some kvs))
              else ret ())))"

text \<open>The part of \<^verbatim>\<open>_attention_on_write\<close> for an operation of either protocol.\<close>

definition attention_operation ::
  "env \<Rightarrow> string \<Rightarrow> string \<Rightarrow> string \<Rightarrow> string \<Rightarrow> op_status \<Rightarrow> delivery list \<Rightarrow> time \<Rightarrow> string \<Rightarrow> unit step" where
  "attention_operation E kind oid owner tid st ds since h = reads (\<lambda>s.
     let uncertain = list_ex (\<lambda>d. d_status d = DUncertain) ds
           \<or> st = OSending \<and> list_ex (\<lambda>d. d_status d = DPending) ds \<and> since + 30 * sec \<le> now E
     in if uncertain \<or> tget (attention_key E owner kind oid) (attention s) \<noteq> None then
          attention_put E owner kind oid
            ((notice_default ''needs_recovery'' oid T_at_uncertain)
             \<lparr>nt_task := Some tid, nt_state := (if uncertain then AtOpen else AtResolved),
              nt_revision := JStr h, nt_summary := T_at_uncertain_summary\<rparr>)
        else ret ())"

definition attention_v1 :: "env \<Rightarrow> operation \<Rightarrow> unit step" where
  "attention_v1 E o' = attention_operation E ''operation'' (o_id o') (principal (o_session o')) (o_task o')
     (o_status o') (o_deliveries o') (case o_reserved o' of Some t \<Rightarrow> t | None \<Rightarrow> o_created o') (o_hash o')"

definition attention_v2 :: "env \<Rightarrow> v2_operation \<Rightarrow> unit step" where
  "attention_v2 E z = attention_operation E ''v2_operation'' (z_id z) (z_owner z) (z_task z)
     (z_status z) (case z_delivery z of Some d \<Rightarrow> [d] | None \<Rightarrow> [])
     (case z_reserved z of Some t \<Rightarrow> t | None \<Rightarrow> z_created z) (z_hash z)"

section \<open>Collaborations and workers\<close>

definition is_local :: "env \<Rightarrow> json \<Rightarrow> bool" where
  "is_local E j \<longleftrightarrow> (case local_urn E of Some u \<Rightarrow> j = JStr u | None \<Rightarrow> False)"

definition own_active :: "env \<Rightarrow> collaboration \<Rightarrow> bool" where
  "own_active E c = (case local_urn E of
     None \<Rightarrow> False
   | Some u \<Rightarrow> (case map_of (v_acceptances c) u of Some a \<Rightarrow> ac_active a | None \<Rightarrow> False))"

definition obj_field :: "string \<Rightarrow> json option \<Rightarrow> json" where
  "obj_field k jo = (case jo of Some (JObj kvs) \<Rightarrow> jfield k kvs | _ \<Rightarrow> JNull)"

definition peer_cancel :: "env \<Rightarrow> collaboration \<Rightarrow> bool" where
  "peer_cancel E c \<longleftrightarrow> v_cancel c \<noteq> None \<and> \<not> is_local E (obj_field ''sender_urn'' (v_cancel c))"

text \<open>What a collaboration asks of its owner, if anything: kind, title, summary.\<close>

definition collaboration_need :: "env \<Rightarrow> collaboration \<Rightarrow> (string \<times> string \<times> string) option" where
  "collaboration_need E c =
     (if v_phase c = ''closed'' then
        Some (''collaboration_completed'', T_at_completed,
          if v_closure c = Some ''cancelled'' then T_at_cancelled_summary else T_at_agreed_summary)
      else if v_waiting c \<in> Some ` set [''maintenance_permission'', ''maintenance_budget'',
                ''event_chain_conflict'', ''missing_event''] then
        Some (''needs_recovery'', T_at_recovery, T_at_recovery_summary)
      else if peer_cancel E c
           \<or> v_joined c \<and> v_agreement c = None \<and> \<not> v_withdraw c
             \<and> (v_terms c \<noteq> None \<and> \<not> own_active E c
                \<or> v_terms c = None \<and> local_urn E = Some (v_initiator c)) then
        Some (''needs_response'', T_at_respond, T_at_respond_summary)
      else None)"

definition collaboration_source :: "env \<Rightarrow> collaboration \<Rightarrow> string" where
  "collaboration_source E c =
     (if v_phase c = ''closed'' then
        key E [JStr (v_phase c), obj_field ''agreement_id'' (v_agreement c), jstr_opt (v_closure c)]
      else key E [JStr (v_phase c), jstr_opt (v_waiting c), jopt (v_terms c), jopt (v_cancel c),
                  jstr_opt (v_closure c), JBool (own_active E c)])"

definition collaboration_state :: "env \<Rightarrow> store \<Rightarrow> collaboration \<Rightarrow> string option \<Rightarrow> attn_state" where
  "collaboration_state E s c need =
     (let st = (if v_blocked_at c \<noteq> None \<or> peer_blocked E s (v_peer c) (v_owner c) then AtSuperseded
                else if need \<noteq> None then AtOpen else AtResolved);
          t = tget (v_task c) (tasks s)
      in if need = Some ''needs_response'' \<and> \<not> (peer_cancel E c \<and> v_agreement c \<noteq> None)
            \<and> (case t of None \<Rightarrow> True | Some t \<Rightarrow> \<not> live E t)
         then (case t of Some t \<Rightarrow> if t_status t = TRevoked then AtSuperseded else AtExpired
               | None \<Rightarrow> AtExpired)
         else st)"

definition attention_collaboration :: "env \<Rightarrow> collaboration \<Rightarrow> unit step" where
  "attention_collaboration E c =
     andThen (collaboration_review_safe E c (v_owner c)) (\<lambda>safe.
     reads (\<lambda>s.
       let previous = tget (attention_key E (v_owner c) ''v2_collaboration'' (v_id c)) (attention s) in
       if \<not> safe then
         (case previous of
            None \<Rightarrow> ret ()
          | Some p \<Rightarrow> attention_put E (v_owner c) ''v2_collaboration'' (v_id c)
              ((notice_default (at_kind p) (v_id c) (at_title p))
               \<lparr>nt_summary := T_at_collab_unavailable, nt_state := AtSuperseded,
                nt_task := Some (v_task c), nt_revision := JStr ''content_unavailable''\<rparr>))
       else
         (let put = (\<lambda>need kind title summary.
                attention_put E (v_owner c) ''v2_collaboration'' (v_id c)
                  ((notice_default kind (v_id c) title)
                   \<lparr>nt_summary := summary, nt_state := collaboration_state E s c need,
                    nt_task := Some (v_task c), nt_revision := JStr (collaboration_source E c),
                    nt_created := Some (v_created c)\<rparr>))
          in case collaboration_need E c of
               Some (kind, title, summary) \<Rightarrow> put (Some kind) kind title summary
             | None \<Rightarrow> (case previous of
                 None \<Rightarrow> ret ()
               | Some p \<Rightarrow> put None (at_kind p) (at_title p) (at_summary p)))))"

definition worker_needs_owner :: "string option \<Rightarrow> bool" where
  "worker_needs_owner reason \<longleftrightarrow> reason \<in> Some ` set [''exception_requires_owner'', ''send_uncertain'',
     ''budget_exhausted'', ''state_changed'', ''worker_error'']"

definition worker_attention :: "env \<Rightarrow> worker_policy \<Rightarrow> unit step" where
  "worker_attention E r = reads (\<lambda>s.
     if \<not> worker_needs_owner (wp_waiting r)
        \<and> \<not> list_ex (\<lambda>i. at_source_kind i = ''worker_policy'' \<and> at_source_id i = wp_task r) (tall (attention s))
     then ret ()
     else andThen (if wp_status r = WRevoked then ret AtSuperseded
            else andThen (lift (worker_policy_current E s r)) (\<lambda>cur.
              ret (if \<not> cur then AtExpired
                   else if worker_needs_owner (wp_waiting r) then AtOpen else AtResolved))) (\<lambda>st.
       attention_put E (wp_owner r) ''worker_policy'' (wp_task r)
         ((notice_default ''needs_recovery'' (wp_task r) T_at_worker_title)
          \<lparr>nt_task := Some (wp_task r), nt_summary := T_at_worker_summary, nt_state := st,
           nt_revision := JStr (int_dec (wp_revision r) @ '':'' @
             (case wp_waiting r of Some x \<Rightarrow> x | None \<Rightarrow> ''None''))\<rparr>)))"

text \<open>\<^verbatim>\<open>social._friend_attention\<close>\<close>

definition friend_attention :: "env \<Rightarrow> contact_request \<Rightarrow> unit step" where
  "friend_attention E q =
     (if q_direction q = Incoming then
        attention_put E (q_owner q) ''contact_request'' (q_id q)
          ((notice_default ''friend_request_received'' (q_id q) T_at_friend_received)
           \<lparr>nt_target := ''contact'', nt_summary := q_urn q,
            nt_state := (if q_status q = RqPending then AtOpen else AtResolved),
            nt_revision := JStr (request_status_str (q_status q)), nt_created := Some (q_created q)\<rparr>)
      else ret ())"

end
