(* ===== verification/Writes.thy ===== *)
theory Writes
  imports Attention
begin

text \<open>
  Writing a row: \<^verbatim>\<open>Store._put\<close> with its hooks, one function per record kind. A write records the
  bound conversation (\<^verbatim>\<open>source_context.py\<close>), replaces the row, appends the transition to the task
  journal (\<^verbatim>\<open>task_history._record_task_history\<close>) and refreshes the attention feed, in this order.
  Also here: the audit log, the approval request that every "ask" creates, and the lazy
  quarantine of messages that predate the review gate.
\<close>

section \<open>Provenance and journals\<close>

definition dict_json :: "(string \<times> json) list \<Rightarrow> (string \<times> json) list" where
  "dict_json kvs = fold (\<lambda>(k, v) d. jset k v d) kvs []"

definition context_json :: "context_data \<Rightarrow> (string \<times> json) list" where
  "context_json ctx = map (\<lambda>(k, v). (k, JStr v)) ctx"

text \<open>\<^verbatim>\<open>_record_source_context\<close>: the provenance the body keeps, and the link to the bound turn.\<close>

definition bound_source :: "env \<Rightarrow> bool \<Rightarrow> context_data option \<Rightarrow> context_data option" where
  "bound_source E mine src = (case binding E of
     Some (_, ctx, _) \<Rightarrow> if mine \<and> src = None then Some ctx else src
   | None \<Rightarrow> src)"

definition binding_owns :: "env \<Rightarrow> string \<Rightarrow> bool" where
  "binding_owns E owner = (case binding E of Some (b, _, _) \<Rightarrow> owned owner b | None \<Rightarrow> False)"

definition record_link :: "env \<Rightarrow> string \<Rightarrow> string \<Rightarrow> string \<Rightarrow> string option \<Rightarrow> unit step" where
  "record_link E kind rid owner task = (case binding E of
     None \<Rightarrow> ret ()
   | Some (b, ctx, console) \<Rightarrow>
       if \<not> owned owner b then ret ()
       else (let link = dict_json ([(''owner_id'', JStr b), (''console_urn'', JStr console)] @
                  context_json ctx @ [(''kind'', JStr kind), (''id'', JStr rid)] @
                  opt_item ''task_id'' task);
                 k = sha E (ascii_escape (dumps '', '' '': '' (JObj link)))
             in modify (\<lambda>s. s\<lparr>links := tput k link (links s)\<rparr>)))"

definition journal :: "env \<Rightarrow> string \<Rightarrow> string \<Rightarrow> string option \<Rightarrow> string \<Rightarrow> string
    \<Rightarrow> (string \<times> json) list \<Rightarrow> context_data option \<Rightarrow> unit step" where
  "journal E owner kind task rid st details src = (case task of
     None \<Rightarrow> ret ()
   | Some t \<Rightarrow>
       if t = [] \<or> owner = [] then ret ()
       else modify (\<lambda>s. s\<lparr>history := history s @
         [\<lparr>h_owner = owner, h_task = t, h_kind = kind, h_record = rid, h_status = st,
           h_at = now E, h_details = details, h_source = src\<rparr>]\<rparr>))"

definition audit :: "env \<Rightarrow> string \<Rightarrow> (string \<times> json) list \<Rightarrow> unit step" where
  "audit E event data = modify (\<lambda>s. s\<lparr>audits := audits s @
     [\<lparr>au_at = now E, au_event = event, au_data = data\<rparr>]\<rparr>)"

section \<open>Rows with hooks\<close>

definition put_task :: "env \<Rightarrow> task \<Rightarrow> task step" where
  "put_task E t0 =
     (let owner = principal (t_session t0);
          t = t0\<lparr>t_source := bound_source E (binding_owns E owner) (t_source t0)\<rparr>
      in reads (\<lambda>s. let previous = tget (t_id t) (tasks s) in
         andThen (record_link E ''task'' (t_id t) owner (Some (t_id t))) (\<lambda>_.
         andThen (modify (\<lambda>s. s\<lparr>tasks := tput (t_id t) t (tasks s)\<rparr>)) (\<lambda>_.
         andThen (act_when (previous \<noteq> Some t)
           (journal E owner ''task'' (Some (t_id t)) (t_id t) (task_status_str (t_status t))
             [(''revision'', JInt (t_revision t)), (''used_count'', JInt (t_used t))] (t_source t))) (\<lambda>_.
         ret t)))))"

definition put_approval :: "env \<Rightarrow> approval \<Rightarrow> approval step" where
  "put_approval E a0 =
     (let owner = principal (p_session a0);
          a = a0\<lparr>p_source := bound_source E (binding_owns E owner) (p_source a0)\<rparr>
      in reads (\<lambda>s. let previous = tget (p_id a) (approvals s); task = approval_task_id s a in
         andThen (record_link E ''approval'' (p_id a) owner task) (\<lambda>_.
         andThen (modify (\<lambda>s. s\<lparr>approvals := tput (p_id a) a (approvals s)\<rparr>)) (\<lambda>_.
         andThen (act_when (previous \<noteq> Some a)
           (journal E owner ''approval'' task (p_id a) (ap_status_str (p_status a))
             [(''kind'', JStr (payload_kind (p_payload a))), (''subject_id'', JStr (p_subject a)),
              (''expires_at'', jtime (p_expires a))] (p_source a))) (\<lambda>_.
         andThen (attention_approval E a False) (\<lambda>_.
         ret a))))))"

definition put_operation :: "env \<Rightarrow> operation \<Rightarrow> unit step" where
  "put_operation E o' = reads (\<lambda>s.
     let previous = tget (o_id o') (operations s) in
     andThen (modify (\<lambda>s. s\<lparr>operations := tput (o_id o') o' (operations s)\<rparr>)) (\<lambda>_.
     andThen (act_when (previous \<noteq> Some o')
       (journal E (principal (o_session o')) ''operation'' (Some (o_task o')) (o_id o')
         (op_status_str (o_status o')) (opt_item ''approval_id'' (o_approval o')) None)) (\<lambda>_.
     attention_v1 E o')))"

definition put_v2_operation :: "env \<Rightarrow> v2_operation \<Rightarrow> unit step" where
  "put_v2_operation E z = reads (\<lambda>s.
     let previous = tget (z_id z) (v2_operations s) in
     andThen (modify (\<lambda>s. s\<lparr>v2_operations := tput (z_id z) z (v2_operations s)\<rparr>)) (\<lambda>_.
     andThen (act_when (previous \<noteq> Some z)
       (journal E (z_owner z) ''v2_operation'' (Some (z_task z)) (z_id z)
         (op_status_str (z_status z))
         ((''kind'', JStr (v2_kind_str (z_kind z))) # opt_item ''approval_id'' (z_approval z)) None)) (\<lambda>_.
     attention_v2 E z)))"

definition put_inbound :: "env \<Rightarrow> inbound \<Rightarrow> unit step" where
  "put_inbound E m =
     andThen (modify (\<lambda>s. s\<lparr>inbox := tput (w_id m) m (inbox s)\<rparr>)) (\<lambda>_.
     attention_inbound E m None)"

text \<open>The row of a collaboration holds its open JSON fields with sorted keys.\<close>

definition collaboration_row :: "collaboration \<Rightarrow> collaboration" where
  "collaboration_row c = c\<lparr>v_terms := map_option reloaded (v_terms c),
     v_agreement := map_option reloaded (v_agreement c), v_cancel := map_option reloaded (v_cancel c),
     v_change := map_option reloaded (v_change c)\<rparr>"

definition put_collaboration :: "env \<Rightarrow> collaboration \<Rightarrow> collaboration step" where
  "put_collaboration E c0 =
     (let c = c0\<lparr>v_source := bound_source E (binding_owns E (v_owner c0)) (v_source c0)\<rparr>
      in andThen (record_link E ''collaboration'' (v_id c) (v_owner c) (Some (v_task c))) (\<lambda>_.
         andThen (modify (\<lambda>s. s\<lparr>collaborations :=
             tput (v_id c) (collaboration_row c) (collaborations s)\<rparr>)) (\<lambda>_.
         andThen (attention_collaboration E c) (\<lambda>_.
         ret c))))"

section \<open>Rows without hooks\<close>

definition put_contact :: "contact \<Rightarrow> unit step" where
  "put_contact c = modify (\<lambda>s. s\<lparr>contacts := tput (c_id c) c (contacts s)\<rparr>)"

definition put_request :: "contact_request \<Rightarrow> unit step" where
  "put_request q = modify (\<lambda>s. s\<lparr>requests := tput (q_id q) q (requests s)\<rparr>)"

definition put_outbox :: "outbox \<Rightarrow> unit step" where
  "put_outbox b = modify (\<lambda>s. s\<lparr>outboxes := tput (b_id b) b (outboxes s)\<rparr>)"

definition put_proposal :: "string \<Rightarrow> proposal \<Rightarrow> unit step" where
  "put_proposal k p = modify (\<lambda>s. s\<lparr>proposals := tput k p (proposals s)\<rparr>)"

definition put_worker :: "worker_policy \<Rightarrow> unit step" where
  "put_worker r = modify (\<lambda>s. s\<lparr>workers := tput (wp_task r) r (workers s)\<rparr>)"

definition put_run :: "worker_run \<Rightarrow> unit step" where
  "put_run r = modify (\<lambda>s. s\<lparr>runs := tput (wr_id r) r (runs s)\<rparr>)"

definition put_event :: "string \<Rightarrow> v2_event \<Rightarrow> unit step" where
  "put_event k e = modify (\<lambda>s. s\<lparr>events := tput k e (events s)\<rparr>)"

definition put_connection :: "env \<Rightarrow> string \<Rightarrow> string \<Rightarrow> string \<Rightarrow> unit step" where
  "put_connection E owner urn rid = modify (\<lambda>s. s\<lparr>connections := tput (skey E [owner, urn])
     \<lparr>n_owner = owner, n_urn = urn, n_request = rid, n_at = now E\<rparr> (connections s)\<rparr>)"

section \<open>Asking the owner\<close>

record public_approval =
  pa_id :: string
  pa_kind :: string
  pa_subject :: string
  pa_question :: string
  pa_expires :: time
  pa_status :: ap_status
  pa_source :: "context_data option"

definition public_view :: "approval \<Rightarrow> public_approval" where
  "public_view a = \<lparr>pa_id = p_id a, pa_kind = payload_kind (p_payload a), pa_subject = p_subject a,
     pa_question = p_question a, pa_expires = p_expires a, pa_status = p_status a, pa_source = p_source a\<rparr>"

definition approval_fingerprint :: "env \<Rightarrow> string \<Rightarrow> string \<Rightarrow> approval_payload \<Rightarrow> string" where
  "approval_fingerprint E subject session payload = digest E (JObj
     [(''kind'', JStr (payload_kind payload)), (''subject_id'', JStr subject),
      (''owner'', JStr (principal session)), (''payload'', approval_json payload)])"

definition request_approval ::
  "env \<Rightarrow> string \<Rightarrow> string \<Rightarrow> approval_payload \<Rightarrow> string \<Rightarrow> time \<Rightarrow> public_approval step" where
  "request_approval E subject session payload question expires =
     andThen (refuse_if (18000 < pylen question)
        ''The complete native confirmation exceeds 18000 characters; split this task or reduce its resources'') (\<lambda>_.
     reads (\<lambda>s.
       let fp = approval_fingerprint E subject session payload; aid = ''approval-'' @ take 32 fp in
       case tget aid (approvals s) of
         Some a \<Rightarrow> ret (public_view a)
       | None \<Rightarrow>
           andThen (put_approval E \<lparr>p_id = aid, p_subject = subject, p_session = session,
             p_payload = payload, p_fingerprint = fp, p_question = question, p_expires = expires,
             p_status = APending, p_created = now E, p_invalid = None, p_token = None,
             p_lease = None, p_source = None\<rparr>) (\<lambda>a.
           andThen (audit E ''approval_requested''
             [(''approval_id'', JStr aid), (''owner_session'', JStr session)]) (\<lambda>_.
           ret (public_view a)))))"

section \<open>Lazy quarantine\<close>

text \<open>\<^verbatim>\<open>_ensure_peer_reviews\<close>: the loop body for one message and for one recorded event.\<close>

definition ensure_message_review :: "env \<Rightarrow> string \<Rightarrow> inbound \<Rightarrow> unit step" where
  "ensure_message_review E session m =
     andThen (lift (needs_peer_review m)) (\<lambda>needed.
     if \<not> needed \<or> i_quarantined m then ret ()
     else reads (\<lambda>s.
       andThen (lift (message_visible E s False m session)) (\<lambda>visible.
       if \<not> visible then ret ()
       else andThen (stage_peer_review E m (Some (i_received m)) session) (\<lambda>r.
         if rv_status r = RvApproved then ret ()
         else put_inbound E (m\<lparr>i_quarantined := True, i_reason := Some ''pending_review''\<rparr>)))))"

definition ensure_event_review :: "env \<Rightarrow> string \<Rightarrow> v2_event \<Rightarrow> unit step" where
  "ensure_event_review E session e =
     (if \<not> e_outgoing e \<and> owned (e_owner e) session \<and> pk_kind (e_packet e) \<in> set review_kinds
      then andThen (event_review E (e_packet e) session) (\<lambda>_. ret ()) else ret ())"

definition ensure_peer_reviews :: "env \<Rightarrow> string \<Rightarrow> unit step" where
  "ensure_peer_reviews E session = reads (\<lambda>s.
     andThen (for_each (tall (inbox s)) (ensure_message_review E session)) (\<lambda>_.
     reads (\<lambda>s. for_each (tall (events s)) (ensure_event_review E session))))"

end
