(* ===== verification/V2_Reducer.thy ===== *)
theory V2_Reducer
  imports Writes
begin

text \<open>
  The event-sourced bilateral protocol (\<^verbatim>\<open>src/python/agent_comm_runtime/collaboration_v2.py\<close>): the
  payloads the local side compiles, the preconditions of an event, the reducer, the ordered
  ingestion of a peer's stream with its buffer, and the entry from the inbox. An event is applied
  under a savepoint; a refused event leaves the collaboration as it was.
\<close>

section \<open>Terms and payloads\<close>

definition terms_fields :: "string list" where
  "terms_fields = [''proposal_id'', ''version'', ''topic'', ''participant_ids'', ''start'', ''end'',
     ''fulfillment_mode'', ''meeting_mode'', ''obligations'', ''formation_rule'']"

text \<open>The elements Python iterates over.\<close>

definition py_iter :: "json \<Rightarrow> exn + json list" where
  "py_iter j = (case j of
     JArr xs \<Rightarrow> Inr xs
   | JObj kvs \<Rightarrow> Inr (map (JStr \<circ> fst) kvs)
   | JStr s \<Rightarrow> Inr (map (\<lambda>n. JStr (utf8 [n])) (codepoints s))
   | _ \<Rightarrow> Inl (TypeError ''not iterable''))"

definition local_or_empty :: "env \<Rightarrow> string" where
  "local_or_empty E = (case local_urn E of Some u \<Rightarrow> u | None \<Rightarrow> [])"

definition both_urns :: "env \<Rightarrow> collaboration \<Rightarrow> string list" where
  "both_urns E c = sort [local_or_empty E, v_peer c]"

definition is_jstr :: "json \<Rightarrow> bool" where
  "is_jstr j = (case j of JStr _ \<Rightarrow> True | _ \<Rightarrow> False)"

text \<open>
  \<^verbatim>\<open>_v2_terms_action\<close>: terms are a bilateral, online, agreement-only meeting and a valid action.
  A participant that is not a string is a \<open>TypeError\<close> (Python may also find the lists unequal, a
  \<open>ValueError\<close>; all callers treat the two alike).
\<close>

definition terms_participants :: "env \<Rightarrow> collaboration \<Rightarrow> json \<Rightarrow> exn + json list" where
  "terms_participants E c j =
     bindE (py_iter j) (\<lambda>ps.
       if \<not> list_all is_jstr ps then Inl (TypeError ''participants'')
       else if sort (map as_str ps) \<noteq> both_urns E c
       then refuse ''Only a bilateral online agreement-only meeting is supported'' else Inr ps)"

definition terms_action :: "env \<Rightarrow> collaboration \<Rightarrow> json \<Rightarrow> capability \<Rightarrow> exn + action" where
  "terms_action E c terms cap =
     bindE (exact terms terms_fields) (\<lambda>kvs.
     if jfield ''fulfillment_mode'' kvs \<noteq> JStr ''agreement_only''
        \<or> jfield ''meeting_mode'' kvs \<noteq> JStr ''online''
        \<or> jfield ''formation_rule'' kvs \<noteq> JStr ''initiator_durable_decision_v1''
        \<or> jfield ''obligations'' kvs \<noteq> JStr ''each_party_attends_only''
     then refuse ''Only a bilateral online agreement-only meeting is supported''
     else bindE (terms_participants E c (jfield ''participant_ids'' kvs)) (\<lambda>ps.
       validate_action (JObj [(''capability'', JStr (cap_str cap)), (''recipient_ids'', jstrs [v_peer_id c]),
         (''payload'', JObj ([(k, jfield k kvs). k \<leftarrow> [''proposal_id'', ''version'', ''topic'']] @
            [(''participant_ids'', jstrs (map (\<lambda>p. if is_local E p then ''self'' else v_peer_id c) ps))] @
            [(k, jfield k kvs). k \<leftarrow> [''start'', ''end'']]))])))"

definition v2_key :: "env \<Rightarrow> string \<Rightarrow> string \<Rightarrow> json \<Rightarrow> string" where
  "v2_key E cid sender event = digest E (JArr [JStr cid, JStr sender, event])"

definition event_key :: "env \<Rightarrow> collaboration \<Rightarrow> packet \<Rightarrow> string" where
  "event_key E c p = v2_key E (v_id c) (pk_sender p) (JStr (pk_event p))"

definition v2_record :: "env \<Rightarrow> store \<Rightarrow> collaboration \<Rightarrow> string \<Rightarrow> json \<Rightarrow> v2_event option" where
  "v2_record E s c sender event = tget (v2_key E (v_id c) sender event) (events s)"

definition terms_digest :: "env \<Rightarrow> collaboration \<Rightarrow> json" where
  "terms_digest E c = (case v_terms c of None \<Rightarrow> JNull | Some t \<Rightarrow> JStr (digest E t))"

type_synonym fields = "(string \<times> json) list"

definition sync_events :: "env \<Rightarrow> store \<Rightarrow> collaboration \<Rightarrow> packet list" where
  "sync_events E s c = take 8 (sort_key pk_sequence (filter (\<lambda>p. pk_collaboration p = v_id c
       \<and> Some (pk_sender p) = local_urn E
       \<and> (case v_sync_after c of Some n \<Rightarrow> n | None \<Rightarrow> 0) < pk_sequence p \<and> pk_kind p \<notin> set sync_kinds)
     (map e_packet (filter (\<lambda>e. e_owner e = v_owner c \<and> e_status e = EApplied) (tall (events s))))))"

definition exact_fields :: "fields \<Rightarrow> string list \<Rightarrow> exn + unit" where
  "exact_fields kvs flds = bindE (exact (JObj kvs) flds) (\<lambda>_. Inr ())"

definition proposal_payload :: "env \<Rightarrow> collaboration \<Rightarrow> fields \<Rightarrow> exn + fields \<times> action option" where
  "proposal_payload E c payload =
     bindE (validate_action (JObj [(''capability'', JStr ''propose_meeting''),
         (''recipient_ids'', jstrs [v_peer_id c]), (''payload'', JObj payload)])) (\<lambda>a.
     case a_payload a of
       Meeting m \<Rightarrow>
         (if set (m_participant_ids m) \<noteq> {''self'', v_peer_id c}
          then refuse ''The confirmed two parties must be the only participants''
          else (let terms = JObj [(''proposal_id'', JStr (m_proposal_id m)), (''version'', JInt (m_version m)),
                    (''topic'', JStr (m_topic m)), (''participant_ids'', jstrs (both_urns E c)),
                    (''start'', JStr (iso_z (m_start m))), (''end'', JStr (iso_z (m_end m))),
                    (''fulfillment_mode'', JStr ''agreement_only''), (''meeting_mode'', JStr ''online''),
                    (''obligations'', JStr ''each_party_attends_only''),
                    (''formation_rule'', JStr ''initiator_durable_decision_v1'')]
                in Inr ([(''terms'', terms), (''terms_digest'', JStr (digest E terms)),
                         (''parent_digest'', terms_digest E c)], Some a)))
     | _ \<Rightarrow> refuse ''action.payload'')"

definition receipt_payload :: "env \<Rightarrow> store \<Rightarrow> collaboration \<Rightarrow> fields \<Rightarrow> exn + fields \<times> action option" where
  "receipt_payload E s c payload =
     bindE (v2_identifier (jfield ''event_id'' payload)) (\<lambda>eid.
     case v2_record E s c (v_peer c) (JStr eid) of
       None \<Rightarrow> refuse ''Receipt requires a recorded non-receipt peer event''
     | Some r \<Rightarrow>
         if pk_kind (e_packet r) \<in> {VReceipt, VSyncResponse}
         then refuse ''Receipt requires a recorded non-receipt peer event''
         else Inr ([(''event_id'', JStr (pk_event (e_packet r))), (''event_digest'', JStr (e_digest r)),
            (''processing_status'', JStr (event_status_str (e_status r))),
            (''reason'', JStr (e_reason r))], None))"

text \<open>\<^verbatim>\<open>_v2_payload\<close>: every outgoing payload is compiled from a typed request and local facts.\<close>

definition v2_payload ::
  "env \<Rightarrow> store \<Rightarrow> collaboration \<Rightarrow> v2_kind \<Rightarrow> fields \<Rightarrow> task \<Rightarrow> exn + fields \<times> action option" where
  "v2_payload E s c k payload t =
     (if k \<in> {VInvite, VJoin} then
        Inr ([(''topic'', JStr (sc_topic (t_scope t))), (''fulfillment_mode'', JStr ''agreement_only''),
              (''formation_rule'', JStr ''initiator_durable_decision_v1'')], None)
      else if k \<in> {VProposal, VChangeRequest} then proposal_payload E c payload
      else bindE (exact_fields payload (if k = VReceipt then [''event_id''] else [])) (\<lambda>_.
      case k of
        VAccept \<Rightarrow> (case v_terms c of
            None \<Rightarrow> refuse ''Record a current proposal before accepting''
          | Some terms \<Rightarrow>
              bindE (terms_action E c terms AcceptMeeting) (\<lambda>a.
                Inr ([(''terms_digest'', JStr (digest E terms)), (''actor_urn'', JStr (local_or_empty E)),
                      (''own_obligations'', JStr ''attend_only''), (''authority_basis'', JStr ''peer_attested''),
                      (''valid_until'', JStr (iso_z (sc_expires_at (t_scope t))))], Some a)))
      | VAgreement \<Rightarrow> (case v_agreement c of
            Some (JObj a) \<Rightarrow>
              if local_urn E = Some (v_initiator c) then Inr (a, None)
              else refuse ''Only the coordinator's existing formation can be sent''
          | _ \<Rightarrow> refuse ''Only the coordinator's existing formation can be sent'')
      | VWithdraw \<Rightarrow> (case map_of (v_acceptances c) (local_or_empty E) of
            None \<Rightarrow> refuse ''There is no local acceptance to withdraw''
          | Some a \<Rightarrow> Inr ([(''accept_event_id'', JStr (ac_event a)), (''terms_digest'', JStr (ac_terms a))], None))
      | VReceipt \<Rightarrow> receipt_payload E s c payload
      | VSyncRequest \<Rightarrow> Inr ([(''after_sequence'', JInt (v_in c))], None)
      | VSyncResponse \<Rightarrow> Inr ([(''events'', JArr (map packet_json (sync_events E s c)))], None)
      | _ \<Rightarrow>
          if v_agreement c = None then refuse ''No recorded agreement exists''
          else if k = VCancelAck \<and> v_cancel c = None then refuse ''No cancellation request exists''
          else Inr ([(''agreement_id'', obj_field ''agreement_id'' (v_agreement c))], None)))"

section \<open>Preconditions\<close>

definition jneed :: "string \<Rightarrow> fields \<Rightarrow> exn + json" where
  "jneed k kvs = (case jget k kvs of Some v \<Rightarrow> Inr v | None \<Rightarrow> Inl (KeyError k))"

definition jindex :: "string \<Rightarrow> json \<Rightarrow> exn + json" where
  "jindex k j = (case j of JObj kvs \<Rightarrow> jneed k kvs | _ \<Rightarrow> Inl (TypeError ''not subscriptable by a string''))"

definition buffered :: "string \<Rightarrow> exn + 'a" where
  "buffered msg = Inl (Buffered msg)"

definition proposal_precondition :: "env \<Rightarrow> collaboration \<Rightarrow> fields \<Rightarrow> string \<Rightarrow> exn + unit" where
  "proposal_precondition E c payload sender =
     (if sender \<noteq> v_initiator c then refuse ''Only the initiator may publish terms''
      else if list_ex (\<lambda>(_, a). ac_active a) (v_acceptances c)
      then refuse ''Withdraw existing acceptances before changing terms''
      else bindE (jneed ''parent_digest'' payload) (\<lambda>parent.
        if parent \<noteq> terms_digest E c then buffered ''Missing preceding terms''
        else bindE (jneed ''terms'' payload) (\<lambda>terms.
          bindE (jindex ''version'' terms) (\<lambda>v.
          case obj_field ''version'' (v_terms c) of
            JInt n \<Rightarrow> if json_eq v (JInt (n + 1)) then Inr ()
                      else refuse ''Terms revision must advance exactly once''
          | _ \<Rightarrow> if json_eq v (JInt 1) then Inr ()
                      else refuse ''The first terms revision must be one''))))"

definition accept_precondition :: "env \<Rightarrow> collaboration \<Rightarrow> fields \<Rightarrow> string \<Rightarrow> exn + unit" where
  "accept_precondition E c payload sender =
     (if v_terms c = None then buffered ''Acceptance is missing its current terms''
      else bindE (jneed ''terms_digest'' payload) (\<lambda>d.
        if d \<noteq> terms_digest E c then buffered ''Acceptance is missing its current terms''
        else bindE (jneed ''actor_urn'' payload) (\<lambda>a.
          if a \<noteq> JStr sender then refuse ''An agent cannot accept for the other participant''
          else Inr ())))"

definition v2_precondition :: "env \<Rightarrow> collaboration \<Rightarrow> v2_kind \<Rightarrow> fields \<Rightarrow> string \<Rightarrow> exn + unit" where
  "v2_precondition E c k payload sender =
     (if k \<in> set maintenance_kinds then
        (if k = VAgreementAck \<and> sender = v_initiator c
         then refuse ''Only the peer acknowledges the coordinator's formation'' else Inr ())
      else if k \<in> {VInvite, VJoin} then Inr ()
      else if \<not> v_joined c then refuse ''Peer has not joined the collaboration''
      else if v_closure c = Some ''cancelled'' then refuse ''Cancelled collaborations cannot be reopened''
      else if k \<in> {VProposal, VChangeRequest, VAccept} \<and> v_agreement c \<noteq> None
      then refuse ''An existing agreement requires a separate revision collaboration''
      else if k = VProposal then proposal_precondition E c payload sender
      else if k = VChangeRequest \<and> sender = v_initiator c
      then refuse ''Initiator publishes proposals; peer requests changes''
      else if k = VAccept then accept_precondition E c payload sender
      else Inr ())"

section \<open>The outbox of fixed receipts\<close>

definition save_event ::
  "env \<Rightarrow> collaboration \<Rightarrow> packet \<Rightarrow> event_status \<Rightarrow> string \<Rightarrow> bool \<Rightarrow> v2_event step" where
  "save_event E c p st reason outgoing =
     (let r = \<lparr>e_owner = v_owner c, e_task = v_task c, e_packet = p, e_digest = digest E (packet_json p),
               e_status = st, e_reason = reason, e_outgoing = outgoing, e_at = now E, e_receipt = None\<rparr>
      in andThen (put_event (event_key E c p) r) (\<lambda>_. ret r))"

definition maintenance_verdict :: verdict where
  "maintenance_verdict = \<lparr>v_decision = Allow, v_reasons = [''confirmed_bounded_protocol_maintenance''], v_delta = []\<rparr>"

definition v2_text :: "collaboration \<Rightarrow> v2_kind \<Rightarrow> fields \<Rightarrow> string" where
  "v2_text c k wire = canonical (JObj [(''kind'', JStr (v2_kind_str k)), (''recipient_urn'', JStr (v_peer c)),
     (''payload'', JObj wire)])"

definition queued_operation :: "env \<Rightarrow> collaboration \<Rightarrow> permit \<Rightarrow> task \<Rightarrow> v2_kind \<Rightarrow> fields \<Rightarrow> string \<Rightarrow> v2_operation" where
  "queued_operation E c pm t k wire oid =
     (let z = \<lparr>z_id = oid, z_task = v_task c, z_owner = v_owner c, z_collaboration = v_id c, z_kind = k,
               z_payload = wire, z_action = None, z_revision = t_revision t,
               z_request = digest E (JArr [JStr (v2_kind_str k), JObj wire]),
               z_context = context_digest E c, z_status = OReady, z_decision = maintenance_verdict,
               z_expires = pm_until pm, z_maintenance = True, z_recovery = False, z_created = now E,
               z_text = v2_text c k wire, z_hash = [], z_delivery = None, z_review_version = None,
               z_new = None, z_permit = None, z_approval = None, z_approved_once = False,
               z_recovery_used = False, z_packet = None, z_reserved = None, z_invalid = None\<rparr>
      in z\<lparr>z_hash := digest E (v2_hash_json True z)\<rparr>)"

definition pending_maintenance :: "store \<Rightarrow> string \<Rightarrow> nat" where
  "pending_maintenance s cid = length (filter (\<lambda>z. z_collaboration z = cid \<and> z_maintenance z
     \<and> z_status z \<in> {OReady, OSending}) (tall (v2_operations s)))"

text \<open>\<^verbatim>\<open>_v2_queue\<close>; the collaboration comes back with the reason it waits for, if the permit is gone.\<close>

definition v2_queue :: "env \<Rightarrow> collaboration \<Rightarrow> v2_kind \<Rightarrow> fields \<Rightarrow> collaboration step" where
  "v2_queue E c k payload = (case v_permit c of
     None \<Rightarrow> ret (c\<lparr>v_waiting := Some ''maintenance_permission''\<rparr>)
   | Some pm \<Rightarrow>
       if pm_revoked pm \<or> pm_until pm \<le> now E then ret (c\<lparr>v_waiting := Some ''maintenance_permission''\<rparr>)
       else reads (\<lambda>s. case tget (v_task c) (tasks s) of
         None \<Rightarrow> raise (TypeError ''task'')
       | Some t \<Rightarrow>
           andThen (lift (v2_payload E s c k payload t)) (\<lambda>(wire, _).
             let oid = ''v2-auto-'' @ take 48 (digest E (JArr [JStr (v_id c), JStr (v2_kind_str k), JObj wire])) in
             if tget oid (v2_operations s) \<noteq> None then ret c
             else if pm_max pm \<le> int (pending_maintenance s (v_id c)) + pm_used pm
             then ret (c\<lparr>v_waiting := Some ''maintenance_budget''\<rparr>)
             else andThen (put_v2_operation E (queued_operation E c pm t k wire oid)) (\<lambda>_. ret c))))"

section \<open>Formation\<close>

definition acceptance_stale :: "env \<Rightarrow> collaboration \<Rightarrow> acceptance \<Rightarrow> exn + bool" where
  "acceptance_stale E c a =
     (if \<not> ac_active a then Inr True
      else bindE (instant (ac_valid a)) (\<lambda>t. Inr (t \<le> now E \<or> JStr (ac_terms a) \<noteq> terms_digest E c)))"

fun any_stale :: "env \<Rightarrow> collaboration \<Rightarrow> (string \<times> acceptance) list \<Rightarrow> exn + bool" where
  "any_stale E c [] = Inr False"
| "any_stale E c ((_, a) # as) =
     bindE (acceptance_stale E c a) (\<lambda>b. if b then Inr True else any_stale E c as)"

definition formation :: "env \<Rightarrow> collaboration \<Rightarrow> json" where
  "formation E c =
     (let refs = map (\<lambda>(u, a). JObj [(''actor_urn'', JStr u), (''event_id'', JStr (ac_event a)),
                   (''event_digest'', JStr (ac_digest a))]) (sort_items (v_acceptances c));
          base = [(''terms_digest'', terms_digest E c), (''formed_at'', JStr (iso_z (now E))),
                  (''acceptances'', JArr refs), (''initiator_sequence'', JInt (v_out c)),
                  (''peer_sequence'', JInt (v_in c))];
          did = ''formation-'' @ take 40 (digest E (JArr [JStr (v_id c), JObj base]))
      in JObj (base @ [(''formation_decision_id'', JStr did),
           (''agreement_id'', JStr (''agreement-'' @ take 40 (digest E (jstrs [v_id c, did]))))]))"

definition v2_form :: "env \<Rightarrow> collaboration \<Rightarrow> collaboration step" where
  "v2_form E c =
     (if local_urn E \<noteq> Some (v_initiator c) \<or> v_agreement c \<noteq> None \<or> v_terms c = None then ret c
      else if set (map fst (v_acceptances c)) \<noteq> {v_initiator c, v_peer c} then ret c
      else andThen (lift (any_stale E c (v_acceptances c))) (\<lambda>stale.
        if stale then ret c
        else v2_queue E (c\<lparr>v_agreement := Some (formation E c), v_phase := ''agreed'',
                          v_waiting := Some ''agreement_sync''\<rparr>) VAgreement []))"


section \<open>The reducer\<close>

definition meeting_kind_fields :: "string list" where
  "meeting_kind_fields = [''topic'', ''fulfillment_mode'', ''formation_rule'']"

definition opening_ok :: "fields \<Rightarrow> bool" where
  "opening_ok p \<longleftrightarrow> jfield ''fulfillment_mode'' p = JStr ''agreement_only''
     \<and> jfield ''formation_rule'' p = JStr ''initiator_durable_decision_v1''"

definition apply_opening :: "env \<Rightarrow> collaboration \<Rightarrow> packet \<Rightarrow> collaboration step" where
  "apply_opening E c p =
     andThen (lift (exact_fields (pk_payload p) meeting_kind_fields)) (\<lambda>_.
     if \<not> opening_ok (pk_payload p) then raise (ValueError ''Unsupported collaboration terms'')
     else if pk_kind p \<noteq> VJoin then ret c
     else reads (\<lambda>s. case tget (v_task c) (tasks s) of
         None \<Rightarrow> raise (TypeError ''task'')
       | Some t \<Rightarrow>
           if pk_sender p = v_initiator c \<or> jfield ''topic'' (pk_payload p) \<noteq> JStr (sc_topic (t_scope t))
           then raise (ValueError ''Join does not match the invitation'')
           else ret (c\<lparr>v_joined := True, v_phase := ''negotiating''\<rparr>)))"

definition apply_terms :: "env \<Rightarrow> collaboration \<Rightarrow> packet \<Rightarrow> collaboration step" where
  "apply_terms E c p =
     andThen (lift (exact_fields (pk_payload p) [''terms'', ''terms_digest'', ''parent_digest''])) (\<lambda>_.
     let terms = jfield ''terms'' (pk_payload p) in
     andThen (lift (terms_action E c terms ProposeMeeting)) (\<lambda>_.
     if jfield ''terms_digest'' (pk_payload p) \<noteq> JStr (digest E terms)
     then raise (ValueError ''Terms digest does not match'')
     else if pk_kind p = VProposal
     then ret (c\<lparr>v_terms := Some terms, v_acceptances := [], v_phase := ''negotiating'', v_withdraw := False\<rparr>)
     else ret (c\<lparr>v_change := Some (JObj (pk_payload p))\<rparr>)))"

fun upsert :: "string \<Rightarrow> 'a \<Rightarrow> (string \<times> 'a) list \<Rightarrow> (string \<times> 'a) list" where
  "upsert k v [] = [(k, v)]"
| "upsert k v ((k', v') # r) = (if k = k' then (k, v) # r else (k', v') # upsert k v r)"

definition apply_accept :: "env \<Rightarrow> collaboration \<Rightarrow> packet \<Rightarrow> collaboration step" where
  "apply_accept E c p =
     (let d = pk_payload p in
      andThen (lift (exact_fields d [''terms_digest'', ''actor_urn'', ''own_obligations'',
                ''authority_basis'', ''valid_until''])) (\<lambda>_.
      if jfield ''own_obligations'' d \<noteq> JStr ''attend_only'' \<or> jfield ''authority_basis'' d \<noteq> JStr ''peer_attested''
      then raise (ValueError ''Unsupported acceptance authority or obligation'')
      else andThen (lift (v2_instant (jfield ''valid_until'' d))) (\<lambda>until.
      if until \<le> now E then raise (ValueError ''Acceptance formation deadline has passed'')
      else if (case map_of (v_acceptances c) (pk_sender p) of
                 Some a \<Rightarrow> ac_active a \<and> ac_event a \<noteq> pk_event p | None \<Rightarrow> False)
      then raise (ValueError ''A live acceptance cannot be replaced'')
      else v2_form E (c\<lparr>v_acceptances := upsert (pk_sender p)
               \<lparr>ac_terms = as_str (jfield ''terms_digest'' d), ac_actor = as_str (jfield ''actor_urn'' d),
                ac_valid = as_str (jfield ''valid_until'' d), ac_event = pk_event p,
                ac_digest = digest E (packet_json p), ac_active = True\<rparr> (v_acceptances c),
             v_phase := ''partially_accepted''\<rparr>))))"

text \<open>The evidence for one acceptance reference of a formation.\<close>

definition cursor_of :: "env \<Rightarrow> collaboration \<Rightarrow> fields \<Rightarrow> string \<Rightarrow> json" where
  "cursor_of E c d actor = (if actor = v_initiator c then jfield ''initiator_sequence'' d
     else jfield ''peer_sequence'' d)"

definition json_le :: "int \<Rightarrow> json \<Rightarrow> bool" where
  "json_le n j \<longleftrightarrow> (case j of JInt m \<Rightarrow> n \<le> m | _ \<Rightarrow> False)"

definition evidence_ok :: "env \<Rightarrow> collaboration \<Rightarrow> fields \<Rightarrow> fields \<Rightarrow> string \<Rightarrow> v2_event \<Rightarrow> exn + bool" where
  "evidence_ok E c d ref actor r =
     (let q = e_packet r; b = pk_payload q in
      if e_status r \<noteq> EApplied \<or> JStr (e_digest r) \<noteq> jfield ''event_digest'' ref \<or> pk_kind q \<noteq> VAccept
         \<or> jfield ''actor_urn'' b \<noteq> JStr actor \<or> jfield ''terms_digest'' b \<noteq> jfield ''terms_digest'' d
         \<or> jfield ''authority_basis'' b \<noteq> JStr ''peer_attested''
         \<or> jfield ''own_obligations'' b \<noteq> JStr ''attend_only''
         \<or> \<not> json_le (pk_sequence q) (cursor_of E c d actor) then Inr False
      else bindE (instant (pk_created q)) (\<lambda>created.
        bindE (v2_instant (jfield ''formed_at'' d)) (\<lambda>formed.
        if formed < created then Inr False
        else bindE (v2_instant (jfield ''valid_until'' b)) (\<lambda>until. Inr (formed < until)))))"

definition withdrawn_before :: "env \<Rightarrow> store \<Rightarrow> collaboration \<Rightarrow> fields \<Rightarrow> fields \<Rightarrow> string \<Rightarrow> bool" where
  "withdrawn_before E s c d ref actor = list_ex (\<lambda>r. e_owner r = v_owner c \<and> e_status r = EApplied
     \<and> pk_collaboration (e_packet r) = v_id c \<and> pk_sender (e_packet r) = actor
     \<and> pk_kind (e_packet r) = VWithdraw \<and> json_le (pk_sequence (e_packet r)) (cursor_of E c d actor)
     \<and> jfield ''accept_event_id'' (pk_payload (e_packet r)) = jfield ''event_id'' ref) (tall (events s))"

fun check_refs :: "env \<Rightarrow> store \<Rightarrow> collaboration \<Rightarrow> fields \<Rightarrow> string list \<Rightarrow> json list \<Rightarrow> exn + unit" where
  "check_refs E s c d seen [] = Inr ()"
| "check_refs E s c d seen (j # js) =
     bindE (exact j [''actor_urn'', ''event_id'', ''event_digest'']) (\<lambda>ref.
     case jfield ''actor_urn'' ref of
       JStr actor \<Rightarrow>
         if Some actor \<noteq> local_urn E \<and> actor \<noteq> v_peer c \<or> actor \<in> set seen
         then refuse ''Acceptance actors must match both bound participants''
         else (case v2_record E s c actor (jfield ''event_id'' ref) of
           None \<Rightarrow> buffered ''Agreement is missing independently authenticated acceptance evidence''
         | Some r \<Rightarrow>
             bindE (evidence_ok E c d ref actor r) (\<lambda>good.
             if \<not> good then refuse ''Agreement acceptance evidence does not match''
             else if withdrawn_before E s c d ref actor
             then refuse ''The formation cursor includes an earlier withdrawal''
             else check_refs E s c d (actor # seen) js))
     | JArr _ \<Rightarrow> Inl (TypeError ''unhashable'')
     | JObj _ \<Rightarrow> Inl (TypeError ''unhashable'')
     | _ \<Rightarrow> refuse ''Acceptance actors must match both bound participants'')"

definition cursor_ok :: "json \<Rightarrow> bool" where
  "cursor_ok j \<longleftrightarrow> (case j of JInt n \<Rightarrow> 1 \<le> n \<and> n \<le> int max_events | _ \<Rightarrow> False)"

definition same_agreement :: "collaboration \<Rightarrow> fields \<Rightarrow> bool" where
  "same_agreement c d \<longleftrightarrow> (case v_agreement c of Some a \<Rightarrow> json_eq a (JObj d) | None \<Rightarrow> False)"

definition agreement_fields :: "string list" where
  "agreement_fields = [''agreement_id'', ''formation_decision_id'', ''formed_at'', ''terms_digest'',
     ''acceptances'', ''initiator_sequence'', ''peer_sequence'']"

definition apply_agreement :: "env \<Rightarrow> collaboration \<Rightarrow> packet \<Rightarrow> bool \<Rightarrow> collaboration step" where
  "apply_agreement E c p outgoing =
     (let d = pk_payload p in
      andThen (lift (exact_fields d agreement_fields)) (\<lambda>_.
      if pk_sender p \<noteq> v_initiator c
      then raise (ValueError ''Only the designated coordinator can form an agreement'')
      else if v_agreement c \<noteq> None \<and> \<not> same_agreement c d
      then raise (ValueError ''An existing formation decision is immutable'')
      else if same_agreement c d \<and> v_closure c = Some ''cancelled'' then ret c
      else if v_terms c = None \<or> terms_digest E c \<noteq> jfield ''terms_digest'' d
      then raise (Buffered ''Agreement is missing its terms'')
      else (case jfield ''acceptances'' d of
        JArr refs \<Rightarrow>
          if length refs \<noteq> 2
          then raise (ValueError ''An agreement needs exactly two acceptance references'')
          else if \<not> cursor_ok (jfield ''initiator_sequence'' d) \<or> \<not> cursor_ok (jfield ''peer_sequence'' d)
          then raise (ValueError ''Invalid formation event cursors'')
          else if json_le (pk_sequence p) (jfield ''initiator_sequence'' d) \<and> \<not> outgoing
          then raise (ValueError ''Formation cursor cannot reference the agreement or future events'')
          else andThen (lift (v2_instant (jfield ''formed_at'' d))) (\<lambda>formed.
          andThen (lift (instant (pk_created p))) (\<lambda>created.
          if created < formed \<or> now E + 60 * sec < formed
          then raise (ValueError ''Formation cannot occur after its publication'')
          else reads (\<lambda>s. andThen (lift (check_refs E s c d [] refs)) (\<lambda>_.
            let c' = c\<lparr>v_agreement := Some (JObj d), v_phase := ''agreed'', v_waiting := Some ''agreement_ack''\<rparr>
            in if outgoing then ret c' else v2_queue E c' VAgreementAck []))))
      | _ \<Rightarrow> raise (ValueError ''An agreement needs exactly two acceptance references''))))"

definition agreement_id_matches :: "collaboration \<Rightarrow> fields \<Rightarrow> bool" where
  "agreement_id_matches c d \<longleftrightarrow> v_agreement c \<noteq> None
     \<and> json_eq (jfield ''agreement_id'' d) (obj_field ''agreement_id'' (v_agreement c))"

definition complete :: "collaboration \<Rightarrow> collaboration" where
  "complete c = c\<lparr>v_synced := True, v_phase := ''closed'',
     v_closure := Some ''agreement_only_complete'', v_waiting := None\<rparr>"

definition apply_ack :: "env \<Rightarrow> collaboration \<Rightarrow> packet \<Rightarrow> bool \<Rightarrow> collaboration step" where
  "apply_ack E c p outgoing =
     andThen (lift (exact_fields (pk_payload p) [''agreement_id''])) (\<lambda>_.
     if \<not> agreement_id_matches c (pk_payload p)
     then raise (Buffered ''Acknowledgment is missing its agreement'')
     else if outgoing
     then ret (c\<lparr>v_phase := ''agreed'', v_waiting := Some ''agreement_ack_delivery''\<rparr>)
     else ret (complete c))"

definition apply_withdraw :: "env \<Rightarrow> collaboration \<Rightarrow> packet \<Rightarrow> collaboration step" where
  "apply_withdraw E c p =
     (let d = pk_payload p in
      andThen (lift (exact_fields d [''accept_event_id'', ''terms_digest''])) (\<lambda>_.
      case map_of (v_acceptances c) (pk_sender p) of
        None \<Rightarrow> raise (ValueError ''Withdrawal does not identify the sender's acceptance'')
      | Some a \<Rightarrow>
          if JStr (ac_event a) \<noteq> jfield ''accept_event_id'' d \<or> JStr (ac_terms a) \<noteq> jfield ''terms_digest'' d
          then raise (ValueError ''Withdrawal does not identify the sender's acceptance'')
          else (let c' = c\<lparr>v_phase := ''reconciling'', v_withdraw := True,
                          v_waiting := Some ''withdrawal_decision''\<rparr>
            in if v_agreement c = None then
                 (let c'' = c'\<lparr>v_acceptances := upsert (pk_sender p) (a\<lparr>ac_active := False\<rparr>) (v_acceptances c)\<rparr>
                  in ret (if local_urn E = Some (v_initiator c)
                          then c''\<lparr>v_withdraw := False, v_waiting := None\<rparr> else c''))
               else if local_urn E = Some (v_initiator c) then v2_queue E c' VAgreement []
               else ret c')))"

definition apply_cancel :: "env \<Rightarrow> collaboration \<Rightarrow> packet \<Rightarrow> collaboration step" where
  "apply_cancel E c p =
     andThen (lift (exact_fields (pk_payload p) [''agreement_id''])) (\<lambda>_.
     if \<not> agreement_id_matches c (pk_payload p)
     then raise (ValueError ''Cancellation must identify the recorded agreement'')
     else if pk_kind p = VCancelRequest
     then ret (c\<lparr>v_cancel := Some (JObj [(''sender_urn'', JStr (pk_sender p)), (''event_id'', JStr (pk_event p))]),
                v_phase := ''reconciling'', v_waiting := Some ''cancel_decision''\<rparr>)
     else if v_cancel c = None \<or> obj_field ''sender_urn'' (v_cancel c) = JStr (pk_sender p)
     then raise (ValueError ''The other participant must accept the cancellation'')
     else ret (c\<lparr>v_phase := ''closed'', v_closure := Some ''cancelled'', v_waiting := None\<rparr>))"

definition processing_status :: "json \<Rightarrow> exn + string" where
  "processing_status j = (case j of
     JStr x \<Rightarrow> if x \<in> set [''applied'', ''buffered'', ''rejected''] then Inr x
              else refuse ''Receipt must match a persisted event''
   | JArr _ \<Rightarrow> Inl (TypeError ''unhashable'')
   | JObj _ \<Rightarrow> Inl (TypeError ''unhashable'')
   | _ \<Rightarrow> refuse ''Receipt must match a persisted event'')"

definition apply_receipt :: "env \<Rightarrow> collaboration \<Rightarrow> packet \<Rightarrow> bool \<Rightarrow> collaboration step" where
  "apply_receipt E c p outgoing =
     (let d = pk_payload p in
      andThen (lift (exact_fields d [''event_id'', ''event_digest'', ''processing_status'', ''reason''])) (\<lambda>_.
      reads (\<lambda>s. case v2_record E s c (pk_recipient p) (jfield ''event_id'' d) of
        None \<Rightarrow> raise (ValueError ''Receipt must match a persisted event'')
      | Some r \<Rightarrow>
          if JStr (e_digest r) \<noteq> jfield ''event_digest'' d
          then raise (ValueError ''Receipt must match a persisted event'')
          else andThen (lift (processing_status (jfield ''processing_status'' d))) (\<lambda>st.
            if outgoing then ret c
            else andThen (put_event (v2_key E (v_id c) (pk_recipient p) (jfield ''event_id'' d))
                   (r\<lparr>e_receipt := Some (JObj d)\<rparr>)) (\<lambda>_.
              let c1 = (if pk_kind (e_packet r) = VWithdraw \<and> st = ''applied'' \<and> v_agreement c = None
                        then c\<lparr>v_withdraw := False, v_phase := ''negotiating'', v_waiting := None\<rparr> else c)
              in ret (if pk_kind (e_packet r) = VAgreementAck \<and> st = ''applied'' \<and> v_closure c1 \<noteq> Some ''cancelled''
                      then complete c1 else c1))))))"

text \<open>
  Recording an event of a peer's stream (the part of \<^verbatim>\<open>_v2_ingest_bound\<close> before a recovery event is
  reduced). The flag tells whether the row is new.
\<close>

definition sequence_taken :: "store \<Rightarrow> collaboration \<Rightarrow> packet \<Rightarrow> bool" where
  "sequence_taken s c p = (pk_kind p \<notin> set sync_kinds \<and> list_ex (\<lambda>r.
     pk_collaboration (e_packet r) = v_id c \<and> pk_sender (e_packet r) = pk_sender p
     \<and> pk_sequence (e_packet r) = pk_sequence p) (tall (events s)))"

definition record_event :: "env \<Rightarrow> collaboration \<Rightarrow> packet \<Rightarrow> (v2_event \<times> bool) step" where
  "record_event E c p = reads (\<lambda>s. case tget (event_key E c p) (events s) of
       Some old \<Rightarrow>
         if e_digest old \<noteq> digest E (packet_json p)
         then raise (ValueError ''Event ID conflicts with immutable recorded content'')
         else ret (old, False)
     | None \<Rightarrow>
         if sequence_taken s c p then raise (ValueError ''Sender sequence conflicts with an existing event'')
         else andThen (lift (instant (pk_created p))) (\<lambda>created.
           andThen (lift (instant (pk_expires p))) (\<lambda>expires.
           andThen (if now E + 60 * sec < created then save_event E c p ERejected ''future_event'' False
              else if expires \<le> now E \<and> pk_kind p \<notin> {VAgreement, VSyncResponse}
              then save_event E c p ERejected ''expired_event'' False
              else save_event E c p EBuffered ''missing_predecessor'' False) (\<lambda>r. ret (r, True)))))"

definition history_ok :: "env \<Rightarrow> collaboration \<Rightarrow> string \<Rightarrow> json \<Rightarrow> exn + packet" where
  "history_ok E c sender j =
     bindE (validate_event E j) (\<lambda>p.
       if pk_sender p \<noteq> sender \<or> Some (pk_recipient p) \<noteq> local_urn E
          \<or> pk_collaboration p \<noteq> v_id c \<or> pk_kind p \<in> set sync_kinds
       then refuse ''Recovery cannot introduce another sender's evidence'' else Inr p)"

definition apply_sync :: "env \<Rightarrow> collaboration \<Rightarrow> packet \<Rightarrow> bool \<Rightarrow> collaboration step" where
  "apply_sync E c p outgoing =
     (if pk_kind p = VSyncRequest then
        andThen (lift (exact_fields (pk_payload p) [''after_sequence''])) (\<lambda>_.
        case jfield ''after_sequence'' (pk_payload p) of
          JInt n \<Rightarrow>
            if \<not> (0 \<le> n \<and> n \<le> int max_events) then raise (ValueError ''Invalid recovery cursor'')
            else if outgoing then ret c
            else v2_queue E (c\<lparr>v_sync_after := Some n\<rparr>) VSyncResponse []
        | _ \<Rightarrow> raise (ValueError ''Invalid recovery cursor''))
      else
        andThen (lift (exact_fields (pk_payload p) [''events''])) (\<lambda>_.
        case jfield ''events'' (pk_payload p) of
          JArr js \<Rightarrow>
            if 8 < length js then raise (ValueError ''Recovery response must contain at most eight events'')
            else if outgoing then ret c
            else andThen (lift (mapE (history_ok E c (pk_sender p)) js)) (\<lambda>ps.
              andThen (for_each ps (\<lambda>q. andThen (record_event E c q) (\<lambda>_. ret ()))) (\<lambda>_. ret c))
        | _ \<Rightarrow> raise (ValueError ''Recovery response must contain at most eight events'')))"

definition v2_apply :: "env \<Rightarrow> collaboration \<Rightarrow> packet \<Rightarrow> bool \<Rightarrow> collaboration step" where
  "v2_apply E c p outgoing =
     andThen (lift (v2_precondition E c (pk_kind p) (pk_payload p) (pk_sender p))) (\<lambda>_.
     case pk_kind p of
       VInvite \<Rightarrow> apply_opening E c p
     | VJoin \<Rightarrow> apply_opening E c p
     | VProposal \<Rightarrow> apply_terms E c p
     | VChangeRequest \<Rightarrow> apply_terms E c p
     | VAccept \<Rightarrow> apply_accept E c p
     | VAgreement \<Rightarrow> apply_agreement E c p outgoing
     | VAgreementAck \<Rightarrow> apply_ack E c p outgoing
     | VWithdraw \<Rightarrow> apply_withdraw E c p
     | VCancelRequest \<Rightarrow> apply_cancel E c p
     | VCancelAck \<Rightarrow> apply_cancel E c p
     | VReceipt \<Rightarrow> apply_receipt E c p outgoing
     | VSyncRequest \<Rightarrow> apply_sync E c p outgoing
     | VSyncResponse \<Rightarrow> apply_sync E c p outgoing)"

section \<open>The ordered stream\<close>

text \<open>\<^verbatim>\<open>_v2_ingest_bound\<close>: a recovery event bypasses the gap it repairs and is reduced at once.\<close>

definition ingest_bound :: "env \<Rightarrow> collaboration \<Rightarrow> packet \<Rightarrow> collaboration step" where
  "ingest_bound E c p =
     andThen (record_event E c p) (\<lambda>(r, new).
     if \<not> new then ret c
     else if pk_kind p \<in> set sync_kinds \<and> e_status r = EBuffered then
       andThen (savepoint is_data_error
           (andThen (v2_apply E c p False) (\<lambda>c'. ret (c', r\<lparr>e_status := EApplied, e_reason := []\<rparr>)))
           (\<lambda>_. ret (collaboration_row c, r\<lparr>e_status := ERejected, e_reason := ''invalid_recovery_payload''\<rparr>)))
         (\<lambda>(c', r'). andThen (put_event (event_key E c p) r') (\<lambda>_. ret c'))
     else ret c)"

definition advance :: "packet \<Rightarrow> collaboration \<Rightarrow> collaboration" where
  "advance p c = c\<lparr>v_in := pk_sequence p, v_last_in := Some (pk_event p)\<rparr>"

definition receipt_for :: "env \<Rightarrow> packet \<Rightarrow> collaboration \<Rightarrow> collaboration step" where
  "receipt_for E p c = v2_queue E c VReceipt [(''event_id'', JStr (pk_event p))]"

datatype reduction = Reduced collaboration v2_event | Stuck collaboration v2_event

definition reduce_event :: "env \<Rightarrow> collaboration \<Rightarrow> v2_event \<Rightarrow> reduction step" where
  "reduce_event E c r =
     (let p = e_packet r; before = collaboration_row c in
      savepoint (\<lambda>e. is_data_error e \<or> (case e of Buffered _ \<Rightarrow> True | _ \<Rightarrow> False))
        (andThen (v2_apply E (advance p c) p False) (\<lambda>c'.
           ret (Reduced c' (r\<lparr>e_status := EApplied, e_reason := []\<rparr>))))
        (\<lambda>e. case e of
           Buffered msg \<Rightarrow>
             ret (Stuck (before\<lparr>v_phase := ''reconciling'', v_waiting := Some ''missing_event''\<rparr>)
                    (r\<lparr>e_reason := msg\<rparr>))
         | _ \<Rightarrow> ret (Reduced before (r\<lparr>e_status := ERejected, e_reason := ''invalid_state_or_payload''\<rparr>))))"

text \<open>Consuming one record: advance, store it, queue its receipt.\<close>

definition consume :: "env \<Rightarrow> collaboration \<Rightarrow> v2_event \<Rightarrow> bool \<Rightarrow> collaboration step" where
  "consume E c r receipt =
     (let p = e_packet r in
      andThen (put_event (event_key E c p) r) (\<lambda>_.
      if receipt then receipt_for E p (advance p c) else ret (advance p c)))"

definition next_event :: "store \<Rightarrow> collaboration \<Rightarrow> v2_event option" where
  "next_event s c = (case filter (\<lambda>r. e_owner r = v_owner c \<and> pk_collaboration (e_packet r) = v_id c
       \<and> pk_sender (e_packet r) = v_peer c \<and> pk_sequence (e_packet r) = v_in c + 1) (tall (events s)) of
     [] \<Rightarrow> None | r # _ \<Rightarrow> Some r)"

text \<open>One turn of the loop of \<^verbatim>\<open>_v2_drain\<close>; the flag asks for another turn.\<close>

definition drain_buffered :: "env \<Rightarrow> collaboration \<Rightarrow> v2_event \<Rightarrow> (collaboration \<times> bool) step" where
  "drain_buffered E c r =
     (let p = e_packet r; again = (\<lambda>c. ret (c, True)) in
      andThen (lift (instant (pk_expires p))) (\<lambda>expires.
      if expires \<le> now E \<and> pk_kind p \<noteq> VAgreement
      then andThen (consume E c (r\<lparr>e_status := ERejected, e_reason := ''expired_while_buffered''\<rparr>) True) again
      else andThen (reduce_event E c r) (\<lambda>x. case x of
          Stuck c' r' \<Rightarrow> andThen (put_event (event_key E c p) r') (\<lambda>_. ret (c', False))
        | Reduced c' r' \<Rightarrow>
            andThen (consume E c' r' (pk_kind p \<notin> {VReceipt, VSyncResponse})) again)))"

definition drain_step :: "env \<Rightarrow> collaboration \<Rightarrow> (collaboration \<times> bool) step" where
  "drain_step E c = reads (\<lambda>s. case next_event s c of
       None \<Rightarrow> ret (c, False)
     | Some r \<Rightarrow>
         let p = e_packet r in
         if pk_previous p \<noteq> v_last_in c
         then ret (c\<lparr>v_phase := ''reconciling'', v_waiting := Some ''event_chain_conflict''\<rparr>, False)
         else if e_status r \<noteq> EBuffered
         then andThen (consume E c r (pk_kind p \<notin> {VReceipt, VSyncResponse})) (\<lambda>c. ret (c, True))
         else if pk_kind p \<in> set review_kinds then
           andThen (event_review E p (v_owner c)) (\<lambda>rv. case rv_status rv of
             RvPending \<Rightarrow> ret (c\<lparr>v_waiting := Some ''peer_review_required''\<rparr>, False)
           | RvRejected \<Rightarrow>
               andThen (consume E c (r\<lparr>e_status := ERejected, e_reason := ''owner_rejected_content''\<rparr>) False)
                 (\<lambda>c. ret (c, True))
           | RvApproved \<Rightarrow> drain_buffered E c r)
         else drain_buffered E c r)"

fun drain_loop :: "nat \<Rightarrow> env \<Rightarrow> collaboration \<Rightarrow> collaboration step" where
  "drain_loop 0 E c = ret c"
| "drain_loop (Suc n) E c =
     andThen (drain_step E c) (\<lambda>(c', again). if again then drain_loop n E c' else ret c')"

definition has_gap :: "store \<Rightarrow> collaboration \<Rightarrow> bool" where
  "has_gap s c = list_ex (\<lambda>r. e_owner r = v_owner c \<and> pk_collaboration (e_packet r) = v_id c
     \<and> pk_sender (e_packet r) = v_peer c \<and> e_status r = EBuffered) (tall (events s))"

definition resume_phase :: "collaboration \<Rightarrow> collaboration" where
  "resume_phase c =
     (if v_agreement c \<noteq> None then
        c\<lparr>v_phase := (if v_synced c then ''closed'' else ''agreed''),
          v_waiting := (if v_synced c then None else Some ''agreement_sync'')\<rparr>
      else if v_withdraw c then c\<lparr>v_phase := ''reconciling'', v_waiting := Some ''withdrawal_decision''\<rparr>
      else c\<lparr>v_phase := (if list_ex (\<lambda>(_, a). ac_active a) (v_acceptances c)
               then ''partially_accepted'' else ''negotiating''), v_waiting := None\<rparr>)"

definition settle :: "env \<Rightarrow> collaboration \<Rightarrow> collaboration step" where
  "settle E c = reads (\<lambda>s.
     let gap = has_gap s c; held = v_waiting c = Some ''peer_review_required'' in
     andThen (if held then collaboration_review_safe E c (v_owner c) else ret True) (\<lambda>safe.
       if gap \<and> held \<and> \<not> safe then ret c
       else if gap \<and> v_closure c \<noteq> Some ''cancelled''
       then v2_queue E (c\<lparr>v_phase := ''reconciling'', v_waiting := Some ''missing_event''\<rparr>) VSyncRequest []
       else if v_waiting c = Some ''missing_event'' \<or> held \<and> safe then ret (resume_phase c)
       else ret c))"

definition v2_drain :: "env \<Rightarrow> collaboration \<Rightarrow> collaboration step" where
  "v2_drain E c = andThen (drain_loop max_events E c) (settle E)"

datatype v2_ack = InvitationRecorded | EventRecorded string event_status

definition record_invitation :: "env \<Rightarrow> string \<Rightarrow> packet \<Rightarrow> v2_ack option step" where
  "record_invitation E mid p =
     (if pk_kind p \<noteq> VInvite \<or> pk_sequence p \<noteq> 1
      then raise (ValueError ''An unbound collaboration must start with an invitation'')
      else andThen (lift (exact_fields (pk_payload p) meeting_kind_fields)) (\<lambda>_.
        if \<not> opening_ok (pk_payload p) then raise (ValueError ''Unsupported invitation semantics'')
        else andThen (lift (v2_identifier (JStr mid))) (\<lambda>k. reads (\<lambda>s.
          let d = digest E (packet_json p);
              old = tget k (invitations s)
          in case old of
               Some iv \<Rightarrow> if iv_digest iv \<noteq> d
                          then raise (ValueError ''Invitation conflicts with an existing wire record'')
                          else ret (Some InvitationRecorded)
             | None \<Rightarrow> andThen (modify (\<lambda>s. s\<lparr>invitations := tput k
                   \<lparr>iv_id = k, iv_packet = p, iv_digest = d, iv_received = now E\<rparr> (invitations s)\<rparr>))
                   (\<lambda>_. ret (Some InvitationRecorded))))))"

definition ingest_v2_record :: "env \<Rightarrow> 'a wire_scheme \<Rightarrow> v2_ack option step" where
  "ingest_v2_record E w = (case v2_object (w_text w) of
     None \<Rightarrow> ret None
   | Some kvs \<Rightarrow>
       andThen (lift (validate_event E (JObj kvs))) (\<lambda>p.
       if pk_sender p \<noteq> w_sender w \<or> Some (pk_recipient p) \<noteq> local_urn E
       then raise (ValueError ''Collaboration identities do not match the authenticated helper'')
       else if w_task w \<noteq> None \<and> w_task w \<noteq> Some (pk_collaboration p)
       then raise (ValueError ''Wire task association conflicts with the shared collaboration ID'')
       else reads (\<lambda>s. case tget (pk_collaboration p) (collaborations s) of
         None \<Rightarrow> record_invitation E (w_id w) p
       | Some c \<Rightarrow>
           if mail_owner s \<noteq> None \<and> mail_owner s \<noteq> Some (v_owner c) then ret None
           else if pk_sender p \<noteq> v_peer c
           then raise (ValueError ''Shared ID does not authorize a different peer'')
           else andThen (ingest_bound E c p) (\<lambda>c1.
             andThen (v2_drain E c1) (\<lambda>c2.
             andThen (put_collaboration E c2) (\<lambda>c3.
             reads (\<lambda>s. case tget (event_key E c3 p) (events s) of
               None \<Rightarrow> raise (TypeError ''record'')
             | Some r \<Rightarrow> ret (Some (EventRecorded (v_id c3) (e_status r))))))))))"

end
