(* ===== verification/Social.thy ===== *)
theory Social
  imports V2_Reducer
begin

text \<open>
  Friendships, direct messages, blocked peers and read state
  (\<^verbatim>\<open>src/python/agent_comm_runtime/social.py\<close>), each operation as the whole of what its
  transaction does. Presence observations (a network cache without authority) are left out.
\<close>

section \<open>Contacts and the outbox\<close>

definition need :: "bool \<Rightarrow> string \<Rightarrow> exn + unit" where
  "need b msg = (if b then Inr () else refuse msg)"

definition alias_ok :: "json \<Rightarrow> bool" where
  "alias_ok j \<longleftrightarrow> (case j of JStr a \<Rightarrow> 1 \<le> pylen (py_strip a) \<and> pylen (py_strip a) \<le> 100 | _ \<Rightarrow> False)"

definition alias_error :: string where
  "alias_error = ''Provide 1-16 nonempty local aliases''"

definition check_aliases :: "json \<Rightarrow> exn + string list" where
  "check_aliases j = (case j of
     JArr xs \<Rightarrow>
       if 1 \<le> length xs \<and> length xs \<le> 16 \<and> list_all alias_ok xs
       then Inr (sorted_set (map (py_strip \<circ> as_str) xs)) else refuse alias_error
   | _ \<Rightarrow> refuse alias_error)"

definition self_error :: string where
  "self_error = ''contact_id 'self' is reserved for the local agent; confirm this contact using a different contact_id''"

text \<open>\<^verbatim>\<open>store._contact_value\<close>\<close>

definition contact_value :: "env \<Rightarrow> json \<Rightarrow> json \<Rightarrow> json \<Rightarrow> string \<Rightarrow> exn + contact" where
  "contact_value E cid aliases urn session =
     bindE (owner_ok session) (\<lambda>_.
     bindE (ident_ok ''contact_id'' cid) (\<lambda>i.
     bindE (need (i \<noteq> ''self'') self_error) (\<lambda>_.
     bindE (check_aliases aliases) (\<lambda>as.
     bindE (v2_urn urn) (\<lambda>u.
     bindE (need (Some u \<noteq> local_urn E) ''Cannot add the local agent as its own contact'') (\<lambda>_.
     Inr \<lparr>c_id = i, c_aliases = as, c_urn = u, c_owner = principal session\<rparr>))))))"

definition own_contact_with :: "store \<Rightarrow> string \<Rightarrow> string \<Rightarrow> contact option" where
  "own_contact_with s session urn =
     (case filter (\<lambda>c. c_urn c = urn) (own_contacts s session) of [] \<Rightarrow> None | c # _ \<Rightarrow> Some c)"

definition contacts_view :: "env \<Rightarrow> store \<Rightarrow> string \<Rightarrow> (contact \<times> conn_status) list" where
  "contacts_view E s session = map (\<lambda>c. (c, contact_status E s c)) (own_contacts s session)"

definition queue_social :: "env \<Rightarrow> social_msg \<Rightarrow> string \<Rightarrow> outbox step" where
  "queue_social E x owner = reads (\<lambda>s.
     if tget (x_id x) (inbox s) \<noteq> None
     then raise (ValueError ''Outgoing message ID conflicts with an already received message'')
     else case tget (x_id x) (outboxes s) of
       Some old \<Rightarrow>
         if b_message old \<noteq> x \<or> b_owner old \<noteq> owner
         then raise (ValueError ''Outgoing message ID conflicts with its durable contents'') else ret old
     | None \<Rightarrow>
         (let b = \<lparr>b_id = x_id x, b_owner = owner, b_message = x, b_status = XQueued,
                   b_created = now E, b_updated = now E\<rparr>
          in andThen (put_outbox b) (\<lambda>_. ret b)))"

definition social_protocol :: string where
  "social_protocol = ''agent-comm-contacts/v1''"

definition social_packet :: "string \<Rightarrow> string \<Rightarrow> string option \<Rightarrow> string" where
  "social_packet ty rid decision = canonical (JObj ([(''protocol'', JStr social_protocol),
     (''type'', JStr ty), (''request_id'', JStr rid)] @ opt_item ''decision'' decision))"

definition request_contact :: "env \<Rightarrow> contact \<Rightarrow> contact_request option step" where
  "request_contact E c = reads (\<lambda>s.
     if peer_blocked E s (c_urn c) (c_owner c)
     then raise (ValueError ''Unblock this peer before requesting a connection'')
     else if local_urn E = None then ret None
     else if Some (c_urn c) = local_urn E
     then raise (ValueError ''Cannot send a friend request to the local agent'')
     else case tget (skey E [c_owner c, c_urn c]) (connections s) of
       Some n \<Rightarrow> ret (tget (n_request n) (requests s))
     | None \<Rightarrow>
         (let out = outgoing_requests s (c_owner c) (c_urn c);
              open_ones = filter (\<lambda>q. q_status q \<in> {RqPending, RqAccepted}) out
          in if open_ones \<noteq> [] then ret (Some (last open_ones))
             else (let rid = ''friend-'' @ fresh E;
                       q = \<lparr>q_id = rid, q_owner = c_owner c, q_direction = Outgoing, q_urn = c_urn c,
                            q_contact = Some (c_id c), q_status = RqPending,
                            q_attempt = Some (1 + int (length out)), q_created = now E, q_updated = now E\<rparr>
                   in andThen (put_request q) (\<lambda>_.
                      andThen (queue_social E \<lparr>x_id = rid, x_recipient = c_urn c, x_kind = ''contact.request'',
                        x_conversation = Some rid, x_reply = None,
                        x_text = social_packet ''request'' rid None\<rparr> (c_owner c)) (\<lambda>_.
                      ret (Some q))))))"

datatype contact_outcome =
    CAllow contact string "string option"
  | CAsk public_approval

definition prepare_existing_contact :: "env \<Rightarrow> contact \<Rightarrow> string \<Rightarrow> contact_outcome step" where
  "prepare_existing_contact E c session = reads (\<lambda>s.
     let st = contact_status E s c; out = outgoing_requests s (c_owner c) (c_urn c) in
     if st = ConnBlocked then raise (ValueError ''Unblock this peer before requesting a connection'')
     else if local_urn E = None \<or> st = Connected
     then ret (CAllow c (if st = Connected then ''already_connected'' else ''already_confirmed'') None)
     else if st = ConnPending then
       (case filter (\<lambda>q. q_status q = RqPending) out of
          [] \<Rightarrow> raise StopIteration
        | q # _ \<Rightarrow> ret (CAllow c ''already_requested'' (Some (q_id q))))
     else andThen (request_approval E (c_id c) session (PFriend c (int (length out) + 1))
            (T_q_friend1 @ c_urn c @ T_q_friend2) (now E + 900 * sec)) (\<lambda>a. ret (CAsk a)))"

text \<open>\<^verbatim>\<open>store.prepare_contact\<close>\<close>

definition contact_question :: "contact \<Rightarrow> string" where
  "contact_question c = T_q_contact1 @ join '', '' (c_aliases c) @ T_q_paren @ c_id c @ T_q_contact2 @
     c_urn c @ T_q_contact3"

definition prepare_contact :: "env \<Rightarrow> json \<Rightarrow> json \<Rightarrow> json \<Rightarrow> string \<Rightarrow> contact_outcome step" where
  "prepare_contact E cid aliases urn session =
     andThen (lift (contact_value E cid aliases urn session)) (\<lambda>c. reads (\<lambda>s.
     case tget (c_id c) (contacts s) of
       Some old \<Rightarrow>
         if old \<noteq> c
         then raise (ValueError ''Confirmed contact is immutable; use a new ID and confirm a new binding'')
         else prepare_existing_contact E old session
     | None \<Rightarrow>
         if own_contact_with s session (c_urn c) \<noteq> None
         then raise (ValueError ''This agent identity is already a confirmed contact; use the existing contact'')
         else andThen (request_approval E (c_id c) session (PContact c) (contact_question c)
                (now E + 900 * sec)) (\<lambda>a. ret (CAsk a))))"

section \<open>Read state\<close>

definition mark_read :: "env \<Rightarrow> json \<Rightarrow> string \<Rightarrow> string step" where
  "mark_read E mid session =
     andThen (lift (ident_ok ''message_id'' mid)) (\<lambda>i. reads (\<lambda>s.
     case tget i (inbox s) of
       None \<Rightarrow> raise (ValueError ''Message is not visible to this owner'')
     | Some m \<Rightarrow>
         andThen (lift (message_visible E s True m session)) (\<lambda>visible.
         if \<not> visible then raise (ValueError ''Message is not visible to this owner'')
         else (let k = skey E [principal session, w_sender m, i] in
           andThen (modify (\<lambda>s. s\<lparr>reads_at := tput k
               (case tget k (reads_at s) of Some t \<Rightarrow> t | None \<Rightarrow> now E) (reads_at s)\<rparr>)) (\<lambda>_.
           andThen (for_each (filter (\<lambda>a. at_owner a = principal session \<and> at_subject a = i
                \<and> at_state a = AtOpen \<and> at_source_kind a \<in> set [''inbound'', ''contact_response''])
                (tall (attention s))) (\<lambda>a. attention_put E (at_owner a) (at_source_kind a) (at_source_id a)
                  ((notice_of a)\<lparr>nt_state := AtResolved\<rparr>))) (\<lambda>_.
           ret i))))))"

section \<open>Incoming contact packets\<close>

definition promotable :: "env \<Rightarrow> store \<Rightarrow> string \<Rightarrow> string \<Rightarrow> string \<Rightarrow> inbound list" where
  "promotable E s owner sender rid = sort_key (\<lambda>m. (i_received m, w_id m)) (filter (\<lambda>m.
     w_sender m = sender \<and> tget (skey E [owner, sender, w_id m]) (message_blocks s) = None
     \<and> i_reason m = Some ''pending_connection'' \<and> i_request m = Some rid) (tall (inbox s)))"

definition release :: "inbound \<Rightarrow> inbound" where
  "release m = m\<lparr>i_quarantined := False, i_reason := None, i_request := None\<rparr>"

definition review_reason :: "review_status \<Rightarrow> string" where
  "review_reason st = (if st = RvPending then ''pending_review'' else ''rejected_review'')"

definition promote_one :: "env \<Rightarrow> string \<Rightarrow> inbound \<Rightarrow> unit step" where
  "promote_one E owner m = savepoint is_data_error
     (let v = release m in
      andThen (lift (needs_peer_review v)) (\<lambda>needed.
      andThen (if needed then
           andThen (stage_peer_review E v (Some (i_received v)) owner) (\<lambda>r.
             ret (if rv_status r = RvApproved then v
                  else v\<lparr>i_quarantined := True, i_reason := Some (review_reason (rv_status r))\<rparr>))
         else ret v) (\<lambda>v'.
      andThen (put_inbound E v') (\<lambda>_.
      if i_quarantined v' then ret () else andThen (ingest_v2_record E v') (\<lambda>_. ret ())))))
     (\<lambda>_. put_inbound E (m\<lparr>i_reason := Some ''invalid_preconnection_message''\<rparr>))"

definition promote_pending_messages :: "env \<Rightarrow> string \<Rightarrow> string \<Rightarrow> string \<Rightarrow> unit step" where
  "promote_pending_messages E owner sender rid = reads (\<lambda>s.
     if peer_blocked E s sender owner then ret ()
     else for_each (promotable E s owner sender rid) (promote_one E owner))"

definition social_fields :: "bool \<Rightarrow> string list" where
  "social_fields is_request =
     [''protocol'', ''type'', ''request_id''] @ (if is_request then [] else [''decision''])"

text \<open>Parsing of a contact packet: its request identifier and, for a response, the decision.\<close>

definition decision_value :: "json \<Rightarrow> string \<Rightarrow> exn + string" where
  "decision_value j msg = (case j of
     JStr d \<Rightarrow> if d \<in> set [''accept'', ''reject''] then Inr d else refuse msg
   | JArr _ \<Rightarrow> Inl (TypeError ''unhashable'')
   | JObj _ \<Rightarrow> Inl (TypeError ''unhashable'')
   | _ \<Rightarrow> refuse msg)"

definition social_object :: "'a wire_scheme \<Rightarrow> bool \<Rightarrow> exn + fields" where
  "social_object w is_request = (case json_loads (w_text w) of
     None \<Rightarrow> refuse ''Invalid contact protocol packet''
   | Some (JObj kvs) \<Rightarrow>
       if set (jkeys kvs) = set (social_fields is_request)
          \<and> jfield ''protocol'' kvs = JStr social_protocol
          \<and> jfield ''type'' kvs = JStr (if is_request then ''request'' else ''response'')
       then Inr kvs else refuse ''Invalid contact protocol fields''
   | Some _ \<Rightarrow> refuse ''Invalid contact protocol fields'')"

definition ingest_request :: "env \<Rightarrow> 'a wire_scheme \<Rightarrow> string \<Rightarrow> contact_request option step" where
  "ingest_request E w rid =
     (if w_id w \<noteq> rid \<or> Some (w_sender w) = local_urn E
      then raise (ValueError ''Invalid contact request sender or identifier'')
      else reads (\<lambda>s. case tget rid (requests s) of
        Some old \<Rightarrow>
          if q_direction old \<noteq> Incoming \<or> q_urn old \<noteq> w_sender w
          then raise (ValueError ''Contact request ID conflicts with another sender'') else ret (Some old)
      | None \<Rightarrow> (case mail_owner s of
          None \<Rightarrow> ret None
        | Some owner \<Rightarrow>
            (let q = \<lparr>q_id = rid, q_owner = owner, q_direction = Incoming, q_urn = w_sender w,
                      q_contact = None, q_status = RqPending, q_attempt = None,
                      q_created = now E, q_updated = now E\<rparr>
             in andThen (put_request q) (\<lambda>_. andThen (friend_attention E q) (\<lambda>_. ret (Some q)))))))"

definition response_notice :: "'a wire_scheme \<Rightarrow> bool \<Rightarrow> notice" where
  "response_notice w accepted =
     (notice_default (if accepted then ''friend_request_accepted'' else ''friend_request_rejected'')
        (w_id w) (if accepted then T_at_friend_accepted else T_at_friend_rejected))
     \<lparr>nt_target := ''inbox'', nt_summary := w_sender w,
      nt_revision := JStr (if accepted then ''accepted'' else ''rejected'')\<rparr>"

definition ingest_response :: "env \<Rightarrow> 'a wire_scheme \<Rightarrow> string \<Rightarrow> string \<Rightarrow> contact_request option step" where
  "ingest_response E w rid decision = reads (\<lambda>s.
     let st = (if decision = ''accept'' then RqAccepted else RqRejected) in
     case tget rid (requests s) of
       None \<Rightarrow> raise (ValueError ''Contact response does not match an outgoing request'')
     | Some q0 \<Rightarrow>
         if q_direction q0 \<noteq> Outgoing \<or> q_urn q0 \<noteq> w_sender w \<or> w_reply w \<noteq> Some rid
         then raise (ValueError ''Contact response does not match an outgoing request'')
         else if q_status q0 \<noteq> RqPending \<and> q_status q0 \<noteq> st
         then raise (ValueError ''Contact request already has a different final response'')
         else (let q = q0\<lparr>q_status := st, q_updated := now E\<rparr> in
           andThen (put_request q) (\<lambda>_.
           andThen (act_when (st = RqAccepted)
             (andThen (put_connection E (q_owner q) (w_sender w) rid) (\<lambda>_. reads (\<lambda>s.
                if mail_owner s = Some (q_owner q)
                then promote_pending_messages E (q_owner q) (w_sender w) rid else ret ())))) (\<lambda>_.
           andThen (attention_put E (q_owner q) ''contact_response'' rid (response_notice w (st = RqAccepted))) (\<lambda>_.
           ret (Some q))))))"

definition ingest_social :: "env \<Rightarrow> 'a wire_scheme \<Rightarrow> contact_request option step" where
  "ingest_social E w =
     (if \<not> kind_in (w_kind w) social_kinds then ret None
      else let is_request = (w_kind w = Some ''contact.request'') in
        andThen (lift (social_object w is_request)) (\<lambda>kvs.
        andThen (lift (ident_ok ''request_id'' (jfield ''request_id'' kvs))) (\<lambda>rid.
        if w_conversation w \<noteq> Some rid then raise (ValueError ''Contact request correlation mismatch'')
        else if is_request then ingest_request E w rid
        else andThen (lift (decision_value (jfield ''decision'' kvs) ''Invalid contact response decision''))
          (ingest_response E w rid))))"

text \<open>\<^verbatim>\<open>register_owner\<close>: mail that arrived before the profile was known is reduced now.\<close>

definition register_owner :: "env \<Rightarrow> string \<Rightarrow> string step" where
  "register_owner E session =
     andThen (lift (owner_ok session)) (\<lambda>_. reads (\<lambda>s. case profile s of
       Some p \<Rightarrow> ret p
     | None \<Rightarrow>
         andThen (modify (\<lambda>s. s\<lparr>profile := Some (principal session)\<rparr>)) (\<lambda>_.
         andThen (for_each (tall (inbox s)) (\<lambda>m.
            if \<not> kind_in (w_kind m) social_kinds then ret ()
            else reads (\<lambda>s. andThen (lift (message_visible E s True m session)) (\<lambda>visible.
              if visible then andThen (ingest_social E m) (\<lambda>_. ret ()) else ret ())))) (\<lambda>_.
         ret (principal session)))))"

section \<open>Answering a request\<close>

text \<open>The contact that an accepted request binds: the one this owner already has, or a new one.\<close>

definition accepted_contact :: "env \<Rightarrow> store \<Rightarrow> fields \<Rightarrow> string \<Rightarrow> contact_request \<Rightarrow> exn + contact" where
  "accepted_contact E s params session q = (case own_contact_with s session (q_urn q) of
     Some c \<Rightarrow> Inr c
   | None \<Rightarrow> contact_value E
       (case jget ''contact_id'' params of Some j \<Rightarrow> j
        | None \<Rightarrow> JStr (''peer-'' @ take 20 (skey E [q_urn q])))
       (case jget ''aliases'' params of Some j \<Rightarrow> j
        | None \<Rightarrow> jstrs [take 100 (rev (takeWhile (\<lambda>c. c \<noteq> CHR '':'') (rev (q_urn q))))])
       (JStr (q_urn q)) session)"

definition response_values :: "env \<Rightarrow> store \<Rightarrow> fields \<Rightarrow> string \<Rightarrow>
    exn + contact_request \<times> string \<times> contact option" where
  "response_values E s params session =
     bindE (jneed ''request_id'' params) (\<lambda>rj.
     bindE (ident_ok ''request_id'' rj) (\<lambda>rid.
     case tget rid (requests s) of
       None \<Rightarrow> refuse ''No incoming friend request for this owner''
     | Some q \<Rightarrow>
         bindE (need (owned (q_owner q) session \<and> q_direction q = Incoming)
            ''No incoming friend request for this owner'') (\<lambda>_.
         bindE (need (\<not> peer_blocked E s (q_urn q) session)
            ''Unblock this peer before responding to its request'') (\<lambda>_.
         bindE (jneed ''decision'' params) (\<lambda>dj.
         bindE (decision_value dj ''Contact decision must be accept or reject'') (\<lambda>d.
         if d \<noteq> ''accept'' then Inr (q, d, None)
         else bindE (accepted_contact E s params session q) (\<lambda>c.
              (case tget (c_id c) (contacts s) of
                 Some old \<Rightarrow> if old \<noteq> c then refuse ''This contact ID already belongs to another identity''
                             else Inr (q, d, Some c)
               | None \<Rightarrow> Inr (q, d, Some c)))))))))"

definition respond_contact :: "env \<Rightarrow> fields \<Rightarrow> string \<Rightarrow> (string \<times> string) step" where
  "respond_contact E params session = reads (\<lambda>s.
     andThen (lift (response_values E s params session)) (\<lambda>(q0, d, co).
     let st = (if d = ''accept'' then RqAccepted else RqRejected) in
     if q_status q0 \<noteq> RqPending then
       (if q_status q0 \<noteq> st then raise (ValueError ''Friend request is already decided'')
        else ret (q_id q0, request_status_str st))
     else andThen (case co of
            None \<Rightarrow> ret ()
          | Some c \<Rightarrow> andThen (put_contact c) (\<lambda>_. put_connection E (q_owner q0) (q_urn q0) (q_id q0))) (\<lambda>_.
       let q = q0\<lparr>q_status := st, q_updated := now E,
                  q_contact := (case co of Some c \<Rightarrow> Some (c_id c) | None \<Rightarrow> q_contact q0)\<rparr> in
       andThen (put_request q) (\<lambda>_.
       andThen (queue_social E
          \<lparr>x_id = ''friend-response-'' @ take 40 (key E [JStr (q_id q), jstr_opt (local_urn E)]),
           x_recipient = q_urn q, x_kind = ''contact.response'', x_conversation = Some (q_id q),
           x_reply = Some (q_id q), x_text = social_packet ''response'' (q_id q) (Some d)\<rparr> (q_owner q)) (\<lambda>_.
       andThen (friend_attention E q) (\<lambda>_.
       andThen (mark_read E (JStr (q_id q)) session) (\<lambda>_.
       ret (q_id q, request_status_str st))))))))"

datatype response_outcome = RDone string request_status | RAsk public_approval

definition prepare_contact_response :: "env \<Rightarrow> fields \<Rightarrow> string \<Rightarrow> response_outcome step" where
  "prepare_contact_response E params session = reads (\<lambda>s.
     andThen (lift (response_values E s params session)) (\<lambda>(q, d, co).
     if q_status q \<noteq> RqPending then ret (RDone (q_id q) (q_status q))
     else andThen (request_approval E (q_id q) session
            (PResponse (q_id q) d (map_option (\<lambda>c. (c_id c, c_aliases c)) co))
            ((if d = ''accept'' then T_q_accept else T_q_reject) @ T_q_response1 @ q_urn q @ T_q_response2)
            (now E + 900 * sec)) (\<lambda>a. ret (RAsk a))))"

section \<open>Direct messages\<close>

definition message_values :: "env \<Rightarrow> store \<Rightarrow> fields \<Rightarrow> string \<Rightarrow> exn + social_msg" where
  "message_values E s params session =
     bindE (jneed ''recipient_urn'' params) (\<lambda>uj.
     bindE (v2_urn uj) (\<lambda>urn.
     bindE (jneed ''text'' params) (\<lambda>tj.
     bindE (case tj of
         JStr t \<Rightarrow> if py_blank t \<or> \<not> encodable t \<or> 24000 < length t
                  then refuse ''Message text must contain 1-24000 UTF-8 bytes'' else Inr t
       | _ \<Rightarrow> refuse ''Message text must contain 1-24000 UTF-8 bytes'') (\<lambda>text.
     bindE (need (own_contact_with s session urn \<noteq> None)
        ''Confirm this recipient as a local contact before sending a message'') (\<lambda>_.
     bindE (need (can_send_to E s urn session)
        ''Wait for this contact to accept the friend request before sending a message'') (\<lambda>_.
     bindE (ident_ok ''message_id'' (case jget ''message_id'' params of Some j \<Rightarrow> j
        | None \<Rightarrow> JStr (''message-'' @ fresh E))) (\<lambda>mid.
     bindE (need (tget mid (inbox s) = None)
        ''Outgoing message ID conflicts with an already received message'') (\<lambda>_.
     Inr \<lparr>x_id = mid, x_recipient = urn, x_kind = ''chat.message'', x_conversation = None,
          x_reply = None, x_text = text\<rparr>))))))))"

definition send_message :: "env \<Rightarrow> fields \<Rightarrow> string \<Rightarrow> (string \<times> outbox_status) step" where
  "send_message E params session = reads (\<lambda>s.
     andThen (lift (message_values E s params session)) (\<lambda>x.
     andThen (queue_social E x (principal session)) (\<lambda>b. ret (b_id b, b_status b))))"

definition prepare_message :: "env \<Rightarrow> fields \<Rightarrow> string \<Rightarrow> public_approval step" where
  "prepare_message E params session = reads (\<lambda>s.
     andThen (lift (message_values E s params session)) (\<lambda>x.
     request_approval E (x_id x) session (PMessage x)
       (T_q_friend1 @ x_recipient x @ T_q_message2 @ x_text x) (now E + 900 * sec)))"

section \<open>Sending the outbox\<close>

text \<open>
  One transaction of \<^verbatim>\<open>flush_social_outbox\<close>. The helper is a parameter: for a message it answers JSON
  or raises. The outcome says whether the message was accepted, skipped, or the loop ends.
\<close>

type_synonym helper = "json \<Rightarrow> exn + json"

datatype flush_outcome = Flushed | Skipped | Halted

definition sendable :: "env \<Rightarrow> store \<Rightarrow> outbox \<Rightarrow> bool" where
  "sendable E s b \<longleftrightarrow> \<not> peer_blocked E s (x_recipient (b_message b)) (b_owner b)
     \<and> (x_kind (b_message b) \<noteq> ''chat.message'' \<or> can_send_to E s (x_recipient (b_message b)) (b_owner b))"

definition acknowledged :: "json \<Rightarrow> string \<Rightarrow> bool" where
  "acknowledged j mid \<longleftrightarrow> (case j of
     JObj kvs \<Rightarrow> jget ''success'' kvs = Some (JBool True) \<and> jget ''message_id'' kvs = Some (JStr mid)
   | _ \<Rightarrow> False)"

definition flush_one :: "env \<Rightarrow> helper \<Rightarrow> string \<Rightarrow> flush_outcome step" where
  "flush_one E send bid = reads (\<lambda>s. case tget bid (outboxes s) of
       None \<Rightarrow> raise (TypeError ''record'')
     | Some b \<Rightarrow>
         if b_status b \<noteq> XQueued \<or> \<not> sendable E s b then ret Skipped
         else case send (social_json (b_message b)) of
           Inl (OSError _) \<Rightarrow> ret Halted
         | Inl e \<Rightarrow> if is_value_error e \<or> (case e of TypeError _ \<Rightarrow> True | _ \<Rightarrow> False) then ret Skipped else raise e
         | Inr (JObj kvs) \<Rightarrow>
             if acknowledged (JObj kvs) (b_id b)
             then andThen (put_outbox (b\<lparr>b_status := XAccepted, b_updated := now E\<rparr>)) (\<lambda>_. ret Flushed)
             else ret Skipped
         | Inr _ \<Rightarrow> raise (AttributeError ''get''))"

text \<open>The loop over the candidates; every iteration commits on its own.\<close>

fun flush_all :: "env \<Rightarrow> helper \<Rightarrow> string list \<Rightarrow> store \<Rightarrow> nat \<Rightarrow> (exn + nat) \<times> store" where
  "flush_all E send [] s n = (Inr n, s)"
| "flush_all E send (b # bs) s n = (case flush_one E send b s of
     Inl e \<Rightarrow> (Inl e, s)
   | Inr (Flushed, s') \<Rightarrow> flush_all E send bs s' (Suc n)
   | Inr (Skipped, s') \<Rightarrow> flush_all E send bs s' n
   | Inr (Halted, s') \<Rightarrow> (Inr n, s'))"

definition flush_candidates :: "env \<Rightarrow> store \<Rightarrow> nat \<Rightarrow> string list" where
  "flush_candidates E s limit = take limit (map b_id (filter (\<lambda>b. b_status b = XQueued \<and> sendable E s b)
     (tall (outboxes s))))"

definition flush_social_outbox :: "env \<Rightarrow> helper \<Rightarrow> nat \<Rightarrow> store \<Rightarrow> (exn + nat) \<times> store" where
  "flush_social_outbox E send limit s = flush_all E send (flush_candidates E s limit) s 0"

section \<open>Blocking\<close>

definition tombstone :: "env \<Rightarrow> string \<Rightarrow> string \<Rightarrow> string \<Rightarrow> unit step" where
  "tombstone E owner sender mid = modify (\<lambda>s. s\<lparr>message_blocks := tput (skey E [owner, sender, mid])
     \<lparr>mb_owner = owner, mb_id = mid, mb_fingerprint = None\<rparr> (message_blocks s)\<rparr>)"

definition block_messages :: "env \<Rightarrow> string \<Rightarrow> string \<Rightarrow> unit step" where
  "block_messages E owner urn = reads (\<lambda>s.
     for_each (filter (\<lambda>m. w_sender m = urn) (tall (inbox s))) (\<lambda>m. tombstone E owner urn (w_id m)))"

definition block_requests :: "env \<Rightarrow> string \<Rightarrow> string \<Rightarrow> unit step" where
  "block_requests E owner urn = reads (\<lambda>s.
     for_each (filter (\<lambda>q. q_owner q = owner \<and> q_urn q = urn \<and> q_status q = RqPending) (tall (requests s)))
       (\<lambda>q. let q' = q\<lparr>q_status := RqBlocked, q_updated := now E\<rparr> in
          andThen (put_request q') (\<lambda>_. friend_attention E q')))"

definition block_outbox :: "env \<Rightarrow> string \<Rightarrow> string \<Rightarrow> unit step" where
  "block_outbox E owner urn = reads (\<lambda>s.
     for_each (filter (\<lambda>b. b_owner b = owner \<and> x_recipient (b_message b) = urn \<and> b_status b = XQueued)
       (tall (outboxes s))) (\<lambda>b. put_outbox (b\<lparr>b_status := XBlocked, b_updated := now E\<rparr>)))"

definition tasks_with_peer :: "store \<Rightarrow> string \<Rightarrow> string \<Rightarrow> string list" where
  "tasks_with_peer s session urn =
     (let ids = map c_id (filter (\<lambda>c. c_urn c = urn) (own_contacts s session))
      in map t_id (filter (\<lambda>t. session_owned (t_session t) session
           \<and> list_ex (\<lambda>k. k \<in> set ids) (sc_recipient_ids (t_scope t) @ sc_participant_ids (t_scope t)))
           (tall (tasks s))))"

definition block_workers :: "env \<Rightarrow> string \<Rightarrow> string list \<Rightarrow> unit step" where
  "block_workers E owner tids = reads (\<lambda>s.
     for_each (filter (\<lambda>r. wp_owner r = owner \<and> wp_task r \<in> set tids) (tall (workers s)))
       (\<lambda>r. let r' = r\<lparr>wp_status := WPaused, wp_waiting := Some ''peer_blocked''\<rparr> in
          andThen (put_worker r') (\<lambda>_. worker_attention E r')))"

definition block_collaboration :: "env \<Rightarrow> collaboration \<Rightarrow> collaboration" where
  "block_collaboration E c = c\<lparr>v_blocked_at := Some (now E),
     v_permit := map_option (\<lambda>p. p\<lparr>pm_revoked := True\<rparr>) (v_permit c)\<rparr>"

definition blocked_collaborations :: "store \<Rightarrow> string \<Rightarrow> string \<Rightarrow> collaboration list" where
  "blocked_collaborations s owner urn =
     filter (\<lambda>c. v_owner c = owner \<and> v_peer c = urn) (tall (collaborations s))"

definition block_operations :: "env \<Rightarrow> string \<Rightarrow> string \<Rightarrow> unit step" where
  "block_operations E owner urn = reads (\<lambda>s.
     for_each (filter (\<lambda>o'. principal (o_session o') = owner \<and> list_ex (\<lambda>c. c_urn c = urn) (o_recipients o')
          \<and> o_status o' \<notin> {OAccepted, ODenied}) (tall (operations s)))
       (\<lambda>o'. put_operation E (o'\<lparr>o_status := ODenied, o_invalid := Some ''peer_blocked''\<rparr>)))"

definition block_v2_operations :: "env \<Rightarrow> string \<Rightarrow> string list \<Rightarrow> unit step" where
  "block_v2_operations E owner cids = reads (\<lambda>s.
     for_each (filter (\<lambda>z. z_owner z = owner \<and> z_collaboration z \<in> set cids
          \<and> z_status z \<notin> {OAccepted, ODenied}) (tall (v2_operations s)))
       (\<lambda>z. put_v2_operation E (z\<lparr>z_status := ODenied, z_invalid := Some ''peer_blocked''\<rparr>)))"

fun payload_peer :: "approval_payload \<Rightarrow> string option" where
  "payload_peer (PContact c) = Some (c_urn c)"
| "payload_peer (PFriend c _) = Some (c_urn c)"
| "payload_peer (PMessage x) = Some (x_recipient x)"
| "payload_peer _ = None"

definition is_response :: "approval_payload \<Rightarrow> bool" where
  "is_response p \<longleftrightarrow> (case p of PResponse _ _ _ \<Rightarrow> True | _ \<Rightarrow> False)"

definition undecided :: "approval \<Rightarrow> bool" where
  "undecided a \<longleftrightarrow> p_status a \<in> {APending, APresenting, AExpired}"

definition concerns_peer :: "store \<Rightarrow> string \<Rightarrow> string list \<Rightarrow> approval \<Rightarrow> bool" where
  "concerns_peer s urn tids a \<longleftrightarrow> payload_peer (p_payload a) = Some urn
     \<or> is_response (p_payload a) \<and> (case tget (p_subject a) (requests s) of
         Some q \<Rightarrow> q_urn q = urn | None \<Rightarrow> False)
     \<or> (case approval_task_id s a of Some t \<Rightarrow> t \<in> set tids | None \<Rightarrow> False)"

definition retire :: "approval \<Rightarrow> string \<Rightarrow> approval" where
  "retire a reason = a\<lparr>p_status := ASuperseded, p_invalid := Some reason, p_token := None, p_lease := None\<rparr>"

definition block_approvals :: "env \<Rightarrow> string \<Rightarrow> string \<Rightarrow> string list \<Rightarrow> unit step" where
  "block_approvals E owner urn tids = reads (\<lambda>s.
     for_each (filter (\<lambda>a. principal (p_session a) = owner \<and> undecided a \<and> concerns_peer s urn tids a)
          (tall (approvals s)))
       (\<lambda>a. andThen (put_approval E (retire a ''peer_blocked'')) (\<lambda>a'. attention_approval E a' True)))"

definition block_attention :: "env \<Rightarrow> string \<Rightarrow> string \<Rightarrow> unit step" where
  "block_attention E owner urn = reads (\<lambda>s.
     for_each (filter (\<lambda>i. at_owner i = owner \<and> at_source_kind i = ''inbound''
          \<and> (case tget (at_subject i) (inbox s) of Some m \<Rightarrow> w_sender m = urn | None \<Rightarrow> False))
          (tall (attention s)))
       (\<lambda>i. attention_put E owner (at_source_kind i) (at_source_id i)
          ((notice_of i)\<lparr>nt_state := AtSuperseded, nt_revision := JStr ''peer_blocked''\<rparr>)))"

text \<open>Everything that a block retires besides the block row itself.\<close>

definition retire_peer :: "env \<Rightarrow> string \<Rightarrow> string \<Rightarrow> string \<Rightarrow> unit step" where
  "retire_peer E owner session urn =
     andThen (block_messages E owner urn) (\<lambda>_.
     andThen (block_requests E owner urn) (\<lambda>_.
     andThen (block_outbox E owner urn) (\<lambda>_.
     reads (\<lambda>s. let tids = tasks_with_peer s session urn; cs = blocked_collaborations s owner urn in
     andThen (block_workers E owner tids) (\<lambda>_.
     andThen (for_each cs (\<lambda>c. andThen (put_collaboration E (block_collaboration E c)) (\<lambda>_. ret ()))) (\<lambda>_.
     andThen (block_operations E owner urn) (\<lambda>_.
     andThen (block_v2_operations E owner (map v_id cs)) (\<lambda>_.
     andThen (block_approvals E owner urn tids) (\<lambda>_.
     block_attention E owner urn)))))))))"

definition max_revision :: int where
  "max_revision = 9007199254740991"

definition put_block :: "env \<Rightarrow> string \<Rightarrow> string \<Rightarrow> bool \<Rightarrow> unit step" where
  "put_block E owner urn blocked = modify (\<lambda>s.
     let rid = skey E [owner, urn]; old = tget rid (blocks s) in
     s\<lparr>blocks := tput rid \<lparr>k_owner = owner, k_urn = urn, k_blocked = blocked,
         k_at = (case old of Some k \<Rightarrow> if k_blocked k \<and> blocked then k_at k else now E | None \<Rightarrow> now E),
         k_updated = now E\<rparr> (blocks s)\<rparr>)"

definition bump_safety :: "env \<Rightarrow> string \<Rightarrow> bool \<Rightarrow> int step" where
  "bump_safety E owner changed = reads (\<lambda>s.
     let n = safety_revision E s owner in
     if \<not> changed then ret n
     else if max_revision \<le> n then raise (ValueError ''Owner safety revision is exhausted'')
     else andThen (modify (\<lambda>s. s\<lparr>safety := tput (skey E [owner]) (n + 1) (safety s)\<rparr>)) (\<lambda>_. ret (n + 1)))"

definition set_peer_block :: "env \<Rightarrow> json \<Rightarrow> bool \<Rightarrow> string \<Rightarrow> (string \<times> bool \<times> int \<times> conn_status) step" where
  "set_peer_block E urnj blocked session =
     andThen (lift (owner_ok session)) (\<lambda>_.
     andThen (lift (v2_urn urnj)) (\<lambda>urn.
     andThen (refuse_if (Some urn = local_urn E) ''Cannot block the local agent'') (\<lambda>_.
     reads (\<lambda>s. let owner = principal session in
     andThen (bump_safety E owner (peer_blocked E s urn session \<noteq> blocked)) (\<lambda>n.
     andThen (put_block E owner urn blocked) (\<lambda>_.
     andThen (act_when blocked (retire_peer E owner session urn)) (\<lambda>_.
     reads (\<lambda>s. ret (urn, blocked, n,
       if blocked then ConnBlocked
       else (case own_contact_with s session urn of
               Some c \<Rightarrow> contact_status E s c | None \<Rightarrow> Unverified))))))))))"

text \<open>\<^verbatim>\<open>consume_blocked_peer\<close>: the shared guard of the older host integration.\<close>

definition consume_blocked_peer :: "env \<Rightarrow> fields \<Rightarrow> string \<Rightarrow> bool step" where
  "consume_blocked_peer E message session =
     andThen (lift (owner_ok session)) (\<lambda>_.
     andThen (lift (jneed ''sender_urn'' message)) (\<lambda>sj. reads (\<lambda>s.
     if \<not> peer_blocked E s (as_str sj) session then ret False
     else andThen (lift (v2_urn sj)) (\<lambda>sender.
       andThen (lift (jneed ''message_id'' message)) (\<lambda>mj.
       andThen (lift (ident_ok ''message_id'' mj)) (\<lambda>mid. reads (\<lambda>s.
       let k = skey E [principal session, sender, mid]; fp = digest E (JObj message) in
       if (case tget k (message_blocks s) of
             Some b \<Rightarrow> mb_fingerprint b \<noteq> None \<and> mb_fingerprint b \<noteq> Some fp | None \<Rightarrow> False)
       then raise (ValueError ''Blocked message ID conflicts with its durable contents'')
       else andThen (modify (\<lambda>s. s\<lparr>message_blocks := tput k
              \<lparr>mb_owner = principal session, mb_id = mid, mb_fingerprint = Some fp\<rparr> (message_blocks s)\<rparr>))
            (\<lambda>_. ret True))))))))"

end
