(* ===== verification/Mandates.thy ===== *)
theory Mandates
  imports Social
begin

text \<open>
  Mandates and their actions (\<^verbatim>\<open>src/python/agent_comm_runtime/store.py\<close>): registering resources,
  asking for a task, judging and preparing an action, reserving and delivering it, revoking.
\<close>

section \<open>Resources\<close>

definition check_resource_title :: "json \<Rightarrow> exn + string" where
  "check_resource_title j = (case j of
     JStr t \<Rightarrow> if 1 \<le> pylen (py_strip t) \<and> pylen (py_strip t) \<le> 200 then Inr (py_strip t)
              else refuse ''Resource title must have 1-200 characters''
   | _ \<Rightarrow> refuse ''Resource title must have 1-200 characters'')"

definition check_resource_text :: "json \<Rightarrow> exn + string" where
  "check_resource_text j = (case j of
     JStr t \<Rightarrow> if 1 \<le> pylen t \<and> pylen t \<le> 8000
              then (if encodable t then Inr t else refuse ''surrogates not allowed'')
              else refuse ''Resource text must have 1-8000 characters; arbitrary files are not read''
   | _ \<Rightarrow> refuse ''Resource text must have 1-8000 characters; arbitrary files are not read'')"

definition provenance_value :: "json \<Rightarrow> exn + string" where
  "provenance_value j = (case j of
     JStr v \<Rightarrow> if 1 \<le> pylen v \<and> pylen v \<le> 500 then Inr v
              else refuse ''Snapshot provenance values must have 1-500 characters''
   | _ \<Rightarrow> refuse ''Snapshot provenance values must have 1-500 characters'')"

definition check_provenance :: "json option \<Rightarrow> exn + (string \<times> string \<times> string) option" where
  "check_provenance p = (case p of
     None \<Rightarrow> Inr None
   | Some (JObj kvs) \<Rightarrow>
       if set (jkeys kvs) \<noteq> set [''reference'', ''source'', ''version'']
       then refuse ''Snapshot provenance requires reference, source and version''
       else bindE (provenance_value (jfield ''reference'' kvs)) (\<lambda>a.
            bindE (provenance_value (jfield ''source'' kvs)) (\<lambda>b.
            bindE (provenance_value (jfield ''version'' kvs)) (\<lambda>c. Inr (Some (a, b, c)))))
   | Some _ \<Rightarrow> refuse ''Snapshot provenance requires reference, source and version'')"

definition register_resource ::
  "env \<Rightarrow> json \<Rightarrow> json \<Rightarrow> json \<Rightarrow> json option \<Rightarrow> string \<Rightarrow> (string \<times> string) step" where
  "register_resource E rid title text prov session =
     andThen (lift (owner_ok session)) (\<lambda>_.
     andThen (lift (ident_ok ''resource_id'' rid)) (\<lambda>i.
     andThen (lift (check_resource_title title)) (\<lambda>ti.
     andThen (lift (check_resource_text text)) (\<lambda>te.
     andThen (lift (check_provenance prov)) (\<lambda>pv.
     let r = \<lparr>r_resource_id = i, r_title = ti, r_text = te, r_sha256 = sha E te,
              r_owner_id = principal session, r_provenance = pv\<rparr> in
     reads (\<lambda>s. case tget i (resources s) of
         Some old \<Rightarrow>
           if old \<noteq> r then raise (ValueError ''Resource ID is immutable; register a new ID for changed content'')
           else ret (i, r_sha256 r)
       | None \<Rightarrow> andThen (modify (\<lambda>s. s\<lparr>resources := tput i r (resources s)\<rparr>)) (\<lambda>_.
           ret (i, r_sha256 r))))))))"

section \<open>Lookups\<close>

definition resolve_contact :: "store \<Rightarrow> string \<Rightarrow> string \<Rightarrow> decision \<times> contact list" where
  "resolve_contact s name session =
     (let ms = filter (\<lambda>c. c_id c = name
          \<or> py_casefold name \<in> set (map py_casefold (c_aliases c))) (own_contacts s session)
      in (if length ms = 1 then Allow else Clarify, ms))"

definition contact_owned :: "contact option \<Rightarrow> string \<Rightarrow> bool" where
  "contact_owned co session \<longleftrightarrow> (case co of Some c \<Rightarrow> owned (c_owner c) session | None \<Rightarrow> False)"

definition contact_urn :: "env \<Rightarrow> store \<Rightarrow> json \<Rightarrow> string \<Rightarrow> exn + string" where
  "contact_urn E s cid session =
     bindE (owner_ok session) (\<lambda>_.
     bindE (ident_ok ''contact_id'' cid) (\<lambda>i.
     if i = ''self'' then
       (if contact_owned (tget ''self'' (contacts s)) session
           \<or> list_ex (\<lambda>a. session_owned (p_session a) session \<and> payload_kind (p_payload a) = ''contact''
                \<and> p_subject a = ''self'' \<and> undecided a) (tall (approvals s))
        then refuse ''Legacy contact_id 'self' is ambiguous''
        else (case local_urn E of
          None \<Rightarrow> refuse ''Configure the host's local agent URN before exporting self''
        | Some u \<Rightarrow> validate_urn u))
     else (case tget i (contacts s) of
       None \<Rightarrow> refuse ''Contact must be confirmed for the current owner before export''
     | Some c \<Rightarrow>
         if owned (c_owner c) session then validate_urn (c_urn c)
         else refuse ''Contact must be confirmed for the current owner before export'')))"

definition find_task :: "store \<Rightarrow> string \<Rightarrow> string \<Rightarrow> exn + task" where
  "find_task s tid session = (case tget tid (tasks s) of
     Some t \<Rightarrow> if session_owned (t_session t) session then Inr t
              else refuse ''Task is not available to this owner session''
   | None \<Rightarrow> refuse ''Task is not available to this owner session'')"

definition find_contact :: "store \<Rightarrow> string \<Rightarrow> string \<Rightarrow> contact option" where
  "find_contact s session k = (case tget k (contacts s) of
     Some c \<Rightarrow> if owned (c_owner c) session then Some c else None | None \<Rightarrow> None)"

definition find_resource :: "store \<Rightarrow> string \<Rightarrow> string \<Rightarrow> resource option" where
  "find_resource s session k = (case tget k (resources s) of
     Some r \<Rightarrow> if owned (r_owner_id r) session then Some r else None | None \<Rightarrow> None)"

section \<open>Asking for a task\<close>

definition with_error :: "'a option \<Rightarrow> string \<Rightarrow> exn + 'a" where
  "with_error x msg = (case x of Some y \<Rightarrow> Inr y | None \<Rightarrow> refuse msg)"

text \<open>\<^verbatim>\<open>_references\<close>; the code iterates over a set of identifiers, here in ascending order.\<close>

definition scope_references :: "store \<Rightarrow> scope \<Rightarrow> string \<Rightarrow> exn + contact list \<times> resource list" where
  "scope_references s sc session =
     bindE (mapE (\<lambda>k. with_error (find_contact s session k)
          (''Contact '' @ k @ '' must be confirmed in this owner session first''))
        (filter (\<lambda>k. k \<noteq> ''self'') (sorted_set (sc_recipient_ids sc @ sc_participant_ids sc)))) (\<lambda>cs.
     bindE (mapE (\<lambda>k. with_error (find_resource s session k)
          (''Resource '' @ k @ '' must be registered in this owner session first'')) (sc_resource_ids sc)) (\<lambda>rs.
     Inr (cs, rs)))"

definition identities :: "contact list \<Rightarrow> string" where
  "identities cs = join nl (map (\<lambda>c. ''- '' @ c_id c @ '' / '' @ join '', '' (c_aliases c) @ '': '' @ c_urn c) cs)"

definition materials :: "resource list \<Rightarrow> string" where
  "materials rs = join (nl @ nl) (map (\<lambda>r. T_q_material @ r_resource_id r @ T_colon @ r_title r @ nl @ r_text r) rs)"

definition task_question :: "scope \<Rightarrow> contact list \<Rightarrow> resource list \<Rightarrow> string" where
  "task_question sc cs rs = T_q_task1 @ render_scope_text sc @ T_q_task2 @ identities cs @ T_q_task3 @
     (if rs = [] then T_q_task_none else materials rs) @ T_q_task4"

datatype task_outcome = TAllow task | TDeny task | TAsk public_approval

definition ask_task :: "env \<Rightarrow> string \<Rightarrow> scope \<Rightarrow> contact list \<Rightarrow> resource list \<Rightarrow> string \<Rightarrow> task_outcome step" where
  "ask_task E tid sc cs rs session =
     andThen (request_approval E tid session (PTask sc 1) (task_question sc cs rs)
       (min (sc_expires_at sc) (now E + 900 * sec))) (\<lambda>a. ret (TAsk a))"

definition prepare_task :: "env \<Rightarrow> json \<Rightarrow> json \<Rightarrow> string \<Rightarrow> task_outcome step" where
  "prepare_task E tidj scope session =
     andThen (lift (owner_ok session)) (\<lambda>_.
     andThen (lift (ident_ok ''task_id'' tidj)) (\<lambda>tid.
     andThen (lift (validate_scope scope)) (\<lambda>sc.
     andThen (refuse_if (sc_expires_at sc \<le> now E) ''Cannot authorize an expired task'') (\<lambda>_. reads (\<lambda>s.
     andThen (lift (scope_references s sc session)) (\<lambda>(cs, rs).
     case tget tid (tasks s) of
       Some old \<Rightarrow>
         if \<not> session_owned (t_session old) session \<or> t_scope old \<noteq> sc
         then raise (ValueError ''Task ID already exists with a different owner or mandate'')
         else if t_status old \<noteq> TPending
         then ret (if t_status old = TActive then TAllow old else TDeny old)
         else ask_task E tid sc cs rs session
     | None \<Rightarrow>
         andThen (put_task E \<lparr>t_id = tid, t_session = session, t_scope = sc, t_revision = 1,
            t_status = TPending, t_used = 0, t_source = None\<rparr>) (\<lambda>_.
         ask_task E tid sc cs rs session)))))))"

section \<open>Judging an action in its task\<close>

definition exposes :: "task \<Rightarrow> string \<Rightarrow> operation \<Rightarrow> bool" where
  "exposes t recipient o' \<longleftrightarrow> o_task o' = t_id t \<and> o_status o' \<in> {OSending, OAccepted}
     \<and> a_capability (o_action o') = ShareSlots \<and> recipient \<in> set (a_recipient_ids (o_action o'))"

definition slots_of :: "payload \<Rightarrow> interval list" where
  "slots_of p = (case p of Slots is \<Rightarrow> is | _ \<Rightarrow> [])"

text \<open>The slots of a task that a recipient may already have seen.\<close>

definition exposed_slots :: "store \<Rightarrow> task \<Rightarrow> string \<Rightarrow> interval list" where
  "exposed_slots s t recipient = remdups (concat (map (\<lambda>o'. slots_of (a_payload (o_action o')))
     (filter (exposes t recipient) (tall (operations s)))))"

definition total_slots :: "store \<Rightarrow> task \<Rightarrow> interval list \<Rightarrow> string \<Rightarrow> nat" where
  "total_slots s t requested recipient = length (remdups (exposed_slots s t recipient @ requested))"

definition exceeds_candidates :: "store \<Rightarrow> task \<Rightarrow> interval list \<Rightarrow> string \<Rightarrow> bool" where
  "exceeds_candidates s t requested recipient \<longleftrightarrow>
     \<not> set requested \<subseteq> set (exposed_slots s t recipient)
     \<and> sc_max_candidates (t_scope t) < int (total_slots s t requested recipient)"

definition candidate_total_key :: "string \<Rightarrow> string" where
  "candidate_total_key recipient = ''candidate_total:'' @ recipient"

definition limit_candidates :: "store \<Rightarrow> task \<Rightarrow> interval list \<Rightarrow> string \<Rightarrow> verdict \<Rightarrow> verdict" where
  "limit_candidates s t requested recipient v =
     (if \<not> exceeds_candidates s t requested recipient then v
      else v\<lparr>v_decision := Ask,
         v_reasons := (if ''cumulative_candidate_limit'' \<in> set (v_reasons v) then v_reasons v
                       else v_reasons v @ [''cumulative_candidate_limit'']),
         v_delta := jset (candidate_total_key recipient)
            (JObj [(''allowed'', JInt (sc_max_candidates (t_scope t))),
                   (''requested_total'', JInt (int (total_slots s t requested recipient)))]) (v_delta v)\<rparr>)"

definition evaluate_current :: "env \<Rightarrow> store \<Rightarrow> task \<Rightarrow> json \<Rightarrow> verdict" where
  "evaluate_current E s t act =
     (let v = evaluate (scope_json (t_scope t)) act (t_used t) (now E) in
      if v_decision v \<in> {Deny, Clarify} then v
      else (case validate_action act of
        Inr a \<Rightarrow> (case a_payload a of
            Slots requested \<Rightarrow> fold (limit_candidates s t requested) (a_recipient_ids a) v
          | _ \<Rightarrow> v)
      | Inl _ \<Rightarrow> v))"

section \<open>Views\<close>

record op_view =
  ov_id :: string
  ov_task :: string
  ov_status :: op_status
  ov_action :: "action option"
  ov_text :: string
  ov_deliveries :: "delivery list"
  ov_decision :: decision
  ov_reasons :: "string list"
  ov_approval :: "string option"

definition operation_live :: "env \<Rightarrow> store \<Rightarrow> operation \<Rightarrow> exn + bool" where
  "operation_live E s o' = (case tget (o_task o') (tasks s) of
     None \<Rightarrow> Inr False
   | Some t \<Rightarrow> if live E t \<and> t_revision t = o_revision o' then proposal_current E s o' else Inr False)"

definition proposal_id_of :: "action \<Rightarrow> string option" where
  "proposal_id_of a = (case a_payload a of Meeting m \<Rightarrow> Some (m_proposal_id m) | _ \<Rightarrow> None)"

definition operation_view :: "env \<Rightarrow> store \<Rightarrow> operation \<Rightarrow> exn + op_view" where
  "operation_view E s o' =
     bindE (if o_status o' = OAccepted then Inr True else operation_live E s o') (\<lambda>alive.
     bindE (case proposal_id_of (o_action o') of
         None \<Rightarrow> Inr True
       | Some pid \<Rightarrow> proposal_review_safe E s (tget (proposal_key E (o_task o') pid) (proposals s)) (o_session o'))
       (\<lambda>safe.
     let base = \<lparr>ov_id = o_id o', ov_task = o_task o', ov_status = o_status o',
                 ov_action = Some (o_action o'), ov_text = o_text o', ov_deliveries = o_deliveries o',
                 ov_decision = (if o_status o' \<in> {OReady, OSending, OAccepted} then Allow
                                else v_decision (o_decision o')),
                 ov_reasons = v_reasons (o_decision o'), ov_approval = o_approval o'\<rparr>;
         v1 = (if o_status o' \<noteq> OAccepted \<and> \<not> alive
               then base\<lparr>ov_decision := Deny, ov_reasons := [''revoked_expired_or_superseded'']\<rparr>
               else if o_status o' = ODenied
               then base\<lparr>ov_decision := Deny, ov_reasons := [''owner_denied'']\<rparr> else base)
     in Inr (if safe then v1
             else v1\<lparr>ov_action := None, ov_text := [], ov_decision := Deny,
                     ov_reasons := [''peer_content_unavailable'']\<rparr>)))"

section \<open>Preparing an action\<close>

datatype action_outcome =
    AVerdict verdict
  | ARefused decision string "string option"
  | AView op_view

definition participants_of :: "action \<Rightarrow> string list" where
  "participants_of a = (case a_payload a of Meeting m \<Rightarrow> m_participant_ids m | _ \<Rightarrow> [])"

fun first_missing :: "(string \<Rightarrow> 'a option) \<Rightarrow> string list \<Rightarrow> string option" where
  "first_missing f [] = None"
| "first_missing f (k # ks) = (case f k of None \<Rightarrow> Some k | Some _ \<Rightarrow> first_missing f ks)"

text \<open>Local contact identifiers never leave: the participants of a meeting become URNs.\<close>

definition wire_participant :: "store \<Rightarrow> string \<Rightarrow> string" where
  "wire_participant s k = (if k = ''self'' then k else
     (case tget k (contacts s) of Some c \<Rightarrow> c_urn c | None \<Rightarrow> []))"

definition wire_action :: "store \<Rightarrow> action \<Rightarrow> action" where
  "wire_action s a = (case a_payload a of
     Meeting m \<Rightarrow> a\<lparr>a_payload := Meeting (m\<lparr>m_participant_ids := map (wire_participant s) (m_participant_ids m)\<rparr>)\<rparr>
   | _ \<Rightarrow> a)"

definition wire_text :: "action \<Rightarrow> resource option \<Rightarrow> string \<Rightarrow> string" where
  "wire_text wa ro text = canonical (JObj [(''protocol'', JStr ''agent-comm-collaboration/v1''),
     (''capability'', JStr (cap_str (a_capability wa))),
     (''payload'', case ro of
        Some r \<Rightarrow> JObj [(''title'', JStr (r_title r)), (''text'', JStr (r_text r))]
      | None \<Rightarrow> payload_json (a_payload wa)),
     (''text'', JStr text)])"

definition content_json :: "string \<Rightarrow> int \<Rightarrow> action \<Rightarrow> contact list \<Rightarrow> resource list \<Rightarrow> string \<Rightarrow> string \<Rightarrow> json" where
  "content_json tid revision a cs rs text wire = JObj [(''task_id'', JStr tid), (''revision'', JInt revision),
     (''action'', action_json a), (''recipients'', JArr (map contact_json cs)),
     (''resources'', JObj (map (\<lambda>r. (r_resource_id r, resource_json r)) rs)),
     (''text'', JStr text), (''wire_text'', JStr wire)]"

definition action_question :: "action \<Rightarrow> contact list \<Rightarrow> string \<Rightarrow> string" where
  "action_question a cs text = T_q_op1 @ render_action_text a @ T_q_op2 @ identities cs @ T_q_op3 @ text @ T_q_op4"

text \<open>The check of a meeting against the proposals of the task: a refusal, or the proposal to record.\<close>

definition proposal_gate ::
  "env \<Rightarrow> store \<Rightarrow> string \<Rightarrow> action \<Rightarrow> verdict \<Rightarrow> string \<Rightarrow> exn + string option \<times> (string \<times> proposal) option" where
  "proposal_gate E s tid a v session = (case a_payload a of
     Meeting m \<Rightarrow>
       (let k = proposal_key E tid (m_proposal_id m); previous = tget k (proposals s) in
        bindE (proposal_review_safe E s previous session) (\<lambda>safe.
        if \<not> safe then Inr (Some ''peer_content_unavailable'', None)
        else if a_capability a = AcceptMeeting then
          Inr (if (case previous of Some p \<Rightarrow> pr_payload p \<noteq> m | None \<Rightarrow> True)
               then (Some ''unknown_or_stale_proposal'', None) else (None, None))
        else if (case previous of Some p \<Rightarrow> pr_payload p \<noteq> m \<and> m_version m \<le> m_version (pr_payload p)
                 | None \<Rightarrow> False)
        then Inr (Some ''stale_or_conflicting_proposal'', None)
        else Inr (None, if v_decision v = Allow
                        then Some (k, \<lparr>pr_task = tid, pr_payload = m, pr_source = None\<rparr>) else None)))
   | _ \<Rightarrow> Inr (None, None))"

definition base_hash :: "env \<Rightarrow> store \<Rightarrow> string \<Rightarrow> action \<Rightarrow> string" where
  "base_hash E s tid a = (case a_payload a of
     Meeting m \<Rightarrow> proposal_digest E (tget (proposal_key E tid (m_proposal_id m)) (proposals s))
   | _ \<Rightarrow> proposal_digest E None)"

definition view_outcome :: "env \<Rightarrow> operation \<Rightarrow> action_outcome step" where
  "view_outcome E o' = reads (\<lambda>s. andThen (lift (operation_view E s o')) (\<lambda>v. ret (AView v)))"

definition store_operation :: "env \<Rightarrow> task \<Rightarrow> string \<Rightarrow> action \<Rightarrow> contact list \<Rightarrow> resource list \<Rightarrow> string
    \<Rightarrow> string \<Rightarrow> verdict \<Rightarrow> string \<Rightarrow> string \<Rightarrow> action_outcome step" where
  "store_operation E t oid a cs rs text wire v base session =
     (let h = digest E (content_json (t_id t) (t_revision t) a cs rs text wire) in
      andThen (if v_decision v = Ask
          then andThen (request_approval E oid session (POperation h (t_revision t)) (action_question a cs text)
                 (min (sc_expires_at (t_scope t)) (now E + 900 * sec))) (\<lambda>p. ret (Some (pa_id p)))
          else ret None) (\<lambda>approval.
      let o' = \<lparr>o_id = oid, o_task = t_id t, o_revision = t_revision t, o_action = a, o_recipients = cs,
                o_resources = rs, o_text = text, o_wire_text = wire, o_hash = h, o_session = session,
                o_decision = v, o_status = (if v_decision v = Allow then OReady else OAwaiting),
                o_created = now E, o_deliveries = [], o_base_hash = base, o_approval = approval,
                o_approved_once = False, o_reserved = None, o_invalid = None\<rparr>
      in andThen (put_operation E o') (\<lambda>_.
         andThen (audit E ''operation_prepared'' [(''task_id'', JStr (t_id t)), (''operation_id'', JStr oid),
            (''owner_session'', JStr session), (''decision'', JStr (decision_str (v_decision v))),
            (''action_hash'', JStr h)]) (\<lambda>_.
         view_outcome E o'))))"

text \<open>The part of \<^verbatim>\<open>prepare_action\<close> for a fresh operation whose verdict is allow or ask.\<close>

definition prepare_fresh :: "env \<Rightarrow> task \<Rightarrow> string \<Rightarrow> action \<Rightarrow> verdict \<Rightarrow> string \<Rightarrow> action_outcome step" where
  "prepare_fresh E t oid a v session = reads (\<lambda>s.
     case first_missing (find_contact s session) (a_recipient_ids a) of
       Some k \<Rightarrow> ret (ARefused Clarify ''unconfirmed_recipient'' (Some k))
     | None \<Rightarrow>
     (case first_missing (find_contact s session) (filter (\<lambda>k. k \<noteq> ''self'') (participants_of a)) of
       Some k \<Rightarrow> ret (ARefused Clarify ''unconfirmed_participant'' (Some k))
     | None \<Rightarrow>
     (let ro = (case a_payload a of ResourceRef r \<Rightarrow> find_resource s session r | _ \<Rightarrow> None);
          cs = map (\<lambda>k. the (find_contact s session k)) (a_recipient_ids a) in
      if ro = None \<and> (case a_payload a of ResourceRef _ \<Rightarrow> True | _ \<Rightarrow> False)
      then ret (ARefused Clarify ''unknown_resource'' None)
      else andThen (lift (compile_message (sha E) (action_json (wire_action s a)) (\<lambda>_. ro))) (\<lambda>text.
        let wire = wire_text (wire_action s a) ro text in
        if tget oid (operations s) \<noteq> None
        then raise (ValueError ''Operation ID cannot be reused for a different action or version'')
        else andThen (lift (proposal_gate E s (t_id t) a v session)) (\<lambda>(refusal, record). case refusal of
            Some reason \<Rightarrow> ret (ARefused Deny reason None)
          | None \<Rightarrow>
              andThen (case record of Some (k, p) \<Rightarrow> put_proposal k p | None \<Rightarrow> ret ()) (\<lambda>_.
              store_operation E t oid a cs (case ro of Some r \<Rightarrow> [r] | None \<Rightarrow> []) text wire v
                (base_hash E s (t_id t) a) session))))))"

definition prepare_action :: "env \<Rightarrow> string \<Rightarrow> json \<Rightarrow> json \<Rightarrow> string \<Rightarrow> action_outcome step" where
  "prepare_action E tid oidj act session =
     andThen (lift (owner_ok session)) (\<lambda>_.
     andThen (lift (ident_ok ''operation_id'' oidj)) (\<lambda>oid. reads (\<lambda>s.
     if tget oid (v2_operations s) \<noteq> None
     then raise (ValueError ''Operation ID is already used by a v2 action'')
     else andThen (lift (find_task s tid session)) (\<lambda>t.
       let v = evaluate_current E s t act in
       case tget oid (operations s) of
         Some prev \<Rightarrow>
           if session_owned (o_session prev) session then
             (case validate_action act of
                Inl _ \<Rightarrow> ret (AVerdict v)
              | Inr a \<Rightarrow>
                  if o_task prev \<noteq> tid \<or> o_action prev \<noteq> a
                  then raise (ValueError ''Operation ID cannot be reused for a different action'')
                  else view_outcome E prev)
           else (case validate_action act of
                Inl _ \<Rightarrow> ret (AVerdict v)
              | Inr a \<Rightarrow>
                  if v_decision v \<in> {Deny, Clarify} then ret (AVerdict v)
                  else if \<not> live E t then ret (ARefused Deny ''task_not_active'' None)
                  else prepare_fresh E t oid a v session)
       | None \<Rightarrow>
           if v_decision v \<in> {Deny, Clarify} then ret (AVerdict v)
           else if \<not> live E t then ret (ARefused Deny ''task_not_active'' None)
           else andThen (lift (validate_action act)) (\<lambda>a. prepare_fresh E t oid a v session)))))"

section \<open>Revoking\<close>

definition revoke :: "env \<Rightarrow> string \<Rightarrow> string \<Rightarrow> string step" where
  "revoke E tid session = reads (\<lambda>s.
     andThen (lift (find_task s tid session)) (\<lambda>t.
     if t_status t = TRevoked then ret tid
     else andThen (put_task E (t\<lparr>t_status := TRevoked, t_revision := t_revision t + 1\<rparr>)) (\<lambda>_.
       andThen (audit E ''task_revoked'' [(''task_id'', JStr tid), (''owner_session'', JStr session)]) (\<lambda>_.
       ret tid))))"

section \<open>Dispatching\<close>

datatype dispatch_outcome =
    DRefused string "delivery list"
  | DVerdict verdict
  | DView op_view
  | DReserved "string list"

text \<open>The deliveries of one round: at most four that are not yet accepted.\<close>

definition pending_batch :: "operation \<Rightarrow> string list" where
  "pending_batch o' = take 4 (map d_message (filter (\<lambda>d. d_status d \<noteq> DAccepted) (o_deliveries o')))"

definition delivery_for :: "env \<Rightarrow> operation \<Rightarrow> contact \<Rightarrow> delivery" where
  "delivery_for E o' c = \<lparr>d_recipient = c_id c, d_urn = c_urn c,
     d_message = ''collab-'' @ take 48 (digest E (jstrs [o_id o', o_hash o', c_urn c])),
     d_status = DPending, d_accepted_at = None\<rparr>"

definition reservation :: "env \<Rightarrow> operation \<Rightarrow> operation" where
  "reservation E o' = o'\<lparr>o_status := OSending, o_reserved := Some (now E),
     o_deliveries := map (delivery_for E o') (o_recipients o')\<rparr>"

definition recheck_question :: "operation \<Rightarrow> string" where
  "recheck_question o' = T_q_re1 @ render_action_text (o_action o') @ T_q_re2 @ o_text o' @ T_q_re3"

definition reserve_ready :: "env \<Rightarrow> task \<Rightarrow> operation \<Rightarrow> string \<Rightarrow> dispatch_outcome step" where
  "reserve_ready E t o' session = reads (\<lambda>s.
     if sc_max_actions (t_scope t) \<le> t_used t then ret (DRefused ''action_limit_reached'' [])
     else let v = evaluate_current E s t (action_json (o_action o')) in
       if v_decision v \<in> {Deny, Clarify} then ret (DVerdict v)
       else if v_decision v = Ask \<and> \<not> o_approved_once o' then
         andThen (request_approval E (o_id o') session (POperation (o_hash o') (t_revision t))
            (recheck_question o') (min (sc_expires_at (t_scope t)) (now E + 900 * sec))) (\<lambda>p.
         let o'' = o'\<lparr>o_status := OAwaiting, o_decision := v, o_approval := Some (pa_id p)\<rparr> in
         andThen (put_operation E o'') (\<lambda>_. reads (\<lambda>s.
         andThen (lift (operation_view E s o'')) (\<lambda>w. ret (DView w)))))
       else
         andThen (put_task E (t\<lparr>t_used := t_used t + 1\<rparr>)) (\<lambda>_.
         andThen (put_operation E (reservation E o')) (\<lambda>_.
         ret (DReserved (pending_batch (reservation E o'))))))"

text \<open>The first transaction of \<^verbatim>\<open>dispatch\<close>: nothing leaves before it has committed.\<close>

definition dispatch_reserve :: "env \<Rightarrow> string \<Rightarrow> string \<Rightarrow> dispatch_outcome step" where
  "dispatch_reserve E oid session = reads (\<lambda>s. case tget oid (operations s) of
       None \<Rightarrow> raise (ValueError ''Operation is not available to this owner session'')
     | Some o' \<Rightarrow>
         if \<not> session_owned (o_session o') session
         then raise (ValueError ''Operation is not available to this owner session'')
         else if o_status o' = OAccepted
         then andThen (lift (operation_view E s o')) (\<lambda>w. ret (DView w))
         else andThen (lift (find_task s (o_task o') session)) (\<lambda>t.
           andThen (lift (operation_live E s o')) (\<lambda>alive.
           if \<not> alive then ret (DRefused ''revoked_expired_or_superseded'' [])
           else if o_status o' \<notin> {OReady, OSending} then ret (DRefused ''operation_not_authorized'' [])
           else if list_ex (\<lambda>c. \<not> can_send_to E s (c_urn c) session) (o_recipients o')
           then ret (DRefused ''contact_not_connected'' [])
           else if o_status o' = OReady then reserve_ready E t o' session
           else ret (DReserved (pending_batch o')))))"

text \<open>What the helper is asked to queue, and one delivery transaction.\<close>

definition helper_body :: "operation \<Rightarrow> task \<Rightarrow> delivery \<Rightarrow> json" where
  "helper_body o' t d = JObj [(''message_id'', JStr (d_message d)), (''recipient_urn'', JStr (d_urn d)),
     (''text'', JStr (o_wire_text o')), (''task_id'', JStr (o_task o')),
     (''conversation_id'', JStr (''collaboration:'' @ o_task o')),
     (''kind'', JStr (''collaboration.'' @ cap_str (a_capability (o_action o')))),
     (''deadline'', JStr (iso_z (sc_expires_at (t_scope t)))), (''hop_limit'', JInt 8)]"

fun set_delivery :: "string \<Rightarrow> delivery \<Rightarrow> delivery list \<Rightarrow> delivery list" where
  "set_delivery mid d' [] = []"
| "set_delivery mid d' (d # ds) = (if d_message d = mid then d' # ds else d # set_delivery mid d' ds)"

definition delivered_status :: "delivery list \<Rightarrow> op_status" where
  "delivered_status ds = (if list_all (\<lambda>d. d_status d = DAccepted) ds then OAccepted else OSending)"

datatype delivery_outcome = DelSkipped | DelStopped string "delivery list" | DelSent json bool

definition deliver_one :: "env \<Rightarrow> helper \<Rightarrow> string \<Rightarrow> string \<Rightarrow> string \<Rightarrow> delivery_outcome step" where
  "deliver_one E send oid session mid = reads (\<lambda>s. case tget oid (operations s) of
       None \<Rightarrow> raise (TypeError ''operation'')
     | Some o' \<Rightarrow>
         andThen (lift (find_task s (o_task o') session)) (\<lambda>t.
         case filter (\<lambda>d. d_message d = mid) (o_deliveries o') of
           [] \<Rightarrow> raise StopIteration
         | d # _ \<Rightarrow>
             if d_status d = DAccepted then ret DelSkipped
             else andThen (lift (operation_live E s o')) (\<lambda>alive.
               if \<not> alive then ret (DelStopped ''revoked_expired_or_superseded'' (o_deliveries o'))
               else if \<not> can_send_to E s (d_urn d) session
               then ret (DelStopped ''contact_not_connected'' (o_deliveries o'))
               else
                 let body = helper_body o' t d;
                     ok = (case send body of Inr j \<Rightarrow> acknowledged j (d_message d) | Inl _ \<Rightarrow> False);
                     d' = (if ok then d\<lparr>d_status := DAccepted, d_accepted_at := Some (now E)\<rparr>
                           else d\<lparr>d_status := DUncertain\<rparr>);
                     ds = set_delivery mid d' (o_deliveries o')
                 in andThen (act_when ok (audit E ''helper_accepted'' [(''task_id'', JStr (t_id t)),
                        (''operation_id'', JStr oid), (''recipient_id'', JStr (d_recipient d)),
                        (''message_id'', JStr (d_message d)), (''action_hash'', JStr (o_hash o')),
                        (''owner_session'', JStr session)])) (\<lambda>_.
                    andThen (put_operation E (o'\<lparr>o_deliveries := ds, o_status := delivered_status ds\<rparr>)) (\<lambda>_.
                    ret (DelSent body ok))))))"

text \<open>The loop over the batch, each delivery its own transaction.\<close>

fun deliver_all :: "env \<Rightarrow> helper \<Rightarrow> string \<Rightarrow> string \<Rightarrow> string list \<Rightarrow> store \<Rightarrow>
    (exn + dispatch_outcome option) \<times> store" where
  "deliver_all E send oid session [] s = (Inr None, s)"
| "deliver_all E send oid session (m # ms) s = (case deliver_one E send oid session m s of
     Inl e \<Rightarrow> (Inl e, s)
   | Inr (DelStopped reason ds, s') \<Rightarrow> (Inr (Some (DRefused reason ds)), s')
   | Inr (_, s') \<Rightarrow> deliver_all E send oid session ms s')"

definition dispatch :: "env \<Rightarrow> helper \<Rightarrow> string \<Rightarrow> string \<Rightarrow> store \<Rightarrow> (exn + dispatch_outcome) \<times> store" where
  "dispatch E send oid session s = (case dispatch_reserve E oid session s of
     Inl e \<Rightarrow> (Inl e, s)
   | Inr (DReserved mids, s1) \<Rightarrow>
       (case deliver_all E send oid session mids s1 of
          (Inl e, s2) \<Rightarrow> (Inl e, s2)
        | (Inr (Some r), s2) \<Rightarrow> (Inr r, s2)
        | (Inr None, s2) \<Rightarrow> (case tget oid (operations s2) of
            None \<Rightarrow> (Inl (TypeError ''operation''), s2)
          | Some o' \<Rightarrow> (case operation_view E s2 o' of
              Inl e \<Rightarrow> (Inl e, s2) | Inr w \<Rightarrow> (Inr (DView w), s2))))
   | Inr (r, s1) \<Rightarrow> (Inr r, s1))"

end
