(* ===== verification/Confirmations.thy ===== *)
theory Confirmations
  imports Mandates
begin

text \<open>
  The owner's decisions (\<^verbatim>\<open>store.py\<close>): the lease of a native confirmation and its single-use token,
  the answer, the decision of a paired console, and what an approval or a refusal does.
\<close>

section \<open>Effects of a decision\<close>

definition apply_v2_status :: "env \<Rightarrow> approval \<Rightarrow> (v2_operation \<Rightarrow> v2_operation) \<Rightarrow> unit step" where
  "apply_v2_status E a f = reads (\<lambda>s. case tget (p_subject a) (v2_operations s) of
     None \<Rightarrow> raise (TypeError ''operation'') | Some z \<Rightarrow> put_v2_operation E (f z))"

definition apply_operation :: "env \<Rightarrow> approval \<Rightarrow> unit step" where
  "apply_operation E a = reads (\<lambda>s. case tget (p_subject a) (operations s) of
     None \<Rightarrow> raise (TypeError ''operation'')
   | Some o' \<Rightarrow>
       andThen (case a_payload (o_action o') of
           Meeting m \<Rightarrow>
             act_when (a_capability (o_action o') = ProposeMeeting)
               (put_proposal (proposal_key E (o_task o') (m_proposal_id m))
                 \<lparr>pr_task = o_task o', pr_payload = m, pr_source = None\<rparr>)
         | _ \<Rightarrow> ret ()) (\<lambda>_.
       put_operation E (o'\<lparr>o_status := OReady, o_approved_once := True\<rparr>)))"

definition apply_approval :: "env \<Rightarrow> approval \<Rightarrow> unit step" where
  "apply_approval E a = (case p_payload a of
     PFriend c _ \<Rightarrow> andThen (request_contact E c) (\<lambda>_. ret ())
   | PResponse _ _ _ \<Rightarrow>
       (case approval_json (p_payload a) of
          JObj kvs \<Rightarrow> andThen (respond_contact E kvs (p_session a)) (\<lambda>_. ret ()) | _ \<Rightarrow> ret ())
   | PMessage x \<Rightarrow> andThen (queue_social E x (principal (p_session a))) (\<lambda>_. ret ())
   | PWorker _ _ _ \<Rightarrow> reads (\<lambda>s. case tget (p_subject a) (workers s) of
       None \<Rightarrow> raise (TypeError ''policy'') | Some r \<Rightarrow> put_worker (r\<lparr>wp_status := WActive\<rparr>))
   | PV2 _ \<Rightarrow> apply_v2_status E a (\<lambda>z. z\<lparr>z_status := OReady, z_approved_once := True\<rparr>)
   | PContact c \<Rightarrow>
       andThen (modify (\<lambda>s. s\<lparr>contacts := tput (p_subject a) c (contacts s)\<rparr>)) (\<lambda>_.
       andThen (request_contact E c) (\<lambda>_. ret ()))
   | PTask _ _ \<Rightarrow> reads (\<lambda>s. case tget (p_subject a) (tasks s) of
       None \<Rightarrow> raise (TypeError ''task'')
     | Some t \<Rightarrow> andThen (put_task E (t\<lparr>t_status := TActive\<rparr>)) (\<lambda>_. ret ()))
   | POperation _ _ \<Rightarrow> apply_operation E a)"

definition deny_approval :: "env \<Rightarrow> approval \<Rightarrow> unit step" where
  "deny_approval E a = (case p_payload a of
     PWorker _ _ _ \<Rightarrow> reads (\<lambda>s. case tget (p_subject a) (workers s) of
       None \<Rightarrow> raise (TypeError ''policy'') | Some r \<Rightarrow> put_worker (r\<lparr>wp_status := WRevoked\<rparr>))
   | PV2 _ \<Rightarrow> reads (\<lambda>s. case tget (p_subject a) (v2_operations s) of
       None \<Rightarrow> ret () | Some z \<Rightarrow> put_v2_operation E (z\<lparr>z_status := ODenied\<rparr>))
   | POperation _ _ \<Rightarrow> reads (\<lambda>s. case tget (p_subject a) (operations s) of
       None \<Rightarrow> raise (TypeError ''operation'') | Some o' \<Rightarrow> put_operation E (o'\<lparr>o_status := ODenied\<rparr>))
   | _ \<Rightarrow> ret ())"

section \<open>The native confirmation\<close>

definition lease_end :: "approval \<Rightarrow> time" where
  "lease_end a = (case p_lease a of Some t \<Rightarrow> t | None \<Rightarrow> 0)"

definition displayed :: "env \<Rightarrow> approval \<Rightarrow> bool" where
  "displayed E a \<longleftrightarrow> p_status a = APresenting \<and> now E < lease_end a"

definition find_approval :: "store \<Rightarrow> string \<Rightarrow> string \<Rightarrow> string \<Rightarrow> exn + approval" where
  "find_approval s aid session msg = (case tget aid (approvals s) of
     Some a \<Rightarrow> if session_owned (p_session a) session then Inr a else refuse msg
   | None \<Rightarrow> refuse msg)"

definition task_deadline :: "store \<Rightarrow> string \<Rightarrow> exn + time" where
  "task_deadline s tid = (case tget tid (tasks s) of
     Some t \<Rightarrow> Inr (sc_expires_at (t_scope t)) | None \<Rightarrow> Inl (TypeError ''task''))"

text \<open>The deadline of the grant that an approval would give.\<close>

definition grant_deadline :: "env \<Rightarrow> store \<Rightarrow> approval \<Rightarrow> exn + time" where
  "grant_deadline E s a =
     (let base = now E + 900 * sec in case p_payload a of
        PTask _ _ \<Rightarrow> bindE (task_deadline s (p_subject a)) (\<lambda>e. Inr (min base e))
      | POperation _ _ \<Rightarrow> (case tget (p_subject a) (operations s) of
          None \<Rightarrow> Inl (TypeError ''operation'')
        | Some o' \<Rightarrow> bindE (task_deadline s (o_task o')) (\<lambda>e. Inr (min base e)))
      | PV2 _ \<Rightarrow> Inr (min base (case tget (p_subject a) (v2_operations s) of
          Some z \<Rightarrow> z_expires z | None \<Rightarrow> now E))
      | PWorker _ _ _ \<Rightarrow> (case tget (p_subject a) (workers s) of
          None \<Rightarrow> Inl (TypeError ''policy'')
        | Some r \<Rightarrow> bindE (store_instant (wl_expires (wp_policy r))) (\<lambda>e. Inr (min base e)))
      | _ \<Rightarrow> Inr base)"

definition begin_confirmation :: "env \<Rightarrow> string \<Rightarrow> string \<Rightarrow> (string \<times> string \<times> time) step" where
  "begin_confirmation E aid session =
     andThen (lift (owner_ok session)) (\<lambda>_. reads (\<lambda>s.
     andThen (lift (find_approval s aid session ''Approval does not belong to this native owner session'')) (\<lambda>a.
     andThen (refuse_if (payload_kind (p_payload a) = ''contact'' \<and> p_subject a = ''self'') self_error) (\<lambda>_.
     andThen (refuse_if (\<not> undecided a) ''Approval is already decided'') (\<lambda>_.
     andThen (refuse_if (displayed E a) ''This request is already displayed in a native confirmation'') (\<lambda>_.
     andThen (refuse_if (list_ex (\<lambda>b. p_session b = session \<and> displayed E b) (tall (approvals s)))
        ''Another native confirmation is in progress in this conversation'') (\<lambda>_.
     andThen (approval_current E a) (\<lambda>cur.
     andThen (refuse_if (\<not> cur) ''Approval belongs to a revoked task or superseded proposal'') (\<lambda>_. reads (\<lambda>s.
     andThen (lift (grant_deadline E s a)) (\<lambda>deadline.
     andThen (put_approval E (a\<lparr>p_status := APresenting, p_session := session, p_expires := deadline,
        p_token := Some (digest E (JStr (fresh E))), p_lease := Some (min deadline (now E + 360 * sec))\<rparr>)) (\<lambda>_.
     ret (fresh E, p_question a, deadline)))))))))))))"

definition yes_words :: "string list" where
  "yes_words = [T_yes_1, T_yes_2, T_yes_3, T_yes_4, T_yes_5, T_yes_6, T_yes_7, ''yes'', ''approve'', T_yes_8]"

definition no_words :: "string list" where
  "no_words = [T_no_1, T_no_2, T_no_3, T_no_4, T_no_5, ''no'', ''deny'', ''cancel'']"

definition answer_of :: "json \<Rightarrow> string" where
  "answer_of raw = (case raw of JStr r \<Rightarrow> py_casefold (py_strip r) | _ \<Rightarrow> [])"

datatype answer_outcome = ApprovedOnce | DeniedByOwner | NoConsent | ExpiredConfirmation

definition consumed :: "approval \<Rightarrow> approval" where
  "consumed a = a\<lparr>p_token := None, p_lease := None\<rparr>"

definition resolve_answer :: "env \<Rightarrow> approval \<Rightarrow> json \<Rightarrow> (approval \<times> answer_outcome) step" where
  "resolve_answer E a raw =
     (let answer = answer_of raw in
      if answer \<in> set yes_words then
        andThen (apply_approval E (a\<lparr>p_status := AApproved\<rparr>)) (\<lambda>_.
          ret (a\<lparr>p_status := AApproved\<rparr>, ApprovedOnce))
      else if answer \<in> set no_words then
        andThen (deny_approval E (a\<lparr>p_status := ADenied\<rparr>)) (\<lambda>_.
          ret (a\<lparr>p_status := ADenied\<rparr>, DeniedByOwner))
      else ret (a\<lparr>p_status := APending\<rparr>, NoConsent))"

definition finish_confirmation ::
  "env \<Rightarrow> string \<Rightarrow> string \<Rightarrow> string \<Rightarrow> json \<Rightarrow> answer_outcome step" where
  "finish_confirmation E aid token session raw = reads (\<lambda>s.
     case tget aid (approvals s) of
       None \<Rightarrow> raise (ValueError ''No matching active native confirmation'')
     | Some a0 \<Rightarrow>
         if p_session a0 \<noteq> session \<or> p_status a0 \<noteq> APresenting
            \<or> (case p_token a0 of Some h \<Rightarrow> h | None \<Rightarrow> []) \<noteq> digest E (JStr token)
         then raise (ValueError ''No matching active native confirmation'')
         else
           andThen (if lease_end a0 \<le> now E \<or> p_expires a0 \<le> now E then ret False
                    else approval_current E (consumed a0)) (\<lambda>cur.
           andThen (if \<not> cur then ret ((consumed a0)\<lparr>p_status := AExpired\<rparr>, ExpiredConfirmation)
                    else resolve_answer E (consumed a0) raw) (\<lambda>(a, result).
           andThen (put_approval E a) (\<lambda>_.
           andThen (audit E ''native_confirmation_resolved'' [(''approval_id'', JStr aid),
              (''owner_session'', JStr session), (''status'', JStr (ap_status_str (p_status a)))]) (\<lambda>_.
           ret result)))))"

definition confirmation_result :: "store \<Rightarrow> json \<Rightarrow> string \<Rightarrow> exn + bool option" where
  "confirmation_result s aidj session =
     bindE (owner_ok session) (\<lambda>_.
     bindE (ident_ok ''approval_id'' aidj) (\<lambda>aid.
     bindE (find_approval s aid session ''Approval does not belong to this owner'') (\<lambda>a.
     Inr (case p_status a of AApproved \<Rightarrow> Some True | ADenied \<Rightarrow> Some False | _ \<Rightarrow> None))))"

section \<open>The paired console\<close>

definition console_decision :: "json \<Rightarrow> exn + bool" where
  "console_decision j = (case j of
     JStr d \<Rightarrow> if d = ''approve'' then Inr True else if d = ''deny'' then Inr False
              else refuse ''Approval decision must be approve or deny''
   | _ \<Rightarrow> refuse ''Approval decision must be approve or deny'')"

definition remote_respond_approval :: "env \<Rightarrow> fields \<Rightarrow> string \<Rightarrow> (string \<times> bool) step" where
  "remote_respond_approval E params session =
     andThen (lift (jneed ''approval_id'' params)) (\<lambda>aj.
     andThen (lift (ident_ok ''approval_id'' aj)) (\<lambda>aid.
     andThen (lift (jneed ''decision'' params)) (\<lambda>dj.
     andThen (lift (console_decision dj)) (\<lambda>yes. reads (\<lambda>s.
     andThen (lift (find_approval s aid session ''Approval does not belong to this paired owner'')) (\<lambda>a.
     let st = (if yes then AApproved else ADenied) in
     if p_status a \<in> {AApproved, ADenied} then
       (if p_status a \<noteq> st then raise (ValueError ''Approval is already decided'') else ret (aid, yes))
     else andThen (if undecided a then approval_current E a else ret False) (\<lambda>cur.
       andThen (refuse_if (\<not> cur)
          ''Approval belongs to an expired or revoked task, or a superseded proposal'') (\<lambda>_.
       let a' = (consumed a)\<lparr>p_status := st, p_session := session\<rparr> in
       andThen (if yes then apply_approval E a' else deny_approval E a') (\<lambda>_.
       andThen (put_approval E a') (\<lambda>_.
       andThen (audit E ''remote_confirmation_resolved'' [(''approval_id'', JStr aid),
          (''owner_session'', JStr session), (''status'', JStr (ap_status_str st))]) (\<lambda>_.
       ret (aid, yes))))))))))))"

text \<open>\<^verbatim>\<open>_remote_add_contact\<close>: the console's explicit binding also fulfils a pending native request.\<close>

definition fulfil_contact_approval :: "env \<Rightarrow> contact \<Rightarrow> string \<Rightarrow> approval \<Rightarrow> unit step" where
  "fulfil_contact_approval E c session a =
     (if p_payload a = PContact c then
        andThen (put_approval E ((consumed a)\<lparr>p_status := AApproved, p_session := session\<rparr>)) (\<lambda>_.
        audit E ''remote_confirmation_resolved'' [(''approval_id'', JStr (p_id a)),
          (''owner_session'', JStr session), (''status'', JStr ''approved'')])
      else attention_approval E a True)"

definition contact_view_of :: "env \<Rightarrow> contact \<Rightarrow> string \<Rightarrow> string option \<Rightarrow> mutation_result step" where
  "contact_view_of E c status rid = reads (\<lambda>s. ret (MContact c (contact_status E s c) status rid))"

definition remote_add_contact :: "env \<Rightarrow> fields \<Rightarrow> string \<Rightarrow> mutation_result step" where
  "remote_add_contact E params session =
     andThen (lift (jneed ''contact_id'' params)) (\<lambda>cj.
     andThen (lift (jneed ''aliases'' params)) (\<lambda>aj.
     andThen (lift (jneed ''urn'' params)) (\<lambda>uj.
     andThen (lift (contact_value E cj aj uj session)) (\<lambda>c. reads (\<lambda>s.
     case tget (c_id c) (contacts s) of
       Some old \<Rightarrow>
         if old \<noteq> c
         then raise (ValueError ''Confirmed contact is immutable; use a new ID and confirm a new binding'')
         else let before = contact_status E s old in
           andThen (request_contact E old) (\<lambda>q.
           contact_view_of E old (if before = Connected then ''already_connected''
             else if before = ConnPending then ''already_requested'' else ''requested'') (map_option q_id q))
     | None \<Rightarrow>
         if own_contact_with s session (c_urn c) \<noteq> None
         then raise (ValueError ''This agent identity is already a confirmed contact; use the existing contact'')
         else andThen (put_contact c) (\<lambda>_.
           andThen (request_contact E c) (\<lambda>q. reads (\<lambda>s.
           andThen (for_each (filter (\<lambda>a. session_owned (p_session a) session
                \<and> payload_kind (p_payload a) = ''contact'' \<and> p_subject a = c_id c \<and> undecided a)
                (tall (approvals s))) (fulfil_contact_approval E c session)) (\<lambda>_.
           andThen (audit E ''remote_contact_added'' [(''contact_id'', JStr (c_id c)),
              (''owner_session'', JStr session)]) (\<lambda>_.
           contact_view_of E c (if q = None then ''confirmed'' else ''requested'') (map_option q_id q)))))))))))"

end
