(* ===== verification/Inbox_Ops.thy ===== *)
theory Inbox_Ops
  imports Confirmations
begin

text \<open>
  The boundary with the helper and with trusted hosts (\<^verbatim>\<open>store.py\<close>, \<^verbatim>\<open>peer_review.py\<close>,
  \<^verbatim>\<open>attention.py\<close>): ingesting authenticated mail, the owner's review of peer content, the inbox and
  the attention feed, importing a proposal, and the replay-safe entry points of a paired console.
\<close>

section \<open>Wire messages\<close>

definition wire_field :: "fields \<Rightarrow> string \<Rightarrow> exn + string option" where
  "wire_field kvs k = (case jget k kvs of
     None \<Rightarrow> Inr None
   | Some (JStr v) \<Rightarrow>
       if encodable v \<and> 1 \<le> length v \<and> length v \<le> 256 then Inr (Some v) else refuse (''Invalid inbound '' @ k)
   | Some _ \<Rightarrow> refuse (''Invalid inbound '' @ k))"

definition control_kind :: "json option \<Rightarrow> exn + bool" where
  "control_kind v = (case v of
     Some (JStr k) \<Rightarrow> Inr (k \<in> set [''control.request'', ''control.response''])
   | Some (JArr _) \<Rightarrow> Inl (TypeError ''unhashable type'')
   | Some (JObj _) \<Rightarrow> Inl (TypeError ''unhashable type'')
   | _ \<Rightarrow> Inr False)"

definition wire_body :: "json \<Rightarrow> exn + string" where
  "wire_body j = (case j of
     JStr t \<Rightarrow> if encodable t \<and> 1 \<le> length t \<and> length t \<le> 100000 then Inr t
              else refuse ''Incoming text must have 1-100000 UTF-8 bytes''
   | _ \<Rightarrow> refuse ''Incoming text must have 1-100000 UTF-8 bytes'')"

definition parse_wire :: "json \<Rightarrow> exn + wire" where
  "parse_wire message = (case message of
     JObj kvs \<Rightarrow>
       bindE (control_kind (jget ''kind'' kvs)) (\<lambda>control.
       if control then refuse ''Owner control messages belong to the explicitly paired remote bridge'' else
       bindE (ident_ok ''message_id'' (jfield ''message_id'' kvs)) (\<lambda>mid.
       bindE (v2_urn (jfield ''sender_urn'' kvs)) (\<lambda>sender.
       bindE (wire_body (jfield ''text'' kvs)) (\<lambda>text.
       bindE (wire_field kvs ''task_id'') (\<lambda>task.
       bindE (wire_field kvs ''conversation_id'') (\<lambda>conv.
       bindE (wire_field kvs ''kind'') (\<lambda>kind.
       bindE (wire_field kvs ''in_reply_to'') (\<lambda>reply.
       bindE (wire_field kvs ''deadline'') (\<lambda>deadline.
       bindE (case deadline of None \<Rightarrow> Inr 0 | Some d \<Rightarrow> store_instant d) (\<lambda>_.
       Inr \<lparr>w_id = mid, w_sender = sender, w_text = text, w_task = task, w_conversation = conv,
            w_kind = kind, w_reply = reply, w_deadline = deadline\<rparr>))))))))))
   | _ \<Rightarrow> refuse ''Incoming helper message must be an object'')"

definition stored :: "env \<Rightarrow> wire \<Rightarrow> string option \<Rightarrow> string option \<Rightarrow> inbound" where
  "stored E w reason request = \<lparr>w_id = w_id w, w_sender = w_sender w, w_text = w_text w,
     w_task = w_task w, w_conversation = w_conversation w, w_kind = w_kind w, w_reply = w_reply w,
     w_deadline = w_deadline w, i_fingerprint = digest E (wire_json w), i_received = now E,
     i_quarantined = (reason \<noteq> None), i_reason = reason, i_request = request\<rparr>"

section \<open>Ingestion\<close>

datatype ingest_outcome = IAlready | IBlocked | IQuarantined | IPendingReview | IRecorded "v2_ack option"

definition from_blocked :: "env \<Rightarrow> store \<Rightarrow> wire \<Rightarrow> string option" where
  "from_blocked E s w = (case mail_owner s of
     None \<Rightarrow> None
   | Some owner \<Rightarrow> if peer_blocked E s (w_sender w) owner \<or> message_tombstone E s owner (w_sender w) (w_id w)
                  then Some owner else None)"

definition incoming_state :: "env \<Rightarrow> store \<Rightarrow> wire \<Rightarrow> sender_state" where
  "incoming_state E s w =
     (if local_urn E \<noteq> None \<and> \<not> kind_in (w_kind w) social_kinds
      then sender_connection_state E s (w_sender w) else SenderConnected)"

text \<open>Mail of a connected sender: contact packets, then the review gate, then the protocol.\<close>

definition ingest_connected :: "env \<Rightarrow> wire \<Rightarrow> ingest_outcome step" where
  "ingest_connected E w =
     andThen (ingest_social E w) (\<lambda>social. reads (\<lambda>s.
     andThen (if social = None \<and> mail_owner s \<noteq> None then lift (needs_peer_review w) else ret False) (\<lambda>gate.
     andThen (if gate then
          (case mail_owner s of
             Some owner \<Rightarrow> andThen (stage_peer_review E w None owner) (\<lambda>r. ret (Some (rv_status r)))
           | None \<Rightarrow> ret None)
        else ret None) (\<lambda>review.
     (case review of
        Some st \<Rightarrow>
          if st = RvApproved then
            andThen (put_inbound E (stored E w None None)) (\<lambda>_.
            andThen (ingest_v2_record E w) (\<lambda>ack. ret (IRecorded ack)))
          else andThen (put_inbound E (stored E w (Some (review_reason st)) None)) (\<lambda>_.
            ret (if st = RvPending then IPendingReview else IQuarantined))
      | None \<Rightarrow>
          andThen (put_inbound E (stored E w None None)) (\<lambda>_.
          if social \<noteq> None then ret (IRecorded None)
          else andThen (ingest_v2_record E w) (\<lambda>ack. ret (IRecorded ack))))))))"

definition ingest_wire :: "env \<Rightarrow> wire \<Rightarrow> ingest_outcome step" where
  "ingest_wire E w = reads (\<lambda>s. case tget (w_id w) (inbox s) of
       Some old \<Rightarrow>
         if i_fingerprint old \<noteq> digest E (wire_json w)
         then raise (ValueError ''Incoming message ID conflicts with its durable contents'')
         else ret IAlready
     | None \<Rightarrow> (case from_blocked E s w of
         Some owner \<Rightarrow>
           andThen (put_inbound E (stored E w (Some ''blocked_peer'') None)) (\<lambda>_.
           andThen (tombstone E owner (w_sender w) (w_id w)) (\<lambda>_. ret IBlocked))
       | None \<Rightarrow> (case incoming_state E s w of
           SenderConnected \<Rightarrow> ingest_connected E w
         | SenderPending rid \<Rightarrow>
             andThen (put_inbound E (stored E w (Some ''pending_connection'') (Some rid))) (\<lambda>_. ret IQuarantined)
         | SenderUnknown \<Rightarrow>
             andThen (put_inbound E (stored E w (Some ''not_connected'') None)) (\<lambda>_. ret IQuarantined))))"

definition ingest_message :: "env \<Rightarrow> json \<Rightarrow> (string \<times> ingest_outcome) step" where
  "ingest_message E message =
     andThen (lift (parse_wire message)) (\<lambda>w. andThen (ingest_wire E w) (\<lambda>r. ret (w_id w, r)))"

text \<open>\<^verbatim>\<open>sync_inbox\<close>: one bad message does not stop the others, at most a hundred are acknowledged.\<close>

fun sync_ingest :: "env \<Rightarrow> json list \<Rightarrow> string list \<Rightarrow> nat \<Rightarrow> store \<Rightarrow> (exn + string list \<times> nat) \<times> store" where
  "sync_ingest E [] acks bad s = (Inr (acks, bad), s)"
| "sync_ingest E (m # ms) acks bad s = (case ingest_message E m s of
     Inl e \<Rightarrow> if is_value_error e \<or> (case e of TypeError _ \<Rightarrow> True | _ \<Rightarrow> False)
              then sync_ingest E ms acks (Suc bad) s else (Inl e, s)
   | Inr ((mid, _), s') \<Rightarrow>
       if 100 \<le> Suc (length acks) then (Inr (acks @ [mid], bad), s')
       else sync_ingest E ms (acks @ [mid]) bad s')"

section \<open>The inbox\<close>

fun filterE :: "('a \<Rightarrow> exn + bool) \<Rightarrow> 'a list \<Rightarrow> exn + 'a list" where
  "filterE f [] = Inr []"
| "filterE f (x # xs) = bindE (f x) (\<lambda>b. bindE (filterE f xs) (\<lambda>ys. Inr (if b then x # ys else ys)))"

definition last_n :: "nat \<Rightarrow> 'a list \<Rightarrow> 'a list" where
  "last_n n xs = drop (length xs - n) xs"

definition owned_tasks :: "store \<Rightarrow> string \<Rightarrow> task list" where
  "owned_tasks s session = filter (\<lambda>t. session_owned (t_session t) session) (tall (tasks s))"

definition listed :: "env \<Rightarrow> store \<Rightarrow> string \<Rightarrow> string option \<Rightarrow> inbound \<Rightarrow> exn + bool" where
  "listed E s session task m =
     bindE (message_visible E s True m session) (\<lambda>visible.
       Inr (visible \<and> (case task of None \<Rightarrow> True
         | Some t \<Rightarrow> t \<in> set (map t_id (owned_tasks s session))
                     \<and> inbound_local_task s m session = Some (Some t))))"

definition inbox_messages :: "env \<Rightarrow> string \<Rightarrow> string option \<Rightarrow> inbound list step" where
  "inbox_messages E session task =
     andThen (ensure_peer_reviews E session) (\<lambda>_. reads (\<lambda>s.
     andThen (lift (filterE (listed E s session task) (tall (inbox s)))) (\<lambda>ms.
     ret (last_n 100 (sort_key (\<lambda>m. (i_received m, w_id m)) ms)))))"

definition pending_peer_reviews :: "env \<Rightarrow> string \<Rightarrow> peer_review list step" where
  "pending_peer_reviews E session =
     andThen (ensure_peer_reviews E session) (\<lambda>_. reads (\<lambda>s.
     ret (last_n 100 (filter (\<lambda>r. owned (rv_owner r) session \<and> rv_status r = RvPending
       \<and> \<not> peer_blocked E s (rv_sender r) session
       \<and> \<not> message_tombstone E s session (rv_sender r) (rv_id r)) (tall (reviews s))))))"

definition inbox_view :: "env \<Rightarrow> string \<Rightarrow> string option \<Rightarrow> (inbound list \<times> peer_review list) step" where
  "inbox_view E session task =
     andThen (lift (owner_ok session)) (\<lambda>_.
     andThen (inbox_messages E session task) (\<lambda>ms.
     andThen (pending_peer_reviews E session) (\<lambda>rs. ret (ms, rs))))"

section \<open>Review\<close>

definition review_record :: "store \<Rightarrow> string \<Rightarrow> string \<Rightarrow> exn + peer_review" where
  "review_record s mid session =
     (case filter (\<lambda>r. rv_id r = mid \<and> owned (rv_owner r) session) (tall (reviews s)) of
        [r] \<Rightarrow> Inr r | _ \<Rightarrow> refuse ''No peer review for this owner and message'')"

definition review_blocked :: "env \<Rightarrow> store \<Rightarrow> peer_review \<Rightarrow> string \<Rightarrow> bool" where
  "review_blocked E s r session \<longleftrightarrow> peer_blocked E s (rv_sender r) session
     \<or> message_tombstone E s session (rv_sender r) (rv_id r)"

definition preview_json :: "peer_review \<Rightarrow> json" where
  "preview_json r = JObj [(''message_id'', JStr (rv_id r)), (''sender_urn'', JStr (rv_sender r)),
     (''kind'', JStr (rv_kind r)), (''received_at'', jtime (rv_received r)),
     (''status'', JStr (case rv_status r of RvPending \<Rightarrow> ''pending'' | RvApproved \<Rightarrow> ''approved''
        | RvRejected \<Rightarrow> ''rejected'')), (''fingerprint'', JStr (rv_fingerprint r)),
     (''text'', JStr (w_text (rv_wire r))), (''text_truncated'', JBool False)]"

definition review_preview :: "env \<Rightarrow> json \<Rightarrow> string \<Rightarrow> json step" where
  "review_preview E midj session =
     andThen (lift (owner_ok session)) (\<lambda>_.
     andThen (lift (ident_ok ''message_id'' midj)) (\<lambda>mid.
     andThen (ensure_peer_reviews E session) (\<lambda>_. reads (\<lambda>s.
     andThen (lift (review_record s mid session)) (\<lambda>r.
     andThen (refuse_if (review_blocked E s r session) ''Blocked peer content is unavailable for review'') (\<lambda>_.
     andThen (refuse_if (200000 < length (canonical (preview_json r)))
        ''Complete peer preview exceeds the paired response limit'') (\<lambda>_.
     andThen (modify (\<lambda>s. s\<lparr>previews := tput (skey E [session, mid]) (rv_fingerprint r) (previews s)\<rparr>)) (\<lambda>_.
     ret (preview_json r)))))))))"

definition review_decision :: "json \<Rightarrow> exn + review_status" where
  "review_decision j = (case j of
     JStr d \<Rightarrow> if d = ''approve'' then Inr RvApproved else if d = ''reject'' then Inr RvRejected
              else refuse ''Review decision must be approve or reject''
   | JArr _ \<Rightarrow> Inl (TypeError ''unhashable type'')
   | JObj _ \<Rightarrow> Inl (TypeError ''unhashable type'')
   | _ \<Rightarrow> refuse ''Review decision must be approve or reject'')"

definition release_reviewed :: "env \<Rightarrow> string \<Rightarrow> review_status \<Rightarrow> unit step" where
  "release_reviewed E mid st = reads (\<lambda>s. case tget mid (inbox s) of
       None \<Rightarrow> ret ()
     | Some m \<Rightarrow>
         if i_reason m \<noteq> Some ''pending_review'' then ret ()
         else if st = RvApproved then
           (let m' = m\<lparr>i_quarantined := False, i_reason := None\<rparr> in
            andThen (put_inbound E m') (\<lambda>_. andThen (ingest_v2_record E m') (\<lambda>_. ret ())))
         else put_inbound E (m\<lparr>i_reason := Some ''rejected_review''\<rparr>))"

definition drain_peer :: "env \<Rightarrow> string \<Rightarrow> string \<Rightarrow> unit step" where
  "drain_peer E session sender = reads (\<lambda>s.
     for_each (filter (\<lambda>c. owned (v_owner c) session \<and> v_peer c = sender) (tall (collaborations s)))
       (\<lambda>c. andThen (v2_drain E c) (\<lambda>c'. andThen (put_collaboration E c') (\<lambda>_. ret ()))))"

definition decided_review :: "env \<Rightarrow> peer_review \<Rightarrow> review_status \<Rightarrow> peer_review" where
  "decided_review E r st = r\<lparr>rv_status := st, rv_decided := Some (now E)\<rparr>"

definition review_key_of :: "env \<Rightarrow> peer_review \<Rightarrow> string" where
  "review_key_of E r = skey E [rv_owner r, rv_sender r, rv_id r]"

text \<open>\<^verbatim>\<open>_review_peer\<close>: a decision is final, and an approval needs a preview of this very content.\<close>

definition review_message :: "env \<Rightarrow> json \<Rightarrow> json \<Rightarrow> string \<Rightarrow> peer_review step" where
  "review_message E midj dj session =
     andThen (lift (ident_ok ''message_id'' midj)) (\<lambda>mid.
     andThen (lift (review_decision dj)) (\<lambda>st. reads (\<lambda>s.
     andThen (lift (review_record s mid session)) (\<lambda>r.
     if rv_status r \<noteq> RvPending then
       (if rv_status r \<noteq> st then raise (ValueError ''Peer review is already finally decided'') else ret r)
     else
       andThen (refuse_if (review_blocked E s r session) ''Blocked peer content cannot be approved'') (\<lambda>_.
       andThen (refuse_if (st = RvApproved \<and> tget (skey E [session, mid]) (previews s) \<noteq> Some (rv_fingerprint r))
          ''Preview the complete current peer message before approving'') (\<lambda>_.
       let r' = decided_review E r st in
       andThen (modify (\<lambda>s. s\<lparr>reviews := tput (review_key_of E r) r' (reviews s)\<rparr>)) (\<lambda>_.
       andThen (release_reviewed E mid st) (\<lambda>_.
       andThen (drain_peer E session (rv_sender r)) (\<lambda>_.
       andThen (audit E ''peer_content_reviewed'' [(''message_id'', JStr mid), (''owner_id'', JStr (rv_owner r))]) (\<lambda>_.
       ret r'))))))))))"

definition review_peer :: "env \<Rightarrow> json \<Rightarrow> json \<Rightarrow> string \<Rightarrow> peer_review step" where
  "review_peer E midj dj session =
     andThen (lift (owner_ok session)) (\<lambda>_.
     andThen (ensure_peer_reviews E session) (\<lambda>_. review_message E midj dj session))"

section \<open>The attention feed\<close>

definition refresh_item :: "env \<Rightarrow> string \<Rightarrow> attention_item \<Rightarrow> unit step" where
  "refresh_item E session i =
     (if at_owner i \<noteq> principal session \<or> at_source_kind i \<noteq> ''inbound'' then ret ()
      else reads (\<lambda>s. case tget (at_subject i) (inbox s) of
        None \<Rightarrow> ret ()
      | Some m \<Rightarrow> andThen (lift (message_visible E s True m session)) (\<lambda>visible.
          if visible \<or> at_state i \<noteq> AtOpen then ret ()
          else attention_put E (at_owner i) (at_source_kind i) (at_source_id i)
            ((notice_of i)\<lparr>nt_summary := T_at_collab_unavailable, nt_state := AtSuperseded,
              nt_revision := JStr ''content_unavailable''\<rparr>))))"

definition refresh_attention :: "env \<Rightarrow> string \<Rightarrow> unit step" where
  "refresh_attention E session =
     andThen (ensure_peer_reviews E session) (\<lambda>_.
     andThen (reads (\<lambda>s. for_each (tall (attention s)) (refresh_item E session))) (\<lambda>_.
     andThen (reads (\<lambda>s. for_each (filter (\<lambda>a. session_owned (p_session a) session) (tall (approvals s)))
        (\<lambda>a. attention_approval E a True))) (\<lambda>_.
     andThen (inbox_messages E session None) (\<lambda>ms.
     andThen (for_each ms (\<lambda>m. attention_inbound E m (Some session))) (\<lambda>_.
     andThen (reads (\<lambda>s. for_each (filter (\<lambda>c. owned (v_owner c) session) (tall (collaborations s)))
        (attention_collaboration E))) (\<lambda>_.
     andThen (reads (\<lambda>s. for_each (filter (\<lambda>r. owned (wp_owner r) session) (tall (workers s)))
        (worker_attention E))) (\<lambda>_.
     andThen (reads (\<lambda>s. for_each (filter (\<lambda>o'. session_owned (o_session o') session) (tall (operations s)))
        (attention_v1 E))) (\<lambda>_.
     reads (\<lambda>s. for_each (filter (\<lambda>z. owned (z_owner z) session) (tall (v2_operations s)))
        (attention_v2 E))))))))))"

record attention_page =
  ap_items :: "attention_item list"
  ap_cursor :: int
  ap_more :: bool

definition feed_after :: "store \<Rightarrow> string \<Rightarrow> int \<Rightarrow> attention_item list" where
  "feed_after s owner after = sort_key at_revision
     (filter (\<lambda>i. at_owner i = owner \<and> after < at_revision i) (tall (attention s)))"

definition attention_page_of :: "env \<Rightarrow> store \<Rightarrow> string \<Rightarrow> int \<Rightarrow> nat \<Rightarrow> exn + attention_page" where
  "attention_page_of E s owner after limit =
     (let high = counter E s owner; items = feed_after s owner after; page = take limit items;
          more = limit < length items
      in if high < after then refuse ''Attention cursor is ahead of this owner's feed''
         else Inr \<lparr>ap_items = page, ap_cursor = (if more then at_revision (last page) else high), ap_more = more\<rparr>)"

definition attention_feed :: "env \<Rightarrow> string \<Rightarrow> json \<Rightarrow> json \<Rightarrow> attention_page step" where
  "attention_feed E session after limit =
     andThen (lift (owner_ok session)) (\<lambda>_.
     case (after, limit) of
       (JInt a, JInt l) \<Rightarrow>
         if 0 \<le> a \<and> a \<le> max_cursor \<and> 1 \<le> l \<and> l \<le> 100 then
           andThen (refresh_attention E session) (\<lambda>_. reads (\<lambda>s.
           lift (attention_page_of E s (principal session) a (nat l))))
         else raise (ValueError ''Attention requires a nonnegative integer cursor and a limit of 1-100'')
     | _ \<Rightarrow> raise (ValueError ''Attention requires a nonnegative integer cursor and a limit of 1-100''))"

section \<open>Importing a proposal\<close>

definition pair_of :: "json \<Rightarrow> exn + string \<times> json" where
  "pair_of j = (case j of JArr [JStr k, v] \<Rightarrow> Inr (k, v) | _ \<Rightarrow> Inl (TypeError ''dictionary update sequence''))"

definition dict_value :: "json \<Rightarrow> exn + fields" where
  "dict_value j = (case j of
     JObj kvs \<Rightarrow> Inr kvs
   | JArr xs \<Rightarrow> bindE (mapE pair_of xs) (\<lambda>ps. Inr (dict_json ps))
   | JStr s \<Rightarrow> if s = [] then Inr [] else refuse ''dictionary update sequence''
   | _ \<Rightarrow> Inl (TypeError ''not iterable''))"

definition local_participant :: "env \<Rightarrow> store \<Rightarrow> string \<Rightarrow> string \<Rightarrow> json \<Rightarrow> exn + string" where
  "local_participant E s session sender j = (case j of
     JStr p \<Rightarrow>
       (let urn = (if p = ''self'' then sender else p) in
        if Some urn = local_urn E then Inr ''self''
        else case filter (\<lambda>c. c_urn c = urn) (rev (own_contacts s session)) of
          c # _ \<Rightarrow> Inr (c_id c)
        | [] \<Rightarrow> refuse ''Resolve every proposal participant before importing this snapshot'')
   | JArr _ \<Rightarrow> Inl (TypeError ''unhashable type'')
   | JObj _ \<Rightarrow> Inl (TypeError ''unhashable type'')
   | _ \<Rightarrow> refuse ''Resolve every proposal participant before importing this snapshot'')"

definition proposal_packet :: "string \<Rightarrow> exn + fields" where
  "proposal_packet text = (case json_loads text of
     Some (JObj kvs) \<Rightarrow>
       if set (jkeys kvs) = set [''protocol'', ''capability'', ''payload'', ''text'']
          \<and> jfield ''protocol'' kvs = JStr ''agent-comm-collaboration/v1''
          \<and> jfield ''capability'' kvs = JStr ''propose_meeting''
       then dict_value (jfield ''payload'' kvs)
       else refuse ''This is not a supported structured peer proposal''
   | Some _ \<Rightarrow> refuse ''This is not a supported structured peer proposal''
   | None \<Rightarrow> refuse ''Expecting value'')"

text \<open>The proposal a message carries, with its participants as local contact identifiers.\<close>

definition imported_meeting :: "env \<Rightarrow> store \<Rightarrow> string \<Rightarrow> string \<Rightarrow> string \<Rightarrow> string \<Rightarrow> exn + meeting" where
  "imported_meeting E s session sender sender_id text =
     bindE (proposal_packet text) (\<lambda>payload.
     bindE (case jget ''participant_ids'' payload of None \<Rightarrow> Inr [] | Some j \<Rightarrow> py_iter j) (\<lambda>ps.
     bindE (mapE (local_participant E s session sender) ps) (\<lambda>mapped.
     bindE (validate_action (JObj [(''capability'', JStr ''propose_meeting''),
        (''recipient_ids'', jstrs [sender_id]),
        (''payload'', JObj (jset ''participant_ids'' (jstrs mapped) payload))])) (\<lambda>a.
     case a_payload a of Meeting m \<Rightarrow> Inr m | _ \<Rightarrow> refuse ''action.payload''))))"

definition importable :: "env \<Rightarrow> string \<Rightarrow> inbound option \<Rightarrow> exn + inbound" where
  "importable E tid mo = (case mo of
     None \<Rightarrow> refuse ''No current inbound proposal for this task''
   | Some m \<Rightarrow>
       if w_task m \<noteq> Some tid then refuse ''No current inbound proposal for this task''
       else (case w_deadline m of
         None \<Rightarrow> Inr m
       | Some d \<Rightarrow> bindE (store_instant d) (\<lambda>e.
           if e \<le> now E then refuse ''No current inbound proposal for this task'' else Inr m)))"

definition import_proposal :: "env \<Rightarrow> string \<Rightarrow> string \<Rightarrow> string \<Rightarrow> (meeting \<times> string) step" where
  "import_proposal E tid mid session = reads (\<lambda>s.
     andThen (lift (find_task s tid session)) (\<lambda>t.
     andThen (lift (importable E tid (tget mid (inbox s)))) (\<lambda>m.
     andThen (refuse_if (i_quarantined m \<or> \<not> can_send_to E s (w_sender m) session)
        ''Proposal sender is not a connected contact'') (\<lambda>_.
     case filter (\<lambda>c. c_urn c = w_sender m) (rev (own_contacts s session)) of
       [] \<Rightarrow> raise (ValueError ''Proposal sender is not an authorized task participant'')
     | c # _ \<Rightarrow>
         if c_id c \<notin> set (sc_recipient_ids (t_scope t)) \<union> set (sc_participant_ids (t_scope t))
         then raise (ValueError ''Proposal sender is not an authorized task participant'')
         else andThen (lift (imported_meeting E s session (w_sender m) (c_id c) (w_text m))) (\<lambda>p.
           let k = proposal_key E tid (m_proposal_id p) in
           if (case tget k (proposals s) of
                 Some old \<Rightarrow> pr_payload old \<noteq> p \<and> m_version p \<le> m_version (pr_payload old) | None \<Rightarrow> False)
           then raise (ValueError ''Received proposal is stale or conflicts with the current version'')
           else andThen (put_proposal k \<lparr>pr_task = tid, pr_payload = p, pr_source = Some mid\<rparr>) (\<lambda>_.
             andThen (audit E ''peer_proposal_recorded'' [(''task_id'', JStr tid), (''message_id'', JStr mid),
                (''owner_session'', JStr session)]) (\<lambda>_.
             ret (p, c_id c))))))))"

section \<open>Replay-safe entry points\<close>

definition hex64 :: "string \<Rightarrow> bool" where
  "hex64 x \<longleftrightarrow> is_sha256 x"

definition mutation_required :: "string \<Rightarrow> string list option" where
  "mutation_required method = map_of
     [(''contacts.add'', [''contact_id'', ''aliases'', ''urn'']),
      (''approval.respond'', [''approval_id'', ''decision'']),
      (''contacts.respond'', [''request_id'', ''decision'']),
      (''contacts.block'', [''urn'']), (''contacts.unblock'', [''urn'']),
      (''inbox.review'', [''message_id'', ''decision'']),
      (''messages.send'', [''recipient_urn'', ''text'']), (''inbox.mark_read'', [''message_id''])] method"

definition mutation_optional :: "string \<Rightarrow> string list" where
  "mutation_optional method =
     (if method = ''contacts.respond'' then [''contact_id'', ''aliases'']
      else if method = ''messages.send'' then [''message_id''] else [])"

definition mutation_params :: "string \<Rightarrow> json \<Rightarrow> exn + fields" where
  "mutation_params method params = (case (mutation_required method, params) of
     (Some req, JObj kvs) \<Rightarrow>
       if set req \<subseteq> set (jkeys kvs) \<and> set (jkeys kvs) \<subseteq> set req \<union> set (mutation_optional method)
       then Inr kvs else refuse ''Unexpected remote mutation or parameters''
   | _ \<Rightarrow> refuse ''Unexpected remote mutation or parameters'')"

definition run_mutation :: "env \<Rightarrow> string \<Rightarrow> fields \<Rightarrow> string \<Rightarrow> mutation_result step" where
  "run_mutation E method kvs session =
     (if method = ''contacts.add'' then remote_add_contact E kvs session
      else if method = ''contacts.respond'' then
        andThen (respond_contact E kvs session) (\<lambda>(r, st). ret (MResponse r st))
      else if method = ''contacts.block'' \<or> method = ''contacts.unblock'' then
        andThen (set_peer_block E (jfield ''urn'' kvs) (method = ''contacts.block'') session)
          (\<lambda>(u, b, n, st). ret (MBlock u b n st))
      else if method = ''inbox.review'' then
        andThen (review_message E (jfield ''message_id'' kvs) (jfield ''decision'' kvs) session)
          (\<lambda>r. ret (MReview (rv_id r) (rv_sender r)
             (if rv_status r = RvApproved then ''approved'' else ''rejected'') (rv_fingerprint r)))
      else if method = ''messages.send'' then
        andThen (send_message E kvs session) (\<lambda>(m, st). ret (MSent m st))
      else if method = ''inbox.mark_read'' then
        andThen (mark_read E (jfield ''message_id'' kvs) session) (\<lambda>m. ret (MRead m))
      else andThen (remote_respond_approval E kvs session) (\<lambda>(a, yes). ret (MApproval a yes)))"

definition replay_error :: exn where
  "replay_error = RemoteMutationConflict ''This request ID was already used for different contents or owner''"

definition remote_mutation ::
  "env \<Rightarrow> string \<Rightarrow> json \<Rightarrow> string \<Rightarrow> string \<Rightarrow> string \<Rightarrow> time \<Rightarrow> mutation_result step" where
  "remote_mutation E method params session rkey fp valid_until =
     andThen (lift (owner_ok session)) (\<lambda>_.
     andThen (refuse_if (\<not> hex64 rkey \<or> \<not> hex64 fp) ''A stable authenticated remote request is required'') (\<lambda>_.
     andThen (lift (mutation_params method params)) (\<lambda>kvs.
     andThen (refuse_if (valid_until \<le> now E)
        ''The remote request or local pairing expired before the mutation could start'') (\<lambda>_. reads (\<lambda>s.
     case tget rkey (mutations s) of
       Some old \<Rightarrow>
         if mu_fingerprint old \<noteq> fp \<or> mu_owner old \<noteq> principal session then raise replay_error
         else ret (mu_result old)
     | None \<Rightarrow>
         andThen (run_mutation E method kvs session) (\<lambda>r.
         andThen (modify (\<lambda>s. s\<lparr>mutations := tput rkey
            \<lparr>mu_fingerprint = fp, mu_owner = principal session, mu_result = r\<rparr> (mutations s)\<rparr>)) (\<lambda>_.
         ret r)))))))"

text \<open>
  \<^verbatim>\<open>execute_owner_once\<close>: the claim is committed before the callback runs, its result after. The
  callback opens transactions of its own, so it is a function of the committed store.
\<close>

datatype claim = Claimed | Replayed json | Uncertain

definition owner_action_claim :: "env \<Rightarrow> string \<Rightarrow> string \<Rightarrow> string \<Rightarrow> time \<Rightarrow> claim step" where
  "owner_action_claim E session rkey fp valid_until =
     andThen (lift (owner_ok session)) (\<lambda>_.
     andThen (refuse_if (\<not> hex64 rkey \<or> \<not> hex64 fp) ''A trusted stable owner request is required'') (\<lambda>_.
     andThen (refuse_if (valid_until \<le> now E) ''Owner request or local pairing expired before execution'') (\<lambda>_.
     reads (\<lambda>s. case tget rkey (owner_actions s) of
       Some r \<Rightarrow>
         if oa_fingerprint r \<noteq> fp \<or> oa_owner r \<noteq> principal session then raise replay_error
         else ret (case oa_result r of Some j \<Rightarrow> Replayed j | None \<Rightarrow> Uncertain)
     | None \<Rightarrow>
         andThen (modify (\<lambda>s. s\<lparr>owner_actions := tput rkey \<lparr>oa_owner = principal session,
            oa_fingerprint = fp, oa_result = None, oa_created = now E\<rparr> (owner_actions s)\<rparr>)) (\<lambda>_.
         ret Claimed)))))"

definition owner_action_complete :: "env \<Rightarrow> string \<Rightarrow> string \<Rightarrow> string \<Rightarrow> json \<Rightarrow> unit step" where
  "owner_action_complete E session rkey fp result =
     modify (\<lambda>s. s\<lparr>owner_actions := tput rkey \<lparr>oa_owner = principal session, oa_fingerprint = fp,
       oa_result = Some result, oa_created = now E\<rparr> (owner_actions s)\<rparr>)"

definition execute_owner_once :: "env \<Rightarrow> string \<Rightarrow> (store \<Rightarrow> (exn + json) \<times> store) \<Rightarrow> string \<Rightarrow> string
    \<Rightarrow> time \<Rightarrow> store \<Rightarrow> (exn + claim) \<times> store" where
  "execute_owner_once E session callback rkey fp valid_until s =
     (case owner_action_claim E session rkey fp valid_until s of
        Inl e \<Rightarrow> (Inl e, s)
      | Inr (Claimed, s1) \<Rightarrow> (case callback s1 of
          (Inl e, s2) \<Rightarrow> (Inl e, s2)
        | (Inr j, s2) \<Rightarrow> (case owner_action_complete E session rkey fp j s2 of
            Inl e \<Rightarrow> (Inl e, s2) | Inr (_, s3) \<Rightarrow> (Inr (Replayed j), s3)))
      | Inr (c, s1) \<Rightarrow> (Inr c, s1))"

section \<open>Upgrades\<close>

definition legacy_accept :: "v2_operation \<Rightarrow> bool" where
  "legacy_accept z \<longleftrightarrow> z_kind z = VAccept \<and> v_decision (z_decision z) = Ask
     \<and> z_review_version z \<noteq> Some 2 \<and> z_status z \<in> {OAwaiting, OReady}"

definition upgrade_reason :: string where
  "upgrade_reason = ''upgrade_requires_full_terms_review''"

definition retire_legacy_approval :: "env \<Rightarrow> v2_operation \<Rightarrow> unit step" where
  "retire_legacy_approval E z = (case z_approval z of
     None \<Rightarrow> ret ()
   | Some aid \<Rightarrow> reads (\<lambda>s. case tget aid (approvals s) of
       None \<Rightarrow> ret ()
     | Some a \<Rightarrow>
         if payload_kind (p_payload a) = ''collaboration_v2'' \<and> p_subject a = z_id z
            \<and> (undecided a \<or> p_status a = AApproved)
         then andThen (put_approval E (retire a upgrade_reason)) (\<lambda>a'. attention_approval E a' True)
         else ret ()))"

definition invalidate_legacy_accepts :: "env \<Rightarrow> unit step" where
  "invalidate_legacy_accepts E = reads (\<lambda>s.
     for_each (filter legacy_accept (tall (v2_operations s))) (\<lambda>z.
       andThen (put_v2_operation E (z\<lparr>z_status := ODenied, z_invalid := Some upgrade_reason\<rparr>)) (\<lambda>_.
       andThen (retire_legacy_approval E z) (\<lambda>_.
       audit E ''legacy_accept_approval_invalidated'' ([(''operation_id'', JStr (z_id z)),
         (''approval_id'', jstr_opt (z_approval z)), (''owner_id'', JStr (z_owner z))])))))"

end
