(* ===== verification/V2_Operations.thy ===== *)
theory V2_Operations
  imports Inbox_Ops
begin

text \<open>
  The local side of the bilateral protocol (\<^verbatim>\<open>collaboration_v2.py\<close>): preparing an operation, its
  view, and its dispatch in two transactions, the reservation of the exact wire packet and the
  submission to the helper. The capability of a worker run (\<^verbatim>\<open>worker.TaskRunContext\<close>) is checked here
  because the dispatch takes it.
\<close>

section \<open>Views\<close>

record v2_view =
  vv_id :: string
  vv_task :: string
  vv_collaboration :: string
  vv_kind :: v2_kind
  vv_status :: op_status
  vv_text :: string
  vv_delivery :: "delivery option"
  vv_decision :: decision
  vv_reasons :: "string list"
  vv_approval :: "string option"

definition plain_view :: "v2_operation \<Rightarrow> v2_view" where
  "plain_view z = \<lparr>vv_id = z_id z, vv_task = z_task z, vv_collaboration = z_collaboration z,
     vv_kind = z_kind z, vv_status = z_status z, vv_text = z_text z, vv_delivery = z_delivery z,
     vv_decision = (if z_status z = ODenied then Deny else if z_status z = OAwaiting then Ask else Allow),
     vv_reasons = v_reasons (z_decision z), vv_approval = z_approval z\<rparr>"

definition known_collaboration :: "store \<Rightarrow> v2_operation \<Rightarrow> collaboration option" where
  "known_collaboration s z = (case tget (z_collaboration z) (collaborations s) of
     Some c \<Rightarrow> Some c | None \<Rightarrow> z_new z)"

definition v2_operation_view :: "env \<Rightarrow> v2_operation \<Rightarrow> v2_view step" where
  "v2_operation_view E z =
     andThen (if z_status z \<in> {OAccepted, ODenied} then ret True else v2_operation_current E z) (\<lambda>cur.
     let v = (if cur then plain_view z
              else (plain_view z)\<lparr>vv_decision := Deny, vv_reasons := [''revoked_expired_or_superseded'']\<rparr>) in
     reads (\<lambda>s. case known_collaboration s z of
       None \<Rightarrow> ret v
     | Some c \<Rightarrow> andThen (collaboration_review_safe E c (z_owner z)) (\<lambda>safe.
         ret (if safe then v
              else v\<lparr>vv_text := [], vv_decision := Deny, vv_reasons := [''peer_content_unavailable'']\<rparr>))))"

definition find_collaboration :: "store \<Rightarrow> string \<Rightarrow> string \<Rightarrow> exn + collaboration" where
  "find_collaboration s cid session =
     bindE (v2_identifier (JStr cid)) (\<lambda>i. case tget i (collaborations s) of
       Some c \<Rightarrow> if owned (v_owner c) session then Inr c
                else refuse ''Collaboration is not available to this owner''
     | None \<Rightarrow> refuse ''Collaboration is not available to this owner'')"

section \<open>Preparing an operation\<close>

definition max_maintenance :: int where
  "max_maintenance = 32"

definition day :: int where
  "day = 86400 * sec"

definition draft :: "env \<Rightarrow> string \<Rightarrow> string \<Rightarrow> contact \<Rightarrow> string \<Rightarrow> packet option \<Rightarrow> string \<Rightarrow> collaboration" where
  "draft E cid tid peer initiator offer session =
     \<lparr>v_id = cid, v_owner = principal session, v_task = tid, v_peer_id = c_id peer, v_peer = c_urn peer,
      v_initiator = initiator, v_phase = ''invited'', v_joined = False, v_terms = None,
      v_acceptances = [], v_agreement = None, v_synced = False, v_withdraw = False, v_out = 0,
      v_last_out = None, v_in = 0, v_last_in = None, v_permit = None, v_created = now E,
      v_invitation = offer, v_waiting = None, v_blocked_at = None, v_closure = None, v_cancel = None,
      v_change = None, v_sync_after = None, v_source = None\<rparr>"

text \<open>The peer of an invitation to send, or of an invitation to join, with the received packet.\<close>

definition invite_peer :: "store \<Rightarrow> fields \<Rightarrow> string \<Rightarrow> exn + contact \<times> packet option" where
  "invite_peer s payload session =
     bindE (exact_fields payload [''peer_id'']) (\<lambda>_.
     bindE (v2_identifier (jfield ''peer_id'' payload)) (\<lambda>pid.
     bindE (with_error (find_contact s session pid) ''Peer must be a confirmed recipient of the local mandate'') (\<lambda>c.
     Inr (c, None))))"

definition join_peer :: "env \<Rightarrow> store \<Rightarrow> string \<Rightarrow> task \<Rightarrow> fields \<Rightarrow> string \<Rightarrow> exn + contact \<times> packet option" where
  "join_peer E s cid t payload session =
     bindE (exact_fields payload [''message_id'']) (\<lambda>_.
     bindE (v2_identifier (jfield ''message_id'' payload)) (\<lambda>mid.
     bindE (with_error (tget mid (invitations s))
        ''No current authenticated invitation matches this task'') (\<lambda>iv.
     let p = iv_packet iv in
     bindE (if pk_collaboration p \<noteq> cid then Inr False
            else bindE (instant (pk_expires p)) (\<lambda>e. Inr (now E < e))) (\<lambda>ok.
     bindE (need ok ''No current authenticated invitation matches this task'') (\<lambda>_.
     case filter (\<lambda>c. c_urn c = pk_sender p) (own_contacts s session) of
       [c] \<Rightarrow>
         if jfield ''topic'' (pk_payload p) \<noteq> JStr (sc_topic (t_scope t))
         then refuse ''Invitation topic differs from the local mandate'' else Inr (c, Some p)
     | _ \<Rightarrow> refuse ''Resolve a unique confirmed peer before joining'')))))"

datatype v2_outcome = VDenied string | VVerdict verdict | VView v2_view

text \<open>Opening a collaboration: a refusal or the drafted record.\<close>

definition open_collaboration :: "env \<Rightarrow> store \<Rightarrow> task \<Rightarrow> string \<Rightarrow> v2_kind \<Rightarrow> fields \<Rightarrow> string
    \<Rightarrow> exn + (string + collaboration)" where
  "open_collaboration E s t cid k payload session =
     bindE (exact_fields payload [if k = VInvite then ''peer_id'' else ''message_id'']) (\<lambda>_.
     if \<not> live E t then Inr (Inl ''task_not_active'')
     else if tget cid (collaborations s) \<noteq> None then refuse ''This collaboration is already bound''
     else bindE (if k = VInvite then invite_peer s payload session
                 else join_peer E s cid t payload session) (\<lambda>(peer, offer).
     if c_id peer \<notin> set (sc_recipient_ids (t_scope t))
     then refuse ''Peer must be a confirmed recipient of the local mandate''
     else if \<not> can_send_to E s (c_urn peer) session then Inr (Inl ''contact_not_connected'')
     else bindE (validate_urn (local_or_empty E)) (\<lambda>u.
       if c_urn peer = u then refuse ''A collaboration requires a distinct peer''
       else Inr (Inr (draft E cid (t_id t) peer (if k = VInvite then u else c_urn peer) offer session)))))"

definition bound_collaboration :: "env \<Rightarrow> string \<Rightarrow> string \<Rightarrow> v2_kind \<Rightarrow> string \<Rightarrow> (string + collaboration) step" where
  "bound_collaboration E tid cid k session = reads (\<lambda>s.
     andThen (lift (find_collaboration s cid session)) (\<lambda>c.
     if v_task c \<noteq> tid then raise (ValueError ''Shared collaboration ID cannot select another local mandate'')
     else andThen (collaboration_review_safe E c session) (\<lambda>safe.
       ret (if \<not> safe \<and> k \<notin> set maintenance_kinds then Inl ''peer_review_required_or_blocked'' else Inr c))))"

text \<open>The authority of an operation: a refusal, or its verdict and deadline.\<close>

definition is_recovery :: "env \<Rightarrow> task \<Rightarrow> v2_kind \<Rightarrow> bool" where
  "is_recovery E t k \<longleftrightarrow> k \<in> set recovery_kinds \<and> (\<not> live E t \<or> sc_max_actions (t_scope t) \<le> t_used t)"

definition ask_verdict :: "string \<Rightarrow> verdict" where
  "ask_verdict reason = \<lparr>v_decision = Ask, v_reasons = [reason], v_delta = []\<rparr>"

definition v2_authority :: "env \<Rightarrow> store \<Rightarrow> task \<Rightarrow> collaboration \<Rightarrow> v2_kind \<Rightarrow> action option
    \<Rightarrow> v2_outcome + verdict \<times> time" where
  "v2_authority E s t c k act =
     (if k \<in> set maintenance_kinds then
        (case v_permit c of
           Some p \<Rightarrow> if permit_live E (v_permit c) then Inr (maintenance_verdict, pm_until p)
                    else Inl (VDenied ''maintenance_permission_expired_or_exhausted'')
         | None \<Rightarrow> Inl (VDenied ''maintenance_permission_expired_or_exhausted''))
      else if is_recovery E t k then Inr (ask_verdict ''explicit_one_event_recovery'', now E + 900 * sec)
      else if \<not> live E t then Inl (VDenied ''task_not_active'')
      else if sc_max_actions (t_scope t) \<le> t_used t then Inl (VDenied ''action_limit_reached'')
      else (let v = (case act of Some a \<Rightarrow> evaluate_current E s t (action_json a)
                     | None \<Rightarrow> ask_verdict ''explicit_protocol_decision'')
            in if v_decision v \<in> {Deny, Clarify} then Inl (VVerdict v)
               else Inr (v, sc_expires_at (t_scope t))))"

definition accept_question :: "collaboration \<Rightarrow> fields \<Rightarrow> string" where
  "accept_question c wire = (let f = (\<lambda>k. obj_field k (v_terms c)) in
     T_q_v2_accept @ join nl [
       T_q_v2_pid @ canonical (f ''proposal_id''),
       T_q_v2_version @ canonical (f ''version''), T_q_v2_topic @ canonical (f ''topic''),
       T_q_v2_urns @ canonical (f ''participant_ids''), T_q_v2_start @ as_str (f ''start''),
       T_q_v2_end @ as_str (f ''end''), T_q_v2_digest @ as_str (jfield ''terms_digest'' wire),
       T_q_v2_scope, T_q_v2_basis])"

definition v2_question :: "collaboration \<Rightarrow> v2_operation \<Rightarrow> string" where
  "v2_question c z = T_q_v2_1 @ z_text z @
     (if z_kind z = VAccept then accept_question c (z_payload z) else []) @
     (case z_permit z of
        Some p \<Rightarrow> T_q_v2_join1 @ iso_z (pm_until p) @ T_q_v2_join2 | None \<Rightarrow> []) @
     (if z_recovery z then T_q_v2_rec1 @ iso_z (z_expires z) @ T_q_v2_rec2 else []) @ T_q_v2_end_q"

definition v2_request_digest :: "env \<Rightarrow> string \<Rightarrow> string \<Rightarrow> v2_kind \<Rightarrow> fields \<Rightarrow> string" where
  "v2_request_digest E tid cid k payload =
     digest E (JArr [JStr tid, JStr cid, JStr (v2_kind_str k), JObj payload])"

definition prepared :: "env \<Rightarrow> task \<Rightarrow> collaboration \<Rightarrow> v2_kind \<Rightarrow> fields \<Rightarrow> string \<Rightarrow> fields \<Rightarrow> action option
    \<Rightarrow> verdict \<Rightarrow> time \<Rightarrow> v2_operation" where
  "prepared E t c k payload oid wire act v expires =
     (let opening = k \<in> {VInvite, VJoin};
          z = \<lparr>z_id = oid, z_task = t_id t, z_owner = v_owner c, z_collaboration = v_id c, z_kind = k,
               z_payload = wire, z_action = act, z_revision = t_revision t,
               z_request = v2_request_digest E (t_id t) (v_id c) k payload,
               z_context = context_digest E c,
               z_status = (if v_decision v = Allow then OReady else OAwaiting), z_decision = v,
               z_expires = expires, z_maintenance = (k \<in> set maintenance_kinds),
               z_recovery = (k \<notin> set maintenance_kinds \<and> is_recovery E t k), z_created = now E,
               z_text = v2_text c k wire, z_hash = [], z_delivery = None,
               z_review_version = (if k = VAccept \<and> v_decision v = Ask then Some 2 else None),
               z_new = (if opening then Some c else None),
               z_permit = (if opening then Some \<lparr>pm_until = min (expires + day) (now E + 7 * day),
                  pm_max = max_maintenance, pm_used = 0, pm_revoked = False, pm_revoked_at = None\<rparr> else None),
               z_approval = None, z_approved_once = False, z_recovery_used = False, z_packet = None,
               z_reserved = None, z_invalid = None\<rparr>
      in z\<lparr>z_hash := digest E (v2_hash_json False z)\<rparr>)"

definition prepare_bound :: "env \<Rightarrow> task \<Rightarrow> collaboration \<Rightarrow> v2_kind \<Rightarrow> fields \<Rightarrow> string \<Rightarrow> string \<Rightarrow> v2_outcome step" where
  "prepare_bound E t c k payload oid session = reads (\<lambda>s.
     andThen (lift (v2_payload E s c k payload t)) (\<lambda>(wire, act).
     andThen (lift (if k \<in> {VInvite, VJoin} then Inr ()
                    else v2_precondition E c k wire (local_or_empty E))) (\<lambda>_.
     case v2_authority E s t c k act of
       Inl r \<Rightarrow> ret r
     | Inr (v, expires) \<Rightarrow>
         let z = prepared E t c k payload oid wire act v expires in
         andThen (if v_decision v = Ask
             then andThen (request_approval E oid session (PV2 (z_hash z)) (v2_question c z)
                    (min expires (now E + 900 * sec))) (\<lambda>a. ret (z\<lparr>z_approval := Some (pa_id a)\<rparr>))
             else ret z) (\<lambda>z.
         andThen (put_v2_operation E z) (\<lambda>_.
         andThen (v2_operation_view E z) (\<lambda>w. ret (VView w)))))))"

definition prepare_collaboration ::
  "env \<Rightarrow> string \<Rightarrow> json \<Rightarrow> json \<Rightarrow> string \<Rightarrow> json \<Rightarrow> string \<Rightarrow> v2_outcome step" where
  "prepare_collaboration E tid cidj oidj kind payload session =
     andThen (lift (owner_ok session)) (\<lambda>_.
     andThen (lift (v2_identifier cidj)) (\<lambda>cid.
     andThen (lift (v2_identifier oidj)) (\<lambda>oid.
     case (v2_kind_of kind, payload) of
       (Some k, JObj kvs) \<Rightarrow>
         andThen (lift (bounded 0 payload)) (\<lambda>_. reads (\<lambda>s.
         case tget oid (v2_operations s) of
           Some old \<Rightarrow>
             if \<not> owned (z_owner old) session \<or> z_request old \<noteq> v2_request_digest E tid cid k kvs
             then raise (ValueError ''Operation ID conflicts with an existing action or owner'')
             else andThen (v2_operation_view E old) (\<lambda>w. ret (VView w))
         | None \<Rightarrow>
             if tget oid (operations s) \<noteq> None
             then raise (ValueError ''Operation ID is already used by a v1 action'')
             else andThen (lift (find_task s tid session)) (\<lambda>t.
               andThen (if k \<in> {VInvite, VJoin} then lift (open_collaboration E s t cid k kvs session)
                        else bound_collaboration E tid cid k session) (\<lambda>r. case r of
                 Inl reason \<Rightarrow> ret (VDenied reason)
               | Inr c \<Rightarrow> prepare_bound E t c k kvs oid session))))
     | _ \<Rightarrow> raise (ValueError ''Provide a supported typed collaboration request''))))"

section \<open>The capability of a worker run\<close>

record run_context =
  rc_principal :: string
  rc_task :: string
  rc_task_revision :: int
  rc_policy_revision :: int
  rc_run :: string

definition context_session :: "run_context \<Rightarrow> string" where
  "context_session x = rc_principal x @ ''|worker:'' @ rc_run x"

definition worker_error :: string where
  "worker_error = ''Worker policy was paused, revoked, expired or replaced''"

definition check_worker_context :: "env \<Rightarrow> store \<Rightarrow> run_context \<Rightarrow> exn + worker_policy \<times> worker_run" where
  "check_worker_context E s x = (case tget (rc_task x) (workers s) of
     None \<Rightarrow> refuse worker_error
   | Some r \<Rightarrow>
       if wp_owner r \<noteq> rc_principal x \<or> wp_status r \<noteq> WActive \<or> wp_revision r \<noteq> rc_policy_revision x
          \<or> wp_task_revision r \<noteq> rc_task_revision x then refuse worker_error
       else bindE (worker_policy_current E s r) (\<lambda>cur.
         if \<not> cur then refuse worker_error
         else (case tget (rc_run x) (runs s) of
           None \<Rightarrow> refuse worker_error
         | Some run \<Rightarrow>
             if wr_status run \<noteq> RunRunning \<or> wr_revision run \<noteq> rc_policy_revision x \<or> wr_task run \<noteq> rc_task x
             then refuse worker_error else Inr (r, run))))"

definition reserve_worker_send :: "env \<Rightarrow> run_context \<Rightarrow> string \<Rightarrow> unit step" where
  "reserve_worker_send E x oid = reads (\<lambda>s.
     andThen (lift (check_worker_context E s x)) (\<lambda>(r, run).
     case wr_operation run of
       Some other \<Rightarrow>
         if other = oid then ret () else raise (ValueError ''One worker run can send at most one operation'')
     | None \<Rightarrow>
         if wl_sends (wp_policy r) \<le> wp_sends r then raise (ValueError ''Worker send budget exhausted'')
         else andThen (put_worker (r\<lparr>wp_sends := wp_sends r + 1\<rparr>)) (\<lambda>_.
           put_run (run\<lparr>wr_operation := Some oid\<rparr>))))"

definition worker_may_send :: "worker_policy \<Rightarrow> run_context \<Rightarrow> v2_operation \<Rightarrow> bool" where
  "worker_may_send r x z \<longleftrightarrow> z_task z = rc_task x \<and> z_owner z = rc_principal x
     \<and> z_collaboration z = wl_collaboration (wp_policy r)
     \<and> z_kind z \<in> set ([VProposal, VAccept] @ maintenance_kinds) \<and> z_status z = OReady
     \<and> (z_kind z = VProposal \<longrightarrow> wl_propose (wp_policy r)
          \<and> map_option a_payload (z_action z) = map_option Meeting (wl_proposal (wp_policy r)))
     \<and> (z_kind z = VAccept \<longrightarrow> wl_accept (wp_policy r))"

section \<open>Dispatch\<close>

definition v2_packet :: "env \<Rightarrow> collaboration \<Rightarrow> v2_operation \<Rightarrow> exn + packet" where
  "v2_packet E c z =
     (let sync = z_kind z \<in> set sync_kinds;
          p = \<lparr>pk_collaboration = v_id c,
               pk_event = ''event-'' @ take 40 (digest E (jstrs [z_id z, z_hash z])), pk_kind = z_kind z,
               pk_sender = local_or_empty E, pk_recipient = v_peer c,
               pk_sequence = (if sync then 0 else v_out c + 1),
               pk_previous = (if sync then None else v_last_out c), pk_created = iso_z (now E),
               pk_expires = iso_z (z_expires z), pk_payload = z_payload z,
               pk_payload_digest = digest E (JObj (z_payload z))\<rparr>
      in validate_event E (packet_json p))"

text \<open>The record a fresh reservation starts from; an invitation that is answered becomes event one.\<close>

definition adopt :: "env \<Rightarrow> v2_operation \<Rightarrow> collaboration option \<Rightarrow> collaboration option step" where
  "adopt E z known = (case z_new z of
     None \<Rightarrow> ret known
   | Some d \<Rightarrow>
       let c = d\<lparr>v_permit := z_permit z, v_invitation := None\<rparr> in
       (case v_invitation d of
          None \<Rightarrow> ret (Some c)
        | Some p \<Rightarrow> andThen (save_event E c p EApplied [] False) (\<lambda>_.
            ret (Some (c\<lparr>v_in := 1, v_last_in := Some (pk_event p)\<rparr>)))))"

text \<open>Taking one unit of the budget the operation rests on: a refusal, or both records updated.\<close>

definition charge :: "env \<Rightarrow> task \<Rightarrow> v2_operation \<Rightarrow> collaboration \<Rightarrow>
    (string + collaboration \<times> v2_operation) step" where
  "charge E t z c =
     (if z_maintenance z then
        ret (case v_permit c of
           Some p \<Rightarrow> if permit_live E (v_permit c)
                    then Inr (c\<lparr>v_permit := Some (p\<lparr>pm_used := pm_used p + 1\<rparr>)\<rparr>, z) else Inl ''maintenance_limit''
         | None \<Rightarrow> Inl ''maintenance_limit'')
      else if z_recovery z then
        ret (if \<not> z_approved_once z \<or> z_recovery_used z then Inl ''one_event_recovery_not_authorized''
             else Inr (c, z\<lparr>z_recovery_used := True\<rparr>))
      else reads (\<lambda>s.
        if sc_max_actions (t_scope t) \<le> t_used t then ret (Inl ''action_limit_reached'')
        else let v = (case z_action z of Some a \<Rightarrow> evaluate_current E s t (action_json a)
                      | None \<Rightarrow> z_decision z) in
          if v_decision v \<in> {Deny, Clarify} \<or> v_decision v = Ask \<and> \<not> z_approved_once z
          then ret (Inl ''current_scope_requires_new_confirmation'')
          else andThen (put_task E (t\<lparr>t_used := t_used t + 1\<rparr>)) (\<lambda>_. ret (Inr (c, z)))))"

definition wire_delivery :: "env \<Rightarrow> packet \<Rightarrow> delivery" where
  "wire_delivery E p = \<lparr>d_recipient = [], d_urn = pk_recipient p,
     d_message = ''v2-'' @ take 48 (digest E (packet_json p)), d_status = DPending, d_accepted_at = None\<rparr>"

definition reserve_packet :: "env \<Rightarrow> v2_operation \<Rightarrow> collaboration \<Rightarrow> unit step" where
  "reserve_packet E z c =
     andThen (lift (v2_packet E c z)) (\<lambda>p.
     let c1 = (if pk_kind p \<in> set sync_kinds then c
               else c\<lparr>v_out := pk_sequence p, v_last_out := Some (pk_event p)\<rparr>) in
     andThen (save_event E c1 p EReserved ''not_submitted'' True) (\<lambda>_.
     andThen (put_collaboration E c1) (\<lambda>c2.
     put_v2_operation E (z\<lparr>z_status := OSending, z_packet := Some p, z_reserved := Some (now E),
        z_delivery := Some (wire_delivery E p),
        z_new := (if z_new z = None then None else Some c2)\<rparr>))))"

datatype v2_reservation = RDenied string | RView v2_view | RGo

text \<open>The checks of the first transaction that need the collaboration.\<close>

definition worker_gate :: "env \<Rightarrow> run_context option \<Rightarrow> v2_operation \<Rightarrow> unit step" where
  "worker_gate E xo z = (case xo of
     None \<Rightarrow> ret ()
   | Some x \<Rightarrow> reads (\<lambda>s.
       andThen (lift (check_worker_context E s x)) (\<lambda>(r, run).
       if \<not> worker_may_send r x z
       then raise (ValueError ''Worker may only send one fresh permitted structured operation'')
       else reserve_worker_send E x (z_id z))))"

definition reserve_v2_ready :: "env \<Rightarrow> v2_operation \<Rightarrow> string \<Rightarrow> v2_reservation step" where
  "reserve_v2_ready E z session = reads (\<lambda>s.
     andThen (lift (find_task s (z_task z) session)) (\<lambda>t.
     andThen (adopt E z (tget (z_collaboration z) (collaborations s))) (\<lambda>co. case co of
       None \<Rightarrow> raise (TypeError ''collaboration'')
     | Some c \<Rightarrow> andThen (charge E t z c) (\<lambda>r. case r of
           Inl reason \<Rightarrow> ret (RDenied reason)
         | Inr (c', z') \<Rightarrow> andThen (reserve_packet E z' c') (\<lambda>_. ret RGo)))))"

definition v2_reserve :: "env \<Rightarrow> string \<Rightarrow> string \<Rightarrow> run_context option \<Rightarrow> v2_reservation step" where
  "v2_reserve E oid session xo =
     andThen (lift (owner_ok session)) (\<lambda>_. reads (\<lambda>s.
     andThen (lift (case xo of None \<Rightarrow> Inr () | Some x \<Rightarrow> bindE (check_worker_context E s x) (\<lambda>_. Inr ()))) (\<lambda>_.
     case tget oid (v2_operations s) of
       None \<Rightarrow> raise (ValueError ''Operation is not available to this owner'')
     | Some z \<Rightarrow>
         if \<not> owned (z_owner z) session then raise (ValueError ''Operation is not available to this owner'')
         else if z_status z = OAccepted then andThen (v2_operation_view E z) (\<lambda>w. ret (RView w))
         else andThen (if z_status z \<in> {OReady, OSending} then v2_operation_current E z else ret False) (\<lambda>cur.
           if \<not> cur then ret (RDenied ''not_authorized_or_superseded'')
           else reads (\<lambda>s. case known_collaboration s z of
             None \<Rightarrow> ret (RDenied ''contact_not_connected'')
           | Some peer \<Rightarrow>
               if \<not> can_send_to E s (v_peer peer) session then ret (RDenied ''contact_not_connected'')
               else andThen (collaboration_review_safe E peer session) (\<lambda>safe.
                 if \<not> safe then ret (RDenied ''peer_review_required'')
                 else andThen (worker_gate E xo z) (\<lambda>_.
                   if z_status z = OReady then reserve_v2_ready E z session else ret RGo)))))))"

definition v2_body :: "packet \<Rightarrow> delivery \<Rightarrow> json" where
  "v2_body p d = JObj [(''message_id'', JStr (d_message d)), (''recipient_urn'', JStr (pk_recipient p)),
     (''text'', JStr (canonical (packet_json p))), (''task_id'', JStr (pk_collaboration p)),
     (''conversation_id'', JStr (''collaboration:'' @ pk_collaboration p)),
     (''kind'', JStr ''collaboration.v2''), (''deadline'', JStr (pk_expires p)), (''hop_limit'', JInt 8)]"

text \<open>The intention to send is applied with the bounded helper call, not with the reservation.\<close>

definition apply_reserved :: "env \<Rightarrow> collaboration \<Rightarrow> packet \<Rightarrow> unit step" where
  "apply_reserved E c p = reads (\<lambda>s. case tget (event_key E c p) (events s) of
       None \<Rightarrow> raise (TypeError ''record'')
     | Some r \<Rightarrow>
         if e_status r \<noteq> EReserved then ret ()
         else andThen (v2_apply E c p True) (\<lambda>c'.
           andThen (put_event (event_key E c p) (r\<lparr>e_status := EApplied, e_reason := []\<rparr>)) (\<lambda>_.
           andThen (put_collaboration E c') (\<lambda>_. ret ()))))"

datatype v2_sent = SentDenied string | SentView v2_view json bool

definition submit :: "env \<Rightarrow> helper \<Rightarrow> v2_operation \<Rightarrow> packet \<Rightarrow> delivery \<Rightarrow> v2_sent step" where
  "submit E send z p d =
     (let body = v2_body p d;
          ok = (case send body of Inr j \<Rightarrow> acknowledged j (d_message d) | Inl _ \<Rightarrow> False);
          z' = z\<lparr>z_status := (if ok then OAccepted else z_status z),
                 z_delivery := Some (d\<lparr>d_status := (if ok then DAccepted else DUncertain)\<rparr>)\<rparr>
      in andThen (put_v2_operation E z') (\<lambda>_.
         andThen (v2_operation_view E z') (\<lambda>w. ret (SentView w body ok))))"

definition v2_send :: "env \<Rightarrow> helper \<Rightarrow> string \<Rightarrow> string \<Rightarrow> run_context option \<Rightarrow> v2_sent step" where
  "v2_send E send oid session xo = reads (\<lambda>s.
     andThen (lift (case xo of None \<Rightarrow> Inr () | Some x \<Rightarrow> bindE (check_worker_context E s x) (\<lambda>_. Inr ()))) (\<lambda>_.
     case tget oid (v2_operations s) of
       None \<Rightarrow> raise (TypeError ''operation'')
     | Some z \<Rightarrow> andThen (v2_operation_current E z) (\<lambda>cur.
         if \<not> cur then ret (SentDenied ''revoked_expired_or_superseded'')
         else (case (z_packet z, z_delivery z) of
           (Some p, Some d) \<Rightarrow>
             reads (\<lambda>s. andThen (lift (find_collaboration s (z_collaboration z) session)) (\<lambda>c.
             if \<not> can_send_to E s (pk_recipient p) session then ret (SentDenied ''contact_not_connected'')
             else andThen (collaboration_review_safe E c session) (\<lambda>safe.
               if \<not> safe then ret (SentDenied ''peer_review_required'')
               else andThen (apply_reserved E c p) (\<lambda>_. submit E send z p d))))
         | _ \<Rightarrow> raise (KeyError ''packet'')))))"

text \<open>\<^verbatim>\<open>dispatch_collaboration\<close>: the reservation commits before the helper is called.\<close>

definition dispatch_collaboration :: "env \<Rightarrow> helper \<Rightarrow> string \<Rightarrow> string \<Rightarrow> run_context option \<Rightarrow> store
    \<Rightarrow> (exn + v2_sent) \<times> store" where
  "dispatch_collaboration E send oid session xo s = (case v2_reserve E oid session xo s of
     Inl e \<Rightarrow> (Inl e, s)
   | Inr (RDenied reason, s1) \<Rightarrow> (Inr (SentDenied reason), s1)
   | Inr (RView w, s1) \<Rightarrow> (Inr (SentView w JNull True), s1)
   | Inr (RGo, s1) \<Rightarrow> (case v2_send E send oid session xo s1 of
       Inl e \<Rightarrow> (Inl e, s1) | Inr (r, s2) \<Rightarrow> (Inr r, s2)))"

section \<open>Reducing the permission\<close>

definition revoke_permit :: "env \<Rightarrow> permit \<Rightarrow> permit" where
  "revoke_permit E p = p\<lparr>pm_revoked := True, pm_revoked_at := Some (now E)\<rparr>"

definition revoke_collaboration_maintenance :: "env \<Rightarrow> string \<Rightarrow> string \<Rightarrow> unit step" where
  "revoke_collaboration_maintenance E cid session =
     andThen (lift (owner_ok session)) (\<lambda>_. reads (\<lambda>s.
     andThen (lift (find_collaboration s cid session)) (\<lambda>c.
     andThen (put_collaboration E (c\<lparr>v_permit := map_option (revoke_permit E) (v_permit c),
        v_waiting := Some ''maintenance_permission''\<rparr>)) (\<lambda>_.
     audit E ''collaboration_maintenance_revoked'' [(''collaboration_id'', JStr cid),
       (''task_id'', JStr (v_task c)), (''owner_session'', JStr session)]))))"

section \<open>The projection for the owner\<close>

record collaborations_page =
  cp_items :: "collaboration list"
  cp_invitations :: "invitation list"
  cp_operations :: "v2_view list"

fun map_act :: "('a \<Rightarrow> ('s, 'b) act) \<Rightarrow> 'a list \<Rightarrow> ('s, 'b list) act" where
  "map_act f [] = ret []"
| "map_act f (x # xs) = andThen (f x) (\<lambda>y. andThen (map_act f xs) (\<lambda>ys. ret (y # ys)))"

definition invitation_message :: "store \<Rightarrow> invitation \<Rightarrow> inbound" where
  "invitation_message s iv = (case tget (iv_id iv) (inbox s) of
     Some m \<Rightarrow> m
   | None \<Rightarrow> \<lparr>w_id = iv_id iv, w_sender = pk_sender (iv_packet iv),
       w_text = canonical (packet_json (iv_packet iv)), w_task = None, w_conversation = None,
       w_kind = None, w_reply = None, w_deadline = None, i_fingerprint = [], i_received = 0,
       i_quarantined = False, i_reason = None, i_request = None\<rparr>)"

definition open_invitation :: "env \<Rightarrow> store \<Rightarrow> string \<Rightarrow> invitation \<Rightarrow> exn + bool" where
  "open_invitation E s session iv =
     (if \<not> list_ex (\<lambda>c. c_urn c = pk_sender (iv_packet iv)
           \<and> (local_urn E = None \<or> contact_status E s c = Connected)) (own_contacts s session)
      then Inr False
      else bindE (message_visible E s True (invitation_message s iv) session) (\<lambda>visible.
        Inr (visible \<and> tget (pk_collaboration (iv_packet iv)) (collaborations s) = None)))"

definition collaborations_view :: "env \<Rightarrow> string \<Rightarrow> string option \<Rightarrow> collaborations_page step" where
  "collaborations_view E session task =
     andThen (lift (owner_ok session)) (\<lambda>_.
     andThen (ensure_peer_reviews E session) (\<lambda>_. reads (\<lambda>s.
     andThen (lift (case task of None \<Rightarrow> Inr () | Some t \<Rightarrow> bindE (find_task s t session) (\<lambda>_. Inr ()))) (\<lambda>_.
     andThen (filter_act (\<lambda>c. collaboration_review_safe E c session)
        (filter (\<lambda>c. owned (v_owner c) session) (tall (collaborations s)))) (\<lambda>cs. reads (\<lambda>s.
     andThen (lift (filterE (open_invitation E s session) (tall (invitations s)))) (\<lambda>ivs.
     andThen (map_act (v2_operation_view E) (filter (\<lambda>z. owned (z_owner z) session
        \<and> (case task of None \<Rightarrow> True | Some t \<Rightarrow> z_task z = t)) (tall (v2_operations s)))) (\<lambda>ws.
     ret \<lparr>cp_items = filter (\<lambda>c. case task of None \<Rightarrow> True | Some t \<Rightarrow> v_task c = t) cs,
          cp_invitations = ivs, cp_operations = ws\<rparr>))))))))"

end
