(* ===== verification/Worker.thy ===== *)
theory Worker
  imports V2_Operations
begin

text \<open>
  The finite background worker (\<^verbatim>\<open>src/python/agent_comm_runtime/worker.py\<close>): asking for a policy,
  pausing it, and one tick, which claims a run in a transaction, prepares and sends at most one
  operation through the ordinary checks, and records the outcome.
\<close>

section \<open>The policy\<close>

definition limits_fields :: "string list" where
  "limits_fields = [''collaboration_id'', ''allow_propose'', ''allow_accept'', ''proposal'', ''max_runs'',
     ''max_sends'', ''interval_seconds'', ''expires_at'']"

definition bool_field :: "json \<Rightarrow> exn + bool" where
  "bool_field j = (case j of JBool b \<Rightarrow> Inr b
     | _ \<Rightarrow> refuse ''Explicitly choose at least one meeting capability'')"

definition bounded_field :: "fields \<Rightarrow> string \<Rightarrow> int \<Rightarrow> int \<Rightarrow> exn + int" where
  "bounded_field kvs k lower upper = (case jfield k kvs of
     JInt n \<Rightarrow> if lower \<le> n \<and> n \<le> upper then Inr n else refuse (k @ '' must be a bounded integer'')
   | _ \<Rightarrow> refuse (k @ '' must be a bounded integer''))"

record raw_limits =
  rl_collaboration :: string
  rl_propose :: bool
  rl_accept :: bool
  rl_proposal :: json
  rl_runs :: int
  rl_sends :: int
  rl_interval :: int
  rl_expires :: json

definition parse_limits :: "json \<Rightarrow> exn + raw_limits" where
  "parse_limits j = (case j of
     JObj kvs \<Rightarrow>
       if set (jkeys kvs) \<noteq> set limits_fields
       then refuse ''Worker policy requires an exact collaboration, actions, proposal, run/send limits, interval and expiry''
       else
         bindE (v2_identifier (jfield ''collaboration_id'' kvs)) (\<lambda>cid.
         bindE (bool_field (jfield ''allow_propose'' kvs)) (\<lambda>prop.
         bindE (bool_field (jfield ''allow_accept'' kvs)) (\<lambda>acc.
         bindE (need (prop \<or> acc) ''Explicitly choose at least one meeting capability'') (\<lambda>_.
         bindE (bounded_field kvs ''max_runs'' 1 100) (\<lambda>runs.
         bindE (bounded_field kvs ''max_sends'' 1 32) (\<lambda>sends.
         bindE (bounded_field kvs ''interval_seconds'' 15 3600) (\<lambda>interval.
         Inr \<lparr>rl_collaboration = cid, rl_propose = prop, rl_accept = acc,
              rl_proposal = jfield ''proposal'' kvs, rl_runs = runs, rl_sends = sends,
              rl_interval = interval, rl_expires = jfield ''expires_at'' kvs\<rparr>)))))))
   | _ \<Rightarrow> refuse ''Worker policy requires an exact collaboration, actions, proposal, run/send limits, interval and expiry'')"

text \<open>The fixed proposal of a proposing worker must already be within the mandate.\<close>

definition fixed_proposal :: "env \<Rightarrow> store \<Rightarrow> task \<Rightarrow> collaboration \<Rightarrow> raw_limits \<Rightarrow> exn + meeting option" where
  "fixed_proposal E s t c l =
     (if rl_propose l then
        bindE (need (local_urn E = Some (v_initiator c))
           ''Only the collaboration initiator may automatically propose'') (\<lambda>_.
        bindE (validate_action (JObj [(''capability'', JStr ''propose_meeting''),
           (''recipient_ids'', jstrs [v_peer_id c]), (''payload'', rl_proposal l)])) (\<lambda>a.
        bindE (need (v_decision (evaluate_current E s t (action_json a)) = Allow)
           ''The fixed worker proposal must already fit the task mandate'') (\<lambda>_.
        case a_payload a of
          Meeting m \<Rightarrow> bindE (need (m_version m = 1) ''The finite worker only publishes the first proposal'')
            (\<lambda>_. Inr (Some m))
        | _ \<Rightarrow> refuse ''action.payload'')))
      else bindE (need (rl_proposal l = JNull) ''A proposal is accepted only when allow_propose is enabled'')
        (\<lambda>_. Inr None))"

definition worker_deadline :: "env \<Rightarrow> task \<Rightarrow> raw_limits \<Rightarrow> exn + time" where
  "worker_deadline E t l =
     bindE (need (live E t) ''Worker requires a live task and may not outlive its mandate'') (\<lambda>_.
     bindE (jinstant (rl_expires l)) (\<lambda>e.
     bindE (need (now E < e \<and> e \<le> sc_expires_at (t_scope t))
        ''Worker requires a live task and may not outlive its mandate'') (\<lambda>_. Inr e)))"

definition capability_granted :: "task \<Rightarrow> raw_limits \<Rightarrow> bool" where
  "capability_granted t l \<longleftrightarrow> (rl_propose l \<longrightarrow> ''propose_meeting'' \<in> set (sc_capabilities (t_scope t)))
     \<and> (rl_accept l \<longrightarrow> ''accept_meeting'' \<in> set (sc_capabilities (t_scope t)))"

definition limits_of :: "raw_limits \<Rightarrow> meeting option \<Rightarrow> worker_limits" where
  "limits_of l m = \<lparr>wl_collaboration = rl_collaboration l, wl_propose = rl_propose l, wl_accept = rl_accept l,
     wl_proposal = m, wl_runs = rl_runs l, wl_sends = rl_sends l, wl_interval = rl_interval l,
     wl_expires = as_str (rl_expires l)\<rparr>"

definition worker_question :: "task \<Rightarrow> worker_limits \<Rightarrow> string" where
  "worker_question t l = T_q_w1 @ canonical (scope_json (t_scope t)) @ T_q_w2 @ canonical (limits_json l) @ T_q_w3"

definition prepare_worker_policy :: "env \<Rightarrow> string \<Rightarrow> json \<Rightarrow> string \<Rightarrow> public_approval step" where
  "prepare_worker_policy E tid policy session =
     andThen (lift (owner_ok session)) (\<lambda>_.
     andThen (lift (parse_limits policy)) (\<lambda>l. reads (\<lambda>s.
     andThen (lift (find_task s tid session)) (\<lambda>t.
     andThen (lift (worker_deadline E t l)) (\<lambda>e.
     andThen (lift (find_collaboration s (rl_collaboration l) session)) (\<lambda>c.
     andThen (refuse_if (v_task c \<noteq> tid \<or> \<not> v_joined c \<or> v_agreement c \<noteq> None)
        ''Worker requires this task's joined, unfinished collaboration'') (\<lambda>_.
     andThen (refuse_if (\<not> capability_granted t l)
        ''Worker cannot add a capability absent from the mandate'') (\<lambda>_.
     andThen (lift (fixed_proposal E s t c l)) (\<lambda>m.
     let lim = limits_of l m; old = tget tid (workers s) in
     case (case old of Some r \<Rightarrow> if wp_policy r = lim \<and> wp_status r = WPending then wp_approval r else None
           | None \<Rightarrow> None) of
       Some aid \<Rightarrow> (case tget aid (approvals s) of
           Some a \<Rightarrow> ret (public_view a) | None \<Rightarrow> raise (TypeError ''approval''))
     | None \<Rightarrow>
         let n = (case old of Some r \<Rightarrow> wp_revision r | None \<Rightarrow> 0) + 1;
             r = \<lparr>wp_task = tid, wp_session = session, wp_owner = principal session,
                  wp_task_revision = t_revision t, wp_revision = n, wp_policy = lim,
                  wp_status = WPending, wp_runs = 0, wp_sends = 0, wp_last_run = None,
                  wp_waiting = None, wp_approval = None\<rparr> in
         andThen (put_worker r) (\<lambda>_.
         andThen (request_approval E tid session
            (PWorker n (t_revision t) (digest E (limits_json lim))) (worker_question t lim)
            (min e (now E + 900 * sec))) (\<lambda>p.
         andThen (put_worker (r\<lparr>wp_approval := Some (pa_id p)\<rparr>)) (\<lambda>_. ret p))))))))))))"

datatype worker_view = WDisabled | WView worker_policy string

definition worker_status_str :: "worker_status \<Rightarrow> string" where
  "worker_status_str st = (case st of WPending \<Rightarrow> ''pending'' | WActive \<Rightarrow> ''active''
     | WPaused \<Rightarrow> ''paused'' | WRevoked \<Rightarrow> ''revoked'')"

definition exhausted :: "worker_policy \<Rightarrow> bool" where
  "exhausted r \<longleftrightarrow> wl_runs (wp_policy r) \<le> wp_runs r \<or> wl_sends (wp_policy r) \<le> wp_sends r"

definition worker_view_of :: "env \<Rightarrow> store \<Rightarrow> task \<Rightarrow> exn + worker_view" where
  "worker_view_of E s t = (case tget (t_id t) (workers s) of
     None \<Rightarrow> Inr WDisabled
   | Some r \<Rightarrow>
       bindE (if wp_status r = WRevoked then Inr True else worker_policy_current E s r) (\<lambda>cur.
       Inr (WView r (if \<not> cur then ''expired''
                     else if wp_status r = WActive \<and> exhausted r then ''exhausted''
                     else worker_status_str (wp_status r)))))"

definition pause_worker :: "env \<Rightarrow> string \<Rightarrow> string \<Rightarrow> bool \<Rightarrow> worker_view step" where
  "pause_worker E tid session revoked =
     andThen (lift (owner_ok session)) (\<lambda>_. reads (\<lambda>s.
     andThen (lift (find_task s tid session)) (\<lambda>t.
     andThen (case tget tid (workers s) of
         None \<Rightarrow> ret ()
       | Some r \<Rightarrow>
           (let r' = r\<lparr>wp_status := (if revoked then WRevoked else WPaused),
                      wp_waiting := Some (if revoked then ''owner_revoked'' else ''owner_paused'')\<rparr>
            in andThen (put_worker r') (\<lambda>_. worker_attention E r'))) (\<lambda>_.
     reads (\<lambda>s. lift (worker_view_of E s t))))))"

section \<open>One tick\<close>

definition due :: "env \<Rightarrow> worker_policy \<Rightarrow> bool" where
  "due E r \<longleftrightarrow> (case wp_last_run r of None \<Rightarrow> True
     | Some t \<Rightarrow> t + wl_interval (wp_policy r) * sec \<le> now E)"

definition stop_worker :: "env \<Rightarrow> worker_policy \<Rightarrow> string \<Rightarrow> unit step" where
  "stop_worker E r reason =
     (let r' = r\<lparr>wp_status := WPaused, wp_waiting := Some reason\<rparr>
      in andThen (put_worker r') (\<lambda>_. worker_attention E r'))"

text \<open>What a run decides to do: send a queued receipt, prepare one operation, or wait.\<close>

datatype plan =
    PlanSend string
  | PlanPrepare v2_kind fields string
  | PlanWait string

definition worker_operation_id :: "env \<Rightarrow> run_context \<Rightarrow> collaboration \<Rightarrow> v2_kind \<Rightarrow> fields \<Rightarrow> string" where
  "worker_operation_id E x c k payload = ''worker-op-'' @ take 48 (digest E (JArr [JStr (rc_task x),
     JInt (rc_policy_revision x), JStr (v_id c), JStr (v2_kind_str k), jopt (v_terms c), JObj payload]))"

definition meeting_fields :: "meeting \<Rightarrow> fields" where
  "meeting_fields m = (case meeting_json m of JObj kvs \<Rightarrow> kvs | _ \<Rightarrow> [])"

definition plan_run :: "env \<Rightarrow> store \<Rightarrow> run_context \<Rightarrow> worker_policy \<Rightarrow> collaboration \<Rightarrow> plan" where
  "plan_run E s x r c =
     (let zs = filter (\<lambda>z. z_collaboration z = v_id c) (tall (v2_operations s)); l = wp_policy r in
      if list_ex (\<lambda>z. z_status z = OSending) zs then PlanWait ''send_uncertain''
      else case filter (\<lambda>z. z_maintenance z \<and> z_status z = OReady) zs of
        z # _ \<Rightarrow> PlanSend (z_id z)
      | [] \<Rightarrow>
          if v_phase c = ''closed'' then PlanWait ''collaboration_complete''
          else if \<not> v_joined c \<or> v_agreement c \<noteq> None \<or> v_cancel c \<noteq> None \<or> v_withdraw c \<or> v_waiting c \<noteq> None
          then PlanWait ''waiting_for_peer''
          else if v_terms c = None \<and> wl_propose l then
            (let p = (case wl_proposal l of Some m \<Rightarrow> meeting_fields m | None \<Rightarrow> [])
             in PlanPrepare VProposal p (worker_operation_id E x c VProposal p))
          else if v_terms c \<noteq> None \<and> wl_accept l \<and> \<not> own_active E c
          then PlanPrepare VAccept [] (worker_operation_id E x c VAccept [])
          else PlanWait ''waiting_for_peer'')"

datatype run_claim = NoRun | Run run_context string plan

definition finish_run :: "env \<Rightarrow> string \<Rightarrow> run_status \<Rightarrow> time option \<Rightarrow> unit step" where
  "finish_run E rid st at = reads (\<lambda>s. case tget rid (runs s) of
     None \<Rightarrow> raise (TypeError ''run'')
   | Some run \<Rightarrow> put_run (run\<lparr>wr_status := st, wr_finished := at\<rparr>))"

text \<open>A run is claimed before anything is prepared; its number names it.\<close>

definition new_context :: "env \<Rightarrow> string \<Rightarrow> worker_policy \<Rightarrow> run_context" where
  "new_context E principal_id r = \<lparr>rc_principal = principal_id, rc_task = wp_task r,
     rc_task_revision = wp_task_revision r, rc_policy_revision = wp_revision r,
     rc_run = ''worker-'' @ take 40 (digest E (JArr [JStr principal_id, JStr (wp_task r),
        JInt (wp_revision r), JInt (wp_runs r)]))\<rparr>"

definition plan_claimed :: "env \<Rightarrow> run_context \<Rightarrow> worker_policy \<Rightarrow> collaboration \<Rightarrow> run_claim step" where
  "plan_claimed E x r c0 =
     andThen (if v_waiting c0 = Some ''peer_review_required'' then
          andThen (collaboration_review_safe E c0 (context_session x)) (\<lambda>safe.
            if safe then andThen (v2_drain E c0) (put_collaboration E) else ret c0)
        else ret c0) (\<lambda>c.
     andThen (collaboration_review_safe E c (context_session x)) (\<lambda>safe.
     if \<not> safe then
       (let r' = r\<lparr>wp_status := WPaused, wp_waiting := Some ''peer_content_unavailable''\<rparr> in
        andThen (put_worker r') (\<lambda>_.
        andThen (finish_run E (rc_run x) RunCompleted (Some (now E))) (\<lambda>_.
        andThen (worker_attention E r') (\<lambda>_. ret NoRun))))
     else reads (\<lambda>s. ret (Run x (v_id c) (plan_run E s x r c)))))"

text \<open>What a due policy leads to, decided on the state before the claim is written.\<close>

datatype claim_decision = ClaimSkip | ClaimStop worker_policy string | ClaimStart worker_policy run_context

definition claim_due :: "env \<Rightarrow> store \<Rightarrow> string \<Rightarrow> worker_policy \<Rightarrow> claim_decision" where
  "claim_due E s principal_id r =
     (let active = filter (\<lambda>run. wr_task run = wp_task r \<and> wr_revision run = wp_revision r
            \<and> wr_status run = RunRunning) (tall (runs s)) in
      if list_ex (\<lambda>run. now E < wr_started run + 60 * sec) active then ClaimSkip
      else if active \<noteq> [] then ClaimStop r ''send_uncertain''
      else if exhausted r then ClaimStop r ''budget_exhausted''
      else (let r1 = r\<lparr>wp_runs := wp_runs r + 1, wp_last_run := Some (now E)\<rparr>
            in ClaimStart r1 (new_context E principal_id r1)))"

definition claim_decision_of :: "env \<Rightarrow> store \<Rightarrow> string \<Rightarrow> string \<Rightarrow> exn + claim_decision" where
  "claim_decision_of E s principal_id tid = (case tget tid (workers s) of
     None \<Rightarrow> Inr ClaimSkip
   | Some r \<Rightarrow>
       bindE (if wp_status r = WActive then worker_policy_current E s r else Inr False) (\<lambda>cur.
       Inr (if \<not> cur \<or> \<not> due E r then ClaimSkip else claim_due E s principal_id r)))"

definition claim_run :: "env \<Rightarrow> string \<Rightarrow> string \<Rightarrow> run_claim step" where
  "claim_run E principal_id tid = reads (\<lambda>s.
     andThen (lift (claim_decision_of E s principal_id tid)) (\<lambda>d. case d of
       ClaimSkip \<Rightarrow> ret NoRun
     | ClaimStop r reason \<Rightarrow> andThen (stop_worker E r reason) (\<lambda>_. ret NoRun)
     | ClaimStart r x \<Rightarrow>
         andThen (put_run \<lparr>wr_id = rc_run x, wr_task = wp_task r, wr_revision = wp_revision r,
            wr_status = RunRunning, wr_started = now E, wr_finished = None, wr_operation = None\<rparr>) (\<lambda>_.
         andThen (put_worker r) (\<lambda>_. reads (\<lambda>s.
         andThen (lift (find_collaboration s (wl_collaboration (wp_policy r)) (context_session x))) (\<lambda>c.
         plan_claimed E x r c))))))"

definition pausing_reasons :: "string list" where
  "pausing_reasons = [''exception_requires_owner'', ''send_uncertain'', ''state_changed'', ''collaboration_complete'']"

definition record_run :: "env \<Rightarrow> run_context \<Rightarrow> string option \<Rightarrow> unit step" where
  "record_run E x reason =
     andThen (finish_run E (rc_run x) RunFinished None) (\<lambda>_. reads (\<lambda>s.
     case tget (rc_task x) (workers s) of
       None \<Rightarrow> raise (TypeError ''policy'')
     | Some r \<Rightarrow>
         if wp_revision r = rc_policy_revision x \<and> wp_status r = WActive then
           (let r' = r\<lparr>wp_waiting := reason,
                      wp_status := (if reason \<in> Some ` set pausing_reasons then WPaused else wp_status r)\<rparr>
            in andThen (put_worker r') (\<lambda>_.
               if reason = Some ''waiting_for_peer'' then ret () else worker_attention E r'))
         else ret ()))"

definition run_failed :: "env \<Rightarrow> run_context \<Rightarrow> unit step" where
  "run_failed E x = reads (\<lambda>s.
     andThen (case tget (rc_run x) (runs s) of
         None \<Rightarrow> ret () | Some run \<Rightarrow> put_run (run\<lparr>wr_status := RunFinished\<rparr>)) (\<lambda>_.
     case tget (rc_task x) (workers s) of
       None \<Rightarrow> ret ()
     | Some r \<Rightarrow>
         if wp_revision r = rc_policy_revision x \<and> wp_status r = WActive
         then stop_worker E r ''worker_error'' else ret ()))"

text \<open>The reason recorded after the dispatch of a run's operation.\<close>

definition sent_reason :: "v2_sent \<Rightarrow> string option" where
  "sent_reason r = (case r of
     SentView w _ _ \<Rightarrow> if vv_status w = OAccepted then None
                      else if vv_status w = OSending then Some ''send_uncertain'' else Some ''state_changed''
   | SentDenied _ \<Rightarrow> Some ''state_changed'')"

text \<open>Carrying out a plan; the store after it and the reason to record, or the exception it met.\<close>

definition dispatch_run :: "env \<Rightarrow> helper \<Rightarrow> run_context \<Rightarrow> string \<Rightarrow> store \<Rightarrow> (exn + string option) \<times> store" where
  "dispatch_run E send x oid s =
     (case dispatch_collaboration E send oid (context_session x) (Some x) s of
        (Inl e, s') \<Rightarrow> (Inl e, s') | (Inr r, s') \<Rightarrow> (Inr (sent_reason r), s'))"

definition carry_out :: "env \<Rightarrow> helper \<Rightarrow> run_context \<Rightarrow> string \<Rightarrow> plan \<Rightarrow> store \<Rightarrow> (exn + string option) \<times> store" where
  "carry_out E send x cid p s = (case p of
     PlanWait reason \<Rightarrow> (Inr (Some reason), s)
   | PlanSend oid \<Rightarrow> dispatch_run E send x oid s
   | PlanPrepare k payload oid \<Rightarrow>
       (case prepare_collaboration E (rc_task x) (JStr cid) (JStr oid) (v2_kind_str k) (JObj payload)
               (context_session x) s of
          Inl e \<Rightarrow> (Inl e, s)
        | Inr (VView w, s') \<Rightarrow>
            if vv_decision w = Allow then dispatch_run E send x oid s'
            else (Inr (Some ''exception_requires_owner''), s')
        | Inr (_, s') \<Rightarrow> (Inr (Some ''exception_requires_owner''), s')))"

definition after_run :: "env \<Rightarrow> run_context \<Rightarrow> exn + string option \<Rightarrow> store \<Rightarrow> store" where
  "after_run E x r s = (case r of
     Inr reason \<Rightarrow> (case record_run E x reason s of
         Inr (_, s') \<Rightarrow> s'
       | Inl _ \<Rightarrow> (case run_failed E x s of Inr (_, s') \<Rightarrow> s' | Inl _ \<Rightarrow> s))
   | Inl _ \<Rightarrow> (case run_failed E x s of Inr (_, s') \<Rightarrow> s' | Inl _ \<Rightarrow> s))"

text \<open>A claim that fails once its context exists is recorded like any other failure of the run.\<close>

definition tick_one :: "env \<Rightarrow> helper \<Rightarrow> string \<Rightarrow> string \<Rightarrow> store \<Rightarrow> store" where
  "tick_one E send principal_id tid s = (case claim_run E principal_id tid s of
     Inr (Run x cid p, s1) \<Rightarrow> (case carry_out E send x cid p s1 of (r, s2) \<Rightarrow> after_run E x r s2)
   | Inr (NoRun, s1) \<Rightarrow> s1
   | Inl e \<Rightarrow> (case claim_decision_of E s principal_id tid of
        Inr (ClaimStart _ x) \<Rightarrow> after_run E x (Inl e) s | _ \<Rightarrow> s))"

definition due_policies :: "env \<Rightarrow> store \<Rightarrow> string \<Rightarrow> nat \<Rightarrow> exn + string list" where
  "due_policies E s principal_id max_tasks =
     bindE (filterE (\<lambda>r. if wp_owner r = principal_id \<and> wp_status r = WActive
         then bindE (worker_policy_current E s r) (\<lambda>cur. Inr (cur \<and> due E r)) else Inr False) (tall (workers s)))
       (\<lambda>rs. Inr (take max_tasks (map wp_task
         (sort_key (\<lambda>r. case wp_last_run r of Some t \<Rightarrow> t | None \<Rightarrow> 0) rs))))"

definition run_worker_tick :: "env \<Rightarrow> helper \<Rightarrow> string \<Rightarrow> nat \<Rightarrow> store \<Rightarrow> exn + store" where
  "run_worker_tick E send principal_id max_tasks s =
     (if principal_id = [] \<or> CHR ''|'' \<in> set principal_id
      then refuse ''A trusted profile principal is required''
      else if \<not> (1 \<le> max_tasks \<and> max_tasks \<le> 10) then refuse ''Worker tick handles at most ten tasks''
      else bindE (due_policies E s principal_id max_tasks) (\<lambda>ts.
        Inr (fold (tick_one E send principal_id) ts s)))"

end
