(* ===== verification/Frames.thy ===== *)
theory Frames
  imports Worker
begin

text \<open>
  Frame and order facts about the handlers, proved once for every preorder on stores that ignores
  what the write hooks touch (locale \<open>hooks\<close>) or also what the protocol reducer touches (locale
  \<open>protocol\<close>). The interpretations at the end instantiate both with equality on the other tables.
\<close>

section \<open>Preservation relative to a start state\<close>

text \<open>
  \<open>keeps R s0 m\<close>: from any state that \<open>s0\<close> may have evolved to, \<open>m\<close> ends in another such state.
  A handler that read rows in \<open>s0\<close> and writes them later is treated this way.
\<close>

definition keeps :: "('s \<Rightarrow> 's \<Rightarrow> bool) \<Rightarrow> 's \<Rightarrow> ('s, 'a) act \<Rightarrow> bool" where
  "keeps R s0 m \<longleftrightarrow> (\<forall>s x t. R s0 s \<longrightarrow> m s = Inr (x, t) \<longrightarrow> R s0 t)"

definition yields :: "('a \<Rightarrow> bool) \<Rightarrow> ('s, 'a) act \<Rightarrow> bool" where
  "yields Q m \<longleftrightarrow> (\<forall>s x t. m s = Inr (x, t) \<longrightarrow> Q x)"

lemma keepsI: "(\<And>s x t. R s0 s \<Longrightarrow> m s = Inr (x, t) \<Longrightarrow> R s0 t) \<Longrightarrow> keeps R s0 m"
  by (auto simp: keeps_def)

text \<open>\<open>goes R s m\<close>: the run of \<open>m\<close> from the very state \<open>s\<close>, for handlers that write what they just read.\<close>

definition goes :: "('s \<Rightarrow> 's \<Rightarrow> bool) \<Rightarrow> 's \<Rightarrow> ('s, 'a) act \<Rightarrow> bool" where
  "goes R s m \<longleftrightarrow> (\<forall>x t. m s = Inr (x, t) \<longrightarrow> R s t)"

lemma goesI: "(\<And>x t. m s = Inr (x, t) \<Longrightarrow> R s t) \<Longrightarrow> goes R s m"
  by (simp add: goes_def)

lemma steps_goes: "(\<And>s. goes R s m) \<Longrightarrow> steps R m"
  by (simp add: goes_def steps_def)

lemma goes_steps: "steps R m \<Longrightarrow> goes R s m"
  by (simp add: goes_def steps_def)

lemma goes_reads: "goes R s (f s) \<Longrightarrow> goes R s (reads f)"
  by (simp add: goes_def)

lemma goes_lift_then: "(\<And>x. v = Inr x \<Longrightarrow> goes R s (f x)) \<Longrightarrow> goes R s (andThen (lift v) f)"
  by (auto simp: goes_def)

lemma goes_guard_then: "(\<not> b \<Longrightarrow> goes R s (f ())) \<Longrightarrow> goes R s (andThen (refuse_if b msg) f)"
  by (auto simp: goes_def)

lemma goes_raise: "goes R s (raise e)"
  by (simp add: goes_def)

lemma goes_modify: "R s (g s) \<Longrightarrow> goes R s (modify g)"
  by (simp add: goes_def)

lemma goes_if: "(b \<Longrightarrow> goes R s m) \<Longrightarrow> (\<not> b \<Longrightarrow> goes R s n) \<Longrightarrow> goes R s (if b then m else n)"
  by simp

lemma goes_option:
  "(x = None \<Longrightarrow> goes R s m) \<Longrightarrow> (\<And>y. x = Some y \<Longrightarrow> goes R s (f y)) \<Longrightarrow>
   goes R s (case x of None \<Rightarrow> m | Some y \<Rightarrow> f y)"
  by (cases x) auto

lemma goes_sum:
  "(\<And>y. x = Inl y \<Longrightarrow> goes R s (f y)) \<Longrightarrow> (\<And>y. x = Inr y \<Longrightarrow> goes R s (g y)) \<Longrightarrow>
   goes R s (case x of Inl y \<Rightarrow> f y | Inr y \<Rightarrow> g y)"
  by (cases x) auto

lemma goes_list:
  "(xs = [] \<Longrightarrow> goes R s m) \<Longrightarrow> (\<And>y ys. xs = y # ys \<Longrightarrow> goes R s (f y ys)) \<Longrightarrow>
   goes R s (case xs of [] \<Rightarrow> m | y # ys \<Rightarrow> f y ys)"
  by (cases xs) auto

lemma goes_prod: "(\<And>a b. x = (a, b) \<Longrightarrow> goes R s (f a b)) \<Longrightarrow> goes R s (case x of (a, b) \<Rightarrow> f a b)"
  by (cases x) auto

lemma goes_let: "(\<And>y. y = v \<Longrightarrow> goes R s (f y)) \<Longrightarrow> goes R s (let y = v in f y)"
  by (simp add: Let_def)

lemma goes_when: "(b \<Longrightarrow> goes R s m) \<Longrightarrow> R s s \<Longrightarrow> goes R s (act_when b m)"
  by (auto simp: goes_def)

lemma yieldsD: "yields Q m \<Longrightarrow> m s = Inr (x, t) \<Longrightarrow> Q x"
  by (auto simp: yields_def)

context state_preorder
begin

lemma goes_ret: "goes R s (ret x)"
  by (simp add: goes_def step_refl)

lemma goes_andThen: "goes R s m \<Longrightarrow> (\<And>x. steps R (f x)) \<Longrightarrow> goes R s (andThen m f)"
  unfolding goes_def steps_def run_andThen by (blast intro: step_trans)

lemma goes_andThen_keeps: "goes R s m \<Longrightarrow> (\<And>x. keeps R s (f x)) \<Longrightarrow> goes R s (andThen m f)"
  unfolding goes_def keeps_def run_andThen by blast

lemma goes_seq:
  assumes "goes R s m" and "\<And>x t. m s = Inr (x, t) \<Longrightarrow> R s t \<Longrightarrow> goes R t (f x)"
  shows "goes R s (andThen m f)"
  using assms unfolding goes_def run_andThen by (blast intro: step_trans)

lemma goes_keeps: "keeps R s m \<Longrightarrow> goes R s m"
  unfolding goes_def keeps_def using step_refl by blast

lemma keeps_reads: "(\<And>s. R s0 s \<Longrightarrow> goes R s (f s)) \<Longrightarrow> keeps R s0 (reads f)"
  unfolding goes_def keeps_def by (simp, blast intro: step_trans)

lemma keeps_goes: "(\<And>s. R s0 s \<Longrightarrow> goes R s m) \<Longrightarrow> keeps R s0 m"
  unfolding goes_def keeps_def by (blast intro: step_trans)

lemmas goes_rules = goes_ret goes_raise goes_lift_then goes_guard_then goes_if goes_option goes_sum
  goes_list goes_prod goes_let goes_reads

lemma keeps_steps: "steps R m \<Longrightarrow> keeps R s0 m"
  unfolding keeps_def steps_def by (blast intro: step_trans)

lemma steps_keeps: "(\<And>s0. keeps R s0 m) \<Longrightarrow> steps R m"
  using step_refl by (intro stepsI) (auto simp: keeps_def)

lemma steps_reads_keeps: "(\<And>s. keeps R s (f s)) \<Longrightarrow> steps R (reads f)"
  unfolding steps_def run_reads by (meson keeps_def step_refl)

lemma keeps_andThen: "keeps R s0 m \<Longrightarrow> (\<And>x. keeps R s0 (f x)) \<Longrightarrow> keeps R s0 (andThen m f)"
  unfolding keeps_def run_andThen by blast

lemma keeps_modify: "(\<And>s. R s0 s \<Longrightarrow> R s (g s)) \<Longrightarrow> keeps R s0 (modify g)"
  unfolding keeps_def by (auto intro: step_trans)

lemma keeps_for_each: "(\<And>x. x \<in> set xs \<Longrightarrow> keeps R s0 (f x)) \<Longrightarrow> keeps R s0 (for_each xs f)"
  by (induction xs) (auto intro!: keeps_andThen keeps_steps [OF steps_ret])

lemma keeps_reads0: "(\<And>s. keeps R s0 (f s)) \<Longrightarrow> keeps R s0 (reads f)"
  by (auto simp: keeps_def)

lemma keeps_lift_then: "(\<And>x. v = Inr x \<Longrightarrow> keeps R s0 (f x)) \<Longrightarrow> keeps R s0 (andThen (lift v) f)"
  by (auto simp: keeps_def)

lemma keeps_guard_then: "(\<not> b \<Longrightarrow> keeps R s0 (f ())) \<Longrightarrow> keeps R s0 (andThen (refuse_if b msg) f)"
  by (auto simp: keeps_def)

lemma keeps_andThen_yields:
  "keeps R s0 m \<Longrightarrow> yields Q m \<Longrightarrow> (\<And>x. Q x \<Longrightarrow> keeps R s0 (f x)) \<Longrightarrow> keeps R s0 (andThen m f)"
  unfolding keeps_def yields_def run_andThen by blast

lemma keeps_savepoint: "keeps R s0 m \<Longrightarrow> (\<And>e. keeps R s0 (h e)) \<Longrightarrow> keeps R s0 (savepoint p m h)"
proof (rule keepsI)
  fix s x t
  assume m: "keeps R s0 m" and h: "\<And>e. keeps R s0 (h e)" and s: "R s0 s"
    and run: "savepoint p m h s = Inr (x, t)"
  show "R s0 t"
  proof (cases "m s")
    case (Inl e)
    then have "h e s = Inr (x, t)" using run by (simp add: savepoint_def split: if_splits)
    then show ?thesis using h [of e] s by (auto simp: keeps_def)
  next
    case (Inr r)
    then show ?thesis using run m s by (auto simp: keeps_def savepoint_def)
  qed
qed

lemma keeps_prod: "(\<And>a b. x = (a, b) \<Longrightarrow> keeps R s0 (f a b)) \<Longrightarrow> keeps R s0 (case x of (a, b) \<Rightarrow> f a b)"
  by (cases x) auto

lemma keeps_list:
  "(xs = [] \<Longrightarrow> keeps R s0 m) \<Longrightarrow> (\<And>y ys. xs = y # ys \<Longrightarrow> keeps R s0 (f y ys)) \<Longrightarrow>
   keeps R s0 (case xs of [] \<Rightarrow> m | y # ys \<Rightarrow> f y ys)"
  by (cases xs) auto

lemma keeps_sum:
  "(\<And>y. x = Inl y \<Longrightarrow> keeps R s0 (f y)) \<Longrightarrow> (\<And>y. x = Inr y \<Longrightarrow> keeps R s0 (g y)) \<Longrightarrow>
   keeps R s0 (case x of Inl y \<Rightarrow> f y | Inr y \<Rightarrow> g y)"
  by (cases x) auto

text \<open>
  A loop over rows read at the start, each turn of which writes only its own row: every row is still
  the one that was read when its turn comes.
\<close>

lemma goes_rows:
  assumes "distinct (map rid xs)" and "\<And>x. x \<in> set xs \<Longrightarrow> tget (rid x) (g s) = Some x"
    and "\<And>x s'. x \<in> set xs \<Longrightarrow> R s s' \<Longrightarrow> tget (rid x) (g s') = Some x \<Longrightarrow> goes R s' (m x)"
    and "\<And>x s' y t k. x \<in> set xs \<Longrightarrow> m x s' = Inr (y, t) \<Longrightarrow> k \<noteq> rid x \<Longrightarrow> tget k (g t) = tget k (g s')"
  shows "goes R s (for_each xs m)"
proof -
  have loop: "R s t" if "for_each ys m s' = Inr (u, t)" "R s s'" "set ys \<subseteq> set xs" "distinct (map rid ys)"
    "\<And>x. x \<in> set ys \<Longrightarrow> tget (rid x) (g s') = Some x" for ys s' u t
    using that
  proof (induction ys arbitrary: s')
    case (Cons y ys)
    then obtain v s1 where y: "m y s' = Inr (v, s1)" and ys: "for_each ys m s1 = Inr (u, t)" by auto
    have "R s' s1" using assms(3) [of y s'] Cons.prems y by (auto simp: goes_def)
    then have R1: "R s s1" using Cons.prems(2) by (blast intro: step_trans)
    have "tget (rid x) (g s1) = Some x" if "x \<in> set ys" for x
      using that Cons.prems assms(4) [of y s' v s1 "rid x"] y by (auto simp: image_iff)
    with Cons.IH [OF ys R1] Cons.prems show ?case by auto
  qed auto
  then show ?thesis
  proof (intro goesI)
    fix u t
    assume run: "for_each xs m s = Inr (u, t)"
    show "R s t" by (rule loop [OF run step_refl subset_refl assms(1)]) (rule assms(2))
  qed
qed

lemma keeps_if: "(b \<Longrightarrow> keeps R s0 m) \<Longrightarrow> (\<not> b \<Longrightarrow> keeps R s0 n) \<Longrightarrow> keeps R s0 (if b then m else n)"
  by simp

lemma keeps_option:
  "(x = None \<Longrightarrow> keeps R s0 m) \<Longrightarrow> (\<And>y. x = Some y \<Longrightarrow> keeps R s0 (f y)) \<Longrightarrow>
   keeps R s0 (case x of None \<Rightarrow> m | Some y \<Rightarrow> f y)"
  by (cases x) auto

lemma keeps_let: "(\<And>y. y = v \<Longrightarrow> keeps R s0 (f y)) \<Longrightarrow> keeps R s0 (let y = v in f y)"
  by (simp add: Let_def)

lemma keeps_when: "(b \<Longrightarrow> keeps R s0 m) \<Longrightarrow> keeps R s0 (act_when b m)"
  unfolding keeps_def by auto

text \<open>An action of which only the runs that return a value satisfying a predicate matter.\<close>

lemma steps_andThen_yields:
  "steps R m \<Longrightarrow> yields Q m \<Longrightarrow> (\<And>x. Q x \<Longrightarrow> steps R (f x)) \<Longrightarrow> steps R (andThen m f)"
  unfolding steps_def yields_def by (simp, blast intro: step_trans)

lemma steps_lift_then: "(\<And>x. v = Inr x \<Longrightarrow> steps R (f x)) \<Longrightarrow> steps R (andThen (lift v) f)"
  unfolding steps_def by auto

lemma steps_guard_then: "(\<not> b \<Longrightarrow> steps R (f ())) \<Longrightarrow> steps R (andThen (refuse_if b msg) f)"
  unfolding steps_def by auto

end

text \<open>Results: what a successful run returns.\<close>

lemma yields_ret [simp]: "yields Q (ret x) \<longleftrightarrow> Q x"
  by (auto simp: yields_def)

lemma yields_raise [simp]: "yields Q (raise e)"
  by (auto simp: yields_def)

lemma yields_lift: "(\<And>x. v = Inr x \<Longrightarrow> Q x) \<Longrightarrow> yields Q (lift v)"
  by (auto simp: yields_def)

lemma yields_andThen: "(\<And>x. yields Q (f x)) \<Longrightarrow> yields Q (andThen m f)"
  unfolding yields_def run_andThen by blast

lemma yields_andThen_from: "yields P m \<Longrightarrow> (\<And>x. P x \<Longrightarrow> yields Q (f x)) \<Longrightarrow> yields Q (andThen m f)"
  unfolding yields_def run_andThen by blast

lemma yields_lift_then: "(\<And>x. v = Inr x \<Longrightarrow> yields Q (f x)) \<Longrightarrow> yields Q (andThen (lift v) f)"
  unfolding yields_def by auto

lemma yields_reads: "(\<And>s. yields Q (f s)) \<Longrightarrow> yields Q (reads f)"
  unfolding yields_def by auto

lemma yields_if: "(b \<Longrightarrow> yields Q m) \<Longrightarrow> (\<not> b \<Longrightarrow> yields Q n) \<Longrightarrow> yields Q (if b then m else n)"
  by simp

lemma yields_option:
  "(x = None \<Longrightarrow> yields Q m) \<Longrightarrow> (\<And>y. x = Some y \<Longrightarrow> yields Q (f y)) \<Longrightarrow>
   yields Q (case x of None \<Rightarrow> m | Some y \<Rightarrow> f y)"
  by (cases x) auto

lemma yields_let: "(\<And>y. y = v \<Longrightarrow> yields Q (f y)) \<Longrightarrow> yields Q (let y = v in f y)"
  by (simp add: Let_def)

lemma yields_prod: "(\<And>a b. x = (a, b) \<Longrightarrow> yields Q (f a b)) \<Longrightarrow> yields Q (case x of (a, b) \<Rightarrow> f a b)"
  by (cases x) auto

lemma yields_savepoint: "yields Q m \<Longrightarrow> (\<And>e. yields Q (h e)) \<Longrightarrow> yields Q (savepoint p m h)"
  unfolding yields_def savepoint_def by (simp split: sum.splits)

lemmas yields_rules = yields_lift_then yields_andThen yields_reads yields_if yields_option yields_let
  yields_prod yields_savepoint

end
