(* ===== verification/Hooks.thy ===== *)
theory Hooks
  imports Frames
begin

text \<open>
  The write hooks: whatever order on stores tolerates an update of the feed, a freshly staged review,
  a provenance link and an appended journal or audit entry is preserved by every hook, so that a
  write of a row only has to answer for the row.
\<close>

lemma steps_payload:
  "(\<And>c. p = PContact c \<Longrightarrow> steps R (f1 c)) \<Longrightarrow> (\<And>c n. p = PFriend c n \<Longrightarrow> steps R (f2 c n)) \<Longrightarrow>
   (\<And>i d v. p = PResponse i d v \<Longrightarrow> steps R (f3 i d v)) \<Longrightarrow> (\<And>x. p = PMessage x \<Longrightarrow> steps R (f4 x)) \<Longrightarrow>
   (\<And>sc n. p = PTask sc n \<Longrightarrow> steps R (f5 sc n)) \<Longrightarrow> (\<And>h n. p = POperation h n \<Longrightarrow> steps R (f6 h n)) \<Longrightarrow>
   (\<And>n m h. p = PWorker n m h \<Longrightarrow> steps R (f7 n m h)) \<Longrightarrow> (\<And>h. p = PV2 h \<Longrightarrow> steps R (f8 h)) \<Longrightarrow>
   steps R (case p of PContact c \<Rightarrow> f1 c | PFriend c n \<Rightarrow> f2 c n | PResponse i d v \<Rightarrow> f3 i d v
     | PMessage x \<Rightarrow> f4 x | PTask sc n \<Rightarrow> f5 sc n | POperation h n \<Rightarrow> f6 h n
     | PWorker n m h \<Rightarrow> f7 n m h | PV2 h \<Rightarrow> f8 h)"
  by (cases p) simp_all

lemma steps_review_status:
  "steps R a \<Longrightarrow> steps R b \<Longrightarrow> steps R d \<Longrightarrow>
   steps R (case st of RvPending \<Rightarrow> a | RvApproved \<Rightarrow> b | RvRejected \<Rightarrow> d)"
  by (cases st) simp_all

lemma steps_json:
  "steps R f0 \<Longrightarrow> (\<And>b. j = JBool b \<Longrightarrow> steps R (f1 b)) \<Longrightarrow> (\<And>n. j = JInt n \<Longrightarrow> steps R (f2 n)) \<Longrightarrow>
   (\<And>x. j = JFloat x \<Longrightarrow> steps R (f3 x)) \<Longrightarrow> (\<And>x. j = JStr x \<Longrightarrow> steps R (f4 x)) \<Longrightarrow>
   (\<And>xs. j = JArr xs \<Longrightarrow> steps R (f5 xs)) \<Longrightarrow> (\<And>kvs. j = JObj kvs \<Longrightarrow> steps R (f6 kvs)) \<Longrightarrow>
   steps R (case j of JNull \<Rightarrow> f0 | JBool b \<Rightarrow> f1 b | JInt n \<Rightarrow> f2 n | JFloat x \<Rightarrow> f3 x | JStr x \<Rightarrow> f4 x
     | JArr xs \<Rightarrow> f5 xs | JObj kvs \<Rightarrow> f6 kvs)"
  by (cases j) simp_all

locale hooks = state_preorder R for R :: "store \<Rightarrow> store \<Rightarrow> bool" +
  fixes H :: "string \<Rightarrow> string"
  assumes h_attention: "sha E = H \<Longrightarrow> steps R (attention_put E w sk si n)"
    and h_review: "sha E = H \<Longrightarrow> tget (review_key_of E r) (reviews s) = None \<Longrightarrow> rv_status r = RvPending \<Longrightarrow>
      R s (s\<lparr>reviews := tput (review_key_of E r) r (reviews s)\<rparr>)"
    and h_links: "R s (s\<lparr>links := l\<rparr>)"
    and h_history: "R s (s\<lparr>history := history s @ h\<rparr>)"
    and h_audit: "R s (s\<lparr>audits := audits s @ a\<rparr>)"
begin

lemma hk_link: "steps R (record_link E kind rid owner task)"
  unfolding record_link_def by (intro steps_option steps_prod steps_if steps_let steps_ret steps_modify h_links)

lemma hk_journal: "steps R (journal E owner kind task rid st details src)"
  unfolding journal_def by (intro steps_option steps_if steps_ret steps_modify h_history)

lemma hk_audit: "steps R (audit E event data)"
  unfolding audit_def by (intro steps_modify h_audit)

lemma hk_stage:
  assumes E: "sha E = H" shows "steps R (stage_peer_review E w rc session)"
proof -
  have upd: "R s (s\<lparr>reviews := tput (review_key E session w) r (reviews s)\<rparr>)"
    if "tget (review_key E session w) (reviews s) = None" "rv_status r = RvPending"
      "rv_owner r = principal session" "rv_sender r = w_sender w" "rv_id r = w_id w" for s r
  proof -
    have "review_key E session w = review_key_of E r"
      using that by (simp add: review_key_def review_key_of_def)
    then show ?thesis using h_review [OF E] that by simp
  qed
  show ?thesis
    unfolding stage_peer_review_def steps_def Let_def
    by (auto split: option.splits if_splits intro!: step_refl upd)
qed

lemma hk_event_review:
  assumes E: "sha E = H" shows "steps R (event_review E p session)"
  unfolding event_review_def by (intro steps_reads steps_list steps_ret hk_stage E)

lemma hk_review_safe:
  assumes E: "sha E = H" shows "steps R (collaboration_review_safe E c session)"
  unfolding collaboration_review_safe_def
  by (intro steps_reads steps_if steps_ret steps_andThen steps_any_act hk_event_review E)

lemma hk_v2_current:
  assumes E: "sha E = H" shows "steps R (v2_operation_current E z)"
  unfolding v2_operation_current_def
  by (intro steps_reads steps_let steps_if steps_option steps_ret steps_andThen hk_review_safe E)

lemma hk_approval_current:
  assumes E: "sha E = H" shows "steps R (approval_current E a)"
  unfolding approval_current_def
  by (intro steps_if steps_ret steps_reads steps_payload steps_lift steps_option hk_v2_current E)

lemma hk_attention_approval:
  assumes E: "sha E = H" shows "steps R (attention_approval E a refresh)"
  unfolding attention_approval_def approval_state_def
  by (intro steps_andThen steps_if steps_ret steps_reads steps_lift steps_prod h_attention hk_approval_current E)

lemma hk_announce:
  assumes E: "sha E = H" shows "steps R (announce_inbound E m ev owner)"
  unfolding announce_inbound_def
  by (intro steps_reads steps_option steps_ret steps_let steps_andThen steps_if steps_raise steps_lift h_attention E)

lemma hk_attention_inbound:
  assumes E: "sha E = H" shows "steps R (attention_inbound E m session)"
  unfolding attention_inbound_def
  by (intro steps_if steps_ret steps_reads steps_option steps_for_each hk_announce steps_andThen steps_lift E)

lemma hk_attention_operation:
  assumes E: "sha E = H" shows "steps R (attention_operation E k oid owner tid st ds since h)"
  unfolding attention_operation_def
  by (intro steps_reads steps_let steps_if steps_ret h_attention E)

lemma hk_attention_collaboration:
  assumes E: "sha E = H" shows "steps R (attention_collaboration E c)"
  unfolding attention_collaboration_def
  by (intro steps_andThen hk_review_safe steps_reads steps_let steps_if steps_option steps_ret
      steps_prod h_attention E) (auto intro: h_attention [OF E] steps_ret split: option.splits)

lemma hk_worker_attention:
  assumes E: "sha E = H" shows "steps R (worker_attention E r)"
  unfolding worker_attention_def
  by (intro steps_reads steps_if steps_ret steps_andThen steps_lift h_attention E)

lemma hk_friend_attention:
  assumes E: "sha E = H" shows "steps R (friend_attention E q)"
  unfolding friend_attention_def by (intro steps_if steps_ret h_attention E)

lemmas hook_steps = hk_link hk_journal hk_audit hk_stage hk_event_review hk_review_safe hk_v2_current
  hk_approval_current hk_attention_approval hk_announce hk_attention_inbound hk_attention_operation
  hk_attention_collaboration hk_worker_attention hk_friend_attention h_attention

text \<open>
  Rows with hooks: the obligation is the row alone, and it may use that the start state has only
  evolved (\<open>keeps\<close>), or is this very state but for a provenance link (\<open>goes\<close>).
\<close>

lemma goes_link_then:
  assumes "\<And>l. goes R (s\<lparr>links := l\<rparr>) (f ())"
  shows "goes R s (andThen (record_link E kind rid owner task) f)"
proof (rule goesI)
  fix x t
  assume run: "andThen (record_link E kind rid owner task) f s = Inr (x, t)"
  then obtain u where u: "record_link E kind rid owner task s = Inr ((), u)" "f () u = Inr (x, t)"
    by auto
  then have "\<exists>l. u = s\<lparr>links := l\<rparr>"
    by (auto simp: record_link_def Let_def split: option.splits prod.splits if_splits intro: exI [of _ "links s"])
  then obtain l where l: "u = s\<lparr>links := l\<rparr>" by blast
  then have "R u t" using assms [of l] u(2) by (simp add: goes_def)
  then show "R s t" using h_links [of s l] l by (blast intro: step_trans)
qed

lemmas keeps_row_rules = keeps_reads goes_keeps keeps_andThen keeps_when keeps_steps [OF steps_ret]
lemmas keeps_hooks = hook_steps [THEN keeps_steps]

lemma hk_keep_task:
  assumes E: "sha E = H" and "\<And>s src. R s0 s \<Longrightarrow> R s (s\<lparr>tasks := tput (t_id t) (t\<lparr>t_source := src\<rparr>) (tasks s)\<rparr>)"
  shows "keeps R s0 (put_task E t)"
  unfolding put_task_def Let_def using assms(2)
  by (intro keeps_row_rules keeps_hooks E keeps_modify) (auto intro: step_trans)

lemma hk_goes_task:
  assumes E: "sha E = H" and "\<And>l src. R (s\<lparr>links := l\<rparr>) (s\<lparr>links := l, tasks := tput (t_id t) (t\<lparr>t_source := src\<rparr>) (tasks s)\<rparr>)"
  shows "goes R s (put_task E t)"
  unfolding put_task_def Let_def
  by (intro goes_reads goes_link_then goes_andThen goes_modify steps_andThen steps_when steps_ret
      hook_steps E) (simp add: assms(2))

lemma hk_keep_approval:
  assumes E: "sha E = H" and "\<And>s src. R s0 s \<Longrightarrow> R s (s\<lparr>approvals := tput (p_id a) (a\<lparr>p_source := src\<rparr>) (approvals s)\<rparr>)"
  shows "keeps R s0 (put_approval E a)"
  unfolding put_approval_def Let_def using assms(2)
  by (intro keeps_row_rules keeps_hooks E keeps_modify) (auto intro: step_trans)

lemma hk_goes_approval:
  assumes E: "sha E = H" and "\<And>l src. R (s\<lparr>links := l\<rparr>) (s\<lparr>links := l, approvals := tput (p_id a) (a\<lparr>p_source := src\<rparr>) (approvals s)\<rparr>)"
  shows "goes R s (put_approval E a)"
  unfolding put_approval_def Let_def
  by (intro goes_reads goes_link_then goes_andThen goes_modify steps_andThen steps_when steps_ret
      hook_steps E) (simp add: assms(2))

lemma hk_keep_collaboration:
  assumes E: "sha E = H" and "\<And>s src. R s0 s \<Longrightarrow> R s (s\<lparr>collaborations := tput (v_id c) (collaboration_row (c\<lparr>v_source := src\<rparr>)) (collaborations s)\<rparr>)"
  shows "keeps R s0 (put_collaboration E c)"
  unfolding put_collaboration_def Let_def using assms(2)
  by (intro keeps_row_rules keeps_hooks E keeps_modify) (auto intro: step_trans)

lemma hk_goes_collaboration:
  assumes E: "sha E = H" and "\<And>l src. R (s\<lparr>links := l\<rparr>) (s\<lparr>links := l, collaborations := tput (v_id c) (collaboration_row (c\<lparr>v_source := src\<rparr>)) (collaborations s)\<rparr>)"
  shows "goes R s (put_collaboration E c)"
  unfolding put_collaboration_def Let_def
  by (intro goes_reads goes_link_then goes_andThen goes_modify steps_andThen steps_when steps_ret
      hook_steps E) (simp add: assms(2))

lemma hk_keep_operation:
  assumes E: "sha E = H" and "\<And>s. R s0 s \<Longrightarrow> R s (s\<lparr>operations := tput (o_id o') o' (operations s)\<rparr>)"
  shows "keeps R s0 (put_operation E o')"
  unfolding put_operation_def Let_def attention_v1_def using assms(2)
  by (intro keeps_row_rules keeps_hooks E keeps_modify) (auto intro: step_trans)

lemma hk_goes_operation:
  assumes E: "sha E = H" and "R s (s\<lparr>operations := tput (o_id o') o' (operations s)\<rparr>)"
  shows "goes R s (put_operation E o')"
  unfolding put_operation_def Let_def attention_v1_def
  by (intro goes_reads goes_andThen goes_modify steps_andThen steps_when steps_ret
      hook_steps E) (simp_all add: assms(2))

lemma hk_keep_v2_operation:
  assumes E: "sha E = H" and "\<And>s. R s0 s \<Longrightarrow> R s (s\<lparr>v2_operations := tput (z_id z) z (v2_operations s)\<rparr>)"
  shows "keeps R s0 (put_v2_operation E z)"
  unfolding put_v2_operation_def Let_def attention_v2_def using assms(2)
  by (intro keeps_row_rules keeps_hooks E keeps_modify) (auto intro: step_trans)

lemma hk_goes_v2_operation:
  assumes E: "sha E = H" and "R s (s\<lparr>v2_operations := tput (z_id z) z (v2_operations s)\<rparr>)"
  shows "goes R s (put_v2_operation E z)"
  unfolding put_v2_operation_def Let_def attention_v2_def
  by (intro goes_reads goes_andThen goes_modify steps_andThen steps_when steps_ret
      hook_steps E) (simp_all add: assms(2))

lemma hk_keep_inbound:
  assumes E: "sha E = H" and "\<And>s. R s0 s \<Longrightarrow> R s (s\<lparr>inbox := tput (w_id m) m (inbox s)\<rparr>)"
  shows "keeps R s0 (put_inbound E m)"
  unfolding put_inbound_def Let_def using assms(2)
  by (intro keeps_row_rules keeps_hooks E keeps_modify) (auto intro: step_trans)

lemma hk_goes_inbound:
  assumes E: "sha E = H" and "R s (s\<lparr>inbox := tput (w_id m) m (inbox s)\<rparr>)"
  shows "goes R s (put_inbound E m)"
  unfolding put_inbound_def Let_def
  by (intro goes_reads goes_andThen goes_modify steps_andThen steps_when steps_ret
      hook_steps E) (simp_all add: assms(2))

end

text \<open>
  The protocol on top of the hooks: recording an event, queueing a fixed receipt, keeping an unbound
  invitation.
\<close>

locale protocol = hooks +
  assumes p_v2op: "tget (z_id z) (v2_operations s) = None \<Longrightarrow> z_permit z = None \<Longrightarrow> z_new z = None \<Longrightarrow>
      R s (s\<lparr>v2_operations := tput (z_id z) z (v2_operations s)\<rparr>)"
    and p_event: "R s (s\<lparr>events := tput k e (events s)\<rparr>)"
    and p_invitation: "tget k (invitations s) = None \<Longrightarrow>
      R s (s\<lparr>invitations := tput k iv (invitations s)\<rparr>)"
begin

lemma pr_put_event: "steps R (put_event k e)"
  unfolding put_event_def by (intro steps_modify p_event)

lemma pr_save_event: "steps R (save_event E c p st reason out)"
  unfolding save_event_def by (intro steps_let steps_andThen pr_put_event steps_ret)

lemma pr_queue:
  assumes E: "sha E = H" shows "steps R (v2_queue E c k payload)"
  unfolding v2_queue_def Let_def
  by (intro steps_option steps_ret steps_if steps_goes goes_reads goes_option goes_raise goes_lift_then
      goes_prod goes_if goes_ret goes_andThen hk_goes_v2_operation E p_v2op)
    (auto simp: queued_operation_def)

lemma pr_form:
  assumes E: "sha E = H" shows "steps R (v2_form E c)"
  unfolding v2_form_def by (intro steps_if steps_ret steps_andThen steps_lift pr_queue E)

lemma pr_opening: "steps R (apply_opening E c p)"
  unfolding apply_opening_def
  by (intro steps_andThen steps_lift steps_if steps_raise steps_ret steps_reads steps_option)

lemma pr_terms: "steps R (apply_terms E c p)"
  unfolding apply_terms_def
  by (intro steps_andThen steps_lift steps_let steps_if steps_raise steps_ret)

lemma pr_accept:
  assumes E: "sha E = H" shows "steps R (apply_accept E c p)"
  unfolding apply_accept_def
  by (intro steps_andThen steps_lift steps_let steps_if steps_raise pr_form E)

lemma pr_agreement:
  assumes E: "sha E = H" shows "steps R (apply_agreement E c p out)"
  unfolding apply_agreement_def
  by (intro steps_andThen steps_lift steps_let steps_if steps_raise steps_ret steps_reads steps_json pr_queue E)

lemma pr_ack: "steps R (apply_ack E c p out)"
  unfolding apply_ack_def by (intro steps_andThen steps_lift steps_if steps_raise steps_ret)

lemma pr_withdraw:
  assumes E: "sha E = H" shows "steps R (apply_withdraw E c p)"
  unfolding apply_withdraw_def
  by (intro steps_andThen steps_lift steps_let steps_if steps_option steps_raise steps_ret pr_queue E)

lemma pr_cancel: "steps R (apply_cancel E c p)"
  unfolding apply_cancel_def by (intro steps_andThen steps_lift steps_if steps_raise steps_ret)

lemma pr_receipt: "steps R (apply_receipt E c p out)"
  unfolding apply_receipt_def
  by (intro steps_andThen steps_lift steps_let steps_if steps_option steps_reads steps_raise steps_ret pr_put_event)

lemma pr_record_event: "steps R (record_event E c p)"
  unfolding record_event_def
  by (intro steps_reads steps_option steps_if steps_raise steps_ret steps_andThen steps_lift pr_save_event)

lemma pr_sync:
  assumes E: "sha E = H" shows "steps R (apply_sync E c p out)"
  unfolding apply_sync_def
  by (intro steps_if steps_andThen steps_lift steps_json steps_raise steps_ret pr_queue steps_for_each
      pr_record_event E)

lemma pr_apply:
  assumes E: "sha E = H" shows "steps R (v2_apply E c p out)"
proof -
  have "steps R (case pk_kind p of
       VInvite \<Rightarrow> apply_opening E c p | VJoin \<Rightarrow> apply_opening E c p
     | VProposal \<Rightarrow> apply_terms E c p | VChangeRequest \<Rightarrow> apply_terms E c p
     | VAccept \<Rightarrow> apply_accept E c p | VAgreement \<Rightarrow> apply_agreement E c p out
     | VAgreementAck \<Rightarrow> apply_ack E c p out | VWithdraw \<Rightarrow> apply_withdraw E c p
     | VCancelRequest \<Rightarrow> apply_cancel E c p | VCancelAck \<Rightarrow> apply_cancel E c p
     | VReceipt \<Rightarrow> apply_receipt E c p out | VSyncRequest \<Rightarrow> apply_sync E c p out
     | VSyncResponse \<Rightarrow> apply_sync E c p out)"
    by (cases "pk_kind p") (simp_all add: pr_opening pr_terms pr_accept pr_agreement pr_ack pr_withdraw
        pr_cancel pr_receipt pr_sync E)
  then show ?thesis unfolding v2_apply_def by (intro steps_andThen steps_lift)
qed

lemma pr_ingest_bound:
  assumes E: "sha E = H" shows "steps R (ingest_bound E c p)"
  unfolding ingest_bound_def
  by (intro steps_andThen pr_record_event steps_prod steps_if steps_ret steps_savepoint pr_apply
      pr_put_event E)

lemma pr_consume:
  assumes E: "sha E = H" shows "steps R (consume E c r receipt)"
  unfolding consume_def receipt_for_def
  by (intro steps_let steps_andThen pr_put_event steps_if steps_ret pr_queue E)

lemma pr_reduce:
  assumes E: "sha E = H" shows "steps R (reduce_event E c r)"
  unfolding reduce_event_def
  by (intro steps_let steps_savepoint steps_andThen pr_apply steps_ret E) (auto intro: steps_ret split: exn.splits)

lemma pr_drain_buffered:
  assumes E: "sha E = H" shows "steps R (drain_buffered E c r)"
  unfolding drain_buffered_def Let_def
  by (intro steps_andThen steps_lift steps_if pr_consume pr_reduce steps_ret E)
    (auto intro!: steps_andThen pr_put_event pr_consume steps_ret E split: reduction.splits)

lemma pr_drain_step:
  assumes E: "sha E = H" shows "steps R (drain_step E c)"
  unfolding drain_step_def Let_def
  by (intro steps_reads steps_option steps_ret steps_if steps_andThen steps_review_status pr_consume
      hk_event_review pr_drain_buffered E)

lemma pr_drain_loop:
  assumes E: "sha E = H" shows "steps R (drain_loop n E c)"
  by (induction n arbitrary: c) (auto intro!: steps_ret steps_andThen pr_drain_step E)

lemma pr_settle:
  assumes E: "sha E = H" shows "steps R (settle E c)"
  unfolding settle_def
  by (intro steps_reads steps_let steps_andThen steps_if hk_review_safe steps_ret pr_queue E)

lemma pr_drain:
  assumes E: "sha E = H" shows "steps R (v2_drain E c)"
  unfolding v2_drain_def by (intro steps_andThen pr_drain_loop pr_settle E)

lemma pr_record_invitation: "steps R (record_invitation E mid p)"
  unfolding record_invitation_def Let_def
  by (intro steps_goes goes_if goes_raise goes_lift_then goes_reads goes_option goes_ret goes_andThen
      goes_modify p_invitation steps_ret) auto

end

section \<open>What the hooks and the reducer leave alone\<close>

definition quiet :: "store \<Rightarrow> store \<Rightarrow> bool" where
  "quiet s t \<longleftrightarrow> contacts s = contacts t \<and> resources s = resources t \<and> tasks s = tasks t
     \<and> operations s = operations t \<and> approvals s = approvals t \<and> proposals s = proposals t
     \<and> inbox s = inbox t \<and> outboxes s = outboxes t \<and> connections s = connections t
     \<and> requests s = requests t \<and> blocks s = blocks t \<and> safety s = safety t
     \<and> message_blocks s = message_blocks t \<and> previews s = previews t \<and> reads_at s = reads_at t
     \<and> profile s = profile t \<and> conversation_turns s = conversation_turns t \<and> workers s = workers t
     \<and> runs s = runs t \<and> collaborations s = collaborations t \<and> mutations s = mutations t
     \<and> owner_actions s = owner_actions t \<and> sessions s = sessions t \<and> resumes s = resumes t"

definition still :: "store \<Rightarrow> store \<Rightarrow> bool" where
  "still s t \<longleftrightarrow> quiet s t \<and> v2_operations s = v2_operations t \<and> events s = events t
     \<and> invitations s = invitations t"

lemma attention_put_still: "steps still (attention_put E w sk si n)"
  by (auto simp: steps_def attention_put_def Let_def still_def quiet_def split: if_splits)

lemma still_quiet: "still s t \<Longrightarrow> quiet s t"
  by (simp add: still_def)

lemma attention_put_quiet: "steps quiet (attention_put E w sk si n)"
  using attention_put_still [of E w sk si n] by (auto simp: steps_def dest: still_quiet)

interpretation st: hooks still H for H
proof
  show "steps still (attention_put E w sk si n)" for E w sk si n by (rule attention_put_still)
qed (auto simp: still_def quiet_def)

interpretation qt: protocol quiet H for H
proof
  show "steps quiet (attention_put E w sk si n)" for E w sk si n by (rule attention_put_quiet)
qed (auto simp: quiet_def)

section \<open>One table at a time\<close>

definition same_table :: "(store \<Rightarrow> 'v table) \<Rightarrow> store \<Rightarrow> store \<Rightarrow> bool" where
  "same_table f s t \<longleftrightarrow> f s = f t"

text \<open>\<open>other_rows f k\<close>: at most the row \<open>k\<close> of the table \<open>f\<close> may have changed.\<close>

definition other_rows :: "(store \<Rightarrow> 'v table) \<Rightarrow> string \<Rightarrow> store \<Rightarrow> store \<Rightarrow> bool" where
  "other_rows f k s t \<longleftrightarrow> (\<forall>j. j \<noteq> k \<longrightarrow> tget j (f t) = tget j (f s))"

locale still_table =
  fixes f :: "store \<Rightarrow> 'v table"
  assumes table_still: "still s t \<Longrightarrow> f s = f t"
begin

lemma same_update:
  "steps still m \<Longrightarrow> steps (same_table f) m" "steps still m \<Longrightarrow> steps (other_rows f k) m"
  unfolding steps_def same_table_def other_rows_def by (metis table_still)+

end

sublocale still_table \<subseteq> same: hooks "same_table f" H for H
proof
  show "steps (same_table f) (attention_put E w sk si n)" for E w sk si n
    by (rule same_update) (rule attention_put_still)
qed (auto simp: same_table_def intro!: table_still, auto simp: still_def quiet_def)

sublocale still_table \<subseteq> other: hooks "other_rows f k" H for k H
proof
  show "steps (other_rows f k) (attention_put E w sk si n)" for E w sk si n
    by (rule same_update) (rule attention_put_still)
qed (auto simp: other_rows_def intro!: arg_cong [where f = "tget _"] table_still [symmetric],
    auto simp: still_def quiet_def)

interpretation tb_approvals: still_table approvals
  by unfold_locales (simp add: still_def quiet_def)

interpretation tb_collaborations: still_table collaborations
  by unfold_locales (simp add: still_def quiet_def)

interpretation tb_operations: still_table operations
  by unfold_locales (simp add: still_def quiet_def)

interpretation tb_v2_operations: still_table v2_operations
  by unfold_locales (simp add: still_def quiet_def)

interpretation tb_tasks: still_table tasks
  by unfold_locales (simp add: still_def quiet_def)

interpretation tb_contacts: still_table contacts
  by unfold_locales (simp add: still_def quiet_def)

interpretation tb_inbox: still_table inbox
  by unfold_locales (simp add: still_def quiet_def)

interpretation tb_workers: still_table workers
  by unfold_locales (simp add: still_def quiet_def)

end
