(* ===== verification/Policy_Laws.thy ===== *)
theory Policy_Laws
  imports Policy
begin

text \<open>
  What the policy guarantees: the validators return well-formed values and are the identity on
  their own normal forms, the verdict \<open>Allow\<close> is exactly an abstract membership in the mandate,
  and the hard limits cannot be overridden.
\<close>

section \<open>Well-formed mandates and actions\<close>

definition string_ok :: "nat \<Rightarrow> bool \<Rightarrow> string \<Rightarrow> bool" where
  "string_ok maximum ident s \<longleftrightarrow> \<not> py_blank s \<and> pylen s \<le> maximum \<and> encodable s
     \<and> list_all (\<lambda>c. 32 \<le> byte c \<or> byte c = 10 \<or> byte c = 9) s
     \<and> (ident \<longrightarrow> list_all (\<lambda>n. \<not> cp_space n) (codepoints s) \<and> pylen s \<le> 256)"

definition ids_ok :: "bool \<Rightarrow> string list \<Rightarrow> bool" where
  "ids_ok nonempty xs \<longleftrightarrow> sorted_wrt (<) xs \<and> length xs \<le> 128 \<and> (nonempty \<longrightarrow> xs \<noteq> [])
     \<and> list_all (string_ok 256 True) xs"

definition interval_ok :: "interval \<Rightarrow> bool" where
  "interval_ok i \<longleftrightarrow> instant_ok (fst i) \<and> instant_ok (snd i) \<and> fst i < snd i"

definition wf_scope :: "scope \<Rightarrow> bool" where
  "wf_scope s \<longleftrightarrow> string_ok 1000 False (sc_purpose s) \<and> string_ok 500 False (sc_topic s)
     \<and> ids_ok True (sc_capabilities s) \<and> list_all (\<lambda>c. cap_of c \<noteq> None) (sc_capabilities s)
     \<and> ids_ok True (sc_recipient_ids s) \<and> ids_ok False (sc_participant_ids s)
     \<and> ids_ok False (sc_resource_ids s)
     \<and> instant_ok (sc_window_start s) \<and> instant_ok (sc_window_end s)
     \<and> sc_window_start s < sc_window_end s \<and> instant_ok (sc_expires_at s)
     \<and> (case sc_allowed_windows s of None \<Rightarrow> True
        | Some ws \<Rightarrow> ws \<noteq> [] \<and> length ws \<le> 128 \<and> list_all interval_ok ws \<and> list_all (in_window s) ws)
     \<and> 1 \<le> sc_max_duration_minutes s \<and> sc_max_duration_minutes s \<le> 10080
     \<and> 1 \<le> sc_max_candidates s \<and> sc_max_candidates s \<le> 128
     \<and> 1 \<le> sc_max_actions s \<and> sc_max_actions s \<le> 100000"

definition wf_meeting :: "meeting \<Rightarrow> bool" where
  "wf_meeting m \<longleftrightarrow> string_ok 256 True (m_proposal_id m) \<and> 1 \<le> m_version m \<and> m_version m \<le> 2147483647
     \<and> string_ok 500 False (m_topic m) \<and> ids_ok True (m_participant_ids m)
     \<and> interval_ok (m_start m, m_end m)"

fun payload_ok :: "capability \<Rightarrow> payload \<Rightarrow> bool" where
  "payload_ok ShareSlots (Slots is) \<longleftrightarrow> is \<noteq> [] \<and> length is \<le> 128 \<and> distinct is \<and> list_all interval_ok is"
| "payload_ok ShareResource (ResourceRef r) \<longleftrightarrow> string_ok 256 True r"
| "payload_ok SendText (FreeText t) \<longleftrightarrow> string_ok 8000 False t"
| "payload_ok ProposeMeeting (Meeting m) \<longleftrightarrow> wf_meeting m"
| "payload_ok AcceptMeeting (Meeting m) \<longleftrightarrow> wf_meeting m"
| "payload_ok _ _ \<longleftrightarrow> False"

definition wf_action :: "action \<Rightarrow> bool" where
  "wf_action a \<longleftrightarrow> ids_ok True (a_recipient_ids a) \<and> payload_ok (a_capability a) (a_payload a)"

section \<open>Field validators\<close>

lemma vfail_not_Inr [simp]: "vfail m = Inr x \<longleftrightarrow> False" "vfail m = Inl e \<longleftrightarrow> e = ValidationError m False"
  by (auto simp: vfail_def)

lemma cap_of_cap_str [simp]: "cap_of (cap_str c) = Some c"
  by (cases c) (simp_all add: cap_of_def capabilities_all_def)

lemma cap_of_Some: "cap_of s = Some c \<Longrightarrow> s = cap_str c"
  by (auto simp: cap_of_def capabilities_all_def split: if_splits)

lemma check_string_Inr:
  "check_string v p m i = Inr s \<longleftrightarrow> v = JStr s \<and> string_ok m i s"
  by (cases v) (auto simp: check_string_def string_ok_def list_ex_iff list_all_iff not_less not_le)

lemma check_identifier_Inr: "check_identifier v p = Inr s \<longleftrightarrow> v = JStr s \<and> string_ok 256 True s"
  by (simp add: check_identifier_def check_string_Inr)

lemma check_integer_Inr: "check_integer v p lo hi = Inr n \<longleftrightarrow> v = JInt n \<and> lo \<le> n \<and> n \<le> hi"
  by (cases v) (auto simp: check_integer_def)

lemma sorted_set_idem [simp]: "sorted_wrt (<) xs \<Longrightarrow> sorted_set xs = xs"
  by (simp add: sorted_set_def strict_sorted_iff sorted_sort_id distinct_remdups_id)

lemma sorted_set_strict: "sorted_wrt (<) (sorted_set xs)"
  by (simp add: sorted_set_def strict_sorted_iff)

lemma set_sorted_set [simp]: "set (sorted_set xs) = set xs"
  by (simp add: sorted_set_def)

lemma length_sorted_set: "length (sorted_set xs) \<le> length xs"
  by (simp add: sorted_set_def length_remdups_leq)

lemma mapE_identifiers:
  "mapE (\<lambda>v. check_identifier v p) vs = Inr ids \<longleftrightarrow> vs = map JStr ids \<and> list_all (string_ok 256 True) ids"
proof (induction vs arbitrary: ids)
  case (Cons v vs)
  then show ?case by (cases ids) (auto simp: check_identifier_Inr)
qed auto

lemma check_ids_ok:
  assumes "check_ids v p ne caps = Inr xs"
  shows "ids_ok ne xs \<and> (caps \<longrightarrow> list_all (\<lambda>c. cap_of c \<noteq> None) xs)"
proof -
  from assms obtain vs where v: "v = JArr vs"
    by (cases v) (auto simp: check_ids_def)
  have "\<not> (128 < length vs \<or> ne \<and> vs = []) \<and> (\<exists>ids. vs = map JStr ids
      \<and> list_all (string_ok 256 True) ids \<and> xs = sorted_set ids
      \<and> \<not> (caps \<and> list_ex (\<lambda>i. cap_of i = None) xs))"
    using assms unfolding v
    by (auto simp del: de_Morgan_disj de_Morgan_conj
        simp: check_ids_def Let_def mapE_identifiers split: if_split_asm)
  then obtain ids where ids: "\<not> 128 < length vs" "ne \<longrightarrow> vs \<noteq> []" "vs = map JStr ids"
      "list_all (string_ok 256 True) ids" "xs = sorted_set ids"
      "\<not> (caps \<and> list_ex (\<lambda>i. cap_of i = None) xs)"
    by blast
  moreover have "xs = [] \<longleftrightarrow> ids = []"
    using set_sorted_set [of ids] ids(5) by (metis set_empty)
  ultimately show ?thesis
    using length_sorted_set [of ids] sorted_set_strict [of ids]
    by (auto simp: ids_ok_def list_all_iff list_ex_iff)
qed

lemma check_ids_normal:
  assumes "ids_ok ne xs" "caps \<longrightarrow> list_all (\<lambda>c. cap_of c \<noteq> None) xs"
  shows "check_ids (jstrs xs) p ne caps = Inr xs"
proof -
  have "mapE (\<lambda>v. check_identifier v (p @ ''[]'')) (map JStr xs) = Inr xs"
    using assms(1) by (simp add: mapE_identifiers ids_ok_def)
  then show ?thesis
    using assms by (auto simp: check_ids_def jstrs_def ids_ok_def Let_def list_ex_iff list_all_iff)
qed

lemma check_time_ok: "check_time v p = Inr t \<Longrightarrow> instant_ok t"
  by (cases v) (auto simp: check_time_def Let_def split: if_splits option.splits dest: parse_utc_ok)

lemma check_time_normal [simp]: "instant_ok t \<Longrightarrow> check_time (JStr (iso_z t)) p = Inr t"
  by (simp add: check_time_def rfc3339_shape_iso_z parse_utc_iso_z)

lemma check_object_Inr:
  "check_object v fs p os = Inr kvs \<longleftrightarrow> v = JObj kvs \<and> set (jkeys kvs) \<subseteq> set fs
     \<and> set fs \<subseteq> set (jkeys kvs) \<union> set os"
proof (cases v)
  case (JObj x)
  have "sort (remdups (filter P ks)) = [] \<longleftrightarrow> filter P ks = []" for P and ks :: "string list"
    by (metis remdups_eq_nil_iff set_empty set_sort)
  moreover have "sort (filter P ks) = [] \<longleftrightarrow> filter P ks = []" for P and ks :: "string list"
    by (metis set_empty set_sort)
  ultimately show ?thesis
    using JObj by (auto simp: check_object_def Let_def filter_empty_conv split: if_splits)
qed (auto simp: check_object_def)

lemma check_interval_ok: "check_interval v p = Inr i \<Longrightarrow> interval_ok i"
  by (auto simp: check_interval_def interval_ok_def check_time_ok split: if_splits)

lemma check_interval_normal:
  "interval_ok i \<Longrightarrow> check_interval (interval_json i) p = Inr i"
proof -
  assume i: "interval_ok i"
  have "check_object (interval_json i) [''start'', ''end''] p [] =
      Inr [(''start'', JStr (iso_z (fst i))), (''end'', JStr (iso_z (snd i)))]"
    by (simp add: check_object_Inr interval_json_def jkeys_def)
  with i show ?thesis
    by (simp add: check_interval_def jfield_def jget_def interval_ok_def)
qed

lemma check_intervals_ok:
  "check_intervals vs p k = Inr is \<Longrightarrow> list_all interval_ok is \<and> length is = length vs"
  by (induction vs arbitrary: k "is") (auto dest: check_interval_ok)

lemma check_intervals_normal:
  "list_all interval_ok is \<Longrightarrow> check_intervals (map interval_json is) p k = Inr is"
  by (induction "is" arbitrary: k) (auto simp: check_interval_normal)

section \<open>Normal forms\<close>

lemma check_windows_ok:
  assumes "check_windows kvs ws we = Inr (Some xs)"
  shows "xs \<noteq> [] \<and> length xs \<le> 128 \<and> list_all interval_ok xs \<and> list_all (\<lambda>i. ws \<le> fst i \<and> snd i \<le> we) xs"
  using assms
  by (auto simp: check_windows_def Let_def list_ex_iff list_all_iff not_less
      split: option.splits json.splits if_splits dest!: check_intervals_ok)

lemma validate_scope_wf: "validate_scope j = Inr s \<Longrightarrow> wf_scope s"
proof -
  assume v: "validate_scope j = Inr s"
  have "case sc_allowed_windows s of None \<Rightarrow> True
        | Some ws \<Rightarrow> ws \<noteq> [] \<and> length ws \<le> 128 \<and> list_all interval_ok ws \<and> list_all (in_window s) ws"
  proof (cases "sc_allowed_windows s")
    case (Some ws)
    with v obtain kvs a b where "check_windows kvs a b = Inr (Some ws)"
        "a = sc_window_start s" "b = sc_window_end s"
      by (auto simp: validate_scope_def split: if_splits)
    then show ?thesis
      using check_windows_ok [of kvs a b ws] Some by (auto simp: in_window_def list_all_iff)
  qed simp
  then show ?thesis
    using v unfolding wf_scope_def
    by (auto simp: validate_scope_def check_string_Inr check_integer_Inr check_time_ok
        split: if_splits dest!: check_ids_ok)
qed

lemma validate_scope_normal:
  assumes "wf_scope s"
  shows "validate_scope (scope_json s) = Inr s"
proof -
  define kvs where "kvs = (case scope_json s of JObj kvs \<Rightarrow> kvs | _ \<Rightarrow> [])"
  have sj: "scope_json s = JObj kvs" by (simp add: kvs_def scope_json_def)
  have obj: "check_object (JObj kvs) scope_fields ''scope'' [''allowed_windows''] = Inr kvs"
    by (auto simp: check_object_Inr kvs_def scope_json_def scope_fields_def jkeys_def split: option.splits)
  have get: "jfield ''purpose'' kvs = JStr (sc_purpose s)" "jfield ''topic'' kvs = JStr (sc_topic s)"
    "jfield ''capabilities'' kvs = jstrs (sc_capabilities s)"
    "jfield ''recipient_ids'' kvs = jstrs (sc_recipient_ids s)"
    "jfield ''participant_ids'' kvs = jstrs (sc_participant_ids s)"
    "jfield ''resource_ids'' kvs = jstrs (sc_resource_ids s)"
    "jfield ''window_start'' kvs = JStr (iso_z (sc_window_start s))"
    "jfield ''window_end'' kvs = JStr (iso_z (sc_window_end s))"
    "jfield ''expires_at'' kvs = JStr (iso_z (sc_expires_at s))"
    "jfield ''max_duration_minutes'' kvs = JInt (sc_max_duration_minutes s)"
    "jfield ''max_candidates'' kvs = JInt (sc_max_candidates s)"
    "jfield ''max_actions'' kvs = JInt (sc_max_actions s)"
    by (simp_all add: kvs_def scope_json_def jfield_def jget_def split: option.splits)
  have win: "check_windows kvs (sc_window_start s) (sc_window_end s) = Inr (sc_allowed_windows s)"
  proof (cases "sc_allowed_windows s")
    case None
    then show ?thesis by (simp add: check_windows_def kvs_def scope_json_def jget_def)
  next
    case (Some ws)
    then have "jget ''allowed_windows'' kvs = Some (JArr (map interval_json ws))"
      by (simp add: kvs_def scope_json_def jget_def)
    then show ?thesis
      using assms Some
      by (auto simp: check_windows_def wf_scope_def check_intervals_normal list_ex_iff list_all_iff
          in_window_def Let_def)
  qed
  show ?thesis
    unfolding validate_scope_def sj obj bindE_simps get
    using assms win
    by (simp add: wf_scope_def check_ids_normal check_string_Inr
        check_integer_Inr)
qed

text \<open>Validation is idempotent: a validated mandate, printed and validated again, is itself.\<close>

lemma validate_scope_idem: "validate_scope j = Inr s \<Longrightarrow> validate_scope (scope_json s) = Inr s"
  by (rule validate_scope_normal [OF validate_scope_wf])

lemma check_capability_Inr:
  "check_capability v = Inr c \<Longrightarrow> v = JStr (cap_str c)"
  by (auto simp: check_capability_def check_identifier_Inr split: option.splits dest: cap_of_Some)

lemma string_ok_cap_str: "string_ok 256 True (cap_str c)"
  by (cases c) (simp_all add: string_ok_def py_blank_def pylen_def cont_byte_def byte_def cp_space_def
      encodable_def surrogate_def)

lemma check_capability_normal [simp]: "check_capability (JStr (cap_str c)) = Inr c"
  by (simp add: check_capability_def check_identifier_Inr string_ok_cap_str)

lemma validate_payload_ok: "validate_payload c kvs = Inr p \<Longrightarrow> payload_ok c p"
  by (cases c) (auto simp: validate_payload_def check_string_Inr check_identifier_Inr check_integer_Inr
      wf_meeting_def Let_def split: json.splits if_splits
      dest!: check_ids_ok check_intervals_ok check_interval_ok)

lemma validate_action_wf: "validate_action j = Inr a \<Longrightarrow> wf_action a"
  by (auto simp: validate_action_def wf_action_def dest!: check_ids_ok validate_payload_ok)

definition payload_items :: "payload \<Rightarrow> (string \<times> json) list" where
  "payload_items p = (case payload_json p of JObj kvs \<Rightarrow> kvs | _ \<Rightarrow> [])"

lemma payload_json_items: "payload_json p = JObj (payload_items p)"
  by (cases p) (simp_all add: payload_items_def meeting_json_def)

lemma validate_payload_normal:
  assumes "payload_ok c p"
  shows "check_object (payload_json p) (payload_fields c) ''action.payload'' [] = Inr (payload_items p)"
    and "validate_payload c (payload_items p) = Inr p"
proof -
  show "check_object (payload_json p) (payload_fields c) ''action.payload'' [] = Inr (payload_items p)"
    using assms by (cases c; cases p)
      (auto simp: check_object_Inr jkeys_def payload_items_def meeting_json_def)
  have meet: "validate_payload c (payload_items (Meeting m)) = Inr (Meeting m)"
    if "wf_meeting m" "c = ProposeMeeting \<or> c = AcceptMeeting" for m
  proof -
    have "check_interval (JObj [(''start'', JStr (iso_z (m_start m))), (''end'', JStr (iso_z (m_end m)))])
        ''action.payload.interval'' = Inr (m_start m, m_end m)"
      using check_interval_normal [of "(m_start m, m_end m)"] that(1)
      by (simp add: interval_json_def wf_meeting_def)
    then show ?thesis
      using that
      by (auto simp: validate_payload_def payload_items_def meeting_json_def jfield_def jget_def
          wf_meeting_def check_ids_normal check_string_Inr
          check_identifier_Inr check_integer_Inr)
  qed
  show "validate_payload c (payload_items p) = Inr p"
    using assms meet by (cases c; cases p)
      (auto simp: validate_payload_def payload_items_def jfield_def jget_def Let_def
        check_string_Inr check_identifier_Inr check_intervals_normal)
qed

lemma validate_action_normal: "wf_action a \<Longrightarrow> validate_action (action_json a) = Inr a"
proof -
  assume wf: "wf_action a"
  define kvs where "kvs = [(''capability'', JStr (cap_str (a_capability a))),
     (''recipient_ids'', jstrs (a_recipient_ids a)), (''payload'', payload_json (a_payload a))]"
  have "check_object (JObj kvs) [''capability'', ''recipient_ids'', ''payload''] ''action'' [] = Inr kvs"
    by (auto simp: check_object_Inr kvs_def jkeys_def)
  then show ?thesis
    using wf unfolding action_json_def kvs_def [symmetric]
    by (simp add: validate_action_def wf_action_def kvs_def jfield_def jget_def
        check_ids_normal validate_payload_normal)
qed

lemma validate_action_idem: "validate_action j = Inr a \<Longrightarrow> validate_action (action_json a) = Inr a"
  by (rule validate_action_normal [OF validate_action_wf])

section \<open>The verdict\<close>

text \<open>
  The abstract mandate: an action is within it when everything it discloses, everyone it reaches and
  every interval it names is listed.
\<close>

definition within_scope :: "scope \<Rightarrow> action \<Rightarrow> bool" where
  "within_scope sc a \<longleftrightarrow> cap_str (a_capability a) \<in> set (sc_capabilities sc)
     \<and> set (a_recipient_ids a) \<subseteq> set (sc_recipient_ids sc)
     \<and> (case a_payload a of
          Slots is \<Rightarrow> int (length is) \<le> sc_max_candidates sc
        | ResourceRef r \<Rightarrow> r \<in> set (sc_resource_ids sc)
        | Meeting m \<Rightarrow> set (m_participant_ids m) \<subseteq> set (sc_participant_ids sc) \<and> m_topic m = sc_topic sc
        | FreeText t \<Rightarrow> True)
     \<and> (\<forall>i \<in> set (action_intervals a).
          sc_window_start sc \<le> fst i \<and> snd i \<le> sc_window_end sc
          \<and> snd i - fst i \<le> sc_max_duration_minutes sc * 60 * sec
          \<and> (case sc_allowed_windows sc of None \<Rightarrow> True
             | Some ws \<Rightarrow> \<exists>w \<in> set ws. fst w \<le> fst i \<and> snd i \<le> snd w))"

lemma subset_delta_Nil: "subset_delta k al rq = [] \<longleftrightarrow> set rq \<subseteq> set al"
proof -
  have "sorted_set (filter (\<lambda>x. x \<notin> set al) rq) = [] \<longleftrightarrow> filter (\<lambda>x. x \<notin> set al) rq = []"
    by (metis set_empty set_sorted_set)
  then show ?thesis by (auto simp: subset_delta_def Let_def filter_empty_conv)
qed

lemma outside_list_Nil: "outside_list p a = [] \<longleftrightarrow> (\<forall>i \<in> set (action_intervals a). p i)"
  by (auto simp: outside_list_def filter_empty_conv)

lemma limit_delta_Cons [simp]: "limit_delta k x y \<noteq> []"
  by (simp add: limit_delta_def)

lemma payload_delta_Nil:
  "payload_delta sc a = [] \<longleftrightarrow> (case a_payload a of
          Slots is \<Rightarrow> int (length is) \<le> sc_max_candidates sc
        | ResourceRef r \<Rightarrow> r \<in> set (sc_resource_ids sc)
        | Meeting m \<Rightarrow> set (m_participant_ids m) \<subseteq> set (sc_participant_ids sc) \<and> m_topic m = sc_topic sc
        | FreeText t \<Rightarrow> True)"
  by (auto simp: payload_delta_def subset_delta_Nil split: payload.splits)

lemma time_delta_Nil:
  "time_delta sc a = [] \<longleftrightarrow> (\<forall>i \<in> set (action_intervals a).
          in_window sc i \<and> short_enough sc i
          \<and> (case sc_allowed_windows sc of None \<Rightarrow> True | Some ws \<Rightarrow> in_some_window ws i))"
  by (auto simp: time_delta_def Let_def outside_list_Nil split: option.splits)

lemma scope_delta_Nil: "scope_delta sc a = [] \<longleftrightarrow> within_scope sc a"
  unfolding scope_delta_def append_is_Nil_conv subset_delta_Nil payload_delta_Nil time_delta_Nil
    within_scope_def
  by (auto simp: in_window_def short_enough_def in_some_window_def list_ex_iff not_less
      split: option.splits)

lemma judge_action_decision:
  "v_decision (judge_action sc a) =
     (if within_scope sc a \<and> a_capability a \<noteq> SendText then Allow else Ask)"
  by (auto simp: judge_action_def Let_def mk_verdict_def scope_delta_Nil)

lemma evaluate_scope_json: "wf_scope s \<Longrightarrow> evaluate (scope_json s) act used now = evaluate_scope s act used now"
  by (simp add: evaluate_def validate_scope_normal)

lemma evaluate_scope_allow:
  "v_decision (evaluate_scope sc act used now) = Allow \<longleftrightarrow>
     0 \<le> used \<and> used < sc_max_actions sc \<and> now < sc_expires_at sc
     \<and> (\<exists>a. validate_action act = Inr a \<and> within_scope sc a \<and> a_capability a \<noteq> SendText)"
  by (auto simp: evaluate_scope_def mk_verdict_def judge_action_decision not_less not_le
      split: sum.splits if_splits)

lemma evaluate_scope_live:
  "v_decision (evaluate_scope sc act used now) \<in> {Allow, Ask} \<longleftrightarrow>
     0 \<le> used \<and> used < sc_max_actions sc \<and> now < sc_expires_at sc
     \<and> (\<exists>a. validate_action act = Inr a)"
  by (auto simp: evaluate_scope_def mk_verdict_def judge_action_decision not_less not_le
      split: sum.splits if_splits)

end
