(* ===== verification/Evolution.thy ===== *)
theory Evolution
  imports Hooks Policy_Laws "HOL-Library.Sublist"
begin

text \<open>
  How a store may change. \<open>sound\<close> is the invariant of a store: rows under their own key, budgets
  within their limits, the revisions of the feed distinct and covered by the counter. \<open>grows\<close> is
  the order that every transaction follows: confirmed bindings, registered snapshots, replay
  receipts and received content never change, mandates and decisions only advance, an agreement
  stays, journals are appended to. \<open>evolves\<close> is both, and a preorder.
\<close>

section \<open>Tables\<close>

definition table_evolves :: "('v \<Rightarrow> 'v \<Rightarrow> bool) \<Rightarrow> 'v table \<Rightarrow> 'v table \<Rightarrow> bool" where
  "table_evolves P t u \<longleftrightarrow> (\<forall>k v. tget k t = Some v \<longrightarrow> (\<exists>w. tget k u = Some w \<and> P v w))"

definition all_rows :: "('v \<Rightarrow> bool) \<Rightarrow> 'v table \<Rightarrow> bool" where
  "all_rows Q t \<longleftrightarrow> (\<forall>k v. tget k t = Some v \<longrightarrow> Q v)"

definition keyed :: "('v \<Rightarrow> string) \<Rightarrow> 'v table \<Rightarrow> bool" where
  "keyed f t \<longleftrightarrow> twf t \<and> (\<forall>k v. tget k t = Some v \<longrightarrow> f v = k)"

lemma every_row_put: "all_rows Q t \<Longrightarrow> Q v \<Longrightarrow> all_rows Q (tput k v t)"
  by (auto simp: all_rows_def)

lemma all_rowsD: "all_rows Q t \<Longrightarrow> tget k t = Some v \<Longrightarrow> Q v"
  by (auto simp: all_rows_def)

lemma keyed_put: "keyed f t \<Longrightarrow> f v = k \<Longrightarrow> keyed f (tput k v t)"
  by (auto simp: keyed_def)

lemma keyed_tall: "keyed f t \<Longrightarrow> v \<in> set (tall t) \<longleftrightarrow> tget (f v) t = Some v"
  by (auto simp: keyed_def tall_iff)

lemma keyed_distinct: "keyed f t \<Longrightarrow> distinct (map f (tall t))"
proof -
  assume k: "keyed f t"
  then have "map f (tall t) = map fst t"
    unfolding tall_def by (auto simp: keyed_def tget_def twf_distinct)
  then show ?thesis using k by (simp add: keyed_def twf_distinct)
qed

locale row_order =
  fixes P :: "'v \<Rightarrow> 'v \<Rightarrow> bool"
  assumes row_refl: "P v v" and row_trans: "P u v \<Longrightarrow> P v w \<Longrightarrow> P u w"
begin

lemma table_refl: "table_evolves P t t"
  by (auto simp: table_evolves_def row_refl)

lemma table_trans: "table_evolves P t u \<Longrightarrow> table_evolves P u v \<Longrightarrow> table_evolves P t v"
  unfolding table_evolves_def by (meson row_trans)

lemma table_put: "(\<And>v. tget k t = Some v \<Longrightarrow> P v w) \<Longrightarrow> table_evolves P t (tput k w t)"
  by (auto simp: table_evolves_def row_refl)

end

section \<open>What a row keeps\<close>

definition same_core :: "('v \<Rightarrow> 'c) \<Rightarrow> 'v \<Rightarrow> 'v \<Rightarrow> bool" where
  "same_core f v w \<longleftrightarrow> f v = f w"

definition task_le :: "task \<Rightarrow> task \<Rightarrow> bool" where
  "task_le t u \<longleftrightarrow> t_id t = t_id u \<and> t_session t = t_session u \<and> t_scope t = t_scope u
     \<and> t_revision t \<le> t_revision u \<and> t_status t \<le> t_status u \<and> t_used t \<le> t_used u"

definition approval_core :: "approval \<Rightarrow> string \<times> string \<times> string \<times> approval_payload \<times> string \<times> string \<times> time" where
  "approval_core a = (p_id a, p_subject a, principal (p_session a), p_payload a, p_fingerprint a,
     p_question a, p_created a)"

definition approval_le :: "approval \<Rightarrow> approval \<Rightarrow> bool" where
  "approval_le a b \<longleftrightarrow> approval_core a = approval_core b
     \<and> (p_status a = ADenied \<longrightarrow> p_status b = ADenied)
     \<and> (p_status a = ASuperseded \<longrightarrow> p_status b = ASuperseded)
     \<and> (p_status a = AApproved \<longrightarrow> p_status b \<in> {AApproved, ASuperseded})"

definition operation_core ::
  "operation \<Rightarrow> (string \<times> string \<times> int \<times> action) \<times> contact list \<times> resource list \<times> string \<times> string
    \<times> string \<times> string \<times> time" where
  "operation_core z = ((o_id z, o_task z, o_revision z, o_action z), o_recipients z, o_resources z,
     o_text z, o_wire_text z, o_hash z, o_session z, o_created z)"

definition v2_operation_core ::
  "v2_operation \<Rightarrow> string \<times> string \<times> string \<times> string \<times> v2_kind \<times> fields \<times> int \<times> string \<times> string \<times> bool" where
  "v2_operation_core z = (z_id z, z_task z, z_owner z, z_collaboration z, z_kind z, z_payload z,
     z_revision z, z_request z, z_hash z, z_maintenance z)"

definition inbound_core :: "inbound \<Rightarrow> wire \<times> string \<times> time" where
  "inbound_core m = (wire.truncate m, i_fingerprint m, i_received m)"

definition review_core :: "peer_review \<Rightarrow> string \<times> string \<times> string \<times> string \<times> wire \<times> string \<times> time" where
  "review_core r = (rv_owner r, rv_id r, rv_sender r, rv_kind r, rv_wire r, rv_fingerprint r, rv_received r)"

definition review_le :: "peer_review \<Rightarrow> peer_review \<Rightarrow> bool" where
  "review_le r q \<longleftrightarrow> review_core r = review_core q \<and> (rv_status r \<noteq> RvPending \<longrightarrow> r = q)"

definition resume_core :: "attention_resume \<Rightarrow> string \<times> string \<times> string \<times> int option \<times> string \<times> int \<times> time" where
  "resume_core r = (ar_id r, ar_owner r, ar_attention r, ar_revision r, ar_binding r, ar_generation r, ar_created r)"

text \<open>A handling request is claimed once and finished once.\<close>

definition resume_le :: "attention_resume \<Rightarrow> attention_resume \<Rightarrow> bool" where
  "resume_le r q \<longleftrightarrow> resume_core r = resume_core q
     \<and> (ar_state r \<noteq> SubReady \<longrightarrow> ar_state q \<noteq> SubReady \<and> ar_token q = ar_token r \<and> ar_session q = ar_session r)
     \<and> (ar_state r \<in> {SubUncertain, SubSubmitted} \<longrightarrow> q = r)"

definition permit_le :: "permit \<Rightarrow> permit \<Rightarrow> bool" where
  "permit_le p q \<longleftrightarrow> pm_until p = pm_until q \<and> pm_max p = pm_max q \<and> pm_used p \<le> pm_used q
     \<and> (pm_revoked p \<longrightarrow> pm_revoked q)"

definition collaboration_core ::
  "collaboration \<Rightarrow> string \<times> string \<times> string \<times> string \<times> string \<times> string \<times> time" where
  "collaboration_core c = (v_id c, v_owner c, v_task c, v_peer_id c, v_peer c, v_initiator c, v_created c)"

definition collaboration_le :: "collaboration \<Rightarrow> collaboration \<Rightarrow> bool" where
  "collaboration_le c d \<longleftrightarrow> collaboration_core c = collaboration_core d
     \<and> rel_option permit_le (v_permit c) (v_permit d)
     \<and> (v_joined c \<longrightarrow> v_joined d)
     \<and> (\<forall>a. v_agreement c = Some a \<longrightarrow> (\<exists>b. v_agreement d = Some b \<and> json_eq a b))"

interpretation eq_row: row_order "(=) :: 'v \<Rightarrow> 'v \<Rightarrow> bool"
  by unfold_locales auto

interpretation core_row: row_order "same_core f" for f :: "'v \<Rightarrow> 'c"
  by unfold_locales (auto simp: same_core_def)

interpretation task_row: row_order task_le
  by unfold_locales (auto simp: task_le_def)

interpretation approval_row: row_order approval_le
  by unfold_locales (auto simp: approval_le_def)

interpretation review_row: row_order review_le
  by unfold_locales (auto simp: review_le_def)

interpretation resume_row: row_order resume_le
  by unfold_locales (auto simp: resume_le_def)

lemma permit_le_refl: "permit_le p p"
  by (simp add: permit_le_def)

lemma permit_le_trans: "permit_le p q \<Longrightarrow> permit_le q r \<Longrightarrow> permit_le p r"
  by (auto simp: permit_le_def)

interpretation collaboration_row: row_order collaboration_le
proof
  show "collaboration_le c c" for c
    by (auto simp: collaboration_le_def json_eq_def option.rel_refl permit_le_refl)
  show "collaboration_le c e" if "collaboration_le c d" "collaboration_le d e" for c d e
    using that unfolding collaboration_le_def json_eq_def
    by (auto simp: option_rel_Some1 option_rel_Some2 intro: permit_le_trans elim!: option.rel_cases)
qed

interpretation le_row: row_order "(\<le>) :: int \<Rightarrow> int \<Rightarrow> bool"
  by unfold_locales auto

section \<open>Sound rows\<close>

definition task_ok :: "task \<Rightarrow> bool" where
  "task_ok t \<longleftrightarrow> wf_scope (t_scope t) \<and> 0 \<le> t_used t \<and> t_used t \<le> sc_max_actions (t_scope t)
     \<and> 1 \<le> t_revision t"

definition worker_ok :: "worker_policy \<Rightarrow> bool" where
  "worker_ok r \<longleftrightarrow> 0 \<le> wp_runs r \<and> wp_runs r \<le> wl_runs (wp_policy r)
     \<and> 0 \<le> wp_sends r \<and> wp_sends r \<le> wl_sends (wp_policy r)"

definition permit_ok :: "permit option \<Rightarrow> bool" where
  "permit_ok po \<longleftrightarrow> (case po of Some p \<Rightarrow> 0 \<le> pm_used p \<and> pm_used p \<le> pm_max p \<and> pm_max p \<le> 32 | None \<Rightarrow> True)"

definition v2_operation_ok :: "v2_operation \<Rightarrow> bool" where
  "v2_operation_ok z \<longleftrightarrow> permit_ok (z_permit z) \<and> (\<forall>d. z_new z = Some d \<longrightarrow> v_id d = z_collaboration z)"

definition feed_ok :: "(string \<Rightarrow> string) \<Rightarrow> store \<Rightarrow> bool" where
  "feed_ok H s \<longleftrightarrow> twf (attention s) \<and> all_rows (\<lambda>n. 0 \<le> n) (counters s) \<and> (\<forall>E. sha E = H \<longrightarrow>
     (\<forall>k i. tget k (attention s) = Some i \<longrightarrow> 0 < at_revision i \<and> at_revision i \<le> counter E s (at_owner i))
     \<and> (\<forall>k l i j. tget k (attention s) = Some i \<longrightarrow> tget l (attention s) = Some j \<longrightarrow>
          at_owner i = at_owner j \<longrightarrow> at_revision i = at_revision j \<longrightarrow> k = l))"

definition reviews_keyed :: "(string \<Rightarrow> string) \<Rightarrow> store \<Rightarrow> bool" where
  "reviews_keyed H s \<longleftrightarrow> (\<forall>E. sha E = H \<longrightarrow> keyed (review_key_of E) (reviews s))"

definition sound :: "(string \<Rightarrow> string) \<Rightarrow> store \<Rightarrow> bool" where
  "sound H s \<longleftrightarrow> keyed t_id (tasks s) \<and> keyed p_id (approvals s) \<and> keyed o_id (operations s)
     \<and> keyed w_id (inbox s) \<and> keyed z_id (v2_operations s) \<and> keyed wp_task (workers s)
     \<and> keyed v_id (collaborations s) \<and> keyed ar_id (resumes s) \<and> reviews_keyed H s \<and> feed_ok H s
     \<and> all_rows task_ok (tasks s) \<and> all_rows worker_ok (workers s)
     \<and> all_rows (\<lambda>c. permit_ok (v_permit c)) (collaborations s)
     \<and> all_rows v2_operation_ok (v2_operations s)"

definition grows :: "store \<Rightarrow> store \<Rightarrow> bool" where
  "grows s t \<longleftrightarrow> table_evolves (=) (contacts s) (contacts t)
     \<and> table_evolves (=) (resources s) (resources t)
     \<and> table_evolves (=) (mutations s) (mutations t)
     \<and> table_evolves (=) (reads_at s) (reads_at t)
     \<and> table_evolves task_le (tasks s) (tasks t)
     \<and> table_evolves approval_le (approvals s) (approvals t)
     \<and> table_evolves (same_core operation_core) (operations s) (operations t)
     \<and> table_evolves (same_core v2_operation_core) (v2_operations s) (v2_operations t)
     \<and> table_evolves (same_core inbound_core) (inbox s) (inbox t)
     \<and> table_evolves review_le (reviews s) (reviews t)
     \<and> table_evolves collaboration_le (collaborations s) (collaborations t)
     \<and> table_evolves resume_le (resumes s) (resumes t)
     \<and> table_evolves (\<le>) (safety s) (safety t)
     \<and> (profile s \<noteq> None \<longrightarrow> profile t = profile s)
     \<and> prefix (audits s) (audits t) \<and> prefix (history s) (history t)"

definition evolves :: "(string \<Rightarrow> string) \<Rightarrow> store \<Rightarrow> store \<Rightarrow> bool" where
  "evolves H s t \<longleftrightarrow> (sound H s \<longrightarrow> sound H t \<and> grows s t)"

lemma grows_refl: "grows s s"
  by (simp add: grows_def eq_row.table_refl core_row.table_refl task_row.table_refl
      approval_row.table_refl review_row.table_refl collaboration_row.table_refl resume_row.table_refl le_row.table_refl)

lemma grows_trans: "grows s t \<Longrightarrow> grows t u \<Longrightarrow> grows s u"
  unfolding grows_def
  by (intro conjI) (blast intro: eq_row.table_trans core_row.table_trans task_row.table_trans
      approval_row.table_trans review_row.table_trans collaboration_row.table_trans resume_row.table_trans le_row.table_trans
      prefix_order.trans | metis)+

lemma evolves_refl: "evolves H s s"
  by (simp add: evolves_def grows_refl)

lemma evolves_trans: "evolves H s t \<Longrightarrow> evolves H t u \<Longrightarrow> evolves H s u"
  unfolding evolves_def using grows_trans by blast

section \<open>Single writes\<close>

lemmas grows_refls = eq_row.table_refl core_row.table_refl task_row.table_refl
  approval_row.table_refl review_row.table_refl collaboration_row.table_refl resume_row.table_refl le_row.table_refl

lemmas evolves_unfold = evolves_def sound_def grows_def feed_ok_def reviews_keyed_def counter_def

lemma ev_free [simp]:
  "evolves H s (s\<lparr>links := a1\<rparr>)" "evolves H s (s\<lparr>proposals := a2\<rparr>)" "evolves H s (s\<lparr>outboxes := a3\<rparr>)"
  "evolves H s (s\<lparr>connections := a4\<rparr>)" "evolves H s (s\<lparr>requests := a5\<rparr>)" "evolves H s (s\<lparr>blocks := a6\<rparr>)"
  "evolves H s (s\<lparr>message_blocks := a7\<rparr>)" "evolves H s (s\<lparr>previews := a8\<rparr>)"
  "evolves H s (s\<lparr>conversation_turns := a9\<rparr>)" "evolves H s (s\<lparr>runs := b1\<rparr>)" "evolves H s (s\<lparr>events := b2\<rparr>)"
  "evolves H s (s\<lparr>invitations := b3\<rparr>)" "evolves H s (s\<lparr>owner_actions := b4\<rparr>)"
  "evolves H s (s\<lparr>sessions := b7\<rparr>)"
  "evolves H s (s\<lparr>audits := audits s @ b5\<rparr>)" "evolves H s (s\<lparr>history := history s @ b6\<rparr>)"
  by (simp_all add: evolves_unfold grows_refls)

lemma ev_contact: "(\<And>d. tget k (contacts s) = Some d \<Longrightarrow> d = c) \<Longrightarrow> evolves H s (s\<lparr>contacts := tput k c (contacts s)\<rparr>)"
  by (simp add: evolves_unfold grows_refls eq_row.table_put)

lemma ev_resource: "(\<And>d. tget k (resources s) = Some d \<Longrightarrow> d = c) \<Longrightarrow> evolves H s (s\<lparr>resources := tput k c (resources s)\<rparr>)"
  by (simp add: evolves_unfold grows_refls eq_row.table_put)

lemma ev_mutation: "tget k (mutations s) = None \<Longrightarrow> evolves H s (s\<lparr>mutations := tput k c (mutations s)\<rparr>)"
  using eq_row.table_put [of k "mutations s" c] by (simp add: evolves_unfold grows_refls)

lemma ev_read: "(\<And>d. tget k (reads_at s) = Some d \<Longrightarrow> d = c) \<Longrightarrow> evolves H s (s\<lparr>reads_at := tput k c (reads_at s)\<rparr>)"
  by (simp add: evolves_unfold grows_refls eq_row.table_put)

lemma ev_safety: "(\<And>d. tget k (safety s) = Some d \<Longrightarrow> d \<le> c) \<Longrightarrow> evolves H s (s\<lparr>safety := tput k c (safety s)\<rparr>)"
  by (simp add: evolves_unfold grows_refls le_row.table_put)

lemma ev_resume:
  assumes "\<And>q. sound H s \<Longrightarrow> tget (ar_id r) (resumes s) = Some q \<Longrightarrow> resume_le q r"
  shows "evolves H s (s\<lparr>resumes := tput (ar_id r) r (resumes s)\<rparr>)"
proof -
  have "sound H s \<Longrightarrow> table_evolves resume_le (resumes s) (tput (ar_id r) r (resumes s))"
    using assms by (intro resume_row.table_put)
  then show ?thesis
    by (auto simp: evolves_unfold grows_refls keyed_put)
qed

lemma ev_profile: "profile s = None \<Longrightarrow> evolves H s (s\<lparr>profile := p\<rparr>)"
  by (simp add: evolves_unfold grows_refls)

lemma ev_task:
  assumes "sound H s \<Longrightarrow> task_ok t"
    and "\<And>u. sound H s \<Longrightarrow> tget (t_id t) (tasks s) = Some u \<Longrightarrow> task_le u t"
  shows "evolves H s (s\<lparr>tasks := tput (t_id t) t (tasks s)\<rparr>)"
proof -
  have "sound H s \<Longrightarrow> table_evolves task_le (tasks s) (tput (t_id t) t (tasks s))"
    using assms(2) by (intro task_row.table_put)
  then show ?thesis
    using assms(1) by (auto simp: evolves_unfold grows_refls keyed_put every_row_put)
qed

lemma ev_approval:
  assumes "\<And>b. sound H s \<Longrightarrow> tget (p_id a) (approvals s) = Some b \<Longrightarrow> approval_le b a"
  shows "evolves H s (s\<lparr>approvals := tput (p_id a) a (approvals s)\<rparr>)"
proof -
  have "sound H s \<Longrightarrow> table_evolves approval_le (approvals s) (tput (p_id a) a (approvals s))"
    using assms by (intro approval_row.table_put)
  then show ?thesis
    by (auto simp: evolves_unfold grows_refls keyed_put every_row_put)
qed

lemma ev_operation:
  assumes "\<And>b. sound H s \<Longrightarrow> tget (o_id a) (operations s) = Some b \<Longrightarrow> operation_core b = operation_core a"
  shows "evolves H s (s\<lparr>operations := tput (o_id a) a (operations s)\<rparr>)"
proof -
  have "sound H s \<Longrightarrow> table_evolves (same_core operation_core) (operations s) (tput (o_id a) a (operations s))"
    using assms by (intro core_row.table_put) (simp add: same_core_def)
  then show ?thesis
    by (auto simp: evolves_unfold grows_refls keyed_put every_row_put)
qed

lemma ev_v2_operation:
  assumes "sound H s \<Longrightarrow> v2_operation_ok a"
    and "\<And>b. sound H s \<Longrightarrow> tget (z_id a) (v2_operations s) = Some b \<Longrightarrow> v2_operation_core b = v2_operation_core a"
  shows "evolves H s (s\<lparr>v2_operations := tput (z_id a) a (v2_operations s)\<rparr>)"
proof -
  have "sound H s \<Longrightarrow>
      table_evolves (same_core v2_operation_core) (v2_operations s) (tput (z_id a) a (v2_operations s))"
    using assms by (intro core_row.table_put) (simp add: same_core_def)
  then show ?thesis
    using assms(1) by (auto simp: evolves_unfold grows_refls keyed_put every_row_put)
qed

lemma ev_inbound:
  assumes "\<And>b. sound H s \<Longrightarrow> tget (w_id a) (inbox s) = Some b \<Longrightarrow> inbound_core b = inbound_core a"
  shows "evolves H s (s\<lparr>inbox := tput (w_id a) a (inbox s)\<rparr>)"
proof -
  have "sound H s \<Longrightarrow> table_evolves (same_core inbound_core) (inbox s) (tput (w_id a) a (inbox s))"
    using assms by (intro core_row.table_put) (simp add: same_core_def)
  then show ?thesis
    by (auto simp: evolves_unfold grows_refls keyed_put every_row_put)
qed

lemma ev_worker:
  assumes "sound H s \<Longrightarrow> worker_ok r"
  shows "evolves H s (s\<lparr>workers := tput (wp_task r) r (workers s)\<rparr>)"
  using assms by (auto simp: evolves_unfold grows_refls keyed_put every_row_put)

lemma ev_collaboration:
  assumes "sound H s \<Longrightarrow> permit_ok (v_permit c)"
    and "\<And>b. sound H s \<Longrightarrow> tget (v_id c) (collaborations s) = Some b \<Longrightarrow> collaboration_le b c"
  shows "evolves H s (s\<lparr>collaborations := tput (v_id c) c (collaborations s)\<rparr>)"
proof -
  have "sound H s \<Longrightarrow> table_evolves collaboration_le (collaborations s) (tput (v_id c) c (collaborations s))"
    using assms by (intro collaboration_row.table_put)
  then show ?thesis
    using assms(1) by (auto simp: evolves_unfold grows_refls keyed_put every_row_put)
qed

lemma review_key_of_sha: "sha E = sha E' \<Longrightarrow> review_key_of E r = review_key_of E' r"
  by (simp add: review_key_of_def skey_def key_def)

lemma skey_sha: "sha E = sha E' \<Longrightarrow> skey E xs = skey E' xs"
  by (simp add: skey_def key_def)

lemma ev_review:
  assumes E: "sha E = H"
    and "\<And>b. sound H s \<Longrightarrow> tget (review_key_of E r) (reviews s) = Some b \<Longrightarrow> review_le b r"
  shows "evolves H s (s\<lparr>reviews := tput (review_key_of E r) r (reviews s)\<rparr>)"
proof -
  have "sound H s \<Longrightarrow> table_evolves review_le (reviews s) (tput (review_key_of E r) r (reviews s))"
    using assms by (intro review_row.table_put)
  moreover have "reviews_keyed H s \<Longrightarrow> reviews_keyed H (s\<lparr>reviews := tput (review_key_of E r) r (reviews s)\<rparr>)"
    using E by (auto simp: reviews_keyed_def intro!: keyed_put review_key_of_sha)
  ultimately show ?thesis
    by (auto simp: evolves_def sound_def grows_def grows_refls feed_ok_def counter_def)
qed

section \<open>The feed\<close>

lemma counter_sha: "sha E = sha E' \<Longrightarrow> counter E s o' = counter E' s o'"
  by (simp add: counter_def skey_sha [of E E'])

lemma counter_put: "counter E (s\<lparr>counters := tput (skey E [w]) n (counters s), attention := a\<rparr>) o' =
    (if skey E [o'] = skey E [w] then n else counter E s o')"
  by (simp add: counter_def)

lemma feed_okI:
  assumes "all_rows ((\<le>) 0) (counters t)" "sha E = H" "twf (attention t)"
    and "\<And>l i. tget l (attention t) = Some i \<Longrightarrow> 0 < at_revision i \<and> at_revision i \<le> counter E t (at_owner i)"
    and "\<And>l l' i j. tget l (attention t) = Some i \<Longrightarrow> tget l' (attention t) = Some j \<Longrightarrow>
      at_owner i = at_owner j \<Longrightarrow> at_revision i = at_revision j \<Longrightarrow> l = l'"
  shows "feed_ok H t"
proof -
  have "counter E' t o' = counter E t o'" if "sha E' = H" for E' o'
    using that assms(2) by (intro counter_sha) simp
  then show ?thesis
    unfolding feed_ok_def using assms(1,3,4,5) by simp
qed

lemma feed_ok_put:
  assumes ok: "feed_ok H s" and E: "sha E = H" and v: "at_owner v = w" "at_revision v = counter E s w + 1"
  shows "feed_ok H (s\<lparr>counters := tput (skey E [w]) (counter E s w + 1) (counters s),
      attention := tput k v (attention s)\<rparr>)" (is "feed_ok H ?t")
proof (rule feed_okI [OF _ E])
  have rows: "0 < at_revision i \<and> at_revision i \<le> counter E s (at_owner i)"
    if "tget l (attention s) = Some i" for l i
    using ok E that by (auto simp: feed_ok_def)
  have uniq: "l = l'" if "tget l (attention s) = Some i" "tget l' (attention s) = Some j"
    "at_owner i = at_owner j" "at_revision i = at_revision j" for l l' i j
    using ok E that unfolding feed_ok_def by blast
  have nonneg: "0 \<le> counter E s o'" for o'
    using ok by (auto simp: feed_ok_def counter_def dest: all_rowsD split: option.splits)
  have same: "counter E s o' = counter E s w" if "skey E [o'] = skey E [w]" for o'
    using that by (simp add: counter_def)
  have cnt: "counter E s o' \<le> counter E ?t o'" for o'
    using same [of o'] by (simp add: counter_put)
  show "0 < at_revision i \<and> at_revision i \<le> counter E ?t (at_owner i)" if "tget l (attention ?t) = Some i" for l i
  proof (cases "l = k")
    case True
    then show ?thesis using that v nonneg [of w] by (simp add: counter_put)
  next
    case False
    then have "tget l (attention s) = Some i" using that by simp
    then show ?thesis using rows [of l i] cnt [of "at_owner i"] by simp
  qed
  show "l = l'" if "tget l (attention ?t) = Some i" "tget l' (attention ?t) = Some j"
    "at_owner i = at_owner j" "at_revision i = at_revision j" for l l' i j
  proof -
    have old: "at_revision i \<noteq> at_revision v" if "tget m (attention s) = Some i" "at_owner i = at_owner v" for m i
      using rows [OF that(1)] that(2) v by auto
    consider "l = k" "l' = k" | "l = k" "l' \<noteq> k" | "l \<noteq> k" "l' = k" | "l \<noteq> k" "l' \<noteq> k" by blast
    then show ?thesis
    proof cases
      case 2
      then show ?thesis using that old [of l' j] by simp
    next
      case 3
      then show ?thesis using that old [of l i] by simp
    next
      case 4
      then show ?thesis using that uniq [of l i l' j] by simp
    qed simp
  qed
  show "all_rows ((\<le>) 0) (counters ?t)"
    using ok nonneg [of w] by (auto simp: feed_ok_def intro!: every_row_put)
  show "twf (attention ?t)" using ok by (simp add: feed_ok_def)
qed

lemma attention_put_evolves:
  assumes E: "sha E = H"
  shows "steps (evolves H) (attention_put E w sk si n)"
proof (rule stepsI)
  fix s x t
  assume run: "attention_put E w sk si n s = Inr (x, t)"
  show "evolves H s t"
  proof (cases "t = s")
    case False
    then obtain k v where t: "t = s\<lparr>counters := tput (skey E [w]) (counter E s w + 1) (counters s),
        attention := tput k v (attention s)\<rparr>" and "at_owner v = w" "at_revision v = counter E s w + 1"
      using run by (auto simp: attention_put_def Let_def attention_value_def split: if_splits)
    then have "feed_ok H s \<Longrightarrow> feed_ok H t"
      using feed_ok_put [OF _ E] by simp
    then show ?thesis
      unfolding t by (auto simp: evolves_def sound_def grows_def grows_refls reviews_keyed_def)
  qed (simp add: evolves_refl)
qed

interpretation ev: protocol "evolves H" H for H
proof
  show "steps (evolves H) (attention_put E w sk si n)" if "sha E = H" for E w sk si n
    using that by (rule attention_put_evolves)
  show "evolves H s (s\<lparr>reviews := tput (review_key_of E r) r (reviews s)\<rparr>)"
    if "sha E = H" "tget (review_key_of E r) (reviews s) = None" for E r s
    using that by (intro ev_review) auto
  show "evolves H s (s\<lparr>v2_operations := tput (z_id z) z (v2_operations s)\<rparr>)"
    if "tget (z_id z) (v2_operations s) = None" "z_permit z = None" "z_new z = None" for z s
    using that by (intro ev_v2_operation) (auto simp: permit_ok_def v2_operation_ok_def)
  show "evolves H s u" if "evolves H s t" "evolves H t u" for s t u
    using that by (rule evolves_trans)
qed (simp_all add: evolves_refl)

section \<open>What the reducer makes of a collaboration\<close>

lemma map_insort_key: "(\<And>x. f (g x) = f x) \<Longrightarrow> map g (insort_key f x xs) = insort_key f (g x) (map g xs)"
  by (induction xs) auto

lemma map_sort_key: "(\<And>x. f (g x) = f x) \<Longrightarrow> map g (sort_key f xs) = sort_key f (map g xs)"
  by (induction xs) (simp_all add: map_insort_key)

lemma py_norm_reloaded [simp]: "py_norm (reloaded j) = py_norm j"
proof (induction j rule: reloaded.induct)
  case (2 kvs)
  have "map (\<lambda>(k, v). (k, py_norm v)) (sort_key fst (map (\<lambda>(k, v). (k, reloaded v)) kvs)) =
      sort_key fst (map (\<lambda>(k, v). (k, py_norm v)) (map (\<lambda>(k, v). (k, reloaded v)) kvs))"
    by (rule map_sort_key) auto
  also have "map (\<lambda>(k, v). (k, py_norm v)) (map (\<lambda>(k, v). (k, reloaded v)) kvs) =
      map (\<lambda>(k, v). (k, py_norm v)) kvs"
    using 2 by auto
  finally show ?case
    by (simp add: sort_items_def sort_key_id_if_sorted)
qed auto

definition kept :: "collaboration \<Rightarrow> collaboration \<Rightarrow> bool" where
  "kept c d \<longleftrightarrow> collaboration_le c d \<and> v_permit d = v_permit c"

lemma kept_iff: "kept c d \<longleftrightarrow> collaboration_core c = collaboration_core d \<and> v_permit d = v_permit c
    \<and> (v_joined c \<longrightarrow> v_joined d)
    \<and> (\<forall>a. v_agreement c = Some a \<longrightarrow> (\<exists>b. v_agreement d = Some b \<and> json_eq a b))"
  by (auto simp: kept_def collaboration_le_def option.rel_refl permit_le_refl)

lemma kept_refl [simp]: "kept c c"
  by (simp add: kept_def collaboration_row.row_refl)

lemma kept_trans: "kept c d \<Longrightarrow> kept d e \<Longrightarrow> kept c e"
  by (auto simp: kept_def intro: collaboration_row.row_trans)

lemma kept_row: "kept c d \<Longrightarrow> kept c (collaboration_row d)"
  by (fastforce simp: kept_iff collaboration_row_def collaboration_core_def json_eq_def)

lemma kept_source: "kept c d \<Longrightarrow> kept c (d\<lparr>v_source := x\<rparr>)"
  by (auto simp: kept_iff collaboration_core_def)

lemmas kept_simps = kept_iff collaboration_core_def

lemma yl_queue: "kept c0 c \<Longrightarrow> yields (kept c0) (v2_queue E c k payload)"
  unfolding v2_queue_def Let_def
  by (intro yields_option yields_if yields_reads yields_lift_then yields_prod yields_andThen)
    (simp_all add: kept_simps)

lemma yl_form: "kept c0 c \<Longrightarrow> yields (kept c0) (v2_form E c)"
  unfolding v2_form_def
  by (intro yields_if yields_lift_then yl_queue) (simp_all add: kept_simps)

lemma yl_opening: "yields (kept c) (apply_opening E c p)"
  unfolding apply_opening_def
  by (intro yields_lift_then yields_if yields_reads yields_option) (simp_all add: kept_simps json_eq_def)

lemma yl_terms: "kept c0 c \<Longrightarrow> yields (kept c0) (apply_terms E c p)"
  unfolding apply_terms_def Let_def
  by (intro yields_lift_then yields_if) (simp_all add: kept_simps)

lemma yl_accept: "yields (kept c) (apply_accept E c p)"
  unfolding apply_accept_def Let_def
  by (intro yields_lift_then yields_if yl_form) (simp_all add: kept_simps json_eq_def)

lemma yields_json:
  "yields Q f0 \<Longrightarrow> (\<And>b. yields Q (f1 b)) \<Longrightarrow> (\<And>n. yields Q (f2 n)) \<Longrightarrow> (\<And>x. yields Q (f3 x)) \<Longrightarrow>
   (\<And>x. yields Q (f4 x)) \<Longrightarrow> (\<And>xs. j = JArr xs \<Longrightarrow> yields Q (f5 xs)) \<Longrightarrow> (\<And>kvs. yields Q (f6 kvs)) \<Longrightarrow>
   yields Q (case j of JNull \<Rightarrow> f0 | JBool b \<Rightarrow> f1 b | JInt n \<Rightarrow> f2 n | JFloat x \<Rightarrow> f3 x | JStr x \<Rightarrow> f4 x
     | JArr xs \<Rightarrow> f5 xs | JObj kvs \<Rightarrow> f6 kvs)"
  by (cases j) simp_all

lemma yl_agreement: "yields (kept c) (apply_agreement E c p out)"
proof -
  have upd: "kept c (c\<lparr>v_agreement := Some (JObj d), v_phase := x, v_waiting := w\<rparr>)"
    if "\<not> (v_agreement c \<noteq> None \<and> \<not> same_agreement c d)" for d x w
    using that by (auto simp: kept_simps same_agreement_def split: option.splits)
  show ?thesis
    unfolding apply_agreement_def Let_def
    by (intro yields_lift_then yields_if yields_json yields_reads yl_queue upd) (auto intro: upd)
qed

lemma yl_ack: "yields (kept c) (apply_ack E c p out)"
  unfolding apply_ack_def
  by (intro yields_lift_then yields_if) (simp_all add: kept_simps json_eq_def complete_def)

lemma yl_withdraw: "yields (kept c) (apply_withdraw E c p)"
  unfolding apply_withdraw_def Let_def
  by (intro yields_lift_then yields_if yields_option yl_queue) (simp_all add: kept_simps json_eq_def)

lemma yl_cancel: "yields (kept c) (apply_cancel E c p)"
  unfolding apply_cancel_def
  by (intro yields_lift_then yields_if) (simp_all add: kept_simps json_eq_def)

lemma yl_receipt: "yields (kept c) (apply_receipt E c p out)"
  unfolding apply_receipt_def Let_def
  by (intro yields_lift_then yields_if yields_option yields_reads yields_andThen)
    (simp_all add: kept_simps json_eq_def complete_def)

lemma yl_sync: "yields (kept c) (apply_sync E c p out)"
  unfolding apply_sync_def
  by (intro yields_lift_then yields_if yields_json yl_queue yields_andThen) (simp_all add: kept_simps json_eq_def)

lemma yl_apply: "yields (kept c) (v2_apply E c p out)"
  unfolding v2_apply_def
  by (intro yields_lift_then, cases "pk_kind p")
    (simp_all add: yl_opening yl_terms yl_accept yl_agreement yl_ack yl_withdraw yl_cancel yl_receipt yl_sync)

lemma yl_apply_from: "kept c0 c \<Longrightarrow> yields (kept c0) (v2_apply E c p out)"
  using yl_apply [of c E p out] by (auto simp: yields_def intro: kept_trans)

lemma yl_ingest_bound: "yields (kept c) (ingest_bound E c p)"
proof -
  have "yields (\<lambda>(c', _). kept c c') (savepoint q (andThen (v2_apply E c p False) (\<lambda>c'. ret (c', x))) (\<lambda>_. ret (collaboration_row c, y)))"
    for q x and y :: v2_event
    by (intro yields_savepoint yields_andThen_from [OF yl_apply]) (simp_all add: kept_row)
  then show ?thesis
    unfolding ingest_bound_def
    by (intro yields_andThen yields_prod yields_if yields_andThen_from [where P = "\<lambda>(c', _). kept c c'"]) auto
qed

lemma kept_advance: "kept c0 c \<Longrightarrow> kept c0 (advance p c)"
  by (auto simp: advance_def kept_simps)

lemma yl_consume: "kept c0 c \<Longrightarrow> yields (kept c0) (consume E c r b)"
  unfolding consume_def receipt_for_def Let_def
  by (intro yields_andThen yields_if yl_queue) (simp_all add: kept_advance)

lemma yl_reduce: "yields (\<lambda>x. case x of Reduced d _ \<Rightarrow> kept c d | Stuck d _ \<Rightarrow> kept c d) (reduce_event E c r)"
proof -
  have "kept c ((collaboration_row c)\<lparr>v_phase := x, v_waiting := w\<rparr>)" for x w
    using kept_row [OF kept_refl, of c] by (simp add: kept_simps)
  then show ?thesis
    unfolding reduce_event_def Let_def
    by (intro yields_savepoint yields_andThen_from [OF yl_apply_from [of c]])
      (auto simp: kept_row kept_advance split: exn.splits)
qed

lemma yl_consume_pair:
  "kept c0 c \<Longrightarrow> yields (\<lambda>(d, _). kept c0 d) (andThen (consume E c r b) (\<lambda>c. ret (c, x)))"
  by (intro yields_andThen_from [OF yl_consume]) auto

lemma yl_put_event_pair: "Q x \<Longrightarrow> yields Q (andThen (put_event k e) (\<lambda>_. ret x))"
  by (intro yields_andThen) auto

lemma yl_drain_buffered: "kept c0 c \<Longrightarrow> yields (\<lambda>(d, _). kept c0 d) (drain_buffered E c r)"
  unfolding drain_buffered_def Let_def
  by (intro yields_lift_then yields_if yl_consume_pair yields_andThen_from [OF yl_reduce])
    (auto intro!: yl_consume_pair yl_put_event_pair intro: kept_trans split: reduction.splits)

lemma yl_event_review: "(\<And>x. yields Q (f x)) \<Longrightarrow> yields Q (andThen (event_review E p w) f)"
  by (rule yields_andThen)

lemma yields_review_status:
  "yields Q a \<Longrightarrow> yields Q b \<Longrightarrow> yields Q d \<Longrightarrow>
   yields Q (case st of RvPending \<Rightarrow> a | RvApproved \<Rightarrow> b | RvRejected \<Rightarrow> d)"
  by (cases st) simp_all

lemma yl_drain_step: "kept c0 c \<Longrightarrow> yields (\<lambda>(d, _). kept c0 d) (drain_step E c)"
proof -
  assume k: "kept c0 c"
  then have upd: "kept c0 (c\<lparr>v_phase := x, v_waiting := w\<rparr>)" "kept c0 (c\<lparr>v_waiting := w\<rparr>)" for x w
    by (simp_all add: kept_simps)
  show ?thesis
    unfolding drain_step_def Let_def
    by (intro yields_reads yields_option yields_if)
      (auto intro!: yl_consume_pair yl_event_review yields_review_status yl_drain_buffered k simp: upd k)
qed

lemma yl_drain_loop: "kept c0 c \<Longrightarrow> yields (kept c0) (drain_loop n E c)"
  by (induction n arbitrary: c)
    (auto intro!: yields_andThen_from [OF yl_drain_step] split: prod.splits)

lemma kept_resume: "kept c0 c \<Longrightarrow> kept c0 (resume_phase c)"
  by (auto simp: resume_phase_def kept_simps)

lemma yl_settle: "kept c0 c \<Longrightarrow> yields (kept c0) (settle E c)"
  unfolding settle_def Let_def
  by (intro yields_reads yields_andThen yields_if yl_queue) (simp_all add: kept_resume, simp add: kept_simps)

lemma yl_drain: "kept c0 c \<Longrightarrow> yields (kept c0) (v2_drain E c)"
  unfolding v2_drain_def by (intro yields_andThen_from [OF yl_drain_loop] yl_settle)

text \<open>Storing what the reducer returns, while the row is still the one that was read.\<close>

lemma ev_goes_collaboration:
  assumes E: "sha E = H"
    and "sound H s \<Longrightarrow> permit_ok (v_permit c)"
    and "\<And>b. sound H s \<Longrightarrow> tget (v_id c) (collaborations s) = Some b \<Longrightarrow> collaboration_le b c"
  shows "goes (evolves H) s (put_collaboration E c)"
proof (rule ev.hk_goes_collaboration [OF E])
  fix l src
  let ?d = "collaboration_row (c\<lparr>v_source := src\<rparr>)"
  have id: "v_id ?d = v_id c" "v_permit ?d = v_permit c" by (simp_all add: collaboration_row_def)
  have le: "collaboration_le c ?d"
    using kept_row [OF kept_source [OF kept_refl], of c src] by (simp add: kept_def)
  have "sound H (s\<lparr>links := l\<rparr>) \<longleftrightarrow> sound H s"
    by (simp add: sound_def feed_ok_def reviews_keyed_def counter_def)
  then show "evolves H (s\<lparr>links := l\<rparr>)
      (s\<lparr>links := l, collaborations := tput (v_id c) ?d (collaborations s)\<rparr>)"
    using ev_collaboration [where c = ?d and s = "s\<lparr>links := l\<rparr>" and H = H] assms(2,3) le
    by (simp add: id) (blast intro: collaboration_row.row_trans)
qed

lemma quiet_sound_row:
  "quiet s t \<Longrightarrow> tget k (collaborations t) = tget k (collaborations s)"
  by (simp add: quiet_def)

lemma sound_collaboration: "sound H s \<Longrightarrow> tget k (collaborations s) = Some c \<Longrightarrow> v_id c = k \<and> permit_ok (v_permit c)"
  by (auto simp: sound_def keyed_def dest: all_rowsD)

lemma evolves_sound: "evolves H s t \<Longrightarrow> sound H s \<Longrightarrow> sound H t"
  by (simp add: evolves_def)

lemma evolves_vacuous: "(sound H s \<Longrightarrow> evolves H s t) \<Longrightarrow> evolves H s t"
  by (auto simp: evolves_def)

lemma goes_sound: "(sound H s \<Longrightarrow> goes (evolves H) s m) \<Longrightarrow> goes (evolves H) s m"
  unfolding goes_def using evolves_vacuous by blast

text \<open>Reducing a stored collaboration and storing it back.\<close>

lemma ev_reduced:
  assumes E: "sha E = H" and row: "tget k (collaborations s0) = Some c0"
    and s: "evolves H s0 s" "collaborations s = collaborations s0" and kept: "kept c0 c"
    and snd: "sound H s0"
  shows "goes (evolves H) s (put_collaboration E c)"
proof (rule ev_goes_collaboration [OF E])
  show "permit_ok (v_permit c)"
    using sound_collaboration [OF snd row] kept by (simp add: kept_def)
  have "v_id c = v_id c0" using kept by (simp add: kept_simps)
  then show "collaboration_le b c" if "tget (v_id c) (collaborations s) = Some b" for b
    using that s(2) sound_collaboration [OF snd row] row kept by (simp add: kept_def)
qed

end
