(* ===== verification/Evolution_Social.thy ===== *)
theory Evolution_Social
  imports Evolution
begin

text \<open>Every operation follows the order \<open>evolves\<close>: the reducer, contacts, mail and review.\<close>

section \<open>The reducer and the inbox\<close>

lemma ev_reduce_then:
  assumes E: "sha E = H" and row: "tget k (collaborations s0) = Some c0" and snd: "sound H s0"
    and s: "evolves H s0 s" "collaborations s = collaborations s0"
    and m: "steps (evolves H) m" "steps quiet m" "yields (kept c0) m"
    and f: "\<And>x t. evolves H s0 t \<Longrightarrow> collaborations t = collaborations s0 \<Longrightarrow> kept c0 x \<Longrightarrow> goes (evolves H) t (f x)"
  shows "goes (evolves H) s (andThen m f)"
proof (rule ev.goes_seq)
  show "goes (evolves H) s m" using m(1) by (rule goes_steps)
  fix x t
  assume "m s = Inr (x, t)" "evolves H s t"
  then show "goes (evolves H) t (f x)"
    using s stepsD [OF m(2)] yieldsD [OF m(3)] by (intro f) (auto simp: quiet_def intro: evolves_trans)
qed

lemma ev_drain_store:
  assumes E: "sha E = H" and row: "tget k (collaborations s) = Some c"
    and f: "\<And>x. steps (evolves H) (f x)"
  shows "goes (evolves H) s (andThen (v2_drain E c) (\<lambda>c'. andThen (put_collaboration E c') f))"
proof (rule goes_sound)
  assume snd: "sound H s"
  show ?thesis
    by (intro ev_reduce_then [OF E row snd evolves_refl refl ev.pr_drain [OF E] qt.pr_drain [OF E]]
        yl_drain kept_refl ev.goes_andThen ev_reduced [OF E row _ _ _ snd] f)
qed

lemma ev_ingest_chain:
  assumes E: "sha E = H" and row: "tget k (collaborations s) = Some c"
    and f: "\<And>x. steps (evolves H) (f x)"
  shows "goes (evolves H) s (andThen (ingest_bound E c p) (\<lambda>c1. andThen (v2_drain E c1)
      (\<lambda>c2. andThen (put_collaboration E c2) f)))"
proof (rule goes_sound)
  assume snd: "sound H s"
  show ?thesis
    by (intro ev_reduce_then [OF E row snd evolves_refl refl ev.pr_ingest_bound [OF E]
          qt.pr_ingest_bound [OF E] yl_ingest_bound]
        ev_reduce_then [OF E row snd _ _ ev.pr_drain [OF E] qt.pr_drain [OF E]]
        yl_drain ev.goes_andThen ev_reduced [OF E row _ _ _ snd] f)
qed

lemma ev_ingest_v2:
  assumes E: "sha E = H" shows "steps (evolves H) (ingest_v2_record E w)"
  unfolding ingest_v2_record_def
  by (intro steps_goes ev.goes_rules ev_ingest_chain goes_steps [OF ev.pr_record_invitation] E
      ev.steps_reads ev.steps_option ev.steps_raise ev.steps_ret)

section \<open>Rows of a sound store\<close>

lemma keeps_sound: "(sound H s0 \<Longrightarrow> keeps (evolves H) s0 m) \<Longrightarrow> keeps (evolves H) s0 m"
  unfolding keeps_def using evolves_vacuous by blast

lemma sound_rows:
  assumes "sound H s"
  shows "m \<in> set (tall (inbox s)) \<Longrightarrow> tget (w_id m) (inbox s) = Some m"
    and "a \<in> set (tall (approvals s)) \<Longrightarrow> tget (p_id a) (approvals s) = Some a"
    and "z \<in> set (tall (v2_operations s)) \<Longrightarrow> tget (z_id z) (v2_operations s) = Some z"
    and "w \<in> set (tall (operations s)) \<Longrightarrow> tget (o_id w) (operations s) = Some w"
    and "c \<in> set (tall (collaborations s)) \<Longrightarrow> tget (v_id c) (collaborations s) = Some c"
    and "r \<in> set (tall (workers s)) \<Longrightarrow> tget (wp_task r) (workers s) = Some r"
  using assms by (auto simp: sound_def keyed_tall)

lemma sound_at:
  assumes "sound H s"
  shows "tget k (inbox s) = Some m \<Longrightarrow> w_id m = k"
    and "tget k (approvals s) = Some a \<Longrightarrow> p_id a = k"
    and "tget k (v2_operations s) = Some z \<Longrightarrow> z_id z = k \<and> v2_operation_ok z"
    and "tget k (operations s) = Some w \<Longrightarrow> o_id w = k"
    and "tget k (tasks s) = Some t \<Longrightarrow> t_id t = k \<and> task_ok t"
    and "tget k (workers s) = Some r \<Longrightarrow> wp_task r = k \<and> worker_ok r"
  using assms by (auto simp: sound_def keyed_def dest: all_rowsD)

lemma evolves_row:
  assumes "evolves H s0 s" "sound H s0"
  shows "tget k (inbox s0) = Some m \<Longrightarrow> \<exists>b. tget k (inbox s) = Some b \<and> inbound_core b = inbound_core m"
    and "tget k (operations s0) = Some w \<Longrightarrow> \<exists>b. tget k (operations s) = Some b \<and> operation_core b = operation_core w"
    and "tget k (v2_operations s0) = Some z \<Longrightarrow>
      \<exists>b. tget k (v2_operations s) = Some b \<and> v2_operation_core b = v2_operation_core z"
  using assms by (auto simp: evolves_def grows_def table_evolves_def same_core_def, metis+)

lemma core_ids:
  "inbound_core m = inbound_core m' \<Longrightarrow> w_id m = w_id m'"
  "operation_core w = operation_core w' \<Longrightarrow> o_id w = o_id w'"
  "v2_operation_core z = v2_operation_core z' \<Longrightarrow> z_id z = z_id z'"
  "approval_core a = approval_core a' \<Longrightarrow> p_id a = p_id a'"
  by (auto simp: inbound_core_def wire.truncate_def operation_core_def v2_operation_core_def approval_core_def)

section \<open>Rows written back after a while\<close>

lemma kp_inbound:
  assumes E: "sha E = H" and row: "tget (w_id m) (inbox s0) = Some m" and core: "inbound_core m' = inbound_core m"
  shows "keeps (evolves H) s0 (put_inbound E m')"
proof (rule keeps_sound, rule ev.hk_keep_inbound [OF E])
  fix s assume snd: "sound H s0" and s: "evolves H s0 s"
  show "evolves H s (s\<lparr>inbox := tput (w_id m') m' (inbox s)\<rparr>)"
    using evolves_row(1) [OF s snd row] core core_ids(1) [OF core] by (intro ev_inbound) auto
qed

lemma kp_operation:
  assumes E: "sha E = H" and row: "tget (o_id m) (operations s0) = Some m" and core: "operation_core m' = operation_core m"
  shows "keeps (evolves H) s0 (put_operation E m')"
proof (rule keeps_sound, rule ev.hk_keep_operation [OF E])
  fix s assume snd: "sound H s0" and s: "evolves H s0 s"
  show "evolves H s (s\<lparr>operations := tput (o_id m') m' (operations s)\<rparr>)"
    using evolves_row(2) [OF s snd row] core core_ids(2) [OF core] by (intro ev_operation) auto
qed

lemma kp_v2_operation:
  assumes E: "sha E = H" and row: "tget (z_id m) (v2_operations s0) = Some m"
    and core: "v2_operation_core m' = v2_operation_core m" "v2_operation_ok m \<Longrightarrow> v2_operation_ok m'"
  shows "keeps (evolves H) s0 (put_v2_operation E m')"
proof (rule keeps_sound, rule ev.hk_keep_v2_operation [OF E])
  fix s assume snd: "sound H s0" and s: "evolves H s0 s"
  have "v2_operation_ok m'" using sound_at(3) [OF snd row] core(2) by simp
  then show "evolves H s (s\<lparr>v2_operations := tput (z_id m') m' (v2_operations s)\<rparr>)"
    using evolves_row(3) [OF s snd row] core core_ids(3) [OF core(1)] by (intro ev_v2_operation) auto
qed

lemma kp_worker:
  assumes "sound H s0 \<Longrightarrow> worker_ok r"
  shows "keeps (evolves H) s0 (put_worker r)"
  unfolding put_worker_def by (rule keeps_sound, rule ev.keeps_modify, rule ev_worker) (rule assms)

text \<open>The list version: the rows come from the table as it was at the start.\<close>

lemma kp_inbound_row:
  "sha E = H \<Longrightarrow> m \<in> set (tall (inbox s0)) \<Longrightarrow> inbound_core m' = inbound_core m \<Longrightarrow>
   keeps (evolves H) s0 (put_inbound E m')"
  by (rule keeps_sound, erule kp_inbound [where m = m]) (erule (1) sound_rows(1), assumption)

lemma kp_operation_row:
  "sha E = H \<Longrightarrow> w \<in> set (tall (operations s0)) \<Longrightarrow> operation_core w' = operation_core w \<Longrightarrow>
   keeps (evolves H) s0 (put_operation E w')"
  by (rule keeps_sound, erule kp_operation [where m = w]) (erule (1) sound_rows(4), assumption)

lemma kp_v2_operation_row:
  "sha E = H \<Longrightarrow> z \<in> set (tall (v2_operations s0)) \<Longrightarrow> v2_operation_core z' = v2_operation_core z \<Longrightarrow>
   (v2_operation_ok z \<Longrightarrow> v2_operation_ok z') \<Longrightarrow> keeps (evolves H) s0 (put_v2_operation E z')"
  by (rule keeps_sound, erule kp_v2_operation [where m = z]) (auto dest: sound_rows(3))

lemma kp_worker_row:
  "r \<in> set (tall (workers s0)) \<Longrightarrow> (worker_ok r \<Longrightarrow> worker_ok r') \<Longrightarrow> keeps (evolves H) s0 (put_worker r')"
  using sound_at(6) [of H s0 "wp_task r" r] sound_rows(6) [of H s0 r] by (intro kp_worker) simp

section \<open>Plain rows\<close>

lemma ev_plain:
  "steps (evolves H) (put_request q)" "steps (evolves H) (put_outbox b)" "steps (evolves H) (put_proposal k p)"
  "steps (evolves H) (put_run r)" "steps (evolves H) (put_connection E owner urn rid)"
  "steps (evolves H) (tombstone E owner sender mid)" "steps (evolves H) (put_block E owner urn blk)"
  unfolding put_request_def put_outbox_def put_proposal_def put_run_def put_connection_def tombstone_def
    put_block_def Let_def
  by (intro ev.steps_modify; simp)+

lemma ev_queue_social: "steps (evolves H) (queue_social E x owner)"
  unfolding queue_social_def Let_def
  by (intro ev.steps_reads ev.steps_if ev.steps_option ev.steps_raise ev.steps_ret ev.steps_andThen ev_plain)

lemma ev_request_contact: "steps (evolves H) (request_contact E c)"
  unfolding request_contact_def Let_def
  by (intro ev.steps_reads ev.steps_if ev.steps_option ev.steps_raise ev.steps_ret ev.steps_andThen
      ev_plain ev_queue_social)

lemma ev_new_approval:
  assumes E: "sha E = H" and none: "tget (p_id a) (approvals s) = None"
  shows "goes (evolves H) s (put_approval E a)"
proof (rule ev.hk_goes_approval [OF E])
  fix l src
  show "evolves H (s\<lparr>links := l\<rparr>) (s\<lparr>links := l,
      approvals := tput (p_id a) (a\<lparr>p_source := src\<rparr>) (approvals s)\<rparr>)"
    using ev_approval [of H "s\<lparr>links := l\<rparr>" "a\<lparr>p_source := src\<rparr>"] none by simp
qed

lemma ev_request_approval:
  assumes E: "sha E = H"
  shows "steps (evolves H) (request_approval E subject session payload question expires)"
  unfolding request_approval_def Let_def
  by (intro ev.steps_andThen ev.steps_refuse_if steps_goes goes_reads goes_option ev.goes_ret
      ev.goes_andThen ev_new_approval ev.hk_audit ev.steps_ret E) simp

lemma ev_prepare_existing:
  assumes E: "sha E = H" shows "steps (evolves H) (prepare_existing_contact E c session)"
  unfolding prepare_existing_contact_def Let_def
  by (intro ev.steps_reads ev.steps_if ev.steps_list ev.steps_raise ev.steps_ret ev.steps_andThen
      ev_request_approval E)

lemma ev_prepare_contact:
  assumes E: "sha E = H" shows "steps (evolves H) (prepare_contact E cid aliases urn session)"
  unfolding prepare_contact_def
  by (intro ev.steps_andThen ev.steps_lift ev.steps_reads ev.steps_option ev.steps_if ev.steps_raise
      ev_prepare_existing ev_request_approval ev.steps_ret E)

lemma ev_mark_read:
  assumes E: "sha E = H" shows "steps (evolves H) (mark_read E mid session)"
  unfolding mark_read_def Let_def
  by (intro ev.steps_andThen ev.steps_lift ev.steps_reads ev.steps_option ev.steps_if ev.steps_raise
      ev.steps_ret ev.steps_for_each ev.h_attention ev.steps_modify ev_read E) auto

section \<open>Review gate and promotion\<close>

lemmas keeps_rules = ev.keeps_if ev.keeps_option ev.keeps_lift_then ev.keeps_reads0 ev.keeps_let
  ev.keeps_prod ev.keeps_guard_then ev.keeps_when ev.keeps_savepoint

lemma core_upd [simp]:
  "inbound_core (m\<lparr>i_quarantined := x\<rparr>) = inbound_core m" "inbound_core (m\<lparr>i_reason := y\<rparr>) = inbound_core m"
  "inbound_core (m\<lparr>i_request := y\<rparr>) = inbound_core m"
  by (simp_all add: inbound_core_def wire.truncate_def)

lemma ev_ensure_message:
  assumes E: "sha E = H" and m: "m \<in> set (tall (inbox s0))"
  shows "keeps (evolves H) s0 (ensure_message_review E session m)"
  unfolding ensure_message_review_def
  by (intro keeps_rules ev.keeps_andThen ev.keeps_steps [OF ev.steps_ret] ev.keeps_steps [OF ev.hk_stage]
      kp_inbound_row [OF E m] E) simp

lemma ev_ensure_event:
  assumes E: "sha E = H" shows "steps (evolves H) (ensure_event_review E session e)"
  unfolding ensure_event_review_def by (intro ev.steps_if ev.steps_andThen ev.hk_event_review ev.steps_ret E)

lemma ev_ensure_reviews:
  assumes E: "sha E = H" shows "steps (evolves H) (ensure_peer_reviews E session)"
  unfolding ensure_peer_reviews_def
  by (intro ev.steps_reads_keeps ev.keeps_andThen ev.keeps_for_each ev_ensure_message ev.keeps_reads0
      ev.keeps_steps [OF ev_ensure_event] E)

lemma ev_promote_one:
  assumes E: "sha E = H" and m: "m \<in> set (tall (inbox s0))"
  shows "keeps (evolves H) s0 (promote_one E owner m)"
proof -
  have core: "yields (\<lambda>v. inbound_core v = inbound_core m) (if b then
      andThen (stage_peer_review E w rc owner) (\<lambda>r.
        ret (if rv_status r = RvApproved then release m
             else (release m)\<lparr>i_quarantined := True, i_reason := Some (review_reason (rv_status r))\<rparr>))
    else ret (release m))" for b rc and w :: "inbound"
    by (intro yields_if yields_andThen) (auto simp: release_def)
  show ?thesis
    unfolding promote_one_def Let_def
    by (intro keeps_rules ev.keeps_andThen_yields [OF _ core] ev.keeps_steps [OF ev.steps_if]
        ev.steps_andThen ev.hk_stage ev.steps_ret ev.keeps_andThen kp_inbound_row [OF E m]
        ev.keeps_steps [OF ev_ingest_v2] ev.keeps_steps [OF ev.steps_ret] E) simp_all
qed

lemma ev_promote:
  assumes E: "sha E = H" shows "steps (evolves H) (promote_pending_messages E owner sender rid)"
  unfolding promote_pending_messages_def
  by (intro ev.steps_reads_keeps ev.keeps_if ev.keeps_steps [OF ev.steps_ret] ev.keeps_for_each
      ev_promote_one E) (auto simp: promotable_def)

lemma ev_ingest_request:
  assumes E: "sha E = H" shows "steps (evolves H) (ingest_request E w rid)"
  unfolding ingest_request_def Let_def
  by (intro ev.steps_if ev.steps_raise ev.steps_reads ev.steps_option ev.steps_ret ev.steps_andThen
      ev_plain ev.hk_friend_attention E)

lemma ev_ingest_response:
  assumes E: "sha E = H" shows "steps (evolves H) (ingest_response E w rid decision)"
  unfolding ingest_response_def Let_def
  by (intro ev.steps_if ev.steps_raise ev.steps_reads ev.steps_option ev.steps_ret ev.steps_andThen
      ev.steps_when ev_plain ev_promote ev.h_attention E)

lemma ev_ingest_social:
  assumes E: "sha E = H" shows "steps (evolves H) (ingest_social E w)"
  unfolding ingest_social_def Let_def
  by (intro ev.steps_if ev.steps_ret ev.steps_andThen ev.steps_lift ev.steps_raise ev_ingest_request
      ev_ingest_response E)

lemma ev_register_owner:
  assumes E: "sha E = H" shows "steps (evolves H) (register_owner E session)"
  unfolding register_owner_def
  by (intro ev.steps_andThen ev.steps_lift steps_goes goes_reads goes_option ev.goes_ret ev.goes_andThen
      goes_modify ev_profile ev.steps_for_each ev.steps_if ev.steps_ret ev.steps_reads ev_ingest_social E)

section \<open>Answers and messages\<close>

lemma response_contact:
  "response_values E s params session = Inr (q, d, Some c) \<Longrightarrow> tget (c_id c) (contacts s) = Some d' \<Longrightarrow> d' = c"
  unfolding response_values_def
  by (auto simp: refuse_def split: option.split_asm if_split_asm)

lemma ev_respond_contact:
  assumes E: "sha E = H" shows "steps (evolves H) (respond_contact E params session)"
proof -
  have first: "goes (evolves H) s (case co of None \<Rightarrow> ret ()
      | Some c \<Rightarrow> andThen (put_contact c) (\<lambda>_. put_connection E ow u ri))"
    if "response_values E s params session = Inr (q, d, co)" for s q d co ow u ri
    using response_contact that unfolding put_contact_def
    by (intro goes_option ev.goes_ret ev.goes_andThen goes_modify ev_contact ev_plain) blast
  show ?thesis
    unfolding respond_contact_def Let_def
    by (intro steps_goes goes_reads goes_lift_then goes_prod goes_if goes_raise ev.goes_ret
        ev.goes_andThen first ev.steps_andThen ev_plain ev_queue_social ev.hk_friend_attention
        ev_mark_read ev.steps_ret E) simp_all
qed

lemma ev_prepare_response:
  assumes E: "sha E = H" shows "steps (evolves H) (prepare_contact_response E params session)"
  unfolding prepare_contact_response_def
  by (intro ev.steps_reads ev.steps_andThen ev.steps_lift ev.steps_prod ev.steps_if ev.steps_ret
      ev_request_approval E)

lemma ev_send_message: "steps (evolves H) (send_message E params session)"
  unfolding send_message_def
  by (intro ev.steps_reads ev.steps_andThen ev.steps_lift ev_queue_social ev.steps_ret)

lemma ev_prepare_message:
  assumes E: "sha E = H" shows "steps (evolves H) (prepare_message E params session)"
  unfolding prepare_message_def
  by (intro ev.steps_reads ev.steps_andThen ev.steps_lift ev_request_approval E)

lemma ev_flush_one: "steps (evolves H) (flush_one E send bid)"
proof -
  have "steps (evolves H) (if c then ret Skipped else raise e)" for c e
    by (intro ev.steps_if ev.steps_ret ev.steps_raise)
  then show ?thesis
    unfolding flush_one_def
    by (intro ev.steps_reads ev.steps_option ev.steps_raise ev.steps_if ev.steps_ret ev.steps_sum
        ev.steps_andThen steps_json ev_plain) (auto intro: ev.steps_ret ev.steps_raise split: exn.splits)
qed

lemma ev_flush_all: "evolves H s (snd (flush_all E send bs s n))"
proof (induction bs arbitrary: s n)
  case (Cons b bs)
  show ?case
  proof (cases "flush_one E send b s")
    case (Inr r)
    obtain x t where r: "r = (x, t)" by (cases r)
    have "evolves H s t" using stepsD [OF ev_flush_one] Inr r by blast
    then show ?thesis
      using Cons.IH Inr r by (cases x) (auto intro: evolves_trans)
  qed (simp add: evolves_refl)
qed (simp add: evolves_refl)

section \<open>Blocking\<close>

lemma ev_block_messages: "steps (evolves H) (block_messages E owner urn)"
  unfolding block_messages_def by (intro ev.steps_reads ev.steps_for_each ev_plain)

lemma ev_block_requests:
  assumes E: "sha E = H" shows "steps (evolves H) (block_requests E owner urn)"
  unfolding block_requests_def Let_def
  by (intro ev.steps_reads ev.steps_for_each ev.steps_andThen ev_plain ev.hk_friend_attention E)

lemma ev_block_outbox: "steps (evolves H) (block_outbox E owner urn)"
  unfolding block_outbox_def by (intro ev.steps_reads ev.steps_for_each ev_plain)

lemma worker_ok_upd [simp]:
  "worker_ok (r\<lparr>wp_status := x\<rparr>) = worker_ok r" "worker_ok (r\<lparr>wp_waiting := y\<rparr>) = worker_ok r"
  "worker_ok (r\<lparr>wp_approval := y\<rparr>) = worker_ok r" "worker_ok (r\<lparr>wp_last_run := z\<rparr>) = worker_ok r"
  by (simp_all add: worker_ok_def)

lemma ev_block_workers:
  assumes E: "sha E = H" shows "steps (evolves H) (block_workers E owner tids)"
  unfolding block_workers_def Let_def
  by (intro ev.steps_reads_keeps ev.keeps_for_each ev.keeps_andThen kp_worker_row
      ev.keeps_steps [OF ev.hk_worker_attention] E) auto

lemma ev_block_operations:
  assumes E: "sha E = H" shows "steps (evolves H) (block_operations E owner urn)"
  unfolding block_operations_def
  by (intro ev.steps_reads_keeps ev.keeps_for_each kp_operation_row [OF E]) (auto simp: operation_core_def)

lemma ev_block_v2_operations:
  assumes E: "sha E = H" shows "steps (evolves H) (block_v2_operations E owner cids)"
  unfolding block_v2_operations_def
  by (intro ev.steps_reads_keeps ev.keeps_for_each kp_v2_operation_row [OF E])
    (auto simp: v2_operation_core_def v2_operation_ok_def)

lemma ev_block_attention:
  assumes E: "sha E = H" shows "steps (evolves H) (block_attention E owner urn)"
  unfolding block_attention_def by (intro ev.steps_reads ev.steps_for_each ev.h_attention E)

text \<open>Approvals and collaborations are written from rows that are still current.\<close>

lemma ev_goes_approval:
  assumes E: "sha E = H" and "sound H s \<Longrightarrow> tget (p_id a) (approvals s) = Some b \<and> approval_le b a"
  shows "goes (evolves H) s (put_approval E a)"
proof (rule ev.hk_goes_approval [OF E])
  fix l src
  have "sound H (s\<lparr>links := l\<rparr>) \<longleftrightarrow> sound H s"
    by (simp add: sound_def feed_ok_def reviews_keyed_def counter_def)
  then show "evolves H (s\<lparr>links := l\<rparr>) (s\<lparr>links := l,
      approvals := tput (p_id a) (a\<lparr>p_source := src\<rparr>) (approvals s)\<rparr>)"
    using ev_approval [of H "s\<lparr>links := l\<rparr>" "a\<lparr>p_source := src\<rparr>"] assms(2)
    by (auto simp: approval_le_def approval_core_def)
qed

lemma put_approval_other:
  assumes "k \<noteq> p_id a" "put_approval E a s = Inr (x, t)"
  shows "tget k (approvals t) = tget k (approvals s)"
proof -
  have "steps (other_rows approvals (p_id a)) (put_approval E a)"
    unfolding put_approval_def Let_def
    by (intro tb_approvals.other.steps_reads tb_approvals.other.steps_andThen tb_approvals.other.hook_steps
        tb_approvals.other.steps_modify tb_approvals.other.steps_when tb_approvals.other.steps_ret)
      (rule refl | simp add: other_rows_def)+
  then show ?thesis using assms by (auto simp: steps_def other_rows_def)
qed

lemma put_collaboration_other:
  assumes "k \<noteq> v_id c" "put_collaboration E c s = Inr (x, t)"
  shows "tget k (collaborations t) = tget k (collaborations s)"
proof -
  have "steps (other_rows collaborations (v_id c)) (put_collaboration E c)"
    unfolding put_collaboration_def Let_def
    by (intro tb_collaborations.other.steps_andThen tb_collaborations.other.hook_steps
        tb_collaborations.other.steps_modify tb_collaborations.other.steps_ret)
      (rule refl | simp add: other_rows_def)+
  then show ?thesis using assms by (auto simp: steps_def other_rows_def)
qed

lemma ev_block_approvals:
  assumes E: "sha E = H" shows "steps (evolves H) (block_approvals E owner urn tids)"
proof -
  have retire: "goes (evolves H) s (for_each (filter P (tall (approvals s)))
      (\<lambda>a. andThen (put_approval E (retire a why)) (\<lambda>a'. attention_approval E a' True)))" (is "goes _ _ (for_each ?xs ?f)")
    if P: "\<And>a. P a \<Longrightarrow> undecided a" for s P why
  proof (rule goes_sound)
    assume snd: "sound H s"
    have id: "p_id (retire a why) = p_id a" for a by (simp add: retire_def)
    show "goes (evolves H) s (for_each ?xs ?f)"
    proof (rule ev.goes_rows [where rid = p_id and g = approvals])
      show "distinct (map p_id ?xs)"
        using snd by (simp add: sound_def keyed_distinct distinct_map_filter)
      show "tget (p_id x) (approvals s) = Some x" if "x \<in> set ?xs" for x
        using that sound_rows(2) [OF snd] by auto
      show "goes (evolves H) s' (?f x)" if "x \<in> set ?xs" "tget (p_id x) (approvals s') = Some x" for x s'
        using that P [of x]
        by (intro ev.goes_andThen ev_goes_approval [OF E, where b = x] ev.hk_attention_approval E)
          (auto simp: id retire_def approval_le_def approval_core_def undecided_def)
      show "tget k (approvals t) = tget k (approvals s')" if run: "?f x s' = Inr (y, t)" and k: "k \<noteq> p_id x" for x s' y t k
      proof -
        obtain a' u where put: "put_approval E (retire x why) s' = Inr (a', u)"
          and att: "attention_approval E a' True u = Inr (y, t)"
          using run by auto
        have "k \<noteq> p_id (retire x why)" using k by (simp add: id)
        from put_approval_other [OF this put] have "tget k (approvals u) = tget k (approvals s')" .
        moreover have "approvals u = approvals t"
          using stepsD [OF tb_approvals.same.hk_attention_approval [OF refl] att] by (simp add: same_table_def)
        ultimately have "tget k (approvals t) = tget k (approvals s')" by simp
        then show ?thesis by simp
      qed
    qed
  qed
  then show ?thesis
    unfolding block_approvals_def by (intro steps_goes goes_reads retire) simp
qed

lemma ev_block_collaborations:
  assumes E: "sha E = H" and cs: "sound H s0 \<Longrightarrow> distinct (map v_id cs)"
    and rows: "\<And>c. sound H s0 \<Longrightarrow> c \<in> set cs \<Longrightarrow> tget (v_id c) (collaborations s0) = Some c"
  shows "goes (evolves H) s0 (for_each cs (\<lambda>c. andThen (put_collaboration E (block_collaboration E c)) (\<lambda>_. ret ())))"
    (is "goes _ _ (for_each _ ?f)")
proof (rule goes_sound)
  assume snd: "sound H s0"
  have le: "collaboration_le c (block_collaboration E c)" for c
    by (cases "v_permit c") (auto simp: collaboration_le_def block_collaboration_def collaboration_core_def
        permit_le_def json_eq_def)
  have id: "v_id (block_collaboration E c) = v_id c" for c by (simp add: block_collaboration_def)
  show ?thesis
  proof (rule ev.goes_rows [where rid = v_id and g = collaborations])
    show "goes (evolves H) s' (?f x)" if row: "tget (v_id x) (collaborations s') = Some x" for x s'
    proof (rule ev.goes_andThen [OF ev_goes_collaboration [OF E] ev.steps_ret])
      show "permit_ok (v_permit (block_collaboration E x))" if "sound H s'"
        using sound_collaboration [OF that row] by (cases "v_permit x") (auto simp: block_collaboration_def permit_ok_def)
      show "collaboration_le b (block_collaboration E x)"
        if "tget (v_id (block_collaboration E x)) (collaborations s') = Some b" for b
        using that row le [of x] by (simp add: id)
    qed
    show "tget k (collaborations t) = tget k (collaborations s')"
      if run: "?f x s' = Inr (y, t)" and k: "k \<noteq> v_id x" for x s' y t k
      using run k put_collaboration_other [of k "block_collaboration E x" E s'] by (auto simp: id)
  qed (use cs rows snd in auto)
qed

lemma put_worker_collaborations: "steps (same_table collaborations) (put_worker r)"
  by (auto simp: put_worker_def steps_def same_table_def)

lemma ev_retire_collaborations:
  assumes E: "sha E = H" and f: "\<And>x. steps (evolves H) (f x)"
  shows "goes (evolves H) s (andThen (block_workers E owner tids) (\<lambda>_. andThen (for_each (blocked_collaborations s owner urn)
      (\<lambda>c. andThen (put_collaboration E (block_collaboration E c)) (\<lambda>_. ret ()))) f))"
proof (rule goes_sound)
  assume snd: "sound H s"
  show ?thesis
  proof (rule ev.goes_seq)
    show "goes (evolves H) s (block_workers E owner tids)" by (rule goes_steps) (rule ev_block_workers [OF E])
    fix x t
    assume run: "block_workers E owner tids s = Inr (x, t)" and t: "evolves H s t"
    have "steps (same_table collaborations) (block_workers E owner tids)"
      unfolding block_workers_def Let_def
      by (intro tb_collaborations.same.steps_reads tb_collaborations.same.steps_for_each
          tb_collaborations.same.steps_andThen put_worker_collaborations
          tb_collaborations.same.hk_worker_attention [OF refl])
    then have same: "collaborations t = collaborations s" using stepsD run by (fastforce simp: same_table_def)
    show "goes (evolves H) t (andThen (for_each (blocked_collaborations s owner urn)
      (\<lambda>c. andThen (put_collaboration E (block_collaboration E c)) (\<lambda>_. ret ()))) f)"
      using snd sound_rows(5) [OF snd]
      by (intro ev.goes_andThen [OF ev_block_collaborations [OF E] f])
        (auto simp: same blocked_collaborations_def sound_def keyed_distinct distinct_map_filter)
  qed
qed

lemma ev_retire_peer:
  assumes E: "sha E = H" shows "steps (evolves H) (retire_peer E owner session urn)"
  unfolding retire_peer_def Let_def
  by (intro ev.steps_andThen ev_block_messages ev_block_requests ev_block_outbox steps_goes goes_reads
      ev_retire_collaborations ev_block_operations ev_block_v2_operations ev_block_approvals
      ev_block_attention E)

lemma principal_idem [simp]: "principal (principal x) = principal x"
  unfolding principal_def by (metis set_takeWhileD takeWhile_eq_all_conv)

lemma ev_bump_safety: "principal owner = owner \<Longrightarrow> steps (evolves H) (bump_safety E owner b)"
  unfolding bump_safety_def Let_def
  by (intro steps_goes goes_reads goes_if ev.goes_ret goes_raise ev.goes_andThen goes_modify ev_safety
      ev.steps_ret) (auto simp: safety_revision_def split: option.splits)

lemma ev_set_peer_block:
  assumes E: "sha E = H" shows "steps (evolves H) (set_peer_block E u b session)"
  unfolding set_peer_block_def Let_def
  by (intro ev.steps_andThen ev.steps_lift ev.steps_refuse_if ev.steps_reads ev_bump_safety ev_plain
      ev.steps_when ev_retire_peer ev.steps_ret principal_idem E)

lemma ev_consume_blocked: "steps (evolves H) (consume_blocked_peer E message session)"
  unfolding consume_blocked_peer_def Let_def
  by (intro ev.steps_andThen ev.steps_lift ev.steps_reads ev.steps_if ev.steps_ret ev.steps_raise
      ev.steps_modify ev_free(7))

section \<open>Mandates\<close>

lemma ev_register_resource: "steps (evolves H) (register_resource E rid title text prov session)"
proof -
  have store: "steps (evolves H) (reads (\<lambda>s. case tget i (resources s) of
         Some old \<Rightarrow> if old \<noteq> r then raise (ValueError m) else ret x
       | None \<Rightarrow> andThen (modify (\<lambda>s. s\<lparr>resources := tput i r (resources s)\<rparr>)) (\<lambda>_. ret x)))" for i r m x
    by (rule steps_goes, intro goes_reads goes_option goes_if goes_raise ev.goes_ret ev.goes_andThen
        goes_modify ev_resource ev.steps_ret) auto
  show ?thesis
    unfolding register_resource_def Let_def
    by (intro ev.steps_andThen ev.steps_lift store)
qed

lemma ev_goes_task:
  assumes E: "sha E = H" and "sound H s \<Longrightarrow> task_ok t"
    and "\<And>u. sound H s \<Longrightarrow> tget (t_id t) (tasks s) = Some u \<Longrightarrow> task_le u t"
  shows "goes (evolves H) s (put_task E t)"
proof (rule ev.hk_goes_task [OF E])
  fix l src
  have snd: "sound H (s\<lparr>links := l\<rparr>) \<longleftrightarrow> sound H s"
    by (simp add: sound_def feed_ok_def reviews_keyed_def counter_def)
  have "evolves H (s\<lparr>links := l\<rparr>) (s\<lparr>links := l, tasks :=
      tput (t_id (t\<lparr>t_source := src\<rparr>)) (t\<lparr>t_source := src\<rparr>) (tasks (s\<lparr>links := l\<rparr>))\<rparr>)"
  proof (rule ev_task)
    assume "sound H (s\<lparr>links := l\<rparr>)"
    then have sd: "sound H s" by (simp only: snd)
    show "task_ok (t\<lparr>t_source := src\<rparr>)" using assms(2) [OF sd] by (simp add: task_ok_def)
    fix u
    assume "tget (t_id (t\<lparr>t_source := src\<rparr>)) (tasks (s\<lparr>links := l\<rparr>)) = Some u"
    then have "task_le u t" using assms(3) [OF sd, of u] by simp
    then show "task_le u (t\<lparr>t_source := src\<rparr>)" by (simp add: task_le_def)
  qed
  then show "evolves H (s\<lparr>links := l\<rparr>) (s\<lparr>links := l, tasks := tput (t_id t) (t\<lparr>t_source := src\<rparr>) (tasks s)\<rparr>)"
    by simp
qed

lemma ev_ask_task:
  assumes E: "sha E = H" shows "steps (evolves H) (ask_task E tid sc cs rs session)"
  unfolding ask_task_def by (intro ev.steps_andThen ev_request_approval ev.steps_ret E)

lemma wf_new_task: "wf_scope sc \<Longrightarrow> task_ok \<lparr>t_id = tid, t_session = w, t_scope = sc, t_revision = 1,
    t_status = TPending, t_used = 0, t_source = None\<rparr>"
  by (simp add: task_ok_def wf_scope_def)

lemma ev_prepare_task:
  assumes E: "sha E = H" shows "steps (evolves H) (prepare_task E tidj scope session)"
proof -
  have "goes (evolves H) s (andThen (lift (validate_scope scope)) (\<lambda>sc. andThen (refuse_if (sc_expires_at sc \<le> now E) msg)
      (\<lambda>_. reads (\<lambda>s. andThen (lift (scope_references s sc session)) (\<lambda>(cs, rs).
      case tget tid (tasks s) of
       Some old \<Rightarrow>
         if \<not> session_owned (t_session old) session \<or> t_scope old \<noteq> sc
         then raise (ValueError ''Task ID already exists with a different owner or mandate'')
         else if t_status old \<noteq> TPending
         then ret (if t_status old = TActive then TAllow old else TDeny old)
         else ask_task E tid sc cs rs session
     | None \<Rightarrow>
         andThen (put_task E \<lparr>t_id = tid, t_session = session, t_scope = sc, t_revision = 1,
            t_status = TPending, t_used = 0, t_source = None\<rparr>) (\<lambda>_.
         ask_task E tid sc cs rs session))))))" for s tid msg
    by (intro goes_lift_then goes_guard_then goes_reads goes_prod goes_option goes_if goes_raise
        ev.goes_ret ev.goes_andThen goes_steps [OF ev_ask_task] ev_goes_task ev_ask_task wf_new_task E)
      (auto dest: validate_scope_wf)
  then show ?thesis
    unfolding prepare_task_def by (intro ev.steps_andThen ev.steps_lift steps_goes)
qed

text \<open>A mandate found for its owner is the row itself.\<close>

lemma find_task_row: "find_task s tid session = Inr t \<Longrightarrow> tget tid (tasks s) = Some t"
  by (auto simp: find_task_def refuse_def split: option.splits if_splits)

lemma ev_revoke:
  assumes E: "sha E = H" shows "steps (evolves H) (revoke E tid session)"
proof -
  have ok: "task_ok t" "t_id t = tid" if "sound H s" "find_task s tid session = Inr t" for s t
    using sound_at(5) [OF that(1) find_task_row [OF that(2)]] by auto
  show ?thesis
    unfolding revoke_def
  proof (rule steps_goes, intro goes_reads goes_lift_then goes_if ev.goes_ret ev.goes_andThen ev_goes_task
      goes_steps [OF ev.hk_audit] ev.steps_andThen ev.hk_audit ev.steps_ret E)
    fix s t u
    assume t: "find_task s tid session = Inr t" "t_status t \<noteq> TRevoked" and snd: "sound H s"
    show "task_ok (t\<lparr>t_status := TRevoked, t_revision := t_revision t + 1\<rparr>)"
      using ok [OF snd t(1)] by (simp add: task_ok_def)
    assume "tget (t_id (t\<lparr>t_status := TRevoked, t_revision := t_revision t + 1\<rparr>)) (tasks s) = Some u"
    then show "task_le u (t\<lparr>t_status := TRevoked, t_revision := t_revision t + 1\<rparr>)"
      using ok [OF snd t(1)] find_task_row [OF t(1)]
      by (cases "t_status t") (auto simp: task_le_def less_eq_task_status_def)
  qed
qed

end
