(* ===== verification/Evolution_Actions.thy ===== *)
theory Evolution_Actions
  imports Evolution_Social
begin

text \<open>Every operation follows the order \<open>evolves\<close>: actions and their dispatch, the owner's decisions.\<close>

section \<open>Actions\<close>

lemma operation_row_put:
  "steps (same_table operations) (request_approval E subject session payload question expires)"
  unfolding request_approval_def put_approval_def Let_def
  by (intro tb_operations.same.steps_andThen tb_operations.same.steps_refuse_if tb_operations.same.steps_reads
      tb_operations.same.steps_option tb_operations.same.steps_ret tb_operations.same.steps_when
      tb_operations.same.steps_modify tb_operations.same.hook_steps refl) (simp_all add: same_table_def)

lemma ev_new_operation:
  assumes E: "sha E = H" and none: "tget (o_id z) (operations s) = None"
  shows "goes (evolves H) s (put_operation E z)"
  by (rule ev.hk_goes_operation [OF E], rule ev_operation) (simp add: none)

lemma ev_view_outcome: "steps (evolves H) (view_outcome E z)"
  unfolding view_outcome_def by (intro ev.steps_reads ev.steps_andThen ev.steps_lift ev.steps_ret)

lemma ev_ask_then:
  assumes E: "sha E = H" and none: "tget oid (operations s) = None"
    and f: "\<And>x t. tget oid (operations t) = None \<Longrightarrow> goes (evolves H) t (f x)"
  shows "goes (evolves H) s (andThen (if b then andThen (request_approval E subject session p q x)
      (\<lambda>p. ret (Some (pa_id p))) else ret None) f)"
proof (rule ev.goes_seq)
  let ?ask = "if b then andThen (request_approval E subject session p q x) (\<lambda>p. ret (Some (pa_id p))) else ret None"
  show "goes (evolves H) s ?ask"
    by (intro goes_steps ev.steps_if ev.steps_andThen ev_request_approval ev.steps_ret E)
  have same: "steps (same_table operations) ?ask"
    by (intro tb_operations.same.steps_if tb_operations.same.steps_andThen operation_row_put
        tb_operations.same.steps_ret)
  fix y t
  assume "?ask s = Inr (y, t)"
  with same have "same_table operations s t" by (rule stepsD)
  then have "tget oid (operations t) = None" using none by (simp add: same_table_def)
  then show "goes (evolves H) t (f y)" by (rule f)
qed

lemma ev_store_operation:
  assumes E: "sha E = H" and none: "tget oid (operations s) = None"
  shows "goes (evolves H) s (store_operation E t oid a cs rs text wire v base session)"
  unfolding store_operation_def Let_def
  by (intro ev_ask_then [OF E none] ev.goes_andThen ev_new_operation ev.steps_andThen ev.hk_audit
      ev_view_outcome E) simp

lemma ev_record_then_store:
  assumes E: "sha E = H" and none: "tget oid (operations s) = None"
  shows "goes (evolves H) s (andThen (case record of Some (k, p) \<Rightarrow> put_proposal k p | None \<Rightarrow> ret ()) (\<lambda>_.
      store_operation E t oid a cs rs text wire v base session))"
proof (rule ev.goes_seq)
  let ?m = "case record of Some (k, p) \<Rightarrow> put_proposal k p | None \<Rightarrow> ret ()"
  show "goes (evolves H) s ?m"
    by (intro goes_option goes_prod goes_steps [OF ev_plain(3)] ev.goes_ret)
  fix x t'
  assume "?m s = Inr (x, t')"
  then have "tget oid (operations t') = None"
    using none by (auto simp: put_proposal_def split: option.splits)
  then show "goes (evolves H) t' (store_operation E t oid a cs rs text wire v base session)"
    by (rule ev_store_operation [OF E])
qed

lemma ev_prepare_fresh:
  assumes E: "sha E = H" shows "steps (evolves H) (prepare_fresh E t oid a v session)"
  unfolding prepare_fresh_def Let_def
  by (rule steps_goes, intro goes_reads goes_option ev.goes_ret goes_if goes_lift_then goes_raise
      goes_prod ev_record_then_store E) simp_all

lemma ev_prepare_action:
  assumes E: "sha E = H" shows "steps (evolves H) (prepare_action E tid oidj act session)"
  unfolding prepare_action_def Let_def
  by (intro ev.steps_andThen ev.steps_lift ev.steps_reads ev.steps_if ev.steps_raise ev.steps_option
      ev.steps_sum ev.steps_ret ev_view_outcome ev_prepare_fresh E)

section \<open>Dispatch\<close>

lemma operation_core_upd [simp]:
  "operation_core (z\<lparr>o_status := x\<rparr>) = operation_core z"
  "operation_core (z\<lparr>o_decision := v\<rparr>) = operation_core z"
  "operation_core (z\<lparr>o_approval := y\<rparr>) = operation_core z"
  "operation_core (z\<lparr>o_approved_once := b\<rparr>) = operation_core z"
  "operation_core (z\<lparr>o_reserved := r\<rparr>) = operation_core z"
  "operation_core (z\<lparr>o_deliveries := ds\<rparr>) = operation_core z"
  by (simp_all add: operation_core_def)

lemma ev_reserve_ready:
  assumes E: "sha E = H" and t: "tget (t_id t) (tasks s) = Some t" and z: "tget (o_id z) (operations s) = Some z"
  shows "goes (evolves H) s (reserve_ready E t z session)"
proof -
  have spend: "goes (evolves H) s (put_task E (t\<lparr>t_used := t_used t + 1\<rparr>))"
    if "\<not> sc_max_actions (t_scope t) \<le> t_used t"
  proof (rule ev_goes_task [OF E])
    assume snd: "sound H s"
    show "task_ok (t\<lparr>t_used := t_used t + 1\<rparr>)"
      using sound_at(5) [OF snd t] that by (simp add: task_ok_def)
    show "task_le u (t\<lparr>t_used := t_used t + 1\<rparr>)"
      if "tget (t_id (t\<lparr>t_used := t_used t + 1\<rparr>)) (tasks s) = Some u" for u
      using that t by (auto simp: task_le_def)
  qed
  have z': "goes (evolves H) s m" if "keeps (evolves H) s m" for m :: "unit step"
    by (rule ev.goes_keeps [OF that])
  show ?thesis
    unfolding reserve_ready_def Let_def
    by (intro goes_reads goes_if ev.goes_ret ev.goes_andThen_keeps goes_steps [OF ev_request_approval]
        spend ev.keeps_andThen kp_operation [OF E z] ev.keeps_reads0 ev.keeps_steps [OF ev.steps_ret]
        ev.keeps_steps [OF ev.steps_lift] E) (simp_all add: reservation_def)
qed

lemma ev_dispatch_reserve:
  assumes E: "sha E = H" shows "steps (evolves H) (dispatch_reserve E oid session)"
proof (rule steps_goes, rule goes_sound)
  fix s assume snd: "sound H s"
  have reserve: "goes (evolves H) s (reserve_ready E t z session)"
    if "tget oid (operations s) = Some z" "find_task s (o_task z) session = Inr t" for t z
    using that sound_at(4,5) [OF snd] find_task_row [OF that(2)]
    by (intro ev_reserve_ready [OF E]) auto
  show "goes (evolves H) s (dispatch_reserve E oid session)"
    unfolding dispatch_reserve_def
    by (intro goes_reads goes_option goes_raise goes_if ev.goes_ret goes_lift_then reserve)
qed

lemma ev_deliver_one:
  assumes E: "sha E = H" shows "steps (evolves H) (deliver_one E send oid session mid)"
proof (rule steps_goes, rule goes_sound)
  fix s assume snd: "sound H s"
  have row: "tget (o_id z) (operations s) = Some z" if "tget oid (operations s) = Some z" for z
    using that sound_at(4) [OF snd that] by simp
  show "goes (evolves H) s (deliver_one E send oid session mid)"
    unfolding deliver_one_def Let_def
    by (intro goes_reads goes_option goes_raise goes_lift_then goes_list goes_if ev.goes_ret
        ev.goes_andThen_keeps goes_when goes_steps [OF ev.hk_audit] ev.keeps_andThen
        kp_operation [OF E] row ev.keeps_steps [OF ev.steps_ret] evolves_refl) simp_all
qed

lemma ev_deliver_all:
  assumes E: "sha E = H" shows "evolves H s (snd (deliver_all E send oid session ms s))"
proof (induction ms arbitrary: s)
  case (Cons m ms)
  show ?case
  proof (cases "deliver_one E send oid session m s")
    case (Inr r)
    obtain x t where r: "r = (x, t)" by (cases r)
    have "evolves H s t" using stepsD [OF ev_deliver_one [OF E]] Inr r by blast
    then show ?thesis using Cons.IH Inr r by (cases x) (auto intro: evolves_trans)
  qed (simp add: evolves_refl)
qed (simp add: evolves_refl)

lemma ev_dispatch:
  assumes E: "sha E = H" shows "evolves H s (snd (dispatch E send oid session s))"
proof (cases "dispatch_reserve E oid session s")
  case (Inr r)
  obtain x s1 where r: "r = (x, s1)" by (cases r)
  have first: "evolves H s s1" using stepsD [OF ev_dispatch_reserve [OF E]] Inr r by blast
  show ?thesis
  proof (cases x)
    case (DReserved mids)
    have "evolves H s (snd (deliver_all E send oid session mids s1))"
      using ev_deliver_all [OF E] first by (rule evolves_trans [rotated])
    then show ?thesis
      using Inr r DReserved unfolding dispatch_def
      by (auto split: sum.splits option.splits prod.splits)
  qed (use Inr r first in \<open>auto simp: dispatch_def\<close>)
qed (simp add: dispatch_def evolves_refl)

end
