(* ===== verification/Evolution_Decisions.thy ===== *)
theory Evolution_Decisions
  imports Evolution_Actions
begin

text \<open>Every operation follows the order \<open>evolves\<close>: the owner's decisions.\<close>

section \<open>Effects of a decision leave the approvals alone\<close>

lemma ap_free [simp]:
  "same_table approvals s (s\<lparr>contacts := a1\<rparr>)" "same_table approvals s (s\<lparr>requests := a2\<rparr>)"
  "same_table approvals s (s\<lparr>outboxes := a3\<rparr>)" "same_table approvals s (s\<lparr>connections := a4\<rparr>)"
  "same_table approvals s (s\<lparr>reads_at := a5\<rparr>)" "same_table approvals s (s\<lparr>workers := a6\<rparr>)"
  "same_table approvals s (s\<lparr>tasks := a7\<rparr>)" "same_table approvals s (s\<lparr>operations := a8\<rparr>)"
  "same_table approvals s (s\<lparr>v2_operations := a9\<rparr>)" "same_table approvals s (s\<lparr>proposals := b1\<rparr>)"
  by (simp_all add: same_table_def)

lemma ap_plain:
  "steps (same_table approvals) (put_request q)" "steps (same_table approvals) (put_outbox b)"
  "steps (same_table approvals) (put_contact c)" "steps (same_table approvals) (put_worker r)"
  "steps (same_table approvals) (put_proposal k p)" "steps (same_table approvals) (put_connection E owner urn rid)"
  unfolding put_request_def put_outbox_def put_contact_def put_worker_def put_proposal_def put_connection_def
  by (intro tb_approvals.same.steps_modify; simp)+

lemma ap_rows:
  "steps (same_table approvals) (put_task E t)" "steps (same_table approvals) (put_operation E z)"
  "steps (same_table approvals) (put_v2_operation E y)"
  using tb_approvals.same.hk_goes_task [OF refl] tb_approvals.same.hk_goes_operation [OF refl]
    tb_approvals.same.hk_goes_v2_operation [OF refl]
  by (auto intro!: steps_goes simp: same_table_def)

lemma ap_queue_social: "steps (same_table approvals) (queue_social E x owner)"
  unfolding queue_social_def Let_def
  by (intro tb_approvals.same.steps_reads tb_approvals.same.steps_if tb_approvals.same.steps_option
      tb_approvals.same.steps_raise tb_approvals.same.steps_ret tb_approvals.same.steps_andThen ap_plain)

lemma ap_request_contact: "steps (same_table approvals) (request_contact E c)"
  unfolding request_contact_def Let_def
  by (intro tb_approvals.same.steps_reads tb_approvals.same.steps_if tb_approvals.same.steps_option
      tb_approvals.same.steps_raise tb_approvals.same.steps_ret tb_approvals.same.steps_andThen
      ap_plain ap_queue_social)

lemma ap_mark_read: "steps (same_table approvals) (mark_read E mid session)"
  unfolding mark_read_def Let_def
  by (intro tb_approvals.same.steps_andThen tb_approvals.same.steps_lift tb_approvals.same.steps_reads
      tb_approvals.same.steps_option tb_approvals.same.steps_if tb_approvals.same.steps_raise
      tb_approvals.same.steps_ret tb_approvals.same.steps_for_each tb_approvals.same.h_attention [OF refl]
      tb_approvals.same.steps_modify ap_free)

lemma ap_respond_contact: "steps (same_table approvals) (respond_contact E params session)"
  unfolding respond_contact_def Let_def
  by (intro tb_approvals.same.steps_reads tb_approvals.same.steps_andThen tb_approvals.same.steps_lift
      tb_approvals.same.steps_prod tb_approvals.same.steps_if tb_approvals.same.steps_raise
      tb_approvals.same.steps_ret tb_approvals.same.steps_option ap_plain ap_queue_social ap_mark_read
      tb_approvals.same.hk_friend_attention [OF refl])

lemma ap_apply_operation: "steps (same_table approvals) (apply_operation E a)"
  unfolding apply_operation_def
  by (intro tb_approvals.same.steps_reads tb_approvals.same.steps_option tb_approvals.same.steps_raise
      tb_approvals.same.steps_andThen ap_rows)
    (auto intro: tb_approvals.same.steps_ret tb_approvals.same.steps_when ap_plain split: payload.split)

lemma ap_apply_v2: "steps (same_table approvals) (apply_v2_status E a f)"
  unfolding apply_v2_status_def
  by (intro tb_approvals.same.steps_reads tb_approvals.same.steps_option tb_approvals.same.steps_raise ap_rows)

lemma ap_apply: "steps (same_table approvals) (apply_approval E a)"
  unfolding apply_approval_def
  by (intro steps_payload steps_json tb_approvals.same.steps_andThen tb_approvals.same.steps_ret
      tb_approvals.same.steps_reads tb_approvals.same.steps_option tb_approvals.same.steps_raise
      tb_approvals.same.steps_modify ap_free ap_plain ap_rows ap_queue_social ap_request_contact
      ap_respond_contact ap_apply_operation ap_apply_v2)

lemma ap_deny: "steps (same_table approvals) (deny_approval E a)"
  unfolding deny_approval_def
  by (intro steps_payload tb_approvals.same.steps_reads tb_approvals.same.steps_option
      tb_approvals.same.steps_ret tb_approvals.same.steps_raise ap_plain ap_rows)

section \<open>Applying a current approval\<close>

text \<open>What \<^verbatim>\<open>_approval_current\<close> establishes for the effects that write guarded rows.\<close>

definition applicable :: "store \<Rightarrow> approval \<Rightarrow> bool" where
  "applicable s a \<longleftrightarrow> (case p_payload a of
     PContact c \<Rightarrow> (\<forall>d. tget (p_subject a) (contacts s) = Some d \<longrightarrow> d = c)
   | PTask _ _ \<Rightarrow> (\<forall>t. tget (p_subject a) (tasks s) = Some t \<longrightarrow> t_status t = TPending)
   | _ \<Rightarrow> True)"

lemma approval_current_applicable:
  assumes "approval_current E a s = Inr (True, t)" shows "applicable t a"
proof -
  have "still s t" using stepsD [OF st.hk_approval_current [OF refl] assms] .
  then show ?thesis
    using assms unfolding approval_current_def applicable_def still_def quiet_def
    by (auto split: if_splits approval_payload.splits option.splits)
qed

lemma v2_operation_core_upd [simp]:
  "v2_operation_core (z\<lparr>z_status := x\<rparr>) = v2_operation_core z"
  "v2_operation_core (z\<lparr>z_approved_once := b\<rparr>) = v2_operation_core z"
  "v2_operation_core (z\<lparr>z_approval := c\<rparr>) = v2_operation_core z"
  by (simp_all add: v2_operation_core_def)

lemma v2_operation_ok_upd [simp]:
  "v2_operation_ok (z\<lparr>z_status := x\<rparr>) = v2_operation_ok z"
  "v2_operation_ok (z\<lparr>z_approved_once := b\<rparr>) = v2_operation_ok z"
  "v2_operation_ok (z\<lparr>z_approval := c\<rparr>) = v2_operation_ok z"
  by (simp_all add: v2_operation_ok_def)

lemma ev_write_operation:
  assumes E: "sha E = H" and z: "tget k (operations s) = Some z" and core: "operation_core z' = operation_core z"
  shows "keeps (evolves H) s (put_operation E z')"
proof (rule keeps_sound)
  assume "sound H s"
  then have "o_id z = k" using sound_at(4) z by blast
  then show ?thesis using kp_operation [OF E _ core] z by simp
qed

lemma ev_write_v2_operation:
  assumes E: "sha E = H" and z: "tget k (v2_operations s) = Some z"
    and core: "v2_operation_core z' = v2_operation_core z" "v2_operation_ok z \<Longrightarrow> v2_operation_ok z'"
  shows "keeps (evolves H) s (put_v2_operation E z')"
proof (rule keeps_sound)
  assume "sound H s"
  then have "z_id z = k" using sound_at(3) z by blast
  then show ?thesis using z by (intro kp_v2_operation [OF E _ core]) simp_all
qed

lemma ev_write_worker:
  assumes z: "tget k (workers s) = Some r" and ok: "worker_ok r \<Longrightarrow> worker_ok r'"
  shows "goes (evolves H) s (put_worker r')"
  using z ok sound_at(6) by (intro ev.goes_keeps kp_worker) blast

lemma ev_apply_operation:
  assumes E: "sha E = H" shows "goes (evolves H) s (apply_operation E a)"
  unfolding apply_operation_def
  by (intro goes_reads goes_option goes_raise ev.goes_andThen_keeps ev_write_operation [OF E])
    (auto intro: goes_steps ev_plain ev.steps_ret ev.steps_when split: payload.split)

lemma ev_apply:
  assumes E: "sha E = H" and ok: "applicable s a"
  shows "goes (evolves H) s (apply_approval E a)"
proof (cases "p_payload a")
  case (PContact c)
  then show ?thesis
    using ok unfolding apply_approval_def
    by (auto simp: applicable_def intro!: ev.goes_andThen goes_modify ev_contact ev.steps_andThen
        ev_request_contact ev.steps_ret)
next
  case (PTask sc n)
  have "goes (evolves H) s (put_task E (t\<lparr>t_status := TActive\<rparr>))" if t: "tget (p_subject a) (tasks s) = Some t" for t
  proof (rule ev_goes_task [OF E])
    assume snd: "sound H s"
    show "task_ok (t\<lparr>t_status := TActive\<rparr>)" using sound_at(5) [OF snd t] by (simp add: task_ok_def)
    show "task_le u (t\<lparr>t_status := TActive\<rparr>)" if "tget (t_id (t\<lparr>t_status := TActive\<rparr>)) (tasks s) = Some u" for u
      using that ok PTask t sound_at(5) [OF snd t]
      by (auto simp: task_le_def applicable_def less_eq_task_status_def)
  qed
  then show ?thesis
    unfolding apply_approval_def PTask
    by (auto intro!: goes_reads goes_option goes_raise ev.goes_andThen ev.steps_ret)
next
  case (POperation h n)
  then show ?thesis unfolding apply_approval_def by (simp add: ev_apply_operation [OF E])
next
  case (PV2 h)
  then show ?thesis
    unfolding apply_approval_def apply_v2_status_def
    by (auto intro!: goes_reads goes_option goes_raise ev.goes_keeps [OF ev_write_v2_operation [OF E]])
next
  case (PWorker n m h)
  then show ?thesis
    unfolding apply_approval_def by (auto intro!: goes_reads goes_option goes_raise ev_write_worker)
qed (auto simp: apply_approval_def intro!: goes_steps ev.steps_andThen ev.steps_ret ev_request_contact
    ev_respond_contact ev_queue_social E split: json.split)

lemma ev_deny:
  assumes E: "sha E = H" shows "goes (evolves H) s (deny_approval E a)"
  unfolding deny_approval_def
  by (cases "p_payload a")
    (auto intro!: goes_reads goes_option goes_raise ev.goes_ret ev_write_worker
      ev.goes_keeps [OF ev_write_v2_operation [OF E]] ev.goes_keeps [OF ev_write_operation [OF E]])

section \<open>Deciding\<close>

lemma ev_decided:
  assumes E: "sha E = H" and row: "tget aid (approvals s) = Some a" and le: "approval_le a a'"
  shows "goes (evolves H) s (put_approval E a')"
proof (rule ev_goes_approval [OF E])
  assume "sound H s"
  then have "p_id a = aid" using row sound_at(2) by blast
  moreover have "p_id a' = p_id a" using le core_ids(4) [of a a'] by (simp add: approval_le_def)
  ultimately show "tget (p_id a') (approvals s) = Some a \<and> approval_le a a'" using row le by simp
qed

text \<open>A chain that starts at a state whose approval row is still the one that was read.\<close>

lemma ev_keep_row_then:
  assumes m: "goes (evolves H) s m" and same: "steps (same_table approvals) m"
    and row: "tget aid (approvals s) = Some a"
    and f: "\<And>x t. tget aid (approvals t) = Some a \<Longrightarrow> m s = Inr (x, t) \<Longrightarrow> goes (evolves H) t (f x)"
  shows "goes (evolves H) s (andThen m f)"
proof (rule ev.goes_seq [OF m])
  fix x t assume run: "m s = Inr (x, t)"
  with same have "same_table approvals s t" by (rule stepsD)
  then show "goes (evolves H) t (f x)" using row run by (intro f) (simp_all add: same_table_def)
qed

lemma ev_current_then:
  assumes E: "sha E = H" and row: "tget aid (approvals s) = Some a"
    and f: "\<And>b t. tget aid (approvals t) = Some a \<Longrightarrow> (b \<Longrightarrow> applicable t a') \<Longrightarrow> goes (evolves H) t (f b)"
  shows "goes (evolves H) s (andThen (if c then ret False else approval_current E a') f)"
proof (rule ev_keep_row_then [OF _ _ row])
  show "goes (evolves H) s (if c then ret False else approval_current E a')"
    by (intro goes_steps ev.steps_if ev.steps_ret ev.hk_approval_current E)
  show "steps (same_table approvals) (if c then ret False else approval_current E a')"
    by (intro tb_approvals.same.steps_if tb_approvals.same.steps_ret tb_approvals.same.hk_approval_current [OF refl])
  fix b t
  assume "tget aid (approvals t) = Some a" "(if c then ret False else approval_current E a') s = Inr (b, t)"
  then show "goes (evolves H) t (f b)"
    by (intro f) (auto split: if_splits intro: approval_current_applicable)
qed

lemma undecided_cases: "undecided a \<Longrightarrow> p_status a \<noteq> ADenied \<and> p_status a \<noteq> ASuperseded \<and> p_status a \<noteq> AApproved"
  by (auto simp: undecided_def)

lemma find_approval_row: "find_approval s aid session msg = Inr a \<Longrightarrow>
    tget aid (approvals s) = Some a \<and> principal (p_session a) = principal session"
  by (auto simp: find_approval_def refuse_def session_owned_def split: option.splits if_splits)

lemma ev_begin_confirmation:
  assumes E: "sha E = H" shows "steps (evolves H) (begin_confirmation E aid session)"
proof -
  have le: "approval_le a (a\<lparr>p_status := APresenting, p_session := session, p_expires := d, p_token := x, p_lease := y\<rparr>)"
    if "undecided a" "principal (p_session a) = principal session" for a d x y
    using that undecided_cases [OF that(1)] by (auto simp: approval_le_def approval_core_def)
  have cur: "(if False then ret False else approval_current E a) = approval_current E a" for a by simp
  have "goes (evolves H) s (reads (\<lambda>s.
     andThen (lift (find_approval s aid session msg)) (\<lambda>a.
     andThen (refuse_if (b1 a) m1) (\<lambda>_.
     andThen (refuse_if (\<not> undecided a) m2) (\<lambda>_.
     andThen (refuse_if (b3 a) m3) (\<lambda>_.
     andThen (refuse_if (b4 s) m4) (\<lambda>_.
     andThen (if False then ret False else approval_current E a) (\<lambda>cur.
     andThen (refuse_if (\<not> cur) m5) (\<lambda>_. reads (\<lambda>s.
     andThen (lift (grant_deadline E s a)) (\<lambda>deadline.
     andThen (put_approval E (a\<lparr>p_status := APresenting, p_session := session, p_expires := deadline,
        p_token := x, p_lease := Some (y deadline)\<rparr>)) (\<lambda>_.
     ret (z a deadline)))))))))))))" for s msg b1 m1 m2 b3 m3 b4 m4 m5 x y z
    by (intro goes_reads goes_lift_then goes_guard_then ev_current_then [OF E] ev.goes_andThen
        ev_decided [OF E] ev.steps_ret) (auto intro!: le dest: find_approval_row)
  note chain = this [unfolded cur if_False]
  show ?thesis
    unfolding begin_confirmation_def by (intro ev.steps_andThen ev.steps_lift steps_goes) (rule chain)
qed


text \<open>An answer changes the approval only in its status, token, lease and session.\<close>

definition answers :: "approval \<Rightarrow> approval \<Rightarrow> bool" where
  "answers a a' \<longleftrightarrow> approval_core a = approval_core a' \<and> p_payload a' = p_payload a \<and> p_subject a' = p_subject a"

lemma answers_le: "answers a a' \<Longrightarrow> p_status a \<notin> {ADenied, ASuperseded, AApproved} \<Longrightarrow> approval_le a a'"
  by (auto simp: answers_def approval_le_def)

lemma answers_upd [simp]:
  "answers a (consumed a)" "answers a ((consumed a)\<lparr>p_status := x\<rparr>)"
  "principal w = principal (p_session a) \<Longrightarrow> answers a ((consumed a)\<lparr>p_status := x, p_session := w\<rparr>)"
  by (simp_all add: answers_def approval_core_def consumed_def)

lemma answers_applicable: "answers a a' \<Longrightarrow> answers a a'' \<Longrightarrow> applicable s a' \<Longrightarrow> applicable s a''"
  by (auto simp: answers_def applicable_def split: approval_payload.splits)

lemma yields_resolve: "yields (\<lambda>(b, _). \<exists>x. b = a\<lparr>p_status := x\<rparr>) (resolve_answer E a raw)"
  unfolding resolve_answer_def Let_def by (intro yields_if yields_andThen) auto

lemma ev_resolve:
  assumes E: "sha E = H" and ok: "applicable s a" shows "goes (evolves H) s (resolve_answer E a raw)"
  using ok unfolding resolve_answer_def Let_def
  by (intro goes_if ev.goes_andThen ev_apply ev_deny ev.steps_ret ev.goes_ret E)
    (auto simp: applicable_def split: approval_payload.splits)

lemma ap_resolve: "steps (same_table approvals) (resolve_answer E a raw)"
  unfolding resolve_answer_def Let_def
  by (intro tb_approvals.same.steps_if tb_approvals.same.steps_andThen ap_apply ap_deny tb_approvals.same.steps_ret)

lemma ev_finish_confirmation:
  assumes E: "sha E = H" shows "steps (evolves H) (finish_confirmation E aid token session raw)"
proof -
  have last: "goes (evolves H) t (andThen (put_approval E (fst r)) (\<lambda>_. andThen (audit E e (d (fst r))) (\<lambda>_. ret (snd r))))"
    if "tget aid (approvals t) = Some a" "p_status a = APresenting" "\<exists>x. fst r = (consumed a)\<lparr>p_status := x\<rparr>"
    for t a and r :: "approval \<times> answer_outcome" and e d
    using that by (intro ev.goes_andThen ev_decided [OF E that(1)] ev.steps_andThen ev.hk_audit ev.steps_ret)
      (auto intro!: answers_le)
  have mid: "goes (evolves H) t (andThen (if \<not> cur then ret ((consumed a)\<lparr>p_status := AExpired\<rparr>, ExpiredConfirmation)
                    else resolve_answer E (consumed a) raw) (\<lambda>r.
           andThen (put_approval E (fst r)) (\<lambda>_. andThen (audit E e (d (fst r))) (\<lambda>_. ret (snd r)))))"
    if "tget aid (approvals t) = Some a" "p_status a = APresenting" "cur \<Longrightarrow> applicable t (consumed a)"
    for t a cur e d
  proof (rule ev_keep_row_then [OF _ _ that(1)])
    let ?m = "if \<not> cur then ret ((consumed a)\<lparr>p_status := AExpired\<rparr>, ExpiredConfirmation)
        else resolve_answer E (consumed a) raw"
    show "goes (evolves H) t ?m" using that(3) by (intro goes_if ev.goes_ret ev_resolve E) auto
    show "steps (same_table approvals) ?m"
      by (intro tb_approvals.same.steps_if tb_approvals.same.steps_ret ap_resolve)
    fix r u assume u: "tget aid (approvals u) = Some a" "?m t = Inr (r, u)"
    have "\<exists>x. fst r = (consumed a)\<lparr>p_status := x\<rparr>"
    proof (cases cur)
      case True
      then have "resolve_answer E (consumed a) raw t = Inr (r, u)" using u(2) by simp
      from yieldsD [OF yields_resolve this] show ?thesis by (simp add: case_prod_unfold)
    next
      case False
      then have "r = ((consumed a)\<lparr>p_status := AExpired\<rparr>, ExpiredConfirmation)" using u(2) by simp
      then show ?thesis by auto
    qed
    with u(1) that(2) show "goes (evolves H) u (andThen (put_approval E (fst r)) (\<lambda>_.
        andThen (audit E e (d (fst r))) (\<lambda>_. ret (snd r))))"
      by (rule last)
  qed
  show ?thesis
    unfolding finish_confirmation_def case_prod_unfold
  proof (rule steps_goes, intro goes_reads goes_option goes_raise goes_if)
    fix s :: store and a
    assume row: "tget aid (approvals s) = Some a" and st: "\<not> (p_session a \<noteq> session \<or> p_status a \<noteq> APresenting \<or>
        (case p_token a of None \<Rightarrow> [] | Some h \<Rightarrow> h) \<noteq> digest E (JStr token))"
    show "goes (evolves H) s (andThen (if lease_end a \<le> now E \<or> p_expires a \<le> now E then ret False
        else approval_current E (consumed a)) (\<lambda>cur.
      andThen (if \<not> cur then ret ((consumed a)\<lparr>p_status := AExpired\<rparr>, ExpiredConfirmation)
         else resolve_answer E (consumed a) raw) (\<lambda>r.
      andThen (put_approval E (fst r)) (\<lambda>_.
      andThen (audit E ''native_confirmation_resolved'' [(''approval_id'', JStr aid),
              (''owner_session'', JStr session), (''status'', JStr (ap_status_str (p_status (fst r))))]) (\<lambda>_.
      ret (snd r))))))"
    proof (rule ev_current_then [OF E row])
      fix cur t
      assume "tget aid (approvals t) = Some a" "cur \<Longrightarrow> applicable t (consumed a)"
      then show "goes (evolves H) t (andThen (if \<not> cur then ret ((consumed a)\<lparr>p_status := AExpired\<rparr>, ExpiredConfirmation)
           else resolve_answer E (consumed a) raw) (\<lambda>r.
        andThen (put_approval E (fst r)) (\<lambda>_.
        andThen (audit E ''native_confirmation_resolved'' [(''approval_id'', JStr aid),
                (''owner_session'', JStr session), (''status'', JStr (ap_status_str (p_status (fst r))))]) (\<lambda>_.
        ret (snd r)))))"
        using st by (intro mid) auto
    qed
  qed
qed

lemma ev_remote_respond_approval:
  assumes E: "sha E = H" shows "steps (evolves H) (remote_respond_approval E params session)"
proof -
  have effect: "goes (evolves H) t (andThen (if yes then apply_approval E a' else deny_approval E a') (\<lambda>_.
       andThen (put_approval E a') (\<lambda>_. andThen (audit E e d) (\<lambda>_. ret x))))"
    if row: "tget aid (approvals t) = Some a" and "approval_le a a'" "answers a a'" "applicable t a"
    for t a a' yes x aid e d
  proof (rule ev_keep_row_then [OF _ _ row])
    have "applicable t a'" using that answers_applicable [of a a a'] by (simp add: answers_def)
    then show "goes (evolves H) t (if yes then apply_approval E a' else deny_approval E a')"
      by (intro goes_if ev_apply ev_deny E)
    show "steps (same_table approvals) (if yes then apply_approval E a' else deny_approval E a')"
      by (intro tb_approvals.same.steps_if ap_apply ap_deny)
    show "goes (evolves H) u (andThen (put_approval E a') (\<lambda>_. andThen (audit E e d) (\<lambda>_. ret x)))"
      if "tget aid (approvals u) = Some a" for u
      using that \<open>approval_le a a'\<close>
      by (intro ev.goes_andThen ev_decided [OF E] ev.steps_andThen ev.hk_audit ev.steps_ret)
  qed
  have cur: "(if \<not> undecided a then ret False else approval_current E a) =
      (if undecided a then approval_current E a else ret False)" for a by simp
  have chain: "goes (evolves H) s (reads (\<lambda>s.
     andThen (lift (find_approval s aid session msg)) (\<lambda>a.
     if p_status a \<in> {AApproved, ADenied} then
       (if p_status a \<noteq> st then raise (ValueError m1) else ret x)
     else andThen (if undecided a then approval_current E a else ret False) (\<lambda>cur.
       andThen (refuse_if (\<not> cur) m2) (\<lambda>_.
       andThen (if yes then apply_approval E ((consumed a)\<lparr>p_status := st, p_session := session\<rparr>)
          else deny_approval E ((consumed a)\<lparr>p_status := st, p_session := session\<rparr>)) (\<lambda>_.
       andThen (put_approval E ((consumed a)\<lparr>p_status := st, p_session := session\<rparr>)) (\<lambda>_.
       andThen (audit E e d) (\<lambda>_. ret x))))))))" for s aid msg st m1 m2 yes x e d
  proof (intro goes_reads goes_lift_then goes_if goes_raise ev.goes_ret)
    fix a assume a: "find_approval s aid session msg = Inr a" "p_status a \<notin> {AApproved, ADenied}"
    let ?a = "(consumed a)\<lparr>p_status := st, p_session := session\<rparr>"
    have row: "tget aid (approvals s) = Some a" and p: "principal session = principal (p_session a)"
      using find_approval_row [OF a(1)] by auto
    have ans: "answers a ?a" using p by simp
    show "goes (evolves H) s (andThen (if undecided a then approval_current E a else ret False) (\<lambda>cur.
       andThen (refuse_if (\<not> cur) m2) (\<lambda>_.
       andThen (if yes then apply_approval E ?a else deny_approval E ?a) (\<lambda>_.
       andThen (put_approval E ?a) (\<lambda>_. andThen (audit E e d) (\<lambda>_. ret x))))))"
    proof (cases "undecided a")
      case True
      then have "approval_le a ?a" using ans a(2) undecided_cases by (intro answers_le) auto
      then show ?thesis
        unfolding cur [symmetric] using ans
        by (intro ev_current_then [OF E row] goes_guard_then effect) auto
    next
      case False
      then show ?thesis by (auto intro: goesI)
    qed
  qed
  show ?thesis
    unfolding remote_respond_approval_def Let_def
    by (intro ev.steps_andThen ev.steps_lift steps_goes) (rule chain)
qed


section \<open>The console's own contact\<close>

text \<open>A loop over current approval rows, each turn of which decides its own row at most.\<close>

lemma ev_approval_rows:
  assumes P: "\<And>a. a \<in> set (filter P (tall (approvals s))) \<Longrightarrow>
      (\<And>t. tget (p_id a) (approvals t) = Some a \<Longrightarrow> goes (evolves H) t (m a))"
    and other: "\<And>a t u k x. a \<in> set (filter P (tall (approvals s))) \<Longrightarrow> m a t = Inr (x, u) \<Longrightarrow>
      k \<noteq> p_id a \<Longrightarrow> tget k (approvals u) = tget k (approvals t)"
  shows "goes (evolves H) s (for_each (filter P (tall (approvals s))) m)"
proof (rule goes_sound)
  assume snd: "sound H s"
  show ?thesis
  proof (rule ev.goes_rows [where rid = p_id and g = approvals])
    show "distinct (map p_id (filter P (tall (approvals s))))"
      using snd by (simp add: sound_def keyed_distinct distinct_map_filter)
    show "tget (p_id x) (approvals s) = Some x" if "x \<in> set (filter P (tall (approvals s)))" for x
      using that sound_rows(2) [OF snd] by auto
  qed (use P other in auto)
qed

lemma ev_fulfil:
  assumes E: "sha E = H" and row: "tget (p_id a) (approvals t) = Some a"
    and a: "undecided a" "session_owned (p_session a) session"
  shows "goes (evolves H) t (fulfil_contact_approval E c session a)"
proof -
  have "approval_le a ((consumed a)\<lparr>p_status := AApproved, p_session := session\<rparr>)"
    using a undecided_cases [OF a(1)] by (intro answers_le) (auto simp: session_owned_def)
  then show ?thesis
    unfolding fulfil_contact_approval_def
    by (intro goes_if ev.goes_andThen ev_decided [OF E row] ev.hk_audit
        goes_steps [OF ev.hk_attention_approval] E)
qed

lemma fulfil_other:
  assumes "k \<noteq> p_id a" "fulfil_contact_approval E c session a s = Inr (x, t)"
  shows "tget k (approvals t) = tget k (approvals s)"
proof (cases "p_payload a = PContact c")
  case True
  let ?a = "(consumed a)\<lparr>p_status := AApproved, p_session := session\<rparr>"
  obtain y u where put: "put_approval E ?a s = Inr (y, u)" and au: "approvals t = approvals u"
    using assms(2) True by (auto simp: fulfil_contact_approval_def audit_def)
  have "k \<noteq> p_id ?a" using assms(1) by (simp add: consumed_def)
  from put_approval_other [OF this put] show ?thesis using au by simp
next
  case False
  then show ?thesis
    using assms(2) stepsD [OF tb_approvals.same.hk_attention_approval [OF refl]]
    by (auto simp: fulfil_contact_approval_def same_table_def)
qed

lemma ev_remote_add_contact:
  assumes E: "sha E = H" shows "steps (evolves H) (remote_add_contact E params session)"
proof -
  have view: "steps (evolves H) (contact_view_of E c x y)" for c x y
    unfolding contact_view_of_def by (intro ev.steps_reads ev.steps_ret)
  have fulfil: "goes (evolves H) s (for_each (filter (\<lambda>a. session_owned (p_session a) session
        \<and> payload_kind (p_payload a) = ''contact'' \<and> p_subject a = i \<and> undecided a)
        (tall (approvals s))) (fulfil_contact_approval E c session))" for s i c
    by (rule ev_approval_rows) (auto intro: ev_fulfil [OF E] fulfil_other)
  have tail: "goes (evolves H) s (reads (\<lambda>s.
     case tget (c_id c) (contacts s) of
       Some old \<Rightarrow>
         if old \<noteq> c
         then raise (ValueError ''Confirmed contact is immutable; use a new ID and confirm a new binding'')
         else let before = contact_status E s old in
           andThen (request_contact E old) (\<lambda>q.
           contact_view_of E old (if before = Connected then ''already_connected''
             else if before = ConnPending then ''already_requested'' else ''requested'') (map_option q_id q))
     | None \<Rightarrow>
         if own_contact_with s session (c_urn c) \<noteq> None
         then raise (ValueError ''This agent identity is already a confirmed contact; use the existing contact'')
         else andThen (put_contact c) (\<lambda>_.
           andThen (request_contact E c) (\<lambda>q. reads (\<lambda>s.
           andThen (for_each (filter (\<lambda>a. session_owned (p_session a) session
                \<and> payload_kind (p_payload a) = ''contact'' \<and> p_subject a = c_id c \<and> undecided a)
                (tall (approvals s))) (fulfil_contact_approval E c session)) (\<lambda>_.
           andThen (audit E ''remote_contact_added'' [(''contact_id'', JStr (c_id c)),
              (''owner_session'', JStr session)]) (\<lambda>_.
           contact_view_of E c (if q = None then ''confirmed'' else ''requested'') (map_option q_id q))))))))" for s c
    unfolding put_contact_def
    by (intro goes_reads goes_option goes_if goes_raise goes_let ev.goes_andThen
        goes_steps [OF ev_request_contact] view goes_modify ev_contact ev.steps_andThen ev_request_contact
        steps_goes [OF goes_reads] fulfil ev.hk_audit) simp
  show ?thesis
    unfolding remote_add_contact_def by (intro ev.steps_andThen ev.steps_lift steps_goes) (rule tail)
qed

end
