(* ===== verification/Evolution_Inbox.thy ===== *)
theory Evolution_Inbox
  imports Evolution_Decisions
begin

text \<open>Every operation follows the order \<open>evolves\<close>: incoming mail, review, the feed, proposals.\<close>

section \<open>Contact packets add no message\<close>

definition mail_keys :: "store \<Rightarrow> store \<Rightarrow> bool" where
  "mail_keys s t \<longleftrightarrow> (keyed w_id (inbox s) \<longrightarrow> keyed w_id (inbox t)
     \<and> (\<forall>k. tget k (inbox t) = None \<longleftrightarrow> tget k (inbox s) = None))"

lemma mail_keys_quiet: "quiet s t \<Longrightarrow> mail_keys s t"
  by (simp add: quiet_def mail_keys_def)

interpretation mk: protocol mail_keys H for H
proof
  show "steps mail_keys (attention_put E w sk si n)" for E w sk si n
    using attention_put_quiet by (auto simp: steps_def intro: mail_keys_quiet)
qed (auto simp: mail_keys_def)

lemma mk_free [simp]:
  "mail_keys s (s\<lparr>requests := a1\<rparr>)" "mail_keys s (s\<lparr>connections := a2\<rparr>)"
  "mail_keys s (s\<lparr>collaborations := a3\<rparr>)"
  by (simp_all add: mail_keys_def)

lemma mk_inbound:
  assumes m: "m \<in> set (tall (inbox s0))" and id: "w_id m' = w_id m"
  shows "keeps mail_keys s0 (put_inbound E m')"
proof (cases "keyed w_id (inbox s0)")
  case True
  have s0: "tget (w_id m') (inbox s0) = Some m" using True m id by (simp add: keyed_tall)
  show ?thesis
  proof (rule mk.hk_keep_inbound [OF refl])
    fix s assume "mail_keys s0 s"
    then have "tget (w_id m') (inbox s) \<noteq> None" using True s0 by (simp add: mail_keys_def)
    then show "mail_keys s (s\<lparr>inbox := tput (w_id m') m' (inbox s)\<rparr>)"
      by (auto simp: mail_keys_def keyed_put)
  qed
qed (simp add: keeps_def mail_keys_def)

lemma mk_put_collaboration: "steps mail_keys (put_collaboration E c)"
  by (rule steps_goes, rule mk.hk_goes_collaboration [OF refl]) (simp add: mail_keys_def)

lemma mk_ingest_v2: "steps mail_keys (ingest_v2_record E w)"
  unfolding ingest_v2_record_def
  by (intro mk.steps_andThen mk.steps_lift mk.pr_ingest_bound [OF refl] mk.pr_drain [OF refl]
      mk.pr_record_invitation mk_put_collaboration mk.steps_reads mk.steps_option mk.steps_raise
      mk.steps_ret mk.steps_if)

lemmas mk_keeps_rules = mk.keeps_if mk.keeps_option mk.keeps_lift_then mk.keeps_reads0 mk.keeps_let
  mk.keeps_prod mk.keeps_guard_then mk.keeps_when mk.keeps_savepoint

lemma mk_promote_one:
  assumes m: "m \<in> set (tall (inbox s0))" shows "keeps mail_keys s0 (promote_one E owner m)"
proof -
  have core: "yields (\<lambda>v. w_id v = w_id m) (if b then
      andThen (stage_peer_review E w rc owner) (\<lambda>r.
        ret (if rv_status r = RvApproved then release m
             else (release m)\<lparr>i_quarantined := True, i_reason := Some (review_reason (rv_status r))\<rparr>))
    else ret (release m))" for b rc and w :: "inbound"
    by (intro yields_if yields_andThen) (auto simp: release_def)
  show ?thesis
    unfolding promote_one_def Let_def
    by (intro mk_keeps_rules mk.keeps_andThen_yields [OF _ core] mk.keeps_steps [OF mk.steps_if]
        mk.steps_andThen mk.hk_stage mk.steps_ret mk.keeps_andThen mk_inbound [OF m]
        mk.keeps_steps [OF mk_ingest_v2] mk.keeps_steps [OF mk.steps_ret] refl) simp_all
qed

lemma mk_ingest_social: "steps mail_keys (ingest_social E w)"
proof -
  have promote: "steps mail_keys (promote_pending_messages E owner sender rid)" for owner sender rid
    unfolding promote_pending_messages_def
    by (intro mk.steps_reads_keeps mk.keeps_if mk.keeps_steps [OF mk.steps_ret] mk.keeps_for_each
        mk_promote_one) (auto simp: promotable_def)
  have request: "steps mail_keys (ingest_request E w rid)" for rid
    unfolding ingest_request_def Let_def put_request_def
    by (intro mk.steps_if mk.steps_raise mk.steps_reads mk.steps_option mk.steps_ret mk.steps_andThen
        mk.steps_modify mk_free mk.hk_friend_attention [OF refl])
  have response: "steps mail_keys (ingest_response E w rid d)" for rid d
    unfolding ingest_response_def Let_def put_request_def put_connection_def
    by (intro mk.steps_if mk.steps_raise mk.steps_reads mk.steps_option mk.steps_ret mk.steps_andThen
        mk.steps_when mk.steps_modify mk_free promote mk.h_attention [OF refl])
  show ?thesis
    unfolding ingest_social_def Let_def
    by (intro mk.steps_if mk.steps_ret mk.steps_andThen mk.steps_lift mk.steps_raise request response)
qed

section \<open>Ingestion\<close>

lemma stored_id [simp]: "w_id (stored E w reason req) = w_id w"
  by (simp add: stored_def)

lemma ev_new_inbound:
  assumes E: "sha E = H" and none: "tget (w_id m) (inbox s) = None"
  shows "goes (evolves H) s (put_inbound E m)"
  by (rule ev.hk_goes_inbound [OF E], rule ev_inbound) (simp add: none)

text \<open>A step that only runs hooks leaves the inbox as it is.\<close>

lemma ev_hook_then:
  assumes m: "steps (evolves H) m" "steps still m" and none: "tget k (inbox s) = None"
    and f: "\<And>x t. tget k (inbox t) = None \<Longrightarrow> goes (evolves H) t (f x)"
  shows "goes (evolves H) s (andThen m f)"
proof (rule ev.goes_seq [OF goes_steps [OF m(1)]])
  fix x t assume "m s = Inr (x, t)"
  with m(2) have "still s t" by (rule stepsD)
  then show "goes (evolves H) t (f x)" using none by (intro f) (simp add: still_def quiet_def)
qed

lemma ev_record_mail:
  assumes E: "sha E = H" and none: "tget (w_id w) (inbox s) = None"
  shows "goes (evolves H) s (case review of
        Some st \<Rightarrow>
          if st = RvApproved then
            andThen (put_inbound E (stored E w None None)) (\<lambda>_.
            andThen (ingest_v2_record E w) (\<lambda>ack. ret (IRecorded ack)))
          else andThen (put_inbound E (stored E w (Some (review_reason st)) None)) (\<lambda>_.
            ret (if st = RvPending then IPendingReview else IQuarantined))
      | None \<Rightarrow>
          andThen (put_inbound E (stored E w None None)) (\<lambda>_.
          if social \<noteq> None then ret (IRecorded None)
          else andThen (ingest_v2_record E w) (\<lambda>ack. ret (IRecorded ack))))"
  using none
  by (intro goes_option goes_if ev.goes_andThen ev_new_inbound [OF E] ev.steps_andThen ev_ingest_v2 [OF E]
      ev.steps_ret ev.steps_if) simp_all

lemma ev_ingest_connected:
  assumes E: "sha E = H" and none: "tget (w_id w) (inbox s) = None"
  shows "goes (evolves H) s (ingest_connected E w)"
proof (rule goes_sound)
  assume snd: "sound H s"
  show ?thesis
    unfolding ingest_connected_def
  proof (rule ev.goes_seq [OF goes_steps [OF ev_ingest_social [OF E]]])
    fix social t
    assume run: "ingest_social E w s = Inr (social, t)"
    have "mail_keys s t" using mk_ingest_social run by (rule stepsD)
    then have none': "tget (w_id w) (inbox t) = None"
      using snd none by (simp add: mail_keys_def sound_def)
    have gate: "steps (evolves H) (if b then lift v else ret False)" "steps still (if b then lift v else ret False)"
      for b and v :: "exn + bool"
      by (intro ev.steps_if ev.steps_lift ev.steps_ret st.steps_if st.steps_lift st.steps_ret)+
    have stage: "steps (evolves H) (if g then (case mail_owner u of
            Some owner \<Rightarrow> andThen (stage_peer_review E w None owner) (\<lambda>r. ret (Some (rv_status r)))
          | None \<Rightarrow> ret None) else ret None)"
      "steps still (if g then (case mail_owner u of
            Some owner \<Rightarrow> andThen (stage_peer_review E w None owner) (\<lambda>r. ret (Some (rv_status r)))
          | None \<Rightarrow> ret None) else ret None)" for g u
      by (intro ev.steps_if ev.steps_option ev.steps_andThen ev.hk_stage ev.steps_ret E
          st.steps_if st.steps_option st.steps_andThen st.hk_stage [OF refl] st.steps_ret)+
    show "goes (evolves H) t (reads (\<lambda>s.
       andThen (if social = None \<and> mail_owner s \<noteq> None then lift (needs_peer_review w) else ret False) (\<lambda>gate.
       andThen (if gate then
          (case mail_owner s of
             Some owner \<Rightarrow> andThen (stage_peer_review E w None owner) (\<lambda>r. ret (Some (rv_status r)))
           | None \<Rightarrow> ret None)
         else ret None) (\<lambda>review.
       (case review of
        Some st \<Rightarrow>
          if st = RvApproved then
            andThen (put_inbound E (stored E w None None)) (\<lambda>_.
            andThen (ingest_v2_record E w) (\<lambda>ack. ret (IRecorded ack)))
          else andThen (put_inbound E (stored E w (Some (review_reason st)) None)) (\<lambda>_.
            ret (if st = RvPending then IPendingReview else IQuarantined))
       | None \<Rightarrow>
          andThen (put_inbound E (stored E w None None)) (\<lambda>_.
          if social \<noteq> None then ret (IRecorded None)
          else andThen (ingest_v2_record E w) (\<lambda>ack. ret (IRecorded ack))))))))"
      by (rule goes_reads, rule ev_hook_then [OF gate none'], rule ev_hook_then [OF stage],
          assumption, rule ev_record_mail [OF E])
  qed
qed

lemma ev_ingest_wire:
  assumes E: "sha E = H" shows "steps (evolves H) (ingest_wire E w)"
proof -
  have incoming: "goes (evolves H) s (case x of SenderConnected \<Rightarrow> ingest_connected E w
        | SenderPending rid \<Rightarrow>
            andThen (put_inbound E (stored E w (Some ''pending_connection'') (Some rid))) (\<lambda>_. ret IQuarantined)
        | SenderUnknown \<Rightarrow>
            andThen (put_inbound E (stored E w (Some ''not_connected'') None)) (\<lambda>_. ret IQuarantined))"
    if "tget (w_id w) (inbox s) = None" for s x
    using that by (cases x)
      (auto intro!: ev_ingest_connected [OF E] ev.goes_andThen ev_new_inbound [OF E] ev.steps_ret)
  show ?thesis
    unfolding ingest_wire_def
    by (rule steps_goes, intro goes_reads goes_option goes_if goes_raise ev.goes_ret ev.goes_andThen
        ev_new_inbound [OF E] ev.steps_andThen ev_plain(6) ev.steps_ret incoming) simp_all
qed

lemma ev_ingest_message:
  assumes E: "sha E = H" shows "steps (evolves H) (ingest_message E m)"
  unfolding ingest_message_def by (intro ev.steps_andThen ev.steps_lift ev_ingest_wire ev.steps_ret E)

lemma ev_sync_ingest:
  assumes E: "sha E = H" shows "evolves H s (snd (sync_ingest E ms acks bad s))"
proof (induction ms arbitrary: acks bad s)
  case (Cons m ms)
  show ?case
  proof (cases "ingest_message E m s")
    case (Inl e)
    then show ?thesis using Cons.IH by (cases e) (auto simp: evolves_refl)
  next
    case (Inr r)
    obtain mid x t where r: "r = ((mid, x), t)" by (cases r) auto
    have "evolves H s t" using stepsD [OF ev_ingest_message [OF E]] Inr r by blast
    then show ?thesis using Cons.IH Inr r by (auto intro: evolves_trans)
  qed
qed (simp add: evolves_refl)

section \<open>Reading and review\<close>

lemma ev_inbox_messages:
  assumes E: "sha E = H" shows "steps (evolves H) (inbox_messages E session task)"
  unfolding inbox_messages_def
  by (intro ev.steps_andThen ev_ensure_reviews ev.steps_reads ev.steps_lift ev.steps_ret E)

lemma ev_inbox_view:
  assumes E: "sha E = H" shows "steps (evolves H) (inbox_view E session task)"
  unfolding inbox_view_def pending_peer_reviews_def
  by (intro ev.steps_andThen ev.steps_lift ev_inbox_messages ev_ensure_reviews ev.steps_reads ev.steps_ret E)

lemma ev_review_preview:
  assumes E: "sha E = H" shows "steps (evolves H) (review_preview E midj session)"
  unfolding review_preview_def
  by (intro ev.steps_andThen ev.steps_lift ev.steps_refuse_if ev_ensure_reviews ev.steps_reads
      ev.steps_modify ev_free ev.steps_ret E)

lemma ev_release_reviewed:
  assumes E: "sha E = H" shows "steps (evolves H) (release_reviewed E mid st)"
proof (rule steps_goes, rule goes_sound)
  fix s assume snd: "sound H s"
  have row: "tget (w_id m) (inbox s) = Some m" if "tget mid (inbox s) = Some m" for m
    using that sound_at(1) [OF snd that] by simp
  show "goes (evolves H) s (release_reviewed E mid st)"
    unfolding release_reviewed_def Let_def
    by (intro goes_reads goes_option ev.goes_ret goes_if ev.goes_andThen ev.goes_keeps kp_inbound [OF E]
        row ev.steps_andThen ev_ingest_v2 [OF E] ev.steps_ret) simp_all
qed

lemma drain_put_other:
  assumes "k \<noteq> v_id c" "andThen (v2_drain E c) (\<lambda>c'. andThen (put_collaboration E c') (\<lambda>_. ret ())) s = Inr (x, t)"
  shows "tget k (collaborations t) = tget k (collaborations s)"
proof -
  obtain c' y u where d: "v2_drain E c s = Inr (c', u)" and p: "put_collaboration E c' u = Inr (y, t)"
    using assms(2) by auto
  have "kept c c'" using yl_drain [OF kept_refl] d by (rule yieldsD)
  then have "k \<noteq> v_id c'" using assms(1) by (simp add: kept_simps)
  from put_collaboration_other [OF this p]
  show ?thesis using stepsD [OF qt.pr_drain [OF refl] d] by (simp add: quiet_def)
qed

lemma ev_drain_peer:
  assumes E: "sha E = H" shows "steps (evolves H) (drain_peer E session sender)"
  unfolding drain_peer_def
proof (rule steps_goes, rule goes_reads, rule goes_sound)
  fix s assume snd: "sound H s"
  let ?cs = "filter (\<lambda>c. owned (v_owner c) session \<and> v_peer c = sender) (tall (collaborations s))"
  show "goes (evolves H) s (for_each ?cs
       (\<lambda>c. andThen (v2_drain E c) (\<lambda>c'. andThen (put_collaboration E c') (\<lambda>_. ret ()))))"
  proof (rule ev.goes_rows [where rid = v_id and g = collaborations])
    show "distinct (map v_id ?cs)" using snd by (simp add: sound_def keyed_distinct distinct_map_filter)
    show "tget (v_id x) (collaborations s) = Some x" if "x \<in> set ?cs" for x
      using that sound_rows(5) [OF snd] by auto
  qed (auto intro!: ev_drain_store [OF E] ev.steps_ret simp del: run_andThen intro: drain_put_other)
qed

lemma review_record_row:
  assumes "review_record s mid session = Inr r" shows "r \<in> set (tall (reviews s))"
proof -
  have "filter (\<lambda>r. rv_id r = mid \<and> owned (rv_owner r) session) (tall (reviews s)) = [r]"
    using assms by (auto simp: review_record_def refuse_def split: list.splits)
  then have "r \<in> set (filter (\<lambda>r. rv_id r = mid \<and> owned (rv_owner r) session) (tall (reviews s)))" by simp
  then show ?thesis by simp
qed

lemma ev_review_message:
  assumes E: "sha E = H" shows "steps (evolves H) (review_message E midj dj session)"
proof -
  have row: "evolves H s (s\<lparr>reviews := tput (review_key_of E r) (decided_review E r st) (reviews s)\<rparr>)"
    if r: "review_record s mid session = Inr r" and st: "\<not> rv_status r \<noteq> RvPending" for s mid r st
  proof (rule evolves_vacuous)
    assume snd: "sound H s"
    have key: "review_key_of E r = review_key_of E (decided_review E r st)"
      by (simp add: review_key_of_def decided_review_def)
    have "tget (review_key_of E r) (reviews s) = Some r"
      using snd E review_record_row [OF r] keyed_tall [of "review_key_of E" "reviews s" r]
      unfolding sound_def reviews_keyed_def by blast
    then show ?thesis
      unfolding key using st
      by (intro ev_review [OF E]) (auto simp: key [symmetric] review_le_def review_core_def decided_review_def)
  qed
  show ?thesis
    unfolding review_message_def Let_def
    by (intro ev.steps_andThen ev.steps_lift steps_goes [OF goes_reads] goes_lift_then goes_if goes_raise
        ev.goes_ret goes_guard_then ev.goes_andThen goes_modify row ev_release_reviewed ev_drain_peer
        ev.hk_audit ev.steps_ret E)
qed

lemma ev_review_peer:
  assumes E: "sha E = H" shows "steps (evolves H) (review_peer E midj dj session)"
  unfolding review_peer_def
  by (intro ev.steps_andThen ev.steps_lift ev_ensure_reviews ev_review_message E)

section \<open>The feed\<close>

lemma ev_refresh_item:
  assumes E: "sha E = H" shows "steps (evolves H) (refresh_item E session i)"
  unfolding refresh_item_def
  by (intro ev.steps_if ev.steps_ret ev.steps_reads ev.steps_option ev.steps_andThen ev.steps_lift
      ev.h_attention E)

lemma ev_refresh_attention:
  assumes E: "sha E = H" shows "steps (evolves H) (refresh_attention E session)"
  unfolding refresh_attention_def attention_v1_def attention_v2_def
  by (intro ev.steps_andThen ev_ensure_reviews ev.steps_reads ev.steps_for_each ev_refresh_item
      ev.hook_steps ev_inbox_messages E)

lemma ev_attention_feed:
  assumes E: "sha E = H" shows "steps (evolves H) (attention_feed E session after limit)"
proof -
  have "steps (evolves H) (if b then andThen (refresh_attention E session) (\<lambda>_. reads (\<lambda>s. lift (f s)))
      else raise e)" for b and f :: "store \<Rightarrow> exn + attention_page" and e
    by (intro ev.steps_if ev.steps_andThen ev_refresh_attention ev.steps_reads ev.steps_lift ev.steps_raise E)
  then show ?thesis
    unfolding attention_feed_def
    by (intro ev.steps_andThen ev.steps_lift) (auto intro: ev.steps_raise split: json.split)
qed

section \<open>Peer proposals and upgrades\<close>

lemma ev_import_proposal: "steps (evolves H) (import_proposal E tid mid session)"
  unfolding import_proposal_def Let_def
  by (intro ev.steps_reads ev.steps_andThen ev.steps_lift ev.steps_refuse_if ev.steps_list ev.steps_raise
      ev.steps_if ev_plain ev.hk_audit ev.steps_ret)

lemma ev_retire_legacy:
  assumes E: "sha E = H" shows "steps (evolves H) (retire_legacy_approval E z)"
proof -
  have le: "approval_le a (retire a why)" if "undecided a \<or> p_status a = AApproved" for a why
    using that undecided_cases [of a] by (auto simp: retire_def approval_le_def approval_core_def)
  show ?thesis
    unfolding retire_legacy_approval_def
    by (rule steps_goes, intro goes_option ev.goes_ret goes_reads goes_if ev.goes_andThen ev_decided [OF E]
        ev.hk_attention_approval E) (auto intro!: le)
qed

lemma ev_invalidate_legacy:
  assumes E: "sha E = H" shows "steps (evolves H) (invalidate_legacy_accepts E)"
  unfolding invalidate_legacy_accepts_def
  by (intro ev.steps_reads_keeps ev.keeps_for_each ev.keeps_andThen kp_v2_operation_row [OF E]
      ev.keeps_steps [OF ev_retire_legacy [OF E]] ev.keeps_steps [OF ev.hk_audit])
    (auto simp: v2_operation_core_def v2_operation_ok_def)

end
