(* ===== verification/Evolution_Protocol.thy ===== *)
theory Evolution_Protocol
  imports Evolution_Inbox
begin

text \<open>Every operation follows the order \<open>evolves\<close>: the bilateral protocol and the worker.\<close>

section \<open>Preparing a protocol operation\<close>

lemma v2_row_put:
  "steps (same_table v2_operations) (request_approval E subject session payload question expires)"
  unfolding request_approval_def put_approval_def Let_def
  by (intro tb_v2_operations.same.steps_andThen tb_v2_operations.same.steps_refuse_if
      tb_v2_operations.same.steps_reads tb_v2_operations.same.steps_option tb_v2_operations.same.steps_ret
      tb_v2_operations.same.steps_when tb_v2_operations.same.steps_modify tb_v2_operations.same.hook_steps refl)
    (simp_all add: same_table_def)

lemma ev_v2_view:
  assumes E: "sha E = H" shows "steps (evolves H) (v2_operation_view E z)"
  unfolding v2_operation_view_def Let_def
  by (intro ev.steps_andThen ev.steps_if ev.steps_ret ev.hook_steps E ev.steps_reads ev.steps_option)

text \<open>What a prepared operation is, whatever the approval it waits for.\<close>

lemma prepared_fields [simp]:
  "z_id (prepared E t c k payload oid wire act v e) = oid"
  "z_permit (prepared E t c k payload oid wire act v e) = (if k \<in> {VInvite, VJoin}
     then Some \<lparr>pm_until = min (e + day) (now E + 7 * day), pm_max = max_maintenance, pm_used = 0,
       pm_revoked = False, pm_revoked_at = None\<rparr> else None)"
  "z_new (prepared E t c k payload oid wire act v e) = (if k \<in> {VInvite, VJoin} then Some c else None)"
  "z_collaboration (prepared E t c k payload oid wire act v e) = v_id c"
  by (simp_all add: prepared_def Let_def)

lemma prepared_ok: "v2_operation_ok (prepared E t c k payload oid wire act v e)"
  by (simp add: v2_operation_ok_def permit_ok_def max_maintenance_def)

lemma ev_new_v2_operation:
  assumes E: "sha E = H" and none: "tget (z_id z) (v2_operations s) = None" and ok: "v2_operation_ok z"
  shows "goes (evolves H) s (put_v2_operation E z)"
  by (rule ev.hk_goes_v2_operation [OF E], rule ev_v2_operation) (simp_all add: none ok)

lemma ev_prepare_bound:
  assumes E: "sha E = H" and none: "tget oid (v2_operations s) = None"
  shows "goes (evolves H) s (prepare_bound E t c k payload oid session)"
proof -
  have tail: "goes (evolves H) u (andThen (if b
             then andThen (request_approval E oid session p q x) (\<lambda>a. ret (z\<lparr>z_approval := Some (pa_id a)\<rparr>))
             else ret z) (\<lambda>z.
         andThen (put_v2_operation E z) (\<lambda>_. andThen (v2_operation_view E z) (\<lambda>w. ret (VView w)))))"
    if z: "z_id z = oid" "v2_operation_ok z" and none: "tget oid (v2_operations u) = None" for u b p q x z
  proof (rule ev.goes_seq)
    let ?ask = "if b then andThen (request_approval E oid session p q x)
      (\<lambda>a. ret (z\<lparr>z_approval := Some (pa_id a)\<rparr>)) else ret z"
    show "goes (evolves H) u ?ask"
      by (intro goes_steps ev.steps_if ev.steps_andThen ev_request_approval ev.steps_ret E)
    have same: "steps (same_table v2_operations) ?ask"
      by (intro tb_v2_operations.same.steps_if tb_v2_operations.same.steps_andThen v2_row_put
          tb_v2_operations.same.steps_ret)
    fix z' t
    assume run: "?ask u = Inr (z', t)"
    with same have "same_table v2_operations u t" by (rule stepsD)
    then have none': "tget oid (v2_operations t) = None" using none by (simp add: same_table_def)
    have "yields (\<lambda>y. \<exists>a. y = z\<lparr>z_approval := a\<rparr>) ?ask"
      by (intro yields_if yields_andThen) (auto intro: exI [of _ "z_approval z"])
    from yieldsD [OF this run] obtain a where "z' = z\<lparr>z_approval := a\<rparr>" by blast
    then show "goes (evolves H) t (andThen (put_v2_operation E z') (\<lambda>_.
        andThen (v2_operation_view E z') (\<lambda>w. ret (VView w))))"
      using z none' by (intro ev.goes_andThen ev_new_v2_operation [OF E] ev.steps_andThen ev_v2_view [OF E]
          ev.steps_ret) simp_all
  qed
  show ?thesis
    unfolding prepare_bound_def Let_def
    by (intro goes_reads goes_lift_then goes_prod goes_sum ev.goes_ret tail none prepared_ok prepared_fields)
qed

lemma ev_prepare_collaboration:
  assumes E: "sha E = H" shows "steps (evolves H) (prepare_collaboration E tid cidj oidj kind payload session)"
proof -
  have bound: "steps (evolves H) (bound_collaboration E tid cid k session)"
    "steps still (bound_collaboration E tid cid k session)" for cid k
    unfolding bound_collaboration_def
    by (intro ev.steps_reads ev.steps_andThen ev.steps_lift ev.steps_if ev.steps_raise ev.hk_review_safe
        ev.steps_ret E st.steps_reads st.steps_andThen st.steps_lift st.steps_if st.steps_raise
        st.hk_review_safe [OF refl] st.steps_ret)+
  have opened: "goes (evolves H) s (andThen (if k \<in> {VInvite, VJoin} then lift v
        else bound_collaboration E tid cid k session) (\<lambda>r. case r of
          Inl reason \<Rightarrow> ret (VDenied reason) | Inr c \<Rightarrow> prepare_bound E t c k kvs oid session))"
    if none: "tget oid (v2_operations s) = None" for s k v cid t kvs oid
  proof (rule ev.goes_seq)
    let ?m = "if k \<in> {VInvite, VJoin} then lift v else bound_collaboration E tid cid k session"
    show "goes (evolves H) s ?m" by (intro goes_steps ev.steps_if ev.steps_lift bound)
    have still: "steps still ?m" by (intro st.steps_if st.steps_lift bound)
    fix r u assume "?m s = Inr (r, u)"
    with still have "still s u" by (rule stepsD)
    then have "tget oid (v2_operations u) = None" using none by (simp add: still_def)
    then show "goes (evolves H) u (case r of Inl reason \<Rightarrow> ret (VDenied reason)
        | Inr c \<Rightarrow> prepare_bound E t c k kvs oid session)"
      by (intro goes_sum ev.goes_ret ev_prepare_bound E)
  qed
  have typed: "steps (evolves H) (andThen (lift b) (\<lambda>_. reads (\<lambda>s.
         case tget oid (v2_operations s) of
           Some old \<Rightarrow>
             if c1 old then raise e1
             else andThen (v2_operation_view E old) (\<lambda>w. ret (VView w))
         | None \<Rightarrow>
             if tget oid (operations s) \<noteq> None then raise e2
             else andThen (lift (find_task s tid session)) (\<lambda>t.
               andThen (if k \<in> {VInvite, VJoin} then lift (open_collaboration E s t cid k kvs session)
                        else bound_collaboration E tid cid k session) (\<lambda>r. case r of
                 Inl reason \<Rightarrow> ret (VDenied reason)
               | Inr c \<Rightarrow> prepare_bound E t c k kvs oid session)))))"
    for b :: "exn + unit" and oid c1 e1 e2 k cid kvs
    by (intro ev.steps_andThen ev.steps_lift, rule steps_goes)
      (intro goes_reads goes_option goes_if goes_raise goes_lift_then opened
        goes_steps [OF ev.steps_andThen [OF ev_v2_view [OF E] ev.steps_ret]])
  show ?thesis
    unfolding prepare_collaboration_def
    by (intro ev.steps_andThen ev.steps_lift)
      (auto intro!: typed ev.steps_raise split: option.split json.split)
qed

section \<open>Reserving and sending\<close>

lemma ev_save_event: "steps (evolves H) (save_event E c p st reason out)"
  by (rule ev.pr_save_event)

lemma save_event_quiet: "steps quiet (save_event E c p st reason out)"
  by (rule qt.pr_save_event)

lemma adopt_quiet: "steps quiet (adopt E z known)"
  unfolding adopt_def Let_def by (intro qt.steps_option qt.steps_ret qt.steps_andThen save_event_quiet)

lemma ev_adopt: "steps (evolves H) (adopt E z known)"
  unfolding adopt_def Let_def by (intro ev.steps_option ev.steps_ret ev.steps_andThen ev_save_event)

text \<open>The record a reservation writes may be stored: it is the stored row, or there is none.\<close>

definition storable :: "store \<Rightarrow> collaboration \<Rightarrow> bool" where
  "storable s c \<longleftrightarrow> permit_ok (v_permit c)
     \<and> (\<forall>b. tget (v_id c) (collaborations s) = Some b \<longrightarrow> collaboration_le b c)"

lemma storable_put:
  assumes E: "sha E = H" and c: "sound H s \<Longrightarrow> storable s c"
  shows "goes (evolves H) s (put_collaboration E c)"
  using c by (intro ev_goes_collaboration [OF E]) (auto simp: storable_def)

lemma storable_out: "storable s c \<Longrightarrow> storable s (c\<lparr>v_out := n, v_last_out := x\<rparr>)"
proof -
  have "collaboration_le b (c\<lparr>v_out := n, v_last_out := x\<rparr>) = collaboration_le b c" for b
    by (simp add: collaboration_le_def collaboration_core_def)
  then show "storable s c \<Longrightarrow> storable s (c\<lparr>v_out := n, v_last_out := x\<rparr>)" by (simp add: storable_def)
qed

lemma storable_charge:
  assumes c: "storable s c" and p: "v_permit c = Some p" "permit_live E (v_permit c)"
  shows "storable s (c\<lparr>v_permit := Some (p\<lparr>pm_used := pm_used p + 1\<rparr>)\<rparr>)"
proof -
  have le: "permit_le p (p\<lparr>pm_used := pm_used p + 1\<rparr>)" by (simp add: permit_le_def)
  have "collaboration_le b (c\<lparr>v_permit := Some (p\<lparr>pm_used := pm_used p + 1\<rparr>)\<rparr>)" if b: "collaboration_le b c" for b
  proof -
    obtain q where "v_permit b = Some q" "permit_le q p"
      using b p(1) by (auto simp: collaboration_le_def option_rel_Some2)
    then have "rel_option permit_le (v_permit b) (Some (p\<lparr>pm_used := pm_used p + 1\<rparr>))"
      using permit_le_trans [OF _ le] by simp
    then show ?thesis using b by (simp add: collaboration_le_def collaboration_core_def)
  qed
  moreover have "permit_ok (Some (p\<lparr>pm_used := pm_used p + 1\<rparr>))"
    using c p by (simp add: storable_def permit_ok_def permit_live_def)
  ultimately show ?thesis using c by (simp add: storable_def)
qed

lemma storable_same: "storable s c \<Longrightarrow> collaborations t = collaborations s \<Longrightarrow> storable t c"
  by (simp add: storable_def)


text \<open>Writing an operation back, in a state that evolved from the one it was read in.\<close>

lemma later_v2:
  assumes E: "sha E = H" and snd: "sound H s0" and t: "evolves H s0 t"
    and z0: "tget (z_id z0) (v2_operations s0) = Some z0"
    and z: "v2_operation_core z = v2_operation_core z0" "v2_operation_ok z0 \<Longrightarrow> v2_operation_ok z"
  shows "goes (evolves H) t (put_v2_operation E z)"
proof (rule ev.hk_goes_v2_operation [OF E])
  have "v2_operation_ok z" using sound_at(3) [OF snd z0] z(2) by simp
  then show "evolves H t (t\<lparr>v2_operations := tput (z_id z) z (v2_operations t)\<rparr>)"
    using evolves_row(3) [OF t snd z0] z(1) core_ids(3) [OF z(1)] by (intro ev_v2_operation) auto
qed

text \<open>Running a step that leaves the collaborations alone, with the start state remembered.\<close>

lemma ev_quiet_then:
  assumes m: "goes (evolves H) s m" "goes (same_table collaborations) s m" and s: "evolves H s0 s"
    and f: "\<And>x t. m s = Inr (x, t) \<Longrightarrow> evolves H s0 t \<Longrightarrow> collaborations t = collaborations s \<Longrightarrow>
      goes (evolves H) t (f x)"
  shows "goes (evolves H) s (andThen m f)"
proof (rule ev.goes_seq [OF m(1)])
  fix x t assume run: "m s = Inr (x, t)" and t: "evolves H s t"
  have "collaborations t = collaborations s" using m(2) run by (simp add: goes_def same_table_def)
  then show "goes (evolves H) t (f x)" using run evolves_trans [OF s t] by (intro f)
qed

lemma quiet_collaborations: "steps quiet m \<Longrightarrow> goes (same_table collaborations) s m"
  by (auto simp: goes_def same_table_def quiet_def steps_def)

lemma ev_reserve_packet:
  assumes E: "sha E = H" and snd: "sound H s0" and c: "storable s c" and s: "evolves H s0 s"
    and z0: "tget (z_id z0) (v2_operations s0) = Some z0"
    and z: "v2_operation_core z = v2_operation_core z0" "z_permit z = z_permit z0" "v_id c = z_collaboration z0"
  shows "goes (evolves H) s (reserve_packet E z c)"
proof -
  have put_z: "goes (evolves H) t (put_v2_operation E (z\<lparr>z_status := OSending, z_packet := p, z_reserved := r,
        z_delivery := d, z_new := (if z_new z = None then None else Some c2)\<rparr>))"
    if "evolves H s0 t" "v_id c2 = z_collaboration z0" for t p r d c2
    using that z by (intro later_v2 [OF E snd _ z0]) (auto simp: v2_operation_core_def v2_operation_ok_def)
  have put_c: "goes (evolves H) t (andThen (put_collaboration E c1) (\<lambda>c2. put_v2_operation E
        (z\<lparr>z_status := OSending, z_packet := p, z_reserved := r, z_delivery := d,
           z_new := (if z_new z = None then None else Some c2)\<rparr>)))"
    if t: "evolves H s0 t" and c1: "storable t c1" "v_id c1 = z_collaboration z0" for t c1 p r d
  proof (rule ev.goes_seq [OF storable_put [OF E c1(1)]])
    fix c2 u assume run: "put_collaboration E c1 t = Inr (c2, u)" and u: "evolves H t u"
    have "yields (\<lambda>c. v_id c = v_id c1) (put_collaboration E c1)"
      unfolding put_collaboration_def Let_def by (intro yields_andThen) simp
    with run have "v_id c2 = v_id c1" by (blast dest: yieldsD)
    then show "goes (evolves H) u (put_v2_operation E (z\<lparr>z_status := OSending, z_packet := p, z_reserved := r,
        z_delivery := d, z_new := (if z_new z = None then None else Some c2)\<rparr>))"
      using c1(2) evolves_trans [OF t u] by (intro put_z) simp_all
  qed
  have event: "goes (evolves H) s (andThen (save_event E c1 p EReserved why out) (\<lambda>_.
      andThen (put_collaboration E c1) (\<lambda>c2. put_v2_operation E
        (z\<lparr>z_status := OSending, z_packet := q, z_reserved := r, z_delivery := d,
           z_new := (if z_new z = None then None else Some c2)\<rparr>))))"
    if c1: "storable s c1" "v_id c1 = z_collaboration z0" for c1 p why out q r d
    using c1 s by (intro ev_quiet_then [OF goes_steps [OF ev_save_event] quiet_collaborations [OF save_event_quiet]]
        put_c storable_same [OF c1(1)])
  have c': "storable s (if b then c else c\<lparr>v_out := n, v_last_out := x\<rparr>)"
    "v_id (if b then c else c\<lparr>v_out := n, v_last_out := x\<rparr>) = z_collaboration z0" for b n x
    using storable_out [OF c] c z(3) by simp_all
  show ?thesis
    unfolding reserve_packet_def Let_def by (intro goes_lift_then event c')
qed


lemma put_task_collaborations: "goes (same_table collaborations) s (put_task E t)"
  by (rule tb_collaborations.same.hk_goes_task [OF refl]) (simp add: same_table_def)

lemma ev_spend:
  assumes E: "sha E = H" and t: "tget (t_id t) (tasks s) = Some t" and left: "\<not> sc_max_actions (t_scope t) \<le> t_used t"
  shows "goes (evolves H) s (put_task E (t\<lparr>t_used := t_used t + 1\<rparr>))"
proof (rule ev_goes_task [OF E])
  assume snd: "sound H s"
  show "task_ok (t\<lparr>t_used := t_used t + 1\<rparr>)"
    using sound_at(5) [OF snd t] left by (simp add: task_ok_def)
  show "task_le u (t\<lparr>t_used := t_used t + 1\<rparr>)"
    if "tget (t_id (t\<lparr>t_used := t_used t + 1\<rparr>)) (tasks s) = Some u" for u
    using that t by (auto simp: task_le_def)
qed

text \<open>What \<^verbatim>\<open>_charge\<close> returns: the permit or the one-event recovery is the only thing that changed.\<close>

definition charged :: "env \<Rightarrow> collaboration \<Rightarrow> v2_operation \<Rightarrow> collaboration \<Rightarrow> v2_operation \<Rightarrow> bool" where
  "charged E c z c' z' \<longleftrightarrow> (c' = c \<or> (\<exists>p. v_permit c = Some p \<and> permit_live E (v_permit c)
       \<and> c' = c\<lparr>v_permit := Some (p\<lparr>pm_used := pm_used p + 1\<rparr>)\<rparr>))
     \<and> (z' = z \<or> z' = z\<lparr>z_recovery_used := True\<rparr>)"

lemma charge_yields: "yields (\<lambda>r. \<forall>c' z'. r = Inr (c', z') \<longrightarrow> charged E c z c' z') (charge E t z c)"
  unfolding charge_def Let_def
  by (intro yields_if yields_reads yields_andThen) (auto simp: charged_def split: option.splits if_splits)

lemma charged_storable: "storable s c \<Longrightarrow> charged E c z c' z' \<Longrightarrow> storable s c' \<and> v_id c' = v_id c"
  unfolding charged_def using storable_charge by fastforce

lemma charged_operation: "charged E c z c' z' \<Longrightarrow> v2_operation_core z' = v2_operation_core z \<and> z_permit z' = z_permit z"
  by (auto simp: charged_def v2_operation_core_def)

lemma ev_charge:
  assumes E: "sha E = H" and t: "tget (t_id t) (tasks s) = Some t"
  shows "goes (evolves H) s (charge E t z c)"
  unfolding charge_def Let_def
  by (intro goes_if ev.goes_ret goes_reads ev.goes_andThen ev_spend [OF E t] ev.steps_ret)

lemma charge_collaborations: "goes (same_table collaborations) s (charge E t z c)"
  unfolding charge_def Let_def
  by (intro goes_if tb_collaborations.same.goes_ret goes_reads tb_collaborations.same.goes_andThen
      put_task_collaborations tb_collaborations.same.steps_ret)

lemma ev_charge_then:
  assumes E: "sha E = H" and snd: "sound H s0" and s: "evolves H s0 s" and c: "storable s c"
    and t: "tget (t_id t) (tasks s) = Some t"
    and z: "tget (z_id z) (v2_operations s0) = Some z" "v_id c = z_collaboration z"
  shows "goes (evolves H) s (andThen (charge E t z c) (\<lambda>r. case r of Inl reason \<Rightarrow> ret (RDenied reason)
         | Inr (c', z') \<Rightarrow> andThen (reserve_packet E z' c') (\<lambda>_. ret RGo)))"
proof (rule ev_quiet_then [OF ev_charge [OF E t] charge_collaborations s])
  fix r u assume run: "charge E t z c s = Inr (r, u)" and u: "evolves H s0 u" and cs: "collaborations u = collaborations s"
  have ch: "\<forall>c' z'. r = Inr (c', z') \<longrightarrow> charged E c z c' z'" using charge_yields run by (rule yieldsD)
  have "goes (evolves H) u (reserve_packet E z' c')" if "r = Inr (c', z')" for c' z'
    using ch that charged_storable [OF c, of E z c' z'] charged_operation [of E c z c' z'] z(2)
    by (intro ev_reserve_packet [OF E snd _ u z(1)] storable_same [OF _ cs]) auto
  then show "goes (evolves H) u (case r of Inl reason \<Rightarrow> ret (RDenied reason)
         | Inr (c', z') \<Rightarrow> andThen (reserve_packet E z' c') (\<lambda>_. ret RGo))"
    by (intro goes_sum goes_prod ev.goes_ret ev.goes_andThen ev.steps_ret) auto
qed

text \<open>The record that \<^verbatim>\<open>_adopt\<close> starts from may be stored, when the operation is current.\<close>

definition adoptable :: "store \<Rightarrow> v2_operation \<Rightarrow> bool" where
  "adoptable s z \<longleftrightarrow> (z_new z \<noteq> None \<longrightarrow> tget (z_collaboration z) (collaborations s) = None)"

lemma adopt_storable:
  assumes snd: "sound H s" and z: "v2_operation_ok z" and ad: "adoptable s z"
    and run: "adopt E z (tget (z_collaboration z) (collaborations s)) s = Inr (Some c, t)"
  shows "storable s c \<and> v_id c = z_collaboration z"
proof (cases "z_new z")
  case None
  then have "tget (z_collaboration z) (collaborations s) = Some c" using run by (simp add: adopt_def)
  then show ?thesis
    using sound_collaboration [OF snd] by (auto simp: storable_def collaboration_row.row_refl)
next
  case (Some d)
  have "v_id c = v_id d" "v_permit c = z_permit z"
    using run Some by (auto simp: adopt_def Let_def split: option.splits)
  then show ?thesis
    using Some z ad by (simp add: storable_def v2_operation_ok_def adoptable_def)
qed

lemma ev_reserve_ready_v2:
  assumes E: "sha E = H" and snd: "sound H s0" and s: "evolves H s0 s"
    and z: "tget (z_id z) (v2_operations s0) = Some z" and ad: "adoptable s z"
  shows "goes (evolves H) s (reserve_v2_ready E z session)"
proof -
  have snd': "sound H s" using s snd by (rule evolves_sound)
  have zok: "v2_operation_ok z" using sound_at(3) [OF snd z] by simp
  have "goes (evolves H) s (andThen (adopt E z (tget (z_collaboration z) (collaborations s))) (\<lambda>co. case co of
       None \<Rightarrow> raise (TypeError ''collaboration'')
     | Some c \<Rightarrow> andThen (charge E t z c) (\<lambda>r. case r of
           Inl reason \<Rightarrow> ret (RDenied reason)
         | Inr (c', z') \<Rightarrow> andThen (reserve_packet E z' c') (\<lambda>_. ret RGo))))"
    if t: "find_task s (z_task z) session = Inr t" for t
  proof (rule ev_quiet_then [OF goes_steps [OF ev_adopt] quiet_collaborations [OF adopt_quiet] s])
    fix co u
    assume run: "adopt E z (tget (z_collaboration z) (collaborations s)) s = Inr (co, u)"
      and u: "evolves H s0 u" "collaborations u = collaborations s"
    have "tasks u = tasks s" using stepsD [OF adopt_quiet run] by (simp add: quiet_def)
    then have t': "tget (t_id t) (tasks u) = Some t"
      using find_task_row [OF t] sound_at(5) [OF snd' find_task_row [OF t]] by simp
    show "goes (evolves H) u (case co of
       None \<Rightarrow> raise (TypeError ''collaboration'')
     | Some c \<Rightarrow> andThen (charge E t z c) (\<lambda>r. case r of
           Inl reason \<Rightarrow> ret (RDenied reason)
         | Inr (c', z') \<Rightarrow> andThen (reserve_packet E z' c') (\<lambda>_. ret RGo)))"
    proof (intro goes_option goes_raise)
      fix c assume "co = Some c"
      then have "storable s c \<and> v_id c = z_collaboration z"
        using adopt_storable [OF snd' zok ad] run by blast
      then show "goes (evolves H) u (andThen (charge E t z c) (\<lambda>r. case r of
           Inl reason \<Rightarrow> ret (RDenied reason)
         | Inr (c', z') \<Rightarrow> andThen (reserve_packet E z' c') (\<lambda>_. ret RGo)))"
        using storable_same u by (intro ev_charge_then [OF E snd u(1) _ t' z]) auto
    qed
  qed
  then show ?thesis
    unfolding reserve_v2_ready_def by (intro goes_reads goes_lift_then)
qed

lemma ev_worker_gate:
  "steps (evolves H) (worker_gate E xo z)" "steps (same_table collaborations) (worker_gate E xo z)"
proof -
  have row: "tget (rc_task x) (workers s) = Some r" if "check_worker_context E s x = Inr (r, run)" for s x r run
    using that by (auto simp: check_worker_context_def refuse_def bindE_def split: option.splits if_splits sum.splits)
  have send: "goes (evolves H) s (put_worker (r\<lparr>wp_sends := wp_sends r + 1\<rparr>))"
    if "check_worker_context E s x = Inr (r, run)" "\<not> wl_sends (wp_policy r) \<le> wp_sends r" for s x r run
    using ev_write_worker [OF row [OF that(1)]] that(2) by (simp add: worker_ok_def)
  have "steps (evolves H) (reserve_worker_send E x oid)" for x oid
    unfolding reserve_worker_send_def
    by (rule steps_goes, intro goes_reads goes_lift_then goes_prod goes_option goes_if goes_raise ev.goes_ret
        ev.goes_andThen send ev_plain) auto
  then show "steps (evolves H) (worker_gate E xo z)"
    unfolding worker_gate_def
    by (intro ev.steps_option ev.steps_ret ev.steps_reads ev.steps_andThen ev.steps_lift ev.steps_prod
        ev.steps_if ev.steps_raise)
  have "steps (same_table collaborations) (reserve_worker_send E x oid)" for x oid
    unfolding reserve_worker_send_def put_run_def
    by (intro tb_collaborations.same.steps_reads tb_collaborations.same.steps_andThen
        tb_collaborations.same.steps_lift tb_collaborations.same.steps_prod tb_collaborations.same.steps_option
        tb_collaborations.same.steps_if tb_collaborations.same.steps_raise tb_collaborations.same.steps_ret
        put_worker_collaborations tb_collaborations.same.steps_modify) (simp add: same_table_def)
  then show "steps (same_table collaborations) (worker_gate E xo z)"
    unfolding worker_gate_def
    by (intro tb_collaborations.same.steps_option tb_collaborations.same.steps_ret
        tb_collaborations.same.steps_reads tb_collaborations.same.steps_andThen
        tb_collaborations.same.steps_lift tb_collaborations.same.steps_prod
        tb_collaborations.same.steps_if tb_collaborations.same.steps_raise)
qed

lemma current_adoptable:
  assumes "v2_operation_current E z s = Inr (True, t)" "z_status z = OReady"
  shows "adoptable t z"
proof -
  have "still s t" using stepsD [OF st.hk_v2_current [OF refl] assms(1)] .
  moreover have "z_new z \<noteq> None \<longrightarrow> tget (z_collaboration z) (collaborations s) = None"
    using assms unfolding v2_operation_current_def Let_def
    by (auto split: option.splits if_splits)
  ultimately show ?thesis by (simp add: adoptable_def still_def quiet_def)
qed


lemma ev_v2_reserve:
  assumes E: "sha E = H" shows "steps (evolves H) (v2_reserve E oid session xo)"
proof -
  have ready: "goes (evolves H) t (if z_status z = OReady then reserve_v2_ready E z session else ret RGo)"
    if "sound H s0" "evolves H s0 t" "tget (z_id z) (v2_operations s0) = Some z"
      "z_status z = OReady \<longrightarrow> adoptable t z" for s0 t z
    using that by (intro goes_if ev_reserve_ready_v2 [OF E] ev.goes_ret) auto
  have gate: "goes (evolves H) t (andThen (collaboration_review_safe E peer session) (\<lambda>safe.
                 if \<not> safe then ret (RDenied ''peer_review_required'')
                 else andThen (worker_gate E xo z) (\<lambda>_.
                   if z_status z = OReady then reserve_v2_ready E z session else ret RGo)))"
    if snd: "sound H s0" and t: "evolves H s0 t" and z: "tget (z_id z) (v2_operations s0) = Some z"
      and ad: "z_status z = OReady \<longrightarrow> adoptable t z" for s0 t z peer
  proof (rule ev_quiet_then [OF goes_steps [OF ev.hk_review_safe [OF E]] _ t])
    show "goes (same_table collaborations) t (collaboration_review_safe E peer session)"
      by (rule goes_steps) (rule tb_collaborations.same.hk_review_safe [OF refl])
    fix safe u assume u: "evolves H s0 u" "collaborations u = collaborations t"
    have ad': "z_status z = OReady \<longrightarrow> adoptable u z" using ad u(2) by (simp add: adoptable_def)
    have "goes (evolves H) u (andThen (worker_gate E xo z) (\<lambda>_.
                   if z_status z = OReady then reserve_v2_ready E z session else ret RGo))"
    proof (rule ev_quiet_then [OF goes_steps [OF ev_worker_gate(1)] goes_steps [OF ev_worker_gate(2)] u(1)])
      fix v assume v: "evolves H s0 v" "collaborations v = collaborations u"
      then have "z_status z = OReady \<longrightarrow> adoptable v z" using ad' by (simp add: adoptable_def)
      then show "goes (evolves H) v (if z_status z = OReady then reserve_v2_ready E z session else ret RGo)"
        by (rule ready [OF snd v(1) z])
    qed
    then show "goes (evolves H) u (if \<not> safe then ret (RDenied ''peer_review_required'')
                 else andThen (worker_gate E xo z) (\<lambda>_.
                   if z_status z = OReady then reserve_v2_ready E z session else ret RGo))"
      by (intro goes_if ev.goes_ret)
  qed
  have current: "goes (evolves H) s (andThen (if z_status z \<in> {OReady, OSending} then v2_operation_current E z else ret False) (\<lambda>cur.
           if \<not> cur then ret (RDenied ''not_authorized_or_superseded'')
           else reads (\<lambda>s. case known_collaboration s z of
             None \<Rightarrow> ret (RDenied ''contact_not_connected'')
           | Some peer \<Rightarrow>
               if \<not> can_send_to E s (v_peer peer) session then ret (RDenied ''contact_not_connected'')
               else andThen (collaboration_review_safe E peer session) (\<lambda>safe.
                 if \<not> safe then ret (RDenied ''peer_review_required'')
                 else andThen (worker_gate E xo z) (\<lambda>_.
                   if z_status z = OReady then reserve_v2_ready E z session else ret RGo)))))"
    if row: "tget oid (v2_operations s) = Some z" for s z
  proof (rule goes_sound)
    assume snd: "sound H s"
    have z: "tget (z_id z) (v2_operations s) = Some z" using row sound_at(3) [OF snd row] by simp
    let ?m = "if z_status z \<in> {OReady, OSending} then v2_operation_current E z else ret False"
    show "goes (evolves H) s (andThen ?m (\<lambda>cur.
           if \<not> cur then ret (RDenied ''not_authorized_or_superseded'')
           else reads (\<lambda>s. case known_collaboration s z of
             None \<Rightarrow> ret (RDenied ''contact_not_connected'')
           | Some peer \<Rightarrow>
               if \<not> can_send_to E s (v_peer peer) session then ret (RDenied ''contact_not_connected'')
               else andThen (collaboration_review_safe E peer session) (\<lambda>safe.
                 if \<not> safe then ret (RDenied ''peer_review_required'')
                 else andThen (worker_gate E xo z) (\<lambda>_.
                   if z_status z = OReady then reserve_v2_ready E z session else ret RGo)))))"
    proof (rule ev.goes_seq)
      show "goes (evolves H) s ?m" by (intro goes_steps ev.steps_if ev.hk_v2_current ev.steps_ret E)
      fix cur t assume run: "?m s = Inr (cur, t)" and t: "evolves H s t"
      have "cur \<Longrightarrow> z_status z = OReady \<longrightarrow> adoptable t z"
        using run current_adoptable by (auto split: if_splits)
      then show "goes (evolves H) t (if \<not> cur then ret (RDenied ''not_authorized_or_superseded'')
           else reads (\<lambda>s. case known_collaboration s z of
             None \<Rightarrow> ret (RDenied ''contact_not_connected'')
           | Some peer \<Rightarrow>
               if \<not> can_send_to E s (v_peer peer) session then ret (RDenied ''contact_not_connected'')
               else andThen (collaboration_review_safe E peer session) (\<lambda>safe.
                 if \<not> safe then ret (RDenied ''peer_review_required'')
                 else andThen (worker_gate E xo z) (\<lambda>_.
                   if z_status z = OReady then reserve_v2_ready E z session else ret RGo))))"
        using gate [OF snd t z] by (intro goes_if ev.goes_ret goes_reads goes_option) simp_all
    qed
  qed
  have view: "goes (evolves H) s (andThen (v2_operation_view E z) (\<lambda>w. ret (RView w)))" for s z
    by (intro goes_steps ev.steps_andThen ev_v2_view [OF E] ev.steps_ret)
  show ?thesis
    unfolding v2_reserve_def
    by (intro ev.steps_andThen ev.steps_lift, rule steps_goes)
      (intro goes_reads goes_lift_then goes_option goes_if goes_raise view current)
qed

section \<open>Submission\<close>

lemma ev_apply_reserved:
  assumes E: "sha E = H" and row: "tget k (collaborations s0) = Some c" and snd: "sound H s0"
    and s: "evolves H s0 s" "collaborations s = collaborations s0"
  shows "goes (evolves H) s (apply_reserved E c p)"
proof -
  have put: "goes (evolves H) t (andThen (put_event ek ee) (\<lambda>_. andThen (put_collaboration E c') (\<lambda>_. ret ())))"
    if t: "evolves H s0 t" "collaborations t = collaborations s0" and k: "kept c c'" for t c' ek ee
  proof (rule ev.goes_seq)
    show "goes (evolves H) t (put_event ek ee)" by (rule goes_steps) (rule ev.pr_put_event)
    fix x u assume run: "put_event ek ee t = Inr (x, u)" and u: "evolves H t u"
    have "collaborations u = collaborations s0" using run t(2) by (auto simp: put_event_def)
    then show "goes (evolves H) u (andThen (put_collaboration E c') (\<lambda>_. ret ()))"
      using evolves_trans [OF t(1) u] k by (intro ev.goes_andThen ev_reduced [OF E row _ _ _ snd] ev.steps_ret)
  qed
  show ?thesis
    unfolding apply_reserved_def
    by (intro goes_reads goes_option goes_raise goes_if ev.goes_ret
        ev_reduce_then [OF E row snd s ev.pr_apply [OF E] qt.pr_apply [OF refl] yl_apply] put)
qed

lemma ev_submit:
  assumes E: "sha E = H" and snd: "sound H s0" and t: "evolves H s0 t"
    and z: "tget (z_id z) (v2_operations s0) = Some z"
  shows "goes (evolves H) t (submit E send z p d)"
  unfolding submit_def Let_def
  by (intro ev.goes_andThen later_v2 [OF E snd t z] ev.steps_andThen ev_v2_view [OF E] ev.steps_ret)
    (simp_all add: v2_operation_core_def v2_operation_ok_def)

lemma find_collaboration_row:
  "find_collaboration s cid session = Inr c \<Longrightarrow> \<exists>k. tget k (collaborations s) = Some c"
  unfolding find_collaboration_def by (auto simp: refuse_def bindE_def split: sum.splits option.splits if_splits)

lemma ev_v2_send:
  assumes E: "sha E = H" shows "steps (evolves H) (v2_send E send oid session xo)"
proof -
  have chain: "goes (evolves H) t (reads (\<lambda>s. andThen (lift (find_collaboration s (z_collaboration z) session)) (\<lambda>c.
             if \<not> can_send_to E s (pk_recipient p) session then ret (SentDenied ''contact_not_connected'')
             else andThen (collaboration_review_safe E c session) (\<lambda>safe.
               if \<not> safe then ret (SentDenied ''peer_review_required'')
               else andThen (apply_reserved E c p) (\<lambda>_. submit E send z p d)))))"
    if snd: "sound H s0" and t: "evolves H s0 t" and z: "tget (z_id z) (v2_operations s0) = Some z" for s0 t z p d
  proof (intro goes_reads goes_lift_then goes_if ev.goes_ret)
    fix c assume c: "find_collaboration t (z_collaboration z) session = Inr c"
    obtain k where row: "tget k (collaborations t) = Some c" using find_collaboration_row [OF c] by blast
    have sndt: "sound H t" using t snd by (rule evolves_sound)
    show "goes (evolves H) t (andThen (collaboration_review_safe E c session) (\<lambda>safe.
               if \<not> safe then ret (SentDenied ''peer_review_required'')
               else andThen (apply_reserved E c p) (\<lambda>_. submit E send z p d)))"
    proof (rule ev_quiet_then [OF goes_steps [OF ev.hk_review_safe [OF E]] _ evolves_refl])
      show "goes (same_table collaborations) t (collaboration_review_safe E c session)"
        by (rule goes_steps) (rule tb_collaborations.same.hk_review_safe [OF refl])
      fix safe u assume u: "evolves H t u" "collaborations u = collaborations t"
      have "goes (evolves H) u (andThen (apply_reserved E c p) (\<lambda>_. submit E send z p d))"
      proof (rule ev.goes_seq [OF ev_apply_reserved [OF E row sndt u]])
        fix x v assume "evolves H u v"
        then have "evolves H s0 v" using t u(1) by (blast intro: evolves_trans)
        then show "goes (evolves H) v (submit E send z p d)" by (rule ev_submit [OF E snd _ z])
      qed
      then show "goes (evolves H) u (if \<not> safe then ret (SentDenied ''peer_review_required'')
               else andThen (apply_reserved E c p) (\<lambda>_. submit E send z p d))"
        by (intro goes_if ev.goes_ret)
    qed
  qed
  have current: "goes (evolves H) s (andThen (v2_operation_current E z) (\<lambda>cur.
         if \<not> cur then ret (SentDenied ''revoked_expired_or_superseded'')
         else (case (z_packet z, z_delivery z) of
           (Some p, Some d) \<Rightarrow>
             reads (\<lambda>s. andThen (lift (find_collaboration s (z_collaboration z) session)) (\<lambda>c.
             if \<not> can_send_to E s (pk_recipient p) session then ret (SentDenied ''contact_not_connected'')
             else andThen (collaboration_review_safe E c session) (\<lambda>safe.
               if \<not> safe then ret (SentDenied ''peer_review_required'')
               else andThen (apply_reserved E c p) (\<lambda>_. submit E send z p d))))
         | _ \<Rightarrow> raise (KeyError ''packet''))))"
    if row: "tget oid (v2_operations s) = Some z" for s z
  proof (rule goes_sound)
    assume snd: "sound H s"
    have z: "tget (z_id z) (v2_operations s) = Some z" using row sound_at(3) [OF snd row] by simp
    show ?thesis
    proof (rule ev.goes_seq [OF goes_steps [OF ev.hk_v2_current [OF E]]])
      fix cur t assume t: "evolves H s t"
      show "goes (evolves H) t (if \<not> cur then ret (SentDenied ''revoked_expired_or_superseded'')
         else (case (z_packet z, z_delivery z) of
           (Some p, Some d) \<Rightarrow>
             reads (\<lambda>s. andThen (lift (find_collaboration s (z_collaboration z) session)) (\<lambda>c.
             if \<not> can_send_to E s (pk_recipient p) session then ret (SentDenied ''contact_not_connected'')
             else andThen (collaboration_review_safe E c session) (\<lambda>safe.
               if \<not> safe then ret (SentDenied ''peer_review_required'')
               else andThen (apply_reserved E c p) (\<lambda>_. submit E send z p d))))
         | _ \<Rightarrow> raise (KeyError ''packet'')))"
        using chain [OF snd t z]
        by (intro goes_if ev.goes_ret) (auto intro: goes_raise split: option.split)
    qed
  qed
  show ?thesis
    unfolding v2_send_def
    by (rule steps_goes) (intro goes_reads goes_lift_then goes_option goes_raise current)
qed

lemma ev_dispatch_collaboration:
  assumes E: "sha E = H" shows "evolves H s (snd (dispatch_collaboration E send oid session xo s))"
proof (cases "v2_reserve E oid session xo s")
  case (Inr r)
  obtain x s1 where r: "r = (x, s1)" by (cases r)
  have first: "evolves H s s1" using stepsD [OF ev_v2_reserve [OF E]] Inr r by blast
  show ?thesis
  proof (cases x)
    case RGo
    show ?thesis
    proof (cases "v2_send E send oid session xo s1")
      case (Inl e)
      then show ?thesis using Inr r RGo first by (simp add: dispatch_collaboration_def)
    next
      case (Inr q)
      obtain y s2 where q: "q = (y, s2)" by (cases q)
      have "evolves H s1 s2" using stepsD [OF ev_v2_send [OF E]] Inr q by blast
      then show ?thesis
        using Inr q \<open>v2_reserve E oid session xo s = Inr r\<close> r RGo first
        by (auto simp: dispatch_collaboration_def intro: evolves_trans)
    qed
  qed (use Inr r first in \<open>auto simp: dispatch_collaboration_def\<close>)
qed (simp add: dispatch_collaboration_def evolves_refl)

section \<open>Reducing the permission, and the projection\<close>

lemma ev_revoke_maintenance:
  assumes E: "sha E = H" shows "steps (evolves H) (revoke_collaboration_maintenance E cid session)"
proof -
  have put: "goes (evolves H) s (put_collaboration E (c\<lparr>v_permit := map_option (revoke_permit E) (v_permit c), v_waiting := w\<rparr>))"
    if c: "find_collaboration s cid session = Inr c" for s c w
  proof (rule storable_put [OF E])
    assume snd: "sound H s"
    obtain k where row: "tget k (collaborations s) = Some c" using find_collaboration_row [OF c] by blast
    have le: "permit_le p (revoke_permit E p)" for p by (simp add: permit_le_def revoke_permit_def)
    have "collaboration_le c (c\<lparr>v_permit := map_option (revoke_permit E) (v_permit c), v_waiting := w\<rparr>)"
      by (cases "v_permit c") (auto simp: collaboration_le_def collaboration_core_def le json_eq_def)
    then show "storable s (c\<lparr>v_permit := map_option (revoke_permit E) (v_permit c), v_waiting := w\<rparr>)"
      using sound_collaboration [OF snd row] row
      by (cases "v_permit c") (auto simp: storable_def permit_ok_def revoke_permit_def)
  qed
  show ?thesis
    unfolding revoke_collaboration_maintenance_def
    by (intro ev.steps_andThen ev.steps_lift, rule steps_goes)
      (intro goes_reads goes_lift_then ev.goes_andThen put ev.hk_audit)
qed

lemma ev_collaborations_view:
  assumes E: "sha E = H" shows "steps (evolves H) (collaborations_view E session task)"
proof -
  have "steps (evolves H) (map_act (v2_operation_view E) zs)" for zs
    by (induction zs) (auto intro!: ev.steps_andThen ev_v2_view [OF E] ev.steps_ret)
  then show ?thesis
    unfolding collaborations_view_def
    by (intro ev.steps_andThen ev.steps_lift ev_ensure_reviews ev.steps_reads ev.steps_filter_act
        ev.hk_review_safe ev.steps_ret E)
qed

end
