(* ===== verification/Evolution_Worker.thy ===== *)
theory Evolution_Worker
  imports Evolution_Protocol
begin

text \<open>Every operation follows the order \<open>evolves\<close>: the worker, and the entry points that run once.\<close>

section \<open>The worker\<close>

lemma bounded_field_ge: "bounded_field kvs k lower upper = Inr n \<Longrightarrow> lower \<le> n"
  by (auto simp: bounded_field_def refuse_def split: json.splits if_splits)

lemma parse_limits_bounds:
  assumes "parse_limits j = Inr l" shows "1 \<le> rl_runs l \<and> 1 \<le> rl_sends l"
proof -
  obtain kvs where "j = JObj kvs" using assms by (cases j) (auto simp: parse_limits_def refuse_def)
  then have "\<exists>runs sends. bounded_field kvs ''max_runs'' 1 100 = Inr runs \<and> rl_runs l = runs
      \<and> bounded_field kvs ''max_sends'' 1 32 = Inr sends \<and> rl_sends l = sends"
    using assms by (auto simp: parse_limits_def refuse_def split: if_splits)
  then show ?thesis using bounded_field_ge by blast
qed

lemma ev_prepare_worker:
  assumes E: "sha E = H" shows "steps (evolves H) (prepare_worker_policy E tid policy session)"
proof -
  have put: "steps (evolves H) (put_worker r)" if "worker_ok r" for r
    by (rule ev.steps_keeps, rule kp_worker) (rule that)
  have tail: "steps (evolves H) (case aido of
       Some aid \<Rightarrow> (case tget aid (approvals s) of
           Some a \<Rightarrow> ret (public_view a) | None \<Rightarrow> raise (TypeError ''approval''))
     | None \<Rightarrow> andThen (put_worker r) (\<lambda>_.
         andThen (request_approval E tid session q1 q2 q3) (\<lambda>p.
         andThen (put_worker (r\<lparr>wp_approval := Some (pa_id p)\<rparr>)) (\<lambda>_. ret p))))"
    if "worker_ok r" for aido s r q1 q2 q3
    using that by (intro ev.steps_option ev.steps_ret ev.steps_raise ev.steps_andThen put
        ev_request_approval E) simp_all
  show ?thesis
    unfolding prepare_worker_policy_def Let_def
    by (intro ev.steps_andThen [OF ev.steps_lift] ev.steps_lift_then ev.steps_reads
        ev.steps_andThen [OF ev.steps_refuse_if] tail)
      (auto dest!: parse_limits_bounds simp: worker_ok_def limits_of_def)
qed

lemma ev_pause_worker:
  assumes E: "sha E = H" shows "steps (evolves H) (pause_worker E tid session revoked)"
proof -
  have paused: "goes (evolves H) s (case tget tid (workers s) of None \<Rightarrow> ret ()
       | Some r \<Rightarrow> andThen (put_worker (r\<lparr>wp_status := x, wp_waiting := w\<rparr>))
           (\<lambda>_. worker_attention E (r\<lparr>wp_status := x, wp_waiting := w\<rparr>)))" for s x w
    by (intro goes_option ev.goes_ret ev.goes_andThen ev_write_worker ev.hk_worker_attention E) simp_all
  show ?thesis
    unfolding pause_worker_def Let_def
    by (intro ev.steps_andThen [OF ev.steps_lift], rule steps_goes)
      (intro goes_reads goes_lift_then ev.goes_andThen paused ev.steps_reads ev.steps_lift)
qed

lemma ev_finish_run: "steps (evolves H) (finish_run E rid st at)"
  unfolding finish_run_def by (intro ev.steps_reads ev.steps_option ev.steps_raise ev_plain)

text \<open>A policy that a claim counted is written as it was decided.\<close>

lemma put_ok_worker: "worker_ok r \<Longrightarrow> steps (evolves H) (put_worker r)"
  by (rule ev.steps_keeps, rule kp_worker)

lemma ev_stop_worker:
  assumes E: "sha E = H" and r: "worker_ok r" shows "steps (evolves H) (stop_worker E r why)"
  unfolding stop_worker_def Let_def
  using r by (intro ev.steps_andThen put_ok_worker ev.hk_worker_attention E) simp

lemma claim_due_ok:
  assumes "worker_ok r" shows "claim_due E s p r = ClaimStop r' why \<Longrightarrow> worker_ok r'"
    and "claim_due E s p r = ClaimStart r' x \<Longrightarrow> worker_ok r'"
  using assms by (auto simp: claim_due_def Let_def worker_ok_def exhausted_def split: if_splits)

lemma claim_decision_ok:
  assumes snd: "sound H s" and d: "claim_decision_of E s p tid = Inr d"
  shows "d = ClaimStop r' why \<Longrightarrow> worker_ok r'" and "d = ClaimStart r' x \<Longrightarrow> worker_ok r'"
proof -
  have "d = ClaimSkip \<or> (\<exists>r. tget tid (workers s) = Some r \<and> d = claim_due E s p r)"
    using d by (auto simp: claim_decision_of_def split: option.splits if_splits)
  then have "d = ClaimSkip \<or> (\<exists>r. worker_ok r \<and> d = claim_due E s p r)"
    using sound_at(6) [OF snd] by blast
  then show "d = ClaimStop r' why \<Longrightarrow> worker_ok r'" "d = ClaimStart r' x \<Longrightarrow> worker_ok r'"
    using claim_due_ok by (metis claim_decision.distinct(1), metis claim_decision.distinct(3))
qed

lemma ev_plan_claimed:
  assumes E: "sha E = H" and r: "worker_ok r" and row: "sound H s \<Longrightarrow> tget k (collaborations s) = Some c0"
  shows "goes (evolves H) s (plan_claimed E x r c0)"
proof (rule goes_sound)
  assume snd: "sound H s"
  have rest: "steps (evolves H) (andThen (collaboration_review_safe E c (context_session x)) (\<lambda>safe.
     if \<not> safe then
        andThen (put_worker (r\<lparr>wp_status := WPaused, wp_waiting := w\<rparr>)) (\<lambda>_.
        andThen (finish_run E (rc_run x) RunCompleted at) (\<lambda>_.
        andThen (worker_attention E (r\<lparr>wp_status := WPaused, wp_waiting := w\<rparr>)) (\<lambda>_. ret NoRun)))
     else reads (\<lambda>s. ret (Run x (v_id c) (plan_run E s x r c)))))" for c w at
    using r by (intro ev.steps_andThen ev.hk_review_safe ev.steps_if put_ok_worker ev_finish_run
        ev.hk_worker_attention ev.steps_ret ev.steps_reads E) simp
  have drain: "goes (evolves H) s (if v_waiting c0 = Some ''peer_review_required'' then
          andThen (collaboration_review_safe E c0 (context_session x)) (\<lambda>safe.
            if safe then andThen (v2_drain E c0) (put_collaboration E) else ret c0)
        else ret c0)"
  proof (intro goes_if ev.goes_ret)
    show "goes (evolves H) s (andThen (collaboration_review_safe E c0 (context_session x)) (\<lambda>safe.
            if safe then andThen (v2_drain E c0) (put_collaboration E) else ret c0))"
    proof (rule ev_quiet_then [OF goes_steps [OF ev.hk_review_safe [OF E]] _ evolves_refl])
      show "goes (same_table collaborations) s (collaboration_review_safe E c0 (context_session x))"
        by (rule goes_steps) (rule tb_collaborations.same.hk_review_safe [OF refl])
      fix safe t assume t: "evolves H s t" "collaborations t = collaborations s"
      show "goes (evolves H) t (if safe then andThen (v2_drain E c0) (put_collaboration E) else ret c0)"
        by (intro goes_if ev.goes_ret ev_reduce_then [OF E row [OF snd] snd t ev.pr_drain [OF E]
              qt.pr_drain [OF refl] yl_drain] kept_refl ev_reduced [OF E row [OF snd] _ _ _ snd])
    qed
  qed
  show "goes (evolves H) s (plan_claimed E x r c0)"
    unfolding plan_claimed_def Let_def by (intro ev.goes_andThen drain rest)
qed

lemma ev_claim_run:
  assumes E: "sha E = H" shows "steps (evolves H) (claim_run E principal_id tid)"
proof (rule steps_goes, rule goes_sound)
  fix s assume snd: "sound H s"
  have plan: "steps (evolves H) (reads (\<lambda>s.
         andThen (lift (find_collaboration s cid (context_session x))) (plan_claimed E x r)))"
    if r: "worker_ok r" for cid x r
  proof (rule steps_goes, intro goes_reads goes_lift_then)
    fix t c assume "find_collaboration t cid (context_session x) = Inr c"
    then obtain k where "tget k (collaborations t) = Some c" using find_collaboration_row by blast
    then show "goes (evolves H) t (plan_claimed E x r c)" by (rule ev_plan_claimed [OF E r])
  qed
  have decide: "goes (evolves H) s (case d of
       ClaimSkip \<Rightarrow> ret NoRun
     | ClaimStop r reason \<Rightarrow> andThen (stop_worker E r reason) (\<lambda>_. ret NoRun)
     | ClaimStart r x \<Rightarrow>
         andThen (put_run \<lparr>wr_id = rc_run x, wr_task = wp_task r, wr_revision = wp_revision r,
            wr_status = RunRunning, wr_started = now E, wr_finished = None, wr_operation = None\<rparr>) (\<lambda>_.
         andThen (put_worker r) (\<lambda>_. reads (\<lambda>s.
         andThen (lift (find_collaboration s (wl_collaboration (wp_policy r)) (context_session x)))
           (plan_claimed E x r)))))"
    if d: "claim_decision_of E s principal_id tid = Inr d" for d
    using claim_decision_ok [OF snd d]
    by (cases d) (auto intro!: ev.goes_ret goes_steps ev.steps_andThen ev_stop_worker [OF E] ev.steps_ret
        ev_plain put_ok_worker plan)
  show "goes (evolves H) s (claim_run E principal_id tid)"
    unfolding claim_run_def by (intro goes_reads goes_lift_then decide)
qed

lemma ev_stop_row:
  assumes E: "sha E = H" and row: "tget k (workers s) = Some r"
  shows "goes (evolves H) s (stop_worker E r why)"
  unfolding stop_worker_def Let_def
  by (intro ev.goes_andThen ev_write_worker [OF row] ev.hk_worker_attention E) simp

lemma ev_record_run:
  assumes E: "sha E = H" shows "steps (evolves H) (record_run E x reason)"
proof -
  have recorded: "goes (evolves H) s (case tget (rc_task x) (workers s) of
       None \<Rightarrow> raise (TypeError ''policy'')
     | Some r \<Rightarrow>
         if b r then andThen (put_worker (r\<lparr>wp_waiting := reason, wp_status := st r\<rparr>)) (\<lambda>_.
               if c then ret () else worker_attention E (r\<lparr>wp_waiting := reason, wp_status := st r\<rparr>))
         else ret ())" for s b st c
    by (intro goes_option goes_raise goes_if ev.goes_ret ev.goes_andThen ev_write_worker ev.steps_if
        ev.steps_ret ev.hk_worker_attention E) simp_all
  show ?thesis
    unfolding record_run_def Let_def
    by (intro ev.steps_andThen ev_finish_run) (rule steps_goes, rule goes_reads, rule recorded)
qed

lemma ev_run_failed:
  assumes E: "sha E = H" shows "steps (evolves H) (run_failed E x)"
  unfolding run_failed_def
proof (rule steps_goes, rule goes_reads)
  fix s :: store
  let ?m = "case tget (rc_run x) (runs s) of None \<Rightarrow> ret () | Some run \<Rightarrow> put_run (run\<lparr>wr_status := RunFinished\<rparr>)"
  show "goes (evolves H) s (andThen ?m (\<lambda>_. case tget (rc_task x) (workers s) of
       None \<Rightarrow> ret ()
     | Some r \<Rightarrow>
         if wp_revision r = rc_policy_revision x \<and> wp_status r = WActive
         then stop_worker E r ''worker_error'' else ret ()))"
  proof (rule ev.goes_seq)
    show "goes (evolves H) s ?m" by (intro goes_option ev.goes_ret goes_steps [OF ev_plain(4)])
    fix y t assume run: "?m s = Inr (y, t)"
    have same: "workers t = workers s" using run by (auto simp: put_run_def split: option.splits)
    show "goes (evolves H) t (case tget (rc_task x) (workers s) of
       None \<Rightarrow> ret ()
     | Some r \<Rightarrow>
         if wp_revision r = rc_policy_revision x \<and> wp_status r = WActive
         then stop_worker E r ''worker_error'' else ret ())"
      unfolding same [symmetric] by (intro goes_option ev.goes_ret goes_if ev_stop_row [OF E])
  qed
qed

lemma ev_dispatch_run:
  assumes E: "sha E = H" shows "evolves H s (snd (dispatch_run E send x oid s))"
  using ev_dispatch_collaboration [OF E, of s send oid "context_session x" "Some x"]
  by (auto simp: dispatch_run_def split: prod.splits sum.splits)

lemma ev_carry_out:
  assumes E: "sha E = H" shows "evolves H s (snd (carry_out E send x cid p s))"
proof (cases p)
  case (PlanPrepare k payload oid)
  show ?thesis
  proof (cases "prepare_collaboration E (rc_task x) (JStr cid) (JStr oid) (v2_kind_str k) (JObj payload)
      (context_session x) s")
    case (Inl e)
    then show ?thesis using PlanPrepare by (simp add: carry_out_def evolves_refl)
  next
    case (Inr r)
    obtain y t where r: "r = (y, t)" by (cases r)
    have "evolves H s t" using stepsD [OF ev_prepare_collaboration [OF E]] Inr r by blast
    moreover have "evolves H t (snd (dispatch_run E send x oid t))" by (rule ev_dispatch_run [OF E])
    ultimately show ?thesis
      using Inr r PlanPrepare by (cases y) (auto simp: carry_out_def intro: evolves_trans)
  qed
qed (simp_all add: carry_out_def evolves_refl ev_dispatch_run [OF E])

lemma ev_after_run:
  assumes E: "sha E = H" shows "evolves H s (after_run E x r s)"
proof -
  have failed: "evolves H s (case run_failed E x s of Inr (_, s') \<Rightarrow> s' | Inl _ \<Rightarrow> s)"
    using stepsD [OF ev_run_failed [OF E]] by (auto simp: evolves_refl split: sum.splits)
  then show ?thesis
    using stepsD [OF ev_record_run [OF E]] by (auto simp: after_run_def split: sum.splits)
qed

lemma ev_tick_one:
  assumes E: "sha E = H" shows "evolves H s (tick_one E send principal_id tid s)"
proof (cases "claim_run E principal_id tid s")
  case (Inl e)
  then show ?thesis
    using ev_after_run [OF E] by (auto simp: tick_one_def evolves_refl split: sum.splits claim_decision.splits)
next
  case (Inr q)
  obtain d s1 where q: "q = (d, s1)" by (cases q)
  have first: "evolves H s s1" using stepsD [OF ev_claim_run [OF E]] Inr q by blast
  show ?thesis
  proof (cases d)
    case (Run x cid p)
    obtain r s2 where c: "carry_out E send x cid p s1 = (r, s2)" by (cases "carry_out E send x cid p s1")
    have "evolves H s1 s2" using ev_carry_out [OF E, of s1 send x cid p] c by simp
    then show ?thesis
      using Inr q Run c first ev_after_run [OF E, of s2 x r]
      by (auto simp: tick_one_def intro: evolves_trans)
  qed (use Inr q first in \<open>simp add: tick_one_def\<close>)
qed

lemma ev_run_worker_tick:
  assumes E: "sha E = H" and run: "run_worker_tick E send principal_id n s = Inr t"
  shows "evolves H s t"
proof -
  have ticks: "evolves H s (fold (tick_one E send principal_id) ts s)" for ts
    by (induction ts arbitrary: s) (auto simp: evolves_refl intro: evolves_trans ev_tick_one [OF E])
  then show ?thesis
    using run by (auto simp: run_worker_tick_def refuse_def bindE_def split: if_splits sum.splits)
qed

end
