(* ===== verification/Receipts.thy ===== *)
theory Receipts
  imports Evolution_Worker
begin

text \<open>
  The console's entry points. No operation they reach touches the table of replay receipts, so a
  receipt is only ever written where there was none.
\<close>

definition same_receipts :: "store \<Rightarrow> store \<Rightarrow> bool" where
  "same_receipts s t \<longleftrightarrow> mutations s = mutations t"

interpretation rc: protocol same_receipts H for H
proof
  show "steps same_receipts (attention_put E w sk si n)" for E w sk si n
    by (auto simp: steps_def attention_put_def Let_def same_receipts_def split: if_splits)
qed (auto simp: same_receipts_def)

lemma rc_free [simp]:
  "same_receipts s (s\<lparr>contacts := a1\<rparr>)" "same_receipts s (s\<lparr>requests := a2\<rparr>)"
  "same_receipts s (s\<lparr>outboxes := a3\<rparr>)" "same_receipts s (s\<lparr>connections := a4\<rparr>)"
  "same_receipts s (s\<lparr>reads_at := a5\<rparr>)" "same_receipts s (s\<lparr>workers := a6\<rparr>)"
  "same_receipts s (s\<lparr>proposals := b1\<rparr>)" "same_receipts s (s\<lparr>blocks := b2\<rparr>)"
  "same_receipts s (s\<lparr>safety := b3\<rparr>)" "same_receipts s (s\<lparr>message_blocks := b4\<rparr>)"
  "same_receipts s (s\<lparr>reviews := b5\<rparr>)"
  by (simp_all add: same_receipts_def)

lemma rc_plain:
  "steps same_receipts (put_request q)" "steps same_receipts (put_outbox b)"
  "steps same_receipts (put_contact c)" "steps same_receipts (put_worker r)"
  "steps same_receipts (put_proposal k p)" "steps same_receipts (put_connection E owner urn rid)"
  "steps same_receipts (tombstone E owner sender mid)" "steps same_receipts (put_block E owner urn blk)"
  unfolding put_request_def put_outbox_def put_contact_def put_worker_def put_proposal_def
    put_connection_def tombstone_def put_block_def Let_def
  by (intro rc.steps_modify; simp)+

lemma rc_rows:
  "steps same_receipts (put_task E t)" "steps same_receipts (put_operation E z)"
  "steps same_receipts (put_v2_operation E y)" "steps same_receipts (put_approval E a)"
  "steps same_receipts (put_collaboration E c)" "steps same_receipts (put_inbound E m)"
  using rc.hk_goes_task [OF refl] rc.hk_goes_operation [OF refl] rc.hk_goes_v2_operation [OF refl]
    rc.hk_goes_approval [OF refl] rc.hk_goes_collaboration [OF refl] rc.hk_goes_inbound [OF refl]
  by (auto intro!: steps_goes simp: same_receipts_def)

lemmas rc_basic = rc.steps_reads rc.steps_if rc.steps_option rc.steps_raise rc.steps_ret rc.steps_andThen
  rc.steps_lift rc.steps_refuse_if rc.steps_when rc.steps_for_each rc.steps_prod rc.steps_modify rc_free
  rc_plain rc_rows rc.hk_audit rc.hk_stage [OF refl] rc.hk_event_review [OF refl]
  rc.hk_approval_current [OF refl] rc.hk_attention_approval [OF refl] rc.hk_worker_attention [OF refl]
  rc.hk_friend_attention [OF refl] rc.h_attention [OF refl] rc.hk_review_safe [OF refl]

lemma rc_queue_social: "steps same_receipts (queue_social E x owner)"
  unfolding queue_social_def Let_def by (intro rc_basic)

lemma rc_request_contact: "steps same_receipts (request_contact E c)"
  unfolding request_contact_def Let_def by (intro rc_basic rc_queue_social)

lemma rc_mark_read: "steps same_receipts (mark_read E mid session)"
  unfolding mark_read_def Let_def by (intro rc_basic)

lemma rc_respond_contact: "steps same_receipts (respond_contact E params session)"
  unfolding respond_contact_def Let_def by (intro rc_basic rc_queue_social rc_mark_read)

lemma rc_send_message: "steps same_receipts (send_message E params session)"
  unfolding send_message_def by (intro rc_basic rc_queue_social)

lemma rc_ingest_v2: "steps same_receipts (ingest_v2_record E w)"
  unfolding ingest_v2_record_def
  by (intro rc_basic rc.pr_ingest_bound [OF refl] rc.pr_drain [OF refl] rc.pr_record_invitation)

lemma rc_set_peer_block: "steps same_receipts (set_peer_block E u b session)"
proof -
  have "steps same_receipts (retire_peer E owner session urn)" for owner urn
    unfolding retire_peer_def block_messages_def block_requests_def block_outbox_def block_workers_def
      block_operations_def block_v2_operations_def block_approvals_def block_attention_def Let_def
    by (intro rc_basic)
  moreover have "steps same_receipts (bump_safety E owner c)" for owner c
    unfolding bump_safety_def Let_def by (intro rc_basic)
  ultimately show ?thesis
    unfolding set_peer_block_def Let_def by (intro rc_basic)
qed

lemma rc_review_message: "steps same_receipts (review_message E midj dj session)"
proof -
  have release: "steps same_receipts (release_reviewed E mid st)" for mid st
    unfolding release_reviewed_def Let_def by (intro rc_basic rc_ingest_v2)
  have drain: "steps same_receipts (drain_peer E session sender)" for sender
    unfolding drain_peer_def by (intro rc_basic rc.pr_drain [OF refl])
  show ?thesis
    unfolding review_message_def Let_def by (intro rc_basic release drain)
qed

lemma rc_apply: "steps same_receipts (apply_approval E a)"
proof -
  have "steps same_receipts (apply_operation E a)"
    unfolding apply_operation_def
    by (intro rc_basic) (auto intro: rc.steps_ret rc.steps_when rc_plain split: payload.split)
  moreover have "steps same_receipts (apply_v2_status E a f)" for f
    unfolding apply_v2_status_def by (intro rc_basic)
  ultimately show ?thesis
    unfolding apply_approval_def
    by (intro steps_payload steps_json rc_basic rc_queue_social rc_request_contact rc_respond_contact)
qed

lemma rc_deny: "steps same_receipts (deny_approval E a)"
  unfolding deny_approval_def by (intro steps_payload rc_basic)

lemma rc_respond_approval: "steps same_receipts (remote_respond_approval E params session)"
  unfolding remote_respond_approval_def Let_def by (intro rc_basic rc_apply rc_deny)

lemma rc_add_contact: "steps same_receipts (remote_add_contact E params session)"
  unfolding remote_add_contact_def fulfil_contact_approval_def contact_view_of_def Let_def
  by (intro rc_basic rc_request_contact)

lemma rc_run_mutation: "steps same_receipts (run_mutation E method kvs session)"
  unfolding run_mutation_def
  by (intro rc_basic rc_add_contact rc_respond_contact rc_set_peer_block rc_review_message
      rc_send_message rc_mark_read rc_respond_approval)

section \<open>The entry points\<close>

lemma ev_run_mutation:
  assumes E: "sha E = H" shows "steps (evolves H) (run_mutation E method kvs session)"
  unfolding run_mutation_def
  by (intro ev.steps_if ev.steps_andThen ev.steps_prod ev.steps_ret ev_remote_add_contact ev_respond_contact
      ev_set_peer_block ev_review_message ev_send_message ev_mark_read ev_remote_respond_approval E)

lemma ev_remote_mutation:
  assumes E: "sha E = H" shows "steps (evolves H) (remote_mutation E method params session rkey fp until)"
proof -
  have fresh: "goes (evolves H) s (andThen (run_mutation E method kvs session) (\<lambda>r.
         andThen (modify (\<lambda>s. s\<lparr>mutations := tput rkey (receipt r) (mutations s)\<rparr>)) (\<lambda>_. ret r)))"
    if none: "tget rkey (mutations s) = None" for s kvs receipt
  proof (rule ev.goes_seq [OF goes_steps [OF ev_run_mutation [OF E]]])
    fix r t assume "run_mutation E method kvs session s = Inr (r, t)"
    with rc_run_mutation have "same_receipts s t" by (rule stepsD)
    then have "tget rkey (mutations t) = None" using none by (simp add: same_receipts_def)
    then show "goes (evolves H) t (andThen (modify (\<lambda>s. s\<lparr>mutations := tput rkey (receipt r) (mutations s)\<rparr>)) (\<lambda>_. ret r))"
      by (intro ev.goes_andThen goes_modify ev_mutation ev.steps_ret)
  qed
  show ?thesis
    unfolding remote_mutation_def
    by (intro ev.steps_andThen [OF ev.steps_lift] ev.steps_andThen [OF ev.steps_refuse_if], rule steps_goes)
      (intro goes_reads goes_option goes_if goes_raise ev.goes_ret fresh)
qed

lemma ev_owner_action_claim: "steps (evolves H) (owner_action_claim E session rkey fp until)"
  unfolding owner_action_claim_def
  by (intro ev.steps_andThen ev.steps_lift ev.steps_refuse_if ev.steps_reads ev.steps_option ev.steps_if
      ev.steps_raise ev.steps_ret ev.steps_modify ev_free)

lemma ev_owner_action_complete: "steps (evolves H) (owner_action_complete E session rkey fp result)"
  unfolding owner_action_complete_def by (intro ev.steps_modify ev_free)

lemma ev_execute_owner_once:
  assumes cb: "\<And>u. evolves H u (snd (callback u))"
  shows "evolves H s (snd (execute_owner_once E session callback rkey fp until s))"
proof (cases "owner_action_claim E session rkey fp until s")
  case (Inr q)
  obtain c s1 where q: "q = (c, s1)" by (cases q)
  have first: "evolves H s s1" using stepsD [OF ev_owner_action_claim] Inr q by blast
  obtain r s2 where cb1: "callback s1 = (r, s2)" by (cases "callback s1")
  have second: "evolves H s s2" using cb [of s1] cb1 first by (auto intro: evolves_trans)
  have third: "evolves H s t" if "owner_action_complete E session rkey fp j s2 = Inr (x, t)" for j x t
    using stepsD [OF ev_owner_action_complete that] second by (rule evolves_trans [rotated])
  show ?thesis
    using Inr q first second third cb1
    by (cases c; cases r) (auto simp: execute_owner_once_def split: sum.splits)
qed (simp add: execute_owner_once_def evolves_refl)

end
