(* ===== verification/Views.thy ===== *)
theory Views
  imports Worker
begin

text \<open>
  What the owner is shown: the overall state (\<^verbatim>\<open>Store.state\<close>) and the task pages of
  \<^verbatim>\<open>src/python/agent_comm_runtime/task_history.py\<close>. A view is a record of the rows and projections
  that the code puts into a dictionary. Where the code bounds the size of a page, the length of
  its JSON text is an argument of the model; \<^verbatim>\<open>str.casefold\<close>, by which the list is searched, is another.
\<close>

section \<open>The overall state\<close>

record message_view =
  mv_message :: inbound
  mv_read :: "time option"
  mv_unknown :: bool

definition message_view_of :: "env \<Rightarrow> store \<Rightarrow> string \<Rightarrow> inbound \<Rightarrow> message_view" where
  "message_view_of E s session m = \<lparr>mv_message = m,
     mv_read = tget (skey E [principal session, w_sender m, w_id m]) (reads_at s),
     mv_unknown = (\<not> list_ex (\<lambda>c. c_urn c = w_sender m) (own_contacts s session))\<rparr>"

definition blocked_peers :: "store \<Rightarrow> string \<Rightarrow> peer_block list" where
  "blocked_peers s session = filter (\<lambda>k. owned (k_owner k) session \<and> k_blocked k) (tall (blocks s))"

definition contact_requests_view :: "store \<Rightarrow> string \<Rightarrow> contact_request list" where
  "contact_requests_view s session = filter (\<lambda>q. owned (q_owner q) session) (tall (requests s))"

definition list_contact_requests :: "string \<Rightarrow> contact_request list step" where
  "list_contact_requests session =
     andThen (lift (owner_ok session)) (\<lambda>_. reads (\<lambda>s. ret (contact_requests_view s session)))"

definition sent_messages :: "store \<Rightarrow> string \<Rightarrow> outbox list" where
  "sent_messages s session = last_n 100
     (filter (\<lambda>b. owned (b_owner b) session \<and> x_kind (b_message b) = ''chat.message'') (tall (outboxes s)))"

record decision_view =
  dv_id :: string
  dv_kind :: string
  dv_subject :: string
  dv_status :: ap_status
  dv_source :: "context_data option"

definition decision_of :: "approval \<Rightarrow> decision_view" where
  "decision_of a = \<lparr>dv_id = p_id a, dv_kind = payload_kind (p_payload a), dv_subject = p_subject a,
     dv_status = p_status a, dv_source = p_source a\<rparr>"

record store_view =
  sv_tasks :: "(task \<times> worker_view) list"
  sv_operations :: "op_view list"
  sv_pending :: "public_approval list"
  sv_decisions :: "decision_view list"
  sv_contacts :: "(contact \<times> conn_status) list"
  sv_blocked :: "peer_block list"
  sv_safety :: int
  sv_reviews :: "peer_review list"
  sv_requests :: "contact_request list"
  sv_sent :: "outbox list"
  sv_resources :: "resource list"
  sv_next :: string
  sv_inbox :: "message_view list"
  sv_proposals :: "proposal list"
  sv_collaboration :: collaborations_page

text \<open>\<open>in_task\<close>: the filter by an optional task identifier.\<close>

definition in_task :: "string option \<Rightarrow> string option \<Rightarrow> bool" where
  "in_task task t \<longleftrightarrow> task = None \<or> t = task"

definition own_approvals :: "store \<Rightarrow> string \<Rightarrow> approval list" where
  "own_approvals s session = filter (\<lambda>a. session_owned (p_session a) session) (tall (approvals s))"

definition pending_confirmations :: "env \<Rightarrow> store \<Rightarrow> string \<Rightarrow> string option \<Rightarrow> approval list step" where
  "pending_confirmations E s session task =
     andThen (filter_act (approval_current E)
       (filter (\<lambda>a. p_status a \<in> {APending, APresenting, AExpired}) (own_approvals s session))) (\<lambda>as.
     ret (filter (\<lambda>a. in_task task (approval_task_id s a)) as))"

definition state_view :: "env \<Rightarrow> string \<Rightarrow> string option \<Rightarrow> store_view step" where
  "state_view E session task =
     andThen (lift (owner_ok session)) (\<lambda>_.
     andThen (ensure_peer_reviews E session) (\<lambda>_. reads (\<lambda>s.
     let ts = filter (\<lambda>t. in_task task (Some (t_id t))) (owned_tasks s session);
         ids = set (map t_id ts) in
     andThen (lift (mapE (operation_view E s)
       (filter (\<lambda>z. session_owned (o_session z) session \<and> o_task z \<in> ids) (tall (operations s))))) (\<lambda>ops.
     andThen (pending_confirmations E s session task) (\<lambda>pending.
     andThen (lift (mapE (\<lambda>t. bindE (worker_view_of E s t) (\<lambda>w. Inr (t, w))) ts)) (\<lambda>tws.
     andThen (pending_peer_reviews E session) (\<lambda>rvs.
     andThen (inbox_messages E session task) (\<lambda>ms.
     andThen (reads (\<lambda>s. lift (filterE (\<lambda>p. if pr_task p \<in> ids then proposal_review_safe E s (Some p) session
       else Inr False) (tall (proposals s))))) (\<lambda>props.
     andThen (collaborations_view E session task) (\<lambda>cv.
     ret \<lparr>sv_tasks = tws, sv_operations = ops, sv_pending = map public_view pending,
       sv_decisions = map decision_of (filter (\<lambda>a. p_status a \<in> {AApproved, ADenied}
          \<and> in_task task (approval_task_id s a)) (own_approvals s session)),
       sv_contacts = contacts_view E s session, sv_blocked = blocked_peers s session,
       sv_safety = safety_revision E s session, sv_reviews = rvs,
       sv_requests = contact_requests_view s session, sv_sent = sent_messages s session,
       sv_resources = filter (\<lambda>r. owned (r_owner_id r) session) (tall (resources s)),
       sv_next = (if pending \<noteq> [] then ''confirm_specific_pending_request'' else ''prepare_scoped_action''),
       sv_inbox = map (message_view_of E s session) ms, sv_proposals = props,
       sv_collaboration = cv\<rparr>))))))))))"

section \<open>The list of tasks\<close>

definition history_id :: "json \<Rightarrow> exn + string" where
  "history_id j = (case j of
     JStr s \<Rightarrow> if is_identifier s then Inr s else refuse ''Invalid stable identifier''
   | _ \<Rightarrow> refuse ''Invalid stable identifier'')"

definition page_limit :: "int \<Rightarrow> json \<Rightarrow> exn + nat" where
  "page_limit maximum j = (case j of
     JInt n \<Rightarrow> if 1 \<le> n \<and> n \<le> maximum then Inr (nat n) else refuse ''limit must be from 1 through the maximum''
   | _ \<Rightarrow> refuse ''limit must be from 1 through the maximum'')"

text \<open>\<^verbatim>\<open>needle in text\<close>\<close>

fun substring :: "string \<Rightarrow> string \<Rightarrow> bool" where
  "substring needle [] = (needle = [])"
| "substring needle (c # r) = (take (length needle) (c # r) = needle \<or> substring needle r)"

definition task_matches :: "(string \<Rightarrow> string) \<Rightarrow> string \<Rightarrow> task \<Rightarrow> bool" where
  "task_matches casefold query t \<longleftrightarrow> (let needle = py_strip (casefold query) in
     needle = [] \<or> substring needle (casefold (t_id t @ '' '' @ sc_topic (t_scope t) @ '' '' @ sc_purpose (t_scope t))))"

definition listed_tasks :: "(string \<Rightarrow> string) \<Rightarrow> store \<Rightarrow> string \<Rightarrow> string \<Rightarrow> string option \<Rightarrow> task list" where
  "listed_tasks casefold s session query cursor = sort_key t_id
     (filter (\<lambda>t. (case cursor of None \<Rightarrow> True | Some c \<Rightarrow> c < t_id t) \<and> task_matches casefold query t)
       (owned_tasks s session))"

record task_page =
  tp_items :: "task list"
  tp_next :: "string option"

definition task_page_of :: "task list \<Rightarrow> nat \<Rightarrow> task_page" where
  "task_page_of ts limit = (let page = take limit ts in
     \<lparr>tp_items = page, tp_next = (if limit < length ts then Some (t_id (last page)) else None)\<rparr>)"

definition optional_id :: "json \<Rightarrow> exn + string option" where
  "optional_id j = (if j = JNull then Inr None else bindE (history_id j) (\<lambda>c. Inr (Some c)))"

definition list_query :: "json \<Rightarrow> exn + string" where
  "list_query j = (case j of
     JStr q \<Rightarrow> if pylen q \<le> 120 then Inr q else refuse ''query must be at most 120 characters''
   | _ \<Rightarrow> refuse ''query must be at most 120 characters'')"

definition task_list :: "(string \<Rightarrow> string) \<Rightarrow> string \<Rightarrow> json \<Rightarrow> json \<Rightarrow> json \<Rightarrow> task_page step" where
  "task_list casefold session queryj limitj cursorj =
     andThen (lift (owner_ok session)) (\<lambda>_.
     andThen (lift (list_query queryj)) (\<lambda>query.
     andThen (lift (page_limit 100 limitj)) (\<lambda>limit.
     andThen (lift (optional_id cursorj)) (\<lambda>cursor. reads (\<lambda>s.
     ret (task_page_of (listed_tasks casefold s session query cursor) limit))))))"

section \<open>The detail of a task\<close>

record approval_detail =
  ad_id :: string
  ad_kind :: string
  ad_subject :: string
  ad_expires :: time
  ad_status :: ap_status
  ad_created :: time
  ad_source :: "context_data option"
  ad_question :: "string option"

record operation_detail =
  od_id :: string
  od_task :: string
  od_status :: op_status
  od_decision :: decision
  od_reasons :: "string list"
  od_approval :: "string option"
  od_capability :: "capability option"

record collaboration_detail =
  cd_id :: string
  cd_task :: string
  cd_peer :: string
  cd_phase :: string
  cd_waiting :: "string option"
  cd_joined :: bool
  cd_agreement :: "json option"
  cd_terms :: "json option"
  cd_source :: "context_data option"

record v2_detail =
  zd_id :: string
  zd_task :: string
  zd_collaboration :: string
  zd_kind :: v2_kind
  zd_status :: op_status
  zd_decision :: decision
  zd_reasons :: "string list"
  zd_approval :: "string option"

record message_detail =
  md_id :: string
  md_sender :: string
  md_kind :: "string option"
  md_received :: time
  md_read :: bool
  md_text :: string
  md_truncated :: bool

record task_detail =
  td_task :: task
  td_worker :: worker_view
  td_operations :: "operation_detail list"
  td_approvals :: "approval_detail list"
  td_collaborations :: "collaboration_detail list"
  td_v2 :: "v2_detail list"
  td_messages :: "message_detail list"
  td_cut :: "(string \<times> bool) list"

text \<open>The first \<open>n\<close> code points of a string, \<^verbatim>\<open>text[:n]\<close>.\<close>

fun pytake :: "nat \<Rightarrow> string \<Rightarrow> string" where
  "pytake n [] = []"
| "pytake n (c # r) =
     (if cont_byte c then c # pytake n r
      else if n = 0 then [] else c # pytake (n - 1) r)"

definition unsafe_reasons :: "string list \<Rightarrow> bool" where
  "unsafe_reasons rs \<longleftrightarrow> ''peer_content_unavailable'' \<in> set rs"

text \<open>The question of an approval is shown while the operation it is about may be shown.\<close>

definition approval_detail_of :: "string set \<Rightarrow> string set \<Rightarrow> approval \<Rightarrow> approval_detail" where
  "approval_detail_of safe_ops safe_v2 a =
     (let k = payload_kind (p_payload a);
          safe = (k \<noteq> ''operation'' \<or> p_subject a \<in> safe_ops)
            \<and> (k \<noteq> ''collaboration_v2'' \<or> p_subject a \<in> safe_v2)
      in \<lparr>ad_id = p_id a, ad_kind = k, ad_subject = p_subject a, ad_expires = p_expires a,
          ad_status = p_status a, ad_created = p_created a, ad_source = p_source a,
          ad_question = (if safe then Some (p_question a) else None)\<rparr>)"

definition operation_detail_of :: "op_view \<Rightarrow> operation_detail" where
  "operation_detail_of v = \<lparr>od_id = ov_id v, od_task = ov_task v, od_status = ov_status v,
     od_decision = ov_decision v, od_reasons = ov_reasons v, od_approval = ov_approval v,
     od_capability = map_option a_capability (ov_action v)\<rparr>"

definition collaboration_detail_of :: "collaboration \<Rightarrow> collaboration_detail" where
  "collaboration_detail_of c = \<lparr>cd_id = v_id c, cd_task = v_task c, cd_peer = v_peer c, cd_phase = v_phase c,
     cd_waiting = v_waiting c, cd_joined = v_joined c, cd_agreement = v_agreement c, cd_terms = v_terms c,
     cd_source = v_source c\<rparr>"

definition v2_detail_of :: "v2_view \<Rightarrow> v2_detail" where
  "v2_detail_of v = \<lparr>zd_id = vv_id v, zd_task = vv_task v, zd_collaboration = vv_collaboration v,
     zd_kind = vv_kind v, zd_status = vv_status v, zd_decision = vv_decision v, zd_reasons = vv_reasons v,
     zd_approval = vv_approval v\<rparr>"

definition message_detail_of :: "message_view \<Rightarrow> message_detail" where
  "message_detail_of v = (let m = mv_message v in
     \<lparr>md_id = w_id m, md_sender = w_sender m, md_kind = w_kind m, md_received = i_received m,
      md_read = (mv_read v \<noteq> None), md_text = pytake 2000 (w_text m), md_truncated = 2000 < pylen (w_text m)\<rparr>)"

text \<open>
  A bucket of the page is filled while the text of the whole page stays within 200000 bytes; the
  first item that does not fit, and all after it, are left out.
\<close>

definition detail_bytes :: nat where
  "detail_bytes = 200000"

fun fill :: "(task_detail \<Rightarrow> nat) \<Rightarrow> ('a \<Rightarrow> task_detail \<Rightarrow> task_detail) \<Rightarrow> 'a list \<Rightarrow> task_detail
    \<Rightarrow> task_detail \<times> bool" where
  "fill width add [] d = (d, False)"
| "fill width add (x # xs) d = (if detail_bytes < width (add x d) then (d, True) else fill width add xs (add x d))"

definition fill_group :: "(task_detail \<Rightarrow> nat) \<Rightarrow> string \<Rightarrow> ('a \<Rightarrow> task_detail \<Rightarrow> task_detail) \<Rightarrow> 'a list
    \<Rightarrow> task_detail \<Rightarrow> task_detail" where
  "fill_group width label add xs d = (let (d', cut) = fill width add xs d
     in d'\<lparr>td_cut := td_cut d' @ [(label, cut)]\<rparr>)"

definition add_approval :: "approval_detail \<Rightarrow> task_detail \<Rightarrow> task_detail" where
  "add_approval x d = d\<lparr>td_approvals := td_approvals d @ [x]\<rparr>"

definition add_collaboration :: "collaboration_detail \<Rightarrow> task_detail \<Rightarrow> task_detail" where
  "add_collaboration x d = d\<lparr>td_collaborations := td_collaborations d @ [x]\<rparr>"

definition add_v2 :: "v2_detail \<Rightarrow> task_detail \<Rightarrow> task_detail" where
  "add_v2 x d = d\<lparr>td_v2 := td_v2 d @ [x]\<rparr>"

definition add_operation :: "operation_detail \<Rightarrow> task_detail \<Rightarrow> task_detail" where
  "add_operation x d = d\<lparr>td_operations := td_operations d @ [x]\<rparr>"

definition add_message :: "message_detail \<Rightarrow> task_detail \<Rightarrow> task_detail" where
  "add_message x d = d\<lparr>td_messages := td_messages d @ [x]\<rparr>"

definition approval_order :: "approval_detail list \<Rightarrow> approval_detail list" where
  "approval_order as = sort_key (\<lambda>a. (ad_status a \<notin> {APending, APresenting, AExpired}, - ad_created a)) as"

definition fill_detail :: "(task_detail \<Rightarrow> nat) \<Rightarrow> approval_detail list \<Rightarrow> collaboration_detail list
    \<Rightarrow> v2_detail list \<Rightarrow> operation_detail list \<Rightarrow> message_detail list \<Rightarrow> task_detail \<Rightarrow> task_detail" where
  "fill_detail width as cs zs os ms d0 =
     (let d1 = fill_group width ''approvals'' add_approval (approval_order as) d0;
          d2 = fill_group width ''collaborations'' add_collaboration cs d1;
          d3 = fill_group width ''v2_operations'' add_v2 zs d2;
          d4 = fill_group width ''operations'' add_operation os d3;
          d5 = fill_group width ''messages'' add_message (rev ms) d4
      in d5\<lparr>td_messages := rev (td_messages d5)\<rparr>)"

definition task_detail_view :: "(task_detail \<Rightarrow> nat) \<Rightarrow> env \<Rightarrow> string \<Rightarrow> json \<Rightarrow> task_detail step" where
  "task_detail_view width E session tidj =
     andThen (lift (owner_ok session)) (\<lambda>_.
     andThen (lift (history_id tidj)) (\<lambda>tid.
     andThen (ensure_peer_reviews E session) (\<lambda>_. reads (\<lambda>s.
     andThen (lift (find_task s tid session)) (\<lambda>t.
     andThen (lift (mapE (operation_view E s)
       (filter (\<lambda>z. session_owned (o_session z) session \<and> o_task z = tid) (tall (operations s))))) (\<lambda>ops.
     andThen (collaborations_view E session (Some tid)) (\<lambda>cv.
     andThen (inbox_messages E session (Some tid)) (\<lambda>ms.
     andThen (lift (worker_view_of E s t)) (\<lambda>w.
     let safe_ops = set (map ov_id (filter (\<lambda>v. \<not> unsafe_reasons (ov_reasons v)) ops));
         safe_v2 = set (map vv_id (filter (\<lambda>v. \<not> unsafe_reasons (vv_reasons v)) (cp_operations cv)));
         as = filter (\<lambda>a. approval_task_id s a = Some tid) (own_approvals s session);
         d0 = \<lparr>td_task = t, td_worker = w, td_operations = [], td_approvals = [], td_collaborations = [],
               td_v2 = [], td_messages = [], td_cut = []\<rparr>
     in ret (fill_detail width (map (approval_detail_of safe_ops safe_v2) as)
       (map collaboration_detail_of (cp_items cv)) (map v2_detail_of (cp_operations cv))
       (map operation_detail_of ops) (map (\<lambda>m. message_detail_of (message_view_of E s session m)) ms) d0))))))))))"

section \<open>The events of a task\<close>

text \<open>A turn of a paired conversation, as the bridge keeps it.\<close>

datatype turn_status = TuSubmitted | TuRunning | TuCompleted | TuFailed | TuInterrupted

record bridge_turn =
  bt_id :: string
  bt_conversation :: string
  bt_console :: string
  bt_owner :: string
  bt_status :: turn_status
  bt_text :: string
  bt_mentions :: "string list"
  bt_response :: "string option"
  bt_error :: "string option"
  bt_created :: time
  bt_updated :: time

datatype event_source =
    FromJournal history_entry
  | FromProtocol v2_event
  | FromInbound inbound "string option"
  | FromTurn bridge_turn

record task_event =
  te_at :: time
  te_id :: string
  te_source :: event_source

definition journal_events :: "store \<Rightarrow> string \<Rightarrow> string \<Rightarrow> task_event list" where
  "journal_events s session tid =
     map (\<lambda>(n, h). \<lparr>te_at = h_at h, te_id = ''journal:'' @ pad_dec 20 (Suc n), te_source = FromJournal h\<rparr>)
       (filter (\<lambda>(n, h). h_owner h = principal session \<and> h_task h = tid) (enumerate 0 (history s)))"

definition protocol_events :: "store \<Rightarrow> string \<Rightarrow> string \<Rightarrow> string set \<Rightarrow> task_event list" where
  "protocol_events s session tid safe =
     map (\<lambda>e. \<lparr>te_at = e_at e, te_id = ''protocol:'' @ e_digest e, te_source = FromProtocol e\<rparr>)
       (filter (\<lambda>e. owned (e_owner e) session \<and> e_task e = tid \<and> pk_collaboration (e_packet e) \<in> safe)
         (tall (events s)))"

definition inbound_events :: "env \<Rightarrow> store \<Rightarrow> string \<Rightarrow> string \<Rightarrow> exn + task_event list" where
  "inbound_events E s session tid =
     bindE (filterE (\<lambda>m. if inbound_local_task s m session \<noteq> Some (Some tid) then Inr False
         else message_visible E s True m session) (tall (inbox s))) (\<lambda>ms.
     Inr (map (\<lambda>m. \<lparr>te_at = i_received m, te_id = ''inbound:'' @ w_id m, te_source = FromInbound m None\<rparr>) ms))"

definition turn_events :: "bridge_turn list \<Rightarrow> task_event list" where
  "turn_events turns = map (\<lambda>j. \<lparr>te_at = bt_created j, te_id = ''turn:'' @ bt_id j, te_source = FromTurn j\<rparr>) turns"

definition event_position :: "task_event \<Rightarrow> time \<times> string" where
  "event_position e = (te_at e, te_id e)"

text \<open>An event of more than 220000 bytes is shown with its long fields cut to 8000 characters.\<close>

definition event_bytes :: nat where
  "event_bytes = 220000"

definition shorten :: "task_event \<Rightarrow> task_event" where
  "shorten e = (case te_source e of
     FromInbound m _ \<Rightarrow> e\<lparr>te_source := FromInbound m (Some (pytake 8000 (w_text m)))\<rparr>
   | FromTurn j \<Rightarrow> e\<lparr>te_source := FromTurn (j\<lparr>bt_text := pytake 8000 (bt_text j),
        bt_response := Some (case bt_response j of None \<Rightarrow> ''None'' | Some r \<Rightarrow> pytake 8000 r)\<rparr>)\<rparr>
   | _ \<Rightarrow> e)"

definition fitted :: "(task_event \<Rightarrow> nat) \<Rightarrow> task_event \<Rightarrow> task_event" where
  "fitted width e = (if event_bytes < width e then shorten e else e)"

text \<open>The loop over the events of a page: \<open>n\<close> places are left and \<open>used\<close> bytes taken.\<close>

fun event_page :: "(task_event \<Rightarrow> nat) \<Rightarrow> nat \<Rightarrow> bool \<Rightarrow> nat \<Rightarrow> task_event list \<Rightarrow> task_event list" where
  "event_page width 0 first used es = []"
| "event_page width (Suc n) first used [] = []"
| "event_page width (Suc n) first used (e # es) =
     (let e' = fitted width e; w = width e' in
      if \<not> first \<and> event_bytes < used + w then [] else e' # event_page width n False (used + w) es)"

record event_list =
  el_items :: "task_event list"
  el_next :: "(time \<times> string) option"

definition event_list_of :: "(task_event \<Rightarrow> nat) \<Rightarrow> nat \<Rightarrow> (time \<times> string) option \<Rightarrow> task_event list \<Rightarrow> event_list" where
  "event_list_of width limit after es =
     (let rest = filter (\<lambda>e. case after of None \<Rightarrow> True | Some p \<Rightarrow> p < event_position e)
            (sort_key event_position es);
          page = event_page width limit True 0 rest
      in \<lparr>el_items = page,
          el_next = (if length page < length rest then Some (event_position (last page)) else None)\<rparr>)"

definition task_events :: "(task_event \<Rightarrow> nat) \<Rightarrow> env \<Rightarrow> string \<Rightarrow> json \<Rightarrow> json \<Rightarrow> (time \<times> string) option
    \<Rightarrow> bridge_turn list \<Rightarrow> event_list step" where
  "task_events width E session tidj limitj after turns =
     andThen (lift (owner_ok session)) (\<lambda>_.
     andThen (lift (history_id tidj)) (\<lambda>tid.
     andThen (lift (page_limit 20 limitj)) (\<lambda>limit.
     andThen (ensure_peer_reviews E session) (\<lambda>_. reads (\<lambda>s.
     andThen (lift (find_task s tid session)) (\<lambda>_.
     andThen (collaborations_view E session (Some tid)) (\<lambda>cv. reads (\<lambda>s.
     andThen (lift (inbound_events E s session tid)) (\<lambda>ins.
     ret (event_list_of width limit after
       (journal_events s session tid @ protocol_events s session tid (set (map v_id (cp_items cv)))
        @ ins @ turn_events turns)))))))))))"

end
