(* ===== verification/Resume.thy ===== *)
theory Resume
  imports Views
begin

text \<open>
  Detail of an attention item and the bookkeeping by which a host hands it to a native session
  (\<^verbatim>\<open>src/python/agent_comm_runtime/attention_resume.py\<close>): the session bound to a subject, the handling
  request of an item and its one submission. Whether a native session still exists is the host's
  answer, an argument \<open>resolve\<close> of the handlers; an exception of it aborts the transaction.
\<close>

type_synonym resolver = "string \<Rightarrow> exn + string option"

section \<open>The source of an item\<close>

datatype source =
    SInbound inbound
  | SApproval approval
  | SRequest contact_request
  | SOperation operation
  | SV2Operation v2_operation
  | SCollaboration collaboration
  | STurn turn
  | SWorker worker_policy

definition find_source :: "store \<Rightarrow> attention_item \<Rightarrow> source option" where
  "find_source s i = (let k = at_source_kind i; x = at_source_id i in
     if k = ''inbound'' then map_option SInbound (tget (at_subject i) (inbox s))
     else if k = ''contact_request'' \<or> k = ''contact_response'' then map_option SRequest (tget x (requests s))
     else if k = ''approval'' then map_option SApproval (tget x (approvals s))
     else if k = ''operation'' then map_option SOperation (tget x (operations s))
     else if k = ''v2_operation'' then map_option SV2Operation (tget x (v2_operations s))
     else if k = ''v2_collaboration'' then map_option SCollaboration (tget x (collaborations s))
     else if k = ''conversation_turn'' then map_option STurn (tget x (conversation_turns s))
     else if k = ''worker_policy'' then map_option SWorker (tget x (workers s))
     else None)"

fun source_owner :: "source \<Rightarrow> string" where
  "source_owner (SInbound m) = []"
| "source_owner (SApproval a) = principal (p_session a)"
| "source_owner (SRequest q) = q_owner q"
| "source_owner (SOperation z) = principal (o_session z)"
| "source_owner (SV2Operation z) = z_owner z"
| "source_owner (SCollaboration c) = v_owner c"
| "source_owner (STurn j) = tu_owner j"
| "source_owner (SWorker r) = wp_owner r"

text \<open>\<^verbatim>\<open>source.get("owner_session")\<close>\<close>

fun source_session :: "source \<Rightarrow> string option" where
  "source_session (SApproval a) = Some (p_session a)"
| "source_session (SOperation z) = Some (o_session z)"
| "source_session (SWorker r) = Some (wp_session r)"
| "source_session _ = None"

definition native_char :: "char \<Rightarrow> bool" where
  "native_char c \<longleftrightarrow> id_char c"

definition native_id :: "string \<Rightarrow> bool" where
  "native_id s \<longleftrightarrow> s \<noteq> [] \<and> length s \<le> 240 \<and> list_all native_char s"

definition starts :: "string \<Rightarrow> string \<Rightarrow> bool" where
  "starts p s \<longleftrightarrow> take (length p) s = p"

definition native_session_id :: "string \<Rightarrow> string option \<Rightarrow> string option" where
  "native_session_id owner so = (case so of
     None \<Rightarrow> None
   | Some w \<Rightarrow>
       let p = owner @ ''|''; c = (if starts p w then drop (length p) w else []) in
       if native_id c \<and> \<not> starts ''remote:'' c \<and> \<not> starts ''attention'' c then Some c else None)"

section \<open>The detail\<close>

datatype initiator = OwnRequest | OwnConsole | OwnConversation | FriendAgent string
  | SenderAgent "string list option" string | CollaborationAgent string

datatype approval_extra = XContact contact | XOperation operation | XV2 v2_operation | XNone

datatype detail_body =
    BTurn turn
  | BApproval approval approval_extra
  | BRequest contact_request
  | BInbound string string time string bool
  | BCollaboration collaboration
  | BOperation operation
  | BV2 v2_operation
  | BNone

record attention_detail =
  xd_item :: attention_item
  xd_context :: string
  xd_task :: "(task \<times> worker_view) option"
  xd_initiator :: initiator
  xd_resumable :: bool
  xd_body :: detail_body

text \<open>\<^verbatim>\<open>_attention_record\<close>\<close>

definition attention_record :: "env \<Rightarrow> string \<Rightarrow> json \<Rightarrow> json \<Rightarrow> bool \<Rightarrow> attention_item step" where
  "attention_record E session aidj revision must_open =
     andThen (lift (ident_ok ''attention_id'' aidj)) (\<lambda>aid.
     andThen (refresh_attention E session) (\<lambda>_. reads (\<lambda>s.
     case tget aid (attention s) of
       None \<Rightarrow> raise (ValueError ''Attention item is unavailable'')
     | Some i \<Rightarrow>
         andThen (refuse_if (\<not> owned (at_owner i) session) ''Attention item is unavailable'') (\<lambda>_.
         andThen (refuse_if (revision \<noteq> JNull \<and> revision \<noteq> JInt (at_revision i))
           ''Attention revision changed; refresh before handling'') (\<lambda>_.
         andThen (refuse_if (must_open \<and> at_state i \<noteq> AtOpen) ''Attention item is no longer open'') (\<lambda>_.
         ret i))))))"

definition safe_or_refuse :: "env \<Rightarrow> collaboration option \<Rightarrow> string \<Rightarrow> unit step" where
  "safe_or_refuse E co session = (case co of
     None \<Rightarrow> ret ()
   | Some c \<Rightarrow> andThen (collaboration_review_safe E c session) (\<lambda>safe.
       refuse_if (\<not> safe) ''Peer content is unavailable until owner review''))"

text \<open>The gates of \<^verbatim>\<open>_attention_detail\<close>, one per kind of source.\<close>

definition gate_approval :: "env \<Rightarrow> store \<Rightarrow> approval \<Rightarrow> string \<Rightarrow> unit step" where
  "gate_approval E s a session =
     andThen (refuse_if (p_invalid a = Some ''peer_blocked'') ''Attention approval was blocked by the owner'') (\<lambda>_.
     case p_payload a of
       PV2 _ \<Rightarrow> safe_or_refuse E (case tget (p_subject a) (v2_operations s) of
           None \<Rightarrow> None | Some z \<Rightarrow> known_collaboration s z) session
     | POperation _ _ \<Rightarrow> (case tget (p_subject a) (operations s) of
           None \<Rightarrow> ret ()
         | Some z \<Rightarrow> andThen (lift (operation_view E s z)) (\<lambda>v.
             refuse_if (ov_reasons v = [''peer_content_unavailable'']) ''Peer content is unavailable until owner review''))
     | _ \<Rightarrow> ret ())"

definition gate_source :: "env \<Rightarrow> store \<Rightarrow> source option \<Rightarrow> string \<Rightarrow> source step" where
  "gate_source E s so session = (case so of
     None \<Rightarrow> raise (ValueError ''Attention source is unavailable'')
   | Some (SInbound m) \<Rightarrow>
       andThen (lift (message_visible E s True m session)) (\<lambda>visible.
       andThen (refuse_if (\<not> visible) ''Attention source is unavailable'') (\<lambda>_. ret (SInbound m)))
   | Some x \<Rightarrow>
       andThen (refuse_if (\<not> owned (source_owner x) session) ''Attention source is unavailable'') (\<lambda>_.
       andThen (case x of
           SCollaboration c \<Rightarrow> safe_or_refuse E (Some c) session
         | SApproval a \<Rightarrow> gate_approval E s a session
         | SV2Operation z \<Rightarrow> safe_or_refuse E (known_collaboration s z) session
         | _ \<Rightarrow> ret ()) (\<lambda>_. ret x)))"

definition owned_task :: "store \<Rightarrow> string \<Rightarrow> string option \<Rightarrow> task option" where
  "owned_task s session to = (case to of
     None \<Rightarrow> None
   | Some tid \<Rightarrow> (case tget tid (tasks s) of
       Some t \<Rightarrow> if session_owned (t_session t) session then Some t else None
     | None \<Rightarrow> None))"

text \<open>\<^verbatim>\<open>purpose or topic or title\<close>\<close>

definition context_summary :: "attention_item \<Rightarrow> task option \<Rightarrow> string" where
  "context_summary i to = (case to of
     None \<Rightarrow> at_title i
   | Some t \<Rightarrow>
       if sc_purpose (t_scope t) \<noteq> [] then sc_purpose (t_scope t)
       else if sc_topic (t_scope t) \<noteq> [] then sc_topic (t_scope t) else at_title i)"

definition approval_extra_of :: "store \<Rightarrow> string \<Rightarrow> approval \<Rightarrow> approval_extra" where
  "approval_extra_of s session a = (case p_payload a of
     PContact c \<Rightarrow> XContact c
   | POperation _ _ \<Rightarrow> (case tget (p_subject a) (operations s) of
       Some z \<Rightarrow> if session_owned (o_session z) session then XOperation z else XNone | None \<Rightarrow> XNone)
   | PV2 _ \<Rightarrow> (case tget (p_subject a) (v2_operations s) of
       Some z \<Rightarrow> if owned (z_owner z) session then XV2 z else XNone | None \<Rightarrow> XNone)
   | _ \<Rightarrow> XNone)"

definition detail_body_of :: "store \<Rightarrow> string \<Rightarrow> source \<Rightarrow> detail_body" where
  "detail_body_of s session x = (case x of
     STurn j \<Rightarrow> BTurn j
   | SApproval a \<Rightarrow> BApproval a (approval_extra_of s session a)
   | SRequest q \<Rightarrow> BRequest q
   | SInbound m \<Rightarrow> BInbound (w_id m) (w_sender m) (i_received m) (pytake 16000 (w_text m)) (16000 < pylen (w_text m))
   | SCollaboration c \<Rightarrow> BCollaboration c
   | SOperation z \<Rightarrow> BOperation z
   | SV2Operation z \<Rightarrow> BV2 z
   | SWorker _ \<Rightarrow> BNone)"

definition initiator_of :: "store \<Rightarrow> string \<Rightarrow> source \<Rightarrow> initiator" where
  "initiator_of s session x = (case x of
     STurn _ \<Rightarrow> OwnConversation
   | SRequest q \<Rightarrow> FriendAgent (q_urn q)
   | SInbound m \<Rightarrow> SenderAgent (case filter (\<lambda>c. c_urn c = w_sender m) (own_contacts s session) of
        [] \<Rightarrow> None | c # _ \<Rightarrow> Some (c_aliases c)) (w_sender m)
   | SCollaboration c \<Rightarrow> CollaborationAgent (v_initiator c)
   | _ \<Rightarrow> (if starts (principal session @ ''|remote:'') (case source_session x of Some w \<Rightarrow> w | None \<Rightarrow> [])
           then OwnConsole else OwnRequest))"

definition origin_of :: "string \<Rightarrow> source \<Rightarrow> task option \<Rightarrow> string option" where
  "origin_of owner x to = (case native_session_id owner (source_session x) of
     Some c \<Rightarrow> Some c
   | None \<Rightarrow> (case to of Some t \<Rightarrow> native_session_id owner (Some (t_session t)) | None \<Rightarrow> None))"

definition attention_detail_of :: "env \<Rightarrow> attention_item \<Rightarrow> string \<Rightarrow> (attention_detail \<times> string option) step" where
  "attention_detail_of E i session = reads (\<lambda>s.
     andThen (gate_source E s (find_source s i) session) (\<lambda>x. reads (\<lambda>s.
     let t = owned_task s session (at_task i) in
     andThen (lift (case t of None \<Rightarrow> Inr None
       | Some t \<Rightarrow> bindE (worker_view_of E s t) (\<lambda>w. Inr (Some (t, w))))) (\<lambda>tw.
     ret (\<lparr>xd_item = i, xd_context = context_summary i t, xd_task = tw, xd_initiator = initiator_of s session x,
           xd_resumable = (at_state i = AtOpen \<and> (case x of STurn _ \<Rightarrow> False | _ \<Rightarrow> True)),
           xd_body = detail_body_of s session x\<rparr>,
          origin_of (principal session) x t)))))"

section \<open>Bindings\<close>

definition binding_key :: "env \<Rightarrow> attention_item \<Rightarrow> string" where
  "binding_key E i = digest E (JArr [JStr (at_owner i), jstrs (case at_task i of
     Some t \<Rightarrow> if t = [] then [''attention'', at_id i] else [''task'', t]
   | None \<Rightarrow> [''attention'', at_id i])])"

definition attention_detail :: "env \<Rightarrow> string \<Rightarrow> json
    \<Rightarrow> (attention_detail \<times> string option \<times> string option) step" where
  "attention_detail E session aidj =
     andThen (lift (owner_ok session)) (\<lambda>_.
     andThen (attention_record E session aidj JNull False) (\<lambda>i.
     andThen (attention_detail_of E i session) (\<lambda>(d, origin). reads (\<lambda>s.
     ret (d, origin, case tget (binding_key E i) (sessions s) of Some b \<Rightarrow> as_stored b | None \<Rightarrow> None)))))"

definition put_session :: "attention_session \<Rightarrow> unit step" where
  "put_session b = modify (\<lambda>s. s\<lparr>sessions := tput (as_binding b) b (sessions s)\<rparr>)"

definition put_resume :: "attention_resume \<Rightarrow> unit step" where
  "put_resume r = modify (\<lambda>s. s\<lparr>resumes := tput (ar_id r) r (resumes s)\<rparr>)"

text \<open>A handling request is for the revision the host names, or for none.\<close>

definition revision_json :: "int option \<Rightarrow> json" where
  "revision_json r = (case r of Some n \<Rightarrow> JInt n | None \<Rightarrow> JNull)"

definition asked_revision :: "attention_item \<Rightarrow> json \<Rightarrow> int option" where
  "asked_revision i revision = (if revision = JNull then None else Some (at_revision i))"

definition resume_key :: "env \<Rightarrow> attention_item \<Rightarrow> int option \<Rightarrow> int \<Rightarrow> string" where
  "resume_key E i revision generation = ''resume-'' @ take 48 (digest E (JArr [JStr (at_owner i), JStr (at_id i),
     revision_json revision, JInt generation]))"

definition bound_session :: "env \<Rightarrow> store \<Rightarrow> attention_item \<Rightarrow> string \<Rightarrow> attention_session" where
  "bound_session E s i session = (case tget (binding_key E i) (sessions s) of
     Some b \<Rightarrow> b
   | None \<Rightarrow> \<lparr>as_owner = principal session, as_binding = binding_key E i, as_generation = 0, as_stored = None\<rparr>)"

text \<open>A bound session that the host no longer has opens a new generation.\<close>

definition rebound :: "attention_session \<Rightarrow> string option \<Rightarrow> string option \<Rightarrow> attention_session" where
  "rebound b candidate resolved =
     (let b1 = (if candidate \<noteq> None \<and> resolved = None \<and> as_stored b \<noteq> None
                then b\<lparr>as_stored := None, as_generation := as_generation b + 1\<rparr> else b)
      in if resolved \<noteq> None then b1\<lparr>as_stored := resolved\<rparr> else b1)"

definition new_resume :: "env \<Rightarrow> attention_item \<Rightarrow> int option \<Rightarrow> string \<Rightarrow> int \<Rightarrow> attention_resume" where
  "new_resume E i revision bkey generation = \<lparr>ar_id = resume_key E i revision generation, ar_owner = at_owner i,
     ar_attention = at_id i, ar_revision = revision, ar_binding = bkey, ar_generation = generation,
     ar_state = SubReady, ar_created = now E, ar_token = None, ar_claimed = None, ar_session = None,
     ar_finished = None\<rparr>"

text \<open>A claim that was not finished within 60 seconds is uncertain, and stays so.\<close>

definition overdue :: "env \<Rightarrow> attention_resume \<Rightarrow> bool" where
  "overdue E r \<longleftrightarrow> ar_state r = SubSubmitting
     \<and> (case ar_claimed r of Some t \<Rightarrow> t | None \<Rightarrow> 0) + 60 * sec \<le> now E"

definition opened_resume :: "env \<Rightarrow> attention_item \<Rightarrow> int option \<Rightarrow> attention_session \<Rightarrow> attention_resume step" where
  "opened_resume E i revision b = reads (\<lambda>s.
     andThen (case tget (resume_key E i revision (as_generation b)) (resumes s) of
         Some r \<Rightarrow> ret r
       | None \<Rightarrow> (let r = new_resume E i revision (as_binding b) (as_generation b) in
           andThen (put_resume r) (\<lambda>_. ret r))) (\<lambda>r.
     if overdue E r then (let r' = r\<lparr>ar_state := SubUncertain\<rparr> in andThen (put_resume r') (\<lambda>_. ret r'))
     else ret r))"

datatype session_state = SessionAvailable | SessionMissing | SessionNone

record resume_offer =
  ro_id :: string
  ro_detail :: attention_detail
  ro_session :: "string option"
  ro_session_state :: session_state
  ro_state :: submission_state

definition nonempty_option :: "string option \<Rightarrow> string option" where
  "nonempty_option x = (if x = Some [] then None else x)"

definition attention_prepare_resume :: "env \<Rightarrow> resolver \<Rightarrow> string \<Rightarrow> json \<Rightarrow> json \<Rightarrow> resume_offer step" where
  "attention_prepare_resume E resolve session aidj revisionj =
     andThen (lift (owner_ok session)) (\<lambda>_.
     andThen (attention_record E session aidj revisionj True) (\<lambda>i.
     andThen (attention_detail_of E i session) (\<lambda>(d, origin).
     andThen (refuse_if (\<not> xd_resumable d)
       ''Return to the paired Web conversation; this result notice has no native handling request'') (\<lambda>_. reads (\<lambda>s.
     let b = bound_session E s i session;
         candidate = (case as_stored b of Some c \<Rightarrow> Some c | None \<Rightarrow> origin) in
     andThen (lift (case candidate of None \<Rightarrow> Inr None
       | Some c \<Rightarrow> bindE (resolve c) (\<lambda>w. Inr (nonempty_option w)))) (\<lambda>resolved.
     let b' = rebound b candidate resolved in
     andThen (put_session b') (\<lambda>_.
     andThen (opened_resume E i (asked_revision i revisionj) b') (\<lambda>r.
     ret \<lparr>ro_id = ar_id r, ro_detail = d, ro_session = resolved,
          ro_session_state = (if resolved \<noteq> None then SessionAvailable
            else if candidate \<noteq> None then SessionMissing else SessionNone),
          ro_state = ar_state r\<rparr>))))))))"

section \<open>One submission\<close>

text \<open>\<^verbatim>\<open>_attention_resume\<close>\<close>

definition current_resume :: "env \<Rightarrow> string \<Rightarrow> json \<Rightarrow> bool \<Rightarrow> (attention_resume \<times> attention_session) step" where
  "current_resume E session ridj current =
     andThen (lift (ident_ok ''resume_id'' ridj)) (\<lambda>rid. reads (\<lambda>s.
     case tget rid (resumes s) of
       None \<Rightarrow> raise (ValueError ''Handling request is unavailable'')
     | Some r \<Rightarrow>
         andThen (refuse_if (\<not> owned (ar_owner r) session) ''Handling request is unavailable'') (\<lambda>_.
         andThen (if current then andThen (attention_record E session (JStr (ar_attention r))
             (revision_json (ar_revision r)) True) (\<lambda>_. ret ()) else ret ()) (\<lambda>_. reads (\<lambda>s.
         case tget (ar_binding r) (sessions s) of
           None \<Rightarrow> raise (ValueError ''Handling session changed; refresh before continuing'')
         | Some b \<Rightarrow>
             andThen (refuse_if (as_generation b \<noteq> ar_generation r)
               ''Handling session changed; refresh before continuing'') (\<lambda>_. ret (r, b)))))))"

definition session_id_ok :: "json \<Rightarrow> exn + string" where
  "session_id_ok j = (case j of
     JStr c \<Rightarrow> if native_id c then Inr c else refuse ''Invalid native session ID''
   | _ \<Rightarrow> refuse ''Invalid native session ID'')"

definition attention_bind_session :: "env \<Rightarrow> resolver \<Rightarrow> string \<Rightarrow> json \<Rightarrow> json \<Rightarrow> string step" where
  "attention_bind_session E resolve session ridj sidj =
     andThen (lift (owner_ok session)) (\<lambda>_.
     andThen (lift (session_id_ok sidj)) (\<lambda>sid.
     andThen (current_resume E session ridj True) (\<lambda>(r, b).
     andThen (lift (resolve (case as_stored b of Some c \<Rightarrow> c | None \<Rightarrow> sid))) (\<lambda>found.
     case nonempty_option found of
       None \<Rightarrow> raise (ValueError (if as_stored b \<noteq> None
           then ''Bound session disappeared; prepare handling again''
           else ''Native session is not persisted in this profile''))
     | Some winner \<Rightarrow> andThen (put_session (b\<lparr>as_stored := Some winner\<rparr>)) (\<lambda>_. ret winner)))))"

datatype claim_reply = ClaimGranted string | ClaimHeld submission_state

definition claimed_resume :: "env \<Rightarrow> string \<Rightarrow> attention_resume \<Rightarrow> attention_resume" where
  "claimed_resume E sid r = r\<lparr>ar_state := SubSubmitting, ar_token := Some (fresh E), ar_claimed := Some (now E),
     ar_session := Some sid\<rparr>"

definition attention_claim_submit :: "env \<Rightarrow> resolver \<Rightarrow> string \<Rightarrow> json \<Rightarrow> string \<Rightarrow> claim_reply step" where
  "attention_claim_submit E resolve session ridj sid =
     andThen (lift (owner_ok session)) (\<lambda>_.
     andThen (current_resume E session ridj True) (\<lambda>(r, b).
     andThen (refuse_if (as_stored b = None \<or> as_stored b \<noteq> Some sid)
       ''Handling session does not match the binding'') (\<lambda>_.
     andThen (lift (resolve sid)) (\<lambda>found.
     andThen (refuse_if (found \<noteq> Some sid) ''Handling session disappeared or changed'') (\<lambda>_.
     if ar_state r \<noteq> SubReady then ret (ClaimHeld (ar_state r))
     else andThen (put_resume (claimed_resume E sid r)) (\<lambda>_. ret (ClaimGranted (fresh E))))))))"

text \<open>\<^verbatim>\<open>secrets.compare_digest\<close> raises \<^verbatim>\<open>TypeError\<close> on text outside ASCII.\<close>

definition token_matches :: "string option \<Rightarrow> json \<Rightarrow> exn + bool" where
  "token_matches kept j = (case j of
     JStr tok \<Rightarrow> if \<not> ascii tok then Inl (TypeError ''comparing strings with non-ASCII characters is not supported'')
       else Inr (tok \<noteq> [] \<and> (case kept of Some c \<Rightarrow> c = tok | None \<Rightarrow> tok = []))
   | _ \<Rightarrow> Inr False)"

definition submit_outcome :: "string \<Rightarrow> exn + submission_state" where
  "submit_outcome x = (if x = ''submitted'' then Inr SubSubmitted else if x = ''uncertain'' then Inr SubUncertain
     else refuse ''Invalid handling submission outcome'')"

definition attention_finish_submit :: "env \<Rightarrow> string \<Rightarrow> json \<Rightarrow> json \<Rightarrow> string \<Rightarrow> submission_state step" where
  "attention_finish_submit E session ridj tokj outcome =
     andThen (lift (owner_ok session)) (\<lambda>_.
     andThen (lift (submit_outcome outcome)) (\<lambda>st.
     andThen (current_resume E session ridj False) (\<lambda>(r, b).
     andThen (lift (token_matches (ar_token r) tokj)) (\<lambda>matches.
     andThen (refuse_if (\<not> matches) ''Handling submission claim does not match'') (\<lambda>_.
     if ar_state r = SubSubmitting
     then andThen (put_resume (r\<lparr>ar_state := st, ar_finished := Some (now E)\<rparr>)) (\<lambda>_. ret st)
     else ret (ar_state r))))))"

end
