(* ===== verification/Evolution_Views.thy ===== *)
theory Evolution_Views
  imports Evolution_Worker Resume
begin

text \<open>Every operation follows the order \<open>evolves\<close>: the owner's views and the handling of attention items.\<close>

section \<open>Views\<close>

lemma ev_list_contact_requests: "steps (evolves H) (list_contact_requests session)"
  unfolding list_contact_requests_def by (intro ev.steps_andThen ev.steps_lift ev.steps_reads ev.steps_ret)

lemma ev_task_list: "steps (evolves H) (task_list casefold session q l c)"
  unfolding task_list_def by (intro ev.steps_andThen ev.steps_lift ev.steps_reads ev.steps_ret)

lemma ev_pending_reviews:
  assumes E: "sha E = H" shows "steps (evolves H) (pending_peer_reviews E session)"
  unfolding pending_peer_reviews_def
  by (intro ev.steps_andThen ev_ensure_reviews [OF E] ev.steps_reads ev.steps_ret)

lemma ev_pending_confirmations:
  assumes E: "sha E = H" shows "steps (evolves H) (pending_confirmations E s session task)"
  unfolding pending_confirmations_def
  by (intro ev.steps_andThen ev.steps_filter_act ev.hk_approval_current ev.steps_ret E)

lemmas ev_reading = ev.steps_andThen ev.steps_lift ev.steps_let ev.steps_reads ev.steps_ret
  ev_ensure_reviews ev_collaborations_view ev_inbox_messages ev_pending_reviews ev_pending_confirmations

lemma ev_state_view:
  assumes E: "sha E = H" shows "steps (evolves H) (state_view E session task)"
  unfolding state_view_def by (intro ev_reading E)

lemma ev_task_detail_view:
  assumes E: "sha E = H" shows "steps (evolves H) (task_detail_view width E session tid)"
  unfolding task_detail_view_def by (intro ev_reading E)

lemma ev_task_events:
  assumes E: "sha E = H" shows "steps (evolves H) (task_events width E session tid limit after turns)"
  unfolding task_events_def by (intro ev_reading E)

section \<open>Handling of attention items\<close>

lemma ev_attention_record:
  assumes E: "sha E = H" shows "steps (evolves H) (attention_record E session aid revision must_open)"
  unfolding attention_record_def
  by (intro ev.steps_andThen ev.steps_lift ev_refresh_attention ev.steps_reads ev.steps_option ev.steps_raise
      ev.steps_refuse_if ev.steps_ret E)

lemma ev_safe_or_refuse:
  assumes E: "sha E = H" shows "steps (evolves H) (safe_or_refuse E co session)"
  unfolding safe_or_refuse_def
  by (intro ev.steps_option ev.steps_ret ev.steps_andThen ev.hk_review_safe ev.steps_refuse_if E)

lemma ev_gate_approval:
  assumes E: "sha E = H" shows "steps (evolves H) (gate_approval E s a session)"
  unfolding gate_approval_def
  by (intro ev.steps_andThen ev.steps_refuse_if)
    (auto intro!: ev_safe_or_refuse [OF E] ev.steps_ret ev.steps_option ev.steps_andThen ev.steps_lift
      ev.steps_refuse_if split: approval_payload.split)

lemma ev_gate_source:
  assumes E: "sha E = H" shows "steps (evolves H) (gate_source E s so session)"
proof -
  have gate: "steps (evolves H) (case x of SCollaboration c \<Rightarrow> safe_or_refuse E (Some c) session
      | SApproval a \<Rightarrow> gate_approval E s a session
      | SV2Operation z \<Rightarrow> safe_or_refuse E (known_collaboration s z) session | _ \<Rightarrow> ret ())" for x
    by (cases x) (auto intro: ev_safe_or_refuse [OF E] ev_gate_approval [OF E] ev.steps_ret)
  show ?thesis
  proof (cases so)
    case (Some x)
    then show ?thesis using gate [of x]
      by (cases x) (auto simp: gate_source_def intro!: ev.steps_andThen ev.steps_lift ev.steps_refuse_if ev.steps_ret)
  qed (simp add: gate_source_def ev.steps_raise)
qed

lemma ev_attention_detail_of:
  assumes E: "sha E = H" shows "steps (evolves H) (attention_detail_of E i session)"
  unfolding attention_detail_of_def
  by (intro ev_reading ev_gate_source E)

lemma ev_attention_detail:
  assumes E: "sha E = H" shows "steps (evolves H) (attention_detail E session aid)"
  unfolding attention_detail_def
  by (intro ev_reading ev_attention_record ev_attention_detail_of ev.steps_prod E)

lemma ev_put_session: "steps (evolves H) (put_session b)"
  unfolding put_session_def by (intro ev.steps_modify ev_free)

lemma ev_turn:
  assumes E: "sha E = H" shows "steps (evolves H) (record_conversation_event E j)"
  unfolding record_conversation_event_def
  by (intro ev.steps_reads ev.steps_option ev.steps_if ev.steps_ret ev.steps_andThen ev.steps_modify ev_free
      ev.h_attention E)

text \<open>Handling requests are written by the handlers of this section alone.\<close>

definition same_resumes :: "store \<Rightarrow> store \<Rightarrow> bool" where
  "same_resumes s t \<longleftrightarrow> resumes s = resumes t"

interpretation rs: hooks same_resumes H for H
proof
  show "steps same_resumes (attention_put E w sk si n)" for E w sk si n
    by (auto simp: steps_def attention_put_def Let_def same_resumes_def split: if_splits)
qed (auto simp: same_resumes_def)

lemma rs_inbound: "steps same_resumes (put_inbound E m)"
  using rs.hk_goes_inbound [OF refl] by (auto intro!: steps_goes simp: same_resumes_def)

lemmas rs_basic = rs.steps_reads rs.steps_if rs.steps_option rs.steps_raise rs.steps_ret rs.steps_andThen
  rs.steps_lift rs.steps_refuse_if rs.steps_for_each rs.steps_let rs_inbound rs.hk_audit rs.hk_stage [OF refl] rs.hk_event_review [OF refl]
  rs.hk_review_safe [OF refl] rs.hk_approval_current [OF refl] rs.hk_attention_approval [OF refl]
  rs.hk_attention_inbound [OF refl] rs.hk_attention_operation [OF refl] rs.hk_attention_collaboration [OF refl]
  rs.hk_worker_attention [OF refl] rs.h_attention [OF refl]

lemma rs_ensure_reviews: "steps same_resumes (ensure_peer_reviews E session)"
  unfolding ensure_peer_reviews_def ensure_message_review_def ensure_event_review_def
  by (intro rs_basic)

lemma rs_refresh_attention: "steps same_resumes (refresh_attention E session)"
  unfolding refresh_attention_def refresh_item_def attention_v1_def attention_v2_def inbox_messages_def
  by (intro rs_basic rs_ensure_reviews)

lemma rs_attention_record: "steps same_resumes (attention_record E session aid revision must_open)"
  unfolding attention_record_def by (intro rs_basic rs_refresh_attention)

lemma current_resume_run:
  assumes E: "sha E = H" and run: "current_resume E session ridj cur s = Inr ((r, b), t)"
  shows "evolves H s t \<and> resumes t = resumes s
    \<and> (\<exists>rid. ridj = JStr rid \<and> tget rid (resumes s) = Some r) \<and> owned (ar_owner r) session
    \<and> tget (ar_binding r) (sessions t) = Some b \<and> as_generation b = ar_generation r"
proof -
  obtain rid where rid: "ridj = JStr rid" "tget rid (resumes s) = Some r"
    and step: "(if cur then andThen (attention_record E session (JStr (ar_attention r)) (revision_json (ar_revision r)) True)
        (\<lambda>_. ret ()) else ret ()) s = Inr ((), t)"
    and rest: "owned (ar_owner r) session" "tget (ar_binding r) (sessions t) = Some b"
      "as_generation b = ar_generation r"
    using run by (auto simp: current_resume_def ident_ok_def refuse_def split: option.splits json.splits if_splits)
  have "evolves H s t \<and> same_resumes s t"
  proof (cases cur)
    case True
    then obtain i where "attention_record E session (JStr (ar_attention r)) (revision_json (ar_revision r)) True s = Inr (i, t)"
      using step by auto
    then show ?thesis
      using stepsD [OF ev_attention_record [OF E]] stepsD [OF rs_attention_record] by blast
  qed (use step in \<open>auto simp: evolves_refl same_resumes_def\<close>)
  then show ?thesis using rid rest by (simp add: same_resumes_def)
qed

lemma put_resume_run [simp]: "put_resume r s = Inr y \<longleftrightarrow> y = ((), s\<lparr>resumes := tput (ar_id r) r (resumes s)\<rparr>)"
  by (auto simp: put_resume_def)

lemma ev_opened_resume: "steps (evolves H) (opened_resume E i revision b)"
proof (rule stepsI)
  fix s r t
  assume run: "opened_resume E i revision b s = Inr (r, t)"
  show "evolves H s t"
  proof (rule evolves_vacuous)
    assume snd: "sound H s"
    define k where "k = resume_key E i revision (as_generation b)"
    let ?new = "new_resume E i revision (as_binding b) (as_generation b)"
    have new: "ar_id ?new = k" "\<not> overdue E ?new"
      by (simp_all add: new_resume_def k_def overdue_def)
    show "evolves H s t"
    proof (cases "tget k (resumes s)")
      case None
      then have "t = s\<lparr>resumes := tput (ar_id ?new) ?new (resumes s)\<rparr>"
        using run new by (auto simp: opened_resume_def k_def [symmetric] Let_def)
      then show ?thesis using None new by (auto intro!: ev_resume)
    next
      case (Some q)
      then have q: "ar_id q = k" using snd by (auto simp: sound_def keyed_def)
      have "resume_le q (q\<lparr>ar_state := SubUncertain\<rparr>)" if "overdue E q"
        using that by (auto simp: resume_le_def resume_core_def overdue_def)
      moreover have "t = s \<or> overdue E q \<and>
          t = s\<lparr>resumes := tput (ar_id (q\<lparr>ar_state := SubUncertain\<rparr>)) (q\<lparr>ar_state := SubUncertain\<rparr>) (resumes s)\<rparr>"
        using run Some q by (auto simp: opened_resume_def k_def [symmetric] Let_def split: if_splits)
      ultimately show ?thesis
        using Some q ev_resume [of H s "q\<lparr>ar_state := SubUncertain\<rparr>"] by (auto simp: evolves_refl)
    qed
  qed
qed

lemma ev_prepare_resume:
  assumes E: "sha E = H" shows "steps (evolves H) (attention_prepare_resume E resolve session aid revision)"
  unfolding attention_prepare_resume_def
  by (intro ev_reading ev_attention_record ev_attention_detail_of ev.steps_prod ev.steps_refuse_if ev_put_session
      ev_opened_resume E)

lemma ev_current_resume:
  assumes E: "sha E = H" shows "steps (evolves H) (current_resume E session ridj cur)"
  using current_resume_run [OF E] by (auto intro!: stepsI)

lemma ev_bind_session:
  assumes E: "sha E = H" shows "steps (evolves H) (attention_bind_session E resolve session ridj sidj)"
  unfolding attention_bind_session_def
  by (intro ev.steps_andThen ev.steps_lift ev_current_resume ev.steps_prod ev.steps_option ev.steps_raise
      ev_put_session ev.steps_ret E)

text \<open>A row that a handling request was read from may be advanced.\<close>

lemma ev_advance:
  assumes row: "tget rid (resumes t) = Some r" and le: "resume_le r q"
  shows "evolves H t (t\<lparr>resumes := tput (ar_id q) q (resumes t)\<rparr>)"
proof (rule evolves_vacuous)
  assume "sound H t"
  then have "ar_id r = rid" using row by (auto simp: sound_def keyed_def)
  then have "ar_id q = rid" using le by (simp add: resume_le_def resume_core_def)
  then show ?thesis using row le by (intro ev_resume) auto
qed

lemma claim_run_cases:
  assumes E: "sha E = H" and run: "attention_claim_submit E resolve session ridj sid s = Inr (y, t)"
  obtains rid r b u where "ridj = JStr rid" "tget rid (resumes s) = Some r" "current_resume E session ridj True s = Inr ((r, b), u)"
      "as_stored b = Some sid" "resolve sid = Inr (Some sid)" "evolves H s u" "resumes u = resumes s"
      "if ar_state r \<noteq> SubReady then y = ClaimHeld (ar_state r) \<and> t = u
       else y = ClaimGranted (fresh E) \<and> t = u\<lparr>resumes := tput (ar_id r) (claimed_resume E sid r) (resumes u)\<rparr>"
proof -
  obtain r b u where c: "current_resume E session ridj True s = Inr ((r, b), u)"
    and g: "as_stored b = Some sid" "resolve sid = Inr (Some sid)"
    and t: "if ar_state r \<noteq> SubReady then y = ClaimHeld (ar_state r) \<and> t = u
       else y = ClaimGranted (fresh E) \<and> t = u\<lparr>resumes := tput (ar_id r) (claimed_resume E sid r) (resumes u)\<rparr>"
    using run by (auto simp: attention_claim_submit_def claimed_resume_def split: if_splits)
  then show ?thesis using that current_resume_run [OF E c] by blast
qed

lemma claimed_le: "ar_state r = SubReady \<Longrightarrow> resume_le r (claimed_resume E sid r)"
  by (simp add: resume_le_def resume_core_def claimed_resume_def)

lemma ev_claim_submit:
  assumes E: "sha E = H" shows "steps (evolves H) (attention_claim_submit E resolve session ridj sid)"
proof (rule stepsI)
  fix s y t
  assume run: "attention_claim_submit E resolve session ridj sid s = Inr (y, t)"
  obtain rid r u where r: "tget rid (resumes s) = Some r" "evolves H s u" "resumes u = resumes s"
    and t: "if ar_state r \<noteq> SubReady then t = u
       else t = u\<lparr>resumes := tput (ar_id r) (claimed_resume E sid r) (resumes u)\<rparr>"
    using claim_run_cases [OF E run] by (metis (full_types))
  have "evolves H u t"
    using t r claimed_le [of r E sid] ev_advance [of rid u r "claimed_resume E sid r" H]
    by (auto simp: evolves_refl claimed_resume_def split: if_splits)
  then show "evolves H s t" using r evolves_trans by blast
qed

lemma ev_finish_submit:
  assumes E: "sha E = H" shows "steps (evolves H) (attention_finish_submit E session ridj tokj outcome)"
proof (rule stepsI)
  fix s y t
  assume run: "attention_finish_submit E session ridj tokj outcome s = Inr (y, t)"
  let ?finish = "\<lambda>st r. if ar_state r = SubSubmitting
    then andThen (put_resume (r\<lparr>ar_state := st, ar_finished := Some (now E)\<rparr>)) (\<lambda>_. ret st) else ret (ar_state r)"
  from run obtain st r b u where st: "submit_outcome outcome = Inr st"
    and c: "current_resume E session ridj False s = Inr ((r, b), u)" and fin: "?finish st r u = Inr (y, t)"
    unfolding attention_finish_submit_def run_andThen run_lift run_refuse_if by fastforce
  then have t: "if ar_state r = SubSubmitting
      then t = u\<lparr>resumes := tput (ar_id r) (r\<lparr>ar_state := st, ar_finished := Some (now E)\<rparr>) (resumes u)\<rparr> else t = u"
    by (simp split: if_split_asm)
  obtain rid where r: "tget rid (resumes u) = Some r" "evolves H s u"
    using current_resume_run [OF E c] by auto
  have "resume_le r (r\<lparr>ar_state := st, ar_finished := Some (now E)\<rparr>)" if "ar_state r = SubSubmitting"
    using st that by (auto simp: resume_le_def resume_core_def submit_outcome_def refuse_def split: if_splits)
  then have "evolves H u t"
    using t r(1) ev_advance [of rid u r "r\<lparr>ar_state := st, ar_finished := Some (now E)\<rparr>" H]
    by (auto simp: evolves_refl split: if_splits)
  then show "evolves H s t" using r evolves_trans by blast
qed

end
