(* ===== verification/System.thy ===== *)
theory System
  imports Receipts Evolution_Views
begin

text \<open>
  The system as a whole: the entry points of the runtime as commands, what a command does to the
  committed store, the stores that can be reached and how a store develops.
\<close>

section \<open>Commands\<close>

text \<open>\<^verbatim>\<open>Store._transaction\<close>: a transaction commits, or an exception rolls it back.\<close>

definition committed :: "'a step \<Rightarrow> store \<Rightarrow> store" where
  "committed m s = (case m s of Inr (_, t) \<Rightarrow> t | Inl _ \<Rightarrow> s)"

text \<open>
  One constructor per public operation of the store. An owner action is the two transactions of
  \<^verbatim>\<open>execute_owner_once\<close>; whatever its callback does in between are commands of their own.
\<close>

datatype command =
    Open
  | RegisterOwner string
  | RegisterResource json json json "json option" string
  | PrepareContact json json json string
  | PrepareResponse fields string
  | PrepareMessage fields string
  | MarkRead json string
  | SetBlock json bool string
  | ConsumeBlocked fields string
  | FlushOutbox nat
  | PrepareTask json json string
  | PrepareAction string json json string
  | Revoke string string
  | Dispatch string string
  | ImportProposal string string string
  | BeginConfirmation string string
  | FinishConfirmation string string string json
  | SyncInbox "json list"
  | ReadInbox string "string option"
  | ReadReviews string
  | PreviewReview json string
  | ReviewPeer json json string
  | ReadAttention string json json
  | PrepareCollaboration string json json string json string
  | DispatchCollaboration string string "run_context option"
  | RevokeMaintenance string string
  | ReadCollaborations string "string option"
  | PrepareWorker string json string
  | PauseWorker string string bool
  | WorkerTick string nat
  | RemoteMutation string json string string string time
  | OwnerClaim string string string time
  | OwnerComplete string string string json
  | ReadState string "string option"
  | ReadTask "task_detail \<Rightarrow> nat" string json
  | ReadEvents "task_event \<Rightarrow> nat" string json json "(time \<times> string) option" "bridge_turn list"
  | RecordTurn turn
  | ReadDetail string json
  | PrepareResume resolver string json json
  | BindSession resolver string json json
  | ClaimSubmit resolver string json string
  | FinishSubmit string json json string

fun serve :: "env \<Rightarrow> helper \<Rightarrow> command \<Rightarrow> store \<Rightarrow> store" where
  "serve E send Open s = committed (invalidate_legacy_accepts E) s"
| "serve E send (RegisterOwner w) s = committed (register_owner E w) s"
| "serve E send (RegisterResource r ti te pv w) s = committed (register_resource E r ti te pv w) s"
| "serve E send (PrepareContact c al u w) s = committed (prepare_contact E c al u w) s"
| "serve E send (PrepareResponse p w) s = committed (prepare_contact_response E p w) s"
| "serve E send (PrepareMessage p w) s = committed (prepare_message E p w) s"
| "serve E send (MarkRead m w) s = committed (andThen (lift (owner_ok w)) (\<lambda>_. mark_read E m w)) s"
| "serve E send (SetBlock u b w) s = committed (set_peer_block E u b w) s"
| "serve E send (ConsumeBlocked m w) s = committed (consume_blocked_peer E m w) s"
| "serve E send (FlushOutbox n) s = snd (flush_social_outbox E send n s)"
| "serve E send (PrepareTask t sc w) s = committed (prepare_task E t sc w) s"
| "serve E send (PrepareAction t z a w) s = committed (prepare_action E t z a w) s"
| "serve E send (Revoke t w) s = committed (revoke E t w) s"
| "serve E send (Dispatch z w) s = snd (dispatch E send z w s)"
| "serve E send (ImportProposal t m w) s = committed (import_proposal E t m w) s"
| "serve E send (BeginConfirmation a w) s = committed (begin_confirmation E a w) s"
| "serve E send (FinishConfirmation a tok w r) s = committed (finish_confirmation E a tok w r) s"
| "serve E send (SyncInbox ms) s = snd (sync_ingest E ms [] 0 s)"
| "serve E send (ReadInbox w t) s = committed (inbox_view E w t) s"
| "serve E send (ReadReviews w) s = committed (pending_peer_reviews E w) s"
| "serve E send (PreviewReview m w) s = committed (review_preview E m w) s"
| "serve E send (ReviewPeer m d w) s = committed (review_peer E m d w) s"
| "serve E send (ReadAttention w a l) s = committed (attention_feed E w a l) s"
| "serve E send (PrepareCollaboration t c z k p w) s = committed (prepare_collaboration E t c z k p w) s"
| "serve E send (DispatchCollaboration z w x) s = snd (dispatch_collaboration E send z w x s)"
| "serve E send (RevokeMaintenance c w) s = committed (revoke_collaboration_maintenance E c w) s"
| "serve E send (ReadCollaborations w t) s = committed (collaborations_view E w t) s"
| "serve E send (PrepareWorker t p w) s = committed (prepare_worker_policy E t p w) s"
| "serve E send (PauseWorker t w r) s = committed (pause_worker E t w r) s"
| "serve E send (WorkerTick p n) s = (case run_worker_tick E send p n s of Inr t \<Rightarrow> t | Inl _ \<Rightarrow> s)"
| "serve E send (RemoteMutation m p w k fp v) s = committed (remote_mutation E m p w k fp v) s"
| "serve E send (OwnerClaim w k fp v) s = committed (owner_action_claim E w k fp v) s"
| "serve E send (OwnerComplete w k fp r) s = committed (owner_action_complete E w k fp r) s"
| "serve E send (ReadState w t) s = committed (state_view E w t) s"
| "serve E send (ReadTask width w t) s = committed (task_detail_view width E w t) s"
| "serve E send (ReadEvents width w t l a js) s = committed (task_events width E w t l a js) s"
| "serve E send (RecordTurn j) s = committed (record_conversation_event E j) s"
| "serve E send (ReadDetail w a) s = committed (attention_detail E w a) s"
| "serve E send (PrepareResume res w a r) s = committed (attention_prepare_resume E res w a r) s"
| "serve E send (BindSession res w r i) s = committed (attention_bind_session E res w r i) s"
| "serve E send (ClaimSubmit res w r i) s = committed (attention_claim_submit E res w r i) s"
| "serve E send (FinishSubmit w r tok o') s = committed (attention_finish_submit E w r tok o') s"

section \<open>Reachable stores\<close>

text \<open>
  Every command runs in its own environment (time, local identity, fresh tokens, bound turn); only
  the hash function stays.
\<close>

inductive develops :: "(string \<Rightarrow> string) \<Rightarrow> store \<Rightarrow> store \<Rightarrow> bool" for H where
  same: "develops H s s"
| more: "develops H s t \<Longrightarrow> sha E = H \<Longrightarrow> develops H s (serve E send c t)"

definition reachable :: "(string \<Rightarrow> string) \<Rightarrow> store \<Rightarrow> bool" where
  "reachable H s \<longleftrightarrow> develops H empty_store s"

lemma committed_evolves: "steps (evolves H) m \<Longrightarrow> evolves H s (committed m s)"
  by (auto simp: committed_def evolves_refl dest: stepsD split: sum.splits)

lemma serve_evolves:
  assumes E: "sha E = H" shows "evolves H s (serve E send c s)"
proof (cases c)
  case (MarkRead m w)
  then show ?thesis
    by (auto intro!: committed_evolves ev.steps_andThen ev.steps_lift ev_mark_read [OF E])
next
  case (WorkerTick p n)
  then show ?thesis
    using ev_run_worker_tick [OF E] by (auto simp: evolves_refl split: sum.splits)
next
  case (FlushOutbox n)
  then show ?thesis by (simp add: flush_social_outbox_def ev_flush_all)
next
  case (ReadReviews w)
  then show ?thesis by (simp add: committed_evolves ev_pending_reviews [OF E])
qed (auto intro!: committed_evolves ev_invalidate_legacy [OF E] ev_register_owner [OF E] ev_register_resource
    ev_prepare_contact [OF E] ev_prepare_response [OF E] ev_prepare_message [OF E] ev_set_peer_block [OF E]
    ev_consume_blocked ev_prepare_task [OF E] ev_prepare_action [OF E] ev_revoke [OF E] ev_dispatch [OF E]
    ev_import_proposal ev_begin_confirmation [OF E] ev_finish_confirmation [OF E] ev_sync_ingest [OF E]
    ev_inbox_view [OF E] ev_review_preview [OF E] ev_review_peer [OF E] ev_attention_feed [OF E]
    ev_prepare_collaboration [OF E] ev_dispatch_collaboration [OF E] ev_revoke_maintenance [OF E]
    ev_collaborations_view [OF E] ev_prepare_worker [OF E] ev_pause_worker [OF E] ev_remote_mutation [OF E]
    ev_owner_action_claim ev_owner_action_complete ev_state_view [OF E] ev_task_detail_view [OF E]
    ev_task_events [OF E] ev_turn [OF E] ev_attention_detail [OF E] ev_prepare_resume [OF E] ev_bind_session [OF E]
    ev_claim_submit [OF E] ev_finish_submit [OF E])

lemma develops_evolves: "develops H s t \<Longrightarrow> evolves H s t"
  by (induction rule: develops.induct) (auto intro: evolves_refl evolves_trans serve_evolves)

lemma develops_trans: "develops H t u \<Longrightarrow> develops H s t \<Longrightarrow> develops H s u"
  by (induction rule: develops.induct) (auto intro: develops.intros)

lemma empty_sound: "sound H empty_store"
  by (simp add: sound_def keyed_def empty_store_def reviews_keyed_def feed_ok_def all_rows_def)

lemma reachable_sound: "reachable H s \<Longrightarrow> sound H s"
  unfolding reachable_def using develops_evolves evolves_sound empty_sound by blast

lemma reachable_grows: "reachable H s \<Longrightarrow> develops H s t \<Longrightarrow> grows s t"
  using develops_evolves reachable_sound by (auto simp: evolves_def)

lemma reachable_serve: "reachable H s \<Longrightarrow> sha E = H \<Longrightarrow> reachable H (serve E send c s)"
  unfolding reachable_def by (rule more)

lemma develops_reachable: "reachable H s \<Longrightarrow> develops H s t \<Longrightarrow> reachable H t"
  unfolding reachable_def by (rule develops_trans)

end
