(* ===== verification/Scenario_Base.thy ===== *)
theory Scenario_Base
  imports System
begin

text \<open>A concrete environment, console and peers, and the rules by which the handlers are evaluated on them.\<close>

definition hash0 :: "string \<Rightarrow> string" where
  "hash0 x = ''h''"

definition env0 :: env where
  "env0 = \<lparr>now = 1000 * sec, local_urn = None, sha = hash0, fresh = ''f1'', binding = None\<rparr>"

definition owner0 :: string where "owner0 = ''me|s1''"

definition key0a :: string where "key0a = replicate 64 CHR ''1''"
definition finger0 :: string where "finger0 = replicate 64 CHR ''2''"

definition contact_cmd :: command where
  "contact_cmd = RemoteMutation ''contacts.add'' (JObj [(''contact_id'', JStr ''bob''),
     (''aliases'', JArr [JStr ''Bob'']), (''urn'', JStr ''urn:agent:acme:bob'')]) owner0
     key0a finger0 (2000 * sec)"

definition scope0 :: json where
  "scope0 = JObj [(''purpose'', JStr ''meet''), (''topic'', JStr ''lunch''),
     (''capabilities'', jstrs [''share_slots'']), (''recipient_ids'', jstrs [''bob'']),
     (''participant_ids'', JArr []), (''resource_ids'', JArr []),
     (''window_start'', JStr ''1970-01-01T00:00:00Z''), (''window_end'', JStr ''1970-01-02T00:00:00Z''),
     (''max_duration_minutes'', JInt 60), (''max_candidates'', JInt 4), (''max_actions'', JInt 3),
     (''expires_at'', JStr ''1970-01-01T12:00:00Z'')]"

definition helper0 :: helper where
  "helper0 body = (case body of
     JObj kvs \<Rightarrow> Inr (JObj [(''success'', JBool True), (''message_id'', jfield ''message_id'' kvs)])
   | _ \<Rightarrow> Inl (OSError ''body''))"

lemma andThen_weak: "m = m' \<Longrightarrow> andThen m f = andThen m' f" by simp
lemma reads_weak: "reads f = reads f" by simp
lemma modify_weak: "modify f = modify f" by simp
lemma savepoint_weak: "savepoint p m h = savepoint p m h" by simp
lemma bindE_weak: "m = m' \<Longrightarrow> bindE m f = bindE m' f" by simp
lemma mapE_weak: "xs = ys \<Longrightarrow> mapE f xs = mapE f ys" by simp
lemma for_each_weak: "xs = ys \<Longrightarrow> for_each xs f = for_each ys f" by simp
lemma digest_weak: "digest E j = digest E j" by simp
lemma skey_weak: "skey E j = skey E j" by simp
lemma key_weak: "key E j = key E j" by simp

lemmas eval_cong = andThen_weak reads_weak modify_weak savepoint_weak bindE_weak mapE_weak for_each_weak
  digest_weak skey_weak key_weak let_weak_cong

lemma digest0: "digest env0 j = ''h''" by (simp add: digest_def env0_def hash0_def)
lemma key0: "key env0 j = ''h''" by (simp add: key_def env0_def hash0_def)
lemma skey0: "skey env0 j = ''h''" by (simp add: skey_def key0)

lemma env0_sel: "now env0 = 1000 * sec" "local_urn env0 = None" "fresh env0 = ''f1''" "binding env0 = None"
  by (simp_all add: env0_def)

lemma run_eqs:
  "andThen m f s = (case m s of Inl e \<Rightarrow> Inl e | Inr (x, t) \<Rightarrow> f x t)"
  "ret y s = Inr (y, s)" "raise e s = Inl e" "modify g s = Inr ((), g s)"
  "lift (Inr y) s = Inr (y, s)" "lift (Inl e) s = Inl e" "refuse_if True msg s = Inl (ValueError msg)"
  "refuse_if False msg s = Inr ((), s)" "act_when True n s = n s" "act_when False n s = Inr ((), s)"
  by (simp_all add: act_defs)

lemmas eval_defs = byte_def chr_def eat_def cont_byte_def utf8_def surrogate_def 
  encodable_def ascii_digit_def ascii_alnum_def cp_space_def cp_strip_def py_strip_def 
  py_blank_def cp_casefold_def py_casefold_def id_char_def is_identifier_def digit_char_def 
  int_dec_def join_def fixed_digits_def jget_def jkeys_def jstr_opt_def jstrs_def hex_digit_def 
  esc_char_def json_string_def sort_items_def json_eq_def json_ws_def skip_ws_def hex_val_def 
  unicode_escape_def simple_escape_def take_digits_def read_number_def read_word_def dict_of_def 
  sec_def leap_def days_before_year_def month_lengths_def days_in_month_def 
  days_before_month_def ymd2ord_def ord2ymd_def max_ordinal_def epoch_ordinal_def day_us_def 
  min_instant_def max_instant_def instant_ok_def civil_def read_fraction_def 
  read_offset_def sep2_def rfc3339_fields_def fields_valid_def fields_instant_def 
  rfc3339_shape_def parse_instant_def parse_utc_def ns_char_def nid_char_def ns_ok_def nid_ok_def 
  is_urn_def urn_error_def validate_urn_def capabilities_all_def cap_of_def interval_json_def 
  scope_json_def meeting_json_def action_json_def vfail_def check_object_def jfield_def 
  check_string_def check_identifier_def sorted_set_def check_ids_def check_integer_def 
  check_time_def check_interval_def scope_fields_def check_windows_def validate_scope_def 
  validate_payload_def check_capability_def validate_action_def mk_verdict_def subset_delta_def 
  limit_delta_def payload_delta_def outside_list_def in_window_def in_some_window_def 
  short_enough_def time_delta_def scope_delta_def judge_action_def evaluate_scope_def evaluate_def 
  quoted_def nl_def label_of_def render_scope_text_def render_scope_def render_action_text_def 
  render_action_def is_sha256_def compile_resource_def compile_text_def compile_message_def 
  v2_kinds_def v2_kind_of_def empty_store_def u_escape_def ascii_escape_def time_text_def 
   instant_def iso_instant_def store_instant_def jinstant_def contact_json_def resource_json_def opt_item_def wire_json_def 
  social_json_def verdict_json_def limits_json_def v2_protocol_def packet_json_def jopt_def 
  acceptance_json_def acceptances_json_def permit_json_def context_digest_def draft_json_def 
  opt_action_json_def v2_hash_json_def refuse_def v2_identifier_def v2_urn_def v2_instant_def 
  exact_def ascii_def max_events_def sync_kinds_def maintenance_kinds_def recovery_kinds_def 
  review_kinds_def packet_fields_def check_kind_def check_sequence_def check_previous_def 
  as_str_def validate_event_def object_of_def v2_object_def principal_def owned_def 
  session_owned_def owner_ok_def ident_ok_def safety_revision_def peer_blocked_def 
  message_tombstone_def outgoing_requests_def request_rank_def contact_status_def mail_owner_def 
  sender_connection_state_def own_contacts_def can_send_to_def social_kinds_def kind_in_def 
  kind_member_def needs_peer_review_def review_key_def stage_check_def stage_peer_review_def 
  same_packet_def event_review_def review_events_def collaboration_review_safe_def 
  inbound_local_task_def message_review_safe_def message_visible_def proposal_review_safe_def 
  live_def proposal_key_def proposal_digest_def proposal_current_def worker_policy_current_def 
  permit_live_def v2_operation_current_def worker_approval_current_def approval_current_def 
  approval_task_id_def max_cursor_def notice_default_def attention_key_def attention_value_def 
  attention_content_def counter_def attention_put_def notice_of_def terminal_turn_def 
  turn_notice_def record_conversation_event_def approval_state_def approval_deadline_def 
  attention_approval_def announced_contacts_def announced_owners_def event_kinds_announced_def 
  announce_inbound_def attention_inbound_def attention_operation_def attention_v1_def 
  attention_v2_def is_local_def own_active_def obj_field_def peer_cancel_def 
  collaboration_need_def collaboration_source_def collaboration_state_def 
  attention_collaboration_def worker_needs_owner_def worker_attention_def friend_attention_def 
  dict_json_def context_json_def bound_source_def binding_owns_def record_link_def journal_def 
  audit_def put_task_def put_approval_def put_operation_def put_v2_operation_def put_inbound_def 
  collaboration_row_def put_collaboration_def put_contact_def put_request_def put_outbox_def 
  put_proposal_def put_worker_def put_run_def put_event_def put_connection_def public_view_def 
  approval_fingerprint_def request_approval_def ensure_message_review_def ensure_event_review_def 
  ensure_peer_reviews_def terms_fields_def py_iter_def local_or_empty_def both_urns_def 
  is_jstr_def terms_participants_def terms_action_def v2_key_def event_key_def v2_record_def 
  terms_digest_def sync_events_def exact_fields_def proposal_payload_def receipt_payload_def 
  v2_payload_def jneed_def jindex_def buffered_def proposal_precondition_def 
  accept_precondition_def v2_precondition_def save_event_def maintenance_verdict_def v2_text_def 
  queued_operation_def pending_maintenance_def v2_queue_def acceptance_stale_def formation_def 
  v2_form_def meeting_kind_fields_def opening_ok_def apply_opening_def apply_terms_def 
  apply_accept_def cursor_of_def json_le_def evidence_ok_def withdrawn_before_def cursor_ok_def 
  same_agreement_def agreement_fields_def apply_agreement_def agreement_id_matches_def 
  complete_def apply_ack_def apply_withdraw_def apply_cancel_def processing_status_def 
  apply_receipt_def sequence_taken_def record_event_def history_ok_def apply_sync_def v2_apply_def 
  ingest_bound_def advance_def receipt_for_def reduce_event_def consume_def next_event_def 
  drain_buffered_def drain_step_def has_gap_def resume_phase_def settle_def v2_drain_def 
  record_invitation_def ingest_v2_record_def need_def alias_ok_def alias_error_def 
  check_aliases_def self_error_def contact_value_def own_contact_with_def contacts_view_def 
  queue_social_def social_protocol_def social_packet_def request_contact_def 
  prepare_existing_contact_def contact_question_def prepare_contact_def mark_read_def 
  promotable_def release_def review_reason_def promote_one_def promote_pending_messages_def 
  social_fields_def decision_value_def social_object_def ingest_request_def response_notice_def 
  ingest_response_def ingest_social_def register_owner_def accepted_contact_def 
  response_values_def respond_contact_def prepare_contact_response_def message_values_def 
  send_message_def prepare_message_def sendable_def acknowledged_def flush_one_def 
  flush_candidates_def flush_social_outbox_def tombstone_def block_messages_def block_requests_def 
  block_outbox_def tasks_with_peer_def block_workers_def block_collaboration_def 
  blocked_collaborations_def block_operations_def block_v2_operations_def is_response_def 
  undecided_def concerns_peer_def retire_def block_approvals_def block_attention_def 
  retire_peer_def max_revision_def put_block_def bump_safety_def set_peer_block_def 
  consume_blocked_peer_def check_resource_title_def check_resource_text_def provenance_value_def 
  check_provenance_def register_resource_def resolve_contact_def contact_owned_def contact_urn_def 
  find_task_def find_contact_def find_resource_def with_error_def scope_references_def 
  identities_def materials_def ask_task_def prepare_task_def exposes_def 
  slots_of_def exposed_slots_def total_slots_def exceeds_candidates_def candidate_total_key_def 
  limit_candidates_def evaluate_current_def operation_live_def proposal_id_of_def 
  operation_view_def participants_of_def wire_participant_def wire_action_def wire_text_def 
  content_json_def proposal_gate_def base_hash_def view_outcome_def 
  store_operation_def prepare_fresh_def prepare_action_def revoke_def pending_batch_def 
  delivery_for_def reservation_def reserve_ready_def dispatch_reserve_def 
  helper_body_def delivered_status_def deliver_one_def dispatch_def apply_v2_status_def 
  apply_operation_def apply_approval_def deny_approval_def lease_end_def displayed_def 
  find_approval_def task_deadline_def grant_deadline_def begin_confirmation_def yes_words_def 
  no_words_def answer_of_def consumed_def resolve_answer_def finish_confirmation_def 
  confirmation_result_def console_decision_def remote_respond_approval_def 
  fulfil_contact_approval_def contact_view_of_def remote_add_contact_def wire_field_def 
  control_kind_def parse_wire_def stored_def from_blocked_def incoming_state_def 
  ingest_connected_def ingest_wire_def ingest_message_def last_n_def owned_tasks_def listed_def 
  inbox_messages_def pending_peer_reviews_def inbox_view_def review_record_def review_blocked_def 
  preview_json_def review_preview_def review_decision_def release_reviewed_def drain_peer_def 
  decided_review_def review_key_of_def review_message_def review_peer_def refresh_item_def 
  refresh_attention_def feed_after_def attention_page_of_def attention_feed_def pair_of_def 
  dict_value_def local_participant_def proposal_packet_def imported_meeting_def importable_def 
  import_proposal_def mutation_required_def mutation_optional_def mutation_params_def 
  run_mutation_def replay_error_def remote_mutation_def owner_action_claim_def 
  owner_action_complete_def execute_owner_once_def legacy_accept_def upgrade_reason_def 
  retire_legacy_approval_def invalidate_legacy_accepts_def plain_view_def known_collaboration_def 
  v2_operation_view_def find_collaboration_def max_maintenance_def day_def draft_def 
  invite_peer_def join_peer_def open_collaboration_def bound_collaboration_def is_recovery_def 
  ask_verdict_def v2_authority_def v2_request_digest_def 
  prepared_def prepare_bound_def prepare_collaboration_def context_session_def worker_error_def 
  check_worker_context_def reserve_worker_send_def worker_may_send_def v2_packet_def adopt_def 
  charge_def wire_delivery_def reserve_packet_def worker_gate_def reserve_v2_ready_def 
  v2_reserve_def v2_body_def apply_reserved_def submit_def v2_send_def dispatch_collaboration_def 
  revoke_permit_def revoke_collaboration_maintenance_def invitation_message_def 
  open_invitation_def collaborations_view_def limits_fields_def bool_field_def bounded_field_def 
  parse_limits_def fixed_proposal_def worker_deadline_def capability_granted_def limits_of_def 
  prepare_worker_policy_def worker_status_str_def exhausted_def 
  worker_view_of_def pause_worker_def due_def stop_worker_def worker_operation_id_def 
  meeting_fields_def plan_run_def finish_run_def new_context_def plan_claimed_def claim_due_def 
  claim_decision_of_def claim_run_def pausing_reasons_def record_run_def run_failed_def 
  sent_reason_def dispatch_run_def carry_out_def after_run_def tick_one_def due_policies_def 
  run_worker_tick_def

lemma hex0: "hex64 key0a" "hex64 finger0"
  by (simp_all add: hex64_def is_sha256_def key0a_def finger0_def list_all_iff ascii_digit_def byte_def)

definition env1 :: env where
  "env1 = \<lparr>now = 1000 * sec, local_urn = Some ''urn:agent:acme:me'', sha = hash0, fresh = ''f1'', binding = None\<rparr>"

lemma env1_rules: "now env1 = 1000 * sec" "local_urn env1 = Some ''urn:agent:acme:me''" "fresh env1 = ''f1''"
  "binding env1 = None" "digest env1 j = ''h''" "key env1 js = ''h''" "skey env1 ks = ''h''"
  by (simp_all add: env1_def digest_def key_def skey_def hash0_def)

definition eve_mail :: json where
  "eve_mail = JObj [(''message_id'', JStr ''m1''), (''sender_urn'', JStr ''urn:agent:acme:eve''),
     (''text'', JStr ''hello''), (''kind'', JStr ''chat.message'')]"

definition answer_text :: string where
  "answer_text = social_packet ''response'' ''friend-f1'' (Some ''accept'')"

definition bob_answer :: json where
  "bob_answer = JObj [(''message_id'', JStr ''m2''), (''sender_urn'', JStr ''urn:agent:acme:bob''),
     (''text'', JStr answer_text), (''kind'', JStr ''contact.response''),
     (''conversation_id'', JStr ''friend-f1''), (''in_reply_to'', JStr ''friend-f1'')]"

definition bob_mail :: json where
  "bob_mail = JObj [(''message_id'', JStr ''m3''), (''sender_urn'', JStr ''urn:agent:acme:bob''),
     (''text'', JStr ''hi there''), (''kind'', JStr ''chat.message'')]"

text \<open>A bound of the canonical text that is quicker to compute than the text.\<close>

fun bulk :: "json \<Rightarrow> nat" where
  "bulk (JInt n) = length (int_dec n)"
| "bulk (JFloat s) = length s"
| "bulk (JStr s) = 2 + 6 * length s"
| "bulk (JArr xs) = 2 + sum_list (map (\<lambda>x. 1 + bulk x) xs)"
| "bulk (JObj kvs) = 2 + sum_list (map (\<lambda>(k, v). 4 + 6 * length k + bulk v) kvs)"
| "bulk _ = 5"

lemma length_esc: "length (esc_char c) \<le> 6"
  by (simp add: esc_char_def Let_def)

lemma length_json_string: "length (json_string s) \<le> 2 + 6 * length s"
proof -
  have "length (concat (map esc_char s)) \<le> 6 * length s"
  proof (induction s)
    case (Cons c s) then show ?case using length_esc [of c] by simp
  qed simp
  then show ?thesis by (simp add: json_string_def)
qed

lemma length_join: "length (join i xs) \<le> sum_list (map (\<lambda>x. length i + length x) xs)"
  unfolding join_def by (induction xs rule: induct_list012) auto

lemma sum_list_sort_items: "sum_list (map f (sort_items xs)) = (sum_list (map f xs) :: nat)"
proof -
  have i: "sum_list (map f (insort_key fst x ys)) = f x + sum_list (map f ys)" for x ys
    by (induction ys) auto
  show ?thesis unfolding sort_items_def by (induction xs) (simp_all add: i)
qed

lemma length_dumps: "length i = 1 \<Longrightarrow> length k = 1 \<Longrightarrow> length (dumps i k j) \<le> bulk j"
proof (induction i k j rule: dumps.induct)
  case (6 i k xs)
  have "sum_list (map (\<lambda>x. length i + length x) (map (dumps i k) xs)) \<le> sum_list (map (\<lambda>x. 1 + bulk x) xs)"
    unfolding map_map using 6 by (auto intro!: sum_list_mono)
  with length_join [of i "map (dumps i k) xs"] show ?case by simp
next
  case (7 i k kvs)
  let ?g = "\<lambda>(key, t). json_string key @ k @ t"
  let ?p = "map (\<lambda>(key, v). (key, dumps i k v)) kvs"
  have "sum_list (map (\<lambda>x. length i + length x) (map ?g (sort_items ?p)))
      = sum_list (map (\<lambda>x. length i + length x) (map ?g ?p))"
    unfolding map_map [of _ ?g] by (rule sum_list_sort_items)
  also have "\<dots> \<le> sum_list (map (\<lambda>(k, v). 4 + 6 * length k + bulk v) kvs)"
  proof (unfold map_map, rule sum_list_mono, goal_cases)
    case (1 x)
    then obtain key v where x: "x = (key, v)" "(key, v) \<in> set kvs" by (metis surj_pair)
    from 7(1) [OF x(2) refl 7(2,3)] length_json_string [of key] show ?case using 7(2,3) by (simp add: x)
  qed
  finally show ?case using length_join [of i "map ?g (sort_items ?p)"] by simp
next
  case (5 i k s) then show ?case using length_json_string [of s] by simp
qed simp_all

lemma length_canonical: "length (canonical j) \<le> bulk j"
  unfolding canonical_def by (rule length_dumps) simp_all

lemma encodable_ascii: "list_all (\<lambda>c. byte c < 128) s \<Longrightarrow> encodable s"
  unfolding encodable_def
proof (induction s rule: codepoints.induct)
  case (2 a r) then show ?case by (simp add: surrogate_def)
qed simp

lemma text_rules:
  "json_loads ''hello'' = None" "json_loads ''hi there'' = None"
  "json_loads answer_text = Some (JObj [(''decision'', JStr ''accept''),
     (''protocol'', JStr ''agent-comm-contacts/v1''), (''request_id'', JStr ''friend-f1''),
     (''type'', JStr ''response'')])"
  by code_simp+

lemma body_rules:
  "wire_body (JStr ''hello'') = Inr ''hello''" "wire_body (JStr ''hi there'') = Inr ''hi there''"
  by (simp_all add: wire_body_def encodable_ascii byte_def)

lemma answer_rule: "wire_body (JStr answer_text) = Inr answer_text"
proof -
  have a: "list_all (\<lambda>c. byte c < 128) answer_text" by code_simp
  have b: "1 \<le> length answer_text \<and> length answer_text \<le> 400" by code_simp
  from a b show ?thesis by (simp add: wire_body_def encodable_ascii)
qed

lemma preview_rule:
  "200000 < length (canonical (JObj [(''message_id'', JStr ''m3''), (''sender_urn'', JStr ''urn:agent:acme:bob''),
     (''kind'', JStr ''chat.message''), (''received_at'', jtime 1000000000), (''status'', JStr ''pending''),
     (''fingerprint'', JStr ''h''), (''text'', JStr ''hi there''), (''text_truncated'', JBool False)])) \<longleftrightarrow> False"
  (is "200000 < length (canonical ?j) \<longleftrightarrow> False")
proof -
  have "bulk ?j \<le> 2000" by code_simp
  with length_canonical [of ?j] show ?thesis by simp
qed

definition scope1 :: scope where
  "scope1 = \<lparr>sc_purpose = ''meet'', sc_topic = ''lunch'', sc_capabilities = [''share_slots''],
     sc_recipient_ids = [''bob''], sc_participant_ids = [], sc_resource_ids = [], sc_window_start = 0,
     sc_window_end = 86400000000, sc_expires_at = 43200000000, sc_allowed_windows = None,
     sc_max_duration_minutes = 60, sc_max_candidates = 4, sc_max_actions = 3\<rparr>"

definition bob :: contact where
  "bob = \<lparr>c_id = ''bob'', c_aliases = [''Bob''], c_urn = ''urn:agent:acme:bob'', c_owner = ''me''\<rparr>"

definition slots0 :: json where
  "slots0 = JObj [(''capability'', JStr ''share_slots''), (''recipient_ids'', jstrs [''bob'']),
     (''payload'', JObj [(''slots'', JArr [JObj [(''start'', JStr ''1970-01-01T10:00:00Z''),
        (''end'', JStr ''1970-01-01T10:30:00Z'')]])])]"

lemma pylen_lit: "pylen [] = 0" "pylen (c # cs) = (if cont_byte c then pylen cs else Suc (pylen cs))"
  by (simp_all add: pylen_def)

definition q1 :: string where "q1 = task_question scope1 [bob] []"

lemma q1_len: "pylen q1 < 2000"
  unfolding q1_def by code_simp

lemma question_rules:
  "18000 < pylen q1 \<longleftrightarrow> False"
  using q1_len by simp_all

lemmas question_folds = q1_def [symmetric, unfolded scope1_def bob_def]

lemma time_rules:
  "iso_z 0 = ''1970-01-01T00:00:00Z''" "iso_z 36000000000 = ''1970-01-01T10:00:00Z''"
  "iso_z 37800000000 = ''1970-01-01T10:30:00Z''" "iso_z 43200000000 = ''1970-01-01T12:00:00Z''"
  "iso_z 86400000000 = ''1970-01-02T00:00:00Z''"
  by code_simp+

lemmas eval_rules = wire.truncate_def preview_rule set_eq_subset [where 'a = string] time_rules text_rules body_rules answer_rule env1_rules eve_mail_def bob_answer_def bob_mail_def eval_defs run_eqs env0_sel digest0 key0 skey0 hex0 empty_store_def tall_def tget_def char_of_def bit_0 Let_def
  pylen_lit question_rules question_folds contact_cmd_def scope0_def slots0_def owner0_def helper0_def committed_def


end
