(* ===== verification/Scenario_Task.thy ===== *)
theory Scenario_Task
  imports Scenario_Base
begin

text \<open>A store in which an owner confirms a contact and a mandate and an operation is prepared, step by step.\<close>

definition st1 :: store where
  "st1 =
    \<lparr>contacts = [(''bob'', \<lparr>c_id = ''bob'', c_aliases = [''Bob''], c_urn =
    ''urn:agent:acme:bob'', c_owner = ''me''\<rparr>)], resources = [], tasks = [], operations = [],
    approvals = [], proposals = [], inbox = [], outboxes = [], connections = [], requests = [], blocks
    = [], safety = [], message_blocks = [], reviews = [], previews = [], reads_at = [], profile = None,
    attention = [], counters = [], conversation_turns = [], workers = [], runs = [], collaborations =
    [], events = [], v2_operations = [], invitations = [], mutations = [(key0a, \<lparr>mu_fingerprint
    = finger0, mu_owner = ''me'', mu_result = MContact \<lparr>c_id = ''bob'', c_aliases = [''Bob''],
    c_urn = ''urn:agent:acme:bob'', c_owner = ''me''\<rparr> Unverified ''confirmed'' None\<rparr>)],
    owner_actions = [], links = [], sessions = [], resumes = [], audits = [\<lparr>au_at = 1000000000, au_event =
    ''remote_contact_added'', au_data = [(''contact_id'', JStr ''bob''), (''owner_session'', JStr
    ''me|s1'')]\<rparr>], history = []\<rparr>"

lemma st1_step: "serve env0 helper0 (contact_cmd) empty_store = st1"
  by (simp add: eval_rules  st1_def cong: eval_cong del: run_andThen)

definition st2 :: store where
  "st2 =
    \<lparr>contacts = [(''bob'', \<lparr>c_id = ''bob'', c_aliases = [''Bob''], c_urn =
    ''urn:agent:acme:bob'', c_owner = ''me''\<rparr>)], resources = [], tasks = [(''t1'', \<lparr>t_id
    = ''t1'', t_session = ''me|s1'', t_scope = \<lparr>sc_purpose = ''meet'', sc_topic = ''lunch'',
    sc_capabilities = [''share_slots''], sc_recipient_ids = [''bob''], sc_participant_ids = [],
    sc_resource_ids = [], sc_window_start = 0, sc_window_end = 86400000000, sc_expires_at =
    43200000000, sc_allowed_windows = None, sc_max_duration_minutes = 60, sc_max_candidates = 4,
    sc_max_actions = 3\<rparr>, t_revision = 1, t_status = TPending, t_used = 0, t_source =
    None\<rparr>)], operations = [], approvals = [(''approval-h'', \<lparr>p_id = ''approval-h'',
    p_subject = ''t1'', p_session = ''me|s1'', p_payload = PTask \<lparr>sc_purpose = ''meet'',
    sc_topic = ''lunch'', sc_capabilities = [''share_slots''], sc_recipient_ids = [''bob''],
    sc_participant_ids = [], sc_resource_ids = [], sc_window_start = 0, sc_window_end = 86400000000,
    sc_expires_at = 43200000000, sc_allowed_windows = None, sc_max_duration_minutes = 60,
    sc_max_candidates = 4, sc_max_actions = 3\<rparr> 1, p_fingerprint = ''h'', p_question = q1,
    p_expires = 1900000000, p_status = APending, p_created = 1000000000, p_invalid = None, p_token =
    None, p_lease = None, p_source = None\<rparr>)], proposals = [], inbox = [], outboxes = [],
    connections = [], requests = [], blocks = [], safety = [], message_blocks = [], reviews = [],
    previews = [], reads_at = [], profile = None, attention = [(''attention-h'', \<lparr>at_id =
    ''attention-h'', at_owner = ''me'', at_kind = ''owner_decision_required'', at_subject =
    ''approval-h'', at_source_revision = JStr ''h'', at_state = AtOpen, at_title = T_at_task,
    at_summary = T_at_approval_summary, at_target_kind = ''approval'', at_target_id = ''approval-h'',
    at_turn = None, at_source_kind = ''approval'', at_source_id = ''approval-h'', at_task = Some
    ''t1'', at_expires = Some 43200000000, at_approval = Some ''approval-h'', at_revision = 1,
    at_created = 1000000000, at_updated = 1000000000\<rparr>)], counters = [(''h'', 1)],
    conversation_turns = [], workers = [], runs = [], collaborations = [], events = [], v2_operations =
    [], invitations = [], mutations = [(key0a, \<lparr>mu_fingerprint = finger0, mu_owner = ''me'',
    mu_result = MContact \<lparr>c_id = ''bob'', c_aliases = [''Bob''], c_urn = ''urn:agent:acme:bob'',
    c_owner = ''me''\<rparr> Unverified ''confirmed'' None\<rparr>)], owner_actions = [], links = [], sessions = [], resumes = [],
    audits = [\<lparr>au_at = 1000000000, au_event = ''remote_contact_added'', au_data =
    [(''contact_id'', JStr ''bob''), (''owner_session'', JStr ''me|s1'')]\<rparr>, \<lparr>au_at =
    1000000000, au_event = ''approval_requested'', au_data = [(''approval_id'', JStr ''approval-h''),
    (''owner_session'', JStr ''me|s1'')]\<rparr>], history = [\<lparr>h_owner = ''me'', h_task =
    ''t1'', h_kind = ''task'', h_record = ''t1'', h_status = ''pending'', h_at = 1000000000, h_details
    = [(''revision'', JInt 1), (''used_count'', JInt 0)], h_source = None\<rparr>, \<lparr>h_owner =
    ''me'', h_task = ''t1'', h_kind = ''approval'', h_record = ''approval-h'', h_status = ''pending'',
    h_at = 1000000000, h_details = [(''kind'', JStr ''task''), (''subject_id'', JStr ''t1''),
    (''expires_at'', jtime 1900000000)], h_source = None\<rparr>]\<rparr>"

lemma st2_step: "serve env0 helper0 (PrepareTask (JStr ''t1'') scope0 owner0) st1 = st2"
  by (simp add: eval_rules st1_def st2_def cong: eval_cong del: run_andThen)

definition st3 :: store where
  "st3 =
    \<lparr>contacts = [(''bob'', \<lparr>c_id = ''bob'', c_aliases = [''Bob''], c_urn =
    ''urn:agent:acme:bob'', c_owner = ''me''\<rparr>)], resources = [], tasks = [(''t1'', \<lparr>t_id
    = ''t1'', t_session = ''me|s1'', t_scope = \<lparr>sc_purpose = ''meet'', sc_topic = ''lunch'',
    sc_capabilities = [''share_slots''], sc_recipient_ids = [''bob''], sc_participant_ids = [],
    sc_resource_ids = [], sc_window_start = 0, sc_window_end = 86400000000, sc_expires_at =
    43200000000, sc_allowed_windows = None, sc_max_duration_minutes = 60, sc_max_candidates = 4,
    sc_max_actions = 3\<rparr>, t_revision = 1, t_status = TPending, t_used = 0, t_source =
    None\<rparr>)], operations = [], approvals = [(''approval-h'', \<lparr>p_id = ''approval-h'',
    p_subject = ''t1'', p_session = ''me|s1'', p_payload = PTask \<lparr>sc_purpose = ''meet'',
    sc_topic = ''lunch'', sc_capabilities = [''share_slots''], sc_recipient_ids = [''bob''],
    sc_participant_ids = [], sc_resource_ids = [], sc_window_start = 0, sc_window_end = 86400000000,
    sc_expires_at = 43200000000, sc_allowed_windows = None, sc_max_duration_minutes = 60,
    sc_max_candidates = 4, sc_max_actions = 3\<rparr> 1, p_fingerprint = ''h'', p_question = q1,
    p_expires = 1900000000, p_status = APresenting, p_created = 1000000000, p_invalid = None, p_token =
    Some ''h'', p_lease = Some 1360000000, p_source = None\<rparr>)], proposals = [], inbox = [],
    outboxes = [], connections = [], requests = [], blocks = [], safety = [], message_blocks = [],
    reviews = [], previews = [], reads_at = [], profile = None, attention = [(''attention-h'',
    \<lparr>at_id = ''attention-h'', at_owner = ''me'', at_kind = ''owner_decision_required'',
    at_subject = ''approval-h'', at_source_revision = JStr ''h'', at_state = AtOpen, at_title =
    T_at_task, at_summary = T_at_approval_summary, at_target_kind = ''approval'', at_target_id =
    ''approval-h'', at_turn = None, at_source_kind = ''approval'', at_source_id = ''approval-h'',
    at_task = Some ''t1'', at_expires = Some 43200000000, at_approval = Some ''approval-h'',
    at_revision = 1, at_created = 1000000000, at_updated = 1000000000\<rparr>)], counters = [(''h'',
    1)], conversation_turns = [], workers = [], runs = [], collaborations = [], events = [],
    v2_operations = [], invitations = [], mutations = [(key0a, \<lparr>mu_fingerprint = finger0,
    mu_owner = ''me'', mu_result = MContact \<lparr>c_id = ''bob'', c_aliases = [''Bob''], c_urn =
    ''urn:agent:acme:bob'', c_owner = ''me''\<rparr> Unverified ''confirmed'' None\<rparr>)],
    owner_actions = [], links = [], sessions = [], resumes = [], audits = [\<lparr>au_at = 1000000000, au_event =
    ''remote_contact_added'', au_data = [(''contact_id'', JStr ''bob''), (''owner_session'', JStr
    ''me|s1'')]\<rparr>, \<lparr>au_at = 1000000000, au_event = ''approval_requested'', au_data =
    [(''approval_id'', JStr ''approval-h''), (''owner_session'', JStr ''me|s1'')]\<rparr>], history =
    [\<lparr>h_owner = ''me'', h_task = ''t1'', h_kind = ''task'', h_record = ''t1'', h_status =
    ''pending'', h_at = 1000000000, h_details = [(''revision'', JInt 1), (''used_count'', JInt 0)],
    h_source = None\<rparr>, \<lparr>h_owner = ''me'', h_task = ''t1'', h_kind = ''approval'', h_record
    = ''approval-h'', h_status = ''pending'', h_at = 1000000000, h_details = [(''kind'', JStr
    ''task''), (''subject_id'', JStr ''t1''), (''expires_at'', jtime 1900000000)], h_source =
    None\<rparr>, \<lparr>h_owner = ''me'', h_task = ''t1'', h_kind = ''approval'', h_record =
    ''approval-h'', h_status = ''presenting'', h_at = 1000000000, h_details = [(''kind'', JStr
    ''task''), (''subject_id'', JStr ''t1''), (''expires_at'', jtime 1900000000)], h_source =
    None\<rparr>]\<rparr>"

lemma st3_step: "serve env0 helper0 (BeginConfirmation ''approval-h'' owner0) st2 = st3"
  by (simp add: eval_rules st2_def st3_def cong: eval_cong del: run_andThen)

definition st4 :: store where
  "st4 =
    \<lparr>contacts = [(''bob'', \<lparr>c_id = ''bob'', c_aliases = [''Bob''], c_urn =
    ''urn:agent:acme:bob'', c_owner = ''me''\<rparr>)], resources = [], tasks = [(''t1'', \<lparr>t_id
    = ''t1'', t_session = ''me|s1'', t_scope = \<lparr>sc_purpose = ''meet'', sc_topic = ''lunch'',
    sc_capabilities = [''share_slots''], sc_recipient_ids = [''bob''], sc_participant_ids = [],
    sc_resource_ids = [], sc_window_start = 0, sc_window_end = 86400000000, sc_expires_at =
    43200000000, sc_allowed_windows = None, sc_max_duration_minutes = 60, sc_max_candidates = 4,
    sc_max_actions = 3\<rparr>, t_revision = 1, t_status = TActive, t_used = 0, t_source =
    None\<rparr>)], operations = [], approvals = [(''approval-h'', \<lparr>p_id = ''approval-h'',
    p_subject = ''t1'', p_session = ''me|s1'', p_payload = PTask \<lparr>sc_purpose = ''meet'',
    sc_topic = ''lunch'', sc_capabilities = [''share_slots''], sc_recipient_ids = [''bob''],
    sc_participant_ids = [], sc_resource_ids = [], sc_window_start = 0, sc_window_end = 86400000000,
    sc_expires_at = 43200000000, sc_allowed_windows = None, sc_max_duration_minutes = 60,
    sc_max_candidates = 4, sc_max_actions = 3\<rparr> 1, p_fingerprint = ''h'', p_question = q1,
    p_expires = 1900000000, p_status = AApproved, p_created = 1000000000, p_invalid = None, p_token =
    None, p_lease = None, p_source = None\<rparr>)], proposals = [], inbox = [], outboxes = [],
    connections = [], requests = [], blocks = [], safety = [], message_blocks = [], reviews = [],
    previews = [], reads_at = [], profile = None, attention = [(''attention-h'', \<lparr>at_id =
    ''attention-h'', at_owner = ''me'', at_kind = ''owner_decision_required'', at_subject =
    ''approval-h'', at_source_revision = JStr ''h'', at_state = AtResolved, at_title = T_at_task,
    at_summary = T_at_approval_summary, at_target_kind = ''approval'', at_target_id = ''approval-h'',
    at_turn = None, at_source_kind = ''approval'', at_source_id = ''approval-h'', at_task = Some
    ''t1'', at_expires = Some 43200000000, at_approval = Some ''approval-h'', at_revision = 2,
    at_created = 1000000000, at_updated = 1000000000\<rparr>)], counters = [(''h'', 2)],
    conversation_turns = [], workers = [], runs = [], collaborations = [], events = [], v2_operations =
    [], invitations = [], mutations = [(key0a, \<lparr>mu_fingerprint = finger0, mu_owner = ''me'',
    mu_result = MContact \<lparr>c_id = ''bob'', c_aliases = [''Bob''], c_urn = ''urn:agent:acme:bob'',
    c_owner = ''me''\<rparr> Unverified ''confirmed'' None\<rparr>)], owner_actions = [], links = [], sessions = [], resumes = [],
    audits = [\<lparr>au_at = 1000000000, au_event = ''remote_contact_added'', au_data =
    [(''contact_id'', JStr ''bob''), (''owner_session'', JStr ''me|s1'')]\<rparr>, \<lparr>au_at =
    1000000000, au_event = ''approval_requested'', au_data = [(''approval_id'', JStr ''approval-h''),
    (''owner_session'', JStr ''me|s1'')]\<rparr>, \<lparr>au_at = 1000000000, au_event =
    ''native_confirmation_resolved'', au_data = [(''approval_id'', JStr ''approval-h''),
    (''owner_session'', JStr ''me|s1''), (''status'', JStr ''approved'')]\<rparr>], history =
    [\<lparr>h_owner = ''me'', h_task = ''t1'', h_kind = ''task'', h_record = ''t1'', h_status =
    ''pending'', h_at = 1000000000, h_details = [(''revision'', JInt 1), (''used_count'', JInt 0)],
    h_source = None\<rparr>, \<lparr>h_owner = ''me'', h_task = ''t1'', h_kind = ''approval'', h_record
    = ''approval-h'', h_status = ''pending'', h_at = 1000000000, h_details = [(''kind'', JStr
    ''task''), (''subject_id'', JStr ''t1''), (''expires_at'', jtime 1900000000)], h_source =
    None\<rparr>, \<lparr>h_owner = ''me'', h_task = ''t1'', h_kind = ''approval'', h_record =
    ''approval-h'', h_status = ''presenting'', h_at = 1000000000, h_details = [(''kind'', JStr
    ''task''), (''subject_id'', JStr ''t1''), (''expires_at'', jtime 1900000000)], h_source =
    None\<rparr>, \<lparr>h_owner = ''me'', h_task = ''t1'', h_kind = ''task'', h_record = ''t1'',
    h_status = ''active'', h_at = 1000000000, h_details = [(''revision'', JInt 1), (''used_count'',
    JInt 0)], h_source = None\<rparr>, \<lparr>h_owner = ''me'', h_task = ''t1'', h_kind =
    ''approval'', h_record = ''approval-h'', h_status = ''approved'', h_at = 1000000000, h_details =
    [(''kind'', JStr ''task''), (''subject_id'', JStr ''t1''), (''expires_at'', jtime 1900000000)],
    h_source = None\<rparr>]\<rparr>"

lemma st4_step: "serve env0 helper0 (FinishConfirmation ''approval-h'' ''f1'' owner0 (JStr ''yes'')) st3 = st4"
  by (simp add: eval_rules st3_def st4_def cong: eval_cong del: run_andThen)

definition st5 :: store where
  "st5 =
    \<lparr>contacts = [(''bob'', \<lparr>c_id = ''bob'', c_aliases = [''Bob''], c_urn =
    ''urn:agent:acme:bob'', c_owner = ''me''\<rparr>)], resources = [], tasks = [(''t1'', \<lparr>t_id
    = ''t1'', t_session = ''me|s1'', t_scope = \<lparr>sc_purpose = ''meet'', sc_topic = ''lunch'',
    sc_capabilities = [''share_slots''], sc_recipient_ids = [''bob''], sc_participant_ids = [],
    sc_resource_ids = [], sc_window_start = 0, sc_window_end = 86400000000, sc_expires_at =
    43200000000, sc_allowed_windows = None, sc_max_duration_minutes = 60, sc_max_candidates = 4,
    sc_max_actions = 3\<rparr>, t_revision = 1, t_status = TActive, t_used = 0, t_source =
    None\<rparr>)], operations = [(''op1'', \<lparr>o_id = ''op1'', o_task = ''t1'', o_revision = 1,
    o_action = \<lparr>a_capability = ShareSlots, a_recipient_ids = [''bob''], a_payload = Slots
    [(36000000000, 37800000000)]\<rparr>, o_recipients = [\<lparr>c_id = ''bob'', c_aliases =
    [''Bob''], c_urn = ''urn:agent:acme:bob'', c_owner = ''me''\<rparr>], o_resources = [], o_text =
    T_cm_slots @ nat_dec (Suc 0) @ CHR ''.'' # CHR '' '' # CHR ''1'' # CHR ''9'' # CHR ''7'' # CHR
    ''0'' # CHR ''-'' # CHR ''0'' # CHR ''1'' # CHR ''-'' # CHR ''0'' # CHR ''1'' # CHR ''T'' # CHR
    ''1'' # CHR ''0'' # CHR '':'' # CHR ''0'' # CHR ''0'' # CHR '':'' # CHR ''0'' # CHR ''0'' # CHR
    ''Z'' # T_to_sep @ ''1970-01-01T10:30:00Z'', o_wire_text = canonical (JObj [(''protocol'', JStr
    ''agent-comm-collaboration/v1''), (''capability'', JStr ''share_slots''), (''payload'', JObj
    [(''slots'', JArr [JObj [(''start'', JStr ''1970-01-01T10:00:00Z''), (''end'', JStr
    ''1970-01-01T10:30:00Z'')]])]), (''text'', JStr (T_cm_slots @ nat_dec (Suc 0) @ CHR ''.'' # CHR
    '' '' # CHR ''1'' # CHR ''9'' # CHR ''7'' # CHR ''0'' # CHR ''-'' # CHR ''0'' # CHR ''1'' # CHR
    ''-'' # CHR ''0'' # CHR ''1'' # CHR ''T'' # CHR ''1'' # CHR ''0'' # CHR '':'' # CHR ''0'' # CHR
    ''0'' # CHR '':'' # CHR ''0'' # CHR ''0'' # CHR ''Z'' # T_to_sep @ ''1970-01-01T10:30:00Z''))]),
    o_hash = ''h'', o_session = ''me|s1'', o_decision = \<lparr>v_decision = Allow, v_reasons =
    [''within_scope''], v_delta = []\<rparr>, o_status = OReady, o_created = 1000000000, o_deliveries =
    [], o_base_hash = ''h'', o_approval = None, o_approved_once = False, o_reserved = None, o_invalid =
    None\<rparr>)], approvals = [(''approval-h'', \<lparr>p_id = ''approval-h'', p_subject = ''t1'',
    p_session = ''me|s1'', p_payload = PTask \<lparr>sc_purpose = ''meet'', sc_topic = ''lunch'',
    sc_capabilities = [''share_slots''], sc_recipient_ids = [''bob''], sc_participant_ids = [],
    sc_resource_ids = [], sc_window_start = 0, sc_window_end = 86400000000, sc_expires_at =
    43200000000, sc_allowed_windows = None, sc_max_duration_minutes = 60, sc_max_candidates = 4,
    sc_max_actions = 3\<rparr> 1, p_fingerprint = ''h'', p_question = q1, p_expires = 1900000000,
    p_status = AApproved, p_created = 1000000000, p_invalid = None, p_token = None, p_lease = None,
    p_source = None\<rparr>)], proposals = [], inbox = [], outboxes = [], connections = [], requests =
    [], blocks = [], safety = [], message_blocks = [], reviews = [], previews = [], reads_at = [],
    profile = None, attention = [(''attention-h'', \<lparr>at_id = ''attention-h'', at_owner = ''me'',
    at_kind = ''needs_recovery'', at_subject = ''op1'', at_source_revision = JStr ''h'', at_state =
    AtResolved, at_title = T_at_uncertain, at_summary = T_at_uncertain_summary, at_target_kind =
    ''task'', at_target_id = ''t1'', at_turn = None, at_source_kind = ''operation'', at_source_id =
    ''op1'', at_task = Some ''t1'', at_expires = None, at_approval = None, at_revision = 3, at_created
    = 1000000000, at_updated = 1000000000\<rparr>)], counters = [(''h'', 3)], conversation_turns = [],
    workers = [], runs = [], collaborations = [], events = [], v2_operations = [], invitations = [],
    mutations = [(key0a, \<lparr>mu_fingerprint = finger0, mu_owner = ''me'', mu_result = MContact
    \<lparr>c_id = ''bob'', c_aliases = [''Bob''], c_urn = ''urn:agent:acme:bob'', c_owner =
    ''me''\<rparr> Unverified ''confirmed'' None\<rparr>)], owner_actions = [], links = [], sessions = [], resumes = [], audits =
    [\<lparr>au_at = 1000000000, au_event = ''remote_contact_added'', au_data = [(''contact_id'', JStr
    ''bob''), (''owner_session'', JStr ''me|s1'')]\<rparr>, \<lparr>au_at = 1000000000, au_event =
    ''approval_requested'', au_data = [(''approval_id'', JStr ''approval-h''), (''owner_session'', JStr
    ''me|s1'')]\<rparr>, \<lparr>au_at = 1000000000, au_event = ''native_confirmation_resolved'',
    au_data = [(''approval_id'', JStr ''approval-h''), (''owner_session'', JStr ''me|s1''),
    (''status'', JStr ''approved'')]\<rparr>, \<lparr>au_at = 1000000000, au_event =
    ''operation_prepared'', au_data = [(''task_id'', JStr ''t1''), (''operation_id'', JStr ''op1''),
    (''owner_session'', JStr ''me|s1''), (''decision'', JStr ''allow''), (''action_hash'', JStr
    ''h'')]\<rparr>], history = [\<lparr>h_owner = ''me'', h_task = ''t1'', h_kind = ''task'', h_record
    = ''t1'', h_status = ''pending'', h_at = 1000000000, h_details = [(''revision'', JInt 1),
    (''used_count'', JInt 0)], h_source = None\<rparr>, \<lparr>h_owner = ''me'', h_task = ''t1'',
    h_kind = ''approval'', h_record = ''approval-h'', h_status = ''pending'', h_at = 1000000000,
    h_details = [(''kind'', JStr ''task''), (''subject_id'', JStr ''t1''), (''expires_at'', jtime
    1900000000)], h_source = None\<rparr>, \<lparr>h_owner = ''me'', h_task = ''t1'', h_kind =
    ''approval'', h_record = ''approval-h'', h_status = ''presenting'', h_at = 1000000000, h_details =
    [(''kind'', JStr ''task''), (''subject_id'', JStr ''t1''), (''expires_at'', jtime 1900000000)],
    h_source = None\<rparr>, \<lparr>h_owner = ''me'', h_task = ''t1'', h_kind = ''task'', h_record =
    ''t1'', h_status = ''active'', h_at = 1000000000, h_details = [(''revision'', JInt 1),
    (''used_count'', JInt 0)], h_source = None\<rparr>, \<lparr>h_owner = ''me'', h_task = ''t1'',
    h_kind = ''approval'', h_record = ''approval-h'', h_status = ''approved'', h_at = 1000000000,
    h_details = [(''kind'', JStr ''task''), (''subject_id'', JStr ''t1''), (''expires_at'', jtime
    1900000000)], h_source = None\<rparr>, \<lparr>h_owner = ''me'', h_task = ''t1'', h_kind =
    ''operation'', h_record = ''op1'', h_status = ''ready'', h_at = 1000000000, h_details = [],
    h_source = None\<rparr>]\<rparr>"

lemma st5_step: "serve env0 helper0 (PrepareAction ''t1'' (JStr ''op1'') slots0 owner0) st4 = st5"
  by (simp add: eval_rules st4_def st5_def cong: eval_cong del: run_andThen)

definition st6 :: store where
  "st6 =
    \<lparr>contacts = [(''bob'', \<lparr>c_id = ''bob'', c_aliases = [''Bob''], c_urn =
    ''urn:agent:acme:bob'', c_owner = ''me''\<rparr>)], resources = [], tasks = [(''t1'', \<lparr>t_id
    = ''t1'', t_session = ''me|s1'', t_scope = \<lparr>sc_purpose = ''meet'', sc_topic = ''lunch'',
    sc_capabilities = [''share_slots''], sc_recipient_ids = [''bob''], sc_participant_ids = [],
    sc_resource_ids = [], sc_window_start = 0, sc_window_end = 86400000000, sc_expires_at =
    43200000000, sc_allowed_windows = None, sc_max_duration_minutes = 60, sc_max_candidates = 4,
    sc_max_actions = 3\<rparr>, t_revision = 1, t_status = TActive, t_used = 1, t_source =
    None\<rparr>)], operations = [(''op1'', \<lparr>o_id = ''op1'', o_task = ''t1'', o_revision = 1,
    o_action = \<lparr>a_capability = ShareSlots, a_recipient_ids = [''bob''], a_payload = Slots
    [(36000000000, 37800000000)]\<rparr>, o_recipients = [\<lparr>c_id = ''bob'', c_aliases =
    [''Bob''], c_urn = ''urn:agent:acme:bob'', c_owner = ''me''\<rparr>], o_resources = [], o_text =
    T_cm_slots @ nat_dec (Suc 0) @ CHR ''.'' # CHR '' '' # CHR ''1'' # CHR ''9'' # CHR ''7'' # CHR
    ''0'' # CHR ''-'' # CHR ''0'' # CHR ''1'' # CHR ''-'' # CHR ''0'' # CHR ''1'' # CHR ''T'' # CHR
    ''1'' # CHR ''0'' # CHR '':'' # CHR ''0'' # CHR ''0'' # CHR '':'' # CHR ''0'' # CHR ''0'' # CHR
    ''Z'' # T_to_sep @ ''1970-01-01T10:30:00Z'', o_wire_text = canonical (JObj [(''protocol'', JStr
    ''agent-comm-collaboration/v1''), (''capability'', JStr ''share_slots''), (''payload'', JObj
    [(''slots'', JArr [JObj [(''start'', JStr ''1970-01-01T10:00:00Z''), (''end'', JStr
    ''1970-01-01T10:30:00Z'')]])]), (''text'', JStr (T_cm_slots @ nat_dec (Suc 0) @ CHR ''.'' # CHR
    '' '' # CHR ''1'' # CHR ''9'' # CHR ''7'' # CHR ''0'' # CHR ''-'' # CHR ''0'' # CHR ''1'' # CHR
    ''-'' # CHR ''0'' # CHR ''1'' # CHR ''T'' # CHR ''1'' # CHR ''0'' # CHR '':'' # CHR ''0'' # CHR
    ''0'' # CHR '':'' # CHR ''0'' # CHR ''0'' # CHR ''Z'' # T_to_sep @ ''1970-01-01T10:30:00Z''))]),
    o_hash = ''h'', o_session = ''me|s1'', o_decision = \<lparr>v_decision = Allow, v_reasons =
    [''within_scope''], v_delta = []\<rparr>, o_status = OAccepted, o_created = 1000000000,
    o_deliveries = [\<lparr>d_recipient = ''bob'', d_urn = ''urn:agent:acme:bob'', d_message =
    ''collab-h'', d_status = DAccepted, d_accepted_at = Some 1000000000\<rparr>], o_base_hash = ''h'',
    o_approval = None, o_approved_once = False, o_reserved = Some 1000000000, o_invalid =
    None\<rparr>)], approvals = [(''approval-h'', \<lparr>p_id = ''approval-h'', p_subject = ''t1'',
    p_session = ''me|s1'', p_payload = PTask \<lparr>sc_purpose = ''meet'', sc_topic = ''lunch'',
    sc_capabilities = [''share_slots''], sc_recipient_ids = [''bob''], sc_participant_ids = [],
    sc_resource_ids = [], sc_window_start = 0, sc_window_end = 86400000000, sc_expires_at =
    43200000000, sc_allowed_windows = None, sc_max_duration_minutes = 60, sc_max_candidates = 4,
    sc_max_actions = 3\<rparr> 1, p_fingerprint = ''h'', p_question = q1, p_expires = 1900000000,
    p_status = AApproved, p_created = 1000000000, p_invalid = None, p_token = None, p_lease = None,
    p_source = None\<rparr>)], proposals = [], inbox = [], outboxes = [], connections = [], requests =
    [], blocks = [], safety = [], message_blocks = [], reviews = [], previews = [], reads_at = [],
    profile = None, attention = [(''attention-h'', \<lparr>at_id = ''attention-h'', at_owner = ''me'',
    at_kind = ''needs_recovery'', at_subject = ''op1'', at_source_revision = JStr ''h'', at_state =
    AtResolved, at_title = T_at_uncertain, at_summary = T_at_uncertain_summary, at_target_kind =
    ''task'', at_target_id = ''t1'', at_turn = None, at_source_kind = ''operation'', at_source_id =
    ''op1'', at_task = Some ''t1'', at_expires = None, at_approval = None, at_revision = 3, at_created
    = 1000000000, at_updated = 1000000000\<rparr>)], counters = [(''h'', 3)], conversation_turns = [],
    workers = [], runs = [], collaborations = [], events = [], v2_operations = [], invitations = [],
    mutations = [(key0a, \<lparr>mu_fingerprint = finger0, mu_owner = ''me'', mu_result = MContact
    \<lparr>c_id = ''bob'', c_aliases = [''Bob''], c_urn = ''urn:agent:acme:bob'', c_owner =
    ''me''\<rparr> Unverified ''confirmed'' None\<rparr>)], owner_actions = [], links = [], sessions = [], resumes = [], audits =
    [\<lparr>au_at = 1000000000, au_event = ''remote_contact_added'', au_data = [(''contact_id'', JStr
    ''bob''), (''owner_session'', JStr ''me|s1'')]\<rparr>, \<lparr>au_at = 1000000000, au_event =
    ''approval_requested'', au_data = [(''approval_id'', JStr ''approval-h''), (''owner_session'', JStr
    ''me|s1'')]\<rparr>, \<lparr>au_at = 1000000000, au_event = ''native_confirmation_resolved'',
    au_data = [(''approval_id'', JStr ''approval-h''), (''owner_session'', JStr ''me|s1''),
    (''status'', JStr ''approved'')]\<rparr>, \<lparr>au_at = 1000000000, au_event =
    ''operation_prepared'', au_data = [(''task_id'', JStr ''t1''), (''operation_id'', JStr ''op1''),
    (''owner_session'', JStr ''me|s1''), (''decision'', JStr ''allow''), (''action_hash'', JStr
    ''h'')]\<rparr>, \<lparr>au_at = 1000000000, au_event = ''helper_accepted'', au_data =
    [(''task_id'', JStr ''t1''), (''operation_id'', JStr ''op1''), (''recipient_id'', JStr ''bob''),
    (''message_id'', JStr ''collab-h''), (''action_hash'', JStr ''h''), (''owner_session'', JStr
    ''me|s1'')]\<rparr>], history = [\<lparr>h_owner = ''me'', h_task = ''t1'', h_kind = ''task'',
    h_record = ''t1'', h_status = ''pending'', h_at = 1000000000, h_details = [(''revision'', JInt 1),
    (''used_count'', JInt 0)], h_source = None\<rparr>, \<lparr>h_owner = ''me'', h_task = ''t1'',
    h_kind = ''approval'', h_record = ''approval-h'', h_status = ''pending'', h_at = 1000000000,
    h_details = [(''kind'', JStr ''task''), (''subject_id'', JStr ''t1''), (''expires_at'', jtime
    1900000000)], h_source = None\<rparr>, \<lparr>h_owner = ''me'', h_task = ''t1'', h_kind =
    ''approval'', h_record = ''approval-h'', h_status = ''presenting'', h_at = 1000000000, h_details =
    [(''kind'', JStr ''task''), (''subject_id'', JStr ''t1''), (''expires_at'', jtime 1900000000)],
    h_source = None\<rparr>, \<lparr>h_owner = ''me'', h_task = ''t1'', h_kind = ''task'', h_record =
    ''t1'', h_status = ''active'', h_at = 1000000000, h_details = [(''revision'', JInt 1),
    (''used_count'', JInt 0)], h_source = None\<rparr>, \<lparr>h_owner = ''me'', h_task = ''t1'',
    h_kind = ''approval'', h_record = ''approval-h'', h_status = ''approved'', h_at = 1000000000,
    h_details = [(''kind'', JStr ''task''), (''subject_id'', JStr ''t1''), (''expires_at'', jtime
    1900000000)], h_source = None\<rparr>, \<lparr>h_owner = ''me'', h_task = ''t1'', h_kind =
    ''operation'', h_record = ''op1'', h_status = ''ready'', h_at = 1000000000, h_details = [],
    h_source = None\<rparr>, \<lparr>h_owner = ''me'', h_task = ''t1'', h_kind = ''task'', h_record =
    ''t1'', h_status = ''active'', h_at = 1000000000, h_details = [(''revision'', JInt 1),
    (''used_count'', JInt 1)], h_source = None\<rparr>, \<lparr>h_owner = ''me'', h_task = ''t1'',
    h_kind = ''operation'', h_record = ''op1'', h_status = ''sending'', h_at = 1000000000, h_details =
    [], h_source = None\<rparr>, \<lparr>h_owner = ''me'', h_task = ''t1'', h_kind = ''operation'',
    h_record = ''op1'', h_status = ''accepted'', h_at = 1000000000, h_details = [], h_source =
    None\<rparr>]\<rparr>"

lemma st6_step: "serve env0 helper0 (Dispatch ''op1'' owner0) st5 = st6"
  by (simp add: eval_rules st5_def st6_def cong: eval_cong del: run_andThen)

definition st7 :: store where
  "st7 =
    \<lparr>contacts = [(''bob'', \<lparr>c_id = ''bob'', c_aliases = [''Bob''], c_urn =
    ''urn:agent:acme:bob'', c_owner = ''me''\<rparr>)], resources = [], tasks = [(''t1'', \<lparr>t_id
    = ''t1'', t_session = ''me|s1'', t_scope = \<lparr>sc_purpose = ''meet'', sc_topic = ''lunch'',
    sc_capabilities = [''share_slots''], sc_recipient_ids = [''bob''], sc_participant_ids = [],
    sc_resource_ids = [], sc_window_start = 0, sc_window_end = 86400000000, sc_expires_at =
    43200000000, sc_allowed_windows = None, sc_max_duration_minutes = 60, sc_max_candidates = 4,
    sc_max_actions = 3\<rparr>, t_revision = 2, t_status = TRevoked, t_used = 1, t_source =
    None\<rparr>)], operations = [(''op1'', \<lparr>o_id = ''op1'', o_task = ''t1'', o_revision = 1,
    o_action = \<lparr>a_capability = ShareSlots, a_recipient_ids = [''bob''], a_payload = Slots
    [(36000000000, 37800000000)]\<rparr>, o_recipients = [\<lparr>c_id = ''bob'', c_aliases =
    [''Bob''], c_urn = ''urn:agent:acme:bob'', c_owner = ''me''\<rparr>], o_resources = [], o_text =
    T_cm_slots @ nat_dec (Suc 0) @ CHR ''.'' # CHR '' '' # CHR ''1'' # CHR ''9'' # CHR ''7'' # CHR
    ''0'' # CHR ''-'' # CHR ''0'' # CHR ''1'' # CHR ''-'' # CHR ''0'' # CHR ''1'' # CHR ''T'' # CHR
    ''1'' # CHR ''0'' # CHR '':'' # CHR ''0'' # CHR ''0'' # CHR '':'' # CHR ''0'' # CHR ''0'' # CHR
    ''Z'' # T_to_sep @ ''1970-01-01T10:30:00Z'', o_wire_text = canonical (JObj [(''protocol'', JStr
    ''agent-comm-collaboration/v1''), (''capability'', JStr ''share_slots''), (''payload'', JObj
    [(''slots'', JArr [JObj [(''start'', JStr ''1970-01-01T10:00:00Z''), (''end'', JStr
    ''1970-01-01T10:30:00Z'')]])]), (''text'', JStr (T_cm_slots @ nat_dec (Suc 0) @ CHR ''.'' # CHR
    '' '' # CHR ''1'' # CHR ''9'' # CHR ''7'' # CHR ''0'' # CHR ''-'' # CHR ''0'' # CHR ''1'' # CHR
    ''-'' # CHR ''0'' # CHR ''1'' # CHR ''T'' # CHR ''1'' # CHR ''0'' # CHR '':'' # CHR ''0'' # CHR
    ''0'' # CHR '':'' # CHR ''0'' # CHR ''0'' # CHR ''Z'' # T_to_sep @ ''1970-01-01T10:30:00Z''))]),
    o_hash = ''h'', o_session = ''me|s1'', o_decision = \<lparr>v_decision = Allow, v_reasons =
    [''within_scope''], v_delta = []\<rparr>, o_status = OAccepted, o_created = 1000000000,
    o_deliveries = [\<lparr>d_recipient = ''bob'', d_urn = ''urn:agent:acme:bob'', d_message =
    ''collab-h'', d_status = DAccepted, d_accepted_at = Some 1000000000\<rparr>], o_base_hash = ''h'',
    o_approval = None, o_approved_once = False, o_reserved = Some 1000000000, o_invalid =
    None\<rparr>)], approvals = [(''approval-h'', \<lparr>p_id = ''approval-h'', p_subject = ''t1'',
    p_session = ''me|s1'', p_payload = PTask \<lparr>sc_purpose = ''meet'', sc_topic = ''lunch'',
    sc_capabilities = [''share_slots''], sc_recipient_ids = [''bob''], sc_participant_ids = [],
    sc_resource_ids = [], sc_window_start = 0, sc_window_end = 86400000000, sc_expires_at =
    43200000000, sc_allowed_windows = None, sc_max_duration_minutes = 60, sc_max_candidates = 4,
    sc_max_actions = 3\<rparr> 1, p_fingerprint = ''h'', p_question = q1, p_expires = 1900000000,
    p_status = AApproved, p_created = 1000000000, p_invalid = None, p_token = None, p_lease = None,
    p_source = None\<rparr>)], proposals = [], inbox = [], outboxes = [], connections = [], requests =
    [], blocks = [], safety = [], message_blocks = [], reviews = [], previews = [], reads_at = [],
    profile = None, attention = [(''attention-h'', \<lparr>at_id = ''attention-h'', at_owner = ''me'',
    at_kind = ''needs_recovery'', at_subject = ''op1'', at_source_revision = JStr ''h'', at_state =
    AtResolved, at_title = T_at_uncertain, at_summary = T_at_uncertain_summary, at_target_kind =
    ''task'', at_target_id = ''t1'', at_turn = None, at_source_kind = ''operation'', at_source_id =
    ''op1'', at_task = Some ''t1'', at_expires = None, at_approval = None, at_revision = 3, at_created
    = 1000000000, at_updated = 1000000000\<rparr>)], counters = [(''h'', 3)], conversation_turns = [],
    workers = [], runs = [], collaborations = [], events = [], v2_operations = [], invitations = [],
    mutations = [(key0a, \<lparr>mu_fingerprint = finger0, mu_owner = ''me'', mu_result = MContact
    \<lparr>c_id = ''bob'', c_aliases = [''Bob''], c_urn = ''urn:agent:acme:bob'', c_owner =
    ''me''\<rparr> Unverified ''confirmed'' None\<rparr>)], owner_actions = [], links = [], sessions = [], resumes = [], audits =
    [\<lparr>au_at = 1000000000, au_event = ''remote_contact_added'', au_data = [(''contact_id'', JStr
    ''bob''), (''owner_session'', JStr ''me|s1'')]\<rparr>, \<lparr>au_at = 1000000000, au_event =
    ''approval_requested'', au_data = [(''approval_id'', JStr ''approval-h''), (''owner_session'', JStr
    ''me|s1'')]\<rparr>, \<lparr>au_at = 1000000000, au_event = ''native_confirmation_resolved'',
    au_data = [(''approval_id'', JStr ''approval-h''), (''owner_session'', JStr ''me|s1''),
    (''status'', JStr ''approved'')]\<rparr>, \<lparr>au_at = 1000000000, au_event =
    ''operation_prepared'', au_data = [(''task_id'', JStr ''t1''), (''operation_id'', JStr ''op1''),
    (''owner_session'', JStr ''me|s1''), (''decision'', JStr ''allow''), (''action_hash'', JStr
    ''h'')]\<rparr>, \<lparr>au_at = 1000000000, au_event = ''helper_accepted'', au_data =
    [(''task_id'', JStr ''t1''), (''operation_id'', JStr ''op1''), (''recipient_id'', JStr ''bob''),
    (''message_id'', JStr ''collab-h''), (''action_hash'', JStr ''h''), (''owner_session'', JStr
    ''me|s1'')]\<rparr>, \<lparr>au_at = 1000000000, au_event = ''task_revoked'', au_data =
    [(''task_id'', JStr ''t1''), (''owner_session'', JStr ''me|s1'')]\<rparr>], history =
    [\<lparr>h_owner = ''me'', h_task = ''t1'', h_kind = ''task'', h_record = ''t1'', h_status =
    ''pending'', h_at = 1000000000, h_details = [(''revision'', JInt 1), (''used_count'', JInt 0)],
    h_source = None\<rparr>, \<lparr>h_owner = ''me'', h_task = ''t1'', h_kind = ''approval'', h_record
    = ''approval-h'', h_status = ''pending'', h_at = 1000000000, h_details = [(''kind'', JStr
    ''task''), (''subject_id'', JStr ''t1''), (''expires_at'', jtime 1900000000)], h_source =
    None\<rparr>, \<lparr>h_owner = ''me'', h_task = ''t1'', h_kind = ''approval'', h_record =
    ''approval-h'', h_status = ''presenting'', h_at = 1000000000, h_details = [(''kind'', JStr
    ''task''), (''subject_id'', JStr ''t1''), (''expires_at'', jtime 1900000000)], h_source =
    None\<rparr>, \<lparr>h_owner = ''me'', h_task = ''t1'', h_kind = ''task'', h_record = ''t1'',
    h_status = ''active'', h_at = 1000000000, h_details = [(''revision'', JInt 1), (''used_count'',
    JInt 0)], h_source = None\<rparr>, \<lparr>h_owner = ''me'', h_task = ''t1'', h_kind =
    ''approval'', h_record = ''approval-h'', h_status = ''approved'', h_at = 1000000000, h_details =
    [(''kind'', JStr ''task''), (''subject_id'', JStr ''t1''), (''expires_at'', jtime 1900000000)],
    h_source = None\<rparr>, \<lparr>h_owner = ''me'', h_task = ''t1'', h_kind = ''operation'',
    h_record = ''op1'', h_status = ''ready'', h_at = 1000000000, h_details = [], h_source =
    None\<rparr>, \<lparr>h_owner = ''me'', h_task = ''t1'', h_kind = ''task'', h_record = ''t1'',
    h_status = ''active'', h_at = 1000000000, h_details = [(''revision'', JInt 1), (''used_count'',
    JInt 1)], h_source = None\<rparr>, \<lparr>h_owner = ''me'', h_task = ''t1'', h_kind =
    ''operation'', h_record = ''op1'', h_status = ''sending'', h_at = 1000000000, h_details = [],
    h_source = None\<rparr>, \<lparr>h_owner = ''me'', h_task = ''t1'', h_kind = ''operation'',
    h_record = ''op1'', h_status = ''accepted'', h_at = 1000000000, h_details = [], h_source =
    None\<rparr>, \<lparr>h_owner = ''me'', h_task = ''t1'', h_kind = ''task'', h_record = ''t1'',
    h_status = ''revoked'', h_at = 1000000000, h_details = [(''revision'', JInt 2), (''used_count'',
    JInt 1)], h_source = None\<rparr>]\<rparr>"

lemma st7_step: "serve env0 helper0 (Revoke ''t1'' owner0) st6 = st7"
  by (simp add: eval_rules st6_def st7_def cong: eval_cong del: run_andThen)

end
