(* ===== verification/Scenario_Mail.thy ===== *)
theory Scenario_Mail
  imports Scenario_Base
begin

text \<open>A store in which mail from a contact and from a stranger arrives and is reviewed, step by step.\<close>

definition nt1 :: store where
  "nt1 =
    \<lparr>contacts = [], resources = [], tasks = [], operations = [], approvals = [], proposals = [],
    inbox = [], outboxes = [], connections = [], requests = [], blocks = [], safety = [],
    message_blocks = [], reviews = [], previews = [], reads_at = [], profile = Some ''me'', attention =
    [], counters = [], conversation_turns = [], workers = [], runs = [], collaborations = [], events =
    [], v2_operations = [], invitations = [], mutations = [], owner_actions = [], links = [], sessions = [], resumes = [], audits =
    [], history = []\<rparr>"

lemma nt1_step: "serve env1 helper0 (RegisterOwner owner0) empty_store = nt1"
  by (simp add: eval_rules  nt1_def cong: eval_cong del: run_andThen)

definition nt2 :: store where
  "nt2 =
    \<lparr>contacts = [(''bob'', \<lparr>c_id = ''bob'', c_aliases = [''Bob''], c_urn =
    ''urn:agent:acme:bob'', c_owner = ''me''\<rparr>)], resources = [], tasks = [], operations = [],
    approvals = [], proposals = [], inbox = [], outboxes = [(''friend-f1'', \<lparr>b_id =
    ''friend-f1'', b_owner = ''me'', b_message = \<lparr>x_id = ''friend-f1'', x_recipient =
    ''urn:agent:acme:bob'', x_kind = ''contact.request'', x_conversation = Some ''friend-f1'', x_reply
    = None, x_text = canonical (JObj [(''protocol'', JStr ''agent-comm-contacts/v1''), (''type'', JStr
    ''request''), (''request_id'', JStr ''friend-f1'')])\<rparr>, b_status = XQueued, b_created =
    1000000000, b_updated = 1000000000\<rparr>)], connections = [], requests = [(''friend-f1'',
    \<lparr>q_id = ''friend-f1'', q_owner = ''me'', q_direction = Outgoing, q_urn =
    ''urn:agent:acme:bob'', q_contact = Some ''bob'', q_status = RqPending, q_attempt = Some 1,
    q_created = 1000000000, q_updated = 1000000000\<rparr>)], blocks = [], safety = [], message_blocks
    = [], reviews = [], previews = [], reads_at = [], profile = Some ''me'', attention = [], counters =
    [], conversation_turns = [], workers = [], runs = [], collaborations = [], events = [],
    v2_operations = [], invitations = [], mutations = [(key0a, \<lparr>mu_fingerprint = finger0,
    mu_owner = ''me'', mu_result = MContact \<lparr>c_id = ''bob'', c_aliases = [''Bob''], c_urn =
    ''urn:agent:acme:bob'', c_owner = ''me''\<rparr> ConnPending ''requested'' (Some
    ''friend-f1'')\<rparr>)], owner_actions = [], links = [], sessions = [], resumes = [], audits = [\<lparr>au_at = 1000000000,
    au_event = ''remote_contact_added'', au_data = [(''contact_id'', JStr ''bob''), (''owner_session'',
    JStr ''me|s1'')]\<rparr>], history = []\<rparr>"

lemma nt2_step: "serve env1 helper0 (contact_cmd) nt1 = nt2"
  by (simp add: eval_rules nt1_def nt2_def cong: eval_cong del: run_andThen)

definition nt3 :: store where
  "nt3 =
    \<lparr>contacts = [(''bob'', \<lparr>c_id = ''bob'', c_aliases = [''Bob''], c_urn =
    ''urn:agent:acme:bob'', c_owner = ''me''\<rparr>)], resources = [], tasks = [], operations = [],
    approvals = [], proposals = [], inbox = [(''m1'', \<lparr>w_id = ''m1'', w_sender =
    ''urn:agent:acme:eve'', w_text = ''hello'', w_task = None, w_conversation = None, w_kind = Some
    ''chat.message'', w_reply = None, w_deadline = None, i_fingerprint = ''h'', i_received =
    1000000000, i_quarantined = True, i_reason = Some ''not_connected'', i_request = None\<rparr>)],
    outboxes = [(''friend-f1'', \<lparr>b_id = ''friend-f1'', b_owner = ''me'', b_message =
    \<lparr>x_id = ''friend-f1'', x_recipient = ''urn:agent:acme:bob'', x_kind = ''contact.request'',
    x_conversation = Some ''friend-f1'', x_reply = None, x_text = canonical (JObj [(''protocol'', JStr
    ''agent-comm-contacts/v1''), (''type'', JStr ''request''), (''request_id'', JStr
    ''friend-f1'')])\<rparr>, b_status = XQueued, b_created = 1000000000, b_updated =
    1000000000\<rparr>)], connections = [], requests = [(''friend-f1'', \<lparr>q_id = ''friend-f1'',
    q_owner = ''me'', q_direction = Outgoing, q_urn = ''urn:agent:acme:bob'', q_contact = Some ''bob'',
    q_status = RqPending, q_attempt = Some 1, q_created = 1000000000, q_updated = 1000000000\<rparr>)],
    blocks = [], safety = [], message_blocks = [], reviews = [], previews = [], reads_at = [], profile
    = Some ''me'', attention = [], counters = [], conversation_turns = [], workers = [], runs = [],
    collaborations = [], events = [], v2_operations = [], invitations = [], mutations = [(key0a,
    \<lparr>mu_fingerprint = finger0, mu_owner = ''me'', mu_result = MContact \<lparr>c_id = ''bob'',
    c_aliases = [''Bob''], c_urn = ''urn:agent:acme:bob'', c_owner = ''me''\<rparr> ConnPending
    ''requested'' (Some ''friend-f1'')\<rparr>)], owner_actions = [], links = [], sessions = [], resumes = [], audits =
    [\<lparr>au_at = 1000000000, au_event = ''remote_contact_added'', au_data = [(''contact_id'', JStr
    ''bob''), (''owner_session'', JStr ''me|s1'')]\<rparr>], history = []\<rparr>"

lemma nt3_step: "serve env1 helper0 (SyncInbox [eve_mail]) nt2 = nt3"
  by (simp add: eval_rules nt2_def nt3_def cong: eval_cong del: run_andThen)

definition nt4 :: store where
  "nt4 =
    \<lparr>contacts = [(''bob'', \<lparr>c_id = ''bob'', c_aliases = [''Bob''], c_urn =
    ''urn:agent:acme:bob'', c_owner = ''me''\<rparr>)], resources = [], tasks = [], operations = [],
    approvals = [], proposals = [], inbox = [(''m1'', \<lparr>w_id = ''m1'', w_sender =
    ''urn:agent:acme:eve'', w_text = ''hello'', w_task = None, w_conversation = None, w_kind = Some
    ''chat.message'', w_reply = None, w_deadline = None, i_fingerprint = ''h'', i_received =
    1000000000, i_quarantined = True, i_reason = Some ''not_connected'', i_request = None\<rparr>),
    (''m2'', \<lparr>w_id = ''m2'', w_sender = ''urn:agent:acme:bob'', w_text = answer_text, w_task =
    None, w_conversation = Some ''friend-f1'', w_kind = Some ''contact.response'', w_reply = Some
    ''friend-f1'', w_deadline = None, i_fingerprint = ''h'', i_received = 1000000000, i_quarantined =
    False, i_reason = None, i_request = None\<rparr>)], outboxes = [(''friend-f1'', \<lparr>b_id =
    ''friend-f1'', b_owner = ''me'', b_message = \<lparr>x_id = ''friend-f1'', x_recipient =
    ''urn:agent:acme:bob'', x_kind = ''contact.request'', x_conversation = Some ''friend-f1'', x_reply
    = None, x_text = canonical (JObj [(''protocol'', JStr ''agent-comm-contacts/v1''), (''type'', JStr
    ''request''), (''request_id'', JStr ''friend-f1'')])\<rparr>, b_status = XQueued, b_created =
    1000000000, b_updated = 1000000000\<rparr>)], connections = [(''h'', \<lparr>n_owner = ''me'',
    n_urn = ''urn:agent:acme:bob'', n_request = ''friend-f1'', n_at = 1000000000\<rparr>)], requests =
    [(''friend-f1'', \<lparr>q_id = ''friend-f1'', q_owner = ''me'', q_direction = Outgoing, q_urn =
    ''urn:agent:acme:bob'', q_contact = Some ''bob'', q_status = RqAccepted, q_attempt = Some 1,
    q_created = 1000000000, q_updated = 1000000000\<rparr>)], blocks = [], safety = [], message_blocks
    = [], reviews = [], previews = [], reads_at = [], profile = Some ''me'', attention =
    [(''attention-h'', \<lparr>at_id = ''attention-h'', at_owner = ''me'', at_kind =
    ''friend_request_accepted'', at_subject = ''m2'', at_source_revision = JStr ''accepted'', at_state
    = AtOpen, at_title = T_at_friend_accepted, at_summary = ''urn:agent:acme:bob'', at_target_kind =
    ''inbox'', at_target_id = ''m2'', at_turn = None, at_source_kind = ''contact_response'',
    at_source_id = ''friend-f1'', at_task = None, at_expires = None, at_approval = None, at_revision =
    1, at_created = 1000000000, at_updated = 1000000000\<rparr>)], counters = [(''h'', 1)],
    conversation_turns = [], workers = [], runs = [], collaborations = [], events = [], v2_operations =
    [], invitations = [], mutations = [(key0a, \<lparr>mu_fingerprint = finger0, mu_owner = ''me'',
    mu_result = MContact \<lparr>c_id = ''bob'', c_aliases = [''Bob''], c_urn = ''urn:agent:acme:bob'',
    c_owner = ''me''\<rparr> ConnPending ''requested'' (Some ''friend-f1'')\<rparr>)], owner_actions =
    [], links = [], sessions = [], resumes = [], audits = [\<lparr>au_at = 1000000000, au_event = ''remote_contact_added'', au_data
    = [(''contact_id'', JStr ''bob''), (''owner_session'', JStr ''me|s1'')]\<rparr>], history =
    []\<rparr>"

lemma nt4_step: "serve env1 helper0 (SyncInbox [bob_answer]) nt3 = nt4"
  by (simp add: eval_rules nt3_def nt4_def cong: eval_cong del: run_andThen)

definition nt5 :: store where
  "nt5 =
    \<lparr>contacts = [(''bob'', \<lparr>c_id = ''bob'', c_aliases = [''Bob''], c_urn =
    ''urn:agent:acme:bob'', c_owner = ''me''\<rparr>)], resources = [], tasks = [], operations = [],
    approvals = [], proposals = [], inbox = [(''m1'', \<lparr>w_id = ''m1'', w_sender =
    ''urn:agent:acme:eve'', w_text = ''hello'', w_task = None, w_conversation = None, w_kind = Some
    ''chat.message'', w_reply = None, w_deadline = None, i_fingerprint = ''h'', i_received =
    1000000000, i_quarantined = True, i_reason = Some ''not_connected'', i_request = None\<rparr>),
    (''m2'', \<lparr>w_id = ''m2'', w_sender = ''urn:agent:acme:bob'', w_text = answer_text, w_task =
    None, w_conversation = Some ''friend-f1'', w_kind = Some ''contact.response'', w_reply = Some
    ''friend-f1'', w_deadline = None, i_fingerprint = ''h'', i_received = 1000000000, i_quarantined =
    False, i_reason = None, i_request = None\<rparr>), (''m3'', \<lparr>w_id = ''m3'', w_sender =
    ''urn:agent:acme:bob'', w_text = ''hi there'', w_task = None, w_conversation = None, w_kind = Some
    ''chat.message'', w_reply = None, w_deadline = None, i_fingerprint = ''h'', i_received =
    1000000000, i_quarantined = True, i_reason = Some ''pending_review'', i_request = None\<rparr>)],
    outboxes = [(''friend-f1'', \<lparr>b_id = ''friend-f1'', b_owner = ''me'', b_message =
    \<lparr>x_id = ''friend-f1'', x_recipient = ''urn:agent:acme:bob'', x_kind = ''contact.request'',
    x_conversation = Some ''friend-f1'', x_reply = None, x_text = canonical (JObj [(''protocol'', JStr
    ''agent-comm-contacts/v1''), (''type'', JStr ''request''), (''request_id'', JStr
    ''friend-f1'')])\<rparr>, b_status = XQueued, b_created = 1000000000, b_updated =
    1000000000\<rparr>)], connections = [(''h'', \<lparr>n_owner = ''me'', n_urn =
    ''urn:agent:acme:bob'', n_request = ''friend-f1'', n_at = 1000000000\<rparr>)], requests =
    [(''friend-f1'', \<lparr>q_id = ''friend-f1'', q_owner = ''me'', q_direction = Outgoing, q_urn =
    ''urn:agent:acme:bob'', q_contact = Some ''bob'', q_status = RqAccepted, q_attempt = Some 1,
    q_created = 1000000000, q_updated = 1000000000\<rparr>)], blocks = [], safety = [], message_blocks
    = [], reviews = [(''h'', \<lparr>rv_owner = ''me'', rv_id = ''m3'', rv_sender =
    ''urn:agent:acme:bob'', rv_kind = ''chat.message'', rv_wire = \<lparr>w_id = ''m3'', w_sender =
    ''urn:agent:acme:bob'', w_text = ''hi there'', w_task = None, w_conversation = None, w_kind = Some
    ''chat.message'', w_reply = None, w_deadline = None\<rparr>, rv_fingerprint = ''h'', rv_received =
    1000000000, rv_status = RvPending, rv_decided = None\<rparr>)], previews = [], reads_at = [],
    profile = Some ''me'', attention = [(''attention-h'', \<lparr>at_id = ''attention-h'', at_owner =
    ''me'', at_kind = ''friend_request_accepted'', at_subject = ''m2'', at_source_revision = JStr
    ''accepted'', at_state = AtOpen, at_title = T_at_friend_accepted, at_summary =
    ''urn:agent:acme:bob'', at_target_kind = ''inbox'', at_target_id = ''m2'', at_turn = None,
    at_source_kind = ''contact_response'', at_source_id = ''friend-f1'', at_task = None, at_expires =
    None, at_approval = None, at_revision = 1, at_created = 1000000000, at_updated =
    1000000000\<rparr>)], counters = [(''h'', 1)], conversation_turns = [], workers = [], runs = [],
    collaborations = [], events = [], v2_operations = [], invitations = [], mutations = [(key0a,
    \<lparr>mu_fingerprint = finger0, mu_owner = ''me'', mu_result = MContact \<lparr>c_id = ''bob'',
    c_aliases = [''Bob''], c_urn = ''urn:agent:acme:bob'', c_owner = ''me''\<rparr> ConnPending
    ''requested'' (Some ''friend-f1'')\<rparr>)], owner_actions = [], links = [], sessions = [], resumes = [], audits =
    [\<lparr>au_at = 1000000000, au_event = ''remote_contact_added'', au_data = [(''contact_id'', JStr
    ''bob''), (''owner_session'', JStr ''me|s1'')]\<rparr>], history = []\<rparr>"

lemma nt5_step: "serve env1 helper0 (SyncInbox [bob_mail]) nt4 = nt5"
  by (simp add: eval_rules nt4_def nt5_def cong: eval_cong del: run_andThen)

definition nt6 :: store where
  "nt6 =
    \<lparr>contacts = [(''bob'', \<lparr>c_id = ''bob'', c_aliases = [''Bob''], c_urn =
    ''urn:agent:acme:bob'', c_owner = ''me''\<rparr>)], resources = [], tasks = [], operations = [],
    approvals = [], proposals = [], inbox = [(''m1'', \<lparr>w_id = ''m1'', w_sender =
    ''urn:agent:acme:eve'', w_text = ''hello'', w_task = None, w_conversation = None, w_kind = Some
    ''chat.message'', w_reply = None, w_deadline = None, i_fingerprint = ''h'', i_received =
    1000000000, i_quarantined = True, i_reason = Some ''not_connected'', i_request = None\<rparr>),
    (''m2'', \<lparr>w_id = ''m2'', w_sender = ''urn:agent:acme:bob'', w_text = answer_text, w_task =
    None, w_conversation = Some ''friend-f1'', w_kind = Some ''contact.response'', w_reply = Some
    ''friend-f1'', w_deadline = None, i_fingerprint = ''h'', i_received = 1000000000, i_quarantined =
    False, i_reason = None, i_request = None\<rparr>), (''m3'', \<lparr>w_id = ''m3'', w_sender =
    ''urn:agent:acme:bob'', w_text = ''hi there'', w_task = None, w_conversation = None, w_kind = Some
    ''chat.message'', w_reply = None, w_deadline = None, i_fingerprint = ''h'', i_received =
    1000000000, i_quarantined = True, i_reason = Some ''pending_review'', i_request = None\<rparr>)],
    outboxes = [(''friend-f1'', \<lparr>b_id = ''friend-f1'', b_owner = ''me'', b_message =
    \<lparr>x_id = ''friend-f1'', x_recipient = ''urn:agent:acme:bob'', x_kind = ''contact.request'',
    x_conversation = Some ''friend-f1'', x_reply = None, x_text = canonical (JObj [(''protocol'', JStr
    ''agent-comm-contacts/v1''), (''type'', JStr ''request''), (''request_id'', JStr
    ''friend-f1'')])\<rparr>, b_status = XQueued, b_created = 1000000000, b_updated =
    1000000000\<rparr>)], connections = [(''h'', \<lparr>n_owner = ''me'', n_urn =
    ''urn:agent:acme:bob'', n_request = ''friend-f1'', n_at = 1000000000\<rparr>)], requests =
    [(''friend-f1'', \<lparr>q_id = ''friend-f1'', q_owner = ''me'', q_direction = Outgoing, q_urn =
    ''urn:agent:acme:bob'', q_contact = Some ''bob'', q_status = RqAccepted, q_attempt = Some 1,
    q_created = 1000000000, q_updated = 1000000000\<rparr>)], blocks = [], safety = [], message_blocks
    = [], reviews = [(''h'', \<lparr>rv_owner = ''me'', rv_id = ''m3'', rv_sender =
    ''urn:agent:acme:bob'', rv_kind = ''chat.message'', rv_wire = \<lparr>w_id = ''m3'', w_sender =
    ''urn:agent:acme:bob'', w_text = ''hi there'', w_task = None, w_conversation = None, w_kind = Some
    ''chat.message'', w_reply = None, w_deadline = None\<rparr>, rv_fingerprint = ''h'', rv_received =
    1000000000, rv_status = RvPending, rv_decided = None\<rparr>)], previews = [(''h'', ''h'')],
    reads_at = [], profile = Some ''me'', attention = [(''attention-h'', \<lparr>at_id =
    ''attention-h'', at_owner = ''me'', at_kind = ''friend_request_accepted'', at_subject = ''m2'',
    at_source_revision = JStr ''accepted'', at_state = AtOpen, at_title = T_at_friend_accepted,
    at_summary = ''urn:agent:acme:bob'', at_target_kind = ''inbox'', at_target_id = ''m2'', at_turn =
    None, at_source_kind = ''contact_response'', at_source_id = ''friend-f1'', at_task = None,
    at_expires = None, at_approval = None, at_revision = 1, at_created = 1000000000, at_updated =
    1000000000\<rparr>)], counters = [(''h'', 1)], conversation_turns = [], workers = [], runs = [],
    collaborations = [], events = [], v2_operations = [], invitations = [], mutations = [(key0a,
    \<lparr>mu_fingerprint = finger0, mu_owner = ''me'', mu_result = MContact \<lparr>c_id = ''bob'',
    c_aliases = [''Bob''], c_urn = ''urn:agent:acme:bob'', c_owner = ''me''\<rparr> ConnPending
    ''requested'' (Some ''friend-f1'')\<rparr>)], owner_actions = [], links = [], sessions = [], resumes = [], audits =
    [\<lparr>au_at = 1000000000, au_event = ''remote_contact_added'', au_data = [(''contact_id'', JStr
    ''bob''), (''owner_session'', JStr ''me|s1'')]\<rparr>], history = []\<rparr>"

lemma nt6_step: "serve env1 helper0 (PreviewReview (JStr ''m3'') owner0) nt5 = nt6"
  by (simp add: eval_rules nt5_def nt6_def cong: eval_cong del: run_andThen)

definition nt7 :: store where
  "nt7 =
    \<lparr>contacts = [(''bob'', \<lparr>c_id = ''bob'', c_aliases = [''Bob''], c_urn =
    ''urn:agent:acme:bob'', c_owner = ''me''\<rparr>)], resources = [], tasks = [], operations = [],
    approvals = [], proposals = [], inbox = [(''m1'', \<lparr>w_id = ''m1'', w_sender =
    ''urn:agent:acme:eve'', w_text = ''hello'', w_task = None, w_conversation = None, w_kind = Some
    ''chat.message'', w_reply = None, w_deadline = None, i_fingerprint = ''h'', i_received =
    1000000000, i_quarantined = True, i_reason = Some ''not_connected'', i_request = None\<rparr>),
    (''m2'', \<lparr>w_id = ''m2'', w_sender = ''urn:agent:acme:bob'', w_text = answer_text, w_task =
    None, w_conversation = Some ''friend-f1'', w_kind = Some ''contact.response'', w_reply = Some
    ''friend-f1'', w_deadline = None, i_fingerprint = ''h'', i_received = 1000000000, i_quarantined =
    False, i_reason = None, i_request = None\<rparr>), (''m3'', \<lparr>w_id = ''m3'', w_sender =
    ''urn:agent:acme:bob'', w_text = ''hi there'', w_task = None, w_conversation = None, w_kind = Some
    ''chat.message'', w_reply = None, w_deadline = None, i_fingerprint = ''h'', i_received =
    1000000000, i_quarantined = False, i_reason = None, i_request = None\<rparr>)], outboxes =
    [(''friend-f1'', \<lparr>b_id = ''friend-f1'', b_owner = ''me'', b_message = \<lparr>x_id =
    ''friend-f1'', x_recipient = ''urn:agent:acme:bob'', x_kind = ''contact.request'', x_conversation =
    Some ''friend-f1'', x_reply = None, x_text = canonical (JObj [(''protocol'', JStr
    ''agent-comm-contacts/v1''), (''type'', JStr ''request''), (''request_id'', JStr
    ''friend-f1'')])\<rparr>, b_status = XQueued, b_created = 1000000000, b_updated =
    1000000000\<rparr>)], connections = [(''h'', \<lparr>n_owner = ''me'', n_urn =
    ''urn:agent:acme:bob'', n_request = ''friend-f1'', n_at = 1000000000\<rparr>)], requests =
    [(''friend-f1'', \<lparr>q_id = ''friend-f1'', q_owner = ''me'', q_direction = Outgoing, q_urn =
    ''urn:agent:acme:bob'', q_contact = Some ''bob'', q_status = RqAccepted, q_attempt = Some 1,
    q_created = 1000000000, q_updated = 1000000000\<rparr>)], blocks = [], safety = [], message_blocks
    = [], reviews = [(''h'', \<lparr>rv_owner = ''me'', rv_id = ''m3'', rv_sender =
    ''urn:agent:acme:bob'', rv_kind = ''chat.message'', rv_wire = \<lparr>w_id = ''m3'', w_sender =
    ''urn:agent:acme:bob'', w_text = ''hi there'', w_task = None, w_conversation = None, w_kind = Some
    ''chat.message'', w_reply = None, w_deadline = None\<rparr>, rv_fingerprint = ''h'', rv_received =
    1000000000, rv_status = RvApproved, rv_decided = Some 1000000000\<rparr>)], previews = [(''h'',
    ''h'')], reads_at = [], profile = Some ''me'', attention = [(''attention-h'', \<lparr>at_id =
    ''attention-h'', at_owner = ''me'', at_kind = ''peer_message_received'', at_subject = ''m3'',
    at_source_revision = JInt 1, at_state = AtOpen, at_title = T_at_peer_message, at_summary =
    T_at_inbound_summary, at_target_kind = ''inbox'', at_target_id = ''m3'', at_turn = None,
    at_source_kind = ''inbound'', at_source_id = ''h'', at_task = None, at_expires = None, at_approval
    = None, at_revision = 2, at_created = 1000000000, at_updated = 1000000000\<rparr>)], counters =
    [(''h'', 2)], conversation_turns = [], workers = [], runs = [], collaborations = [], events = [],
    v2_operations = [], invitations = [], mutations = [(key0a, \<lparr>mu_fingerprint = finger0,
    mu_owner = ''me'', mu_result = MContact \<lparr>c_id = ''bob'', c_aliases = [''Bob''], c_urn =
    ''urn:agent:acme:bob'', c_owner = ''me''\<rparr> ConnPending ''requested'' (Some
    ''friend-f1'')\<rparr>)], owner_actions = [], links = [], sessions = [], resumes = [], audits = [\<lparr>au_at = 1000000000,
    au_event = ''remote_contact_added'', au_data = [(''contact_id'', JStr ''bob''), (''owner_session'',
    JStr ''me|s1'')]\<rparr>, \<lparr>au_at = 1000000000, au_event = ''peer_content_reviewed'', au_data
    = [(''message_id'', JStr ''m3''), (''owner_id'', JStr ''me'')]\<rparr>], history = []\<rparr>"

lemma nt7_step: "serve env1 helper0 (ReviewPeer (JStr ''m3'') (JStr ''approve'') owner0) nt6 = nt7"
  by (simp add: eval_rules nt6_def nt7_def cong: eval_cong del: run_andThen)

definition nt8 :: store where
  "nt8 =
    \<lparr>contacts = [(''bob'', \<lparr>c_id = ''bob'', c_aliases = [''Bob''], c_urn =
    ''urn:agent:acme:bob'', c_owner = ''me''\<rparr>)], resources = [], tasks = [], operations = [],
    approvals = [], proposals = [], inbox = [(''m1'', \<lparr>w_id = ''m1'', w_sender =
    ''urn:agent:acme:eve'', w_text = ''hello'', w_task = None, w_conversation = None, w_kind = Some
    ''chat.message'', w_reply = None, w_deadline = None, i_fingerprint = ''h'', i_received =
    1000000000, i_quarantined = True, i_reason = Some ''not_connected'', i_request = None\<rparr>),
    (''m2'', \<lparr>w_id = ''m2'', w_sender = ''urn:agent:acme:bob'', w_text = answer_text, w_task =
    None, w_conversation = Some ''friend-f1'', w_kind = Some ''contact.response'', w_reply = Some
    ''friend-f1'', w_deadline = None, i_fingerprint = ''h'', i_received = 1000000000, i_quarantined =
    False, i_reason = None, i_request = None\<rparr>), (''m3'', \<lparr>w_id = ''m3'', w_sender =
    ''urn:agent:acme:bob'', w_text = ''hi there'', w_task = None, w_conversation = None, w_kind = Some
    ''chat.message'', w_reply = None, w_deadline = None, i_fingerprint = ''h'', i_received =
    1000000000, i_quarantined = False, i_reason = None, i_request = None\<rparr>)], outboxes =
    [(''friend-f1'', \<lparr>b_id = ''friend-f1'', b_owner = ''me'', b_message = \<lparr>x_id =
    ''friend-f1'', x_recipient = ''urn:agent:acme:bob'', x_kind = ''contact.request'', x_conversation =
    Some ''friend-f1'', x_reply = None, x_text = canonical (JObj [(''protocol'', JStr
    ''agent-comm-contacts/v1''), (''type'', JStr ''request''), (''request_id'', JStr
    ''friend-f1'')])\<rparr>, b_status = XBlocked, b_created = 1000000000, b_updated =
    1000000000\<rparr>)], connections = [(''h'', \<lparr>n_owner = ''me'', n_urn =
    ''urn:agent:acme:bob'', n_request = ''friend-f1'', n_at = 1000000000\<rparr>)], requests =
    [(''friend-f1'', \<lparr>q_id = ''friend-f1'', q_owner = ''me'', q_direction = Outgoing, q_urn =
    ''urn:agent:acme:bob'', q_contact = Some ''bob'', q_status = RqAccepted, q_attempt = Some 1,
    q_created = 1000000000, q_updated = 1000000000\<rparr>)], blocks = [(''h'', \<lparr>k_owner =
    ''me'', k_urn = ''urn:agent:acme:bob'', k_blocked = True, k_at = 1000000000, k_updated =
    1000000000\<rparr>)], safety = [(''h'', 1)], message_blocks = [(''h'', \<lparr>mb_owner = ''me'',
    mb_id = ''m3'', mb_fingerprint = None\<rparr>)], reviews = [(''h'', \<lparr>rv_owner = ''me'',
    rv_id = ''m3'', rv_sender = ''urn:agent:acme:bob'', rv_kind = ''chat.message'', rv_wire =
    \<lparr>w_id = ''m3'', w_sender = ''urn:agent:acme:bob'', w_text = ''hi there'', w_task = None,
    w_conversation = None, w_kind = Some ''chat.message'', w_reply = None, w_deadline = None\<rparr>,
    rv_fingerprint = ''h'', rv_received = 1000000000, rv_status = RvApproved, rv_decided = Some
    1000000000\<rparr>)], previews = [(''h'', ''h'')], reads_at = [], profile = Some ''me'', attention
    = [(''attention-h'', \<lparr>at_id = ''attention-h'', at_owner = ''me'', at_kind =
    ''peer_message_received'', at_subject = ''m3'', at_source_revision = JStr ''peer_blocked'',
    at_state = AtSuperseded, at_title = T_at_peer_message, at_summary = T_at_inbound_summary,
    at_target_kind = ''inbox'', at_target_id = ''m3'', at_turn = None, at_source_kind = ''inbound'',
    at_source_id = ''h'', at_task = None, at_expires = None, at_approval = None, at_revision = 3,
    at_created = 1000000000, at_updated = 1000000000\<rparr>)], counters = [(''h'', 3)],
    conversation_turns = [], workers = [], runs = [], collaborations = [], events = [], v2_operations =
    [], invitations = [], mutations = [(key0a, \<lparr>mu_fingerprint = finger0, mu_owner = ''me'',
    mu_result = MContact \<lparr>c_id = ''bob'', c_aliases = [''Bob''], c_urn = ''urn:agent:acme:bob'',
    c_owner = ''me''\<rparr> ConnPending ''requested'' (Some ''friend-f1'')\<rparr>)], owner_actions =
    [], links = [], sessions = [], resumes = [], audits = [\<lparr>au_at = 1000000000, au_event = ''remote_contact_added'', au_data
    = [(''contact_id'', JStr ''bob''), (''owner_session'', JStr ''me|s1'')]\<rparr>, \<lparr>au_at =
    1000000000, au_event = ''peer_content_reviewed'', au_data = [(''message_id'', JStr ''m3''),
    (''owner_id'', JStr ''me'')]\<rparr>], history = []\<rparr>"

lemma nt8_step: "serve env1 helper0 (SetBlock (JStr ''urn:agent:acme:bob'') True owner0) nt7 = nt8"
  by (simp add: eval_rules nt7_def nt8_def cong: eval_cong del: run_andThen)

end
