(* ===== verification/System_Laws.thy ===== *)
theory System_Laws
  imports Scenario_Task Scenario_Mail
begin

text \<open>
  What holds of every store the commands can produce, and what stays the case however it develops.
  The witnesses are the stores of the two scenarios.
\<close>

section \<open>The stores of the scenarios are reachable\<close>

lemma sha_envs: "sha env0 = hash0" "sha env1 = hash0"
  by (simp_all add: env0_def env1_def)

lemmas task_steps = st1_step st2_step st3_step st4_step st5_step st6_step st7_step
lemmas mail_steps = nt1_step nt2_step nt3_step nt4_step nt5_step nt6_step nt7_step nt8_step

lemma develops_step: "serve E send c s = t \<Longrightarrow> sha E = H \<Longrightarrow> develops H s t"
  using develops.more [OF develops.same] by metis

lemma task_develops:
  "develops hash0 empty_store st1" "develops hash0 st1 st2" "develops hash0 st2 st3" "develops hash0 st3 st4"
  "develops hash0 st4 st5" "develops hash0 st5 st6" "develops hash0 st6 st7"
  by (rule task_steps [THEN develops_step, OF sha_envs(1)])+

lemma mail_develops:
  "develops hash0 empty_store nt1" "develops hash0 nt1 nt2" "develops hash0 nt2 nt3" "develops hash0 nt3 nt4"
  "develops hash0 nt4 nt5" "develops hash0 nt5 nt6" "develops hash0 nt6 nt7" "develops hash0 nt7 nt8"
  by (rule mail_steps [THEN develops_step, OF sha_envs(2)])+

lemma reachable_empty: "reachable H empty_store"
  by (simp add: reachable_def develops.same)

lemma scenario_reachable:
  shows "reachable hash0 st1" "reachable hash0 st2" "reachable hash0 st3" "reachable hash0 st4"
    "reachable hash0 st5" "reachable hash0 st6" "reachable hash0 st7"
    and "reachable hash0 nt1" "reachable hash0 nt2" "reachable hash0 nt3" "reachable hash0 nt4"
    "reachable hash0 nt5" "reachable hash0 nt6" "reachable hash0 nt7" "reachable hash0 nt8"
  by (metis reachable_empty task_develops mail_develops develops_reachable)+

lemma task_span: "develops hash0 st2 st7"
  by (metis task_develops develops_trans)

section \<open>Helpers\<close>

lemma reachable_rows:
  assumes "reachable H s"
  shows "tget k (tasks s) = Some t \<Longrightarrow> t_id t = k \<and> task_ok t"
    and "tget k (workers s) = Some r \<Longrightarrow> wp_task r = k \<and> worker_ok r"
    and "tget k (collaborations s) = Some c \<Longrightarrow> v_id c = k \<and> permit_ok (v_permit c)"
    and "feed_ok H s"
  using reachable_sound [OF assms] by (auto simp: sound_def keyed_def dest: all_rowsD)

lemma table_evolvesD: "table_evolves P t u \<Longrightarrow> tget k t = Some v \<Longrightarrow> \<exists>w. tget k u = Some w \<and> P v w"
  by (auto simp: table_evolves_def)

lemma grown_rows:
  assumes "reachable H s" "develops H s t"
  shows "tget k (contacts s) = Some c \<Longrightarrow> tget k (contacts t) = Some c"
    and "tget k (resources s) = Some r \<Longrightarrow> tget k (resources t) = Some r"
    and "tget k (mutations s) = Some m \<Longrightarrow> tget k (mutations t) = Some m"
    and "tget k (reads_at s) = Some i \<Longrightarrow> tget k (reads_at t) = Some i"
    and "tget k (tasks s) = Some a \<Longrightarrow> \<exists>b. tget k (tasks t) = Some b \<and> task_le a b"
    and "tget k (approvals s) = Some p \<Longrightarrow> \<exists>q. tget k (approvals t) = Some q \<and> approval_le p q"
    and "tget k (operations s) = Some z \<Longrightarrow>
      \<exists>y. tget k (operations t) = Some y \<and> operation_core z = operation_core y"
    and "tget k (inbox s) = Some x \<Longrightarrow> \<exists>y. tget k (inbox t) = Some y \<and> inbound_core x = inbound_core y"
    and "tget k (reviews s) = Some v \<Longrightarrow> \<exists>w. tget k (reviews t) = Some w \<and> review_le v w"
    and "tget k (collaborations s) = Some l \<Longrightarrow>
      \<exists>l'. tget k (collaborations t) = Some l' \<and> collaboration_le l l'"
  using reachable_grows [OF assms]
  by (auto simp: grows_def same_core_def dest: table_evolvesD)


lemma permit_le_stay: "rel_option permit_le (Some p) x \<Longrightarrow> \<exists>q. x = Some q \<and> permit_le p q"
  by (auto simp: option_rel_Some1)

lemma prefix_drop: "prefix xs ys \<Longrightarrow> \<exists>zs. ys = xs @ zs"
  by (auto simp: prefix_def)

section \<open>Bounds and invariants of every reachable store\<close>

text \<open>
  C4: In every store the commands can produce, a mandate stands under its own identifier, carries a
  scope in normal form, has at least revision 1, and has spent no less than nothing and no more than
  the number of outbound messages its owner confirmed, itself at most 100000.
\<close>
theorem budget_bounded:
  assumes "reachable H s" "tget k (tasks s) = Some t"
  shows "t_id t = k \<and> 1 \<le> t_revision t \<and> 0 \<le> t_used t \<and> t_used t \<le> sc_max_actions (t_scope t)
    \<and> sc_max_actions (t_scope t) \<le> 100000 \<and> validate_scope (scope_json (t_scope t)) = Inr (t_scope t)"
  using reachable_rows(1) [OF assms] validate_scope_normal [of "t_scope t"]
  by (auto simp: task_ok_def wf_scope_def)

lemma budget_bounded_witness:
  "\<exists>t. tget ''t1'' (tasks st6) = Some t \<and> t_used t = 1 \<and> t_used t \<le> sc_max_actions (t_scope t)"
proof -
  obtain t where t: "tget ''t1'' (tasks st6) = Some t" "t_used t = 1" by (simp add: st6_def tget_def)
  from budget_bounded [OF scenario_reachable(6) t(1)] t show ?thesis by blast
qed

text \<open>
  In every reachable store the revisions of one principal's attention feed are positive, pairwise
  different and never above that principal's counter, so a cursor orders the items of the feed.
\<close>
theorem feed_is_ordered:
  assumes "reachable H s" "sha E = H"
    and "tget k (attention s) = Some i" "tget l (attention s) = Some j"
  shows "0 < at_revision i \<and> at_revision i \<le> counter E s (at_owner i)
    \<and> (at_owner i = at_owner j \<and> at_revision i = at_revision j \<longrightarrow> k = l)"
  using reachable_rows(4) [OF assms(1)] assms(2-4) unfolding feed_ok_def by blast

lemma feed_is_ordered_witness:
  "\<exists>i. tget ''attention-h'' (attention st6) = Some i \<and> at_revision i \<le> counter env0 st6 (at_owner i)"
proof -
  obtain i where i: "tget ''attention-h'' (attention st6) = Some i" by (simp add: st6_def tget_def)
  from feed_is_ordered [OF scenario_reachable(6) sha_envs(1) i i] i show ?thesis by blast
qed

section \<open>What no command can change\<close>

text \<open>
  C26: However a reachable store develops, a mandate is never dropped and never widened: its scope and
  its owner session are the ones confirmed, its revision, its status (pending, active, revoked) and
  its use count only advance; so a revoked mandate stays revoked.
\<close>
theorem mandate_only_advances:
  assumes "reachable H s" "develops H s u" "tget k (tasks s) = Some t"
  shows "\<exists>t'. tget k (tasks u) = Some t' \<and> t_scope t' = t_scope t \<and> t_session t' = t_session t
    \<and> t_revision t \<le> t_revision t' \<and> t_status t \<le> t_status t' \<and> t_used t \<le> t_used t'
    \<and> (t_status t = TRevoked \<longrightarrow> t_status t' = TRevoked)"
proof -
  obtain t' where "tget k (tasks u) = Some t'" and le: "task_le t t'"
    using grown_rows(5) [OF assms] by blast
  moreover have "t_status t' = TRevoked" if "t_status t = TRevoked"
    using le that by (cases "t_status t'") (simp_all add: task_le_def less_eq_task_status_def)
  ultimately show ?thesis by (auto simp: task_le_def)
qed

lemma mandate_only_advances_witness:
  "\<exists>t t'. tget ''t1'' (tasks st2) = Some t \<and> tget ''t1'' (tasks st7) = Some t' \<and> t_status t = TPending
    \<and> t_status t' = TRevoked \<and> t_scope t' = t_scope t"
proof -
  obtain t where t: "tget ''t1'' (tasks st2) = Some t" "t_status t = TPending" by (simp add: st2_def tget_def)
  have r: "t_status t' = TRevoked" if "tget ''t1'' (tasks st7) = Some t'" for t'
    using that by (auto simp: st7_def tget_def)
  from mandate_only_advances [OF scenario_reachable(2) task_span t(1)] t r show ?thesis by blast
qed

text \<open>
  A confirmed contact binding, a registered resource snapshot, the receipt of a replay-safe
  mutation and a read mark, once in a reachable store, are in every later store unchanged.
\<close>
theorem confirmed_rows_fixed:
  assumes "reachable H s" "develops H s u"
  shows "(\<forall>c. tget k (contacts s) = Some c \<longrightarrow> tget k (contacts u) = Some c)
    \<and> (\<forall>r. tget k (resources s) = Some r \<longrightarrow> tget k (resources u) = Some r)
    \<and> (\<forall>m. tget k (mutations s) = Some m \<longrightarrow> tget k (mutations u) = Some m)
    \<and> (\<forall>i. tget k (reads_at s) = Some i \<longrightarrow> tget k (reads_at u) = Some i)"
  using grown_rows(1-4) [OF assms] by blast

lemma confirmed_rows_fixed_witness:
  "tget ''bob'' (contacts st1) \<noteq> None \<and> tget ''bob'' (contacts st7) = tget ''bob'' (contacts st1)"
proof -
  obtain c where c: "tget ''bob'' (contacts st1) = Some c" by (simp add: st1_def tget_def)
  have "develops hash0 st1 st7" by (rule develops_trans [OF task_span task_develops(2)])
  from confirmed_rows_fixed [OF scenario_reachable(1) this, of "''bob''"] c show ?thesis by simp
qed

text \<open>
  An owner decision is final: a denied approval stays denied, a superseded one superseded, an
  approved one can only be superseded, and the question shown, the payload it binds, the subject and
  the owner it was asked of never change.
\<close>
theorem decisions_final:
  assumes "reachable H s" "develops H s u" "tget k (approvals s) = Some p"
  shows "\<exists>q. tget k (approvals u) = Some q \<and> p_payload q = p_payload p \<and> p_question q = p_question p
    \<and> p_subject q = p_subject p \<and> p_fingerprint q = p_fingerprint p
    \<and> principal (p_session q) = principal (p_session p)
    \<and> (p_status p = ADenied \<longrightarrow> p_status q = ADenied)
    \<and> (p_status p = ASuperseded \<longrightarrow> p_status q = ASuperseded)
    \<and> (p_status p = AApproved \<longrightarrow> p_status q \<in> {AApproved, ASuperseded})"
  using grown_rows(6) [OF assms] by (auto simp: approval_le_def approval_core_def)

lemma decisions_final_witness:
  "\<exists>p q. tget ''approval-h'' (approvals st4) = Some p \<and> tget ''approval-h'' (approvals st7) = Some q
    \<and> p_status p = AApproved \<and> p_status q \<in> {AApproved, ASuperseded} \<and> p_payload q = p_payload p"
proof -
  obtain p where p: "tget ''approval-h'' (approvals st4) = Some p" "p_status p = AApproved"
    by (simp add: st4_def tget_def)
  have "develops hash0 st4 st7" by (metis task_develops develops_trans)
  from decisions_final [OF scenario_reachable(4) this p(1)] p show ?thesis by blast
qed

text \<open>
  A prepared operation keeps its exact content: the action, the recipients with their bindings,
  the resource snapshots, the text and the wire text, the content hash and the task are those of the
  preparation, whatever happens later.
\<close>
theorem prepared_content_fixed:
  assumes "reachable H s" "develops H s u" "tget k (operations s) = Some z"
  shows "\<exists>y. tget k (operations u) = Some y \<and> o_action y = o_action z \<and> o_recipients y = o_recipients z
    \<and> o_resources y = o_resources z \<and> o_text y = o_text z \<and> o_wire_text y = o_wire_text z
    \<and> o_hash y = o_hash z \<and> o_task y = o_task z \<and> o_session y = o_session z"
  using grown_rows(7) [OF assms] by (auto simp: operation_core_def)

lemma prepared_content_fixed_witness:
  "\<exists>z y. tget ''op1'' (operations st5) = Some z \<and> tget ''op1'' (operations st7) = Some y
    \<and> o_wire_text y = o_wire_text z \<and> o_status z = OReady"
proof -
  obtain z where z: "tget ''op1'' (operations st5) = Some z" "o_status z = OReady"
    by (simp add: st5_def tget_def)
  have "develops hash0 st5 st7" by (metis task_develops develops_trans)
  from prepared_content_fixed [OF scenario_reachable(5) this z(1)] z show ?thesis by blast
qed

text \<open>
  A received message keeps its authenticated fields, its fingerprint and its time of arrival, and
  the review of a peer's first contact is decided at most once: a decided review never changes.
\<close>
theorem received_fixed:
  assumes "reachable H s" "develops H s u"
  shows "(\<forall>m. tget k (inbox s) = Some m \<longrightarrow> (\<exists>m'. tget k (inbox u) = Some m'
      \<and> wire.truncate m' = wire.truncate m \<and> i_fingerprint m' = i_fingerprint m
      \<and> i_received m' = i_received m))
    \<and> (\<forall>r. tget k (reviews s) = Some r \<and> rv_status r \<noteq> RvPending \<longrightarrow> tget k (reviews u) = Some r)"
proof (intro conjI allI impI)
  fix m assume "tget k (inbox s) = Some m"
  from grown_rows(8) [OF assms this] show "\<exists>m'. tget k (inbox u) = Some m'
      \<and> wire.truncate m' = wire.truncate m \<and> i_fingerprint m' = i_fingerprint m \<and> i_received m' = i_received m"
    by (auto simp: inbound_core_def)
next
  fix r assume "tget k (reviews s) = Some r \<and> rv_status r \<noteq> RvPending"
  then show "tget k (reviews u) = Some r"
    using grown_rows(9) [OF assms, of k r] by (auto simp: review_le_def)
qed

lemma received_fixed_witness:
  "\<exists>m m'. tget ''m1'' (inbox nt3) = Some m \<and> tget ''m1'' (inbox nt8) = Some m' \<and> w_text m' = ''hello''
    \<and> i_received m' = i_received m"
proof -
  obtain m where m: "tget ''m1'' (inbox nt3) = Some m" "w_text (wire.truncate m) = ''hello''"
    by (simp add: nt3_def tget_def wire.truncate_def)
  have "develops hash0 nt3 nt8" by (metis mail_develops develops_trans)
  from received_fixed [OF scenario_reachable(10) this, of "''m1''"] m obtain m' where
    "tget ''m1'' (inbox nt8) = Some m'" "wire.truncate m' = wire.truncate m" "i_received m' = i_received m"
    by blast
  moreover from this have "w_text (wire.truncate m') = ''hello''" using m by simp
  ultimately show ?thesis using m by (auto simp: wire.truncate_def)
qed

text \<open>
  The audit journal and the task history are only appended to: what was recorded is never edited,
  reordered or removed.
\<close>
theorem journals_append_only:
  assumes "reachable H s" "develops H s u"
  shows "\<exists>as hs. audits u = audits s @ as \<and> history u = history s @ hs"
  using reachable_grows [OF assms] by (auto simp: grows_def prefix_def)

lemma journals_append_only_witness:
  "\<exists>as hs. audits st7 = audits st2 @ as \<and> history st7 = history st2 @ hs \<and> hs \<noteq> []"
proof -
  from journals_append_only [OF scenario_reachable(2) task_span] obtain as hs where
    *: "audits st7 = audits st2 @ as" "history st7 = history st2 @ hs" by blast
  have "length (history st2) < length (history st7)" by (simp add: st2_def st7_def)
  with * show ?thesis by (intro exI [of _ as] exI [of _ hs]) auto
qed

end
