(* ===== verification/Laws_Dispatch.thy ===== *)
theory Laws_Dispatch
  imports System_Laws
begin

text \<open>
  What leaves the store under a mandate: the reservation that charges the budget before anything is
  sent, the delivery of exactly the reserved content, and the refusals.
\<close>

section \<open>One delivery\<close>

lemma first_of_filter: "filter P xs = y # ys \<Longrightarrow> y \<in> set xs \<and> P y"
  by (metis (mono_tags) list.set_intros(1) mem_Collect_eq set_filter)

lemma find_task_Inr: "find_task s tid session = Inr t \<Longrightarrow> tget tid (tasks s) = Some t \<and> session_owned (t_session t) session"
  by (auto simp: find_task_def refuse_def split: option.splits if_splits)

lemma operation_live_task:
  "operation_live E s z = Inr True \<Longrightarrow> \<exists>t. tget (o_task z) (tasks s) = Some t \<and> t_status t = TActive
    \<and> now E < sc_expires_at (t_scope t) \<and> t_revision t = o_revision z"
  by (auto simp: operation_live_def live_def split: option.splits if_splits)

text \<open>
  C1: The helper is asked to queue a message of an operation only while the mandate is active, not
  past its deadline and at the revision the operation was prepared for, the recipient is a contact
  this owner may send to and not blocked, and the delivery is not yet accepted; and what it is given
  is exactly the prepared wire text, addressed to the binding reserved for that delivery.
\<close>
theorem delivery_authorised:
  assumes "deliver_one E send oid session mid s = Inr (DelSent body ok, s')"
  shows "\<exists>z t d. tget oid (operations s) = Some z \<and> tget (o_task z) (tasks s) = Some t
    \<and> session_owned (t_session t) session \<and> t_status t = TActive \<and> now E < sc_expires_at (t_scope t)
    \<and> t_revision t = o_revision z \<and> d \<in> set (o_deliveries z) \<and> d_message d = mid
    \<and> d_status d \<noteq> DAccepted \<and> can_send_to E s (d_urn d) session
    \<and> \<not> peer_blocked E s (d_urn d) session \<and> body = helper_body z t d
    \<and> (ok \<longleftrightarrow> (\<exists>j. send body = Inr j \<and> acknowledged j mid))"
proof -
  obtain z where z: "tget oid (operations s) = Some z"
    using assms by (auto simp: deliver_one_def split: option.splits)
  obtain t where t: "find_task s (o_task z) session = Inr t"
    using assms z by (auto simp: deliver_one_def)
  have "filter (\<lambda>d. d_message d = mid) (o_deliveries z) \<noteq> []"
    using assms z t by (auto simp: deliver_one_def)
  then obtain d ds where d: "filter (\<lambda>d. d_message d = mid) (o_deliveries z) = d # ds"
    by (cases "filter (\<lambda>d. d_message d = mid) (o_deliveries z)") simp_all
  from assms z t d have live: "operation_live E s z = Inr True"
    and new: "d_status d \<noteq> DAccepted" and can: "can_send_to E s (d_urn d) session"
    and body: "body = helper_body z t d"
    and ok: "ok = (case send body of Inr j \<Rightarrow> acknowledged j (d_message d) | Inl _ \<Rightarrow> False)"
    by (auto simp: deliver_one_def Let_def split: if_splits)
  from operation_live_task [OF live] find_task_Inr [OF t] first_of_filter [OF d] z new can body ok
  show ?thesis
    by (auto simp: can_send_to_def split: sum.splits)
qed

lemma scenario_delivery:
  "\<exists>s s' body. dispatch_reserve env0 ''op1'' owner0 st5 = Inr (DReserved [''collab-h''], s)
    \<and> deliver_one env0 helper0 ''op1'' owner0 ''collab-h'' s = Inr (DelSent body True, s')"
  by (simp add: eval_rules st5_def cong: eval_cong del: run_andThen)

lemma delivery_authorised_witness:
  "\<exists>s z t d. tget ''op1'' (operations s) = Some z \<and> tget (o_task z) (tasks s) = Some t \<and> t_status t = TActive \<and> d \<in> set (o_deliveries z)
    \<and> can_send_to env0 s (d_urn d) owner0"
proof -
  obtain s s' body where
    "deliver_one env0 helper0 ''op1'' owner0 ''collab-h'' s = Inr (DelSent body True, s')"
    using scenario_delivery by blast
  from delivery_authorised [OF this] show ?thesis by blast
qed

section \<open>Writes\<close>

lemma stillD:
  "still s u \<Longrightarrow> tasks u = tasks s" "still s u \<Longrightarrow> operations u = operations s"
  "still s u \<Longrightarrow> contacts u = contacts s" "still s u \<Longrightarrow> approvals u = approvals s"
  by (simp_all add: still_def quiet_def)

lemma pending_batch_four: "length (pending_batch z) \<le> 4"
  by (simp add: pending_batch_def)

lemma put_operation_run:
  "put_operation E z s = Inr (x, s') \<Longrightarrow> still (s\<lparr>operations := tput (o_id z) z (operations s)\<rparr>) s'"
proof -
  assume run: "put_operation E z s = Inr (x, s')"
  let ?m = "andThen (act_when (tget (o_id z) (operations s) \<noteq> Some z)
       (journal E (principal (o_session z)) ''operation'' (Some (o_task z)) (o_id z)
         (op_status_str (o_status z)) (opt_item ''approval_id'' (o_approval z)) None)) (\<lambda>_.
     attention_v1 E z)"
  have "steps still ?m"
    unfolding attention_v1_def by (intro st.steps_andThen st.steps_when st.hk_journal st.hk_attention_operation [OF refl])
  moreover have "?m (s\<lparr>operations := tput (o_id z) z (operations s)\<rparr>) = Inr (x, s')"
    using run by (auto simp: put_operation_def Let_def)
  ultimately show ?thesis by (rule stepsD)
qed

lemma put_task_run:
  assumes "put_task E t s = Inr (x, s')"
  shows "still (s\<lparr>tasks := tput (t_id t) x (tasks s)\<rparr>) s'
    \<and> x = t\<lparr>t_source := bound_source E (binding_owns E (principal (t_session t))) (t_source t)\<rparr>"
proof -
  let ?t = "t\<lparr>t_source := bound_source E (binding_owns E (principal (t_session t))) (t_source t)\<rparr>"
  obtain u where link: "record_link E ''task'' (t_id t) (principal (t_session t)) (Some (t_id t)) s = Inr ((), u)"
    and rest: "act_when (tget (t_id t) (tasks s) \<noteq> Some ?t) (journal E (principal (t_session t)) ''task''
        (Some (t_id t)) (t_id t) (task_status_str (t_status ?t))
        [(''revision'', JInt (t_revision ?t)), (''used_count'', JInt (t_used ?t))] (t_source ?t))
        (u\<lparr>tasks := tput (t_id t) ?t (tasks u)\<rparr>) = Inr ((), s')" and x: "x = ?t"
    using assms by (auto simp: put_task_def Let_def)
  have "still s u" using stepsD [where R = still, OF st.hk_link link] .
  moreover have "still (u\<lparr>tasks := tput (t_id t) ?t (tasks u)\<rparr>) s'"
    using stepsD [where R = still, OF st.steps_when [OF st.hk_journal] rest] .
  ultimately show ?thesis using x by (simp add: still_def quiet_def)
qed

text \<open>
  C2: A dispatch hands at most four deliveries to the helper, and only for a mandate in force. On the
  first dispatch the one use has been charged to the mandate and the operation stored as sending,
  with one delivery per recipient, before any of them leaves, and only because the current policy
  verdict is allow or the owner approved this very operation; on a retry nothing is charged again.
\<close>
theorem reserved_before_sending:
  assumes "dispatch_reserve E oid session s = Inr (DReserved mids, s')" "reachable H s"
  shows "length mids \<le> 4 \<and> (\<exists>z t. tget oid (operations s) = Some z \<and> tget (o_task z) (tasks s) = Some t
    \<and> t_status t = TActive \<and> now E < sc_expires_at (t_scope t) \<and> t_revision t = o_revision z
    \<and> (\<forall>c \<in> set (o_recipients z). can_send_to E s (c_urn c) session)
    \<and> (o_status z = OSending \<and> s' = s
       \<or> o_status z = OReady \<and> t_used t < sc_max_actions (t_scope t)
         \<and> (v_decision (evaluate_current E s t (action_json (o_action z))) = Allow
            \<or> v_decision (evaluate_current E s t (action_json (o_action z))) = Ask \<and> o_approved_once z)
         \<and> (\<exists>t'. tget (o_task z) (tasks s') = Some t' \<and> t_used t' = t_used t + 1)
         \<and> tget oid (operations s') = Some (reservation E z)))"
proof -
  obtain z where z: "tget oid (operations s) = Some z"
    using assms by (auto simp: dispatch_reserve_def split: option.splits)
  obtain t where t: "find_task s (o_task z) session = Inr t" and live: "operation_live E s z = Inr True"
    and st: "o_status z \<in> {OReady, OSending}"
    and can: "\<forall>c \<in> set (o_recipients z). can_send_to E s (c_urn c) session"
    and rest: "(if o_status z = OReady then reserve_ready E t z session
        else ret (DReserved (pending_batch z))) s = Inr (DReserved mids, s')"
    using assms(1) z by (auto simp: dispatch_reserve_def list_ex_iff split: if_splits)
  have ids: "t_id t = o_task z" "o_id z = oid"
    using reachable_sound [OF assms(2)] find_task_Inr [OF t] z by (auto simp: sound_def keyed_def)
  have four: "length mids \<le> 4"
    using rest pending_batch_four by (auto simp: reserve_ready_def Let_def split: if_splits)
  show ?thesis
  proof (cases "o_status z = OReady")
    case True
    with rest obtain x u where room: "t_used t < sc_max_actions (t_scope t)"
      and verdict: "v_decision (evaluate_current E s t (action_json (o_action z))) = Allow
            \<or> v_decision (evaluate_current E s t (action_json (o_action z))) = Ask \<and> o_approved_once z"
      and task: "put_task E (t\<lparr>t_used := t_used t + 1\<rparr>) s = Inr (x, u)"
      and op: "put_operation E (reservation E z) u = Inr ((), s')"
      by (cases "v_decision (evaluate_current E s t (action_json (o_action z)))")
        (auto simp: reserve_ready_def Let_def split: if_splits)
    from put_task_run [OF task] put_operation_run [OF op, THEN stillD(1)]
      put_operation_run [OF op, THEN stillD(2)] ids
    have "tget (o_task z) (tasks s') = Some x" "t_used x = t_used t + 1"
      "tget oid (operations s') = Some (reservation E z)"
      by (auto simp: reservation_def dest!: stillD(1))
    then show ?thesis
      using four z find_task_Inr [OF t] operation_live_task [OF live] can True room verdict by auto
  next
    case False
    then show ?thesis
      using four z find_task_Inr [OF t] operation_live_task [OF live] can st rest by auto
  qed
qed

lemma reserved_before_sending_witness:
  "\<exists>s z t t'. dispatch_reserve env0 ''op1'' owner0 st5 = Inr (DReserved [''collab-h''], s)
    \<and> tget ''op1'' (operations st5) = Some z \<and> tget (o_task z) (tasks st5) = Some t
    \<and> tget (o_task z) (tasks s) = Some t' \<and> t_used t' = t_used t + 1
    \<and> tget ''op1'' (operations s) = Some (reservation env0 z)"
proof -
  obtain s where s: "dispatch_reserve env0 ''op1'' owner0 st5 = Inr (DReserved [''collab-h''], s)"
    using scenario_delivery by blast
  have "o_status z \<noteq> OSending" if "tget ''op1'' (operations st5) = Some z" for z
    using that by (auto simp: st5_def tget_def)
  with reserved_before_sending [OF s scenario_reachable(5)] s show ?thesis by metis
qed

section \<open>Dispatching again\<close>

text \<open>
  Once an operation is accepted, dispatching it again is harmless: no message is handed to the
  helper, whatever it would answer, and the store does not change.
\<close>
theorem accepted_dispatch_idle:
  assumes "tget oid (operations s) = Some z" "o_status z = OAccepted"
  shows "snd (dispatch E send oid session s) = s
    \<and> fst (dispatch E send oid session s) = fst (dispatch E send' oid session s)
    \<and> (session_owned (o_session z) session \<longrightarrow>
        fst (dispatch E send oid session s) = (case operation_view E s z of Inl e \<Rightarrow> Inl e | Inr w \<Rightarrow> Inr (DView w)))"
proof (cases "session_owned (o_session z) session")
  case False
  then have "dispatch_reserve E oid session s = Inl (ValueError ''Operation is not available to this owner session'')"
    using assms by (simp add: dispatch_reserve_def)
  then show ?thesis using False by (simp add: dispatch_def)
next
  case True
  then have "dispatch_reserve E oid session s = andThen (lift (operation_view E s z)) (\<lambda>w. ret (DView w)) s"
    using assms by (simp add: dispatch_reserve_def)
  then show ?thesis
    using True by (cases "operation_view E s z") (simp_all add: dispatch_def act_defs)
qed

lemma accepted_dispatch_idle_witness:
  "snd (dispatch env0 (\<lambda>_. Inl (OSError ''down'')) ''op1'' owner0 st6) = st6"
proof -
  obtain z where "tget ''op1'' (operations st6) = Some z" "o_status z = OAccepted"
    by (simp add: st6_def tget_def)
  from accepted_dispatch_idle [OF this] show ?thesis by blast
qed

end
