(* ===== verification/Laws_Delivery.thy ===== *)
theory Laws_Delivery
  imports Laws_Dispatch
begin


lemma can_send_operations [simp]: "can_send_to E (s\<lparr>operations := x\<rparr>) urn w = can_send_to E s urn w"
  "can_send_to E (s\<lparr>tasks := y\<rparr>) urn w = can_send_to E s urn w"
  by (simp_all add: can_send_to_def peer_blocked_def own_contacts_def contact_status_def outgoing_requests_def)


section \<open>The state of a dispatch under way\<close>










section \<open>The whole dispatch\<close>







end
