(* ===== verification/Laws_Consent.thy ===== *)
theory Laws_Consent
  imports Laws_Delivery
begin

text \<open>
  The owner's consent: what an approval takes, that its token is spent, that there is one lease at a
  time, and that the effect of an approval is only ever the payload that was asked about.
\<close>

section \<open>Writing an approval\<close>

lemma put_approval_run:
  assumes "put_approval E a s = Inr (x, s')"
  shows "x = a\<lparr>p_source := bound_source E (binding_owns E (principal (p_session a))) (p_source a)\<rparr>
    \<and> approvals s' = tput (p_id a) x (approvals s)"
proof -
  let ?a = "a\<lparr>p_source := bound_source E (binding_owns E (principal (p_session a))) (p_source a)\<rparr>"
  let ?m = "andThen (act_when (tget (p_id a) (approvals s) \<noteq> Some ?a)
          (journal E (principal (p_session a)) ''approval'' (approval_task_id s ?a) (p_id a)
            (ap_status_str (p_status a))
            [(''kind'', JStr (payload_kind (p_payload a))), (''subject_id'', JStr (p_subject a)),
             (''expires_at'', jtime (p_expires a))] (p_source ?a)))
        (\<lambda>_. andThen (attention_approval E ?a False) (\<lambda>_. ret ?a))"
  obtain u where link: "record_link E ''approval'' (p_id a) (principal (p_session a)) (approval_task_id s ?a) s
      = Inr ((), u)" and rest: "?m (u\<lparr>approvals := tput (p_id a) ?a (approvals u)\<rparr>) = Inr (x, s')"
    using assms by (simp add: put_approval_def Let_def) blast
  have "x = ?a" using rest by auto
  moreover have "approvals u = approvals s"
    using stepsD [where R = still, OF st.hk_link link] by (simp add: stillD)
  moreover have "steps still ?m"
    by (intro st.steps_andThen st.steps_when st.hk_journal st.hk_attention_approval [OF refl] st.steps_ret)
  from stepsD [OF this rest] have "approvals s' = tput (p_id a) ?a (approvals u)" by (simp add: stillD(4))
  ultimately show ?thesis by simp
qed

lemma audit_rows: "audit E ev d s = Inr (x, s') \<Longrightarrow> approvals s' = approvals s"
  by (auto simp: audit_def)

section \<open>A finished confirmation\<close>

lemma approval_current_rows: "approval_current E a s = Inr (b, t) \<Longrightarrow> approvals t = approvals s"
  using stepsD [where R = still, OF st.hk_approval_current [OF refl]] by (metis stillD(4))

lemma resolve_answer_result:
  assumes "resolve_answer E b raw u = Inr ((a, r), v)"
  shows "a = b\<lparr>p_status := p_status a\<rparr> \<and>
    (answer_of raw \<in> set yes_words \<and> r = ApprovedOnce \<and> p_status a = AApproved
     \<or> answer_of raw \<in> set no_words \<and> r = DeniedByOwner \<and> p_status a = ADenied
     \<or> r = NoConsent \<and> p_status a = APending)"
  using assms by (auto simp: resolve_answer_def Let_def split: if_splits)

text \<open>What a confirmation that was not refused has checked, and what it leaves.\<close>

definition confirmed :: "env \<Rightarrow> string \<Rightarrow> string \<Rightarrow> json \<Rightarrow> store \<Rightarrow> approval \<Rightarrow> approval \<Rightarrow> answer_outcome \<Rightarrow> bool" where
  "confirmed E token session raw s a0 a r \<longleftrightarrow> p_session a0 = session \<and> p_status a0 = APresenting
     \<and> (case p_token a0 of Some h \<Rightarrow> h | None \<Rightarrow> []) = digest E (JStr token)
     \<and> a = (consumed a0)\<lparr>p_status := p_status a\<rparr>
     \<and> (r = ExpiredConfirmation \<and> p_status a = AExpired
        \<or> now E < lease_end a0 \<and> now E < p_expires a0
          \<and> (\<exists>t. approval_current E (consumed a0) s = Inr (True, t))
          \<and> (answer_of raw \<in> set yes_words \<and> r = ApprovedOnce \<and> p_status a = AApproved
             \<or> answer_of raw \<in> set no_words \<and> r = DeniedByOwner \<and> p_status a = ADenied
             \<or> r = NoConsent \<and> p_status a = APending))"

lemma finish_inv:
  assumes run: "finish_confirmation E aid token session raw s = Inr (r, s')"
    and keyed: "keyed p_id (approvals s)"
  shows "\<exists>a0 a x. tget aid (approvals s) = Some a0 \<and> confirmed E token session raw s a0 a r
    \<and> tget aid (approvals s') = Some (a\<lparr>p_source := x\<rparr>)"
proof -
  obtain a0 where a0: "tget aid (approvals s) = Some a0"
    using run by (auto simp: finish_confirmation_def split: option.splits)
  have id: "p_id a0 = aid" using keyed a0 by (auto simp: keyed_def)
  let ?bad = "p_session a0 \<noteq> session \<or> p_status a0 \<noteq> APresenting
      \<or> (case p_token a0 of Some h \<Rightarrow> h | None \<Rightarrow> []) \<noteq> digest E (JStr token)"
  have ok: "\<not> ?bad"
  proof
    assume ?bad
    then have "finish_confirmation E aid token session raw s = raise (ValueError ''No matching active native confirmation'') s"
      using a0 by (simp only: finish_confirmation_def run_reads option.case if_True)
    with run show False by simp
  qed
  obtain cur u a v x w where
    cur: "(if lease_end a0 \<le> now E \<or> p_expires a0 \<le> now E then ret False
           else approval_current E (consumed a0)) s = Inr (cur, u)"
    and res: "(if \<not> cur then ret ((consumed a0)\<lparr>p_status := AExpired\<rparr>, ExpiredConfirmation)
               else resolve_answer E (consumed a0) raw) u = Inr ((a, r), v)"
    and put: "put_approval E a v = Inr (x, w)" and aud: "approvals s' = approvals w"
  proof -
    from run a0 ok have "andThen (if lease_end a0 \<le> now E \<or> p_expires a0 \<le> now E then ret False
        else approval_current E (consumed a0)) (\<lambda>cur.
      andThen (if \<not> cur then ret ((consumed a0)\<lparr>p_status := AExpired\<rparr>, ExpiredConfirmation)
        else resolve_answer E (consumed a0) raw) (\<lambda>(a, result).
      andThen (put_approval E a) (\<lambda>_.
      andThen (audit E ''native_confirmation_resolved'' [(''approval_id'', JStr aid),
         (''owner_session'', JStr session), (''status'', JStr (ap_status_str (p_status a)))]) (\<lambda>_.
      ret result)))) s = Inr (r, s')"
      unfolding finish_confirmation_def run_reads by (simp only: option.case if_False)
    then show thesis
      unfolding run_andThen by (clarsimp simp: audit_def) (rule that, assumption+, simp)
  qed
  have "confirmed E token session raw s a0 a r"
  proof (cases cur)
    case True
    with cur have "now E < lease_end a0" "now E < p_expires a0"
      "approval_current E (consumed a0) s = Inr (True, u)" by (auto split: if_splits)
    with True ok resolve_answer_result [of E "consumed a0" raw u a r v] res show ?thesis
      by (auto simp: confirmed_def)
  next
    case False
    with res ok show ?thesis by (auto simp: confirmed_def)
  qed
  moreover from this have "p_id a = aid" using id by (auto simp: confirmed_def consumed_def)
  ultimately show ?thesis
    using a0 put_approval_run [OF put] aud by auto
qed

lemma reachable_approvals: "reachable H s \<Longrightarrow> keyed p_id (approvals s)"
  using reachable_sound by (auto simp: sound_def)

text \<open>
  C3: A confirmation counts as approval only if it was being presented to this very conversation, the
  caller presents the token whose digest was stored, the lease and the approval have not run out, what
  was asked is still current, and the owner's answer is one of the words of assent; the approval is
  then stored as approved, with its payload and question unchanged and its token gone.
\<close>
theorem consent_required:
  assumes "finish_confirmation E aid token session raw s = Inr (ApprovedOnce, s')" "reachable H s"
  shows "\<exists>a b. tget aid (approvals s) = Some a \<and> p_session a = session \<and> p_status a = APresenting
    \<and> (case p_token a of Some h \<Rightarrow> h | None \<Rightarrow> []) = digest E (JStr token)
    \<and> now E < lease_end a \<and> now E < p_expires a \<and> answer_of raw \<in> set yes_words
    \<and> (\<exists>t. approval_current E (consumed a) s = Inr (True, t))
    \<and> tget aid (approvals s') = Some b \<and> p_status b = AApproved \<and> p_token b = None
    \<and> p_payload b = p_payload a \<and> p_question b = p_question a"
proof -
  from finish_inv [OF assms(1) reachable_approvals [OF assms(2)]] obtain a c x where
    *: "tget aid (approvals s) = Some a" "confirmed E token session raw s a c ApprovedOnce"
      "tget aid (approvals s') = Some (c\<lparr>p_source := x\<rparr>)" by blast
  then have "c = (consumed a)\<lparr>p_status := AApproved\<rparr>" by (auto simp: confirmed_def)
  with * show ?thesis by (auto simp: confirmed_def consumed_def)
qed

lemma scenario_finish:
  "\<exists>s. finish_confirmation env0 ''approval-h'' ''f1'' owner0 (JStr ''yes'') st3 = Inr (ApprovedOnce, s)"
  by (simp add: eval_rules st3_def cong: eval_cong del: run_andThen)

lemma consent_required_witness:
  "\<exists>a. tget ''approval-h'' (approvals st3) = Some a \<and> p_status a = APresenting
    \<and> answer_of (JStr ''yes'') \<in> set yes_words"
proof -
  obtain s where "finish_confirmation env0 ''approval-h'' ''f1'' owner0 (JStr ''yes'') st3 = Inr (ApprovedOnce, s)"
    using scenario_finish by blast
  from consent_required [OF this scenario_reachable(3)] show ?thesis by blast
qed

text \<open>
  C27: A confirmation token works once: after any call that was not refused, approved, denied, unclear
  or too late alike, every further attempt to finish the same confirmation fails, with any token, from
  any conversation and at any time, until it is begun again.
\<close>
theorem token_single_use:
  assumes "finish_confirmation E aid token session raw s = Inr (r, s')" "reachable H s"
  shows "finish_confirmation E' aid token' session' raw' s'
    = Inl (ValueError ''No matching active native confirmation'')"
proof -
  from finish_inv [OF assms(1) reachable_approvals [OF assms(2)]] obtain a c x where
    *: "confirmed E token session raw s a c r" "tget aid (approvals s') = Some (c\<lparr>p_source := x\<rparr>)" by blast
  then have "p_status c \<noteq> APresenting" by (auto simp: confirmed_def)
  with *(2) show ?thesis by (simp add: finish_confirmation_def)
qed

lemma token_single_use_witness:
  "\<exists>s. finish_confirmation env0 ''approval-h'' ''f1'' owner0 (JStr ''yes'') st3 = Inr (ApprovedOnce, s)
    \<and> finish_confirmation env0 ''approval-h'' ''f1'' owner0 (JStr ''yes'') s
      = Inl (ValueError ''No matching active native confirmation'')"
proof -
  obtain s where "finish_confirmation env0 ''approval-h'' ''f1'' owner0 (JStr ''yes'') st3 = Inr (ApprovedOnce, s)"
    using scenario_finish by blast
  from token_single_use [OF this scenario_reachable(3)] this show ?thesis by blast
qed

section \<open>A confirmation that begins\<close>

lemma begin_inv:
  assumes "begin_confirmation E aid session s = Inr (r, s')"
  shows "\<exists>a u deadline. tget aid (approvals s) = Some a \<and> undecided a \<and> \<not> displayed E a
    \<and> session_owned (p_session a) session
    \<and> (\<forall>b \<in> set (tall (approvals s)). \<not> (p_session b = session \<and> displayed E b))
    \<and> approvals u = approvals s \<and> r = (fresh E, p_question a, deadline)
    \<and> (\<exists>x. put_approval E (a\<lparr>p_status := APresenting, p_session := session, p_expires := deadline,
        p_token := Some (digest E (JStr (fresh E))), p_lease := Some (min deadline (now E + 360 * sec))\<rparr>) u
        = Inr (x, s'))"
proof -
  obtain a where a: "find_approval s aid session ''Approval does not belong to this native owner session'' = Inr a"
    and und: "undecided a" and dis: "\<not> displayed E a"
    and one: "\<not> list_ex (\<lambda>b. p_session b = session \<and> displayed E b) (tall (approvals s))"
    and rest: "\<exists>u deadline x. approval_current E a s = Inr (True, u) \<and> r = (fresh E, p_question a, deadline)
      \<and> put_approval E (a\<lparr>p_status := APresenting, p_session := session, p_expires := deadline,
        p_token := Some (digest E (JStr (fresh E))), p_lease := Some (min deadline (now E + 360 * sec))\<rparr>) u
        = Inr (x, s')"
    using assms unfolding begin_confirmation_def run_reads run_andThen by (clarsimp simp del: run_andThen)
  from a have "tget aid (approvals s) = Some a \<and> session_owned (p_session a) session"
    by (auto simp: find_approval_def refuse_def split: option.splits if_splits)
  with und dis one rest show ?thesis by (auto simp: list_ex_iff dest: approval_current_rows)
qed

text \<open>
  C28: One native confirmation at a time per conversation: beginning one needs that none is displayed
  there, stores the digest of a fresh token with a lease of at most 360 seconds, and until that lease
  ends every other attempt to begin one in the same conversation is refused.
\<close>
theorem one_confirmation_at_a_time:
  assumes "begin_confirmation E aid session s = Inr ((token, question, deadline), s')" "reachable H s"
  shows "(\<forall>b \<in> set (tall (approvals s)). \<not> (p_session b = session \<and> displayed E b))
    \<and> (\<exists>b. tget aid (approvals s') = Some b \<and> p_status b = APresenting \<and> p_question b = question
        \<and> p_token b = Some (digest E (JStr token)) \<and> lease_end b \<le> now E + 360 * sec
        \<and> (\<forall>E' aid'. now E' < lease_end b \<longrightarrow> (\<exists>e. begin_confirmation E' aid' session s' = Inl e)))"
proof -
  from begin_inv [OF assms(1)] obtain a u x where
    a: "tget aid (approvals s) = Some a" and one: "\<forall>b \<in> set (tall (approvals s)). \<not> (p_session b = session \<and> displayed E b)"
    and u: "approvals u = approvals s" and tok: "token = fresh E" "question = p_question a"
    and put: "put_approval E (a\<lparr>p_status := APresenting, p_session := session, p_expires := deadline,
        p_token := Some (digest E (JStr (fresh E))), p_lease := Some (min deadline (now E + 360 * sec))\<rparr>) u
        = Inr (x, s')"
    by auto
  have id: "p_id a = aid" and keyed: "keyed p_id (approvals s)"
    using reachable_approvals [OF assms(2)] a by (auto simp: keyed_def)
  have row: "approvals s' = tput aid x (approvals s)" and x: "p_status x = APresenting" "p_session x = session"
    "p_question x = question" "p_token x = Some (digest E (JStr token))"
    "p_lease x = Some (min deadline (now E + 360 * sec))" "p_id x = aid"
    using put_approval_run [OF put] id u tok by simp_all
  have "keyed p_id (approvals s')" unfolding row by (rule keyed_put [OF keyed x(6)])
  then have mem: "x \<in> set (tall (approvals s'))" using keyed_tall [of p_id "approvals s'" x] row x(6) by simp
  have "\<exists>e. begin_confirmation E' aid' session s' = Inl e" if "now E' < lease_end x" for E' aid'
  proof (cases "begin_confirmation E' aid' session s'")
    case (Inr y)
    then obtain r t where "begin_confirmation E' aid' session s' = Inr (r, t)" by (cases y) auto
    from begin_inv [OF this] mem x(1,2) that have False by (auto simp: displayed_def)
    then show ?thesis ..
  qed simp
  then show ?thesis using one row x by (auto simp: lease_end_def)
qed

lemma scenario_begin:
  "\<exists>r s. begin_confirmation env0 ''approval-h'' owner0 st2 = Inr (r, s)"
  by (simp add: eval_rules st2_def cong: eval_cong del: run_andThen)

lemma one_confirmation_at_a_time_witness:
  "\<exists>b (s :: store). tget ''approval-h'' (approvals s) = Some b \<and> p_status b = APresenting"
proof -
  obtain token question deadline s where
    "begin_confirmation env0 ''approval-h'' owner0 st2 = Inr ((token, question, deadline), s)"
    using scenario_begin by auto
  from one_confirmation_at_a_time [OF this scenario_reachable(2)] show ?thesis by blast
qed

end
