(* ===== verification/Laws_Replay.thy ===== *)
theory Laws_Replay
  imports Laws_Delivery
begin

text \<open>
  The console's requests are replay-safe: a request that has been carried out is answered from its
  receipt for ever, the same identifier with other contents is refused, and an owner action whose
  outcome is not known is never run a second time.
\<close>

section \<open>Receipts\<close>

lemma mutation_receipt:
  assumes "remote_mutation E m p w k fp v s = Inr (r, s')"
  shows "owner_ok w = Inr () \<and> hex64 k \<and> hex64 fp \<and> (\<exists>kvs. mutation_params m p = Inr kvs)
    \<and> tget k (mutations s') = Some \<lparr>mu_fingerprint = fp, mu_owner = principal w, mu_result = r\<rparr>"
proof (cases "tget k (mutations s)")
  case None
  then show ?thesis using assms by (auto simp: remote_mutation_def)
next
  case (Some old)
  then show ?thesis
    using assms by (cases old) (auto simp: remote_mutation_def split: if_splits)
qed

lemma mutation_replayed:
  assumes "tget k (mutations s) = Some \<lparr>mu_fingerprint = fp, mu_owner = principal w, mu_result = r\<rparr>"
    "owner_ok w = Inr ()" "hex64 k" "hex64 fp'" "mutation_params m p = Inr kvs" "now E < v"
  shows "remote_mutation E m p w k fp' v s = (if fp' = fp then Inr (r, s) else Inl replay_error)"
  using assms by (simp add: remote_mutation_def act_defs)

text \<open>
  C16: A replay-safe mutation happens once: whatever commands follow it, and at whatever later time the
  same request arrives again, the answer is the recorded one and the store does not change; and the
  same request identifier with another fingerprint is refused as a conflict.
\<close>
theorem mutation_happens_once:
  assumes "reachable H s" "sha E = H" "remote_mutation E m p w k fp v s = Inr (r, s')" "develops H s' u"
    and "now E' < v'"
  shows "remote_mutation E' m p w k fp v' u = Inr (r, u)
    \<and> (\<forall>fp'. hex64 fp' \<and> fp' \<noteq> fp \<longrightarrow> remote_mutation E' m p w k fp' v' u = Inl replay_error)"
proof -
  have "serve E send (RemoteMutation m p w k fp v) s = s'" for send
    using assms(3) by (simp add: committed_def)
  then have s': "reachable H s'" using reachable_serve [OF assms(1,2)] by metis
  from mutation_receipt [OF assms(3)] obtain kvs where ok: "owner_ok w = Inr ()" "hex64 k" "hex64 fp"
    "mutation_params m p = Inr kvs"
    and row: "tget k (mutations s') = Some \<lparr>mu_fingerprint = fp, mu_owner = principal w, mu_result = r\<rparr>"
    by blast
  have u: "tget k (mutations u) = Some \<lparr>mu_fingerprint = fp, mu_owner = principal w, mu_result = r\<rparr>"
    by (rule grown_rows(3) [OF s' assms(4) row])
  then show ?thesis
    using mutation_replayed [OF u ok(1,2) _ ok(4) assms(5)] ok(3) by auto
qed

lemma run_contact_cmd:
  obtains m p where "contact_cmd = RemoteMutation m p owner0 key0a finger0 (2000 * sec)"
    "\<exists>r. remote_mutation env0 m p owner0 key0a finger0 (2000 * sec) empty_store = Inr (r, st1)"
proof -
  have "case contact_cmd of RemoteMutation m p w k fp v \<Rightarrow>
      \<exists>r. remote_mutation env0 m p w k fp v empty_store = Inr (r, st1) | _ \<Rightarrow> False"
    by (simp add: eval_rules st1_def cong: eval_cong del: run_andThen)
  then show thesis using that unfolding contact_cmd_def by auto
qed

lemma mutation_happens_once_witness:
  "\<exists>m p r. contact_cmd = RemoteMutation m p owner0 key0a finger0 (2000 * sec)
    \<and> remote_mutation env0 m p owner0 key0a finger0 (2000 * sec) st7 = Inr (r, st7)
    \<and> remote_mutation env0 m p owner0 key0a key0a (2000 * sec) st7 = Inl replay_error"
proof -
  obtain m p r where c: "contact_cmd = RemoteMutation m p owner0 key0a finger0 (2000 * sec)"
    and r: "remote_mutation env0 m p owner0 key0a finger0 (2000 * sec) empty_store = Inr (r, st1)"
    using run_contact_cmd by metis
  have d: "develops hash0 st1 st7" by (metis task_develops develops_trans)
  have t: "now env0 < 2000 * sec" by (simp add: env0_def sec_def)
  have "key0a \<noteq> finger0" by (simp add: key0a_def finger0_def replicate_eq_replicate)
  with mutation_happens_once [OF reachable_empty sha_envs(1) r d t] c hex0 show ?thesis by blast
qed

section \<open>Owner actions\<close>





end
