(* ===== verification/Laws_Policy.thy ===== *)
theory Laws_Policy
  imports Laws_Delivery
begin

text \<open>
  The pure core: the normal form of mandates and actions, timestamps and identities, the verdict of
  the policy function and the compiled message.
\<close>

section \<open>Round trips\<close>

text \<open>
  C40: A mandate that validates is in normal form: its fields are within the limits of the policy and
  its identifier lists are sorted and without repetition; and writing it out and validating it again
  gives the same mandate. The same holds of actions.
\<close>
theorem validation_normalises:
  shows "(\<forall>s. validate_scope j = Inr s \<longrightarrow> wf_scope s \<and> sorted_wrt (<) (sc_recipient_ids s)
      \<and> validate_scope (scope_json s) = Inr s)
    \<and> (\<forall>a. validate_action k = Inr a \<longrightarrow> wf_action a \<and> validate_action (action_json a) = Inr a)"
  using validate_scope_wf [of j] validate_scope_idem [of j] validate_action_wf [of k] validate_action_idem [of k]
  by (auto simp: wf_scope_def ids_ok_def)

lemma validation_normalises_witness:
  "wf_scope scope1 \<and> validate_scope (scope_json scope1) = Inr scope1
    \<and> (\<exists>a. validate_action slots0 = Inr a \<and> validate_action (action_json a) = Inr a)"
proof -
  have s: "validate_scope scope0 = Inr scope1"
    by (simp add: eval_rules scope1_def cong: eval_cong del: run_andThen)
  have a: "\<exists>a. validate_action slots0 = Inr a"
    by (simp add: eval_rules cong: eval_cong del: run_andThen)
  show ?thesis using validation_normalises [of scope0 slots0] s a by blast
qed

text \<open>
  Every instant the runtime can hold is printed as an RFC 3339 UTC text that has the accepted
  shape and reads back as that very instant, to the microsecond.
\<close>
theorem timestamps_roundtrip:
  assumes "instant_ok t"
  shows "rfc3339_shape (iso_z t) \<and> parse_utc (iso_z t) = Some t \<and> parse_instant (iso_z t) = Some t"
  using assms by (simp add: rfc3339_shape_iso_z parse_utc_iso_z parse_iso_z)

lemma timestamps_roundtrip_witness: "parse_utc (iso_z 951782400000001) = Some 951782400000001"
proof -
  have "instant_ok 951782400000001" by code_simp
  from timestamps_roundtrip [OF this] show ?thesis by blast
qed

text \<open>
  The identity checker accepts exactly the texts of at most 256 characters that split as
  the prefix urn:, a namespace, a colon and a nonempty name, each over its own alphabet.
\<close>
theorem urn_grammar:
  "is_urn s \<longleftrightarrow> pylen s \<le> 256 \<and> (\<exists>ns nid. s = ''urn:'' @ ns @ '':'' @ nid \<and> ns_ok ns \<and> nid_ok nid)"
  by (rule is_urn_iff)

section \<open>Refusals\<close>

text \<open>
  C34: The policy function refuses outright exactly when the mandate does not validate, the use count
  is negative or exhausted, the deadline has passed, or the action is malformed for another reason
  than a missing field; a missing field alone asks for clarification; and a valid action that leaves
  the mandate, or is free text, always goes to the owner, never through.
\<close>
theorem refusals_classified:
  "(v_decision (evaluate sc act used t) = Deny \<longleftrightarrow>
     (\<forall>s. validate_scope sc = Inr s \<longrightarrow> used < 0 \<or> sc_max_actions s \<le> used \<or> sc_expires_at s \<le> t
       \<or> (\<exists>e. validate_action act = Inl e \<and> \<not> exn_missing e)))
   \<and> (v_decision (evaluate sc act used t) = Clarify \<longleftrightarrow>
     (\<exists>s e. validate_scope sc = Inr s \<and> 0 \<le> used \<and> used < sc_max_actions s \<and> t < sc_expires_at s
       \<and> validate_action act = Inl e \<and> exn_missing e))
   \<and> (v_decision (evaluate sc act used t) = Ask \<longleftrightarrow>
     (\<exists>s a. validate_scope sc = Inr s \<and> 0 \<le> used \<and> used < sc_max_actions s \<and> t < sc_expires_at s
       \<and> validate_action act = Inr a \<and> (\<not> within_scope s a \<or> a_capability a = SendText)))"
proof (cases "validate_scope sc")
  case (Inl e)
  then show ?thesis by (simp add: evaluate_def mk_verdict_def)
next
  case (Inr s)
  consider (off) "used < 0 \<or> sc_expires_at s \<le> t \<or> sc_max_actions s \<le> used"
    | (on) "0 \<le> used" "t < sc_expires_at s" "used < sc_max_actions s" by linarith
  then show ?thesis
  proof cases
    case off
    then have "v_decision (evaluate_scope s act used t) = Deny" by (auto simp: evaluate_scope_def mk_verdict_def)
    then show ?thesis using Inr off by (auto simp: evaluate_def)
  next
    case on
    then show ?thesis
      using Inr by (cases "validate_action act")
        (simp_all add: evaluate_def evaluate_scope_def judge_action_decision, simp_all add: mk_verdict_def)
  qed
qed

lemma refusals_classified_witness:
  "v_decision (evaluate scope0 slots0 3 0) = Deny \<and> v_decision (evaluate scope0 JNull (- 1) 0) = Deny"
proof -
  have s: "validate_scope scope0 = Inr scope1"
    by (simp add: eval_rules scope1_def cong: eval_cong del: run_andThen)
  then have "\<forall>s. validate_scope scope0 = Inr s \<longrightarrow> sc_max_actions s \<le> 3" by (simp add: scope1_def)
  then have "v_decision (evaluate scope0 slots0 3 0) = Deny"
    using refusals_classified [of scope0 slots0 3 0, THEN conjunct1, THEN iffD2] by blast
  moreover have "v_decision (evaluate scope0 JNull (- 1) 0) = Deny"
    using refusals_classified [of scope0 JNull "- 1" 0, THEN conjunct1, THEN iffD2] by simp
  ultimately show ?thesis ..
qed

section \<open>Cumulative disclosure\<close>

lemma limit_candidates_fold:
  "v_decision (fold (limit_candidates s t req) rs v) = Allow \<Longrightarrow>
    v_decision v = Allow \<and> (\<forall>r \<in> set rs. \<not> exceeds_candidates s t req r)"
proof (induction rs arbitrary: v)
  case (Cons r rs)
  have step: "v_decision (limit_candidates s t req r v) = Allow \<Longrightarrow> v_decision v = Allow \<and> \<not> exceeds_candidates s t req r"
    by (simp add: limit_candidates_def split: if_splits)
  from Cons.prems have "v_decision (fold (limit_candidates s t req) rs (limit_candidates s t req r v)) = Allow" by simp
  from Cons.IH [OF this] step show ?case by simp
qed simp

text \<open>
  C35: An offer of time slots passes the policy without asking only if, for each recipient, it repeats
  slots that recipient was already sent under this mandate, or what was sent and what is offered
  together are at most as many different slots as the owner allowed.
\<close>
theorem slots_bounded:
  assumes "v_decision (evaluate_current E s t (action_json a)) = Allow" "wf_action a"
    "a_payload a = Slots req" "r \<in> set (a_recipient_ids a)"
  shows "set req \<subseteq> set (exposed_slots s t r)
    \<or> int (card (set (exposed_slots s t r) \<union> set req)) \<le> sc_max_candidates (t_scope t)"
proof -
  have "validate_action (action_json a) = Inr a" using assms(2) by (rule validate_action_normal)
  then have "\<not> exceeds_candidates s t req r"
    using assms(1,3,4) limit_candidates_fold
    by (auto simp: evaluate_current_def Let_def split: if_splits)
  then show ?thesis
    by (auto simp: exceeds_candidates_def total_slots_def length_remdups_card_conv)
qed

definition offer0 :: action where
  "offer0 = \<lparr>a_capability = ShareSlots, a_recipient_ids = [''bob''], a_payload = Slots [(36000000000, 37800000000)]\<rparr>"

lemma slots_bounded_witness:
  "\<exists>t. tget ''t1'' (tasks st4) = Some t \<and>
    (set [(36000000000, 37800000000)] \<subseteq> set (exposed_slots st4 t ''bob'')
     \<or> int (card (set (exposed_slots st4 t ''bob'') \<union> set [(36000000000, 37800000000)])) \<le> sc_max_candidates (t_scope t))"
proof -
  have "\<exists>t. tget ''t1'' (tasks st4) = Some t \<and> v_decision (evaluate_current env0 st4 t (action_json offer0)) = Allow"
    by (simp add: eval_rules st4_def offer0_def cong: eval_cong del: run_andThen)
  then obtain t where t: "tget ''t1'' (tasks st4) = Some t"
    "v_decision (evaluate_current env0 st4 t (action_json offer0)) = Allow" by blast
  have "validate_action (action_json offer0) = Inr offer0"
    by (simp add: eval_rules offer0_def cong: eval_cong del: run_andThen)
  then have wf: "wf_action offer0" by (rule validate_action_wf)
  from slots_bounded [OF t(2) wf, of "[(36000000000, 37800000000)]" "''bob''"] t(1)
  show ?thesis by (simp add: offer0_def)
qed

section \<open>The compiled message\<close>

text \<open>
  What a peer is sent about a registered resource is its title and its text, and only if the
  snapshot still has the digest it was registered with; free text is sent as it was approved.
\<close>
theorem message_is_exact:
  assumes "compile_message H act lib = Inr text"
  shows "\<exists>a. validate_action act = Inr a \<and>
    (\<forall>r. a_payload a = ResourceRef r \<longrightarrow> (\<exists>x. lib r = Some x \<and> r_resource_id x = r
       \<and> H (r_text x) = r_sha256 x \<and> text = r_title x @ nl @ nl @ r_text x))
    \<and> (\<forall>t. a_payload a = FreeText t \<longrightarrow> text = t)"
  using assms by (auto simp: compile_message_def compile_text_def compile_resource_def check_string_Inr
      split: option.splits if_splits)

definition snapshot0 :: resource where
  "snapshot0 = \<lparr>r_resource_id = ''r1'', r_title = ''T'', r_text = ''x'', r_sha256 = key0a, r_owner_id = ''me'',
     r_provenance = None\<rparr>"

definition share0 :: json where
  "share0 = JObj [(''capability'', JStr ''share_resource''), (''recipient_ids'', jstrs [''bob'']),
     (''payload'', JObj [(''resource_id'', JStr ''r1'')])]"

lemma message_is_exact_witness:
  "\<exists>text a. compile_message (\<lambda>_. key0a) share0 (\<lambda>_. Some snapshot0) = Inr text
    \<and> validate_action share0 = Inr a \<and> (\<forall>r. a_payload a = ResourceRef r \<longrightarrow> text = ''T'' @ nl @ nl @ ''x'')"
proof -
  have "is_sha256 key0a" using hex0 by (simp add: hex64_def)
  then have "\<exists>text. compile_message (\<lambda>_. key0a) share0 (\<lambda>_. Some snapshot0) = Inr text"
    by (simp add: eval_rules share0_def snapshot0_def cong: eval_cong del: run_andThen is_sha256_def)
  then obtain msg where t: "compile_message (\<lambda>_. key0a) share0 (\<lambda>_. Some snapshot0) = Inr msg" by blast
  from message_is_exact [OF t] t show ?thesis by (auto simp: snapshot0_def)
qed

end
