(* ===== verification/Laws_Mail.thy ===== *)
theory Laws_Mail
  imports Laws_Delivery
begin

text \<open>
  Incoming mail: it is recorded once and under its own fingerprint, what a stranger or a blocked peer
  sends is quarantined and invisible, and releasing quarantined content takes a preview of it.
\<close>

section \<open>Recording\<close>

lemma put_inbound_run:
  assumes "put_inbound E m s = Inr (x, s')"
  shows "still (s\<lparr>inbox := tput (w_id m) m (inbox s)\<rparr>) s'"
proof -
  from assms have "attention_inbound E m None (s\<lparr>inbox := tput (w_id m) m (inbox s)\<rparr>) = Inr ((), s')"
    by (auto simp: put_inbound_def)
  from stepsD [where R = still, OF st.hk_attention_inbound [OF refl] this] show ?thesis .
qed

lemma put_inbound_row: "put_inbound E m s = Inr (x, s') \<Longrightarrow> tget (w_id m) (inbox s') = Some m"
  by (drule put_inbound_run) (auto simp: still_def quiet_def dest: sym)

definition recorded :: "env \<Rightarrow> wire \<Rightarrow> store \<Rightarrow> bool" where
  "recorded E w s \<longleftrightarrow> (\<exists>m. tget (w_id w) (inbox s) = Some m \<and> i_fingerprint m = digest E (wire_json w))"

lemma recorded_put: "put_inbound E (stored E w reason req) s = Inr (x, s') \<Longrightarrow> recorded E w s'"
  using put_inbound_row [of E "stored E w reason req" s x s'] by (auto simp: recorded_def stored_def)

lemma recorded_grows: "recorded E w s \<Longrightarrow> grows s t \<Longrightarrow> recorded E w t"
  by (force simp: recorded_def grows_def same_core_def inbound_core_def dest: table_evolvesD)

lemma ingest_records:
  assumes snd: "sound H s" and E: "sha E = H" and run: "ingest_wire E w s = Inr (r, s')"
  shows "recorded E w s'"
proof (cases "tget (w_id w) (inbox s)")
  case (Some old)
  then show ?thesis using run by (auto simp: ingest_wire_def recorded_def split: if_splits)
next
  case None
  show ?thesis
  proof (cases "from_blocked E s w")
    case (Some owner)
    with None run obtain x t where "put_inbound E (stored E w (Some ''blocked_peer'') None) s = Inr (x, t)"
      "tombstone E owner (w_sender w) (w_id w) t = Inr ((), s')" by (auto simp: ingest_wire_def)
    then show ?thesis using recorded_put by (auto simp: tombstone_def recorded_def)
  next
    case free: None
    show ?thesis
    proof (cases "incoming_state E s w")
      case SenderConnected
      with None free run have c: "ingest_connected E w s = Inr (r, s')" by (simp add: ingest_wire_def)
      then obtain social t gate u review v where
        soc: "ingest_social E w s = Inr (social, t)"
        and gate: "(if social = None \<and> mail_owner t \<noteq> None then lift (needs_peer_review w) else ret False) t = Inr (gate, u)"
        and rev: "(if gate then (case mail_owner t of
             Some owner \<Rightarrow> andThen (stage_peer_review E w None owner) (\<lambda>r. ret (Some (rv_status r)))
           | None \<Rightarrow> ret None) else ret None) u = Inr (review, v)"
        and rest: "(case review of
        Some st \<Rightarrow>
          if st = RvApproved then
            andThen (put_inbound E (stored E w None None)) (\<lambda>_.
            andThen (ingest_v2_record E w) (\<lambda>ack. ret (IRecorded ack)))
          else andThen (put_inbound E (stored E w (Some (review_reason st)) None)) (\<lambda>_.
            ret (if st = RvPending then IPendingReview else IQuarantined))
      | None \<Rightarrow>
          andThen (put_inbound E (stored E w None None)) (\<lambda>_.
          if social \<noteq> None then ret (IRecorded None)
          else andThen (ingest_v2_record E w) (\<lambda>ack. ret (IRecorded ack)))) v = Inr (r, s')"
        unfolding ingest_connected_def run_reads run_andThen by (clarsimp simp del: run_andThen)
      obtain reason x y where put: "put_inbound E (stored E w reason None) v = Inr (x, y)"
        and tail: "y = s' \<or> (\<exists>ack. ingest_v2_record E w y = Inr (ack, s'))"
        using rest by (auto split: option.splits if_splits)
      have st: "evolves H s t" by (rule stepsD [OF ev_ingest_social [OF E] soc])
      have "mail_keys s t" by (rule stepsD [OF mk_ingest_social soc])
      then have none': "tget (w_id w) (inbox t) = None"
        using snd None by (simp add: mail_keys_def sound_def)
      have u: "u = t" using gate by (auto split: if_splits)
      have "steps (evolves H) (if gate then (case mail_owner t of
             Some owner \<Rightarrow> andThen (stage_peer_review E w None owner) (\<lambda>r. ret (Some (rv_status r)))
           | None \<Rightarrow> ret None) else ret None)"
        by (intro ev.steps_if ev.steps_option ev.steps_andThen ev.hk_stage ev.steps_ret E)
      from stepsD [OF this rev] have tv: "evolves H t v" by (simp add: u)
      have "steps still (if gate then (case mail_owner t of
             Some owner \<Rightarrow> andThen (stage_peer_review E w None owner) (\<lambda>r. ret (Some (rv_status r)))
           | None \<Rightarrow> ret None) else ret None)"
        by (intro st.steps_if st.steps_option st.steps_andThen st.hk_stage [OF refl] st.steps_ret)
      from stepsD [OF this rev] have "inbox v = inbox t" by (simp add: u still_def quiet_def)
      then have "goes (evolves H) v (put_inbound E (stored E w reason None))"
        using none' by (intro ev_new_inbound [OF E]) simp
      then have vy: "evolves H v y" using put by (auto simp: goes_def)
      have "sound H y" using snd st tv vy by (auto simp: evolves_def)
      moreover have "evolves H y s'"
        using tail stepsD [OF ev_ingest_v2 [OF E]] evolves_refl by blast
      ultimately show ?thesis
        using recorded_put [OF put] by (auto simp: evolves_def intro: recorded_grows)
    qed (use None free run recorded_put in \<open>auto simp: ingest_wire_def\<close>)
  qed
qed

text \<open>
  C32: A message is taken in once: after it has been ingested, whatever commands follow, ingesting the
  same message again changes nothing and reports it as known, and a message with the same identifier
  whose authenticated fields have another digest is refused.
\<close>
theorem ingestion_idempotent:
  assumes "reachable H s" "sha E = H" "ingest_wire E w s = Inr (r, s')" "develops H s' u" "sha E' = H"
  shows "ingest_wire E' w u = Inr (IAlready, u)
    \<and> (\<forall>w'. w_id w' = w_id w \<and> digest E' (wire_json w') \<noteq> digest E' (wire_json w) \<longrightarrow>
        ingest_wire E' w' u = Inl (ValueError ''Incoming message ID conflicts with its durable contents''))"
proof -
  have snd: "sound H s" by (rule reachable_sound [OF assms(1)])
  have "sound H s'" using snd stepsD [OF ev_ingest_wire [OF assms(2)] assms(3)] by (simp add: evolves_def)
  then have "recorded E w u"
    using ingest_records [OF snd assms(2,3)] develops_evolves [OF assms(4)] recorded_grows by (auto simp: evolves_def)
  moreover have "digest E' j = digest E j" for j using assms(2,5) by (simp add: digest_def)
  ultimately show ?thesis by (auto simp: recorded_def ingest_wire_def act_defs)
qed

definition eve_wire :: wire where
  "eve_wire = \<lparr>w_id = ''m1'', w_sender = ''urn:agent:acme:eve'', w_text = ''hello'', w_task = None,
     w_conversation = None, w_kind = Some ''chat.message'', w_reply = None, w_deadline = None\<rparr>"

lemma scenario_ingest: "ingest_wire env1 eve_wire nt2 = Inr (IQuarantined, nt3)"
  by (simp add: eval_rules nt2_def nt3_def eve_wire_def cong: eval_cong del: run_andThen)

lemma ingestion_idempotent_witness:
  "ingest_wire env1 eve_wire nt8 = Inr (IAlready, nt8)"
proof -
  have d: "develops hash0 nt3 nt8" by (metis mail_develops develops_trans)
  from ingestion_idempotent [OF scenario_reachable(9) sha_envs(2) scenario_ingest d sha_envs(2)]
  show ?thesis by blast
qed

section \<open>Quarantine\<close>



section \<open>Review\<close>




end
