(* ===== verification/Laws_Blocking.thy ===== *)
theory Laws_Blocking
  imports Laws_Delivery
begin




section \<open>Denying what is prepared\<close>




section \<open>Blocking a peer\<close>





section \<open>Pages of the attention feed\<close>

lemma sorted_split:
  assumes "sorted_wrt (\<lambda>x y. f x < (f y :: int)) (xs @ ys)" "xs \<noteq> []"
  shows "filter (\<lambda>x. f (last xs) < f x) (xs @ ys) = ys"
proof -
  have "f x \<le> f (last xs)" if "x \<in> set xs" for x
  proof -
    obtain zs where xs: "xs = zs @ [last xs]" using assms(2) by (metis append_butlast_last_id)
    have "sorted_wrt (\<lambda>x y. f x < f y) (zs @ [last xs])" using assms(1) xs by (metis sorted_wrt_append)
    then have "\<forall>x \<in> set zs. f x < f (last xs)" by (simp add: sorted_wrt_append)
    then show ?thesis using that xs by (metis Un_iff empty_iff empty_set insert_iff less_le list.simps(15) order_refl set_append)
  qed
  then have "filter (\<lambda>x. f (last xs) < f x) xs = []" by (auto simp: filter_empty_conv not_less)
  moreover have "filter (\<lambda>x. f (last xs) < f x) ys = ys"
    using assms by (auto simp: filter_id_conv sorted_wrt_append)
  ultimately show ?thesis by simp
qed

lemma feed_after_strict:
  fixes E :: env
  assumes "feed_ok (sha E) s"
  shows "sorted_wrt (\<lambda>i j. at_revision i < at_revision j) (feed_after s owner after)"
proof -
  let ?xs = "filter (\<lambda>i. at_owner i = owner \<and> after < at_revision i) (tall (attention s))"
  have twf: "twf (attention s)" using assms by (simp add: feed_ok_def)
  let ?ps = "filter (\<lambda>p. at_owner (snd p) = owner \<and> after < at_revision (snd p)) (attention s)"
  have xs: "?xs = map snd ?ps" by (simp add: tall_def filter_map comp_def)
  have row: "tget (fst p) (attention s) = Some (snd p)" if "p \<in> set ?ps" for p
    using that twf by (auto simp: tget_def twf_distinct)
  have "inj_on (at_revision \<circ> snd) (set ?ps)"
  proof (rule inj_onI)
    fix p q assume pq: "p \<in> set ?ps" "q \<in> set ?ps" "(at_revision \<circ> snd) p = (at_revision \<circ> snd) q"
    have uniq: "tget k (attention s) = Some i \<Longrightarrow> tget l (attention s) = Some j \<Longrightarrow> at_owner i = at_owner j
        \<Longrightarrow> at_revision i = at_revision j \<Longrightarrow> k = l" for k l i j
      using assms unfolding feed_ok_def by blast
    have "fst p = fst q"
      using pq by (intro uniq [OF row [OF pq(1)] row [OF pq(2)]]) auto
    then show "p = q" using row [OF pq(1)] row [OF pq(2)] by (simp add: prod_eq_iff)
  qed
  moreover have "distinct ?ps" using twf_distinct [OF twf] by (simp add: distinct_map)
  ultimately have "distinct (map at_revision ?xs)" unfolding xs by (simp add: distinct_map comp_inj_on_iff)
  then have d: "distinct (map at_revision (feed_after s owner after))"
    unfolding feed_after_def distinct_map by simp
  have "sorted (map at_revision (feed_after s owner after))" by (simp add: feed_after_def)
  with d have "sorted_wrt (<) (map at_revision (feed_after s owner after))" by (simp add: strict_sorted_iff)
  then show ?thesis by (simp add: sorted_wrt_map)
qed

lemma feed_after_later: "a \<le> b \<Longrightarrow> feed_after s owner b = filter (\<lambda>i. b < at_revision i) (feed_after s owner a)"
  unfolding feed_after_def filter_sort filter_filter
  by (intro arg_cong [where f = "sort_key at_revision"] filter_cong) auto

text \<open>
  C38: Reading the attention feed page by page loses nothing and repeats nothing: a page holds at most
  the requested number of items, in strictly ascending revision after the cursor, and what lies after
  the cursor is that page followed by what lies after the cursor it returns.
\<close>
theorem pages_partition_feed:
  assumes "attention_page_of E s owner after limit = Inr p" "reachable H s" "sha E = H" "0 < limit"
  shows "feed_after s owner after = ap_items p @ feed_after s owner (ap_cursor p)
    \<and> length (ap_items p) \<le> limit \<and> sorted_wrt (\<lambda>i j. at_revision i < at_revision j) (ap_items p)
    \<and> (ap_more p \<longleftrightarrow> feed_after s owner (ap_cursor p) \<noteq> [])"
proof -
  have feed: "feed_ok (sha E) s" using reachable_rows(4) [OF assms(2)] assms(3) by simp
  let ?items = "feed_after s owner after"
  have strict: "sorted_wrt (\<lambda>i j. at_revision i < at_revision j) ?items" by (rule feed_after_strict [OF feed])
  have high: "at_revision i \<le> counter E s owner" if "i \<in> set ?items" for i
    using that feed by (auto simp: feed_after_def feed_ok_def tall_iff)
  have p: "ap_items p = take limit ?items" "ap_more p \<longleftrightarrow> limit < length ?items" "after \<le> counter E s owner"
    "ap_cursor p = (if limit < length ?items then at_revision (last (take limit ?items)) else counter E s owner)"
    using assms(1) by (auto simp: attention_page_of_def Let_def refuse_def split: if_splits)
  have page: "sorted_wrt (\<lambda>i j. at_revision i < at_revision j) (take limit ?items)"
    using strict by (metis append_take_drop_id sorted_wrt_append)
  show ?thesis
  proof (cases "limit < length ?items")
    case True
    then have ne: "take limit ?items \<noteq> []" using assms(4) by auto
    then have "last (take limit ?items) \<in> set ?items" by (meson in_set_takeD last_in_set)
    then have "after \<le> at_revision (last (take limit ?items))" by (auto simp: feed_after_def)
    from feed_after_later [OF this, of s owner]
    have "feed_after s owner (ap_cursor p) = drop limit ?items"
      using sorted_split [of at_revision "take limit ?items" "drop limit ?items"] ne strict True p(4) by simp
    then show ?thesis using p True page by simp
  next
    case False
    have "feed_after s owner (ap_cursor p) = []"
      using feed_after_later [OF p(3), of s owner] high False p(4) by (auto simp: filter_empty_conv not_less)
    then show ?thesis using p False page by simp
  qed
qed

lemma pages_partition_feed_witness:
  "\<exists>p. attention_page_of env1 nt8 ''me'' 0 1 = Inr p \<and>
    feed_after nt8 ''me'' 0 = ap_items p @ feed_after nt8 ''me'' (ap_cursor p)"
proof -
  have "\<exists>p. attention_page_of env1 nt8 ''me'' 0 1 = Inr p"
    by (simp add: attention_page_of_def counter_def env1_rules nt8_def Let_def tget_def)
  then obtain p where p: "attention_page_of env1 nt8 ''me'' 0 1 = Inr p" by blast
  from pages_partition_feed [OF p scenario_reachable(15) sha_envs(2)] p show ?thesis by auto
qed

end
