(* ===== verification/Laws_Ledger.thy ===== *)
theory Laws_Ledger
  imports Laws_Delivery Laws_Consent
begin

text \<open>
  The contract of the mandates, as a ledger: each mandate is an account with a state, what it has spent
  and its limit. Dispatching an operation and revoking a mandate refine one operation of the ledger each.
\<close>

section \<open>The abstract ledger\<close>






section \<open>Steps that leave the mandates alone\<close>






section \<open>Refinement\<close>





end
