(* ===== verification/Json_Laws.thy ===== *)
theory Json_Laws
  imports Evolution
begin

text \<open>
  What is written canonically is read back: \<open>json_loads\<close> after \<open>canonical\<close> returns the value with the
  items of its objects sorted, so the texts the runtime stores, digests and sends determine the data.
\<close>

fun plain :: "json \<Rightarrow> bool" where
  "plain (JFloat s) \<longleftrightarrow> False"
| "plain (JArr xs) \<longleftrightarrow> (\<forall>x \<in> set xs. plain x)"
| "plain (JObj kvs) \<longleftrightarrow> distinct (map fst kvs) \<and> (\<forall>(k, v) \<in> set kvs. plain v)"
| "plain j \<longleftrightarrow> True"

section \<open>String literals\<close>

lemma byte_less [simp]: "byte c < 256"
  by (simp add: byte_def)

lemma char_of_byte [simp]: "char_of (byte c) = c"
  by (simp add: byte_def)

lemma hex_val_digit: "n < 16 \<Longrightarrow> hex_val (hex_digit n) = Some n"
  by (auto simp: hex_val_def hex_digit_def Let_def)

lemma read_control:
  "byte c < 32 \<Longrightarrow> unicode_escape (CHR ''0'' # CHR ''0'' # hex_digit (byte c div 16) # hex_digit (byte c mod 16) # r)
    = Some ([c], r)"
proof -
  assume c: "byte c < 32"
  have "hex_val (CHR ''0'') = Some 0" by (simp add: hex_val_def byte_def)
  moreover have "hex_val (hex_digit (byte c div 16)) = Some (byte c div 16)"
    using c by (intro hex_val_digit) auto
  moreover have "hex_val (hex_digit (byte c mod 16)) = Some (byte c mod 16)"
    by (intro hex_val_digit) auto
  ultimately show ?thesis using c by (simp add: unicode_escape_def)
qed

lemma read_escaped:
  "read_string (Suc f) (esc_char c @ r) = map_option (\<lambda>(t, r'). (c # t, r')) (read_string f r)"
proof -
  have code: "byte (chr 34) = 34" "byte (chr 92) = 92" "byte (CHR ''n'') = 110" "byte (CHR ''r'') = 114"
    "byte (CHR ''t'') = 116" "byte (CHR ''b'') = 98" "byte (CHR ''f'') = 102" "byte (CHR ''u'') = 117"
    by (simp_all add: byte_def chr_def)
  have named: "chr n = c" if "byte c = n" for n using that by (metis char_of_byte chr_def)
  show ?thesis
    using read_control [of c r] named [of 34] named [of 92] named [of 10] named [of 13] named [of 9] named [of 8] named [of 12]
    by (auto simp: esc_char_def Let_def simple_escape_def code option.map_comp split: prod.splits
        intro!: arg_cong [where f = "\<lambda>g. map_option g (read_string f r)"])
qed

lemma read_string_back:
  "length s < f \<Longrightarrow> read_string f (concat (map esc_char s) @ chr 34 # r) = Some (s, r)"
proof (induction s arbitrary: f)
  case Nil
  then obtain g where "f = Suc g" by (cases f) auto
  then show ?case by simp
next
  case (Cons c s)
  then obtain g where f: "f = Suc g" by (cases f) auto
  then show ?case using Cons by (simp add: read_escaped)
qed

lemma length_esc_char: "1 \<le> length (esc_char c)"
  by (simp add: esc_char_def Let_def)

lemma length_escaped: "length s \<le> length (concat (map esc_char s))"
proof (induction s)
  case (Cons c s)
  then show ?case using length_esc_char [of c] by simp
qed simp

lemma read_literal:
  "length s < f \<Longrightarrow> read_string f (tl (json_string s @ r)) = Some (s, r)"
  by (simp add: json_string_def read_string_back)

section \<open>Numbers\<close>

text \<open>What may follow a value in a canonical text.\<close>

definition stops :: "string \<Rightarrow> bool" where
  "stops r \<longleftrightarrow> (case r of [] \<Rightarrow> True | c # _ \<Rightarrow> c \<in> {CHR '','', CHR '']'', CHR ''}''})"

lemma stops_simps [simp]: "stops []" "stops (CHR '','' # r)" "stops (CHR '']'' # r)" "stops (CHR ''}'' # r)"
  by (simp_all add: stops_def)

lemma char_zero: "char_of (48 :: nat) = CHR ''0''"
  by code_simp

lemma digit_char_eq: "d < 10 \<Longrightarrow> digit_char d = CHR ''0'' \<longleftrightarrow> d = 0"
proof
  assume "d < 10" "digit_char d = CHR ''0''"
  then have "byte (digit_char d) = byte (CHR ''0'')" by simp
  then show "d = 0" using \<open>d < 10\<close> by (simp add: byte_def digit_char_def)
qed (simp add: digit_char_def char_zero)

lemma nat_dec_digits: "list_all ascii_digit (nat_dec n)"
  by (induction n rule: nat_dec.induct) (subst nat_dec.simps, auto)

lemma nat_dec_val: "digits_val 0 (nat_dec n) = Some n"
proof (induction n rule: nat_dec.induct)
  case (1 n)
  then show ?case
    by (subst nat_dec.simps) (auto simp: digits_val_append)
qed

lemma nat_dec_head: "\<exists>d ds. nat_dec n = digit_char d # ds \<and> d < 10 \<and> (d = 0 \<longrightarrow> n = 0 \<and> ds = [])"
proof (induction n rule: nat_dec.induct)
  case (1 n)
  show ?case
  proof (cases "n < 10")
    case True
    then show ?thesis by (subst nat_dec.simps) auto
  next
    case False
    with 1 obtain d ds where "nat_dec (n div 10) = digit_char d # ds" "d < 10" "d = 0 \<longrightarrow> n div 10 = 0 \<and> ds = []"
      by blast
    with False show ?thesis by (subst nat_dec.simps) auto
  qed
qed

lemma take_digits_stop: "list_all ascii_digit ds \<Longrightarrow> stops r \<Longrightarrow> take_digits (ds @ r) = (ds, r)"
proof -
  assume ds: "list_all ascii_digit ds" and r: "stops r"
  have "takeWhile ascii_digit r = []" "dropWhile ascii_digit r = r"
    using r by (auto simp: stops_def ascii_digit_def byte_def split: list.splits)
  then show ?thesis
    using ds by (simp add: take_digits_def list_all_iff takeWhile_append2 dropWhile_append2)
qed

lemma read_plain_number:
  assumes "stops r"
  shows "(case eat (CHR ''0'') (nat_dec n @ r) of Some q \<Rightarrow> (''0'', q) | None \<Rightarrow> take_digits (nat_dec n @ r))
    = (nat_dec n, r)"
proof -
  obtain d ds where d: "nat_dec n = digit_char d # ds" "d < 10" "d = 0 \<longrightarrow> n = 0 \<and> ds = []"
    using nat_dec_head by blast
  then show ?thesis
    using take_digits_stop [OF nat_dec_digits assms, of n] digit_char_eq [of d]
    by (auto simp: digit_char_def char_zero)
qed

lemma read_number_back:
  assumes "stops r"
  shows "read_number (int_dec n @ r) = Some (JInt n, r)"
proof -
  have nonempty: "nat_dec m \<noteq> []" for m using nat_dec_head [of m] by auto
  have minus: "eat (CHR ''-'') (nat_dec m @ r) = None" for m
  proof -
    obtain d ds where "nat_dec m = digit_char d # ds" "d < 10" using nat_dec_head by blast
    moreover from this have "digit_char d \<noteq> CHR ''-''"
      using digit_char_props(2) [of d] by (auto simp: byte_def)
    ultimately show ?thesis by simp
  qed
  have dot: "eat (CHR ''.'') r = None" using assms by (auto simp: stops_def split: list.splits)
  have expo: "(case r of [] \<Rightarrow> ([], r) | e # q \<Rightarrow> if e = CHR ''e'' \<or> e = CHR ''E'' then g e q else ([], r)) = ([], r)" for g
    using assms by (auto simp: stops_def split: list.splits)
  show ?thesis
    by (cases "n < 0") (simp_all add: read_number_def int_dec_def minus read_plain_number [OF assms]
      nonempty dot expo nat_dec_val Let_def)
qed

section \<open>Values\<close>

text \<open>A value begins with a character that is neither white space nor a closing bracket.\<close>

definition opens :: "string \<Rightarrow> bool" where
  "opens s \<longleftrightarrow> (case s of [] \<Rightarrow> False | c # _ \<Rightarrow> \<not> json_ws c \<and> c \<noteq> CHR '']'' \<and> c \<noteq> CHR ''}'')"

lemma opens_append: "opens s \<Longrightarrow> opens (s @ r)"
  by (auto simp: opens_def split: list.splits)

lemma opens_skip: "opens s \<Longrightarrow> skip_ws s = s"
  by (auto simp: opens_def skip_ws_def split: list.splits)

lemma opens_no_end: "opens s \<Longrightarrow> eat (CHR '']'') s = None \<and> eat (CHR ''}'') s = None"
  by (auto simp: opens_def split: list.splits)

lemma stops_skip: "stops r \<Longrightarrow> skip_ws r = r"
  by (auto simp: stops_def skip_ws_def json_ws_def byte_def split: list.splits)

lemma opens_json_string: "opens (json_string s)"
  by (simp add: json_string_def opens_def json_ws_def) (auto simp: chr_def dest: arg_cong [where f = byte] simp: byte_def)

lemma int_dec_head:
  "\<exists>c cs. int_dec n = c # cs \<and> (c = CHR ''-'' \<or> ascii_digit c)"
proof (cases "n < 0")
  case False
  then show ?thesis using nat_dec_head [of "nat n"] by (auto simp: int_dec_def)
qed (simp add: int_dec_def)

lemma opens_int_dec: "opens (int_dec n)"
  using int_dec_head [of n] by (auto simp: opens_def json_ws_def ascii_digit_def byte_def)

lemma opens_canonical: "plain j \<Longrightarrow> opens (canonical j)"
  by (cases j) (auto simp: canonical_def opens_json_string opens_int_dec,
      auto simp: opens_def json_ws_def byte_def)

lemma join_one [simp]: "join s [x] = x"
  by (simp add: join_def)

lemma join_more [simp]: "join s (x # y # zs) = x @ s @ join s (y # zs)"
  by (simp add: join_def)

lemma jset_new: "k \<notin> fst ` set d \<Longrightarrow> jset k v d = d @ [(k, v)]"
  by (induction d) auto

lemma dict_of_fold: "distinct (map fst (d @ kvs)) \<Longrightarrow> fold (\<lambda>(k, v) d. jset k v d) kvs d = d @ kvs"
proof (induction kvs arbitrary: d)
  case (Cons x kvs)
  then show ?case by (cases x) (simp add: jset_new Cons.IH [of "d @ [x]"])
qed simp

lemma dict_of_distinct: "distinct (map fst kvs) \<Longrightarrow> dict_of kvs = kvs"
  by (simp add: dict_of_def dict_of_fold)

definition reads_back :: "json \<Rightarrow> bool" where
  "reads_back j \<longleftrightarrow> (\<forall>f r. 2 * length (canonical j) + 1 \<le> f \<longrightarrow> stops r \<longrightarrow>
     read_value f (canonical j @ r) = Some (reloaded j, r))"

lemma items_back:
  assumes "\<forall>x \<in> set xs. reads_back x \<and> plain x" "xs \<noteq> []"
    and "2 * length (join '','' (map canonical xs)) + 2 \<le> f"
  shows "read_items f (join '','' (map canonical xs) @ CHR '']'' # r) = Some (map reloaded xs, r)"
  using assms
proof (induction xs arbitrary: f)
  case (Cons x xs)
  then obtain g where f: "f = Suc g" by (cases f) auto
  show ?case
  proof (cases xs)
    case Nil
    then show ?thesis using Cons.prems f by (simp add: reads_back_def stops_skip)
  next
    case (Cons y ys)
    have len: "2 * length (canonical x) + 1 \<le> g" "2 * length (join '','' (map canonical xs)) + 2 \<le> g"
      using Cons.prems(3) f \<open>xs = y # ys\<close> by simp_all
    have nxt: "opens (join '','' (map canonical xs))"
      using Cons.prems(1) \<open>xs = y # ys\<close> opens_canonical [of y] by (cases ys) (simp_all add: opens_append)
    have "read_value g (canonical x @ CHR '','' # join '','' (map canonical xs) @ CHR '']'' # r)
        = Some (reloaded x, CHR '','' # join '','' (map canonical xs) @ CHR '']'' # r)"
      using Cons.prems(1) len(1) by (simp add: reads_back_def)
    moreover have "read_items g (join '','' (map canonical xs) @ CHR '']'' # r) = Some (map reloaded xs, r)"
      using Cons.IH [of g] Cons.prems(1) len(2) \<open>xs = y # ys\<close> by simp
    ultimately show ?thesis
      using f nxt \<open>xs = y # ys\<close> by (simp add: stops_skip opens_skip opens_append)
  qed
qed simp

definition member_text :: "string \<times> json \<Rightarrow> string" where
  "member_text kv = json_string (fst kv) @ '':'' @ canonical (snd kv)"

lemma json_string_shape: "json_string k @ r = chr 34 # concat (map esc_char k) @ chr 34 # r"
  by (simp add: json_string_def)

lemma skip_colon: "skip_ws (CHR '':'' # r) = CHR '':'' # r"
  by (simp add: skip_ws_def json_ws_def byte_def)

lemma read_key:
  "read_string (Suc (length (concat (map esc_char k) @ chr 34 # r))) (concat (map esc_char k) @ chr 34 # r) = Some (k, r)"
  using length_escaped [of k] by (intro read_string_back) simp

lemma members_back:
  assumes "\<forall>kv \<in> set kvs. reads_back (snd kv) \<and> plain (snd kv)" "kvs \<noteq> []"
    and "2 * length (join '','' (map member_text kvs)) + 2 \<le> f"
  shows "read_members f (join '','' (map member_text kvs) @ CHR ''}'' # r)
    = Some (map (\<lambda>(k, v). (k, reloaded v)) kvs, r)"
  using assms
proof (induction kvs arbitrary: f)
  case (Cons kv kvs)
  obtain k v where kv: "kv = (k, v)" by (cases kv)
  from Cons.prems obtain g where f: "f = Suc g" by (cases f) auto
  have v: "opens (canonical v)" "reads_back v" using Cons.prems(1) kv opens_canonical by auto
  show ?case
  proof (cases kvs)
    case Nil
    have "2 * length (canonical v) + 1 \<le> g" using Cons.prems(3) f kv Nil by (simp add: member_text_def)
    then have "read_value g (canonical v @ CHR ''}'' # r) = Some (reloaded v, CHR ''}'' # r)"
      using v(2) by (simp add: reads_back_def)
    then show ?thesis using f kv Nil v(1) read_key [of k "CHR '':'' # canonical v @ CHR ''}'' # r"]
      by (simp add: member_text_def json_string_shape opens_skip opens_append stops_skip
          skip_colon)
  next
    case (Cons y ys)
    let ?rest = "join '','' (map member_text kvs) @ CHR ''}'' # r"
    have len: "2 * length (canonical v) + 1 \<le> g" "2 * length (join '','' (map member_text kvs)) + 2 \<le> g"
      using Cons.prems(3) f kv \<open>kvs = y # ys\<close> by (simp_all add: member_text_def [of "(k, v)"])
    have nxt: "opens ?rest"
      using \<open>kvs = y # ys\<close> by (cases ys) (simp_all add: opens_append opens_json_string member_text_def)
    have "read_value g (canonical v @ CHR '','' # ?rest) = Some (reloaded v, CHR '','' # ?rest)"
      using v(2) len(1) by (simp add: reads_back_def)
    moreover have "read_members g ?rest = Some (map (\<lambda>(k, v). (k, reloaded v)) kvs, r)"
      using Cons.IH [of g] Cons.prems(1) len(2) \<open>kvs = y # ys\<close> by simp
    ultimately show ?thesis
      using f kv v(1) nxt \<open>kvs = y # ys\<close> read_key [of k "CHR '':'' # canonical v @ CHR '','' # ?rest"]
      by (simp add: member_text_def [of "(k, v)"] json_string_shape opens_skip opens_append stops_skip
          skip_colon)
  qed
qed simp

lemma canonical_array: "canonical (JArr xs) = CHR ''['' # join '','' (map canonical xs) @ '']''"
  by (simp add: canonical_def [abs_def])

lemma map_insort_by: "(\<And>x. f (g x) = h x) \<Longrightarrow> map g (insort_key h x xs) = insort_key f (g x) (map g xs)"
  by (induction xs) auto

lemma map_sort_by: "(\<And>x. f (g x) = h x) \<Longrightarrow> map g (sort_key h xs) = sort_key f (map g xs)"
  by (induction xs) (simp_all add: map_insort_by [of f g h])

lemma canonical_object:
  "canonical (JObj kvs) = ''{'' @ join '','' (map member_text (sort_items kvs)) @ ''}''"
proof -
  have "map (\<lambda>(key, t). json_string key @ '':'' @ t) (sort_items (map (\<lambda>(key, v). (key, dumps '','' '':'' v)) kvs))
      = map (\<lambda>(key, t). json_string key @ '':'' @ t) (map (\<lambda>(key, v). (key, dumps '','' '':'' v)) (sort_items kvs))"
    by (simp add: sort_items_def map_sort_by [of fst "\<lambda>(key, v). (key, dumps '','' '':'' v)" fst] split_beta)
  then show ?thesis
    by (simp add: canonical_def member_text_def [abs_def] split_beta comp_def)
qed

lemma reloaded_object: "reloaded (JObj kvs) = JObj (map (\<lambda>(k, v). (k, reloaded v)) (sort_items kvs))"
  by (simp add: sort_items_def map_sort_key split_beta)

lemma read_words:
  "0 < f \<Longrightarrow> read_value f (CHR ''n'' # CHR ''u'' # CHR ''l'' # CHR ''l'' # r) = Some (JNull, r)"
  "0 < f \<Longrightarrow> read_value f (CHR ''t'' # CHR ''r'' # CHR ''u'' # CHR ''e'' # r) = Some (JBool True, r)"
  "0 < f \<Longrightarrow> read_value f (CHR ''f'' # CHR ''a'' # CHR ''l'' # CHR ''s'' # CHR ''e'' # r) = Some (JBool False, r)"
  by (cases f; simp add: read_word_def byte_def)+

text \<open>Every value without floats and without repeated keys reads back, with any fuel its text allows.\<close>

theorem plain_reads_back: "plain j \<Longrightarrow> reads_back j"
proof (induction j)
  case (JArr xs)
  show ?case unfolding reads_back_def
  proof (intro allI impI)
    fix f r assume f: "2 * length (canonical (JArr xs)) + 1 \<le> f" and r: "stops r"
    obtain g where g: "f = Suc g" using f by (cases f) auto
    show "read_value f (canonical (JArr xs) @ r) = Some (reloaded (JArr xs), r)"
    proof (cases xs)
      case Nil
      then show ?thesis using g r by (simp add: canonical_def byte_def join_def stops_skip skip_ws_def json_ws_def)
    next
      case (Cons y ys)
      have len: "2 * length (join '','' (map canonical xs)) + 2 \<le> g" using f g unfolding canonical_array by simp
      have "opens (join '','' (map canonical xs))"
        using Cons JArr.prems opens_canonical [of y] by (cases ys) (simp_all add: opens_append)
      then have "opens (join '','' (map canonical xs) @ CHR '']'' # r)" by (rule opens_append)
      moreover have "read_items g (join '','' (map canonical xs) @ CHR '']'' # r) = Some (map reloaded xs, r)"
        using JArr Cons len by (intro items_back) auto
      ultimately show ?thesis
        using g by (simp add: canonical_array byte_def opens_skip opens_no_end)
    qed
  qed
next
  case (JObj kvs)
  show ?case unfolding reads_back_def
  proof (intro allI impI)
    fix f r assume f: "2 * length (canonical (JObj kvs)) + 1 \<le> f" and r: "stops r"
    obtain g where g: "f = Suc g" using f by (cases f) auto
    let ?kvs = "sort_items kvs"
    have same: "set ?kvs = set kvs" "distinct (map fst ?kvs)"
      using JObj.prems distinct_map by (auto simp: sort_items_def distinct_map)
    show "read_value f (canonical (JObj kvs) @ r) = Some (reloaded (JObj kvs), r)"
    proof (cases ?kvs)
      case Nil
      then show ?thesis using g r same
        by (simp add: canonical_object reloaded_object byte_def join_def skip_ws_def json_ws_def)
    next
      case (Cons y ys)
      have len: "2 * length (join '','' (map member_text ?kvs)) + 2 \<le> g"
        using f g unfolding canonical_object by simp
      have "opens (join '','' (map member_text ?kvs) @ CHR ''}'' # r)"
        using Cons by (cases ys) (simp_all add: opens_append opens_json_string member_text_def)
      moreover have "read_members g (join '','' (map member_text ?kvs) @ CHR ''}'' # r)
          = Some (map (\<lambda>(k, v). (k, reloaded v)) ?kvs, r)"
        using JObj Cons len same by (intro members_back) auto
      moreover have "dict_of (map (\<lambda>(k, v). (k, reloaded v)) ?kvs) = map (\<lambda>(k, v). (k, reloaded v)) ?kvs"
        using same(2) by (intro dict_of_distinct) (simp add: comp_def split_beta)
      ultimately show ?thesis
        using g by (simp add: canonical_object reloaded_object byte_def opens_skip opens_no_end del: reloaded.simps)
    qed
  qed
next
  case (JInt n)
  show ?case unfolding reads_back_def
  proof (intro allI impI)
    fix f r assume f: "2 * length (canonical (JInt n)) + 1 \<le> f" and r: "stops r"
    obtain c cs where c: "int_dec n = c # cs" "c = CHR ''-'' \<or> ascii_digit c" using int_dec_head by blast
    have "byte c \<noteq> 34 \<and> c \<notin> {CHR ''['', CHR ''{'', CHR ''n'', CHR ''t'', CHR ''f'', CHR ''N'', CHR ''I''}"
      using c(2) by (auto simp: ascii_digit_def byte_def)
    moreover obtain g where "f = Suc g" using f by (cases f) auto
    moreover have "canonical (JInt n) = c # cs" by (simp add: canonical_def c(1))
    ultimately show "read_value f (canonical (JInt n) @ r) = Some (reloaded (JInt n), r)"
      using read_number_back [OF r, of n] c(1) by simp
  qed
next
  case (JStr s)
  show ?case unfolding reads_back_def
  proof (intro allI impI)
    fix f r assume "2 * length (canonical (JStr s)) + 1 \<le> f"
    then obtain g where "f = Suc g" by (cases f) auto
    then show "read_value f (canonical (JStr s) @ r) = Some (reloaded (JStr s), r)"
      using read_key [of s r] by (simp add: canonical_def json_string_shape)
  qed
qed (auto simp: reads_back_def canonical_def read_words)

lemma loads_canonical:
  assumes "plain j"
  shows "json_loads (canonical j) = Some (reloaded j)"
proof -
  have "read_value (2 * length (canonical j) + 2) (canonical j @ []) = Some (reloaded j, [])"
    by (rule plain_reads_back [OF assms, unfolded reads_back_def, rule_format]) simp_all
  then show ?thesis
    using opens_skip [OF opens_canonical [OF assms]] by (simp add: json_loads_def skip_ws_def)
qed

text \<open>So the canonical text, and with it every digest, determines a value up to the order of its items.\<close>

lemma canonical_determines:
  assumes "plain j" "plain k" "canonical j = canonical k"
  shows "reloaded j = reloaded k \<and> json_eq j k"
proof -
  have "reloaded j = reloaded k"
    using loads_canonical [OF assms(1)] loads_canonical [OF assms(2)] assms(3) by simp
  then show ?thesis by (metis json_eq_def py_norm_reloaded)
qed

section \<open>Sorting changes neither the text nor the fields\<close>

lemma sort_key_twice: "sort_key f (sort_key f xs) = sort_key f xs"
  by (rule sort_key_id_if_sorted) simp

lemma canonical_reloaded [simp]: "canonical (reloaded j) = canonical j"
proof (induction j)
  case (JObj kvs)
  have "map member_text (map (\<lambda>(k, v). (k, reloaded v)) (sort_items kvs)) = map member_text (sort_items kvs)"
    using JObj by (auto simp: member_text_def sort_items_def)
  moreover have "sort_items (map (\<lambda>(k, v). (k, reloaded v)) (sort_items kvs)) = map (\<lambda>(k, v). (k, reloaded v)) (sort_items kvs)"
    by (simp add: sort_items_def map_sort_by [of fst "\<lambda>(k, v). (k, reloaded v)" fst, symmetric] split_beta sort_key_twice)
  ultimately show ?case by (simp add: canonical_object reloaded_object del: reloaded.simps map_map)
next
  case (JArr xs)
  then show ?case by (simp add: canonical_array comp_def cong: map_cong)
qed simp_all

lemma map_of_sorted:
  assumes "distinct (map fst kvs)"
  shows "map_of (sort_items kvs) k = map_of kvs k"
proof -
  have "distinct (map fst (sort_items kvs))"
    using assms by (simp add: sort_items_def distinct_map)
  then have "map_of (sort_items kvs) = map_of kvs"
    using assms by (subst map_of_inject_set) (simp_all add: sort_items_def)
  then show ?thesis by simp
qed

end
