(* ===== verification/Laws_Wire.thy ===== *)
theory Laws_Wire
  imports Json_Laws Laws_Delivery
begin

text \<open>
  Texts that carry data: what is written canonically reads back as the same data, a digest binds the
  data, and a packet an agent sends is the packet its peer validates.
\<close>

section \<open>Digests bind data\<close>

text \<open>
  C37: A value without floats and repeated keys (what the validators let through) is read back from
  its canonical text with the items of its objects sorted, and has the same canonical text again.
\<close>
theorem canonical_reads_back:
  assumes "plain j"
  shows "json_loads (canonical j) = Some (reloaded j) \<and> canonical (reloaded j) = canonical j
    \<and> json_eq (reloaded j) j"
  using loads_canonical [OF assms] by (simp add: json_eq_def)

definition sample :: json where
  "sample = JObj [(''text'', JStr ''say ''), (''at'', JArr [JInt (- 12), JNull, JBool True])]"

lemma canonical_reads_back_witness: "json_loads (canonical sample) = Some (reloaded sample)"
proof -
  have "plain sample" by (simp add: sample_def)
  from canonical_reads_back [OF this] show ?thesis by blast
qed

text \<open>
  If the hash does not collide on their canonical texts, two such values have the same digest only
  if they are the same data: what an approval, an acceptance or a receipt names by digest is fixed.
\<close>
theorem digest_binds:
  assumes "plain j" "plain k" "digest E j = digest E k"
    and "sha E (canonical j) = sha E (canonical k) \<longrightarrow> canonical j = canonical k"
  shows "reloaded j = reloaded k \<and> json_eq j k"
proof -
  have "canonical j = canonical k" using assms(3,4) by (simp add: digest_def)
  then show ?thesis by (rule canonical_determines [OF assms(1,2)])
qed

lemma digest_binds_witness:
  "json_eq (JObj [(''a'', JInt 1), (''b'', JNull)]) (JObj [(''b'', JNull), (''a'', JInt 1)])"
proof -
  let ?E = "\<lparr>now = 0, local_urn = None, sha = (\<lambda>x. x), fresh = [], binding = None\<rparr> :: env"
  have "digest ?E (JObj [(''a'', JInt 1), (''b'', JNull)]) = digest ?E (JObj [(''b'', JNull), (''a'', JInt 1)])"
    by (simp add: digest_def canonical_def sort_items_def)
  from digest_binds [OF _ _ this] show ?thesis by simp
qed

section \<open>Packets on the wire\<close>

fun fits :: "nat \<Rightarrow> json \<Rightarrow> bool" where
  "fits d (JObj kvs) \<longleftrightarrow> d \<le> 12 \<and> length kvs \<le> 32 \<and> (\<forall>(k, v) \<in> set kvs. ascii k \<and> fits (Suc d) v)"
| "fits d (JArr xs) \<longleftrightarrow> d \<le> 12 \<and> length xs \<le> max_events \<and> (\<forall>x \<in> set xs. fits (Suc d) x)"
| "fits d (JStr s) \<longleftrightarrow> d \<le> 12 \<and> encodable s \<and> length s \<le> 8000"
| "fits d (JInt n) \<longleftrightarrow> d \<le> 12 \<and> 0 \<le> n \<and> n \<le> 2147483647"
| "fits d (JFloat s) \<longleftrightarrow> False"
| "fits d j \<longleftrightarrow> d \<le> 12"

lemma mapE_units: "(mapE f xs = Inr us) \<longleftrightarrow> (\<forall>x \<in> set xs. \<exists>u. f x = Inr u) \<and> us = map (\<lambda>x. case f x of Inr u \<Rightarrow> u) xs"
  by (induction xs arbitrary: us) (auto split: sum.splits)

lemma bounded_array: "bounded d (JArr xs) = Inr u \<longleftrightarrow>
    d \<le> 12 \<and> length xs \<le> max_events \<and> (\<forall>x \<in> set xs. \<exists>u. bounded (Suc d) x = Inr u)"
  by (subst bounded.simps) (auto simp: mapE_units refuse_def simp del: bounded.simps)

lemma bounded_object: "bounded d (JObj kvs) = Inr u \<longleftrightarrow> d \<le> 12 \<and> length kvs \<le> 32
    \<and> (\<forall>(k, v) \<in> set kvs. ascii k \<and> (\<exists>u. bounded (Suc d) v = Inr u))"
  by (subst bounded.simps) (fastforce simp: mapE_units refuse_def list_ex_iff simp del: bounded.simps split: if_splits)

lemma bounded_fits: "bounded d j = Inr u \<longleftrightarrow> fits d j"
proof (induction j arbitrary: d u)
  case (JArr xs)
  then show ?case by (simp add: bounded_array del: bounded.simps)
next
  case (JObj kvs)
  then have "(\<exists>u. bounded (Suc d) v = Inr u) \<longleftrightarrow> fits (Suc d) v" if "(k, v) \<in> set kvs" for k v
    using that by (fastforce simp del: bounded.simps)
  then show ?case by (force simp: bounded_object simp del: bounded.simps)
qed (subst bounded.simps, auto simp: refuse_def)+

lemma fits_reloaded: "fits d (reloaded j) = fits d j"
proof (induction j arbitrary: d)
  case (JObj kvs)
  then show ?case by (fastforce simp: sort_items_def)
qed auto

lemma jfield_sorted:
  assumes "distinct (map fst kvs)"
  shows "jfield k (map (\<lambda>(k, v). (k, reloaded v)) (sort_items kvs)) = reloaded (jfield k kvs)"
proof -
  have "map_of (map (\<lambda>(k, v). (k, reloaded v)) (sort_items kvs)) k = map_option reloaded (map_of kvs k)"
    using map_of_sorted [OF assms] by (simp add: map_of_map)
  then show ?thesis by (simp add: jfield_def jget_def split: option.split)
qed

definition reloaded_fields :: "fields \<Rightarrow> fields" where
  "reloaded_fields kvs = map (\<lambda>(k, v). (k, reloaded v)) (sort_items kvs)"

definition packet_reloaded :: "packet \<Rightarrow> packet" where
  "packet_reloaded p = p\<lparr>pk_payload := reloaded_fields (pk_payload p)\<rparr>"

lemma refuse_not [simp]: "refuse msg \<noteq> Inr x"
  by (simp add: refuse_def)

lemma reloaded_fields: "reloaded (JObj kvs) = JObj (reloaded_fields kvs)"
  by (simp only: reloaded_object reloaded_fields_def)

lemma reloaded_scalar [simp]:
  "reloaded j = JStr s \<longleftrightarrow> j = JStr s" "reloaded j = JInt n \<longleftrightarrow> j = JInt n" "reloaded j = JNull \<longleftrightarrow> j = JNull"
  by (cases j; auto)+

lemma checks_reloaded [simp]:
  "check_kind (reloaded j) = check_kind j" "v2_identifier (reloaded j) = v2_identifier j"
  "v2_urn (reloaded j) = v2_urn j" "v2_instant (reloaded j) = v2_instant j" "as_str (reloaded j) = as_str j"
  "check_previous n (reloaded j) = check_previous n j"
  by (cases j; simp add: check_kind_def v2_identifier_def v2_urn_def v2_instant_def as_str_def check_previous_def)+

lemma check_sequence_reloaded [simp]: "check_sequence k (reloaded a) (reloaded b) = check_sequence k a b"
  by (cases a) (auto simp: check_sequence_def)

lemma digest_reloaded: "sha E' = sha E \<Longrightarrow> digest E' (JObj (reloaded_fields kvs)) = digest E (JObj kvs)"
  unfolding reloaded_fields [symmetric] by (simp add: digest_def del: reloaded.simps)

lemma validate_reloaded:
  assumes "validate_event E j = Inr p" "plain j" "sha E' = sha E"
  shows "validate_event E' (reloaded j) = Inr (packet_reloaded p)"
proof -
  obtain kvs where j: "j = JObj kvs"
    using assms(1) by (cases j) (auto simp: validate_event_def exact_def refuse_def simp del: bounded.simps)
  have field: "jfield k (reloaded_fields kvs) = reloaded (jfield k kvs)" for k
    using assms(2) j jfield_sorted by (simp add: reloaded_fields_def)
  have keys: "set (jkeys (reloaded_fields kvs)) = set (jkeys kvs)"
    by (force simp: jkeys_def reloaded_fields_def sort_items_def)
  obtain payload where payload: "jfield ''payload'' kvs = JObj payload"
    using assms(1) j
    by (cases "jfield ''payload'' kvs") (auto simp: validate_event_def exact_def refuse_def simp del: bounded.simps split: if_splits)
  have "bounded 0 (reloaded j) = Inr ()" 
    using assms(1) bounded_fits fits_reloaded by (auto simp: validate_event_def simp del: bounded.simps)
  moreover have "canonical (JObj (reloaded_fields kvs)) = canonical (JObj kvs)"
    unfolding reloaded_fields [symmetric] by (simp del: reloaded.simps)
  ultimately show ?thesis
    using assms(1) unfolding j
    by (auto simp add: validate_event_def reloaded_fields exact_def keys field payload digest_reloaded [OF assms(3)]
        packet_reloaded_def simp del: bounded.simps reloaded.simps split: if_split_asm)
      (rule exI, rule conjI, assumption, simp, rule exI, rule conjI, assumption, simp)
qed

text \<open>A packet that validates is the record it was written from.\<close>

lemma v2_kind_back: "check_kind (JStr (v2_kind_str k)) = Inr l \<Longrightarrow> l = k"
  by (cases k) (auto simp: check_kind_def v2_kind_of_def v2_kinds_def split: if_splits)

lemma valid_packet:
  assumes "validate_event E (packet_json p) = Inr q"
  shows "q = p"
proof -
  have urn: "v2_urn (JStr s) = Inr u \<Longrightarrow> u = s" for s u
    by (auto simp: v2_urn_def)
  have ident: "v2_identifier (JStr s) = Inr u \<Longrightarrow> u = s" for s u
    by (auto simp: v2_identifier_def split: if_splits)
  have seq: "check_sequence k (JInt n) prev = Inr m \<Longrightarrow> m = n" for k n prev m
    by (auto simp: check_sequence_def split: if_splits)
  have prev: "check_previous n (jstr_opt o') = Inr m \<Longrightarrow> m = o'" for n o' m
    by (auto simp: check_previous_def jstr_opt_def v2_identifier_def split: if_splits option.splits)
  show ?thesis
    using assms
    by (auto simp: validate_event_def packet_json_def exact_def jfield_def jget_def as_str_def
        simp del: bounded.simps split: if_split_asm dest!: urn ident seq prev v2_kind_back)
qed

text \<open>
  C13: The text an agent hands to the helper for a packet it has built is, for the peer with the same
  hash, a text of this protocol that validates as that very packet, the items of the payload sorted:
  no field is lost or changed on the way.
\<close>
theorem packet_travels:
  assumes "v2_packet E c z = Inr p" "plain (JObj (pk_payload p))" "sha E' = sha E"
  shows "\<exists>kvs. v2_object (canonical (packet_json p)) = Some kvs
    \<and> validate_event E' (JObj kvs) = Inr (packet_reloaded p) \<and> pk_kind p = z_kind z
    \<and> pk_sender p = local_or_empty E \<and> pk_recipient p = v_peer c"
proof -
  obtain q where q: "validate_event E (packet_json q) = Inr p" "pk_kind q = z_kind z"
    "pk_sender q = local_or_empty E" "pk_recipient q = v_peer c"
    using assms(1) by (fastforce simp: v2_packet_def Let_def)
  with valid_packet have same: "q = p" by blast
  then have valid: "validate_event E (packet_json p) = Inr p" using q(1) by simp
  have plain: "plain (packet_json p)"
    using assms(2) by (auto simp: packet_json_def jstr_opt_def split: option.split)
  have "json_loads (canonical (packet_json p)) = Some (reloaded (packet_json p))"
    by (rule loads_canonical [OF plain])
  moreover obtain kvs where kvs: "reloaded (packet_json p) = JObj kvs"
    by (auto simp: packet_json_def)
  moreover have good: "validate_event E' (JObj kvs) = Inr (packet_reloaded p)"
    using validate_reloaded [OF valid plain assms(3)] kvs by simp
  moreover have "jget ''protocol'' kvs = Some (JStr v2_protocol)"
    using good by (auto simp: validate_event_def exact_def jfield_def simp del: bounded.simps split: if_split_asm option.splits)
  moreover have "pk_kind p = z_kind z \<and> pk_sender p = local_or_empty E \<and> pk_recipient p = v_peer c"
    using q same by simp
  ultimately show ?thesis by (simp add: v2_object_def object_of_def)
qed

end
