(* ===== verification/Laws_Reading.thy ===== *)
theory Laws_Reading
  imports Laws_Wire
begin











section \<open>The fuel never runs out\<close>





end
