(* ===== verification/Scenario_Protocol.thy ===== *)
theory Scenario_Protocol
  imports Laws_Wire
begin

text \<open>Two agents and the records of a negotiation, for the instances of the protocol theorems.\<close>

definition urn_me :: string where "urn_me = ''urn:agent:acme:me''"
definition urn_bob :: string where "urn_bob = ''urn:agent:acme:bob''"

definition agent :: "(string \<Rightarrow> string) \<Rightarrow> string \<Rightarrow> env" where
  "agent h u = \<lparr>now = 1000 * sec, local_urn = Some u, sha = h, fresh = ''f1'', binding = None\<rparr>"

definition collab0 :: collaboration where
  "collab0 = \<lparr>v_id = ''c1'', v_owner = ''me'', v_task = ''t1'', v_peer_id = ''bob'', v_peer = urn_bob,
     v_initiator = urn_me, v_phase = ''negotiating'', v_joined = True, v_terms = None, v_acceptances = [],
     v_agreement = None, v_synced = False, v_withdraw = False, v_out = 1, v_last_out = Some ''e1'', v_in = 1,
     v_last_in = Some ''i1'', v_permit = None, v_created = 0, v_invitation = None, v_waiting = None,
     v_blocked_at = None, v_closure = None, v_cancel = None, v_change = None, v_sync_after = None,
     v_source = None\<rparr>"

definition operation0 :: v2_operation where
  "operation0 = \<lparr>z_id = ''z1'', z_task = ''t1'', z_owner = ''me'', z_collaboration = ''c1'', z_kind = VSyncRequest,
     z_payload = [(''after_sequence'', JInt 1)], z_action = None, z_revision = 1, z_request = [], z_context = [],
     z_status = OReady, z_decision = maintenance_verdict, z_expires = 1900 * sec, z_maintenance = True,
     z_recovery = False, z_created = 1000 * sec, z_text = [], z_hash = ''h'', z_delivery = None,
     z_review_version = None, z_new = None, z_permit = None, z_approval = None, z_approved_once = False,
     z_recovery_used = False, z_packet = None, z_reserved = None, z_invalid = None\<rparr>"

definition packet0 :: packet where
  "packet0 = \<lparr>pk_collaboration = ''c1'', pk_event = ''event-h'', pk_kind = VSyncRequest, pk_sender = urn_me,
     pk_recipient = urn_bob, pk_sequence = 0, pk_previous = None, pk_created = ''1970-01-01T00:16:40Z'',
     pk_expires = ''1970-01-01T00:31:40Z'', pk_payload = [(''after_sequence'', JInt 1)], pk_payload_digest = ''h''\<rparr>"

lemma instants: "iso_z (1000 * sec) = ''1970-01-01T00:16:40Z''" "iso_z (1900 * sec) = ''1970-01-01T00:31:40Z''"
  "instant ''1970-01-01T00:16:40Z'' = Inr (1000 * sec)" "instant ''1970-01-01T00:31:40Z'' = Inr (1900 * sec)"
  "store_instant ''1970-01-01T00:31:40Z'' = Inr (1900 * sec)"
  by code_simp+

lemma urns: "is_urn urn_me" "is_urn urn_bob" "urn_me \<noteq> urn_bob"
  "ascii urn_me" "ascii urn_bob" "length urn_me = 17" "length urn_bob = 18"
  by (simp_all add: eval_defs pylen_lit urn_me_def urn_bob_def del: run_andThen)

lemma encodable_if_ascii: "ascii s \<Longrightarrow> encodable s"
  by (simp add: encodable_ascii ascii_def)

lemma encodable_urns: "encodable urn_me" "encodable urn_bob"
  by (simp_all add: encodable_if_ascii urns)

lemma small: "bulk j \<le> 90000 \<Longrightarrow> length (canonical j) \<le> 90000"
  using length_canonical [of j] by simp

lemma sync_packet: "v2_packet (agent hash0 urn_me) collab0 operation0 = Inr packet0"
proof -
  let ?E = "agent hash0 urn_me"
  have d: "digest ?E j = ''h''" for j by (simp add: digest_def agent_def hash0_def)
  have a: "now ?E = 1000 * sec" "local_urn ?E = Some urn_me" by (simp_all add: agent_def)
  have e: "v2_packet ?E collab0 operation0 = validate_event ?E (packet_json packet0)"
    by (simp add: v2_packet_def operation0_def collab0_def d a packet0_def local_or_empty_def
        sync_kinds_def instants Let_def)
  have b: "bounded 0 (packet_json packet0) = Inr ()"
    unfolding bounded_fits packet_json_def packet0_def
    by (simp add: urns encodable_urns encodable_if_ascii ascii_def byte_def v2_protocol_def jstr_opt_def max_events_def)
  have l: "length (canonical (packet_json packet0)) \<le> 90000"
    by (rule small) (simp add: packet_json_def packet0_def urns jstr_opt_def v2_protocol_def int_dec_def nat_dec.simps)
  have k: "check_kind (JStr ''sync_request'') = Inr VSyncRequest" by code_simp
  have i: "is_identifier ''c1''" "is_identifier ''event-h''" by code_simp+
  show ?thesis
    unfolding e validate_event_def b
    using l by (simp add: packet_json_def packet0_def exact_def packet_fields_def jkeys_def jfield_def jget_def
      k v2_identifier_def i v2_urn_def urns check_sequence_def sync_kinds_def
      check_previous_def v2_instant_def instants d as_str_def jstr_opt_def sec_def set_eq_subset [where 'a = string])
qed

lemma packet_travels_witness:
  "\<exists>kvs. v2_object (canonical (packet_json packet0)) = Some kvs
    \<and> validate_event (agent hash0 urn_bob) (JObj kvs) = Inr (packet_reloaded packet0)"
proof -
  have "plain (JObj (pk_payload packet0))" "sha (agent hash0 urn_bob) = sha (agent hash0 urn_me)"
    by (simp_all add: packet0_def agent_def)
  from packet_travels [OF sync_packet this] show ?thesis by blast
qed

section \<open>A negotiation, hashed by the identity\<close>

definition env_me :: env where "env_me = agent (\<lambda>x. x) urn_me"
definition env_bob :: env where "env_bob = agent (\<lambda>x. x) urn_bob"

lemma sides [simp]: "local_urn env_me = Some urn_me" "local_urn env_bob = Some urn_bob" "now env_me = 1000 * sec"
  "now env_bob = 1000 * sec" "sha env_me = (\<lambda>x. x)" "sha env_bob = (\<lambda>x. x)"
  by (simp_all add: env_me_def env_bob_def agent_def)

definition terms0 :: json where
  "terms0 = JObj [(''proposal_id'', JStr ''p1''), (''version'', JInt 1), (''topic'', JStr ''lunch''),
     (''participant_ids'', jstrs [urn_bob, urn_me]), (''start'', JStr ''1970-01-01T10:00:00Z''),
     (''end'', JStr ''1970-01-01T11:00:00Z''), (''fulfillment_mode'', JStr ''agreement_only''),
     (''meeting_mode'', JStr ''online''), (''obligations'', JStr ''each_party_attends_only''),
     (''formation_rule'', JStr ''initiator_durable_decision_v1'')]"

text \<open>Bob's side of the collaboration.\<close>

definition collab_bob :: collaboration where
  "collab_bob = collab0\<lparr>v_peer_id := ''me'', v_peer := urn_me\<rparr>"

definition event :: "string \<Rightarrow> v2_kind \<Rightarrow> string \<Rightarrow> int \<Rightarrow> string option \<Rightarrow> fields \<Rightarrow> packet" where
  "event u k eid n prev d = \<lparr>pk_collaboration = ''c1'', pk_event = eid, pk_kind = k, pk_sender = u,
     pk_recipient = (if u = urn_me then urn_bob else urn_me), pk_sequence = n, pk_previous = prev,
     pk_created = ''1970-01-01T00:16:40Z'', pk_expires = ''1970-01-01T00:31:40Z'', pk_payload = d,
     pk_payload_digest = digest env_me (JObj d)\<rparr>"

definition proposal0 :: packet where
  "proposal0 = event urn_me VProposal ''p2'' 2 (Some ''i1'')
     [(''terms'', terms0), (''terms_digest'', JStr (digest env_me terms0)), (''parent_digest'', JNull)]"

definition accept0 :: "string \<Rightarrow> string \<Rightarrow> packet" where
  "accept0 u eid = event u VAccept eid 2 (Some ''i1'') [(''terms_digest'', JStr (digest env_me terms0)),
     (''actor_urn'', JStr u), (''own_obligations'', JStr ''attend_only''),
     (''authority_basis'', JStr ''peer_attested''), (''valid_until'', JStr ''1970-01-01T00:31:40Z'')]"

definition row :: "packet \<Rightarrow> event_status \<Rightarrow> v2_event" where
  "row p st = \<lparr>e_owner = ''me'', e_task = ''t1'', e_packet = p, e_digest = digest env_me (packet_json p),
     e_status = st, e_reason = [], e_outgoing = False, e_at = 1000 * sec, e_receipt = None\<rparr>"

definition accepted_events :: "(string \<times> v2_event) list" where
  "accepted_events = [(v2_key env_me ''c1'' urn_me (JStr ''a1''), row (accept0 urn_me ''a1'') EApplied),
     (v2_key env_me ''c1'' urn_bob (JStr ''b1''), row (accept0 urn_bob ''b1'') EApplied)]"

lemma digest_sides: "digest env_bob j = digest env_me j"
  by (simp add: digest_def)

lemma keys_differ: "v2_key env_me ''c1'' urn_me (JStr ''a1'') \<noteq> v2_key env_me ''c1'' urn_bob (JStr ''b1'')"
proof
  assume "v2_key env_me ''c1'' urn_me (JStr ''a1'') = v2_key env_me ''c1'' urn_bob (JStr ''b1'')"
  then have "canonical (JArr [JStr ''c1'', JStr urn_me, JStr ''a1'']) = canonical (JArr [JStr ''c1'', JStr urn_bob, JStr ''b1''])"
    by (simp add: v2_key_def digest_def)
  from canonical_determines [OF _ _ this] urns(3) show False by simp
qed

definition ref0 :: "string \<Rightarrow> string \<Rightarrow> json" where
  "ref0 u eid = JObj [(''actor_urn'', JStr u), (''event_id'', JStr eid),
     (''event_digest'', JStr (digest env_me (packet_json (accept0 u eid))))]"

definition agreement0 :: fields where
  "agreement0 = [(''agreement_id'', JStr ''g1''), (''formation_decision_id'', JStr ''f1''),
     (''formed_at'', JStr ''1970-01-01T00:16:40Z''), (''terms_digest'', JStr (digest env_me terms0)),
     (''acceptances'', JArr [ref0 urn_me ''a1'', ref0 urn_bob ''b1'']), (''initiator_sequence'', JInt 2),
     (''peer_sequence'', JInt 2)]"

definition accepted_store :: store where
  "accepted_store = empty_store\<lparr>events := accepted_events\<rparr>"

end
