(* ===== verification/Laws_Protocol.thy ===== *)
theory Laws_Protocol
  imports Scenario_Protocol
begin

text \<open>
  The bilateral protocol: who may say what, what an agreement rests on, in what order events take
  effect and what an event that is refused leaves behind.
\<close>

section \<open>Queued replies\<close>

lemma v2_queue_result:
  assumes "v2_queue E c k pl s = Inr (d, s')"
  shows "\<exists>w. d = c\<lparr>v_waiting := w\<rparr>"
proof -
  have "d = c \<or> (\<exists>w. d = c\<lparr>v_waiting := w\<rparr>)"
    using assms by (auto simp: v2_queue_def Let_def split: option.splits if_splits)
  then show ?thesis
  proof
    assume "d = c"
    then have "d = c\<lparr>v_waiting := v_waiting c\<rparr>" by simp
    then show ?thesis ..
  qed
qed

section \<open>Refused events\<close>



section \<open>Formation\<close>

lemma any_stale_none:
  "any_stale E c as = Inr False \<Longrightarrow> (u, a) \<in> set as \<Longrightarrow> ac_active a
     \<and> (\<exists>t. instant (ac_valid a) = Inr t \<and> now E < t) \<and> JStr (ac_terms a) = terms_digest E c"
  by (induction as) (auto simp: acceptance_stale_def split: if_splits)

text \<open>
  C9: The coordinator, and nobody else, forms an agreement, and only over the current terms: both
  participants have accepted, both acceptances are in force, neither has run out and each names the
  digest of exactly these terms.
\<close>
theorem agreement_needs_both:
  assumes "v2_form E c s = Inr (c', s')" "v_agreement c = None" "v_agreement c' \<noteq> None"
  shows "local_urn E = Some (v_initiator c) \<and> v_terms c \<noteq> None
    \<and> set (map fst (v_acceptances c)) = {v_initiator c, v_peer c}
    \<and> (\<forall>(u, a) \<in> set (v_acceptances c). ac_active a \<and> JStr (ac_terms a) = terms_digest E c
        \<and> (\<exists>t. instant (ac_valid a) = Inr t \<and> now E < t))
    \<and> v_agreement c' = Some (formation E c) \<and> v_phase c' = ''agreed''"
proof -
  have go: "local_urn E = Some (v_initiator c)" "v_terms c \<noteq> None"
    "set (map fst (v_acceptances c)) = {v_initiator c, v_peer c}"
    using assms by (auto simp: v2_form_def split: if_splits)
  then obtain stale where st: "any_stale E c (v_acceptances c) = Inr stale"
    and rest: "(if stale then ret c else v2_queue E (c\<lparr>v_agreement := Some (formation E c), v_phase := ''agreed'',
                          v_waiting := Some ''agreement_sync''\<rparr>) VAgreement []) s = Inr (c', s')"
    using assms(1,2) by (auto simp: v2_form_def)
  with assms(2,3) have "\<not> stale" by auto
  with rest obtain w where "c' = c\<lparr>v_agreement := Some (formation E c), v_phase := ''agreed'', v_waiting := w\<rparr>"
    by (auto dest: v2_queue_result)
  then show ?thesis using go st \<open>\<not> stale\<close> any_stale_none [of E c "v_acceptances c"] by auto
qed

definition acceptance0 :: "string \<Rightarrow> string \<Rightarrow> acceptance" where
  "acceptance0 u eid = \<lparr>ac_terms = digest env_me terms0, ac_actor = u, ac_valid = ''1970-01-01T00:31:40Z'',
     ac_event = eid, ac_digest = digest env_me (packet_json (accept0 u eid)), ac_active = True\<rparr>"

definition accepted_collab :: collaboration where
  "accepted_collab = collab0\<lparr>v_terms := Some terms0,
     v_acceptances := [(urn_me, acceptance0 urn_me ''a1''), (urn_bob, acceptance0 urn_bob ''b1'')]\<rparr>"

lemma agreement_needs_both_witness:
  "\<exists>c' s'. v2_form env_me accepted_collab empty_store = Inr (c', s')
    \<and> v_agreement c' = Some (formation env_me accepted_collab) \<and> v_phase c' = ''agreed''"
proof -
  let ?c = "accepted_collab\<lparr>v_agreement := Some (formation env_me accepted_collab), v_phase := ''agreed'',
      v_waiting := Some ''maintenance_permission''\<rparr>"
  have run: "v2_form env_me accepted_collab empty_store = Inr (?c, empty_store)"
    by (simp add: v2_form_def accepted_collab_def collab0_def acceptance0_def acceptance_stale_def instants
        terms_digest_def v2_queue_def sec_def) blast
  from agreement_needs_both [OF run] show ?thesis
    using run by (auto simp: accepted_collab_def collab0_def)
qed





section \<open>Who may change terms and acceptances\<close>

definition same_terms :: "collaboration \<Rightarrow> collaboration \<Rightarrow> bool" where
  "same_terms c d \<longleftrightarrow> v_terms d = v_terms c \<and> v_acceptances d = v_acceptances c \<and> v_in d = v_in c"

lemma same_queue: "v2_queue E c k pl s = Inr (d, s') \<Longrightarrow> same_terms c d"
  by (auto simp: same_terms_def dest!: v2_queue_result)

lemma same_trans: "same_terms c d \<Longrightarrow> same_terms d e \<Longrightarrow> same_terms c e"
  by (simp add: same_terms_def)

lemma same_form: "v2_form E c s = Inr (d, s') \<Longrightarrow> same_terms c d"
  by (auto simp: v2_form_def same_terms_def dest!: v2_queue_result split: if_splits)

lemma same_opening: "apply_opening E c p s = Inr (d, s') \<Longrightarrow> same_terms c d"
  by (auto simp: apply_opening_def same_terms_def split: if_splits option.splits)

lemma same_agreement_step: "apply_agreement E c p out s = Inr (d, s') \<Longrightarrow> same_terms c d"
  by (cases "jfield ''acceptances'' (pk_payload p)")
    (auto simp: apply_agreement_def same_terms_def Let_def dest!: v2_queue_result split: if_splits)

lemma same_ack: "apply_ack E c p out s = Inr (d, s') \<Longrightarrow> same_terms c d"
  by (auto simp: apply_ack_def same_terms_def complete_def split: if_splits)

lemma same_cancel: "apply_cancel E c p s = Inr (d, s') \<Longrightarrow> same_terms c d"
  by (auto simp: apply_cancel_def same_terms_def split: if_splits)

lemma same_receipt: "apply_receipt E c p out s = Inr (d, s') \<Longrightarrow> same_terms c d"
  by (auto simp: apply_receipt_def same_terms_def complete_def Let_def split: if_splits option.splits)

lemma same_sync: "apply_sync E c p out s = Inr (d, s') \<Longrightarrow> same_terms c d"
  by (auto simp: apply_sync_def same_terms_def dest!: v2_queue_result split: if_splits json.splits)

lemmas same_steps = same_opening same_agreement_step same_ack same_cancel same_receipt same_sync

lemma withdraw_result:
  assumes "apply_withdraw E c p s = Inr (d, s')"
  shows "v_terms d = v_terms c \<and> v_in d = v_in c \<and> (v_acceptances d = v_acceptances c
    \<or> (\<exists>a. v_acceptances d = upsert (pk_sender p) (a\<lparr>ac_active := False\<rparr>) (v_acceptances c)))"
  using assms by (auto simp: apply_withdraw_def Let_def dest!: v2_queue_result split: if_splits option.splits)

lemma set_upsert: "x \<in> set (upsert k v xs) \<Longrightarrow> x = (k, v) \<or> x \<in> set xs"
  by (induction k v xs rule: upsert.induct) (auto split: if_splits)

text \<open>
  C8: Terms change only through a proposal of the initiator, after the peer has joined, before any
  agreement or cancellation and with no acceptance in force; the proposal names the digest of the terms
  it replaces, carries the next version number and its own digest, and no earlier acceptance counts.
\<close>
theorem terms_follow_protocol:
  assumes "v2_apply E c p out s = Inr (d, s')" "v_terms d \<noteq> v_terms c"
  shows "pk_kind p = VProposal \<and> pk_sender p = v_initiator c \<and> v_joined c \<and> v_agreement c = None
    \<and> v_closure c \<noteq> Some ''cancelled'' \<and> (\<forall>(u, a) \<in> set (v_acceptances c). \<not> ac_active a)
    \<and> jneed ''parent_digest'' (pk_payload p) = Inr (terms_digest E c)
    \<and> (\<exists>terms v. v_terms d = Some terms \<and> v_acceptances d = []
        \<and> jfield ''terms_digest'' (pk_payload p) = JStr (digest E terms)
        \<and> jindex ''version'' terms = Inr v
        \<and> json_eq v (JInt (case obj_field ''version'' (v_terms c) of JInt n \<Rightarrow> n + 1 | _ \<Rightarrow> 1)))"
proof -
  from assms(1) have pre: "v2_precondition E c (pk_kind p) (pk_payload p) (pk_sender p) = Inr ()"
    by (auto simp: v2_apply_def)
  have kind: "pk_kind p = VProposal"
  proof (cases "pk_kind p")
    case VAccept
    then have "v_terms d = v_terms c"
      using assms(1) by (auto simp: v2_apply_def apply_accept_def same_terms_def Let_def dest!: same_form split: if_splits)
    then show ?thesis using assms(2) by simp
  next
    case VChangeRequest
    then show ?thesis using assms by (auto simp: v2_apply_def apply_terms_def Let_def split: if_splits)
  next
    case VWithdraw
    then show ?thesis using assms by (auto simp: v2_apply_def dest: withdraw_result)
  qed (use assms in \<open>auto simp: v2_apply_def same_terms_def dest!: same_steps\<close>)
  have run: "apply_terms E c p s = Inr (d, s')" using assms(1) kind by (auto simp: v2_apply_def)
  have proposal: "proposal_precondition E c (pk_payload p) (pk_sender p) = Inr ()"
    and base: "v_joined c" "v_agreement c = None" "v_closure c \<noteq> Some ''cancelled''"
    using pre kind by (auto simp: v2_precondition_def maintenance_kinds_def split: if_splits)
  have t: "pk_sender p = v_initiator c" "\<forall>(u, a) \<in> set (v_acceptances c). \<not> ac_active a"
    "jneed ''parent_digest'' (pk_payload p) = Inr (terms_digest E c)"
    using proposal by (auto simp: proposal_precondition_def buffered_def list_ex_iff split: if_splits)
  have "\<exists>terms v. jneed ''terms'' (pk_payload p) = Inr terms \<and> jindex ''version'' terms = Inr v"
    using proposal by (auto simp: proposal_precondition_def buffered_def split: if_splits)
  then obtain terms v where v: "jneed ''terms'' (pk_payload p) = Inr terms" "jindex ''version'' terms = Inr v"
    by blast
  have "\<not> list_ex (\<lambda>(_, a). ac_active a) (v_acceptances c)"
    using proposal by (auto simp: proposal_precondition_def split: if_splits)
  then have step: "(case obj_field ''version'' (v_terms c) of JInt n \<Rightarrow>
        if json_eq v (JInt (n + 1)) then Inr () else refuse ''Terms revision must advance exactly once''
      | _ \<Rightarrow> if json_eq v (JInt 1) then Inr () else refuse ''The first terms revision must be one'') = Inr ()"
    using proposal t v by (simp add: proposal_precondition_def)
  have "jfield ''terms'' (pk_payload p) = terms"
    using v(1) by (auto simp: jneed_def jfield_def split: option.splits)
  then have "v_terms d = Some terms \<and> v_acceptances d = [] \<and> jfield ''terms_digest'' (pk_payload p) = JStr (digest E terms)"
    using run kind by (auto simp: apply_terms_def Let_def split: if_splits)
  moreover have "json_eq v (JInt (case obj_field ''version'' (v_terms c) of JInt n \<Rightarrow> n + 1 | _ \<Rightarrow> 1))"
    using step by (simp split: json.splits if_splits)
  ultimately show ?thesis using kind base t v(2) by blast
qed

lemma terms_follow_protocol_witness:
  "\<exists>d. v2_apply env_bob collab_bob proposal0 False empty_store = Inr (d, empty_store) \<and> v_terms d = Some terms0
    \<and> v_acceptances d = [] \<and> v_agreement collab_bob = None"
proof -
  let ?d = "collab_bob\<lparr>v_terms := Some terms0, v_acceptances := [], v_phase := ''negotiating'', v_withdraw := False\<rparr>"
  have act: "\<exists>a. terms_action env_bob collab_bob terms0 ProposeMeeting = Inr a"
    by (simp add: eval_rules terms0_def collab_bob_def collab0_def urn_me_def urn_bob_def env_bob_def agent_def cong: eval_cong)
  then have run: "v2_apply env_bob collab_bob proposal0 False empty_store = Inr (?d, empty_store)"
    by (auto simp: v2_apply_def v2_precondition_def maintenance_kinds_def proposal0_def event_def collab_bob_def collab0_def
        proposal_precondition_def jneed_def jget_def jindex_def terms_digest_def digest_sides obj_field_def jfield_def
        apply_terms_def Let_def exact_fields_def exact_def jkeys_def set_eq_subset [where 'a = string] terms0_def
        json_eq_def)
  from terms_follow_protocol [OF run] run show ?thesis
    by (auto simp: collab_bob_def collab0_def)
qed

lemma accept_run:
  assumes "apply_accept E c p s = Inr (d, s')"
  shows "v_terms d = v_terms c \<and> (\<exists>t. v2_instant (jfield ''valid_until'' (pk_payload p)) = Inr t \<and> now E < t)
    \<and> v_acceptances d = upsert (pk_sender p)
        \<lparr>ac_terms = as_str (jfield ''terms_digest'' (pk_payload p)), ac_actor = as_str (jfield ''actor_urn'' (pk_payload p)),
         ac_valid = as_str (jfield ''valid_until'' (pk_payload p)), ac_event = pk_event p,
         ac_digest = digest E (packet_json p), ac_active = True\<rparr> (v_acceptances c)"
  using assms by (auto simp: apply_accept_def same_terms_def Let_def dest!: same_form split: if_splits)

text \<open>
  C7: Nobody accepts for somebody else, and nobody accepts anything but the current terms: an
  acceptance in force that an event adds is the sender's own, made by an accept event after the peer has
  joined and before any agreement; it names the digest of the current terms, its own event and the
  digest of that event, and it has not run out.
\<close>
theorem acceptance_is_own:
  assumes "v2_apply E c p out s = Inr (d, s')" "(u, a) \<in> set (v_acceptances d)" "ac_active a"
    "(u, a) \<notin> set (v_acceptances c)"
  shows "u = pk_sender p \<and> pk_kind p = VAccept \<and> v_joined c \<and> v_agreement c = None \<and> v_terms c \<noteq> None
    \<and> JStr (ac_terms a) = terms_digest E c \<and> v_terms d = v_terms c \<and> ac_actor a = u
    \<and> ac_event a = pk_event p \<and> ac_digest a = digest E (packet_json p)
    \<and> (\<exists>t. instant (ac_valid a) = Inr t \<and> now E < t)"
proof -
  from assms(1) have pre: "v2_precondition E c (pk_kind p) (pk_payload p) (pk_sender p) = Inr ()"
    by (auto simp: v2_apply_def)
  have kind: "pk_kind p = VAccept"
  proof (cases "pk_kind p")
    case VProposal
    then show ?thesis using assms by (auto simp: v2_apply_def apply_terms_def Let_def split: if_splits)
  next
    case VChangeRequest
    then show ?thesis using assms by (auto simp: v2_apply_def apply_terms_def Let_def split: if_splits)
  next
    case VWithdraw
    then show ?thesis using assms by (auto simp: v2_apply_def dest!: withdraw_result set_upsert)
  qed (use assms in \<open>auto simp: v2_apply_def same_terms_def dest!: same_steps\<close>)
  have run: "apply_accept E c p s = Inr (d, s')" using assms(1) kind by (auto simp: v2_apply_def)
  have acc: "accept_precondition E c (pk_payload p) (pk_sender p) = Inr ()" "v_joined c" "v_agreement c = None"
    using pre kind by (auto simp: v2_precondition_def maintenance_kinds_def split: if_splits)
  have fields: "v_terms c \<noteq> None" "jfield ''terms_digest'' (pk_payload p) = terms_digest E c"
    "jfield ''actor_urn'' (pk_payload p) = JStr (pk_sender p)"
    using acc(1) by (auto simp: accept_precondition_def buffered_def jneed_def jfield_def split: if_splits option.splits)
  obtain t where t: "v2_instant (jfield ''valid_until'' (pk_payload p)) = Inr t" "now E < t"
    using accept_run [OF run] by blast
  then obtain w where w: "jfield ''valid_until'' (pk_payload p) = JStr w" "instant w = Inr t"
    by (auto simp: v2_instant_def split: json.splits)
  have "(u, a) = (pk_sender p, \<lparr>ac_terms = as_str (jfield ''terms_digest'' (pk_payload p)),
      ac_actor = as_str (jfield ''actor_urn'' (pk_payload p)), ac_valid = as_str (jfield ''valid_until'' (pk_payload p)),
      ac_event = pk_event p, ac_digest = digest E (packet_json p), ac_active = True\<rparr>)"
    using assms(2,4) accept_run [OF run] by (auto dest: set_upsert)
  moreover have "JStr (as_str (terms_digest E c)) = terms_digest E c"
    using fields(1) by (auto simp: terms_digest_def as_str_def)
  ultimately show ?thesis
    using kind acc fields t w accept_run [OF run] by (auto simp: as_str_def)
qed

lemma acceptance_is_own_witness:
  "\<exists>d a. v2_apply env_bob (collab_bob\<lparr>v_terms := Some terms0\<rparr>) (accept0 urn_me ''a1'') False empty_store = Inr (d, empty_store)
    \<and> v_acceptances d = [(urn_me, a)] \<and> ac_actor a = urn_me \<and> JStr (ac_terms a) = terms_digest env_bob d"
proof -
  let ?c = "collab_bob\<lparr>v_terms := Some terms0\<rparr>" and ?a = "acceptance0 urn_me ''a1''"
  let ?d = "?c\<lparr>v_acceptances := [(urn_me, ?a)], v_phase := ''partially_accepted''\<rparr>"
  have run: "v2_apply env_bob ?c (accept0 urn_me ''a1'') False empty_store = Inr (?d, empty_store)"
    using urns(3) by (simp add: v2_apply_def v2_precondition_def maintenance_kinds_def accept0_def event_def collab_bob_def
        collab0_def accept_precondition_def jneed_def jget_def terms_digest_def digest_sides apply_accept_def Let_def
        exact_fields_def exact_def jkeys_def set_eq_subset [where 'a = string] jfield_def v2_instant_def instants sec_def
        v2_form_def acceptance0_def as_str_def)
  from acceptance_is_own [OF run, of urn_me ?a] run show ?thesis
    by (simp add: collab_bob_def collab0_def acceptance0_def terms_digest_def digest_sides) 
qed

end
