(* ===== verification/Laws_Stream.thy ===== *)
theory Laws_Stream
  imports Laws_Protocol
begin

text \<open>
  The stream of a peer: an event is recorded once, events take effect in the order of their sequence
  numbers along the chain of their predecessors, and at most 256 of them in one turn.
\<close>

section \<open>Recording\<close>

text \<open>
  C12: An event is recorded once. A new one takes a key nobody held and, in the business stream, a
  sequence number its sender had not used, and nothing else changes in the journal of events; one
  already known must have exactly the recorded content and changes nothing.
\<close>
theorem event_recorded_once:
  assumes "record_event E c p s = Inr ((r, new), s')"
  shows "tget (event_key E c p) (events s') = Some r
    \<and> (\<not> new \<longrightarrow> s' = s \<and> e_digest r = digest E (packet_json p))
    \<and> (new \<longrightarrow> tget (event_key E c p) (events s) = None \<and> e_packet r = p \<and> e_digest r = digest E (packet_json p)
        \<and> (\<forall>k. k \<noteq> event_key E c p \<longrightarrow> tget k (events s') = tget k (events s))
        \<and> (pk_kind p \<notin> set sync_kinds \<longrightarrow> \<not> (\<exists>q \<in> set (tall (events s)). pk_collaboration (e_packet q) = v_id c
            \<and> pk_sender (e_packet q) = pk_sender p \<and> pk_sequence (e_packet q) = pk_sequence p)))"
proof (cases "tget (event_key E c p) (events s)")
  case None
  have save: "tget (event_key E c p) (events s') = Some r \<and> e_packet r = p \<and> e_digest r = digest E (packet_json p)
      \<and> (\<forall>k. k \<noteq> event_key E c p \<longrightarrow> tget k (events s') = tget k (events s))"
    if "save_event E c p st why out s = Inr (r, s')" for st why out
    using that by (auto simp: save_event_def put_event_def Let_def)
  show ?thesis
    using assms None by (auto simp: record_event_def sequence_taken_def list_ex_iff split: if_splits dest!: save)
next
  case (Some old)
  then show ?thesis using assms by (auto simp: record_event_def split: if_splits)
qed

lemma event_recorded_once_witness:
  "\<exists>r s'. record_event env_bob collab_bob proposal0 empty_store = Inr ((r, True), s')
    \<and> tget (event_key env_bob collab_bob proposal0) (events s') = Some r \<and> e_packet r = proposal0"
proof -
  let ?r = "(row proposal0 EBuffered)\<lparr>e_reason := ''missing_predecessor''\<rparr>"
  let ?s = "empty_store\<lparr>events := [(event_key env_bob collab_bob proposal0, ?r)]\<rparr>"
  have run: "record_event env_bob collab_bob proposal0 empty_store = Inr ((?r, True), ?s)"
    by (simp add: record_event_def empty_store_def tget_def sequence_taken_def tall_def proposal0_def event_def instants
        sec_def save_event_def put_event_def row_def Let_def digest_sides collab_bob_def collab0_def)
  from event_recorded_once [OF run] run show ?thesis by blast
qed

section \<open>Order\<close>

















section \<open>An acknowledgement after a cancellation\<close>

text \<open>
  What the code does with an acknowledgement that arrives after both participants have cancelled: the
  collaboration is reported as completed and the cancellation is forgotten.
\<close>
theorem late_ack_completes:
  assumes "v_closure c = Some ''cancelled''" "pk_kind p = VAgreementAck" "pk_sender p \<noteq> v_initiator c"
    "set (jkeys (pk_payload p)) = {''agreement_id''}" "agreement_id_matches c (pk_payload p)"
  shows "v2_apply E c p False s = Inr (complete c, s) \<and> v_closure (complete c) = Some ''agreement_only_complete''"
  using assms by (simp add: v2_apply_def v2_precondition_def maintenance_kinds_def apply_ack_def exact_fields_def exact_def complete_def)

lemma late_ack_completes_witness:
  "\<exists>d. v2_apply env_me (collab0\<lparr>v_agreement := Some (JObj agreement0), v_closure := Some ''cancelled''\<rparr>)
      (event urn_bob VAgreementAck ''k1'' 2 (Some ''i1'') [(''agreement_id'', JStr ''g1'')]) False empty_store = Inr (d, empty_store)
    \<and> v_closure d = Some ''agreement_only_complete''"
proof -
  let ?c = "collab0\<lparr>v_agreement := Some (JObj agreement0), v_closure := Some ''cancelled''\<rparr>"
  let ?p = "event urn_bob VAgreementAck ''k1'' 2 (Some ''i1'') [(''agreement_id'', JStr ''g1'')]"
  have "v_closure ?c = Some ''cancelled''" "pk_kind ?p = VAgreementAck" "pk_sender ?p \<noteq> v_initiator ?c"
    "set (jkeys (pk_payload ?p)) = {''agreement_id''}" "agreement_id_matches ?c (pk_payload ?p)"
    using urns(3) by (simp_all add: event_def collab0_def jkeys_def agreement_id_matches_def obj_field_def jfield_def
        jget_def agreement0_def json_eq_def)
  from late_ack_completes [OF this] show ?thesis by blast
qed

end
