(* ===== verification/Laws_Worker.thy ===== *)
theory Laws_Worker
  imports Laws_Stream
begin

text \<open>The background worker: when it may run and what it may do on its own.\<close>

lemma wk_put_collaboration: "steps (same_table workers) (put_collaboration E c)"
  by (rule steps_goes) (rule tb_workers.same.hk_goes_collaboration [OF refl], simp add: same_table_def)

lemma wk_drain: "steps (same_table workers) (v2_drain E c)"
  using qt.pr_drain [of E _ c] by (auto simp: steps_def same_table_def quiet_def)

lemma claimed_workers:
  assumes "plan_claimed E x r c0 s = Inr (Run y cid p, s')"
  shows "workers s' = workers s \<and> y = x \<and> (\<exists>u c. p = plan_run E u x r c \<and> cid = v_id c)"
proof -
  let ?m = "if v_waiting c0 = Some ''peer_review_required'' then
          andThen (collaboration_review_safe E c0 (context_session x)) (\<lambda>safe.
            if safe then andThen (v2_drain E c0) (put_collaboration E) else ret c0)
        else ret c0"
  obtain c s1 safe s2 where c: "?m s = Inr (c, s1)" "collaboration_review_safe E c (context_session x) s1 = Inr (safe, s2)"
    and rest: "(if \<not> safe then
       (let r' = r\<lparr>wp_status := WPaused, wp_waiting := Some ''peer_content_unavailable''\<rparr> in
        andThen (put_worker r') (\<lambda>_.
        andThen (finish_run E (rc_run x) RunCompleted (Some (now E))) (\<lambda>_.
        andThen (worker_attention E r') (\<lambda>_. ret NoRun))))
     else reads (\<lambda>s. ret (Run x (v_id c) (plan_run E s x r c)))) s2 = Inr (Run y cid p, s')"
    using assms by (auto simp: plan_claimed_def)
  have m: "steps (same_table workers) ?m"
    by (intro tb_workers.same.steps_if tb_workers.same.steps_andThen tb_workers.same.hk_review_safe [OF refl]
        wk_drain wk_put_collaboration tb_workers.same.steps_ret)
  have "workers s1 = workers s" "workers s2 = workers s1"
    using stepsD [OF m c(1)] stepsD [OF tb_workers.same.hk_review_safe [OF refl] c(2)] by (auto simp: same_table_def)
  then show ?thesis using rest by (auto simp: Let_def split: if_splits)
qed

lemma plan_kinds:
  "plan_run E s x r c = PlanPrepare k pl oid \<Longrightarrow> k = VProposal \<and> wl_propose (wp_policy r) \<or> k = VAccept \<and> wl_accept (wp_policy r)"
  by (auto simp: plan_run_def Let_def split: list.splits if_splits)

text \<open>
  C14: The worker starts a run only for an active policy whose mandate is live and at the revision the
  policy was confirmed for, before the policy's deadline, no sooner than its interval after the last
  run, below both budgets, and while no earlier run of the policy is unfinished; the run is counted
  before anything is prepared; and on its own it prepares nothing but a proposal or an acceptance that
  the confirmed policy enables.
\<close>
theorem worker_within_policy:
  assumes "claim_run E pr tid s = Inr (Run x cid p, s')"
  shows "\<exists>r t. tget tid (workers s) = Some r \<and> wp_status r = WActive \<and> tget (wp_task r) (tasks s) = Some t \<and> live E t
    \<and> t_revision t = wp_task_revision r \<and> (\<exists>e. store_instant (wl_expires (wp_policy r)) = Inr e \<and> now E < e) \<and> due E r
    \<and> wp_runs r < wl_runs (wp_policy r) \<and> wp_sends r < wl_sends (wp_policy r)
    \<and> (\<forall>q \<in> set (tall (runs s)). \<not> (wr_task q = wp_task r \<and> wr_revision q = wp_revision r \<and> wr_status q = RunRunning))
    \<and> tget (wp_task r) (workers s') = Some (r\<lparr>wp_runs := wp_runs r + 1, wp_last_run := Some (now E)\<rparr>)
    \<and> (\<forall>k pl oid. p = PlanPrepare k pl oid \<longrightarrow>
        k = VProposal \<and> wl_propose (wp_policy r) \<or> k = VAccept \<and> wl_accept (wp_policy r))"
proof -
  obtain r where r: "tget tid (workers s) = Some r"
    using assms by (auto simp: claim_run_def claim_decision_of_def split: option.splits)
  have cur: "wp_status r = WActive" "worker_policy_current E s r = Inr True" "due E r"
    using assms r by (auto simp: claim_run_def claim_decision_of_def split: if_splits)
  let ?r = "r\<lparr>wp_runs := wp_runs r + 1, wp_last_run := Some (now E)\<rparr>"
  have start: "claim_due E s pr r = ClaimStart ?r (new_context E pr ?r)"
    using assms r cur by (auto simp: claim_run_def claim_decision_of_def claim_due_def Let_def split: if_splits)
  then have free: "\<not> exhausted r" "filter (\<lambda>q. wr_task q = wp_task r \<and> wr_revision q = wp_revision r \<and> wr_status q = RunRunning) (tall (runs s)) = []"
    by (auto simp: claim_due_def Let_def split: if_splits)
  obtain u c where "plan_claimed E (new_context E pr ?r) ?r c u = Inr (Run x cid p, s')"
    "workers u = tput (wp_task r) ?r (workers s)"
    using assms r cur start by (auto simp: claim_run_def claim_decision_of_def put_run_def put_worker_def)
  then have w: "tget (wp_task r) (workers s') = Some ?r" "\<exists>u c. p = plan_run E u (new_context E pr ?r) ?r c"
    using claimed_workers [of E _ _ c u x cid p s'] by (simp_all, blast)
  obtain t where t: "tget (wp_task r) (tasks s) = Some t" "live E t" "t_revision t = wp_task_revision r"
    "\<exists>e. store_instant (wl_expires (wp_policy r)) = Inr e \<and> now E < e"
    using cur(2) by (auto simp: worker_policy_current_def split: option.splits if_splits)
  have "k = VProposal \<and> wl_propose (wp_policy r) \<or> k = VAccept \<and> wl_accept (wp_policy r)"
    if "p = PlanPrepare k pl oid" for k pl oid
  proof -
    from w(2) obtain u c where "p = plan_run E u (new_context E pr ?r) ?r c" by blast
    from plan_kinds [OF trans [OF this [symmetric] that]] show ?thesis by simp
  qed
  moreover have "wp_runs r < wl_runs (wp_policy r)" "wp_sends r < wl_sends (wp_policy r)"
    "\<forall>q \<in> set (tall (runs s)). \<not> (wr_task q = wp_task r \<and> wr_revision q = wp_revision r \<and> wr_status q = RunRunning)"
    using free by (auto simp: exhausted_def filter_empty_conv)
  ultimately show ?thesis using r cur t w(1) by blast
qed

text \<open>A policy that may accept, with terms on the table.\<close>

definition policy0 :: worker_policy where
  "policy0 = \<lparr>wp_task = ''t1'', wp_session = ''me|s1'', wp_owner = ''me'', wp_task_revision = 1, wp_revision = 1,
     wp_policy = \<lparr>wl_collaboration = ''c1'', wl_propose = False, wl_accept = True, wl_proposal = None, wl_runs = 4,
       wl_sends = 2, wl_interval = 60, wl_expires = ''1970-01-01T00:31:40Z''\<rparr>,
     wp_status = WActive, wp_runs = 0, wp_sends = 0, wp_last_run = None, wp_waiting = None, wp_approval = None\<rparr>"

definition worker_store :: store where
  "worker_store = empty_store\<lparr>workers := [(''t1'', policy0)], collaborations := [(''c1'', collab0\<lparr>v_terms := Some terms0\<rparr>)],
     tasks := [(''t1'', \<lparr>t_id = ''t1'', t_session = ''me|s1'', t_scope = scope1, t_revision = 1, t_status = TActive,
       t_used = 0, t_source = None\<rparr>)]\<rparr>"

lemma worker_within_policy_witness:
  "\<exists>x s' oid. claim_run (agent hash0 urn_me) ''me'' ''t1'' worker_store = Inr (Run x ''c1'' (PlanPrepare VAccept [] oid), s')
    \<and> tget ''t1'' (workers s') = Some (policy0\<lparr>wp_runs := 1, wp_last_run := Some (1000 * sec)\<rparr>)"
proof -
  let ?E = "agent hash0 urn_me" and ?r = "policy0\<lparr>wp_runs := 1, wp_last_run := Some (1000 * sec)\<rparr>"
  let ?x = "new_context ?E ''me'' ?r"
  have n: "now ?E = 1000 * sec" by (simp add: agent_def)
  have cur: "claim_decision_of ?E worker_store ''me'' ''t1'' = Inr (ClaimStart ?r ?x)"
    by (simp add: claim_decision_of_def worker_store_def tget_def policy0_def worker_policy_current_def session_owned_def
        live_def agent_def scope1_def sec_def due_def claim_due_def Let_def tall_def exhausted_def instants [unfolded sec_def, simplified]
        empty_store_def)
  have "\<exists>oid s'. claim_run ?E ''me'' ''t1'' worker_store = Inr (Run ?x ''c1'' (PlanPrepare VAccept [] oid), s')"
  proof -
    let ?c = "collab0\<lparr>v_terms := Some terms0\<rparr>"
    have ctx: "context_session ?x = ''me|worker:worker-h''" "rc_run ?x = ''worker-h''"
      by (simp_all add: context_session_def new_context_def digest_def agent_def hash0_def)
    have find: "find_collaboration u ''c1'' (context_session ?x) = Inr ?c" if "collaborations u = collaborations worker_store" for u
      unfolding ctx using that
      by (simp add: find_collaboration_def v2_identifier_def is_identifier_def id_char_def ascii_alnum_def ascii_digit_def
          byte_def worker_store_def tget_def collab0_def owned_def principal_def)
    have safe: "collaboration_review_safe ?E ?c (context_session ?x) u = Inr (True, u)"
      if "blocks u = []" "events u = []" for u
      using that by (simp add: collaboration_review_safe_def peer_blocked_def review_events_def tget_def tall_def collab0_def run_eqs
          del: run_andThen)
    have plan: "\<exists>oid. plan_run ?E u ?x ?r ?c = PlanPrepare VAccept [] oid" if "v2_operations u = []" for u
      using that by (simp add: plan_run_def Let_def tall_def policy0_def collab0_def own_active_def agent_def)
    have claimed: "\<exists>oid. plan_claimed ?E ?x ?r ?c u = Inr (Run ?x ''c1'' (PlanPrepare VAccept [] oid), u)"
      if "blocks u = []" "events u = []" "v2_operations u = []" for u
      using safe [OF that(1,2)] plan [OF that(3)] by (auto simp: plan_claimed_def collab0_def) blast
    let ?u = "worker_store\<lparr>runs := [(''worker-h'', \<lparr>wr_id = ''worker-h'', wr_task = ''t1'', wr_revision = 1,
      wr_status = RunRunning, wr_started = 1000 * sec, wr_finished = None, wr_operation = None\<rparr>)], workers := [(''t1'', ?r)]\<rparr>"
    have "claim_run ?E ''me'' ''t1'' worker_store = plan_claimed ?E ?x ?r ?c ?u"
    proof -
      have steps: "put_run \<lparr>wr_id = rc_run ?x, wr_task = wp_task ?r, wr_revision = wp_revision ?r,
          wr_status = RunRunning, wr_started = now ?E, wr_finished = None, wr_operation = None\<rparr> worker_store
        = Inr ((), worker_store\<lparr>runs := runs ?u\<rparr>)"
        "put_worker ?r (worker_store\<lparr>runs := runs ?u\<rparr>) = Inr ((), ?u)"
        unfolding ctx(2) n by (simp_all add: put_run_def put_worker_def worker_store_def empty_store_def policy0_def)
      have col: "wl_collaboration (wp_policy ?r) = ''c1''" by (simp add: policy0_def)
      show ?thesis
        unfolding claim_run_def run_reads run_eqs(1) cur
        using find [of ?u] steps col by (simp add: run_eqs del: run_andThen)
    qed
    moreover have "\<exists>oid. plan_claimed ?E ?x ?r ?c ?u = Inr (Run ?x ''c1'' (PlanPrepare VAccept [] oid), ?u)"
      by (rule claimed) (simp_all add: worker_store_def empty_store_def)
    ultimately show ?thesis by metis
  qed
  then obtain oid s' where run: "claim_run ?E ''me'' ''t1'' worker_store = Inr (Run ?x ''c1'' (PlanPrepare VAccept [] oid), s')"
    by blast
  from worker_within_policy [OF run] obtain r where "tget ''t1'' (workers worker_store) = Some r"
    "tget (wp_task r) (workers s') = Some (r\<lparr>wp_runs := wp_runs r + 1, wp_last_run := Some (now ?E)\<rparr>)" by blast
  then have "tget ''t1'' (workers s') = Some ?r"
    by (auto simp: worker_store_def tget_def policy0_def agent_def)
  then show ?thesis using run by blast
qed

end
