(* ===== verification/Bridge.thy ===== *)
theory Bridge
  imports Views
begin

text \<open>
  The paired control channel (\<^verbatim>\<open>src/python/agent_comm_runtime/remote.py\<close>): pairings of consoles, the
  parsing of a control request, what a paired console may ask, the durable answer, and its delivery.
  The bridge keeps its own database beside the store: an exception rolls back the bridge's transaction,
  while what the store has committed in between stays. An operation is therefore a function on both.
\<close>

section \<open>The bridge's rows\<close>

record pairing =
  pg_console :: string
  pg_owner :: string
  pg_methods :: "string list"
  pg_expires :: string
  pg_revoked :: bool
  pg_at :: time

record control_response =
  cr_id :: string
  cr_recipient :: string
  cr_reply :: string
  cr_conversation :: string
  cr_deadline :: string
  cr_text :: string

record control_receipt =
  rc_fingerprint :: string
  rc_owner :: string
  rc_response :: control_response

record bridge =
  pairings :: "pairing table"
  answered :: "control_receipt table"
  turns :: "bridge_turn table"
  mailbox_cursor :: "string option"

definition empty_bridge :: bridge where
  "empty_bridge = \<lparr>pairings = [], answered = [], turns = [], mailbox_cursor = None\<rparr>"

type_synonym world = "bridge \<times> store"
type_synonym 'a op = "world \<Rightarrow> (exn + 'a) \<times> world"

section \<open>Operations on both databases\<close>

definition op_ret :: "'a \<Rightarrow> 'a op" where
  "op_ret x = (\<lambda>w. (Inr x, w))"

definition op_raise :: "exn \<Rightarrow> 'a op" where
  "op_raise e = (\<lambda>w. (Inl e, w))"

definition op_lift :: "exn + 'a \<Rightarrow> 'a op" where
  "op_lift r = (\<lambda>w. (r, w))"

definition op_then :: "'a op \<Rightarrow> ('a \<Rightarrow> 'b op) \<Rightarrow> 'b op" where
  "op_then m f = (\<lambda>w. case m w of (Inl e, w') \<Rightarrow> (Inl e, w') | (Inr x, w') \<Rightarrow> f x w')"

definition op_reads :: "(world \<Rightarrow> 'a op) \<Rightarrow> 'a op" where
  "op_reads f = (\<lambda>w. f w w)"

text \<open>A transaction of the store.\<close>

definition op_store :: "'a step \<Rightarrow> 'a op" where
  "op_store m = (\<lambda>(b, s). case m s of Inl e \<Rightarrow> (Inl e, (b, s)) | Inr (x, t) \<Rightarrow> (Inr x, (b, t)))"

definition op_bridge :: "(bridge \<Rightarrow> bridge) \<Rightarrow> unit op" where
  "op_bridge f = (\<lambda>(b, s). (Inr (), (f b, s)))"

text \<open>\<^verbatim>\<open>RemoteBridge._transaction\<close>: an exception restores the rows of the bridge.\<close>

definition bridge_transaction :: "'a op \<Rightarrow> 'a op" where
  "bridge_transaction m = (\<lambda>(b, s). case m (b, s) of
     (Inl e, (_, t)) \<Rightarrow> (Inl e, (b, t))
   | (Inr x, w) \<Rightarrow> (Inr x, w))"

fun op_each :: "('a \<Rightarrow> unit op) \<Rightarrow> 'a list \<Rightarrow> unit op" where
  "op_each f [] = op_ret ()"
| "op_each f (x # xs) = op_then (f x) (\<lambda>_. op_each f xs)"

section \<open>Methods\<close>

definition read_methods :: "string list" where
  "read_methods = [''capabilities'', ''contacts.list'', ''collaboration.state'', ''inbox.list'',
     ''inbox.review_preview'', ''attention.list'', ''contacts.requests'', ''task.list'', ''task.detail'', ''task.events'']"

definition write_methods :: "string list" where
  "write_methods = [''contacts.add'', ''contacts.respond'', ''contacts.block'', ''contacts.unblock'', ''messages.send'',
     ''inbox.mark_read'', ''inbox.review'', ''approval.respond'']"

definition conversation_methods :: "string list" where
  "conversation_methods = [''conversation.send'', ''conversation.get'']"

definition control_protocol :: string where
  "control_protocol = ''agent-comm-control/v1''"

section \<open>Requests\<close>

record request =
  rr_id :: string
  rr_method :: string
  rr_params :: fields
  rr_console :: string
  rr_agent :: string
  rr_deadline :: string
  rr_body :: fields

text \<open>The answers that the store's views give a console, before they are written as JSON.\<close>

datatype answer =
    AMutation mutation_result
  | ARequests "contact_request list"
  | AContacts store_view
  | AAttention attention_page
  | AState store_view
  | AInbox "inbound list" "peer_review list"
  | ATasks task_page
  | ADetail task_detail "(string \<times> string option \<times> string) list" bool
  | AEvents event_list

text \<open>
  What the host supplies: whether it runs conversations and admits peer content only after review, the
  principal it is bound to, and its extension handlers, which answer a request on the store. The JSON
  form of an answer, the position an event cursor stands for and \<^verbatim>\<open>str.casefold\<close> are arguments too.
\<close>

record handler_call =
  hc_params :: fields
  hc_owner :: string
  hc_once :: "(fields \<times> string \<times> string \<times> string \<times> time) option"

record host =
  ho_conversations :: bool
  ho_safety :: bool
  ho_bound :: "string option"
  ho_handlers :: "(string \<times> (handler_call \<Rightarrow> store \<Rightarrow> (exn + json) \<times> store)) list"
  ho_render :: "answer \<Rightarrow> json"
  ho_position :: "json \<Rightarrow> exn + (time \<times> string) option"
  ho_casefold :: "string \<Rightarrow> string"
  ho_width :: "task_event \<Rightarrow> nat"
  ho_detail :: "task_detail \<Rightarrow> nat"

definition remote_id :: "json \<Rightarrow> exn + string" where
  "remote_id j = (case j of
     JStr s \<Rightarrow> if is_identifier s then Inr s else refuse ''Invalid stable identifier''
   | _ \<Rightarrow> refuse ''Invalid stable identifier'')"

definition remote_urn :: "json \<Rightarrow> exn + string" where
  "remote_urn j = (case j of JStr s \<Rightarrow> validate_urn s | _ \<Rightarrow> Inl (ValueError urn_error))"

definition remote_instant :: "string \<Rightarrow> exn + time" where
  "remote_instant s = (case iso_instant s of
     Some t \<Rightarrow> Inr t | None \<Rightarrow> refuse ''Deadline must include a timezone'')"

definition remote_instant_json :: "json \<Rightarrow> exn + time" where
  "remote_instant_json j = (case j of
     JStr s \<Rightarrow> remote_instant s | _ \<Rightarrow> refuse ''A timezone-aware RFC3339 deadline is required'')"

text \<open>How deep containers nest; the loop over \<^verbatim>\<open>pending\<close> refuses more than 32.\<close>

fun nesting :: "json \<Rightarrow> nat" where
  "nesting (JArr xs) = Suc (fold max (map nesting xs) 0)"
| "nesting (JObj kvs) = Suc (fold max (map (\<lambda>(_, v). nesting v) kvs) 0)"
| "nesting j = 0"

definition request_fields :: "string list" where
  "request_fields = [''protocol'', ''type'', ''request_id'', ''method'', ''params'', ''agent_urn'', ''console_urn'', ''deadline'']"

definition control_text :: "fields \<Rightarrow> exn + string" where
  "control_text m = (case jget ''text'' m of
     Some (JStr t) \<Rightarrow> if encodable t \<and> length t \<le> 50000 then Inr t else refuse ''Invalid control request size''
   | _ \<Rightarrow> refuse ''Invalid control request size'')"

definition control_body :: "string \<Rightarrow> exn + fields" where
  "control_body t = (case json_loads t of
     None \<Rightarrow> refuse ''Expecting value''
   | Some j \<Rightarrow>
       if 32 < nesting j then refuse ''Control request nesting exceeds 32 containers''
       else (case j of
         JObj kvs \<Rightarrow> if set (jkeys kvs) = set request_fields then Inr kvs else refuse ''Invalid control request fields''
       | _ \<Rightarrow> refuse ''Invalid control request fields''))"

definition method_and_params :: "fields \<Rightarrow> exn + string \<times> fields" where
  "method_and_params kvs =
     (if jfield ''protocol'' kvs \<noteq> JStr control_protocol \<or> jfield ''type'' kvs \<noteq> JStr ''request''
      then refuse ''Invalid control protocol''
      else case (jfield ''method'' kvs, jfield ''params'' kvs) of
        (JStr m, JObj ps) \<Rightarrow> if pylen m \<le> 80 then Inr (m, ps) else refuse ''Invalid control protocol''
      | _ \<Rightarrow> refuse ''Invalid control protocol'')"

definition field_is :: "string \<Rightarrow> fields \<Rightarrow> json \<Rightarrow> bool" where
  "field_is k m j \<longleftrightarrow> (case jget k m of Some v \<Rightarrow> json_eq v j | None \<Rightarrow> json_eq JNull j)"

text \<open>\<^verbatim>\<open>RemoteBridge._parse\<close>\<close>

definition parse_request :: "env \<Rightarrow> json \<Rightarrow> exn + request" where
  "parse_request E message = (case message of
     JObj m \<Rightarrow>
       if \<not> field_is ''kind'' m (JStr ''control.request'') then refuse ''Not a control request''
       else
         bindE (control_text m) (\<lambda>t.
         bindE (control_body t) (\<lambda>kvs.
         bindE (remote_id (jfield ''request_id'' kvs)) (\<lambda>rid.
         bindE (method_and_params kvs) (\<lambda>(meth, ps).
         bindE (remote_urn (jfield ''console_urn'' kvs)) (\<lambda>console.
         if \<not> field_is ''sender_urn'' m (JStr console)
         then refuse ''Control request identity differs from authenticated helper routing''
         else bindE (remote_urn (jfield ''agent_urn'' kvs)) (\<lambda>agent.
         if Some agent \<noteq> local_urn E then refuse ''Control request identity differs from authenticated helper routing''
         else if \<not> field_is ''message_id'' m (JStr rid) \<or> \<not> field_is ''conversation_id'' m (JStr (''control:'' @ rid))
           \<or> \<not> field_is ''deadline'' m (jfield ''deadline'' kvs)
         then refuse ''Control envelope correlation mismatch''
         else bindE (remote_instant_json (jfield ''deadline'' kvs)) (\<lambda>d.
         if now E + 300 * sec < d then refuse ''Control request lifetime exceeds 300 seconds''
         else Inr \<lparr>rr_id = rid, rr_method = meth, rr_params = ps, rr_console = console, rr_agent = agent,
            rr_deadline = as_str (jfield ''deadline'' kvs), rr_body = kvs\<rparr>)))))))
   | _ \<Rightarrow> refuse ''Not a control request'')"

text \<open>\<^verbatim>\<open>allow_nan=False\<close> and \<^verbatim>\<open>str.encode\<close>: what has no canonical bytes is a \<^verbatim>\<open>ValueError\<close>.\<close>

fun finite_json :: "json \<Rightarrow> bool" where
  "finite_json (JFloat x) = (x \<notin> set [''NaN'', ''Infinity'', ''-Infinity''])"
| "finite_json (JArr xs) = list_all finite_json xs"
| "finite_json (JObj kvs) = list_all (\<lambda>(_, v). finite_json v) kvs"
| "finite_json _ = True"

definition canonical_text :: "json \<Rightarrow> exn + string" where
  "canonical_text j = (if \<not> finite_json j then refuse ''Out of range float values are not JSON compliant''
     else if \<not> encodable (canonical j) then refuse ''surrogates not allowed'' else Inr (canonical j))"

definition request_key :: "env \<Rightarrow> string \<Rightarrow> string \<Rightarrow> string" where
  "request_key E console rid = sha E (console @ [chr 0] @ rid)"

definition request_fingerprint :: "env \<Rightarrow> request \<Rightarrow> exn + string" where
  "request_fingerprint E r = bindE (canonical_text (JObj (rr_body r))) (\<lambda>t. Inr (sha E t))"

section \<open>Pairings\<close>

definition method_char :: "char \<Rightarrow> bool" where
  "method_char c \<longleftrightarrow> ascii_digit c \<or> 97 \<le> byte c \<and> byte c \<le> 122 \<or> c = CHR ''_'' \<or> c = CHR ''.''"

text \<open>\<^verbatim>\<open>[a-z][a-z0-9_.]{0,79}\<close>\<close>

definition method_name :: "string \<Rightarrow> bool" where
  "method_name m \<longleftrightarrow> (case m of [] \<Rightarrow> False | c # r \<Rightarrow> 97 \<le> byte c \<and> byte c \<le> 122 \<and> length r \<le> 79 \<and> list_all method_char r)"

definition put_pairing :: "string \<Rightarrow> pairing \<Rightarrow> unit op" where
  "put_pairing c p = op_bridge (\<lambda>b. b\<lparr>pairings := tput c p (pairings b)\<rparr>)"

text \<open>\<^verbatim>\<open>pair\<close> and \<^verbatim>\<open>revoke\<close>: local administration, not reachable by any request.\<close>

definition pair_console :: "env \<Rightarrow> string \<Rightarrow> string \<Rightarrow> string list \<Rightarrow> string \<Rightarrow> pairing op" where
  "pair_console E console owner methods expires =
     op_then (op_lift (validate_urn console)) (\<lambda>_.
     if owner = [] \<or> CHR ''|'' \<in> set owner \<or> 256 < pylen owner
     then op_raise (ValueError ''Provide a local owner principal, not a remote session claim'')
     else if methods = [] \<or> \<not> list_all method_name methods
     then op_raise (ValueError ''List explicit allowed RPC methods'')
     else op_then (op_lift (remote_instant expires)) (\<lambda>t.
       if t \<le> now E then op_raise (ValueError ''Pairing deadline must be in the future'')
       else let p = \<lparr>pg_console = console, pg_owner = owner, pg_methods = sort (remdups methods),
                     pg_expires = expires, pg_revoked = False, pg_at = now E\<rparr> in
         op_then (op_store (register_owner E owner)) (\<lambda>_.
         op_then (bridge_transaction (put_pairing console p)) (\<lambda>_. op_ret p))))"

definition revoke_console :: "string \<Rightarrow> unit op" where
  "revoke_console console =
     op_then (op_lift (validate_urn console)) (\<lambda>_.
     bridge_transaction (op_reads (\<lambda>(b, s). case tget console (pairings b) of
       None \<Rightarrow> op_raise (ValueError ''No pairing exists for this console'')
     | Some p \<Rightarrow> put_pairing console (p\<lparr>pg_revoked := True\<rparr>))))"

definition remote_refuse :: "string \<Rightarrow> string \<Rightarrow> exn + 'a" where
  "remote_refuse code msg = Inl (RemoteError code msg)"

text \<open>\<^verbatim>\<open>_authorized\<close>\<close>

definition in_force :: "env \<Rightarrow> pairing \<Rightarrow> exn + bool" where
  "in_force E p = (if pg_revoked p then Inr False
     else bindE (remote_instant (pg_expires p)) (\<lambda>t. Inr (now E < t)))"

definition authorized :: "env \<Rightarrow> host \<Rightarrow> bridge \<Rightarrow> string \<Rightarrow> string \<Rightarrow> exn + pairing" where
  "authorized E h b console meth = (case tget console (pairings b) of
     None \<Rightarrow> remote_refuse ''not_paired'' ''This console has no current local pairing''
   | Some p \<Rightarrow> bindE (in_force E p) (\<lambda>ok.
       if \<not> ok then remote_refuse ''not_paired'' ''This console has no current local pairing''
       else if ho_bound h \<noteq> None \<and> ho_bound h \<noteq> Some (pg_owner p)
       then remote_refuse ''owner_mismatch'' ''The local pairing belongs to a different host profile''
       else if meth \<notin> set (pg_methods p)
       then remote_refuse ''method_not_allowed'' ''This method is outside the local pairing scope''
       else Inr p))"

text \<open>\<^verbatim>\<open>_params\<close>\<close>

definition check_params :: "fields \<Rightarrow> string list \<Rightarrow> string list \<Rightarrow> exn + unit" where
  "check_params ps required optional =
     (if set required \<subseteq> set (jkeys ps) \<and> set (jkeys ps) \<subseteq> set required \<union> set optional then Inr ()
      else remote_refuse ''invalid_params'' ''Unexpected or missing method parameters'')"

definition param :: "string \<Rightarrow> json \<Rightarrow> fields \<Rightarrow> json" where
  "param k dflt ps = (case jget k ps of Some j \<Rightarrow> j | None \<Rightarrow> dflt)"

text \<open>\<^verbatim>\<open>_require_peer_model_safety\<close>; the store always has the review mixin.\<close>

definition require_safety :: "host \<Rightarrow> bool \<Rightarrow> exn + unit" where
  "require_safety h accepted =
     (if ho_conversations h \<and> ho_safety h then Inr ()
      else if accepted then remote_refuse ''peer_content_safety_changed''
        ''Host admission changed after this turn was accepted; read its existing conversation before retrying''
      else remote_refuse ''peer_content_safety_required''
        ''Upgrade the host's owner-review admission path before starting a conversation'')"

section \<open>Conversations\<close>

fun turn_status_str :: "turn_status \<Rightarrow> string" where
  "turn_status_str TuSubmitted = ''submitted''"
| "turn_status_str TuRunning = ''running''"
| "turn_status_str TuCompleted = ''completed''"
| "turn_status_str TuFailed = ''failed''"
| "turn_status_str TuInterrupted = ''interrupted''"

definition turn_source :: "bridge_turn \<Rightarrow> turn" where
  "turn_source j = \<lparr>tu_id = bt_id j, tu_conversation = bt_conversation j, tu_status = turn_status_str (bt_status j),
     tu_created = bt_created j, tu_updated = bt_updated j, tu_owner = bt_owner j\<rparr>"

definition put_turn :: "bridge_turn \<Rightarrow> unit op" where
  "put_turn j = op_bridge (\<lambda>b. b\<lparr>turns := tput (bt_id j) j (turns b)\<rparr>)"

definition record_turn :: "env \<Rightarrow> bridge_turn \<Rightarrow> unit op" where
  "record_turn E j = op_store (record_conversation_event E (turn_source j))"

definition own_turn :: "pairing \<Rightarrow> bridge_turn \<Rightarrow> bool" where
  "own_turn p j \<longleftrightarrow> bt_console j = pg_console p \<and> bt_owner j = pg_owner p"

text \<open>\<^verbatim>\<open>_sync_conversation_events\<close>\<close>

definition sync_turns :: "env \<Rightarrow> pairing option \<Rightarrow> unit op" where
  "sync_turns E po = op_reads (\<lambda>(b, s). op_each (record_turn E)
     (filter (\<lambda>j. case po of None \<Rightarrow> True | Some p \<Rightarrow> own_turn p j) (tall (turns b))))"

definition mentions_json :: "string list \<Rightarrow> json" where
  "mentions_json ts = JArr (map (\<lambda>t. JObj [(''kind'', JStr ''task''), (''task_id'', JStr t)]) ts)"

definition mention_of :: "json \<Rightarrow> exn + json" where
  "mention_of j = (case j of
     JObj kvs \<Rightarrow>
       if set (jkeys kvs) = {''kind'', ''task_id''} \<and> json_eq (jfield ''kind'' kvs) (JStr ''task'')
       then Inr (jfield ''task_id'' kvs)
       else remote_refuse ''invalid_params'' ''Provide at most eight structured task mentions''
   | _ \<Rightarrow> remote_refuse ''invalid_params'' ''Provide at most eight structured task mentions'')"

definition mentions_of :: "json \<Rightarrow> exn + string list" where
  "mentions_of j = (case j of
     JArr ms \<Rightarrow>
       if 8 < length ms then remote_refuse ''invalid_params'' ''Provide at most eight structured task mentions''
       else bindE (mapE mention_of ms) (\<lambda>ids.
         bindE (mapE remote_id ids) (\<lambda>ts.
         if distinct ts then Inr ts else remote_refuse ''invalid_params'' ''Task mentions must be unique''))
   | _ \<Rightarrow> remote_refuse ''invalid_params'' ''Provide at most eight structured task mentions'')"

text \<open>The message has an en dash, here as its UTF-8 bytes.\<close>

definition conversation_size :: string where
  "conversation_size = ''Conversation text must contain 1'' @ map char_of [226, 128, 147 :: nat] @ ''24000 UTF-8 bytes''"

definition conversation_text :: "json \<Rightarrow> exn + string" where
  "conversation_text j = (case j of
     JStr t \<Rightarrow>
       if py_blank t then remote_refuse ''invalid_params'' conversation_size
       else if \<not> encodable t then refuse ''surrogates not allowed''
       else if 24000 < length t then remote_refuse ''invalid_params'' conversation_size
       else Inr t
   | _ \<Rightarrow> remote_refuse ''invalid_params'' conversation_size)"

definition known_mentions :: "store \<Rightarrow> string \<Rightarrow> string list \<Rightarrow> exn + unit" where
  "known_mentions s session ts =
     (if list_all (\<lambda>t. case find_task s t session of Inr _ \<Rightarrow> True | Inl _ \<Rightarrow> False) ts then Inr ()
      else remote_refuse ''unknown_task'' ''Task mention is not available to this owner'')"

definition pending_turn :: "bridge_turn \<Rightarrow> bool" where
  "pending_turn j \<longleftrightarrow> bt_status j \<in> {TuSubmitted, TuRunning}"

definition queue_limit :: nat where
  "queue_limit = 100"

definition new_turn :: "env \<Rightarrow> pairing \<Rightarrow> request \<Rightarrow> string \<Rightarrow> string \<Rightarrow> string list \<Rightarrow> bridge_turn" where
  "new_turn E p r conversation text ts =
     \<lparr>bt_id = ''turn-'' @ take 40 (request_key E (pg_console p) (rr_id r)), bt_conversation = conversation,
      bt_console = pg_console p, bt_owner = pg_owner p, bt_status = TuSubmitted, bt_text = text,
      bt_mentions = ts, bt_response = None, bt_error = None, bt_created = now E, bt_updated = now E\<rparr>"

definition conversation_send :: "env \<Rightarrow> host \<Rightarrow> request \<Rightarrow> pairing \<Rightarrow> string \<Rightarrow> json op" where
  "conversation_send E h r p session = op_reads (\<lambda>(b, s).
     op_then (op_lift (require_safety h False)) (\<lambda>_.
     op_then (op_lift (check_params (rr_params r) [''text''] [''conversation_id'', ''mentions''])) (\<lambda>_.
     op_then (op_lift (conversation_text (jfield ''text'' (rr_params r)))) (\<lambda>t.
     op_then (op_lift (mentions_of (param ''mentions'' (JArr []) (rr_params r)))) (\<lambda>ts.
     op_then (op_lift (known_mentions s session ts)) (\<lambda>_.
     if queue_limit \<le> length (filter (\<lambda>j. pending_turn j \<and> bt_console j = pg_console p) (tall (turns b)))
     then op_raise (RemoteError ''queue_full'' ''This console already has 100 pending turns; wait before submitting more'')
     else op_then (op_lift (remote_id (param ''conversation_id'' (JStr (rr_id r)) (rr_params r)))) (\<lambda>cid.
       let j = new_turn E p r cid t ts in
       op_then (put_turn j) (\<lambda>_. op_ret (JObj [(''status'', JStr ''submitted''), (''conversation_id'', JStr cid),
         (''turn_id'', JStr (bt_id j)), (''mentions'', mentions_json ts)])))))))))"

text \<open>\<^verbatim>\<open>SourceContextMixin.conversation_links\<close>\<close>

definition field_eq :: "string \<Rightarrow> string \<Rightarrow> fields \<Rightarrow> bool" where
  "field_eq k v l \<longleftrightarrow> jget k l = Some (JStr v)"

definition conversation_links :: "store \<Rightarrow> string \<Rightarrow> string \<Rightarrow> string \<Rightarrow> string \<Rightarrow> json list" where
  "conversation_links s session console conversation turn =
     map (\<lambda>l. JObj (filter (\<lambda>(k, _). k \<in> {''kind'', ''id'', ''task_id''}) l))
       (filter (\<lambda>l. field_eq ''owner_id'' (principal session) l \<and> field_eq ''console_urn'' console l
          \<and> field_eq ''conversation_id'' conversation l \<and> field_eq ''turn_id'' turn l) (tall (links s)))"

definition conversation_jobs :: "bridge \<Rightarrow> pairing \<Rightarrow> string \<Rightarrow> bridge_turn list" where
  "conversation_jobs b p conversation =
     filter (\<lambda>j. own_turn p j \<and> bt_conversation j = conversation) (tall (turns b))"

definition latest_turns :: "bridge_turn list \<Rightarrow> bridge_turn list" where
  "latest_turns jobs = last_n 100 (sort_key (\<lambda>j. (bt_created j, bt_id j)) jobs)"

definition turn_json :: "store \<Rightarrow> string \<Rightarrow> bridge_turn \<Rightarrow> json" where
  "turn_json s session j = JObj [(''turn_id'', JStr (bt_id j)), (''status'', JStr (turn_status_str (bt_status j))),
     (''text'', JStr (bt_text j)), (''response'', jstr_opt (bt_response j)), (''error'', jstr_opt (bt_error j)),
     (''created_at'', jtime (bt_created j)), (''updated_at'', jtime (bt_updated j)),
     (''mentions'', mentions_json (bt_mentions j)),
     (''related'', JArr (conversation_links s session (bt_console j) (bt_conversation j) (bt_id j)))]"

definition conversation_get :: "request \<Rightarrow> pairing \<Rightarrow> string \<Rightarrow> json op" where
  "conversation_get r p session = op_reads (\<lambda>(b, s).
     op_then (op_lift (check_params (rr_params r) [''conversation_id''] [])) (\<lambda>_.
     op_then (op_lift (remote_id (jfield ''conversation_id'' (rr_params r)))) (\<lambda>cid.
     let jobs = conversation_jobs b p cid; latest = latest_turns jobs in
     op_ret (JObj [(''conversation_id'', JStr cid), (''turns'', JArr (map (turn_json s session) latest)),
       (''history'', JObj [(''limit'', JInt 100), (''returned'', JInt (int (length latest))),
         (''truncated'', JBool (100 < length jobs))])]))))"

end
