(* ===== verification/Bridge_Ops.thy ===== *)
theory Bridge_Ops
  imports Bridge
begin

text \<open>
  The bridge at work (\<^verbatim>\<open>remote.py\<close>): what a method does, the durable answer to a request and its
  delivery, the round-robin over the mailbox, and the turns that a conversational host carries out.
\<close>

section \<open>What a paired console may ask\<close>

definition console_session :: "env \<Rightarrow> pairing \<Rightarrow> string" where
  "console_session E p = pg_owner p @ ''|remote:'' @ take 24 (sha E (pg_console p))"

definition capability_json :: "string list \<Rightarrow> pairing \<Rightarrow> string \<Rightarrow> json" where
  "capability_json available p m = (let ok = m \<in> set available \<and> m \<in> set (pg_methods p) in
     JObj ([(''name'', JStr m), (''available'', JBool ok)] @
       (if ok then [] else [(''reason'', JStr ''Not enabled by this adapter or local pairing'')])))"

definition available_methods :: "host \<Rightarrow> string list" where
  "available_methods h =
     filter (\<lambda>m. ho_safety h \<or> m \<noteq> ''conversation.send'')
       (read_methods @ write_methods @ map fst (ho_handlers h)
        @ (if ho_conversations h then conversation_methods else []))"

definition capabilities_json :: "host \<Rightarrow> pairing \<Rightarrow> json" where
  "capabilities_json h p = JObj ([(''protocol'', JStr control_protocol),
     (''methods'', JArr (map (capability_json (available_methods h) p)
        (read_methods @ write_methods @ conversation_methods @ map fst (ho_handlers h)))),
     (''pairing'', JObj [(''expires_at'', JStr (pg_expires p))])] @
     (if ho_safety h then [(''peer_content_safety'', JObj [(''version'', JInt 1), (''mode'', JStr ''owner_review''),
        (''automatic_peer_model_execution'', JBool False)])] else []))"

definition valid_until :: "request \<Rightarrow> pairing \<Rightarrow> exn + time" where
  "valid_until r p = bindE (remote_instant (rr_deadline r)) (\<lambda>d.
     bindE (remote_instant (pg_expires p)) (\<lambda>e. Inr (min d e)))"

definition rendered :: "host \<Rightarrow> ('a \<Rightarrow> answer) \<Rightarrow> 'a step \<Rightarrow> json op" where
  "rendered h f m = op_then (op_store m) (\<lambda>x. op_ret (ho_render h (f x)))"

definition write_answer :: "env \<Rightarrow> host \<Rightarrow> request \<Rightarrow> pairing \<Rightarrow> json op" where
  "write_answer E h r p =
     op_then (op_lift (check_params (rr_params r) (the (mutation_required (rr_method r)))
       (mutation_optional (rr_method r)))) (\<lambda>_.
     op_then (op_lift (request_fingerprint E r)) (\<lambda>fp.
     op_then (op_lift (valid_until r p)) (\<lambda>until.
     rendered h AMutation (remote_mutation E (rr_method r) (JObj (rr_params r)) (console_session E p)
       (request_key E (rr_console r) (rr_id r)) fp until))))"

definition optional_task :: "fields \<Rightarrow> exn + string option" where
  "optional_task ps = (let j = param ''task_id'' JNull ps in
     if j = JNull then Inr None else bindE (remote_id j) (\<lambda>t. Inr (Some t)))"

text \<open>\<^verbatim>\<open>_task_conversations\<close>: the pairing's turns about a task, and where to find them.\<close>

definition task_links :: "store \<Rightarrow> pairing \<Rightarrow> string \<Rightarrow> string \<Rightarrow> fields list" where
  "task_links s p session tid = filter (\<lambda>l. field_eq ''owner_id'' (principal session) l
     \<and> field_eq ''console_urn'' (pg_console p) l \<and> field_eq ''task_id'' tid l
     \<and> jget ''conversation_id'' l \<notin> {None, Some JNull, Some (JStr [])}) (tall (links s))"

definition link_text :: "string \<Rightarrow> fields \<Rightarrow> string option" where
  "link_text k l = (case jget k l of Some (JStr x) \<Rightarrow> Some x | _ \<Rightarrow> None)"

definition task_turns :: "bridge \<Rightarrow> store \<Rightarrow> pairing \<Rightarrow> string \<Rightarrow> string \<Rightarrow> bridge_turn list" where
  "task_turns b s p session tid =
     (let linked = map (\<lambda>l. (link_text ''conversation_id'' l, link_text ''turn_id'' l)) (task_links s p session tid) in
      filter (\<lambda>j. own_turn p j \<and> (tid \<in> set (bt_mentions j)
        \<or> (Some (bt_conversation j), Some (bt_id j)) \<in> set linked)) (tall (turns b)))"

type_synonym conversation_ref = "string \<times> string option \<times> string"

definition ref_order :: "conversation_ref \<Rightarrow> string \<times> string \<times> string" where
  "ref_order r = (case r of (c, t, k) \<Rightarrow> (c, case t of None \<Rightarrow> [] | Some x \<Rightarrow> x, k))"

definition task_refs :: "bridge \<Rightarrow> store \<Rightarrow> pairing \<Rightarrow> string \<Rightarrow> string \<Rightarrow> conversation_ref list" where
  "task_refs b s p session tid =
     sort_key ref_order (remdups
       (map (\<lambda>j. (bt_conversation j, Some (bt_id j), ''mention''))
          (filter (\<lambda>j. tid \<in> set (bt_mentions j)) (task_turns b s p session tid))
        @ map (\<lambda>l. (case link_text ''conversation_id'' l of Some c \<Rightarrow> c | None \<Rightarrow> [],
             case link_text ''turn_id'' l of Some [] \<Rightarrow> None | x \<Rightarrow> x, ''related'')) (task_links s p session tid)))"

text \<open>References are dropped from the front while the answer exceeds 220000 bytes.\<close>

fun trim_refs :: "(conversation_ref list \<Rightarrow> bool \<Rightarrow> nat) \<Rightarrow> bool \<Rightarrow> conversation_ref list
    \<Rightarrow> conversation_ref list \<times> bool" where
  "trim_refs width dropped [] = ([], dropped)"
| "trim_refs width dropped (r # rs) =
     (if 220000 < width (r # rs) dropped then trim_refs width True rs else (r # rs, dropped))"

definition detail_answer :: "host \<Rightarrow> conversation_ref list \<Rightarrow> task_detail \<Rightarrow> answer" where
  "detail_answer h refs d =
     (let (rs, dropped) = trim_refs (\<lambda>rs dropped. length (canonical (ho_render h (ADetail d rs dropped))))
          (100 < length refs) (last_n 100 refs)
      in ADetail d rs dropped)"

definition task_answer :: "env \<Rightarrow> host \<Rightarrow> request \<Rightarrow> pairing \<Rightarrow> json op" where
  "task_answer E h r p = (let ps = rr_params r; session = console_session E p in
     op_then (op_lift (check_params ps [''task_id'']
       (if rr_method r = ''task.events'' then [''limit'', ''cursor''] else []))) (\<lambda>_.
     op_then (op_lift (remote_id (jfield ''task_id'' ps))) (\<lambda>tid. op_reads (\<lambda>(b, s).
     op_then (op_lift (find_task s tid session)) (\<lambda>_.
     if rr_method r = ''task.detail'' then
       rendered h (detail_answer h (task_refs b s p session tid)) (task_detail_view (ho_detail h) E session (JStr tid))
     else op_then (op_lift (ho_position h (param ''cursor'' JNull ps))) (\<lambda>after.
       rendered h AEvents (task_events (ho_width h) E session (JStr tid) (param ''limit'' (JInt 10) ps) after
         (task_turns b s p session tid))))))))"

text \<open>The extension handlers of the host; \<^verbatim>\<open>collaboration.execute\<close> is given a stable request.\<close>

definition execute_params :: "env \<Rightarrow> request \<Rightarrow> fields" where
  "execute_params E r =
     (if jget ''action'' (rr_params r) = Some (JStr ''prepare_message'') \<and> ''message_id'' \<notin> set (jkeys (rr_params r))
      then jset ''message_id'' (JStr (''web-message-'' @ take 40 (request_key E (rr_console r) (rr_id r)))) (rr_params r)
      else rr_params r)"

definition source_context :: "request \<Rightarrow> pairing \<Rightarrow> bridge \<Rightarrow> fields \<Rightarrow> exn + fields" where
  "source_context r p b ps =
     (let base = [(''origin'', JStr ''paired_control''), (''request_id'', JStr (rr_id r))];
          j = param ''source_conversation_id'' JNull ps in
      if j = JNull then Inr base
      else bindE (remote_id j) (\<lambda>cid.
        if list_ex (\<lambda>t. own_turn p t \<and> bt_conversation t = cid) (tall (turns b))
        then Inr (base @ [(''conversation_id'', JStr cid)])
        else remote_refuse ''invalid_source_context'' ''The source conversation is not owned by this pairing''))"

definition without :: "string \<Rightarrow> fields \<Rightarrow> fields" where
  "without k ps = filter (\<lambda>(j, _). j \<noteq> k) ps"

definition execute_call :: "env \<Rightarrow> request \<Rightarrow> pairing \<Rightarrow> bridge \<Rightarrow> exn + handler_call" where
  "execute_call E r p b = (let ps = execute_params E r in
     bindE (source_context r p b ps) (\<lambda>ctx.
     bindE (request_fingerprint E r) (\<lambda>fp.
     bindE (valid_until r p) (\<lambda>until.
     Inr \<lparr>hc_params = (if param ''source_conversation_id'' JNull ps = JNull then ps
                         else without ''source_conversation_id'' ps),
          hc_owner = console_session E p,
          hc_once = Some (ctx, pg_console p, request_key E (rr_console r) (rr_id r), fp, until)\<rparr>))))"

definition run_handler :: "(handler_call \<Rightarrow> store \<Rightarrow> (exn + json) \<times> store) \<Rightarrow> handler_call \<Rightarrow> json op" where
  "run_handler f call = (\<lambda>(b, s). case f call s of (x, t) \<Rightarrow> (x, (b, t)))"

definition handler_answer :: "env \<Rightarrow> host \<Rightarrow> request \<Rightarrow> pairing \<Rightarrow> json op" where
  "handler_answer E h r p = (case map_of (ho_handlers h) (rr_method r) of
     None \<Rightarrow> op_raise (RemoteError ''unsupported_method'' ''The agent adapter has no trusted handler for this method'')
   | Some f \<Rightarrow>
       if rr_method r = ''collaboration.execute''
       then op_reads (\<lambda>(b, s). op_then (op_lift (execute_call E r p b)) (run_handler f))
       else run_handler f \<lparr>hc_params = rr_params r, hc_owner = console_session E p, hc_once = None\<rparr>)"

definition read_answer :: "env \<Rightarrow> host \<Rightarrow> request \<Rightarrow> pairing \<Rightarrow> json op" where
  "read_answer E h r p = (let m = rr_method r; ps = rr_params r; session = console_session E p in
     if m = ''contacts.requests'' then
       op_then (op_lift (check_params ps [] [])) (\<lambda>_. rendered h ARequests (list_contact_requests session))
     else if m = ''inbox.review_preview'' then
       op_then (op_lift (check_params ps [''message_id''] [])) (\<lambda>_.
         op_store (review_preview E (jfield ''message_id'' ps) session))
     else if m = ''contacts.list'' then
       op_then (op_lift (check_params ps [] [])) (\<lambda>_. rendered h AContacts (state_view E session None))
     else if m = ''attention.list'' then
       op_then (op_lift (check_params ps [] [''after'', ''limit''])) (\<lambda>_.
       op_then (sync_turns E (Some p)) (\<lambda>_.
       rendered h AAttention (attention_feed E session (param ''after'' (JInt 0) ps) (param ''limit'' (JInt 100) ps))))
     else if m = ''collaboration.state'' \<or> m = ''inbox.list'' then
       op_then (op_lift (check_params ps [] [''task_id''])) (\<lambda>_.
       op_then (op_lift (optional_task ps)) (\<lambda>t.
       if m = ''collaboration.state'' then rendered h AState (state_view E session t)
       else rendered h (\<lambda>(ms, rs). AInbox ms rs) (inbox_view E session t)))
     else if m = ''task.list'' then
       op_then (op_lift (check_params ps [] [''query'', ''limit'', ''cursor''])) (\<lambda>_.
       rendered h ATasks (task_list (ho_casefold h) session (param ''query'' (JStr []) ps)
         (param ''limit'' (JInt 50) ps) (param ''cursor'' JNull ps)))
     else task_answer E h r p)"

text \<open>\<^verbatim>\<open>_invoke\<close>\<close>

definition invoke :: "env \<Rightarrow> host \<Rightarrow> request \<Rightarrow> pairing \<Rightarrow> json op" where
  "invoke E h r p = (let m = rr_method r in
     if m = ''capabilities'' then
       op_then (op_lift (check_params (rr_params r) [] [])) (\<lambda>_. op_ret (capabilities_json h p))
     else if m \<in> set write_methods then write_answer E h r p
     else if m \<in> set read_methods then read_answer E h r p
     else if m = ''conversation.send'' \<and> ho_conversations h then conversation_send E h r p (console_session E p)
     else if m = ''conversation.get'' \<and> ho_conversations h then conversation_get r p (console_session E p)
     else handler_answer E h r p)"

section \<open>The durable answer\<close>

definition response_fields :: "request \<Rightarrow> string \<Rightarrow> json \<Rightarrow> json" where
  "response_fields r k j = JObj [(''protocol'', JStr control_protocol), (''request_id'', JStr (rr_id r)),
     (''method'', JStr (rr_method r)), (''agent_urn'', JStr (rr_agent r)), (''console_urn'', JStr (rr_console r)),
     (''deadline'', JStr (rr_deadline r)), (''type'', JStr ''response''), (k, j)]"

definition error_json :: "string \<Rightarrow> string \<Rightarrow> json" where
  "error_json code msg = JObj [(''code'', JStr code), (''message'', JStr msg)]"

definition response_of :: "env \<Rightarrow> request \<Rightarrow> string \<Rightarrow> control_response" where
  "response_of E r t = \<lparr>cr_id = ''control-response-'' @ take 48 (sha E t), cr_recipient = rr_console r,
     cr_reply = rr_id r, cr_conversation = ''control:'' @ rr_id r, cr_deadline = rr_deadline r, cr_text = t\<rparr>"

definition error_response :: "env \<Rightarrow> request \<Rightarrow> string \<Rightarrow> string \<Rightarrow> exn + control_response" where
  "error_response E r code msg =
     bindE (canonical_text (response_fields r ''error'' (error_json code msg))) (\<lambda>t. Inr (response_of E r t))"

definition result_response :: "env \<Rightarrow> request \<Rightarrow> json \<Rightarrow> exn + control_response" where
  "result_response E r j =
     bindE (canonical_text (response_fields r ''result'' j)) (\<lambda>t.
     if 250000 < length t then error_response E r ''result_too_large'' ''Narrow the requested task or conversation''
     else Inr (response_of E r t))"

text \<open>\<^verbatim>\<open>getattr(exc, "code", "invalid_params")\<close> and \<^verbatim>\<open>str(exc)[:500]\<close>\<close>

fun error_code :: "exn \<Rightarrow> string" where
  "error_code (RemoteError code _) = code"
| "error_code (RemoteMutationConflict _) = ''request_conflict''"
| "error_code _ = ''invalid_params''"

definition put_answer :: "string \<Rightarrow> control_receipt \<Rightarrow> unit op" where
  "put_answer k c = op_bridge (\<lambda>b. b\<lparr>answered := tput k c (answered b)\<rparr>)"

text \<open>The answer inside the transaction: the pairing is checked before a recorded answer is repeated.\<close>

definition check_recorded :: "control_receipt option \<Rightarrow> string \<Rightarrow> pairing \<Rightarrow> exn + unit" where
  "check_recorded old fp p = (case old of
     None \<Rightarrow> Inr ()
   | Some c \<Rightarrow> if rc_fingerprint c \<noteq> fp \<or> rc_owner c \<noteq> pg_owner p
       then remote_refuse ''request_conflict'' ''This request ID was already used for different contents or owner''
       else Inr ())"

definition answer_request :: "env \<Rightarrow> host \<Rightarrow> request \<Rightarrow> string \<Rightarrow> control_response op" where
  "answer_request E h r fp = (let k = request_key E (rr_console r) (rr_id r) in
     op_reads (\<lambda>(b, s).
     op_then (op_lift (authorized E h b (rr_console r) (rr_method r))) (\<lambda>p.
     let old = tget k (answered b) in
     op_then (op_lift (check_recorded old fp p)) (\<lambda>_.
     op_then (op_lift (if rr_method r = ''conversation.send'' then require_safety h (old \<noteq> None) else Inr ())) (\<lambda>_.
     case old of
       Some c \<Rightarrow> op_ret (rc_response c)
     | None \<Rightarrow>
         op_then (invoke E h r p) (\<lambda>j.
         op_then (op_lift (result_response E r j)) (\<lambda>resp.
         op_then (put_answer k \<lparr>rc_fingerprint = fp, rc_owner = pg_owner p, rc_response = resp\<rparr>) (\<lambda>_.
         op_ret resp))))))))"

text \<open>\<^verbatim>\<open>except (RemoteError, ValueError, TypeError, KeyError)\<close>: the error is the answer.\<close>

definition caught :: "(exn \<Rightarrow> exn + 'a) \<Rightarrow> 'a op \<Rightarrow> 'a op" where
  "caught f m = (\<lambda>w. case m w of
     (Inl e, w') \<Rightarrow> if is_data_error e then (f e, w') else (Inl e, w')
   | (Inr x, w') \<Rightarrow> (Inr x, w'))"

definition failure_response :: "env \<Rightarrow> request \<Rightarrow> exn \<Rightarrow> exn + control_response" where
  "failure_response E r e = error_response E r (error_code e) (pytake 500 (exn_text e))"

text \<open>\<^verbatim>\<open>handle\<close>; \<open>None\<close> for a request whose deadline has passed.\<close>

definition handle :: "env \<Rightarrow> host \<Rightarrow> json \<Rightarrow> control_response option op" where
  "handle E h message =
     op_then (op_lift (parse_request E message)) (\<lambda>r.
     op_then (op_lift (remote_instant (rr_deadline r))) (\<lambda>d.
     if d \<le> now E then op_ret None
     else op_then (op_lift (request_fingerprint E r)) (\<lambda>fp.
       op_then (bridge_transaction (caught (failure_response E r) (answer_request E h r fp))) (\<lambda>resp.
       op_ret (Some resp)))))"

section \<open>Delivery\<close>

definition carries_result :: "control_response \<Rightarrow> exn + bool" where
  "carries_result resp = (case json_loads (cr_text resp) of
     Some (JObj kvs) \<Rightarrow> Inr (''result'' \<in> set (jkeys kvs))
   | Some _ \<Rightarrow> Inr False
   | None \<Rightarrow> refuse ''Expecting value'')"

definition owner_unchanged :: "env \<Rightarrow> host \<Rightarrow> request \<Rightarrow> bridge \<Rightarrow> exn + unit" where
  "owner_unchanged E h r b =
     bindE (authorized E h b (rr_console r) (rr_method r)) (\<lambda>p.
     case tget (request_key E (rr_console r) (rr_id r)) (answered b) of
       Some c \<Rightarrow> if rc_owner c = pg_owner p then Inr () else remote_refuse ''owner_changed'' ''Local pairing changed before delivery''
     | None \<Rightarrow> remote_refuse ''owner_changed'' ''Local pairing changed before delivery'')"

text \<open>\<^verbatim>\<open>delivery\<close>: what is handed to the helper inside the bridge's transaction.\<close>

definition deliverable :: "env \<Rightarrow> host \<Rightarrow> request \<Rightarrow> control_response option \<Rightarrow> bridge \<Rightarrow> exn + control_response option" where
  "deliverable E h r ro b =
     bindE (remote_instant (rr_deadline r)) (\<lambda>d.
     if d \<le> now E then Inr None
     else case ro of
       None \<Rightarrow> Inr None
     | Some resp \<Rightarrow> bindE (carries_result resp) (\<lambda>res.
         if \<not> res then Inr (Some resp)
         else case owner_unchanged E h r b of
           Inl (RemoteError code msg) \<Rightarrow> bindE (error_response E r code msg) (\<lambda>x. Inr (Some x))
         | Inl e \<Rightarrow> Inl e
         | Inr _ \<Rightarrow> Inr (Some resp)))"

definition response_body :: "control_response \<Rightarrow> json" where
  "response_body x = JObj [(''message_id'', JStr (cr_id x)), (''recipient_urn'', JStr (cr_recipient x)),
     (''kind'', JStr ''control.response''), (''in_reply_to'', JStr (cr_reply x)),
     (''conversation_id'', JStr (cr_conversation x)), (''deadline'', JStr (cr_deadline x)), (''text'', JStr (cr_text x))]"

definition accepted_by_helper :: "string \<Rightarrow> json \<Rightarrow> exn + bool" where
  "accepted_by_helper mid reply = (case reply of
     JObj kvs \<Rightarrow> Inr (jget ''success'' kvs = Some (JBool True) \<and> jget ''message_id'' kvs = Some (JStr mid))
   | _ \<Rightarrow> Inl (AttributeError ''get''))"

definition deliver_response :: "env \<Rightarrow> host \<Rightarrow> helper \<Rightarrow> request \<Rightarrow> control_response option \<Rightarrow> control_response option op" where
  "deliver_response E h send r ro = bridge_transaction (op_reads (\<lambda>(b, s).
     op_then (op_lift (deliverable E h r ro b)) (\<lambda>out. case out of
       None \<Rightarrow> op_ret None
     | Some x \<Rightarrow> op_then (op_lift (send (response_body x))) (\<lambda>reply.
         op_then (op_lift (accepted_by_helper (cr_id x) reply)) (\<lambda>ok.
         if ok then op_ret (Some x)
         else op_raise (ValueError ''Helper did not accept the correlated control response''))))))"

definition flush_op :: "env \<Rightarrow> helper \<Rightarrow> unit op" where
  "flush_op E send = (\<lambda>(b, s). case flush_social_outbox E send 16 s of (x, t) \<Rightarrow> (Inr (), (b, t)))"

text \<open>\<^verbatim>\<open>process\<close>: answer, flush, deliver and only then acknowledge the request.\<close>

definition process_control :: "env \<Rightarrow> host \<Rightarrow> helper \<Rightarrow> (string \<Rightarrow> exn + unit) \<Rightarrow> json \<Rightarrow> control_response option op" where
  "process_control E h send ack message =
     op_then (handle E h message) (\<lambda>ro.
     op_then (flush_op E send) (\<lambda>_.
     op_then (op_lift (parse_request E message)) (\<lambda>r.
     op_then (deliver_response E h send r ro) (\<lambda>out.
     op_then (op_lift (ack (rr_id r))) (\<lambda>_. op_ret out)))))"

section \<open>The mailbox in turn\<close>

definition message_ident :: "json \<Rightarrow> string option" where
  "message_ident m = (case m of
     JObj kvs \<Rightarrow> (case jget ''message_id'' kvs of Some (JStr x) \<Rightarrow> Some x | _ \<Rightarrow> None)
   | _ \<Rightarrow> None)"

definition ident_key :: "json \<Rightarrow> string" where
  "ident_key m = (case message_ident m of Some x \<Rightarrow> x | None \<Rightarrow> [])"

definition ordered_messages :: "json list \<Rightarrow> json list" where
  "ordered_messages ms = sort_key ident_key (filter (\<lambda>m. message_ident m \<noteq> None) ms)"

text \<open>The messages after the cursor, then those up to it.\<close>

definition turn_order :: "string \<Rightarrow> json list \<Rightarrow> json list" where
  "turn_order c ms = filter (\<lambda>m. c < ident_key m) ms @ filter (\<lambda>m. ident_key m \<le> c) ms"

definition next_batch :: "string option \<Rightarrow> nat \<Rightarrow> json list \<Rightarrow> json list" where
  "next_batch c limit ms = take limit (turn_order (case c of Some x \<Rightarrow> x | None \<Rightarrow> []) (ordered_messages ms))"

definition select_inbox_batch :: "json list \<Rightarrow> int \<Rightarrow> json list op" where
  "select_inbox_batch ms limit =
     (if limit < 1 \<or> 100 < limit then op_raise (ValueError ''Inbox batch limit must be from 1 through 100'')
      else if ordered_messages ms = [] then op_ret []
      else bridge_transaction (op_reads (\<lambda>(b, s).
        let batch = next_batch (mailbox_cursor b) (nat limit) ms in
        op_then (op_bridge (\<lambda>b. b\<lparr>mailbox_cursor := Some (ident_key (last batch))\<rparr>)) (\<lambda>_. op_ret batch))))"

section \<open>Turns\<close>

definition turn_lost :: "host \<Rightarrow> string" where
  "turn_lost h = (if ho_conversations h \<and> ho_safety h
     then ''Pairing expired, changed or revoked before execution'' else ''Host lacks owner-review model admission'')"

definition may_run :: "env \<Rightarrow> host \<Rightarrow> bridge \<Rightarrow> bridge_turn \<Rightarrow> exn + unit" where
  "may_run E h b j =
     bindE (require_safety h False) (\<lambda>_.
     bindE (authorized E h b (bt_console j) ''conversation.send'') (\<lambda>p.
     if pg_owner p \<noteq> bt_owner j then remote_refuse ''owner_changed'' ''Local pairing owner changed'' else Inr ()))"

definition lost_turn :: "env \<Rightarrow> host \<Rightarrow> bridge_turn \<Rightarrow> bridge_turn" where
  "lost_turn E h j = j\<lparr>bt_status := TuFailed, bt_error := Some (turn_lost h), bt_updated := now E\<rparr>"

definition started_turn :: "env \<Rightarrow> bridge_turn \<Rightarrow> bridge_turn" where
  "started_turn E j = j\<lparr>bt_status := TuRunning, bt_updated := now E\<rparr>"

text \<open>The oldest submitted turn whose pairing still stands is claimed; those before it fail.\<close>

fun claim_scan :: "env \<Rightarrow> host \<Rightarrow> bridge_turn list \<Rightarrow> (bridge_turn option \<times> bridge_turn list) op" where
  "claim_scan E h [] = op_ret (None, [])"
| "claim_scan E h (j # js) =
     (if bt_status j \<noteq> TuSubmitted then claim_scan E h js
      else op_reads (\<lambda>(b, s). case may_run E h b j of
        Inl (RemoteError _ _) \<Rightarrow>
          op_then (put_turn (lost_turn E h j)) (\<lambda>_.
          op_then (claim_scan E h js) (\<lambda>(c, changed). op_ret (c, lost_turn E h j # changed)))
      | Inl e \<Rightarrow> op_raise e
      | Inr _ \<Rightarrow> op_then (put_turn (started_turn E j)) (\<lambda>_. op_ret (Some (started_turn E j), [started_turn E j]))))"

definition claim_turn :: "env \<Rightarrow> host \<Rightarrow> bridge_turn option op" where
  "claim_turn E h =
     op_then (bridge_transaction (op_reads (\<lambda>(b, s).
       if list_ex (\<lambda>j. bt_status j = TuRunning) (tall (turns b)) then op_ret (None, [])
       else claim_scan E h (sort_key (\<lambda>j. (bt_created j, bt_id j)) (tall (turns b)))))) (\<lambda>(c, changed).
     op_then (op_each (record_turn E) changed) (\<lambda>_. op_ret c))"

definition turn_outcome :: "json \<Rightarrow> string option \<Rightarrow> exn + string option \<times> string option" where
  "turn_outcome response err = (case response of
     JNull \<Rightarrow> Inr (None, err)
   | JStr x \<Rightarrow> if \<not> encodable x then refuse ''surrogates not allowed''
       else if 200000 < length x then Inr (None, Some ''Host response exceeded the supported text size'')
       else Inr (Some x, err)
   | _ \<Rightarrow> Inr (None, Some ''Host response exceeded the supported text size''))"

definition finished_turn :: "env \<Rightarrow> bool \<Rightarrow> string option \<Rightarrow> string option \<Rightarrow> bridge_turn \<Rightarrow> bridge_turn" where
  "finished_turn E interrupted resp err j =
     j\<lparr>bt_status := (if interrupted then TuInterrupted else if err \<noteq> None \<and> err \<noteq> Some [] then TuFailed else TuCompleted),
       bt_response := resp, bt_error := err, bt_updated := now E\<rparr>"

definition finish_turn :: "env \<Rightarrow> string \<Rightarrow> json \<Rightarrow> string option \<Rightarrow> bool \<Rightarrow> unit op" where
  "finish_turn E tid response err interrupted =
     op_then (bridge_transaction (op_reads (\<lambda>(b, s). case tget tid (turns b) of
         None \<Rightarrow> op_ret None
       | Some j \<Rightarrow>
           if bt_status j \<noteq> TuRunning then op_ret None
           else op_then (op_lift (turn_outcome response err)) (\<lambda>(resp, er).
             let j' = finished_turn E interrupted resp er j in
             op_then (put_turn j') (\<lambda>_. op_ret (Some j')))))) (\<lambda>jo.
     case jo of None \<Rightarrow> op_ret () | Some j \<Rightarrow> record_turn E j)"

definition interrupted_turn :: "env \<Rightarrow> bridge_turn \<Rightarrow> bridge_turn" where
  "interrupted_turn E j = j\<lparr>bt_status := TuInterrupted,
     bt_error := Some ''Agent restarted during this turn; execution outcome is uncertain'', bt_updated := now E\<rparr>"

definition recover_interrupted_turns :: "env \<Rightarrow> unit op" where
  "recover_interrupted_turns E =
     op_then (bridge_transaction (op_reads (\<lambda>(b, s).
       op_each (\<lambda>j. put_turn (interrupted_turn E j)) (filter (\<lambda>j. bt_status j = TuRunning) (tall (turns b)))))) (\<lambda>_.
     sync_turns E None)"

end
