(* ===== verification/Bridge_System.thy ===== *)
theory Bridge_System
  imports Bridge_Ops System
begin

text \<open>
  The bridge as a system: its operations as commands, what they do to the pair of databases, and the
  orders that every operation follows. A world order is a preorder on both databases that a rollback
  of the bridge respects; it is proved of the combinators once and of every operation by composing.
\<close>

section \<open>Orders on both databases\<close>

definition op_runs :: "(world \<Rightarrow> world \<Rightarrow> bool) \<Rightarrow> world \<Rightarrow> 'a op \<Rightarrow> bool" where
  "op_runs R w m \<longleftrightarrow> (\<forall>x w'. m w = (x, w') \<longrightarrow> R w w')"

lemma runsI: "(\<And>x w'. m w = (x, w') \<Longrightarrow> R w w') \<Longrightarrow> op_runs R w m"
  unfolding op_runs_def by blast

lemma runsD: "op_runs R w m \<Longrightarrow> m w = (x, w') \<Longrightarrow> R w w'"
  unfolding op_runs_def by blast

locale world_order =
  fixes R :: "world \<Rightarrow> world \<Rightarrow> bool"
  assumes world_refl: "R w w"
    and world_trans: "R w v \<Longrightarrow> R v u \<Longrightarrow> R w u"
    and world_rollback: "R (b, s) (b', t) \<Longrightarrow> R (b, s) (b, t)"
begin

lemma runs_ret: "op_runs R w (op_ret x)"
  by (simp add: op_runs_def op_ret_def world_refl)

lemma runs_raise: "op_runs R w (op_raise e)"
  by (simp add: op_runs_def op_raise_def world_refl)

lemma runs_lift: "op_runs R w (op_lift r)"
  by (simp add: op_runs_def op_lift_def world_refl)

lemma runs_then:
  assumes m: "op_runs R w m" and f: "\<And>x w'. m w = (Inr x, w') \<Longrightarrow> R w w' \<Longrightarrow> op_runs R w' (f x)"
  shows "op_runs R w (op_then m f)"
proof (rule runsI)
  fix y u
  assume run: "op_then m f w = (y, u)"
  obtain x w' where mw: "m w = (x, w')" by (cases "m w") auto
  then have R: "R w w'" using m by (blast dest: runsD)
  show "R w u"
  proof (cases x)
    case (Inl e)
    then show ?thesis using run mw R by (simp add: op_then_def)
  next
    case (Inr z)
    then have "f z w' = (y, u)" using run mw by (simp add: op_then_def)
    then have "R w' u" using f [of z w'] mw Inr R by (auto dest: runsD)
    then show ?thesis using R world_trans by blast
  qed
qed

lemma runs_lift_then: "(\<And>x. r = Inr x \<Longrightarrow> op_runs R w (f x)) \<Longrightarrow> op_runs R w (op_then (op_lift r) f)"
  by (rule runs_then [OF runs_lift]) (simp add: op_lift_def)

lemma runs_reads: "op_runs R w (f w) \<Longrightarrow> op_runs R w (op_reads f)"
  by (simp add: op_runs_def op_reads_def)

lemma runs_transaction:
  assumes "op_runs R w m" shows "op_runs R w (bridge_transaction m)"
proof (rule runsI)
  fix x w'
  assume run: "bridge_transaction m w = (x, w')"
  obtain b s where w: "w = (b, s)" by fastforce
  obtain y b' t where m: "m (b, s) = (y, (b', t))" by (metis prod.exhaust)
  then have R: "R (b, s) (b', t)" using assms w by (auto dest: runsD)
  then show "R w w'"
    using run m w world_rollback [OF R] by (cases y) (auto simp: bridge_transaction_def)
qed

lemma runs_caught: "op_runs R w m \<Longrightarrow> op_runs R w (caught f m)"
  by (auto simp: op_runs_def caught_def split: prod.splits sum.splits if_splits)

lemma runs_if: "(c \<Longrightarrow> op_runs R w m) \<Longrightarrow> (\<not> c \<Longrightarrow> op_runs R w n) \<Longrightarrow> op_runs R w (if c then m else n)"
  by simp

lemma runs_option:
  "(x = None \<Longrightarrow> op_runs R w m) \<Longrightarrow> (\<And>y. x = Some y \<Longrightarrow> op_runs R w (f y)) \<Longrightarrow>
   op_runs R w (case x of None \<Rightarrow> m | Some y \<Rightarrow> f y)"
  by (cases x) auto

lemma runs_prod: "(\<And>a c. x = (a, c) \<Longrightarrow> op_runs R w (f a c)) \<Longrightarrow> op_runs R w (case x of (a, c) \<Rightarrow> f a c)"
  by (cases x) auto

lemma runs_let: "op_runs R w (f v) \<Longrightarrow> op_runs R w (let y = v in f y)"
  by simp

lemma runs_each: "(\<And>x w. x \<in> set xs \<Longrightarrow> op_runs R w (f x)) \<Longrightarrow> op_runs R w (op_each f xs)"
proof (induction xs arbitrary: w)
  case (Cons x xs)
  have "op_runs R w (f x)" by (rule Cons.prems) simp
  moreover have "op_runs R v (op_each f xs)" for v by (rule Cons.IH) (simp add: Cons.prems)
  ultimately show ?case unfolding op_each.simps by (rule runs_then)
qed (simp add: runs_ret)

lemma runs_rendered: "(\<And>w. op_runs R w (op_store m)) \<Longrightarrow> op_runs R w (rendered h f m)"
  unfolding rendered_def by (intro runs_then runs_ret)

end

section \<open>What a host brings\<close>

text \<open>The store can only develop under the extension handlers a host registers.\<close>

definition handlers_develop :: "(string \<Rightarrow> string) \<Rightarrow> host \<Rightarrow> bool" where
  "handlers_develop H h \<longleftrightarrow> (\<forall>m f c s x t. map_of (ho_handlers h) m = Some f \<longrightarrow> f c s = (x, t) \<longrightarrow> develops H s t)"

section \<open>Commands\<close>

datatype bridge_command =
    BPair string string "string list" string
  | BRevoke string
  | BHandle json
  | BProcess json
  | BBatch "json list" int
  | BClaim
  | BFinish string json "string option" bool
  | BRecover

fun bridge_serve :: "env \<Rightarrow> host \<Rightarrow> helper \<Rightarrow> (string \<Rightarrow> exn + unit) \<Rightarrow> bridge_command \<Rightarrow> world \<Rightarrow> world" where
  "bridge_serve E h send ack (BPair c o' ms e) w = snd (pair_console E c o' ms e w)"
| "bridge_serve E h send ack (BRevoke c) w = snd (revoke_console c w)"
| "bridge_serve E h send ack (BHandle m) w = snd (handle E h m w)"
| "bridge_serve E h send ack (BProcess m) w = snd (process_control E h send ack m w)"
| "bridge_serve E h send ack (BBatch ms n) w = snd (select_inbox_batch ms n w)"
| "bridge_serve E h send ack BClaim w = snd (claim_turn E h w)"
| "bridge_serve E h send ack (BFinish t r e i) w = snd (finish_turn E t r e i w)"
| "bridge_serve E h send ack BRecover w = snd (recover_interrupted_turns E w)"

text \<open>Runs of the bridge; the flag says whether a console may be paired on the way.\<close>

inductive bridge_run :: "(string \<Rightarrow> string) \<Rightarrow> bool \<Rightarrow> world \<Rightarrow> world \<Rightarrow> bool" for H pairing_allowed where
  stay: "bridge_run H pairing_allowed w w"
| serve: "bridge_run H pairing_allowed w v \<Longrightarrow> sha E = H \<Longrightarrow> handlers_develop H h \<Longrightarrow>
    (pairing_allowed \<or> (\<forall>c o' ms e. cmd \<noteq> BPair c o' ms e)) \<Longrightarrow>
    bridge_run H pairing_allowed w (bridge_serve E h send ack cmd v)"
| store_step: "bridge_run H pairing_allowed w (b, s) \<Longrightarrow> develops H s t \<Longrightarrow> bridge_run H pairing_allowed w (b, t)"

inductive_cases bridge_run_cases: "bridge_run H p w v"

section \<open>Everything the bridge does to the store is done by the store's commands\<close>

definition store_develops :: "(string \<Rightarrow> string) \<Rightarrow> world \<Rightarrow> world \<Rightarrow> bool" where
  "store_develops H w v \<longleftrightarrow> develops H (snd w) (snd v)"

interpretation dv: world_order "store_develops H" for H
  by unfold_locales (auto simp: store_develops_def intro: develops.same develops_trans)

lemma dv_bridge: "op_runs (store_develops H) w (op_bridge f)"
  by (cases w) (auto simp: op_runs_def op_bridge_def store_develops_def develops.same)

lemma committed_cases: "m s = Inr (x, t) \<Longrightarrow> committed m s = t" "m s = Inl e \<Longrightarrow> committed m s = s"
  by (simp_all add: committed_def)

lemma dv_store:
  assumes "\<And>s. develops H s (committed m s)" shows "op_runs (store_develops H) w (op_store m)"
proof (rule runsI)
  fix x w'
  assume run: "op_store m w = (x, w')"
  obtain b s where w: "w = (b, s)" by fastforce
  show "store_develops H w w'"
    using run w assms [of s]
    by (cases "m s") (auto simp: op_store_def store_develops_def committed_def develops.same)
qed

text \<open>A transaction that is the effect of a command.\<close>

lemma dv_command:
  assumes E: "sha E = H" and cmd: "\<And>s. serve E (\<lambda>_. Inl StopIteration) c s = committed m s"
  shows "op_runs (store_develops H) w (op_store m)"
  by (rule dv_store) (metis E cmd develops.same more)

lemma dv_pure:
  assumes "\<And>s x t. m s = Inr (x, t) \<Longrightarrow> t = s" shows "op_runs (store_develops H) w (op_store m)"
proof (rule dv_store)
  fix s
  show "develops H s (committed m s)"
    using assms [of s] by (cases "m s") (auto simp: committed_def intro: develops.same)
qed

lemma dv_record_turn: "sha E = H \<Longrightarrow> op_runs (store_develops H) w (record_turn E j)"
  unfolding record_turn_def by (rule dv_command [where c = "RecordTurn (turn_source j)"]) simp_all

lemma dv_sync_turns: "sha E = H \<Longrightarrow> op_runs (store_develops H) w (sync_turns E po)"
  unfolding sync_turns_def
  by (rule dv.runs_reads, rule dv.runs_prod, rule dv.runs_each) (rule dv_record_turn)

lemmas dv_basic = dv.runs_ret dv.runs_raise dv.runs_lift_then dv.runs_let dv.runs_if dv.runs_option dv.runs_prod
  dv.runs_reads dv_bridge

lemma dv_turn_writes: "op_runs (store_develops H) w (put_turn j)" "op_runs (store_develops H) w (put_pairing k p)"
  "op_runs (store_develops H) w (put_answer k c)"
  unfolding put_turn_def put_pairing_def put_answer_def by (rule dv_bridge)+

lemma dv_write_answer:
  assumes E: "sha E = H" shows "op_runs (store_develops H) w (write_answer E h r p)"
  unfolding write_answer_def
  by (intro dv_basic dv.runs_rendered) (rule dv_command [OF E, where c = "RemoteMutation _ _ _ _ _ _"], simp)

lemma task_list_pure: "task_list casefold session q l c s = Inr (x, t) \<Longrightarrow> t = s"
  by (auto simp: task_list_def)

lemma requests_pure: "list_contact_requests session s = Inr (x, t) \<Longrightarrow> t = s"
  by (auto simp: list_contact_requests_def)

lemma dv_task_answer:
  assumes E: "sha E = H" shows "op_runs (store_develops H) w (task_answer E h r p)"
  unfolding task_answer_def Let_def
  by (intro dv_basic dv.runs_rendered)
    (rule dv_command [OF E, where c = "ReadTask _ _ _"] dv_command [OF E, where c = "ReadEvents _ _ _ _ _ _"], simp)+

lemma dv_read_answer:
  assumes E: "sha E = H" shows "op_runs (store_develops H) w (read_answer E h r p)"
proof -
  have "op_runs (store_develops H) w (op_store (review_preview E a b))" for w a b
    by (rule dv_command [OF E, where c = "PreviewReview a b"]) simp
  moreover have "op_runs (store_develops H) w (op_store (state_view E a b))" for w a b
    by (rule dv_command [OF E, where c = "ReadState a b"]) simp
  moreover have "op_runs (store_develops H) w (op_store (attention_feed E a b c))" for w a b c
    by (rule dv_command [OF E, where c = "ReadAttention a b c"]) simp
  moreover have "op_runs (store_develops H) w (op_store (inbox_view E a b))" for w a b
    by (rule dv_command [OF E, where c = "ReadInbox a b"]) simp
  moreover have "op_runs (store_develops H) w (op_store (task_list f a b c d))" for w f a b c d
    by (rule dv_pure) (rule task_list_pure)
  moreover have "op_runs (store_develops H) w (op_store (list_contact_requests a))" for w a
    by (rule dv_pure) (rule requests_pure)
  moreover note dv_task_answer [OF E] dv_sync_turns [OF E]
  ultimately show ?thesis
    unfolding read_answer_def Let_def by (intro dv_basic dv.runs_rendered dv.runs_then)
qed

lemma dv_handler_answer:
  assumes h: "handlers_develop H h" shows "op_runs (store_develops H) w (handler_answer E h r p)"
proof -
  have "op_runs (store_develops H) v (run_handler f c)" if "map_of (ho_handlers h) (rr_method r) = Some f" for v f c
    using h that by (cases v) (auto simp: op_runs_def run_handler_def store_develops_def handlers_develop_def split: prod.splits)
  then show ?thesis
    unfolding handler_answer_def by (intro dv_basic) auto
qed

lemma dv_invoke:
  assumes E: "sha E = H" and h: "handlers_develop H h" shows "op_runs (store_develops H) w (invoke E h r p)"
  unfolding invoke_def Let_def conversation_send_def conversation_get_def
  by (intro dv_basic dv.runs_then dv_turn_writes dv_write_answer [OF E] dv_read_answer [OF E] dv_handler_answer [OF h])

lemma dv_answer:
  assumes E: "sha E = H" and h: "handlers_develop H h" shows "op_runs (store_develops H) w (answer_request E h r fp)"
  unfolding answer_request_def Let_def
  by (intro dv_basic dv.runs_then dv_invoke [OF E h] dv_turn_writes)

lemma dv_handle:
  assumes E: "sha E = H" and h: "handlers_develop H h" shows "op_runs (store_develops H) w (handle E h m)"
  unfolding handle_def by (intro dv_basic dv.runs_then dv.runs_transaction dv.runs_caught dv_answer [OF E h])

lemma dv_flush:
  assumes E: "sha E = H" shows "op_runs (store_develops H) w (flush_op E send)"
proof (rule runsI)
  fix x w'
  assume run: "flush_op E send w = (x, w')"
  have "develops H (snd w) (serve E send (FlushOutbox 16) (snd w))" by (rule more [OF develops.same E])
  then show "store_develops H w w'"
    using run by (cases w) (auto simp: flush_op_def store_develops_def split: prod.splits)
qed

lemma dv_process:
  assumes E: "sha E = H" and h: "handlers_develop H h"
  shows "op_runs (store_develops H) w (process_control E h send ack m)"
  unfolding process_control_def deliver_response_def
  by (intro dv_basic dv.runs_then dv_handle [OF E h] dv_flush [OF E] dv.runs_transaction)

lemma dv_claim_scan: "op_runs (store_develops H) w (claim_scan E h js)"
proof (induction js arbitrary: w)
  case (Cons j js)
  have "op_runs (store_develops H) v (case may_run E h b j of
        Inl (RemoteError _ _) \<Rightarrow> op_then (put_turn (lost_turn E h j)) (\<lambda>_.
          op_then (claim_scan E h js) (\<lambda>(c, changed). op_ret (c, lost_turn E h j # changed)))
      | Inl e \<Rightarrow> op_raise e
      | Inr _ \<Rightarrow> op_then (put_turn (started_turn E j)) (\<lambda>_. op_ret (Some (started_turn E j), [started_turn E j])))" for v b
    using Cons.IH
    by (auto intro!: dv.runs_then dv_turn_writes dv.runs_ret dv.runs_raise dv.runs_prod split: sum.split exn.split)
  then show ?case using Cons.IH by (auto intro!: dv.runs_reads dv.runs_prod)
qed (simp add: dv.runs_ret)

lemma dv_serve:
  assumes E: "sha E = H" and h: "handlers_develop H h"
  shows "store_develops H w (bridge_serve E h send ack cmd w)"
proof -
  have reg: "op_runs (store_develops H) v (op_store (register_owner E o'))" for v o'
    by (rule dv_command [OF E, where c = "RegisterOwner o'"]) simp
  have run: "store_develops H w (snd (m w))" if "op_runs (store_develops H) w m" for m :: "'x op"
    using that by (metis prod.collapse runsD)
  show ?thesis
  proof (cases cmd)
    case (BPair c o' ms e)
    have "op_runs (store_develops H) w (pair_console E c o' ms e)"
      unfolding pair_console_def Let_def
      by (intro dv_basic dv.runs_then dv.runs_transaction dv_turn_writes reg)
    then show ?thesis unfolding BPair bridge_serve.simps by (rule run)
  next
    case (BRevoke c)
    have "op_runs (store_develops H) w (revoke_console c)"
      unfolding revoke_console_def by (intro dv_basic dv.runs_transaction dv_turn_writes)
    then show ?thesis unfolding BRevoke bridge_serve.simps by (rule run)
  next
    case (BBatch ms n)
    have "op_runs (store_develops H) w (select_inbox_batch ms n)"
      unfolding select_inbox_batch_def by (intro dv_basic dv.runs_then dv.runs_transaction)
    then show ?thesis unfolding BBatch bridge_serve.simps by (rule run)
  next
    case BClaim
    have "op_runs (store_develops H) w (claim_turn E h)"
      unfolding claim_turn_def
      by (intro dv_basic dv.runs_then dv.runs_transaction dv_claim_scan dv.runs_each dv_record_turn [OF E])
    then show ?thesis unfolding BClaim bridge_serve.simps by (rule run)
  next
    case (BFinish t r e i)
    have "op_runs (store_develops H) w (finish_turn E t r e i)"
      unfolding finish_turn_def
      by (intro dv_basic dv.runs_then dv.runs_transaction dv_turn_writes dv_record_turn [OF E])
    then show ?thesis unfolding BFinish bridge_serve.simps by (rule run)
  next
    case BRecover
    have "op_runs (store_develops H) w (recover_interrupted_turns E)"
      unfolding recover_interrupted_turns_def
      by (intro dv_basic dv.runs_then dv.runs_transaction dv.runs_each dv_turn_writes dv_sync_turns [OF E])
    then show ?thesis unfolding BRecover bridge_serve.simps by (rule run)
  qed (simp_all only: bridge_serve.simps run dv_handle [OF E h] dv_process [OF E h])
qed

lemma bridge_run_develops: "bridge_run H p w v \<Longrightarrow> develops H (snd w) (snd v)"
proof (induction rule: bridge_run.induct)
  case (serve w v E h cmd send ack)
  then show ?case using dv_serve [of E H h v send ack cmd] develops_trans by (auto simp: store_develops_def)
qed (auto intro: develops.same develops_trans)

section \<open>What the bridge keeps of its own rows\<close>

text \<open>Recorded answers stay; a pairing changes only by being revoked.\<close>

definition answers_kept :: "world \<Rightarrow> world \<Rightarrow> bool" where
  "answers_kept w v \<longleftrightarrow> table_evolves (=) (answered (fst w)) (answered (fst v))"

definition pairing_le :: "pairing \<Rightarrow> pairing \<Rightarrow> bool" where
  "pairing_le p q \<longleftrightarrow> q = p \<or> q = p\<lparr>pg_revoked := True\<rparr>"

definition pairings_kept :: "world \<Rightarrow> world \<Rightarrow> bool" where
  "pairings_kept w v \<longleftrightarrow> table_evolves pairing_le (pairings (fst w)) (pairings (fst v))
     \<and> (\<forall>c. tget c (pairings (fst w)) = None \<longrightarrow> tget c (pairings (fst v)) = None)"

text \<open>At most one turn is running.\<close>

definition lone_turn :: "world \<Rightarrow> bool" where
  "lone_turn w \<longleftrightarrow> (\<forall>k l i j. tget k (turns (fst w)) = Some i \<longrightarrow> tget l (turns (fst w)) = Some j \<longrightarrow>
     bt_status i = TuRunning \<longrightarrow> bt_status j = TuRunning \<longrightarrow> k = l)
     \<and> twf (turns (fst w)) \<and> (\<forall>k j. tget k (turns (fst w)) = Some j \<longrightarrow> bt_id j = k)"

interpretation pairing_row: row_order pairing_le
  by unfold_locales (auto simp: pairing_le_def)

interpretation ak: world_order answers_kept
  by unfold_locales (auto simp: answers_kept_def eq_row.table_refl intro: eq_row.table_trans)

interpretation pk: world_order pairings_kept
  by unfold_locales (auto simp: pairings_kept_def pairing_row.table_refl intro: pairing_row.table_trans)

lemma bridge_same:
  "answers_kept (b, s) (b, t)" "pairings_kept (b, s) (b, t)"
  by (auto simp: answers_kept_def pairings_kept_def eq_row.table_refl pairing_row.table_refl)

definition same_bridge :: "world \<Rightarrow> world \<Rightarrow> bool" where
  "same_bridge w v \<longleftrightarrow> fst v = fst w"

interpretation sb: world_order same_bridge
  by unfold_locales (auto simp: same_bridge_def)

lemma sb_store: "op_runs same_bridge w (op_store m)"
  by (cases w) (auto simp: op_runs_def op_store_def same_bridge_def split: prod.splits sum.splits)

lemma sb_flush: "op_runs same_bridge w (flush_op E send)"
  by (cases w) (auto simp: op_runs_def flush_op_def same_bridge_def split: prod.splits)

lemma sb_handler: "op_runs same_bridge w (run_handler f c)"
  by (cases w) (auto simp: op_runs_def run_handler_def same_bridge_def split: prod.splits)

lemma sb_record_turn: "op_runs same_bridge w (record_turn E j)"
  unfolding record_turn_def by (rule sb_store)

lemmas sb_basic = sb.runs_ret sb.runs_raise sb.runs_lift_then sb.runs_let sb.runs_if sb.runs_option sb.runs_prod
  sb.runs_reads sb.runs_then sb.runs_rendered sb_store sb_handler sb.runs_each sb_record_turn

lemma sb_sync_turns: "op_runs same_bridge w (sync_turns E po)"
  unfolding sync_turns_def by (intro sb_basic)

lemma sb_reading: "op_runs same_bridge w (read_answer E h r p)" "op_runs same_bridge w (write_answer E h r p)"
  "op_runs same_bridge w (handler_answer E h r p)"
  unfolding read_answer_def task_answer_def write_answer_def handler_answer_def Let_def
  by (intro sb_basic sb_sync_turns)+

end
