(* ===== verification/Bridge_Laws.thy ===== *)
theory Bridge_Laws
  imports Bridge_System
begin

text \<open>
  How the bridge's operations keep its own rows: recorded answers, pairings and the single running
  turn, over every run; and \<open>handle\<close> as one case distinction.
\<close>

section \<open>Answers and pairings\<close>

definition same_rows :: "world \<Rightarrow> world \<Rightarrow> bool" where
  "same_rows w v \<longleftrightarrow> answered (fst v) = answered (fst w) \<and> pairings (fst v) = pairings (fst w)"

interpretation nr: world_order same_rows
  by unfold_locales (auto simp: same_rows_def)

lemma runs_mono: "op_runs R w m \<Longrightarrow> (\<And>v u. R v u \<Longrightarrow> S v u) \<Longrightarrow> op_runs S w m"
  unfolding op_runs_def by blast

lemma same_bridge_rows: "same_bridge w v \<Longrightarrow> same_rows w v"
  by (simp add: same_bridge_def same_rows_def)

lemma same_rows_kept: "same_rows w v \<Longrightarrow> answers_kept w v" "same_rows w v \<Longrightarrow> pairings_kept w v"
  by (simp_all add: same_rows_def answers_kept_def pairings_kept_def eq_row.table_refl pairing_row.table_refl)

lemma nr_bridge:
  "(\<And>b. answered (f b) = answered b \<and> pairings (f b) = pairings b) \<Longrightarrow> op_runs same_rows w (op_bridge f)"
  by (cases w) (auto simp: op_runs_def op_bridge_def same_rows_def)

lemma nr_turn: "op_runs same_rows w (put_turn j)"
  unfolding put_turn_def by (rule nr_bridge) simp

lemmas nr_same = runs_mono [OF _ same_bridge_rows]

lemmas nr_basic = nr.runs_ret nr.runs_raise nr.runs_lift_then nr.runs_let nr.runs_if nr.runs_option nr.runs_prod
  nr.runs_reads nr_turn nr_same [OF sb_reading(1)] nr_same [OF sb_reading(2)] nr_same [OF sb_reading(3)]
  nr_same [OF sb_record_turn] nr_same [OF sb_sync_turns]

lemma nr_invoke: "op_runs same_rows w (invoke E h r p)"
  unfolding invoke_def Let_def conversation_send_def conversation_get_def
  by (intro nr_basic nr.runs_then)

lemma nr_claim_scan: "op_runs same_rows w (claim_scan E h js)"
proof (induction js arbitrary: w)
  case (Cons j js)
  have "op_runs same_rows v (case may_run E h b j of
        Inl (RemoteError _ _) \<Rightarrow> op_then (put_turn (lost_turn E h j)) (\<lambda>_.
          op_then (claim_scan E h js) (\<lambda>(c, changed). op_ret (c, lost_turn E h j # changed)))
      | Inl e \<Rightarrow> op_raise e
      | Inr _ \<Rightarrow> op_then (put_turn (started_turn E j)) (\<lambda>_. op_ret (Some (started_turn E j), [started_turn E j])))" for v b
    using Cons.IH
    by (auto intro!: nr.runs_then nr_turn nr.runs_ret nr.runs_raise nr.runs_prod split: sum.split exn.split)
  then show ?case using Cons.IH by (auto intro!: nr.runs_reads nr.runs_prod)
qed (simp add: nr.runs_ret)

lemma nr_turns:
  "op_runs same_rows w (claim_turn E h)" "op_runs same_rows w (finish_turn E tid x e i)"
  "op_runs same_rows w (recover_interrupted_turns E)" "op_runs same_rows w (select_inbox_batch ms n)"
  unfolding claim_turn_def finish_turn_def recover_interrupted_turns_def select_inbox_batch_def Let_def
  by (intro nr_basic nr.runs_then nr.runs_transaction nr.runs_each nr_claim_scan; (intro nr_bridge)?; simp)+

section \<open>Handling, case by case\<close>

lemma op_then_run: "op_then m f w = (case m w of (Inl e, w') \<Rightarrow> (Inl e, w') | (Inr x, w') \<Rightarrow> f x w')"
  by (simp add: op_then_def)

lemmas op_simps = op_then_run op_lift_def op_ret_def op_raise_def op_reads_def

lemma answer_refused:
  assumes "authorized E h b (rr_console r) (rr_method r) = Inl e"
  shows "answer_request E h r fp (b, s) = (Inl e, (b, s))"
  by (simp add: answer_request_def Let_def op_simps assms)

lemma answer_repeated:
  assumes "authorized E h b (rr_console r) (rr_method r) = Inr p"
    "tget (request_key E (rr_console r) (rr_id r)) (answered b) = Some c"
  shows "snd (answer_request E h r fp (b, s)) = (b, s)"
    "fst (answer_request E h r fp (b, s)) = Inr x \<Longrightarrow>
       x = rc_response c \<and> rc_fingerprint c = fp \<and> rc_owner c = pg_owner p"
  by (simp_all add: answer_request_def Let_def op_simps assms check_recorded_def remote_refuse_def split: sum.splits if_splits)

lemma answer_recorded:
  assumes "answer_request E h r fp (b, s) = (Inr x, (b', s'))"
  shows "\<exists>c p. authorized E h b (rr_console r) (rr_method r) = Inr p
    \<and> tget (request_key E (rr_console r) (rr_id r)) (answered b') = Some c \<and> rc_response c = x
    \<and> rc_fingerprint c = fp \<and> rc_owner c = pg_owner p"
  using assms
  by (auto simp: answer_request_def Let_def op_simps check_recorded_def remote_refuse_def put_answer_def op_bridge_def
      split: sum.splits if_splits option.splits prod.splits)

lemma answer_fresh:
  assumes "authorized E h b (rr_console r) (rr_method r) = Inr p"
    "tget (request_key E (rr_console r) (rr_id r)) (answered b) = None"
    "rr_method r = ''conversation.send'' \<Longrightarrow> require_safety h False = Inr ()"
    "invoke E h r p (b, s) = (Inr j, (b', s'))" "result_response E r j = Inr resp"
  shows "answer_request E h r fp (b, s) = (Inr resp, (b'\<lparr>answered := tput (request_key E (rr_console r) (rr_id r))
     \<lparr>rc_fingerprint = fp, rc_owner = pg_owner p, rc_response = resp\<rparr> (answered b')\<rparr>, s'))"
  by (simp add: answer_request_def Let_def op_simps assms check_recorded_def put_answer_def op_bridge_def)

lemma handle_eq:
  "handle E h m w = (case parse_request E m of Inl e \<Rightarrow> (Inl e, w) | Inr r \<Rightarrow>
     (case remote_instant (rr_deadline r) of Inl e \<Rightarrow> (Inl e, w) | Inr d \<Rightarrow>
       if d \<le> now E then (Inr None, w)
       else (case request_fingerprint E r of Inl e \<Rightarrow> (Inl e, w) | Inr fp \<Rightarrow>
         (case bridge_transaction (caught (failure_response E r) (answer_request E h r fp)) w of
            (Inl e, v) \<Rightarrow> (Inl e, v) | (Inr x, v) \<Rightarrow> (Inr (Some x), v)))))"
  by (simp add: handle_def op_simps split: sum.split prod.split)

lemma ak_answer: "op_runs answers_kept w (answer_request E h r fp)"
proof (rule runsI)
  fix x w'
  assume run: "answer_request E h r fp w = (x, w')"
  obtain b s where w: "w = (b, s)" by fastforce
  let ?k = "request_key E (rr_console r) (rr_id r)"
  show "answers_kept w w'"
  proof (cases "authorized E h b (rr_console r) (rr_method r)")
    case (Inl e)
    then show ?thesis using run w answer_refused [OF Inl] by (simp add: ak.world_refl)
  next
    case (Inr p)
    show ?thesis
    proof (cases "tget ?k (answered b)")
      case (Some c)
      then show ?thesis using run w answer_repeated(1) [OF Inr Some] by (metis ak.world_refl snd_conv)
    next
      case None
      have put: "answers_kept v (b''\<lparr>answered := tput ?k y (answered b'')\<rparr>, t)"
        if "same_rows (b, s) (b'', t)" "v = (b, s)" for v b'' y t
        using that None by (auto simp: answers_kept_def same_rows_def intro!: eq_row.table_put)
      obtain z b'' t where inv: "invoke E h r p (b, s) = (z, (b'', t))" by (metis prod.exhaust)
      have nr: "same_rows (b, s) (b'', t)" using nr_invoke inv by (blast dest: runsD)
      then show ?thesis
        using run w Inr None inv put [OF nr] same_rows_kept(1) [OF nr]
        by (auto simp: answer_request_def Let_def op_simps check_recorded_def put_answer_def op_bridge_def
            ak.world_refl split: sum.splits if_splits)
    qed
  qed
qed

lemma pk_answer: "op_runs pairings_kept w (answer_request E h r fp)"
proof -
  have "op_runs pairings_kept w (put_answer k c)" for w k c
    by (cases w) (auto simp: op_runs_def put_answer_def op_bridge_def pairings_kept_def pairing_row.table_refl)
  moreover have "op_runs pairings_kept w (invoke E h r p)" for w p
    by (rule runs_mono [OF nr_invoke same_rows_kept(2)])
  ultimately show ?thesis
    unfolding answer_request_def Let_def
    by (intro pk.runs_ret pk.runs_raise pk.runs_lift_then pk.runs_let pk.runs_option pk.runs_prod pk.runs_reads pk.runs_then)
qed

lemma ak_handle: "op_runs answers_kept w (handle E h m)"
  unfolding handle_def
  by (intro ak.runs_lift_then ak.runs_if ak.runs_then ak.runs_transaction ak.runs_caught ak_answer ak.runs_ret)

lemma pk_handle: "op_runs pairings_kept w (handle E h m)"
  unfolding handle_def
  by (intro pk.runs_lift_then pk.runs_if pk.runs_then pk.runs_transaction pk.runs_caught pk_answer pk.runs_ret)

lemma sb_deliver: "op_runs same_bridge w (deliver_response E h send r ro)"
  unfolding deliver_response_def
  by (intro sb.runs_transaction sb.runs_reads sb.runs_prod sb.runs_lift_then sb.runs_option sb.runs_if sb.runs_ret sb.runs_raise)

lemma ak_same: "same_bridge w v \<Longrightarrow> answers_kept w v" "same_bridge w v \<Longrightarrow> pairings_kept w v"
  by (simp_all add: same_bridge_rows same_rows_kept)

lemma ak_process: "op_runs answers_kept w (process_control E h send ack m)"
  unfolding process_control_def
  by (intro ak.runs_then ak_handle runs_mono [OF sb_flush ak_same(1)] runs_mono [OF sb_deliver ak_same(1)]
      ak.runs_lift_then ak.runs_ret)

lemma pk_process: "op_runs pairings_kept w (process_control E h send ack m)"
  unfolding process_control_def
  by (intro pk.runs_then pk_handle runs_mono [OF sb_flush ak_same(2)] runs_mono [OF sb_deliver ak_same(2)]
      pk.runs_lift_then pk.runs_ret)

lemma ak_pairing: "op_runs answers_kept w (put_pairing c p)"
  by (cases w) (auto simp: op_runs_def put_pairing_def op_bridge_def answers_kept_def eq_row.table_refl)

lemma pk_revoked:
  assumes "tget c (pairings (fst w)) = Some p"
  shows "op_runs pairings_kept w (put_pairing c (p\<lparr>pg_revoked := True\<rparr>))"
  using assms
  by (cases w) (auto simp: op_runs_def put_pairing_def op_bridge_def pairings_kept_def pairing_le_def
      intro!: pairing_row.table_put)

lemma pk_revoke: "op_runs pairings_kept w (revoke_console c)"
  unfolding revoke_console_def
  by (intro pk.runs_lift_then pk.runs_transaction pk.runs_reads pk.runs_prod pk.runs_option pk.runs_raise pk_revoked)
    simp

lemma ak_pair: "op_runs answers_kept w (pair_console E c o' ms e)"
  unfolding pair_console_def Let_def
  by (intro ak.runs_lift_then ak.runs_if ak.runs_raise ak.runs_then ak.runs_transaction ak_pairing ak.runs_ret
      runs_mono [OF sb_store ak_same(1)])

lemma ak_revoke: "op_runs answers_kept w (revoke_console c)"
  unfolding revoke_console_def
  by (intro ak.runs_lift_then ak.runs_transaction ak.runs_reads ak.runs_prod ak.runs_option ak.runs_raise ak_pairing)

lemma ak_serve: "answers_kept w (bridge_serve E h send ack cmd w)"
proof -
  have run: "answers_kept w (snd (m w))" if "op_runs answers_kept w m" for m :: "'x op"
    using that by (metis prod.collapse runsD)
  show ?thesis
    by (cases cmd) (simp_all add: run ak_pair ak_revoke ak_handle ak_process runs_mono [OF nr_turns(1) same_rows_kept(1)]
        runs_mono [OF nr_turns(2) same_rows_kept(1)] runs_mono [OF nr_turns(3) same_rows_kept(1)]
        runs_mono [OF nr_turns(4) same_rows_kept(1)])
qed

lemma pk_serve: "\<forall>c o' ms e. cmd \<noteq> BPair c o' ms e \<Longrightarrow> pairings_kept w (bridge_serve E h send ack cmd w)"
proof -
  assume cmd: "\<forall>c o' ms e. cmd \<noteq> BPair c o' ms e"
  have run: "pairings_kept w (snd (m w))" if "op_runs pairings_kept w m" for m :: "'x op"
    using that by (metis prod.collapse runsD)
  show ?thesis
    using cmd
    by (cases cmd) (simp_all add: run pk_revoke pk_handle pk_process runs_mono [OF nr_turns(1) same_rows_kept(2)]
        runs_mono [OF nr_turns(2) same_rows_kept(2)] runs_mono [OF nr_turns(3) same_rows_kept(2)]
        runs_mono [OF nr_turns(4) same_rows_kept(2)])
qed

lemma run_answers_kept: "bridge_run H p w v \<Longrightarrow> answers_kept w v"
proof (induction rule: bridge_run.induct)
  case (serve w v E h cmd send ack)
  show ?case by (rule ak.world_trans [OF serve.IH ak_serve])
qed (auto intro: ak.world_refl ak.world_trans bridge_same)

lemma run_pairings_kept: "bridge_run H p w v \<Longrightarrow> \<not> p \<Longrightarrow> pairings_kept w v"
proof (induction rule: bridge_run.induct)
  case (serve w v E h cmd send ack)
  then show ?case using pk.world_trans [OF _ pk_serve] by blast
qed (auto intro: pk.world_refl pk.world_trans bridge_same)

end
