(* ===== verification/Scenario_Bridge.thy ===== *)
theory Scenario_Bridge
  imports Bridge_Laws Scenario_Base Json_Laws
begin

text \<open>A concrete host, console and control request, and what the bridge makes of them.\<close>

definition env_b :: env where
  "env_b = env0\<lparr>local_urn := Some ''urn:agent:acme:me''\<rparr>"

definition console_b :: string where
  "console_b = ''urn:agent:acme:web''"

definition host_b :: host where
  "host_b = \<lparr>ho_conversations = True, ho_safety = True, ho_bound = Some ''me'', ho_handlers = [],
     ho_render = (\<lambda>_. JNull), ho_position = (\<lambda>_. Inr None), ho_casefold = (\<lambda>x. x), ho_width = (\<lambda>_. 0), ho_detail = (\<lambda>_. 0)\<rparr>"

definition deadline_b :: string where "deadline_b = ''1970-01-01T00:20:00Z''"

definition body_b :: fields where
  "body_b = [(''agent_urn'', JStr ''urn:agent:acme:me''), (''console_urn'', JStr console_b),
     (''deadline'', JStr deadline_b), (''method'', JStr ''conversation.get''),
     (''params'', JObj [(''conversation_id'', JStr ''c'')]), (''protocol'', JStr control_protocol),
     (''request_id'', JStr ''r1''), (''type'', JStr ''request'')]"

definition message_b :: json where
  "message_b = JObj [(''kind'', JStr ''control.request''), (''text'', JStr (canonical (JObj body_b))),
     (''sender_urn'', JStr console_b), (''message_id'', JStr ''r1''), (''conversation_id'', JStr ''control:r1''),
     (''deadline'', JStr deadline_b)]"

definition request_b :: request where
  "request_b = \<lparr>rr_id = ''r1'', rr_method = ''conversation.get'',
     rr_params = [(''conversation_id'', JStr ''c'')], rr_console = console_b,
     rr_agent = ''urn:agent:acme:me'', rr_deadline = deadline_b, rr_body = body_b\<rparr>"

lemma read_body_b: "json_loads (canonical (JObj body_b)) = Some (JObj body_b)"
proof -
  have "plain (JObj body_b)" by (simp add: plain.simps body_b_def console_b_def deadline_b_def)
  moreover have "reloaded (JObj body_b) = JObj body_b" by code_simp
  ultimately show ?thesis by (simp add: loads_canonical)
qed

lemma text_b: "control_text [(''kind'', JStr ''control.request''), (''text'', JStr (canonical (JObj body_b))),
     (''sender_urn'', JStr console_b), (''message_id'', JStr ''r1''), (''conversation_id'', JStr ''control:r1''),
     (''deadline'', JStr deadline_b)] = Inr (canonical (JObj body_b))"
proof -
  have "list_all (\<lambda>c. byte c < 128) (canonical (JObj body_b))" "length (canonical (JObj body_b)) < 1000" by code_simp+
  then show ?thesis by (simp add: control_text_def jget_def encodable_ascii)
qed

lemma fields_b:
  "jfield ''request_id'' body_b = JStr ''r1''" "jfield ''console_urn'' body_b = JStr console_b"
  "jfield ''agent_urn'' body_b = JStr ''urn:agent:acme:me''" "jfield ''deadline'' body_b = JStr deadline_b"
  by (simp_all add: body_b_def jfield_def jget_def)

lemma parts_b:
  "control_body (canonical (JObj body_b)) = Inr body_b"
  "remote_id (JStr ''r1'') = Inr ''r1''"
  "method_and_params body_b = Inr (''conversation.get'', [(''conversation_id'', JStr ''c'')])"
  "remote_urn (JStr console_b) = Inr console_b"
  "remote_urn (JStr ''urn:agent:acme:me'') = Inr ''urn:agent:acme:me''"
  "remote_instant_json (JStr deadline_b) = Inr (1200 * sec)"
  subgoal unfolding control_body_def read_body_b by code_simp
  by code_simp+

lemma parse_b: "parse_request env_b message_b = Inr request_b"
  by (simp add: parse_request_def message_b_def text_b fields_b parts_b request_b_def field_is_def jget_def
      env_b_def env0_def as_str_def json_eq_def sec_def)

definition pairing_b :: pairing where
  "pairing_b = \<lparr>pg_console = console_b, pg_owner = ''me'', pg_methods = [''conversation.get'', ''conversation.send''],
      pg_expires = ''1970-01-02T00:00:00Z'', pg_revoked = False, pg_at = 1000 * sec\<rparr>"

definition world_b :: world where
  "world_b = (empty_bridge\<lparr>pairings := [(console_b, pairing_b)]\<rparr>, empty_store)"

lemma paired_b:
  "fst (snd (pair_console env_b console_b ''me'' [''conversation.get'', ''conversation.send''] ''1970-01-02T00:00:00Z''
      (empty_bridge, empty_store))) = fst world_b"
  by code_simp

lemma authorized_b: "authorized env_b host_b (fst world_b) console_b ''conversation.get'' = Inr pairing_b"
  by code_simp

definition result_b :: json where
  "result_b = JObj [(''conversation_id'', JStr ''c''), (''turns'', JArr []),
     (''history'', JObj [(''limit'', JInt 100), (''returned'', JInt 0), (''truncated'', JBool False)])]"

definition response_b :: control_response where
  "response_b = response_of env_b request_b (canonical (response_fields request_b ''result'' result_b))"

lemma invoke_b: "invoke env_b host_b request_b pairing_b world_b = (Inr result_b, world_b)"
  by code_simp

lemma result_response_b: "result_response env_b request_b result_b = Inr response_b"
proof -
  let ?j = "response_fields request_b ''result'' result_b"
  have "finite_json ?j" by code_simp
  moreover have ascii: "list_all (\<lambda>c. byte c < 128) (canonical ?j)" "length (canonical ?j) < 2000" by code_simp+
  ultimately have "canonical_text ?j = Inr (canonical ?j)" by (simp add: canonical_text_def encodable_ascii)
  then show ?thesis using ascii(2) by (simp add: result_response_def response_b_def)
qed

definition answered_b :: world where
  "answered_b = (fst world_b\<lparr>answered := [(''h'', \<lparr>rc_fingerprint = ''h'', rc_owner = ''me'', rc_response = response_b\<rparr>)]\<rparr>,
     empty_store)"

lemma sha_b: "sha env_b x = ''h''"
  by (simp add: env_b_def env0_def hash0_def)

lemma fingerprint_b: "request_fingerprint env_b request_b = Inr ''h''"
proof -
  have "finite_json (JObj (rr_body request_b))" by code_simp
  moreover have "list_all (\<lambda>c. byte c < 128) (canonical (JObj (rr_body request_b)))" by code_simp
  ultimately show ?thesis by (simp add: request_fingerprint_def canonical_text_def encodable_ascii sha_b)
qed

lemma deadline_rule_b: "remote_instant deadline_b = Inr (1200 * sec)"
  by code_simp

lemma request_sel_b:
  "rr_id request_b = ''r1''" "rr_deadline request_b = deadline_b" "rr_console request_b = console_b"
  "rr_method request_b = ''conversation.get''"
  by (simp_all add: request_b_def)

lemma answer_b: "answer_request env_b host_b request_b ''h'' world_b = (Inr response_b, answered_b)"
  using answer_fresh [of env_b host_b "fst world_b" request_b pairing_b empty_store result_b "fst world_b" empty_store response_b "''h''"]
    authorized_b invoke_b result_response_b
  by (simp add: request_sel_b world_b_def answered_b_def empty_bridge_def pairing_b_def request_key_def sha_b)

lemma handle_b: "handle env_b host_b message_b world_b = (Inr (Some response_b), answered_b)"
proof -
  have now: "now env_b = 1000 * sec" by (simp add: env_b_def env0_def)
  have "bridge_transaction (caught (failure_response env_b request_b) (answer_request env_b host_b request_b ''h'')) world_b
      = (Inr response_b, answered_b)"
    using answer_b by (simp add: bridge_transaction_def caught_def world_b_def)
  then show ?thesis
    by (simp add: handle_eq parse_b request_sel_b deadline_rule_b now sec_def fingerprint_b)
qed

end
