(* ===== verification/Laws_Bridge.thy ===== *)
theory Laws_Bridge
  imports Scenario_Bridge
begin

text \<open>
  What the paired control channel promises: the bridge changes the store only by the store's own
  operations; nothing is done or told without a pairing in force; an answered request is never carried
  out again; a revoked console is out; a result leaves only to the owner it was computed for.
\<close>

section \<open>Errors as answers\<close>

definition error_answer :: "env \<Rightarrow> request \<Rightarrow> control_response \<Rightarrow> bool" where
  "error_answer E r resp \<longleftrightarrow> (\<exists>code msg. error_response E r code msg = Inr resp)"

definition in_scope :: "env \<Rightarrow> host \<Rightarrow> bridge \<Rightarrow> request \<Rightarrow> bool" where
  "in_scope E h b r \<longleftrightarrow> (\<exists>p t. tget (rr_console r) (pairings b) = Some p \<and> \<not> pg_revoked p
     \<and> remote_instant (pg_expires p) = Inr t \<and> now E < t
     \<and> (ho_bound h = None \<or> ho_bound h = Some (pg_owner p)) \<and> rr_method r \<in> set (pg_methods p))"

lemma authorized_scope:
  "(\<exists>p. authorized E h b (rr_console r) (rr_method r) = Inr p) \<longleftrightarrow> in_scope E h b r"
  by (auto simp: authorized_def in_scope_def in_force_def remote_refuse_def split: option.splits if_splits)

lemma authorized_pairing:
  "authorized E h b c meth = Inr p \<Longrightarrow> tget c (pairings b) = Some p"
  by (auto simp: authorized_def remote_refuse_def split: option.splits if_splits)

text \<open>What the transaction around an answer leaves: the answer's own effect, or nothing.\<close>

lemma settled_unauthorized:
  assumes "authorized E h b (rr_console r) (rr_method r) = Inl e"
    "bridge_transaction (caught (failure_response E r) (answer_request E h r fp)) (b, s) = (x, v)"
  shows "v = (b, s)" "x = Inr resp \<Longrightarrow> failure_response E r e = Inr resp"
  using assms(2)
  by (auto simp: bridge_transaction_def caught_def answer_refused [OF assms(1)] split: sum.splits if_splits prod.splits)

lemma settled_repeated:
  assumes "authorized E h b (rr_console r) (rr_method r) = Inr p"
    "tget (request_key E (rr_console r) (rr_id r)) (answered b) = Some c"
    "bridge_transaction (caught (failure_response E r) (answer_request E h r fp)) (b, s) = (x, v)"
  shows "v = (b, s)" "x = Inr resp \<Longrightarrow> resp = rc_response c \<or> error_answer E r resp"
proof -
  obtain y where run: "answer_request E h r fp (b, s) = (y, (b, s))"
    using answer_repeated(1) [OF assms(1,2), of fp s] by (metis prod.collapse)
  show "v = (b, s)"
    using assms(3) run by (auto simp: bridge_transaction_def caught_def split: sum.splits if_splits)
  assume "x = Inr resp"
  then show "resp = rc_response c \<or> error_answer E r resp"
    using assms(3) run answer_repeated(2) [OF assms(1,2), of fp s]
    by (auto simp: bridge_transaction_def caught_def error_answer_def failure_response_def
        split: sum.splits if_splits)
qed

text \<open>An answer that is no error is on record when \<open>handle\<close> returns.\<close>

lemma handled_recorded:
  assumes "handle E h m (b, s) = (Inr (Some resp), (b', s'))" "parse_request E m = Inr r" "\<not> error_answer E r resp"
  shows "\<exists>c. tget (request_key E (rr_console r) (rr_id r)) (answered b') = Some c \<and> rc_response c = resp"
proof -
  from assms(1,2) obtain fp where
    run: "bridge_transaction (caught (failure_response E r) (answer_request E h r fp)) (b, s) = (Inr resp, (b', s'))"
    by (auto simp: handle_eq split: sum.splits if_splits prod.splits)
  obtain y u t where a: "answer_request E h r fp (b, s) = (y, (u, t))" by (metis prod.exhaust)
  show ?thesis
  proof (cases y)
    case (Inl e)
    then have "failure_response E r e = Inr resp"
      using run a by (auto simp: bridge_transaction_def caught_def split: sum.splits if_splits)
    then have "error_answer E r resp" by (auto simp: error_answer_def failure_response_def)
    with assms(3) show ?thesis by blast
  next
    case (Inr z)
    then have "z = resp" "u = b'"
      using run a by (auto simp: bridge_transaction_def caught_def)
    then show ?thesis using answer_recorded [of E h r fp b s resp b' t] a Inr by blast
  qed
qed

section \<open>The properties\<close>




text \<open>
  C19: Nothing is changed and no result is told unless the request is in time and its console holds a
  pairing that is not revoked, not expired, belongs to the host's principal and lists the method; in
  every other case both databases stay as they were and an answer is an error.
\<close>

theorem only_paired_answered:
  assumes "handle E h m (b, s) = (x, v)"
  shows "v = (b, s) \<and> (\<forall>resp. x = Inr (Some resp) \<longrightarrow> (\<exists>r. parse_request E m = Inr r \<and> error_answer E r resp))
    \<or> (\<exists>r d. parse_request E m = Inr r \<and> remote_instant (rr_deadline r) = Inr d \<and> now E < d \<and> in_scope E h b r)"
proof (cases "\<exists>r d fp. parse_request E m = Inr r \<and> remote_instant (rr_deadline r) = Inr d \<and> now E < d
    \<and> request_fingerprint E r = Inr fp")
  case False
  then have "v = (b, s) \<and> (\<forall>resp. x \<noteq> Inr (Some resp))"
    using assms by (auto simp: handle_eq split: sum.splits if_splits)
  then show ?thesis by blast
next
  case True
  then obtain r d fp where r: "parse_request E m = Inr r" "remote_instant (rr_deadline r) = Inr d" "now E < d"
    "request_fingerprint E r = Inr fp" by blast
  show ?thesis
  proof (cases "authorized E h b (rr_console r) (rr_method r)")
    case (Inr p)
    then show ?thesis using r authorized_scope by blast
  next
    case (Inl e)
    obtain y u where run: "bridge_transaction (caught (failure_response E r) (answer_request E h r fp)) (b, s) = (y, u)"
      by (metis prod.exhaust)
    have "u = (b, s)" "\<And>resp. y = Inr resp \<Longrightarrow> error_answer E r resp"
      using settled_unauthorized [OF Inl run] by (auto simp: error_answer_def failure_response_def)
    then show ?thesis using assms r run by (auto simp: handle_eq split: sum.splits)
  qed
qed

theorem only_paired_answered_witness:
  "in_scope env_b host_b (fst world_b) request_b"
proof -
  have run: "handle env_b host_b message_b (fst world_b, empty_store) = (Inr (Some response_b), answered_b)"
    using handle_b by (simp add: world_b_def)
  have "answered_b \<noteq> (fst world_b, empty_store)"
    by (simp add: answered_b_def world_b_def empty_bridge_def)
  with only_paired_answered [OF run] parse_b show ?thesis by auto
qed

text \<open>
  C21: A request that got a result is never carried out again: after any further run of the bridge, a
  request of the same console under the same identifier changes nothing, and it is answered with the
  recorded result or with an error.
\<close>

theorem answered_once:
  assumes "handle E h m w = (Inr (Some resp), v)" "parse_request E m = Inr r" "\<not> error_answer E r resp"
    and "bridge_run (sha E) p v (b, s)"
    and "sha E' = sha E" "parse_request E' m' = Inr r'" "rr_console r' = rr_console r" "rr_id r' = rr_id r"
    and "handle E' h' m' (b, s) = (x, u)"
  shows "u = (b, s) \<and> (\<forall>resp'. x = Inr (Some resp') \<longrightarrow> resp' = resp \<or> error_answer E' r' resp')"
proof -
  obtain b0 s0 b1 s1 where wv: "w = (b0, s0)" "v = (b1, s1)" by (metis prod.exhaust)
  obtain c where c: "tget (request_key E (rr_console r) (rr_id r)) (answered b1) = Some c" "rc_response c = resp"
    using handled_recorded assms(1-3) wv by blast
  have key: "request_key E' (rr_console r') (rr_id r') = request_key E (rr_console r) (rr_id r)"
    by (simp add: request_key_def assms(5,7,8))
  have kept: "tget (request_key E' (rr_console r') (rr_id r')) (answered b) = Some c"
    using run_answers_kept [OF assms(4)] c(1) wv key by (auto simp: answers_kept_def table_evolves_def)
  show ?thesis
  proof (cases "\<exists>d fp. remote_instant (rr_deadline r') = Inr d \<and> now E' < d \<and> request_fingerprint E' r' = Inr fp")
    case False
    then show ?thesis using assms(6,9) by (auto simp: handle_eq split: sum.splits if_splits)
  next
    case True
    then obtain d fp where r': "remote_instant (rr_deadline r') = Inr d" "now E' < d" "request_fingerprint E' r' = Inr fp"
      by blast
    obtain y u' where run: "bridge_transaction (caught (failure_response E' r') (answer_request E' h' r' fp)) (b, s) = (y, u')"
      by (metis prod.exhaust)
    have "u' = (b, s) \<and> (\<forall>z. y = Inr z \<longrightarrow> z = resp \<or> error_answer E' r' z)"
    proof (cases "authorized E' h' b (rr_console r') (rr_method r')")
      case (Inl e)
      from settled_unauthorized [OF Inl run] show ?thesis by (auto simp: error_answer_def failure_response_def)
    next
      case (Inr p)
      from settled_repeated [OF Inr kept run] c(2) show ?thesis by blast
    qed
    then show ?thesis using assms(6,9) r' run by (auto simp: handle_eq split: sum.splits)
  qed
qed

lemma reloaded_keys: "\<exists>xs. reloaded (JObj kvs) = JObj xs \<and> set (jkeys xs) = fst ` set kvs"
  by (rule exI [of _ "map (\<lambda>(k, v). (k, reloaded v)) (sort_items kvs)"])
    (simp only: reloaded_object jkeys_def sort_items_def set_map set_sort image_image split_beta fst_conv simp_thms)

lemma told_keys:
  "\<exists>xs. reloaded (response_fields r k j) = JObj xs \<and> set (jkeys xs) = {''protocol'', ''request_id'', ''method'',
     ''agent_urn'', ''console_urn'', ''deadline'', ''type'', k}"
  using reloaded_keys [of "[(''protocol'', JStr control_protocol), (''request_id'', JStr (rr_id r)),
     (''method'', JStr (rr_method r)), (''agent_urn'', JStr (rr_agent r)), (''console_urn'', JStr (rr_console r)),
     (''deadline'', JStr (rr_deadline r)), (''type'', JStr ''response''), (k, j)]"]
  by (simp add: response_fields_def del: reloaded.simps)

lemma result_is_no_error:
  assumes "plain j" "cr_text resp = canonical (response_fields r ''result'' j)"
  shows "\<not> error_answer E r resp"
proof
  assume "error_answer E r resp"
  then obtain code msg where eq: "canonical (response_fields r ''error'' (error_json code msg))
      = canonical (response_fields r ''result'' j)"
    using assms(2)
    by (auto simp: error_answer_def error_response_def response_of_def canonical_text_def refuse_def split: if_splits)
  have "plain (response_fields r ''error'' (error_json code msg))" "plain (response_fields r ''result'' j)"
    using assms(1) by (simp_all add: response_fields_def error_json_def)
  from canonical_determines [OF this eq]
  have "reloaded (response_fields r ''error'' (error_json code msg)) = reloaded (response_fields r ''result'' j)" ..
  moreover from told_keys [of r "''error''" "error_json code msg"] obtain xs
    where x: "reloaded (response_fields r ''error'' (error_json code msg)) = JObj xs" "set (jkeys xs) =
      {''protocol'', ''request_id'', ''method'', ''agent_urn'', ''console_urn'', ''deadline'', ''type'', ''error''}"
    by (elim exE conjE)
  moreover from told_keys [of r "''result''" j] obtain ys
    where y: "reloaded (response_fields r ''result'' j) = JObj ys" "set (jkeys ys) =
      {''protocol'', ''request_id'', ''method'', ''agent_urn'', ''console_urn'', ''deadline'', ''type'', ''result''}"
    by (elim exE conjE)
  ultimately have "JObj xs = JObj ys" by (simp only:)
  then have "xs = ys" by (simp only: json.inject)
  moreover have "''error'' \<in> set (jkeys xs)" unfolding x(2) by (simp only: insert_iff simp_thms)
  ultimately show False using y(2) by simp
qed

lemma no_error_b: "\<not> error_answer env_b request_b response_b"
  by (rule result_is_no_error [of result_b]) (simp_all add: response_b_def response_of_def result_b_def)

lemma handle_once_b: "handle env_b host_b message_b (fst world_b, empty_store) = (Inr (Some response_b), answered_b)"
  using handle_b by (simp add: world_b_def)

theorem answered_once_witness: "snd (handle env_b host_b message_b answered_b) = answered_b"
proof -
  obtain x u where again: "handle env_b host_b message_b (fst answered_b, snd answered_b) = (x, u)"
    by (metis prod.exhaust)
  have "bridge_run (sha env_b) False answered_b (fst answered_b, snd answered_b)" by (simp add: stay)
  from answered_once [OF handle_b parse_b no_error_b this refl parse_b refl refl again] again
  show ?thesis by simp
qed

definition not_paired_text :: string where
  "not_paired_text = ''This console has no current local pairing''"

lemma revoked_out:
  assumes "revoke_console c w = (Inr (), v)" "bridge_run H False v (b, s)"
  shows "authorized E h b c meth = Inl (RemoteError ''not_paired'' not_paired_text)"
proof -
  obtain b0 s0 b1 s1 where wv: "w = (b0, s0)" "v = (b1, s1)" by (metis prod.exhaust)
  from assms(1) obtain q where q: "tget c (pairings b1) = Some q" "pg_revoked q"
    unfolding wv
    by (auto simp: revoke_console_def op_simps bridge_transaction_def put_pairing_def op_bridge_def
        split: sum.splits option.splits)
  have "pairings_kept v (b, s)" by (rule run_pairings_kept [OF assms(2)]) simp
  then obtain q' where "tget c (pairings b) = Some q'" "pg_revoked q'"
    using q wv by (force simp: pairings_kept_def table_evolves_def pairing_le_def)
  then show ?thesis by (simp add: authorized_def in_force_def remote_refuse_def not_paired_text_def)
qed

text \<open>
  C22: Once a console is revoked, and as long as no console is paired again, every request of it is
  refused as not paired and changes nothing.
\<close>

theorem revocation_stops_console:
  assumes "revoke_console c w = (Inr (), v)" "bridge_run H False v (b, s)"
    and "parse_request E m = Inr r" "rr_console r = c" "handle E h m (b, s) = (x, u)"
  shows "u = (b, s) \<and> (\<forall>resp. x = Inr (Some resp) \<longrightarrow> error_response E r ''not_paired'' not_paired_text = Inr resp)"
proof -
  have out: "authorized E h b (rr_console r) (rr_method r) = Inl (RemoteError ''not_paired'' not_paired_text)"
    unfolding assms(4) by (rule revoked_out [OF assms(1,2)])
  have told: "failure_response E r (RemoteError ''not_paired'' not_paired_text)
      = error_response E r ''not_paired'' not_paired_text"
  proof -
    have "pytake 500 not_paired_text = not_paired_text" by code_simp
    then show ?thesis by (simp add: failure_response_def)
  qed
  show ?thesis
    using assms(3,5) settled_unauthorized [OF out, where s = s]
    by (auto simp: handle_eq told split: sum.splits if_splits prod.splits)
qed

definition revoked_b :: world where
  "revoked_b = (fst world_b\<lparr>pairings := [(console_b, pairing_b\<lparr>pg_revoked := True\<rparr>)]\<rparr>, empty_store)"

lemma revoke_b: "revoke_console console_b world_b = (Inr (), revoked_b)"
proof -
  have "is_urn console_b" by code_simp
  then show ?thesis
    by (simp add: validate_urn_def revoke_console_def op_simps bridge_transaction_def put_pairing_def op_bridge_def world_b_def
        revoked_b_def tget_def empty_bridge_def)
qed

theorem revocation_stops_console_witness: "snd (handle env_b host_b message_b revoked_b) = revoked_b"
proof -
  obtain x u where run: "handle env_b host_b message_b (fst revoked_b, snd revoked_b) = (x, u)"
    by (metis prod.exhaust)
  have "bridge_run hash0 False revoked_b (fst revoked_b, snd revoked_b)" by (simp add: stay)
  from revocation_stops_console [OF revoke_b this parse_b request_sel_b(3) run] run
  show ?thesis by simp
qed

text \<open>
  C24: A result leaves for the helper only before its deadline and only while the console's pairing
  still stands, for the method, with the owner for whom the answer is on record; otherwise what leaves is
  an error, and after the deadline nothing does.
\<close>

theorem results_need_pairing:
  assumes "deliverable E h r (Some resp) b = Inr (Some out)"
  shows "(\<exists>d. remote_instant (rr_deadline r) = Inr d \<and> now E < d) \<and>
    (error_answer E r out \<or> out = resp \<and> carries_result resp = Inr False
     \<or> out = resp \<and> in_scope E h b r \<and> (\<exists>p c. tget (rr_console r) (pairings b) = Some p
          \<and> tget (request_key E (rr_console r) (rr_id r)) (answered b) = Some c \<and> rc_owner c = pg_owner p))"
proof -
  from assms obtain d res where d: "remote_instant (rr_deadline r) = Inr d" "now E < d"
    and res: "carries_result resp = Inr res"
    by (auto simp: deliverable_def split: if_splits)
  show ?thesis
  proof (cases "res \<and> owner_unchanged E h r b = Inr ()")
    case False
    then show ?thesis
      using assms d res
      by (auto simp: deliverable_def error_answer_def split: if_splits sum.splits exn.splits)
  next
    case True
    then obtain p where p: "authorized E h b (rr_console r) (rr_method r) = Inr p"
      by (auto simp: owner_unchanged_def)
    then have sc: "in_scope E h b r" using authorized_scope by blast
    have out: "out = resp" using assms True d res by (auto simp: deliverable_def)
    show ?thesis
      using True p authorized_pairing [OF p] sc out d
      by (auto simp: owner_unchanged_def remote_refuse_def split: option.splits if_splits)
  qed
qed

lemma delivered_b: "deliverable env_b host_b request_b (Some response_b) (fst answered_b) = Inr (Some response_b)"
proof -
  have p: "plain (response_fields request_b ''result'' result_b)"
    by (simp add: response_fields_def result_b_def)
  have res: "carries_result response_b = Inr True"
  proof -
    from told_keys [of request_b "''result''" result_b] obtain xs
      where xs: "reloaded (response_fields request_b ''result'' result_b) = JObj xs" "set (jkeys xs) =
        {''protocol'', ''request_id'', ''method'', ''agent_urn'', ''console_urn'', ''deadline'', ''type'', ''result''}"
      by (elim exE conjE)
    have "''result'' \<in> set (jkeys xs)" unfolding xs(2) by (simp only: insert_iff simp_thms)
    with xs(1) show ?thesis
      by (simp add: carries_result_def response_b_def response_of_def loads_canonical [OF p] del: reloaded.simps)
  qed
  have "authorized env_b host_b (fst answered_b) console_b ''conversation.get'' = Inr pairing_b"
    using authorized_b by (simp add: authorized_def answered_b_def)
  then have "owner_unchanged env_b host_b request_b (fst answered_b) = Inr ()"
    by (simp add: owner_unchanged_def request_sel_b request_key_def sha_b answered_b_def tget_def pairing_b_def)
  moreover have "now env_b = 1000 * sec" by (simp add: env_b_def env0_def)
  ultimately show ?thesis
    by (simp add: deliverable_def request_sel_b deadline_rule_b res sec_def)
qed

theorem results_need_pairing_witness: "error_answer env_b request_b response_b
    \<or> carries_result response_b = Inr False \<or> in_scope env_b host_b (fst answered_b) request_b"
  using results_need_pairing [OF delivered_b] by blast

end
