(* ===== verification/Laws_Views.thy ===== *)
theory Laws_Views
  imports Scenario_Base
begin

text \<open>Following the cursor of the task history shows every event exactly once, in order.\<close>

section \<open>Lists in strict order\<close>

lemma split_at:
  fixes f :: "'a \<Rightarrow> 'b :: linorder"
  assumes "sorted (map f xs)"
  shows "filter (\<lambda>m. f m \<le> c) xs = take (length (filter (\<lambda>m. f m \<le> c) xs)) xs
    \<and> filter (\<lambda>m. c < f m) xs = drop (length (filter (\<lambda>m. f m \<le> c) xs)) xs"
  using assms
proof (induction xs)
  case (Cons x xs)
  show ?case
  proof (cases "f x \<le> c")
    case True
    then show ?thesis using Cons by auto
  next
    case False
    then have "\<forall>y \<in> set xs. \<not> f y \<le> c" using Cons.prems by auto
    then have "filter (\<lambda>m. f m \<le> c) xs = []" "filter (\<lambda>m. c < f m) xs = xs"
      by (auto simp: filter_empty_conv intro!: filter_True)
    then show ?thesis using False by simp
  qed
qed simp

lemma upto_nth:
  fixes f :: "'a \<Rightarrow> 'b :: linorder"
  assumes "sorted_wrt (\<lambda>a b. f a < f b) xs" "p < length xs"
  shows "length (filter (\<lambda>m. f m \<le> f (xs ! p)) xs) = Suc p"
proof -
  have "filter (\<lambda>m. f m \<le> f (xs ! p)) (take (Suc p) xs) = take (Suc p) xs"
    using assms by (fastforce intro!: filter_True simp: in_set_conv_nth sorted_wrt_iff_nth_less less_Suc_eq)
  moreover have "filter (\<lambda>m. f m \<le> f (xs ! p)) (drop (Suc p) xs) = []"
    using assms by (fastforce simp: filter_empty_conv in_set_conv_nth sorted_wrt_iff_nth_less not_le)
  moreover have "filter P xs = filter P (take (Suc p) xs) @ filter P (drop (Suc p) xs)" for P
    by (metis append_take_drop_id filter_append)
  ultimately show ?thesis using assms(2) by simp
qed

lemma strict_sorted_map: "sorted_wrt (\<lambda>a b. f a < (f b :: 'b :: linorder)) xs \<longleftrightarrow> sorted (map f xs) \<and> distinct (map f xs)"
  by (simp add: strict_sorted_iff sorted_wrt_map [symmetric])

lemma after_nth:
  fixes f :: "'a \<Rightarrow> 'b :: linorder"
  assumes "sorted_wrt (\<lambda>a b. f a < f b) xs" "p < length xs"
  shows "filter (\<lambda>m. f (xs ! p) < f m) xs = drop (Suc p) xs"
  using split_at [of f xs "f (xs ! p)"] upto_nth [OF assms] assms(1) by (simp add: strict_sorted_map)

section \<open>A page\<close>

lemma position_fitted [simp]: "event_position (fitted width e) = event_position e"
  by (simp add: fitted_def shorten_def event_position_def split: event_source.split)

lemma page_takes:
  "\<exists>n. event_page width m first used es = map (fitted width) (take n es) \<and> n \<le> m \<and> n \<le> length es
    \<and> (first \<longrightarrow> 0 < m \<longrightarrow> es \<noteq> [] \<longrightarrow> 0 < n)"
proof (induction width m first used es rule: event_page.induct)
  case (3 width n first used e es)
  let ?e = "fitted width e"
  show ?case
  proof (cases "\<not> first \<and> event_bytes < used + width ?e")
    case True
    then show ?thesis by (intro exI [of _ 0]) (simp add: Let_def)
  next
    case False
    from 3 [OF refl refl False] obtain k where "event_page width n False (used + width ?e) es = map (fitted width) (take k es)"
      "k \<le> n" "k \<le> length es" by blast
    then show ?thesis using False by (intro exI [of _ "Suc k"]) (auto simp: Let_def)
  qed
qed auto

fun event_pages :: "nat \<Rightarrow> (task_event \<Rightarrow> nat) \<Rightarrow> nat \<Rightarrow> (time \<times> string) option \<Rightarrow> task_event list \<Rightarrow> task_event list" where
  "event_pages 0 width limit after es = []"
| "event_pages (Suc k) width limit after es = (let l = event_list_of width limit after es in
     el_items l @ (case el_next l of None \<Rightarrow> [] | Some p \<Rightarrow> event_pages k width limit (Some p) es))"

lemma pages_drop:
  assumes strict: "sorted_wrt (\<lambda>a b. event_position a < event_position b) ys" and ys: "ys = sort_key event_position es"
    and limit: "0 < limit"
  shows "i \<le> length ys \<Longrightarrow> length ys - i \<le> k \<Longrightarrow>
    filter (\<lambda>e. case after of None \<Rightarrow> True | Some p \<Rightarrow> p < event_position e) ys = drop i ys \<Longrightarrow>
    event_pages k width limit after es = map (fitted width) (drop i ys)"
proof (induction k arbitrary: i after)
  case (Suc k)
  let ?rest = "drop i ys"
  obtain n where n: "event_page width limit True 0 ?rest = map (fitted width) (take n ?rest)" "n \<le> length ?rest"
    "?rest \<noteq> [] \<Longrightarrow> 0 < n"
    using page_takes [of width limit True 0 ?rest] limit by blast
  have l: "event_list_of width limit after es = \<lparr>el_items = map (fitted width) (take n ?rest),
      el_next = (if n < length ?rest then Some (event_position (last (map (fitted width) (take n ?rest)))) else None)\<rparr>"
    using n(2) unfolding event_list_of_def Let_def ys [symmetric] Suc.prems(3) n(1) by simp
  show ?case
  proof (cases "n < length ?rest")
    case False
    then show ?thesis using n(2) by (simp add: l)
  next
    case True
    then have pos: "0 < n" and in_range: "i + n - 1 < length ys" using n(3) by auto
    have "last (map (fitted width) (take n ?rest)) = fitted width (ys ! (i + n - 1))"
      using pos True by (simp add: last_conv_nth)
    then have nxt: "el_next (event_list_of width limit after es) = Some (event_position (ys ! (i + n - 1)))"
      using True by (simp add: l)
    have "filter (\<lambda>e. event_position (ys ! (i + n - 1)) < event_position e) ys = drop (i + n) ys"
      using after_nth [OF strict in_range] pos by simp
    then have "event_pages k width limit (Some (event_position (ys ! (i + n - 1)))) es = map (fitted width) (drop (i + n) ys)"
      using Suc.IH [of "i + n" "Some (event_position (ys ! (i + n - 1)))"] Suc.prems pos True by simp
    then have "event_pages (Suc k) width limit after es
        = map (fitted width) (take n ?rest) @ map (fitted width) (drop (i + n) ys)"
      using nxt by (simp add: Let_def) (simp add: l)
    also have "\<dots> = map (fitted width) (take n ?rest @ drop n ?rest)"
      unfolding drop_drop map_append by (simp only: add.commute)
    finally show ?thesis unfolding append_take_drop_id .
  qed
qed simp

text \<open>
  C39: Reading the history of a task page by page, each time from the cursor the last page gave, shows
  every event exactly once and in the order of time, with long fields cut where an event alone exceeds
  the size of a page; a page holds at most the number of events asked for and always advances.
\<close>

theorem pages_cover_events:
  assumes "0 < limit" "distinct (map event_position es)" "length es \<le> k"
  shows "event_pages k width limit None es = map (fitted width) (sort_key event_position es)
    \<and> length (el_items (event_list_of width limit after es)) \<le> limit"
proof
  let ?ys = "sort_key event_position es"
  have "set (map event_position ?ys) = set (map event_position es)" by simp
  then have "distinct (map event_position ?ys)" using assms(2) by (metis card_distinct distinct_card length_map length_sort)
  then have strict: "sorted_wrt (\<lambda>a b. event_position a < event_position b) ?ys" by (simp add: strict_sorted_map)
  show "event_pages k width limit None es = map (fitted width) ?ys"
    using pages_drop [OF strict refl assms(1), of 0 k None] assms(3) by simp
  show "length (el_items (event_list_of width limit after es)) \<le> limit"
  proof -
    let ?rest = "filter (\<lambda>e. case after of None \<Rightarrow> True | Some p \<Rightarrow> p < event_position e) ?ys"
    obtain n where "event_page width limit True 0 ?rest = map (fitted width) (take n ?rest)" "n \<le> limit"
      using page_takes [of width limit True 0 ?rest] by (elim exE conjE)
    then show ?thesis by (simp add: event_list_of_def Let_def)
  qed
qed

definition event_v :: "int \<Rightarrow> task_event" where
  "event_v n = \<lparr>te_at = n, te_id = ''journal:'', te_source = FromTurn \<lparr>bt_id = ''t'', bt_conversation = ''c'',
     bt_console = ''w'', bt_owner = ''me'', bt_status = TuCompleted, bt_text = ''hi'', bt_mentions = [],
     bt_response = None, bt_error = None, bt_created = n, bt_updated = n\<rparr>\<rparr>"

theorem pages_cover_events_witness:
  "event_pages 3 (\<lambda>_. 100) 2 None [event_v 3, event_v 1, event_v 2] = [event_v 1, event_v 2, event_v 3]"
  using pages_cover_events [of 2 "[event_v 3, event_v 1, event_v 2]" 3 "\<lambda>_. 100"]
  by (simp add: event_position_def event_v_def fitted_def event_bytes_def)

end
