(* ===== verification/Laws_Turns.thy ===== *)
theory Laws_Turns
  imports Laws_Bridge Laws_Views
begin

text \<open>
  The bridge's queues: one conversation turn runs at a time and only under a standing pairing, the
  oldest first; and the mailbox is served in turn, so that no message waits for ever.
\<close>

section \<open>One turn at a time\<close>

definition keeps_lone :: "world \<Rightarrow> world \<Rightarrow> bool" where
  "keeps_lone w v \<longleftrightarrow> (lone_turn w \<longrightarrow> lone_turn v)"

lemma lone_fst: "lone_turn (b, t) \<longleftrightarrow> lone_turn (b, s)"
  unfolding lone_turn_def fst_conv by (rule refl)

interpretation ln: world_order keeps_lone
  unfolding keeps_lone_def using lone_fst by unfold_locales blast+

lemma lone_put:
  assumes "lone_turn (b, s)" "bt_status j \<noteq> TuRunning"
  shows "lone_turn (b\<lparr>turns := tput (bt_id j) j (turns b)\<rparr>, s)"
  using assms unfolding lone_turn_def by (simp split: if_split)

lemma ln_turn: "bt_status j \<noteq> TuRunning \<Longrightarrow> op_runs keeps_lone w (put_turn j)"
  by (cases w) (simp add: op_runs_def put_turn_def op_bridge_def keeps_lone_def lone_put)

lemma ln_bridge: "(\<And>b. turns (f b) = turns b) \<Longrightarrow> op_runs keeps_lone w (op_bridge f)"
  by (cases w) (auto simp: op_runs_def op_bridge_def keeps_lone_def lone_turn_def)

lemma same_bridge_lone: "same_bridge w v \<Longrightarrow> keeps_lone w v"
  by (simp add: same_bridge_def keeps_lone_def lone_turn_def)

lemmas ln_same = runs_mono [OF _ same_bridge_lone]

lemma ln_rows: "op_runs keeps_lone w (put_answer k c)" "op_runs keeps_lone w (put_pairing k p)"
  unfolding put_answer_def put_pairing_def by (rule ln_bridge, simp)+

lemmas ln_basic = ln.runs_ret ln.runs_raise ln.runs_lift_then ln.runs_let ln.runs_if ln.runs_option ln.runs_prod
  ln.runs_reads ln_rows ln_same [OF sb_reading(1)] ln_same [OF sb_reading(2)] ln_same [OF sb_reading(3)]
  ln_same [OF sb_record_turn] ln_same [OF sb_sync_turns] ln_same [OF sb_store] ln_same [OF sb_flush]
  ln_same [OF sb_deliver] ln.runs_transaction ln.runs_caught

lemma ln_invoke: "op_runs keeps_lone w (invoke E h r p)"
proof -
  have "bt_status (new_turn E p r c t ts) \<noteq> TuRunning" for c t ts by (simp add: new_turn_def)
  then show ?thesis
    unfolding invoke_def Let_def conversation_send_def conversation_get_def
    by (intro ln_basic ln.runs_then ln_turn)
qed

lemma ln_handle: "op_runs keeps_lone w (handle E h m)"
  unfolding handle_def answer_request_def Let_def by (intro ln_basic ln.runs_then ln_invoke)

lemma ln_process: "op_runs keeps_lone w (process_control E h send ack m)"
  unfolding process_control_def by (intro ln_handle ln_basic ln.runs_then)

lemma ln_admin: "op_runs keeps_lone w (pair_console E c o' ms e)" "op_runs keeps_lone w (revoke_console c)"
  subgoal unfolding pair_console_def Let_def by (intro ln_basic ln.runs_then)
  subgoal unfolding revoke_console_def by (intro ln_basic)
  done

lemma ln_finish: "op_runs keeps_lone w (finish_turn E tid x e i)"
proof -
  have "bt_status (finished_turn E i y z j) \<noteq> TuRunning" for y z j by (simp add: finished_turn_def)
  then show ?thesis unfolding finish_turn_def Let_def by (intro ln_basic ln.runs_then ln_turn)
qed

lemma ln_recover: "op_runs keeps_lone w (recover_interrupted_turns E)"
proof -
  have "bt_status (interrupted_turn E j) \<noteq> TuRunning" for j by (simp add: interrupted_turn_def)
  then show ?thesis
    unfolding recover_interrupted_turns_def by (intro ln_basic ln.runs_then ln.runs_each ln_turn)
qed

lemma ln_batch: "op_runs keeps_lone w (select_inbox_batch ms n)"
  unfolding select_inbox_batch_def Let_def by (intro ln_basic ln.runs_then ln_bridge; simp)

text \<open>A scan of the submitted turns, when none runs.\<close>

lemma may_run_pairings: "pairings b' = pairings b \<Longrightarrow> may_run E h b' j = may_run E h b j"
  by (simp add: may_run_def authorized_def)

lemma put_turn_run: "put_turn j (b, s) = (Inr (), (b\<lparr>turns := tput (bt_id j) j (turns b)\<rparr>, s))"
  by (simp add: put_turn_def op_bridge_def)

definition idle :: "bridge \<Rightarrow> bool" where
  "idle b \<longleftrightarrow> (\<forall>k j. tget k (turns b) = Some j \<longrightarrow> bt_status j \<noteq> TuRunning)"

lemma claim_scan_spec:
  assumes "distinct (map bt_id js)" "claim_scan E h js (b, s) = (x, (b', s'))"
  shows "pairings b' = pairings b \<and> (\<forall>k. k \<notin> bt_id ` set js \<longrightarrow> tget k (turns b') = tget k (turns b))
    \<and> (\<forall>ch. x = Inr (None, ch) \<longrightarrow> idle b \<longrightarrow> idle b')
    \<and> (\<forall>e. x = Inl e \<longrightarrow> idle b \<longrightarrow> idle b')
    \<and> (\<forall>k ch. x = Inr (Some k, ch) \<longrightarrow> (\<exists>pre i post. js = pre @ i # post \<and> bt_status i = TuSubmitted
        \<and> may_run E h b i = Inr () \<and> k = started_turn E i \<and> tget (bt_id i) (turns b') = Some k
        \<and> (\<forall>y \<in> set pre. bt_status y = TuSubmitted \<longrightarrow> tget (bt_id y) (turns b') = Some (lost_turn E h y))
        \<and> (idle b \<longrightarrow> (\<forall>l j. tget l (turns b') = Some j \<longrightarrow> bt_status j = TuRunning \<longrightarrow> l = bt_id i))))"
  using assms
proof (induction js arbitrary: b s x)
  case Nil
  then have "x = Inr (None, [])" "b' = b" by (auto simp: op_ret_def)
  then show ?case by simp
next
  case (Cons j js)
  have d: "distinct (map bt_id js)" "bt_id j \<notin> bt_id ` set js" using Cons.prems(1) by auto
  show ?case
  proof (cases "bt_status j = TuSubmitted")
    case False
    then have "claim_scan E h js (b, s) = (x, (b', s'))" using Cons.prems(2) by simp
    note IH = Cons.IH [OF d(1) this]
    show ?thesis
    proof (intro conjI allI impI, goal_cases)
      case (5 k ch)
      with IH obtain pre i post where "js = pre @ i # post" and rest: "bt_status i = TuSubmitted"
        "may_run E h b i = Inr ()" "k = started_turn E i" "tget (bt_id i) (turns b') = Some k"
        "\<forall>y \<in> set pre. bt_status y = TuSubmitted \<longrightarrow> tget (bt_id y) (turns b') = Some (lost_turn E h y)"
        "idle b \<longrightarrow> (\<forall>l j. tget l (turns b') = Some j \<longrightarrow> bt_status j = TuRunning \<longrightarrow> l = bt_id i)" by blast
      then have "j # js = (j # pre) @ i # post" by simp
      with rest False show ?case by (intro exI [of _ "j # pre"] exI [of _ i] exI [of _ post]) auto
    qed (use IH in auto)
  next
    case True
    show ?thesis
    proof (cases "may_run E h b j")
      case (Inr u)
      then have eq: "x = Inr (Some (started_turn E j), [started_turn E j])"
        "b' = b\<lparr>turns := tput (bt_id j) (started_turn E j) (turns b)\<rparr>"
        using Cons.prems(2) True by (auto simp: op_simps put_turn_run started_turn_def)
      show ?thesis
      proof (intro conjI allI impI, goal_cases)
        case (5 k ch)
        then have k: "k = started_turn E j" using eq(1) by simp
        show ?case unfolding eq k
          by (rule exI [of _ "[]"], rule exI [of _ j], rule exI [of _ js]) (use True Inr in \<open>auto simp: idle_def\<close>)
      qed (auto simp: eq)
    next
      case (Inl e)
      show ?thesis
      proof (cases "\<exists>code msg. e = RemoteError code msg")
        case False
        then have "x = Inl e" "b' = b"
          using Cons.prems(2) True Inl by (auto simp: op_simps split: exn.splits)
        then show ?thesis by simp
      next
        case lost: True
        define c where "c = b\<lparr>turns := tput (bt_id j) (lost_turn E h j) (turns b)\<rparr>"
        obtain y v where scan: "claim_scan E h js (c, s) = (y, v)" by (metis prod.exhaust)
        have x: "v = (b', s')" "x = (case y of Inl e \<Rightarrow> Inl e | Inr (a, ch) \<Rightarrow> Inr (a, lost_turn E h j # ch))"
          using Cons.prems(2) True Inl lost scan
          by (auto simp: op_simps put_turn_run c_def lost_turn_def split: sum.splits prod.splits)
        note IH = Cons.IH [OF d(1) scan [unfolded x(1)]]
        have idle: "idle b \<Longrightarrow> idle c" by (auto simp: idle_def c_def lost_turn_def)
        have pair: "pairings c = pairings b" by (simp add: c_def)
        have kept: "tget (bt_id j) (turns b') = Some (lost_turn E h j)" using IH d(2) by (simp add: c_def)
        show ?thesis
        proof (intro conjI allI impI, goal_cases)
          case (5 k ch)
          then obtain ch' where "y = Inr (Some k, ch')" using x(2) by (auto split: sum.splits prod.splits)
          with IH obtain pre i post where "js = pre @ i # post" and rest: "bt_status i = TuSubmitted"
            "may_run E h c i = Inr ()" "k = started_turn E i" "tget (bt_id i) (turns b') = Some k"
            "\<forall>y \<in> set pre. bt_status y = TuSubmitted \<longrightarrow> tget (bt_id y) (turns b') = Some (lost_turn E h y)"
            "idle c \<longrightarrow> (\<forall>l j. tget l (turns b') = Some j \<longrightarrow> bt_status j = TuRunning \<longrightarrow> l = bt_id i)" by blast
          then have "j # js = (j # pre) @ i # post" by simp
          with rest kept idle may_run_pairings [OF pair] show ?case
            by (intro exI [of _ "j # pre"] exI [of _ i] exI [of _ post]) auto
        next
          case (3 ch)
          then show ?case using IH idle x(2) by (auto split: sum.splits prod.splits)
        next
          case (4 e)
          then show ?case using IH idle x(2) by (auto split: sum.splits prod.splits)
        qed (use IH pair in \<open>auto simp: c_def\<close>)
      qed
    qed
  qed
qed

lemma sorted_turns:
  assumes "lone_turn (b, s)"
  shows "distinct (map bt_id (sort_key f (tall (turns b))))" "i \<in> set (sort_key f (tall (turns b))) \<longleftrightarrow> tget (bt_id i) (turns b) = Some i"
proof -
  have wf: "twf (turns b)" and id: "\<And>k j. tget k (turns b) = Some j \<Longrightarrow> bt_id j = k" using assms by (auto simp: lone_turn_def)
  have "map bt_id (tall (turns b)) = map fst (turns b)"
    using id wf by (force simp: tall_def tget_def dest: twf_distinct)
  then have "distinct (map bt_id (tall (turns b)))" using twf_distinct [OF wf] by simp
  then show "distinct (map bt_id (sort_key f (tall (turns b))))" by (simp add: distinct_map)
  show "i \<in> set (sort_key f (tall (turns b))) \<longleftrightarrow> tget (bt_id i) (turns b) = Some i"
    using tall_iff [OF wf] id by auto
qed

text \<open>The claim as a whole: what it returns, and that it keeps at most one turn running.\<close>

definition turns_ok :: "bridge \<Rightarrow> bool" where
  "turns_ok b \<longleftrightarrow> twf (turns b) \<and> (\<forall>k j. tget k (turns b) = Some j \<longrightarrow> bt_id j = k)"

definition keeps_turns :: "world \<Rightarrow> world \<Rightarrow> bool" where
  "keeps_turns w v \<longleftrightarrow> (turns_ok (fst w) \<longrightarrow> turns_ok (fst v))"

interpretation tk: world_order keeps_turns
  by unfold_locales (simp_all add: keeps_turns_def)

lemma tk_turn: "op_runs keeps_turns w (put_turn j)"
  by (cases w) (simp add: op_runs_def put_turn_def op_bridge_def keeps_turns_def turns_ok_def)

lemma tk_claim_scan: "op_runs keeps_turns w (claim_scan E h js)"
proof (induction js arbitrary: w)
  case (Cons j js)
  have "op_runs keeps_turns v (case may_run E h b j of
        Inl (RemoteError _ _) \<Rightarrow> op_then (put_turn (lost_turn E h j)) (\<lambda>_.
          op_then (claim_scan E h js) (\<lambda>(c, changed). op_ret (c, lost_turn E h j # changed)))
      | Inl e \<Rightarrow> op_raise e
      | Inr _ \<Rightarrow> op_then (put_turn (started_turn E j)) (\<lambda>_. op_ret (Some (started_turn E j), [started_turn E j])))" for v b
    using Cons.IH
    by (auto intro!: tk.runs_then tk_turn tk.runs_ret tk.runs_raise tk.runs_prod split: sum.split exn.split)
  then show ?case using Cons.IH by (auto intro!: tk.runs_reads tk.runs_prod)
qed (simp add: tk.runs_ret)

lemma lone_iff: "lone_turn (b, s) \<longleftrightarrow> turns_ok b \<and> (\<forall>k l i j. tget k (turns b) = Some i \<longrightarrow> tget l (turns b) = Some j \<longrightarrow>
     bt_status i = TuRunning \<longrightarrow> bt_status j = TuRunning \<longrightarrow> k = l)"
  unfolding lone_turn_def turns_ok_def fst_conv by blast

text \<open>The claim as a whole: what it returns, and that it keeps at most one turn running.\<close>

definition oldest_first :: "bridge \<Rightarrow> bridge_turn list" where
  "oldest_first b = sort_key (\<lambda>j. (bt_created j, bt_id j)) (tall (turns b))"

definition claimed_of :: "env \<Rightarrow> host \<Rightarrow> bridge \<Rightarrow> bridge \<Rightarrow> bridge_turn \<Rightarrow> bool" where
  "claimed_of E h b b' j \<longleftrightarrow> (\<exists>pre i post. oldest_first b = pre @ i # post \<and> bt_status i = TuSubmitted
      \<and> may_run E h b i = Inr () \<and> j = started_turn E i \<and> tget (bt_id i) (turns b') = Some j
      \<and> (\<forall>y \<in> set pre. bt_status y = TuSubmitted \<longrightarrow> tget (bt_id y) (turns b') = Some (lost_turn E h y)))"

lemma claim_run:
  assumes lone: "lone_turn (b, s)" and run: "claim_turn E h (b, s) = (x, (b', s'))"
  shows "lone_turn (b', s') \<and> (\<forall>j. x = Inr (Some j) \<longrightarrow> idle b \<and> claimed_of E h b b' j)"
proof -
  let ?m = "op_reads (\<lambda>(b, s). if list_ex (\<lambda>j. bt_status j = TuRunning) (tall (turns b)) then op_ret (None, [])
       else claim_scan E h (oldest_first b))"
  obtain y c t where scan: "bridge_transaction ?m (b, s) = (y, (c, t))" by (rule prod_cases3)
  have "op_then (bridge_transaction ?m) (\<lambda>(a, changed). op_then (op_each (record_turn E) changed) (\<lambda>_. op_ret a)) (b, s)
      = (x, (b', s'))"
    using run by (simp only: claim_turn_def oldest_first_def)
  then have run: "(case (y, (c, t)) of (Inl e, w) \<Rightarrow> (Inl e, w)
      | (Inr (a, ch), w) \<Rightarrow> op_then (op_each (record_turn E) ch) (\<lambda>_. op_ret a) w) = (x, (b', s'))"
    unfolding op_then_run [of "bridge_transaction ?m"] scan by (cases y) auto
  have rest: "b' = c \<and> (\<forall>j. x = Inr (Some j) \<longrightarrow> (\<exists>ch. y = Inr (Some j, ch)))"
  proof (cases y)
    case (Inl e)
    then show ?thesis using run by auto
  next
    case (Inr z)
    obtain a ch where z: "z = (a, ch)" by fastforce
    obtain u v where each: "op_each (record_turn E) ch (c, t) = (u, v)" by (metis prod.exhaust)
    have "same_bridge (c, t) v" using runsD [OF sb.runs_each [OF sb_record_turn] each] .
    then show ?thesis
      using run each unfolding Inr z by (cases v) (auto simp: op_simps same_bridge_def split: sum.splits)
  qed
  show ?thesis
  proof (cases "list_ex (\<lambda>j. bt_status j = TuRunning) (tall (turns b))")
    case True
    then have "y = Inr (None, [])" "c = b" using scan by (simp_all add: bridge_transaction_def op_simps)
    then show ?thesis using rest lone lone_fst by auto
  next
    case False
    then have idle: "idle b" by (auto simp: idle_def list_ex_iff dest: tget_tall)
    obtain w b1 s1 where cs: "claim_scan E h (oldest_first b) (b, s) = (w, (b1, s1))" by (rule prod_cases3)
    have y: "y = w" "c = (case w of Inl _ \<Rightarrow> b | Inr _ \<Rightarrow> b1)"
      using scan False cs by (auto simp: bridge_transaction_def op_simps split: sum.splits)
    have "distinct (map bt_id (oldest_first b))" unfolding oldest_first_def by (rule sorted_turns(1) [OF lone])
    note spec = claim_scan_spec [OF this cs]
    note scan_none = spec [THEN conjunct2, THEN conjunct2, THEN conjunct1, rule_format]
    note scan_some = spec [THEN conjunct2, THEN conjunct2, THEN conjunct2, THEN conjunct2, rule_format]
    have ok: "turns_ok b1"
      using runsD [OF tk_claim_scan cs] lone by (simp add: keeps_turns_def lone_iff)
    have "lone_turn (b', s')"
    proof (cases w)
      case (Inl e)
      then show ?thesis using y rest lone lone_fst by auto
    next
      case (Inr z)
      obtain a ch where z: "z = (a, ch)" by fastforce
      show ?thesis
      proof (cases a)
        case None
        then have "idle b1" using scan_none idle Inr z by simp
        then show ?thesis using ok rest y Inr by (auto simp: lone_iff idle_def)
      next
        case (Some k)
        then have "w = Inr (Some k, ch)" using Inr z by simp
        from scan_some [OF this] obtain i
          where "idle b \<longrightarrow> (\<forall>l j. tget l (turns b1) = Some j \<longrightarrow> bt_status j = TuRunning \<longrightarrow> l = bt_id (i :: bridge_turn))"
          by (elim exE conjE) (rule that)
        with idle have one: "\<And>l j. tget l (turns b1) = Some j \<Longrightarrow> bt_status j = TuRunning \<Longrightarrow> l = bt_id i"
          by blast
        have "b' = b1" using rest y Inr by simp
        then show ?thesis unfolding lone_iff using ok one by metis
      qed
    qed
    moreover have "claimed_of E h b b' j" if some: "x = Inr (Some j)" for j
    proof -
      obtain ch where w: "w = Inr (Some j, ch)" using some rest y by blast
      then have "b' = b1" using rest y by simp
      with scan_some [OF w] show ?thesis unfolding claimed_of_def by (elim exE conjE) (intro exI conjI; simp)
    qed
    ultimately show ?thesis using idle by blast
  qed
qed

lemma run_lone: "bridge_run H p w v \<Longrightarrow> lone_turn w \<Longrightarrow> lone_turn v"
proof (induction rule: bridge_run.induct)
  case (serve w v E h cmd send ack)
  have keep: "lone_turn (snd (m v))" if "op_runs keeps_lone v m" for m :: "'x op"
  proof -
    obtain y u where m: "m v = (y, u)" by (metis prod.exhaust)
    show ?thesis using runsD [OF that m] serve.IH [OF serve.prems] m by (simp only: keeps_lone_def snd_conv simp_thms)
  qed
  show ?case
  proof (cases cmd)
    case BClaim
    obtain b s where v: "v = (b, s)" by fastforce
    obtain x b' s' where run: "claim_turn E h (b, s) = (x, (b', s'))" by (metis prod.exhaust)
    have "lone_turn (b, s)" using serve.IH [OF serve.prems] v by simp
    with claim_run [OF _ run] have "lone_turn (b', s')" by blast
    then show ?thesis using BClaim run v by simp
  qed (simp_all add: keep ln_admin ln_handle ln_process ln_batch ln_finish ln_recover)
next
  case (store_step w b s t)
  then show ?case using lone_fst by blast
qed

section \<open>The turn that runs\<close>

text \<open>
  C23: In every run of the bridge at most one conversation turn is running; a turn is claimed only when
  none runs, only while its console's pairing stands for conversations with the owner who submitted it
  and the host admits content by review, and before every turn submitted earlier only if that has failed.
\<close>

theorem one_turn_running:
  assumes "bridge_run H p (empty_bridge, s0) (b, s)"
  shows "lone_turn (b, s) \<and> (\<forall>E h j b' s'. claim_turn E h (b, s) = (Inr (Some j), (b', s')) \<longrightarrow>
     lone_turn (b', s') \<and> idle b \<and> claimed_of E h b b' j
     \<and> (\<exists>q. authorized E h b (bt_console j) ''conversation.send'' = Inr q \<and> pg_owner q = bt_owner j)
     \<and> ho_conversations h \<and> ho_safety h)"
proof -
  have lone: "lone_turn (b, s)"
    by (rule run_lone [OF assms]) (simp add: lone_turn_def empty_bridge_def)
  have "claimed_of E h b b' j \<Longrightarrow> (\<exists>q. authorized E h b (bt_console j) ''conversation.send'' = Inr q \<and> pg_owner q = bt_owner j)
     \<and> ho_conversations h \<and> ho_safety h" for E h j b'
    by (auto simp: claimed_of_def may_run_def require_safety_def started_turn_def remote_refuse_def split: if_splits)
  with lone show ?thesis using claim_run [OF lone] by blast
qed

theorem one_turn_running_witness: "lone_turn (snd (handle env_b host_b message_b
    (snd (pair_console env_b console_b ''me'' [''conversation.get'', ''conversation.send''] ''1970-01-02T00:00:00Z''
      (empty_bridge, empty_store)))))"
proof -
  let ?w = "bridge_serve env_b host_b helper0 (\<lambda>_. Inr ()) (BPair console_b ''me'' [''conversation.get'', ''conversation.send'']
    ''1970-01-02T00:00:00Z'') (empty_bridge, empty_store)"
  let ?v = "bridge_serve env_b host_b helper0 (\<lambda>_. Inr ()) (BHandle message_b) ?w"
  have h: "sha env_b = hash0" "handlers_develop hash0 host_b"
    by (simp_all add: env_b_def env0_def handlers_develop_def host_b_def)
  have "bridge_run hash0 True (empty_bridge, empty_store) ?w" by (rule serve [OF stay h]) simp
  then have "bridge_run hash0 True (empty_bridge, empty_store) ?v" by (rule serve [OF _ h]) simp
  then have "bridge_run hash0 True (empty_bridge, empty_store) (fst ?v, snd ?v)" by (simp only: prod.collapse)
  from one_turn_running [OF this] show ?thesis by simp
qed

section \<open>The mailbox in turn\<close>

lemma turn_order_rotates:
  assumes "sorted (map ident_key xs)"
  shows "turn_order c xs = rotate (length (filter (\<lambda>m. ident_key m \<le> c) xs)) xs"
proof -
  let ?n = "length (filter (\<lambda>m. ident_key m \<le> c) xs)"
  have "turn_order c xs = drop ?n xs @ take ?n xs"
    using split_at [OF assms, of c] by (simp add: turn_order_def)
  also have "\<dots> = rotate ?n xs"
    by (cases "?n = length xs") (simp_all add: rotate_drop_take order_le_neq_trans)
  finally show ?thesis .
qed

text \<open>The order after a batch of \<open>n\<close> is the order before, rotated by \<open>n\<close>.\<close>

lemma order_after_batch:
  assumes sorted: "sorted_wrt (\<lambda>a b. ident_key a < ident_key b) xs" and n: "0 < n" "n \<le> length xs"
    and order: "turn_order c xs = rotate i xs"
  shows "turn_order (ident_key (last (take n (turn_order c xs)))) xs = rotate (i + n) xs"
proof -
  let ?p = "(i + n - 1) mod length xs"
  have len: "0 < length xs" using n by linarith
  have "take n (rotate i xs) \<noteq> []" using n by auto
  then have "last (take n (rotate i xs)) = rotate i xs ! (n - 1)"
    using n by (simp add: last_conv_nth)
  also have "\<dots> = xs ! ?p" using n by (simp add: nth_rotate)
  finally have last: "last (take n (turn_order c xs)) = xs ! ?p" by (simp add: order)
  have "sorted (map ident_key xs)" using sorted by (simp add: sorted_wrt_map sorted_wrt_mono_rel [of _ "\<lambda>a b. ident_key a < ident_key b"])
  then have "turn_order (ident_key (xs ! ?p)) xs = rotate (Suc ?p) xs"
    using turn_order_rotates upto_nth [OF sorted, of ?p] len by simp
  also have "\<dots> = rotate (Suc ?p mod length xs) xs" by (rule rotate_conv_mod)
  also have "Suc ?p mod length xs = (i + n) mod length xs" using n(1) by (simp add: mod_Suc_eq)
  also have "rotate ((i + n) mod length xs) xs = rotate (i + n) xs" by (rule rotate_conv_mod [symmetric])
  finally show ?thesis by (simp add: last)
qed

fun mailbox_rounds :: "nat \<Rightarrow> json list \<Rightarrow> int \<Rightarrow> world \<Rightarrow> json list" where
  "mailbox_rounds 0 ms n w = []"
| "mailbox_rounds (Suc k) ms n w = (case select_inbox_batch ms n w of
     (Inr batch, v) \<Rightarrow> batch @ mailbox_rounds k ms n v
   | (Inl _, _) \<Rightarrow> [])"

definition from_cursor :: "bridge \<Rightarrow> json list \<Rightarrow> json list" where
  "from_cursor b xs = turn_order (case mailbox_cursor b of Some x \<Rightarrow> x | None \<Rightarrow> []) xs"

lemma batch_run:
  assumes "1 \<le> n" "n \<le> 100" "ordered_messages ms \<noteq> []"
  shows "select_inbox_batch ms n (b, s) = (let batch = take (nat n) (from_cursor b (ordered_messages ms)) in
     (Inr batch, (b\<lparr>mailbox_cursor := Some (ident_key (last batch))\<rparr>, s)))"
  using assms
  by (simp add: select_inbox_batch_def Let_def op_simps bridge_transaction_def op_bridge_def next_batch_def from_cursor_def)

lemma rounds_run:
  assumes n: "1 \<le> n" "n \<le> 100" and xs: "xs = ordered_messages ms" "xs \<noteq> []"
    and sorted: "sorted_wrt (\<lambda>a b. ident_key a < ident_key b) xs" and start: "from_cursor b xs = rotate i xs"
  shows "mailbox_rounds k ms n (b, s)
    = concat (map (\<lambda>t. take (min (nat n) (length xs)) (rotate (i + t * min (nat n) (length xs)) xs)) [0..<k])"
  using start
proof (induction k arbitrary: b i)
  case (Suc k)
  let ?l = "min (nat n) (length xs)"
  let ?b = "b\<lparr>mailbox_cursor := Some (ident_key (last (take ?l (rotate i xs))))\<rparr>"
  have l: "0 < ?l" "?l \<le> length xs" using n xs(2) by auto
  have take: "take (nat n) (rotate i xs) = take ?l (rotate i xs)" by (cases "nat n \<le> length xs") auto
  have "from_cursor ?b xs = rotate (i + ?l) xs"
    using order_after_batch [OF sorted l, of "case mailbox_cursor b of Some x \<Rightarrow> x | None \<Rightarrow> []" i] Suc.prems
    by (simp add: from_cursor_def)
  note IH = Suc.IH [OF this]
  have "mailbox_rounds (Suc k) ms n (b, s) = take ?l (rotate i xs) @ mailbox_rounds k ms n (?b, s)"
    using batch_run [OF n xs(2) [unfolded xs(1)], of b s] Suc.prems take
    by (simp add: Let_def xs(1) [symmetric])
  also have "\<dots> = take ?l (rotate i xs)
      @ concat (map (\<lambda>t. take ?l (rotate (i + ?l + t * ?l) xs)) [0..<k])" unfolding IH ..
  also have "map (\<lambda>t. take ?l (rotate (i + ?l + t * ?l) xs)) [0..<k]
      = map (\<lambda>t. take ?l (rotate (i + t * ?l) xs)) (map Suc [0..<k])"
    by (simp add: algebra_simps)
  also have "take ?l (rotate i xs) @ concat \<dots> = concat (map (\<lambda>t. take ?l (rotate (i + t * ?l) xs)) (0 # map Suc [0..<k]))"
    by simp
  also have "0 # map Suc [0..<k] = [0..<Suc k]" by (simp add: map_Suc_upt upt_conv_Cons del: upt_Suc)
  finally show ?case .
qed simp

lemma rotation_reaches:
  assumes l: "0 < l" "l \<le> length xs" and enough: "length xs \<le> k * l" and m: "m \<in> set xs"
  shows "m \<in> set (concat (map (\<lambda>t. take l (rotate (i + t * l) xs)) [0..<k]))"
proof -
  obtain q where q: "q < length xs" "m = xs ! q" using m by (auto simp: in_set_conv_nth)
  let ?n = "length xs"
  let ?u = "(q + (?n - i mod ?n)) mod ?n"
  have n: "0 < ?n" using q by linarith
  have "?u < ?n" using n by simp
  then have "?u < k * l" using enough by (rule less_le_trans)
  then have t: "?u div l < k" by (rule less_mult_imp_div_less)
  have "(i + ?u) mod ?n = (i mod ?n + (q + (?n - i mod ?n))) mod ?n" by (simp add: mod_simps)
  also have "i mod ?n + (q + (?n - i mod ?n)) = q + ?n"
    using mod_less_divisor [OF n, of i] by linarith
  finally have u: "(i + ?u) mod ?n = q" using q by simp
  have r: "?u mod l < l" using l by simp
  have "take l (rotate (i + ?u div l * l) xs) ! (?u mod l) = xs ! ((i + ?u div l * l + ?u mod l) mod ?n)"
    using r less_le_trans [OF r l(2)] by (simp only: nth_take nth_rotate)
  also have "i + ?u div l * l + ?u mod l = i + ?u" by (simp add: add.assoc)
  finally have at: "take l (rotate (i + ?u div l * l) xs) ! (?u mod l) = m" unfolding u q(2) .
  have "?u mod l < length (take l (rotate (i + ?u div l * l) xs))" using r l by simp
  from nth_mem [OF this] have "m \<in> set (take l (rotate (i + ?u div l * l) xs))" unfolding at .
  moreover have "?u div l \<in> set [0..<k]" using t by simp
  ultimately show ?thesis unfolding set_concat set_map by blast
qed

text \<open>
  C30: No message of the mailbox waits for ever: whatever the cursor is and however many unusable messages
  come first, once as many batches have been taken as the mailbox needs at the batch size, every message
  has been in one of them.
\<close>

theorem mailbox_fair:
  assumes "1 \<le> n" "n \<le> 100" "distinct (map ident_key (ordered_messages ms))"
    and "length (ordered_messages ms) \<le> k * nat n" "m \<in> set (ordered_messages ms)"
  shows "m \<in> set (mailbox_rounds k ms n w)"
proof -
  obtain b s where w: "w = (b, s)" by fastforce
  let ?xs = "ordered_messages ms"
  let ?l = "min (nat n) (length ?xs)"
  have ne: "?xs \<noteq> []" using assms(5) by auto
  have sorted: "sorted (map ident_key ?xs)" by (simp add: ordered_messages_def)
  then have strict: "sorted_wrt (\<lambda>a b. ident_key a < ident_key b) ?xs"
    using assms(3) by (simp add: strict_sorted_iff sorted_wrt_map [symmetric])
  have "from_cursor b ?xs = rotate (length (filter (\<lambda>m. ident_key m \<le> (case mailbox_cursor b of Some x \<Rightarrow> x | None \<Rightarrow> [])) ?xs)) ?xs"
    unfolding from_cursor_def by (rule turn_order_rotates [OF sorted])
  note run = rounds_run [OF assms(1,2) refl ne strict this, of k s]
  have l: "0 < ?l" "?l \<le> length ?xs" using assms(1) ne by auto
  have "length ?xs \<le> k * ?l"
  proof (cases "nat n \<le> length ?xs")
    case True
    then show ?thesis using assms(4) by simp
  next
    case False
    moreover have "1 \<le> k" using assms(4) ne by (cases k) auto
    ultimately show ?thesis by simp
  qed
  from rotation_reaches [OF l this assms(5)] show ?thesis unfolding w run by blast
qed

definition mail_b :: "string \<Rightarrow> json" where
  "mail_b x = JObj [(''message_id'', JStr x)]"

theorem mailbox_fair_witness: "mail_b ''a'' \<in> set (mailbox_rounds 2 [mail_b ''c'', mail_b ''a'', JNull, mail_b ''b''] 2 world_b)"
proof -
  have o: "ordered_messages [mail_b ''c'', mail_b ''a'', JNull, mail_b ''b''] = [mail_b ''a'', mail_b ''b'', mail_b ''c'']"
    by code_simp
  have k: "ident_key (mail_b x) = x" for x by (simp add: ident_key_def message_ident_def mail_b_def jget_def)
  show ?thesis by (rule mailbox_fair) (simp_all add: o k)
qed

end
