(* ===== verification/Laws_Resume.thy ===== *)
theory Laws_Resume
  imports Scenario_Base
begin









end
