(* ===== verification/Spec2Isabelle.thy ===== *)
theory Spec2Isabelle
  imports Receipts Laws_Consent Laws_Replay Laws_Policy Laws_Mail Laws_Blocking Laws_Ledger Laws_Reading Laws_Worker
    Laws_Turns Laws_Resume
begin

text \<open>
  A verification development for the Python runtime of Agent Comm
  (\<^verbatim>\<open>src/python/agent_comm_runtime\<close>). An owner lets an agent act towards other agents within written
  mandates; the runtime is the authority of that agent. It decides what may leave, what needs the
  owner's answer, what of the peers' mail may be seen, and keeps the records of it in one SQLite
  database. Hosts (a chat front end, a paired web console, a background worker) call it, and a local
  helper process carries messages.

  \<^bold>\<open>How the model follows the code.\<close> A \<^verbatim>\<open>str\<close> is the list of its UTF-8 bytes (\<open>Py_Strings\<close>), an \<^verbatim>\<open>int\<close>
  an \<open>int\<close>, a decoded JSON value a \<open>json\<close> (\<open>Json\<close>), an instant its microseconds (\<open>Rfc3339\<close>). The rows
  \<^verbatim>\<open>(kind, id, body)\<close> are typed tables in the record \<open>store\<close> (\<open>Records\<close>), ordered by their identifier
  as \<^verbatim>\<open>ORDER BY id\<close> returns them. A handler that runs in one \<^verbatim>\<open>BEGIN IMMEDIATE\<close> transaction is an
  action \<open>'a step\<close>, from the store to an exception or to a result and a new store: an exception
  commits nothing. An operation of several transactions (\<open>dispatch\<close>, the worker's tick) is a function on
  the store. The clock, the local identity, \<^verbatim>\<open>sha256\<close>, fresh tokens and the bound turn are the
  fields of an \<open>env\<close> that every handler takes; the helper is a function from a request to a reply or an
  error. They are parameters, and theorems hold for all of them. A theorem that needs the hash to be
  injective on the data at hand, or the helper to acknowledge, says so in a hypothesis.

  \<^bold>\<open>The parts.\<close>
  \<^item> \<open>Prelude\<close>: exceptions, actions, the locale of preorders on states, key-ordered tables.
  \<^item> \<open>Identity\<close>, \<open>Policy\<close>, \<open>Texts\<close>, \<open>Rfc3339\<close>: \<^verbatim>\<open>identity.py\<close> and \<^verbatim>\<open>policy.py\<close>. A mandate (\<open>scope\<close>) and an
    action are validated, judged (\<open>evaluate\<close>), rendered and compiled to the text that is sent.
  \<^item> \<open>Records\<close>, \<open>Encodings\<close>, \<open>Writes\<close>: the data of \<^verbatim>\<open>store.py\<close>, the JSON forms of which digests are taken, and
    \<^verbatim>\<open>_put\<close> with the hooks it runs (task history, attention, expiry).
  \<^item> \<open>Authority\<close>: \<^verbatim>\<open>_belongs\<close>, blocked peers, connection states, what of a peer's content is visible and
    what is still current (\<^verbatim>\<open>store.py\<close>, \<^verbatim>\<open>social.py\<close>, \<^verbatim>\<open>peer_review.py\<close>).
  \<^item> \<open>Attention\<close>: the owner's feed (\<^verbatim>\<open>attention.py\<close>), written by the hooks of all other parts.
  \<^item> \<open>Social\<close>: friend requests, direct messages, the outbox and blocking (\<^verbatim>\<open>social.py\<close>).
  \<^item> \<open>Mandates\<close>: tasks, prepared operations, the reservation that charges a mandate, delivery, revocation
    (\<^verbatim>\<open>store.py\<close>).
  \<^item> \<open>Confirmations\<close>: the native confirmation with its lease and token, answers of a paired console, and
    what an approval takes effect on (\<^verbatim>\<open>store.py\<close>).
  \<^item> \<open>Inbox_Ops\<close>: ingestion of mail, review of peer content, the pages of the feed, proposals, and the
    entry points that a repeated request runs only once (\<^verbatim>\<open>store.py\<close>, \<^verbatim>\<open>peer_review.py\<close>, \<^verbatim>\<open>attention.py\<close>).
  \<^item> \<open>V2_Events\<close>, \<open>V2_Reducer\<close>, \<open>V2_Operations\<close>: the bilateral protocol (\<^verbatim>\<open>collaboration_v2.py\<close>): validation of
    events, the reducer with its ordered buffer, and preparation and dispatch of local events.
  \<^item> \<open>Worker\<close>: the finite background worker (\<^verbatim>\<open>worker.py\<close>).
  \<^item> \<open>Views\<close>: the overall state (\<^verbatim>\<open>Store.state\<close>) and the list, detail and event pages of
    \<^verbatim>\<open>task_history.py\<close>; \<open>Iso8601\<close>: \<^verbatim>\<open>datetime.fromisoformat\<close>, by which stored deadlines are read.
  \<^item> \<open>Resume\<close>: detail of a feed item and the one submission of its handling request to a native session
    (\<^verbatim>\<open>attention_resume.py\<close>).
  \<^item> \<open>System\<close>: the public operations as commands, \<open>develops\<close> (any sequence of commands) and \<open>reachable\<close>.
  \<^item> \<open>Bridge\<close>, \<open>Bridge_Ops\<close>, \<open>Bridge_System\<close>: the paired control channel (\<^verbatim>\<open>remote.py\<close>). It keeps a second
    database, so an operation is a function on the pair \<open>world\<close> of both: an exception rolls back the bridge's
    rows, while what the store has committed stays. \<open>bridge_run\<close> is any sequence of its operations and of
    developments of the store. What the host brings (extension handlers, the rendering of views as JSON, the
    position an event cursor stands for) is the record \<open>host\<close>; \<open>handlers_develop\<close> is the one thing asked of it.

  They call each other as the mixins of \<^verbatim>\<open>Store\<close> do: the handlers of \<open>Mandates\<close>, \<open>Inbox_Ops\<close>,
  \<open>V2_Operations\<close> and \<open>Worker\<close> ask \<open>Authority\<close> before they act, charge and judge through \<open>Policy\<close>, write
  through \<open>Writes\<close>, which updates the feed, and hand decisions to \<open>Confirmations\<close>, which applies them to the
  mandate, contact, operation, worker policy or collaboration that asked.

  \<^bold>\<open>What is shown.\<close>
  \<^item> \<open>Frames\<close>, \<open>Hooks\<close>, \<open>Evolution\<close> and its parts, \<open>Receipts\<close>: every operation keeps the invariant \<open>sound\<close> and
    follows the order \<open>grows\<close> on stores (rows only advance, journals only grow). \<open>System_Laws\<close> carries this
    over to every reachable store. The preorders are interpretations of \<open>state_preorder\<close>.
  \<^item> \<open>Laws_Dispatch\<close>, \<open>Laws_Delivery\<close>, \<open>Laws_Ledger\<close>: nothing leaves without a mandate in force or the owner's
    approval, each use is charged before it is sent, the budget bounds what is sent, a dispatch with a
    working helper completes, and dispatch and revocation refine an abstract ledger of mandates.
  \<^item> \<open>Laws_Consent\<close>: approvals need the token, conversation, lease and word; tokens serve once.
  \<^item> \<open>Laws_Mail\<close>, \<open>Laws_Blocking\<close>: quarantine of strangers, review by preview, idempotent ingestion, blocking.
  \<^item> \<open>Laws_Replay\<close>: a repeated console request is answered from its receipt.
  \<^item> \<open>Laws_Protocol\<close>, \<open>Laws_Stream\<close>: who may say what, what an agreement rests on, the order of events.
  \<^item> \<open>Laws_Worker\<close>: the worker stays within its policy and the mandate.
  \<^item> \<open>Bridge_Laws\<close>, \<open>Laws_Bridge\<close>: the control channel acts through the store's operations only, tells nothing
    without a pairing in force, answers a request once, and stops at a revocation; the preorders on both
    databases are interpretations of \<open>world_order\<close>.
  \<^item> \<open>Laws_Turns\<close>: one conversation turn at a time, the oldest first; no message of the mailbox starves.
  \<^item> \<open>Laws_Resume\<close>, \<open>Laws_Views\<close>: a handling request is submitted once; event pages miss and repeat nothing.
  \<^item> \<open>Laws_Policy\<close>, \<open>Laws_Wire\<close>, \<open>Json_Laws\<close>, \<open>Laws_Reading\<close>: the verdict and its bounds, normal forms, texts that
    read back as what was written, and readers that terminate.
  \<^item> \<open>Scenario_Base\<close>, \<open>Scenario_Task\<close>, \<open>Scenario_Mail\<close>, \<open>Scenario_Protocol\<close>, \<open>Scenario_Bridge\<close>: concrete stores, built by the
    operations themselves, on which the theorems are instantiated.

  \<^bold>\<open>Bounds and fuel.\<close> The JSON reader takes fuel \<open>2 * length s + 2\<close>, and \<open>reading_terminates\<close> shows that
  this is never exhausted. The drain of a peer's stream takes at most 256 events in one turn, which is
  the code's \<^verbatim>\<open>MAX_EVENTS\<close> and not a bound of the model, as are the pages of 100 rows, batches of recipients,
  and limits on text. All other recursion is structural.

  \<^bold>\<open>Not modelled.\<close>
  \<^item> Threads, sockets and processes (\<^verbatim>\<open>daemon.py\<close>, \<^verbatim>\<open>transport.py\<close>, \<^verbatim>\<open>ports.py\<close>, \<^verbatim>\<open>reference.py\<close>): concurrent
    callers appear as sequences of transactions, which SQLite makes of them.
  \<^item> The SQLite schema, the \<^verbatim>\<open>WAL\<close> and \<^verbatim>\<open>synchronous\<close> pragmas; a committed transaction is durable.
  \<^item> The interpreter's recursion limit in \<^verbatim>\<open>json.loads\<close>; the floats of \<^verbatim>\<open>time.time()\<close> are whole microseconds.
  \<^item> The JSON text of the views and the base64 text of the event cursor: the bridge takes both from the host
    record. The fixed display texts of a feed item's detail (labels and warnings) are not written out.
  \<^item> Presence observations (\<^verbatim>\<open>social.py\<close>) and the contact export (\<^verbatim>\<open>contact_export.py\<close>).
  \<^item> The Hermes connector and the release tools, which are host and archive glue, and the Go code, which
    is another implementation of transport and cryptography.
\<close>

text \<open>
  C33: The policy function allows an action exactly when the mandate validates, the count of uses and
  the deadline leave room, and the action validates, is a member of the abstract mandate and is not
  free text.
\<close>
theorem allow_is_membership:
  "v_decision (evaluate sc act used t) = Allow \<longleftrightarrow>
     (\<exists>s a. validate_scope sc = Inr s \<and> 0 \<le> used \<and> used < sc_max_actions s \<and> t < sc_expires_at s
       \<and> validate_action act = Inr a \<and> within_scope s a \<and> a_capability a \<noteq> SendText)"
  by (auto simp: evaluate_def mk_verdict_def evaluate_scope_allow split: sum.splits)

end
